(* ===== verification/Prelude.thy ===== *)
theory Prelude
  imports Main "HOL-Library.Word"
begin

unbundle bit_operations_syntax

text \<open>
  Shared foundations of the development.

  \<^item> Rust's \<^verbatim>\<open>Result\<close> with the \<^verbatim>\<open>?\<close> operator (\<open>and_then\<close>), \<^verbatim>\<open>ok_or\<close>, \<^verbatim>\<open>map_err\<close> and
    FRAME's \<^verbatim>\<open>ensure!\<close>. A third outcome \<open>Panic\<close> stands for a Rust panic.
    A dispatchable that ends in \<open>Err\<close> or \<open>Panic\<close> carries no state: FRAME runs every
    extrinsic in a storage layer and drops the writes of a failed one.
  \<^item> Rust's integer operations on \<open>'a word\<close>: saturating, checked, and the plain operators,
    which wrap in the release profile and panic in profiles with overflow checks.
  \<^item> \<open>BoundedVec\<close> operations on lists.
  \<^item> A transition-system locale used for every reachability argument.
\<close>

section \<open>Types\<close>

type_synonym u8 = "8 word"
type_synonym u16 = "16 word"
type_synonym u32 = "32 word"
type_synonym u64 = "64 word"
type_synonym bytes = "u8 list"

section \<open>Results\<close>

datatype ('a, 'e) result = Ok 'a | Err 'e | Panic

fun and_then :: "('a, 'e) result \<Rightarrow> ('a \<Rightarrow> ('b, 'e) result) \<Rightarrow> ('b, 'e) result" where
  "and_then (Ok x) f = f x"
| "and_then (Err e) f = Err e"
| "and_then Panic f = Panic"

fun map_err :: "('e \<Rightarrow> 'f) \<Rightarrow> ('a, 'e) result \<Rightarrow> ('a, 'f) result" where
  "map_err g (Ok x) = Ok x"
| "map_err g (Err e) = Err (g e)"
| "map_err g Panic = Panic"

definition ok_or :: "'a option \<Rightarrow> 'e \<Rightarrow> ('a, 'e) result" where
  "ok_or m e = (case m of Some x \<Rightarrow> Ok x | None \<Rightarrow> Err e)"

definition ensure :: "bool \<Rightarrow> 'e \<Rightarrow> (unit, 'e) result" where
  "ensure b e = (if b then Ok () else Err e)"

named_theorems result_simps \<open>inversion of monadic programs that end in Ok\<close>

lemma and_then_Ok_iff [result_simps, simp]:
  "and_then r f = Ok y \<longleftrightarrow> (\<exists>x. r = Ok x \<and> f x = Ok y)"
  by (cases r) auto

lemma Ok_and_then_iff [result_simps, simp]:
  "Ok y = and_then r f \<longleftrightarrow> (\<exists>x. r = Ok x \<and> f x = Ok y)"
  by (cases r) auto

lemma map_err_Ok_iff [result_simps, simp]: "map_err g r = Ok y \<longleftrightarrow> r = Ok y"
  by (cases r) auto

lemma ok_or_Ok_iff [result_simps, simp]: "ok_or m e = Ok x \<longleftrightarrow> m = Some x"
  by (cases m) (auto simp: ok_or_def)

lemma ensure_Ok_iff [result_simps, simp]: "ensure b e = Ok u \<longleftrightarrow> b"
  by (auto simp: ensure_def)

lemma ensure_simps [simp]: "ensure True e = Ok ()" "ensure False e = Err e"
  by (simp_all add: ensure_def)

lemma ok_or_simps [simp]: "ok_or (Some x) e = Ok x" "ok_or None e = Err e"
  by (simp_all add: ok_or_def)

lemma and_then_Err_iff:
  "and_then r f = Err e \<longleftrightarrow> r = Err e \<or> (\<exists>x. r = Ok x \<and> f x = Err e)"
  by (cases r) auto

lemma map_err_Err_iff: "map_err g r = Err e \<longleftrightarrow> (\<exists>e'. r = Err e' \<and> e = g e')"
  by (cases r) auto

lemma and_then_Panic_iff:
  "and_then r f = Panic \<longleftrightarrow> r = Panic \<or> (\<exists>x. r = Ok x \<and> f x = Panic)"
  by (cases r) auto

lemma map_err_Panic_iff [simp]: "map_err g r = Panic \<longleftrightarrow> r = Panic"
  by (cases r) auto

lemma ensure_not_Panic [simp]: "ensure b e \<noteq> Panic" "ok_or m e \<noteq> Panic"
  by (auto simp: ensure_def ok_or_def split: option.splits)

text \<open>Evaluation of a program on concrete data: the continuation waits for the result of the first step.\<close>

lemma and_then_weak_cong: "r = r' \<Longrightarrow> and_then r f = and_then r' f"
  by simp

section \<open>Integer operations\<close>

definition saturating_add :: "'a::len word \<Rightarrow> 'a word \<Rightarrow> 'a word" where
  "saturating_add a b = (if unat a + unat b < 2 ^ LENGTH('a) then a + b else - 1)"

definition saturating_sub :: "'a::len word \<Rightarrow> 'a word \<Rightarrow> 'a word" where
  "saturating_sub a b = (if a < b then 0 else a - b)"

definition checked_add :: "'a::len word \<Rightarrow> 'a word \<Rightarrow> 'a word option" where
  "checked_add a b = (if unat a + unat b < 2 ^ LENGTH('a) then Some (a + b) else None)"

text \<open>
  The plain operators \<^verbatim>\<open>+\<close>, \<^verbatim>\<open>-\<close> and \<^verbatim>\<open>*\<close>. The first argument says whether the build profile has
  overflow checks (\<^verbatim>\<open>testnet\<close> and \<^verbatim>\<open>dev\<close> do, \<^verbatim>\<open>release\<close> and \<^verbatim>\<open>production\<close> do not).
\<close>

definition plain_add :: "bool \<Rightarrow> 'a::len word \<Rightarrow> 'a word \<Rightarrow> ('a word, 'e) result" where
  "plain_add checks a b =
     (if checks \<and> \<not> unat a + unat b < 2 ^ LENGTH('a) then Panic else Ok (a + b))"

definition plain_sub :: "bool \<Rightarrow> 'a::len word \<Rightarrow> 'a word \<Rightarrow> ('a word, 'e) result" where
  "plain_sub checks a b = (if checks \<and> a < b then Panic else Ok (a - b))"

definition plain_mul :: "bool \<Rightarrow> 'a::len word \<Rightarrow> 'a word \<Rightarrow> ('a word, 'e) result" where
  "plain_mul checks a b =
     (if checks \<and> \<not> unat a * unat b < 2 ^ LENGTH('a) then Panic else Ok (a * b))"

lemma plain_add_Ok_iff [result_simps]:
  "plain_add ch a b = Ok c \<longleftrightarrow> c = a + b \<and> (ch \<longrightarrow> unat a + unat b < 2 ^ LENGTH('a))"
  for a b :: "'a::len word"
  by (auto simp: plain_add_def)

lemma plain_sub_Ok_iff [result_simps]:
  "plain_sub ch a b = Ok c \<longleftrightarrow> c = a - b \<and> (ch \<longrightarrow> b \<le> a)"
  by (auto simp: plain_sub_def not_less)

lemma plain_mul_Ok_iff [result_simps]:
  "plain_mul ch a b = Ok c \<longleftrightarrow> c = a * b \<and> (ch \<longrightarrow> unat a * unat b < 2 ^ LENGTH('a))"
  for a b :: "'a::len word"
  by (auto simp: plain_mul_def)

lemma plain_OkD:
  "plain_add ch a b = Ok c \<Longrightarrow> c = a + b" "plain_sub ch a b = Ok c \<Longrightarrow> c = a - b"
  "plain_mul ch a b = Ok c \<Longrightarrow> c = a * b"
  by (simp_all add: plain_add_Ok_iff plain_sub_Ok_iff plain_mul_Ok_iff)

lemma plain_not_Err [simp]:
  "plain_add ch a b \<noteq> Err e" "plain_sub ch a b \<noteq> Err e" "plain_mul ch a b \<noteq> Err e"
  by (simp_all add: plain_add_def plain_sub_def plain_mul_def)

lemma unat_add_no_overflow:
  "unat a + unat b < 2 ^ LENGTH('a) \<Longrightarrow> unat (a + b) = unat a + unat b" for a b :: "'a::len word"
  by (simp add: unat_word_ariths)

lemma unat_saturating_add:
  "unat (saturating_add a b) = min (unat a + unat b) (2 ^ LENGTH('a) - 1)" for a b :: "'a::len word"
proof (cases "unat a + unat b < 2 ^ LENGTH('a)")
  case True
  then show ?thesis by (simp add: saturating_add_def unat_add_no_overflow)
next
  case False
  moreover have "unat (- 1 :: 'a word) = 2 ^ LENGTH('a) - 1"
    by (simp add: unsigned_minus_1_eq_mask mask_eq_exp_minus_1)
  ultimately show ?thesis by (simp add: saturating_add_def)
qed

lemma unat_saturating_sub: "unat (saturating_sub a b) = unat a - unat b" for a b :: "'a::len word"
  by (auto simp: saturating_sub_def word_less_nat_alt not_less unat_sub word_le_nat_alt)

lemma saturating_sub_0 [simp]: "saturating_sub a 0 = a"
  by (simp add: saturating_sub_def)

lemma unat_bound: "unat a < 2 ^ LENGTH('a)" for a :: "'a::len word"
  by (rule unsigned_less)

lemma saturating_add_le: "a \<le> saturating_add a b" for a b :: "'a::len word"
proof -
  have "unat a \<le> 2 ^ LENGTH('a) - 1"
    using unat_bound [of a] by linarith
  then show ?thesis by (simp add: word_le_nat_alt unat_saturating_add)
qed

lemma saturating_sub_add_cancel:
  "unat a + unat b < 2 ^ LENGTH('a) \<Longrightarrow> saturating_sub (saturating_add a b) b = a"
  for a b :: "'a::len word"
  by (simp add: word_unat_eq_iff unat_saturating_sub unat_saturating_add)

section \<open>Bounded vectors\<close>

text \<open>\<open>BoundedVec::try_push\<close> fails when the vector holds its maximum.\<close>

definition try_push :: "nat \<Rightarrow> 'a list \<Rightarrow> 'a \<Rightarrow> 'a list option" where
  "try_push bound xs x = (if length xs < bound then Some (xs @ [x]) else None)"

lemma try_push_Some_iff [simp]:
  "try_push bound xs x = Some ys \<longleftrightarrow> length xs < bound \<and> ys = xs @ [x]"
  by (auto simp: try_push_def)

lemma try_push_None_iff [simp]: "try_push bound xs x = None \<longleftrightarrow> bound \<le> length xs"
  by (auto simp: try_push_def)

text \<open>\<open>Vec::remove\<close> panics when the index is out of range.\<close>

definition vec_remove :: "nat \<Rightarrow> 'a list \<Rightarrow> ('a list, 'e) result" where
  "vec_remove i xs = (if i < length xs then Ok (take i xs @ drop (Suc i) xs) else Panic)"

lemma vec_remove_Ok_iff [result_simps]:
  "vec_remove i xs = Ok ys \<longleftrightarrow> i < length xs \<and> ys = take i xs @ drop (Suc i) xs"
  by (auto simp: vec_remove_def)

text \<open>\<open>Vec::swap_remove\<close> puts the last element in the place of the removed one.\<close>

definition swap_remove :: "nat \<Rightarrow> 'a list \<Rightarrow> ('a list, 'e) result" where
  "swap_remove i xs = (if i < length xs then Ok (butlast (xs[i := last xs])) else Panic)"

lemma swap_remove_Ok_iff [result_simps]:
  "swap_remove i xs = Ok ys \<longleftrightarrow> i < length xs \<and> ys = butlast (xs[i := last xs])"
  by (auto simp: swap_remove_def)

text \<open>\<open>iter().position(|d| d == x)\<close>.\<close>

fun position :: "'a \<Rightarrow> 'a list \<Rightarrow> nat option" where
  "position x [] = None"
| "position x (y # ys) = (if x = y then Some 0 else map_option Suc (position x ys))"

lemma position_None_iff: "position x xs = None \<longleftrightarrow> x \<notin> set xs"
  by (induction xs) auto

lemma position_Some: "position x xs = Some i \<Longrightarrow> i < length xs \<and> xs ! i = x"
  by (induction xs arbitrary: i) (auto split: if_splits)

lemma position_remove1:
  "position x xs = Some i \<Longrightarrow> take i xs @ drop (Suc i) xs = remove1 x xs"
  by (induction xs arbitrary: i) (auto split: if_splits)

lemma swap_removed:
  assumes "distinct xs" "i < length xs"
  shows "distinct (butlast (xs[i := last xs]))" "set (butlast (xs[i := last xs])) = set xs - {xs ! i}"
proof -
  obtain ys y where xs: "xs = ys @ [y]" using assms(2) by (cases xs rule: rev_cases) auto
  show "distinct (butlast (xs[i := last xs]))"
    using assms by (auto simp: xs list_update_append distinct_list_update split: nat.split)
  have "i < length ys \<or> i = length ys" using assms(2) xs by auto
  then show "set (butlast (xs[i := last xs])) = set xs - {xs ! i}"
  proof
    assume i: "i < length ys"
    have "set (ys[i := y]) = insert y (set ys - {ys ! i})"
      using assms(1) xs i by (intro set_update_distinct) auto
    moreover have "ys ! i \<noteq> y" using assms(1) xs i by auto
    ultimately show ?thesis using i by (auto simp: xs list_update_append nth_append)
  next
    assume "i = length ys"
    then show ?thesis using assms(1) by (auto simp: xs)
  qed
qed

section \<open>Maps\<close>

lemma fun_upd_same_eq_iff [simp]: "f(a := x) = f(a := y) \<longleftrightarrow> x = y"
  by (metis fun_upd_same)

section \<open>Transition systems\<close>

text \<open>
  The states a component can reach: from an initial state by finitely many steps. The locale
  lifts an inductive invariant to all of them; every component with a state machine interprets it.
\<close>

inductive reachable :: "('s \<Rightarrow> bool) \<Rightarrow> ('s \<Rightarrow> 's \<Rightarrow> bool) \<Rightarrow> 's \<Rightarrow> bool" for init step where
  reach_init: "init s \<Longrightarrow> reachable init step s"
| reach_step: "reachable init step s \<Longrightarrow> step s t \<Longrightarrow> reachable init step t"

text \<open>A list of calls in a row, stopping at the first that fails.\<close>

fun run_all :: "('c \<Rightarrow> 's \<Rightarrow> ('s, 'e) result) \<Rightarrow> 'c list \<Rightarrow> 's \<Rightarrow> ('s, 'e) result" where
  "run_all call [] s = Ok s"
| "run_all call (c # cs) s = and_then (call c s) (run_all call cs)"

lemma reachable_run_all:
  assumes "\<And>c s t. call c s = Ok t \<Longrightarrow> step s t" "reachable init step s" "run_all call cs s = Ok t"
  shows "reachable init step t"
  using assms(2,3) by (induction cs arbitrary: s) (auto dest: assms(1) reach_step)

fun is_Ok :: "('a, 'e) result \<Rightarrow> bool" where
  "is_Ok (Ok x) = True"
| "is_Ok (Err e) = False"
| "is_Ok Panic = False"

fun unwrap_or :: "'a \<Rightarrow> ('a, 'e) result \<Rightarrow> 'a" where
  "unwrap_or d (Ok x) = x"
| "unwrap_or d (Err e) = d"
| "unwrap_or d Panic = d"

lemma is_Ok_unwrap: "is_Ok r \<Longrightarrow> r = Ok (unwrap_or d r)"
  by (cases r) simp_all

locale invariant_system =
  fixes init :: "'s \<Rightarrow> bool"
    and step :: "'s \<Rightarrow> 's \<Rightarrow> bool"
    and inv :: "'s \<Rightarrow> bool"
  assumes inv_init: "init s \<Longrightarrow> inv s"
    and inv_step: "inv s \<Longrightarrow> step s t \<Longrightarrow> inv t"
begin

lemma inv_reachable: "reachable init step s \<Longrightarrow> inv s"
  by (induction rule: reachable.induct) (auto intro: inv_init inv_step)

lemma inv_steps: "inv s \<Longrightarrow> step\<^sup>*\<^sup>* s t \<Longrightarrow> inv t"
  by (rotate_tac, induction rule: rtranclp_induct) (auto intro: inv_step)

end

end
