(* ===== verification/Frame.thy ===== *)
theory Frame
  imports Prelude
begin

text \<open>
  What the pallets use of Substrate's FRAME and of the external crates.

  The record \<open>frame_config\<close> holds the parameters of the model: the build profile, the runtime's
  hash function, the SCALE encodings, and the \<^verbatim>\<open>blake2_rfc\<close> and \<^verbatim>\<open>bs58\<close> functions. None of that
  code is part of the repository, so no definition is given for it. Config traits of the pallets
  extend this record the way the Rust traits extend each other.

  The record \<open>frame_system\<close> holds the part of \<^verbatim>\<open>frame_system\<close>'s storage the pallets read. The
  storage of every pallet extends it.
\<close>

type_synonym account = bytes
type_synonym hash = bytes
type_synonym ident = bytes

record frame_config =
  overflow_checks :: bool
  hashing :: "bytes \<Rightarrow> hash"
  encode_hash :: "hash \<Rightarrow> bytes"
  encode_account :: "account \<Rightarrow> bytes"
  encode_ident :: "ident \<Rightarrow> bytes"
  encode_vec :: "bytes \<Rightarrow> bytes"
  blake2b_64 :: "bytes \<Rightarrow> bytes"
  bs58_encode :: "bytes \<Rightarrow> bytes"
  bs58_decode :: "bytes \<Rightarrow> bytes option"

record frame_system =
  block_number :: u32
  extrinsic_index :: "u32 option"

text \<open>The errors of a dispatchable: a rejected origin, an unknown address, or an error of a pallet.\<close>

datatype 'e dispatch_error = BadOrigin | CannotLookup | Module 'e

text \<open>
  \<^verbatim>\<open>let _ = f(..);\<close> drops an error of \<open>f\<close>. The storage functions used this way leave the
  storage unchanged when they fail, so the state before the call is kept.
\<close>

definition ignore_err :: "'s \<Rightarrow> ('s, 'e) result \<Rightarrow> ('s, 'f) result" where
  "ignore_err s r = (case r of Ok s' \<Rightarrow> Ok s' | Err _ \<Rightarrow> Ok s | Panic \<Rightarrow> Panic)"

lemma ignore_err_Ok_iff [simp]:
  "ignore_err s r = Ok s' \<longleftrightarrow> r = Ok s' \<or> (\<exists>e. r = Err e) \<and> s' = s"
  by (cases r) (auto simp: ignore_err_def)

lemma ignore_err_not_Err [simp]: "ignore_err s r \<noteq> Err e"
  by (cases r) (auto simp: ignore_err_def)

lemma ignore_err_simps [simp]:
  "ignore_err s (Ok t) = Ok t" "ignore_err s (Err e) = Ok s" "ignore_err s Panic = Panic"
  by (simp_all add: ignore_err_def)

section \<open>A sample instance of the parameters\<close>

text \<open>
  Concrete functions for the parameters, on which the hypotheses of the properties are evaluated:
  an encoding of a byte as its two halves in place of base 58, a small checksum in place of the
  hash functions, and the identity as encoding.
\<close>

fun halves :: "bytes \<Rightarrow> bytes" where
  "halves [] = []"
| "halves (b # bs) = drop_bit 4 b # (b AND 0x0F) # halves bs"

fun unhalves :: "bytes \<Rightarrow> bytes option" where
  "unhalves [] = Some []"
| "unhalves [_] = None"
| "unhalves (h # l # bs) = map_option ((#) (push_bit 4 h OR l)) (unhalves bs)"

definition sample_hash :: "bytes \<Rightarrow> bytes" where
  "sample_hash bs = [of_nat (length bs), sum_list bs, fold (\<lambda>b a. 31 * a + b) bs 7]"

lemma halves_join: "push_bit 4 (drop_bit 4 b) OR (b AND 0x0F) = b" for b :: u8
proof (rule bit_word_eqI)
  fix k :: nat
  assume "k < LENGTH(8)"
  then have "k = 0 \<or> k = 1 \<or> k = 2 \<or> k = 3 \<or> k = 4 \<or> k = 5 \<or> k = 6 \<or> k = 7"
    by simp presburger
  then show "bit (push_bit 4 (drop_bit 4 b) OR (b AND 0x0F)) k = bit b k"
    by (elim disjE) (simp_all add: bit_simps)
qed

lemma half_small: "drop_bit 4 b < 0x80" "b AND 0x0F < 0x80" for b :: u8
proof -
  have "unat (drop_bit 4 b) < 16"
    using unat_bound [of b] by (simp add: drop_bit_eq_div unat_div)
  then show "drop_bit 4 b < 0x80" by (simp add: word_less_nat_alt)
  have "b AND 0x0F \<le> 0x0F" by (rule word_and_le1)
  then show "b AND 0x0F < 0x80" by (rule order_le_less_trans) simp
qed

lemma unhalves_halves: "unhalves (halves bs) = Some bs"
  by (induction bs) (simp_all add: halves_join)

lemma halves_ascii: "b \<in> set (halves bs) \<Longrightarrow> b < 0x80"
  by (induction bs) (auto simp: half_small)

lemma halves_length: "length (halves bs) = 2 * length bs"
  by (induction bs) simp_all

end
