(* ===== verification/Identifier.thy ===== *)
theory Identifier
  imports Frame
begin

text \<open>
  The \<^verbatim>\<open>primitives/identifier\<close> crate: typed SS58 identifiers (\<^verbatim>\<open>curi.rs\<close>) and the activity timeline
  every pallet writes to (\<^verbatim>\<open>lib.rs\<close>, \<^verbatim>\<open>types.rs\<close>).

  Shown: the two-byte type prefix of an identifier is decoded to the number it was made from, for
  every type; \<open>get_type\<close> returns the type an identifier was created with for all types but
  \<open>Rating\<close> and \<open>AssetInstance\<close>, which it exchanges; a timeline never exceeds its bound, keeps
  its first entry and ends in the newest one.
\<close>

section \<open>Types\<close>

datatype CallTypeOf =
    Archive | Authorization | Capacity | CouncilRevoke | CouncilRestore | Deauthorization
  | Approved | Genesis | Update | Revoke | Restore | Remove | PartialRemove
  | PresentationAdded | PresentationRemoved | Rotate | Usage | Transfer | Debit | Credit
  | Issue | Reinstate

datatype IdentifierTypeOf =
    Asset | Auth | ChainSpace | Did | Rating | Registry | Statement | Schema | Template
  | Registries | Entries | RegistryAuthorization | SchemaAccounts

record timepoint =
  height :: u32
  index :: u32

record event_entry =
  action :: CallTypeOf
  location :: timepoint

datatype IdentifierType =
    Authorization | Space | Schema | Statement | Entity | Template | Asset | AssetInstance
  | Rating | Registries | Entries | RegistryAuthorization | SchemaAccounts

datatype IdentifierError =
    InvalidFormat | InvalidPrefix | InvalidIdentifier | InvalidIdentifierLength | UpdateFailed
  | MaxEventsHistoryExceeded

section \<open>Identifier types and their numbers\<close>

fun ident_value :: "IdentifierType \<Rightarrow> u16" where
  "ident_value IdentifierType.Authorization = 2092"
| "ident_value IdentifierType.Space = 3390"
| "ident_value IdentifierType.Schema = 7366"
| "ident_value IdentifierType.Statement = 8902"
| "ident_value IdentifierType.Entity = 6480"
| "ident_value IdentifierType.Template = 8911"
| "ident_value IdentifierType.Asset = 2348"
| "ident_value IdentifierType.AssetInstance = 11380"
| "ident_value IdentifierType.Rating = 6077"
| "ident_value IdentifierType.Registries = 9274"
| "ident_value IdentifierType.Entries = 9944"
| "ident_value IdentifierType.RegistryAuthorization = 10001"
| "ident_value IdentifierType.SchemaAccounts = 10501"

definition from_u16 :: "u16 \<Rightarrow> IdentifierType option" where
  "from_u16 value =
     (if value = 2092 then Some IdentifierType.Authorization
      else if value = 3390 then Some IdentifierType.Space
      else if value = 7366 then Some IdentifierType.Schema
      else if value = 8902 then Some IdentifierType.Statement
      else if value = 6480 then Some IdentifierType.Entity
      else if value = 8911 then Some IdentifierType.Template
      else if value = 2348 then Some IdentifierType.Asset
      else if value = 6077 then Some IdentifierType.AssetInstance
      else if value = 11380 then Some IdentifierType.Rating
      else if value = 9274 then Some IdentifierType.Registries
      else if value = 9944 then Some IdentifierType.Entries
      else if value = 10001 then Some IdentifierType.RegistryAuthorization
      else if value = 10501 then Some IdentifierType.SchemaAccounts
      else None)"

section \<open>Identifiers\<close>

definition MINIMUM_IDENTIFIER_LENGTH :: nat where
  "MINIMUM_IDENTIFIER_LENGTH = 2"

definition MAXIMUM_IDENTIFIER_LENGTH :: nat where
  "MAXIMUM_IDENTIFIER_LENGTH = 49"

text \<open>The bytes of \<^verbatim>\<open>b"CRDIDFR"\<close>.\<close>

definition PREFIX :: bytes where
  "PREFIX = [67, 82, 68, 73, 68, 70, 82]"

definition ss58hash :: "('c) frame_config_scheme \<Rightarrow> bytes \<Rightarrow> bytes" where
  "ss58hash T data = blake2b_64 T (PREFIX @ data)"

text \<open>The one- or two-byte prefix that carries the identifier type.\<close>

definition ident_prefix :: "u16 \<Rightarrow> bytes" where
  "ident_prefix id_ident =
     (let ident = id_ident AND 0x3FFF in
      if ident \<le> 63 then [ucast ident]
      else (let first = drop_bit 2 (ucast (ident AND 0x00FC) :: u8);
                second = (ucast (drop_bit 8 ident) :: u8) OR push_bit 6 (ucast (ident AND 3) :: u8)
            in [first OR 0x40, second]))"

definition from_encoded ::
  "('c) frame_config_scheme \<Rightarrow> bytes \<Rightarrow> u16 \<Rightarrow> (ident, IdentifierError) result" where
  "from_encoded T data id_ident =
     and_then (ensure (MINIMUM_IDENTIFIER_LENGTH < length data \<and>
                       length data < MAXIMUM_IDENTIFIER_LENGTH)
                 IdentifierError.InvalidIdentifierLength) (\<lambda>_.
     let v = ident_prefix id_ident @ data; r = ss58hash T v in
     if length r < 2 then Panic
     else let out = bs58_encode T (v @ take 2 r) in
       if length out \<le> MAXIMUM_IDENTIFIER_LENGTH then Ok out
       else Err IdentifierError.InvalidIdentifier)"

definition create_identifier ::
  "('c) frame_config_scheme \<Rightarrow> bytes \<Rightarrow> IdentifierType \<Rightarrow> (ident, IdentifierError) result" where
  "create_identifier T data id_type = from_encoded T data (ident_value id_type)"

text \<open>
  Well-formed UTF-8 in the sense of \<^verbatim>\<open>str::from_utf8\<close>: no overlong forms, no surrogates,
  nothing above U+10FFFF.
\<close>

definition utf8_tail :: "u8 \<Rightarrow> bool" where
  "utf8_tail b \<longleftrightarrow> 0x80 \<le> b \<and> b \<le> 0xBF"

fun utf8_valid :: "bytes \<Rightarrow> bool" where
  "utf8_valid [] = True"
| "utf8_valid (a # bs) =
     (if a < 0x80 then utf8_valid bs
      else if 0xC2 \<le> a \<and> a \<le> 0xDF then
        (case bs of b # r \<Rightarrow> utf8_tail b \<and> utf8_valid r | _ \<Rightarrow> False)
      else if 0xE0 \<le> a \<and> a \<le> 0xEF then
        (case bs of b # c # r \<Rightarrow>
           (if a = 0xE0 then 0xA0 \<le> b \<and> b \<le> 0xBF
            else if a = 0xED then 0x80 \<le> b \<and> b \<le> 0x9F else utf8_tail b)
           \<and> utf8_tail c \<and> utf8_valid r
         | _ \<Rightarrow> False)
      else if 0xF0 \<le> a \<and> a \<le> 0xF4 then
        (case bs of b # c # d # r \<Rightarrow>
           (if a = 0xF0 then 0x90 \<le> b \<and> b \<le> 0xBF
            else if a = 0xF4 then 0x80 \<le> b \<and> b \<le> 0x8F else utf8_tail b)
           \<and> utf8_tail c \<and> utf8_tail d \<and> utf8_valid r
         | _ \<Rightarrow> False)
      else False)"

definition get_identifier_type ::
  "('c) frame_config_scheme \<Rightarrow> ident \<Rightarrow> (u16, IdentifierError) result" where
  "get_identifier_type T self =
     and_then (ensure (utf8_valid self) IdentifierError.InvalidFormat) (\<lambda>_.
     and_then (ok_or (bs58_decode T self) IdentifierError.InvalidIdentifier) (\<lambda>data.
     if length data < 2 then Err IdentifierError.InvalidIdentifierLength else
     and_then (ensure (2 < length self \<and> length self < 50)
                 IdentifierError.InvalidIdentifierLength) (\<lambda>_.
     let d0 = data ! 0; d1 = data ! 1 in
     if d0 \<le> 63 then Ok (ucast d0)
     else if d0 \<le> 127 then
       (let lower = push_bit 2 d0 OR drop_bit 6 d1; upper = d1 AND 0x3F
        in Ok (ucast lower OR push_bit 8 (ucast upper)))
     else Err IdentifierError.InvalidPrefix)))"

definition get_type ::
  "('c) frame_config_scheme \<Rightarrow> ident \<Rightarrow> (IdentifierType, IdentifierError) result" where
  "get_type T self =
     and_then (get_identifier_type T self) (\<lambda>n.
     ok_or (from_u16 n) IdentifierError.InvalidIdentifier)"

section \<open>The activity timeline\<close>

record identifier_config = frame_config +
  MaxEventsHistory :: u32

record identifier_storage = frame_system +
  Identifiers :: "ident \<times> IdentifierTypeOf \<Rightarrow> event_entry list option"

definition update_timeline ::
  "('c) identifier_config_scheme \<Rightarrow> ident \<Rightarrow> IdentifierTypeOf \<Rightarrow> event_entry
   \<Rightarrow> ('m) identifier_storage_scheme \<Rightarrow> (('m) identifier_storage_scheme, IdentifierError) result" where
  "update_timeline T tx_id id_type entry s =
     (let events = (case Identifiers s (tx_id, id_type) of Some es \<Rightarrow> es | None \<Rightarrow> []) in
      and_then (if length events = unat (MaxEventsHistory T) then vec_remove 1 events else Ok events)
        (\<lambda>events'.
      and_then (ok_or (try_push (unat (MaxEventsHistory T)) events' entry)
                  IdentifierError.MaxEventsHistoryExceeded) (\<lambda>events''.
      Ok (s\<lparr>Identifiers := (Identifiers s)((tx_id, id_type) \<mapsto> events'')\<rparr>))))"

definition timepoint_now :: "('m) frame_system_scheme \<Rightarrow> timepoint" where
  "timepoint_now s =
     \<lparr>height = block_number s,
      index = (case extrinsic_index s of Some i \<Rightarrow> i | None \<Rightarrow> 0)\<rparr>"

section \<open>Lemmas: the type prefix\<close>

lemma from_u16_ident_value:
  "from_u16 (ident_value t) =
     Some (if t = IdentifierType.Rating then IdentifierType.AssetInstance
           else if t = IdentifierType.AssetInstance then IdentifierType.Rating else t)"
  by (cases t) (simp_all add: from_u16_def)

lemma ident_value_wide: "\<not> ident_value t AND 0x3FFF \<le> 63"
  by (cases t) simp_all

lemma ident_value_masked: "ident_value t AND 0x3FFF = ident_value t"
  by (cases t) simp_all

lemma nat_less_16_cases:
  "k < (16::nat) \<Longrightarrow> k = 0 \<or> k = 1 \<or> k = 2 \<or> k = 3 \<or> k = 4 \<or> k = 5 \<or> k = 6 \<or> k = 7 \<or>
     k = 8 \<or> k = 9 \<or> k = 10 \<or> k = 11 \<or> k = 12 \<or> k = 13 \<or> k = 14 \<or> k = 15"
  by presburger

lemma prefix_bits:
  fixes n :: u16
  assumes "n AND 0x3FFF = n"
  shows "ucast (push_bit 2 (drop_bit 2 (ucast (n AND 0x00FC) :: u8) OR 0x40)
            OR drop_bit 6 ((ucast (drop_bit 8 n) :: u8) OR push_bit 6 (ucast (n AND 3) :: u8)))
         OR push_bit 8 (ucast (((ucast (drop_bit 8 n) :: u8) OR push_bit 6 (ucast (n AND 3) :: u8)) AND 0x3F))
         = n" (is "?l = n")
proof (rule bit_word_eqI)
  fix k :: nat
  assume "k < LENGTH(16)"
  then have k: "k < 16" by simp
  have 14: "\<not> bit n 14" "\<not> bit n 15"
    by (subst assms [symmetric], simp add: bit_simps)+
  show "bit ?l k = bit n k"
    using nat_less_16_cases [OF k] by (elim disjE) (simp_all add: bit_simps 14)
qed

lemma prefix_first_range:
  fixes n :: u16
  defines "d \<equiv> drop_bit 2 (ucast (n AND 0x00FC) :: u8) OR 0x40"
  shows "\<not> d \<le> 63" "d \<le> 127"
proof -
  have "0x40 \<le> d" unfolding d_def by (metis le_word_or1)
  then show "\<not> d \<le> 63" by unat_arith
  have "d AND 0x7F = d"
  proof (rule bit_word_eqI)
    fix k :: nat
    assume "k < LENGTH(8)"
    then have k: "k < 16" by simp
    show "bit (d AND 0x7F) k = bit d k"
      using nat_less_16_cases [OF k] unfolding d_def by (elim disjE) (simp_all add: bit_simps)
  qed
  then show "d \<le> 127" by (metis word_and_le1)
qed

lemma ucast_small: "(n::u16) \<le> 63 \<Longrightarrow> (ucast n :: u8) \<le> 63 \<and> ucast (ucast n :: u8) = n"
  by (simp add: word_le_nat_alt word_unat_eq_iff unsigned_ucast_eq unsigned_take_bit_eq
      take_bit_nat_eq_self)

lemma ascii_utf8_valid: "\<forall>b \<in> set bs. b < 0x80 \<Longrightarrow> utf8_valid bs"
  by (induction bs) auto

lemma ident_prefix_length: "0 < length (ident_prefix n)" "length (ident_prefix n) \<le> 2"
  by (auto simp: ident_prefix_def Let_def)

text \<open>What the model relies on of the \<^verbatim>\<open>bs58\<close> crate: decoding inverts encoding, the output is ASCII
  and never shorter than the input.\<close>

definition bs58_spec :: "('c) frame_config_scheme \<Rightarrow> bool" where
  "bs58_spec T \<longleftrightarrow>
     (\<forall>v. bs58_decode T (bs58_encode T v) = Some v \<and> (\<forall>b \<in> set (bs58_encode T v). b < 0x80) \<and>
          length v \<le> length (bs58_encode T v))"

lemma bs58_spec_halves: "bs58_encode T = halves \<Longrightarrow> bs58_decode T = unhalves \<Longrightarrow> bs58_spec T"
  by (auto simp: bs58_spec_def unhalves_halves halves_length dest: halves_ascii)

lemma from_encoded_OkD:
  assumes "from_encoded T data n = Ok i"
  shows "2 < length data" "length i \<le> 49"
    and "\<exists>chk. length chk = 2 \<and> i = bs58_encode T (ident_prefix n @ data @ chk)"
  using assms
  by (auto simp: from_encoded_def Let_def MINIMUM_IDENTIFIER_LENGTH_def MAXIMUM_IDENTIFIER_LENGTH_def
      split: if_splits) (metis append.assoc length_take min.absorb2 not_less)+

lemma get_identifier_type_from_encoded:
  assumes T: "bs58_spec T" and i: "from_encoded T data n = Ok i"
  shows "get_identifier_type T i = Ok (n AND 0x3FFF)"
proof -
  from from_encoded_OkD [OF i] obtain chk where
    len: "2 < length data" "length i \<le> 49" and
    enc: "i = bs58_encode T (ident_prefix n @ data @ chk)" "length chk = 2"
    by blast
  from T enc have dec: "bs58_decode T i = Some (ident_prefix n @ data @ chk)" "utf8_valid i"
    by (auto simp: bs58_spec_def intro: ascii_utf8_valid)
  have long: "length (ident_prefix n @ data @ chk) \<le> length i"
    using T unfolding bs58_spec_def enc(1) by blast
  have i2: "2 < length i" using long len enc by simp
  let ?m = "n AND 0x3FFF"
  show ?thesis
  proof (cases "?m \<le> 63")
    case True
    then show ?thesis
      using dec len i2 ucast_small [of ?m]
      by (auto simp: get_identifier_type_def ident_prefix_def Let_def)
  next
    case False
    have m: "?m AND 0x3FFF = ?m" by (simp add: and.assoc)
    show ?thesis
      using False dec len i2 prefix_bits [OF m] prefix_first_range [of ?m]
      by (simp add: get_identifier_type_def ident_prefix_def Let_def)
  qed
qed

section \<open>Properties of identifiers\<close>

definition sample_frame :: frame_config where
  "sample_frame = \<lparr>overflow_checks = True, hashing = sample_hash, encode_hash = id,
     encode_account = id, encode_ident = id, encode_vec = id, blake2b_64 = sample_hash,
     bs58_encode = halves, bs58_decode = unhalves\<rparr>"

text \<open>C7: the number an identifier was made from is read back from its text form: for every payload
  and every 16-bit number, \<^verbatim>\<open>get_identifier_type\<close> of what \<^verbatim>\<open>from_encoded\<close> returns is the number's
  low 14 bits, through the one- and the two-byte form of the prefix.\<close>

theorem identifier_prefix_roundtrip:
  assumes "bs58_spec T" "from_encoded T data n = Ok i"
  shows "get_identifier_type T i = Ok (n AND 0x3FFF)"
  by (rule get_identifier_type_from_encoded [OF assms])

theorem identifier_prefix_roundtrip_witness:
  "bs58_spec sample_frame \<and>
   from_encoded sample_frame [1, 2, 3] 3390 = Ok [4, 15, 8, 13, 0, 1, 0, 2, 0, 3, 0, 12, 14, 0] \<and>
   get_identifier_type sample_frame [4, 15, 8, 13, 0, 1, 0, 2, 0, 3, 0, 12, 14, 0] = Ok 3390"
proof -
  have s: "bs58_spec sample_frame" by (rule bs58_spec_halves) (simp_all add: sample_frame_def)
  have e: "from_encoded sample_frame [1, 2, 3] 3390 = Ok [4, 15, 8, 13, 0, 1, 0, 2, 0, 3, 0, 12, 14, 0]"
    by code_simp
  show ?thesis using s e identifier_prefix_roundtrip [OF s e] by simp
qed

text \<open>C8: \<^verbatim>\<open>get_type\<close> of a created identifier is the type it was created with for eleven of the thirteen
  types; an identifier created as \<^verbatim>\<open>Rating\<close> is reported as \<^verbatim>\<open>AssetInstance\<close> and the other way round,
  because \<^verbatim>\<open>from_u16\<close> has the two numbers exchanged.\<close>

theorem created_identifier_type:
  assumes "bs58_spec T" "create_identifier T data t = Ok i"
  shows "get_type T i =
     Ok (if t = IdentifierType.Rating then IdentifierType.AssetInstance
         else if t = IdentifierType.AssetInstance then IdentifierType.Rating else t)"
proof -
  have "get_identifier_type T i = Ok (ident_value t AND 0x3FFF)"
    using assms by (auto simp: create_identifier_def intro: get_identifier_type_from_encoded)
  then show ?thesis
    by (simp add: get_type_def ident_value_masked from_u16_ident_value)
qed

theorem created_identifier_type_witness:
  "get_type sample_frame [6, 15, 5, 7, 0, 1, 0, 2, 0, 3, 0, 12, 12, 10] = Ok IdentifierType.AssetInstance \<and>
   create_identifier sample_frame [1, 2, 3] IdentifierType.Rating =
     Ok [6, 15, 5, 7, 0, 1, 0, 2, 0, 3, 0, 12, 12, 10]"
proof -
  have s: "bs58_spec sample_frame" by (rule bs58_spec_halves) (simp_all add: sample_frame_def)
  have e: "create_identifier sample_frame [1, 2, 3] IdentifierType.Rating =
     Ok [6, 15, 5, 7, 0, 1, 0, 2, 0, 3, 0, 12, 12, 10]"
    by code_simp
  show ?thesis using e created_identifier_type [OF s e] by simp
qed

section \<open>Lemmas: the timeline\<close>

definition timeline :: "('m) identifier_storage_scheme \<Rightarrow> ident \<Rightarrow> IdentifierTypeOf \<Rightarrow> event_entry list" where
  "timeline s i ty = (case Identifiers s (i, ty) of Some es \<Rightarrow> es | None \<Rightarrow> [])"

lemma update_timeline_frame:
  "update_timeline T i ty e s = Ok s' \<Longrightarrow> \<exists>m. s' = s\<lparr>Identifiers := m\<rparr>"
  by (auto simp: update_timeline_def Let_def split: if_splits)

lemma update_timeline_other:
  "update_timeline T i ty e s = Ok s' \<Longrightarrow> (j, ty') \<noteq> (i, ty) \<Longrightarrow> timeline s' j ty' = timeline s j ty'"
  by (auto simp: update_timeline_def timeline_def Let_def split: if_splits)

lemma update_timeline_total:
  assumes "2 \<le> unat (MaxEventsHistory T)" "length (timeline s i ty) \<le> unat (MaxEventsHistory T)"
  shows "\<exists>s'. update_timeline T i ty e s = Ok s'"
  using assms by (auto simp: update_timeline_def timeline_def Let_def vec_remove_def ok_or_def
      try_push_def split: option.splits)

lemma update_timeline_entries:
  assumes "update_timeline T i ty e s = Ok s'"
  shows "timeline s' i ty =
     (if length (timeline s i ty) = unat (MaxEventsHistory T)
      then hd (timeline s i ty) # drop 2 (timeline s i ty) else timeline s i ty) @ [e]"
proof (cases "length (timeline s i ty) = unat (MaxEventsHistory T)")
  case True
  with assms show ?thesis
    by (cases "timeline s i ty")
      (auto simp: update_timeline_def timeline_def Let_def vec_remove_Ok_iff numeral_2_eq_2
        split: option.splits)
next
  case False
  with assms show ?thesis
    by (auto simp: update_timeline_def timeline_def Let_def split: option.splits)
qed

section \<open>The logging interface of the pallets\<close>

text \<open>
  Every pallet has an \<^verbatim>\<open>update_activity\<close> that stamps an action with the current block and extrinsic
  and drops the result of \<open>update_timeline\<close>. The locale states what the pallets rely on: as long as
  the history is within its bound, logging succeeds, appends to the history of the one identifier
  and touches no other. The lemmas say what follows for a whole run of calls.
\<close>

fun log_all :: "(ident \<Rightarrow> CallTypeOf \<Rightarrow> 's \<Rightarrow> ('s, 'e) result) \<Rightarrow> (ident \<times> CallTypeOf) list \<Rightarrow> 's \<Rightarrow> ('s, 'e) result" where
  "log_all log [] s = Ok s"
| "log_all log ((i, a) # xs) s = and_then (log i a s) (log_all log xs)"

locale activity_log =
  fixes log :: "ident \<Rightarrow> CallTypeOf \<Rightarrow> 's \<Rightarrow> ('s, 'e) result"
    and history :: "'s \<Rightarrow> ident \<Rightarrow> event_entry list"
    and now :: "'s \<Rightarrow> timepoint"
    and bound :: nat
  assumes log_total:
      "2 \<le> bound \<Longrightarrow> length (history s i) \<le> bound \<Longrightarrow> \<exists>s'. log i a s = Ok s'"
    and log_appends:
      "2 \<le> bound \<Longrightarrow> length (history s i) \<le> bound \<Longrightarrow> log i a s = Ok s' \<Longrightarrow>
       history s' i =
         (if length (history s i) = bound then hd (history s i) # drop 2 (history s i)
          else history s i) @ [\<lparr>action = a, location = now s\<rparr>]"
    and log_other: "log i a s = Ok s' \<Longrightarrow> j \<noteq> i \<Longrightarrow> history s' j = history s j"
begin

lemma log_bounded:
  assumes "2 \<le> bound" "length (history s j) \<le> bound" "length (history s i) \<le> bound"
    and "log i a s = Ok s'"
  shows "length (history s' j) \<le> bound"
  using assms log_appends [of s i a s'] log_other [of i a s s' j] by (cases "j = i") auto

lemma log_keeps_first:
  assumes "2 \<le> bound" "length (history s i) \<le> bound" "log i a s = Ok s'" "history s j \<noteq> []"
  shows "history s' j \<noteq> [] \<and> hd (history s' j) = hd (history s j)"
  using assms log_appends [of s i a s'] log_other [of i a s s' j]
  by (cases "j = i") (auto simp: hd_append)

lemma log_all_keeps_first:
  assumes "2 \<le> bound" "\<forall>i. length (history s i) \<le> bound"
  shows "\<exists>s'. log_all log xs s = Ok s' \<and> (\<forall>i. length (history s' i) \<le> bound) \<and>
           (\<forall>j. history s j \<noteq> [] \<longrightarrow> history s' j \<noteq> [] \<and> hd (history s' j) = hd (history s j))"
  using assms(2)
proof (induction xs arbitrary: s)
  case Nil
  then show ?case by simp
next
  case (Cons x xs)
  obtain i a where x: "x = (i, a)" by (cases x)
  from log_total assms(1) Cons.prems obtain t where t: "log i a s = Ok t" by blast
  have "\<forall>j. length (history t j) \<le> bound"
    using log_bounded [OF assms(1) _ _ t] Cons.prems by blast
  from Cons.IH [OF this] show ?case
    using log_keeps_first [OF assms(1) _ t] Cons.prems by (auto simp: x t)
qed

end

end
