(* ===== verification/Chain_Space.thy ===== *)
theory Chain_Space
  imports Identifier
begin

text \<open>
  The chain-space pallet (\<^verbatim>\<open>pallets/chain-space/src\<close>): spaces with an approval flag, an archive flag
  and a transaction capacity, delegations with permissions, sub-spaces that draw on their parent's
  capacity, and the authorization checks every other pallet calls.

  \<open>space_config\<close> is the pallet's \<^verbatim>\<open>Config\<close> trait: the origin checks of the runtime, the network
  type and the delegate bound are parameters. \<open>chain_space\<close> is its storage. Each extrinsic is one
  definition; it returns the new storage or the error the code returns.
\<close>

section \<open>Types\<close>

subsection \<open>Permissions\<close>

type_synonym permissions = u32

definition ASSERT :: permissions where "ASSERT = 0b00000001"
definition DELEGATE :: permissions where "DELEGATE = 0b00000010"
definition ADMIN :: permissions where "ADMIN = 0b00000100"

definition permissions_all :: permissions where
  "permissions_all = ASSERT OR DELEGATE OR ADMIN"

definition contains :: "permissions \<Rightarrow> permissions \<Rightarrow> bool" where
  "contains self other \<longleftrightarrow> self AND other = other"

definition as_u8 :: "permissions \<Rightarrow> bytes" where
  "as_u8 x =
     (let b1 = ucast (drop_bit 24 x AND 0xff); b2 = ucast (drop_bit 16 x AND 0xff);
          b3 = ucast (drop_bit 8 x AND 0xff); b4 = ucast (x AND 0xff)
      in [b4, b3, b2, b1])"

definition permissions_default :: permissions where
  "permissions_default = ASSERT"

subsection \<open>Storage, events and errors\<close>

record space_details =
  space_code :: hash
  space_creator :: account
  txn_capacity :: u64
  txn_reserve :: u64
  txn_count :: u64
  approved :: bool
  archived :: bool
  parent :: ident

record space_authorization =
  auth_space_id :: ident
  auth_delegate :: account
  auth_permissions :: permissions
  auth_delegator :: account

datatype SpaceEvent =
    Authorization ident ident account
  | Deauthorization ident ident
  | Create ident account ident
  | Approve ident
  | Archive ident account
  | Restore ident account
  | Revoke ident
  | ApprovalRevoke ident
  | ApprovalRestore ident
  | UpdateCapacity ident
  | ResetUsage ident

datatype SpaceError =
    SpaceAlreadyAnchored | SpaceNotFound | UnauthorizedOperation | InvalidIdentifier
  | InvalidIdentifierLength | InvalidIdentifierPrefix | ArchivedSpace | SpaceNotArchived
  | SpaceDelegatesLimitExceeded | EmptyTransaction | DelegateAlreadyAdded | AuthorizationNotFound
  | DelegateNotFound | SpaceAlreadyApproved | SpaceNotApproved | CapacityLimitExceeded
  | CapacityLessThanUsage | CapacityValueMissing | TypeCapacityOverflow

record chain_space = identifier_storage +
  Spaces :: "ident \<Rightarrow> space_details option"
  Authorizations :: "ident \<Rightarrow> space_authorization option"
  Delegates :: "ident \<Rightarrow> account list"
  space_events :: "SpaceEvent list"

text \<open>
  \<open>EnsureOrigin\<close> gives the subject and the sender of an accepted origin (the trait
  \<^verbatim>\<open>CallSources\<close>), \<open>ChainSpaceOrigin\<close> whether the origin is the governing one.
\<close>

record 'o space_config = identifier_config +
  EnsureOrigin :: "'o \<Rightarrow> (account \<times> account) option"
  ChainSpaceOrigin :: "'o \<Rightarrow> bool"
  is_permissioned :: bool
  MaxSpaceDelegates :: u32

type_synonym ('m, 'a) space_result = "('m chain_space_scheme \<times> 'a, SpaceError) result"
type_synonym 'm space_dispatch_result = "('m chain_space_scheme, SpaceError dispatch_error) result"

definition ensure_subject :: "('o, 'c) space_config_scheme \<Rightarrow> 'o \<Rightarrow> (account, 'e dispatch_error) result" where
  "ensure_subject T origin = map_err (\<lambda>_. BadOrigin) (ok_or (map_option fst (EnsureOrigin T origin)) ())"

definition ensure_governance :: "('o, 'c) space_config_scheme \<Rightarrow> 'o \<Rightarrow> (unit, 'e dispatch_error) result" where
  "ensure_governance T origin = ensure (ChainSpaceOrigin T origin) BadOrigin"

definition space_deposit_event :: "SpaceEvent \<Rightarrow> 'm chain_space_scheme \<Rightarrow> 'm chain_space_scheme" where
  "space_deposit_event e s = s\<lparr>space_events := space_events s @ [e]\<rparr>"

section \<open>Internal functions\<close>

definition space_update_activity ::
  "('c) identifier_config_scheme \<Rightarrow> ident \<Rightarrow> IdentifierTypeOf \<Rightarrow> CallTypeOf \<Rightarrow> 'm identifier_storage_scheme
   \<Rightarrow> ('m identifier_storage_scheme, SpaceError) result" where
  "space_update_activity T tx_id tx_type tx_action s =
     (let tx_moment = timepoint_now s; tx_entry = \<lparr>action = tx_action, location = tx_moment\<rparr>
      in ignore_err s (update_timeline T tx_id tx_type tx_entry s))"

definition space_insert :: "ident \<Rightarrow> space_details \<Rightarrow> 'm chain_space_scheme \<Rightarrow> 'm chain_space_scheme" where
  "space_insert i d s = s\<lparr>Spaces := (Spaces s)(i \<mapsto> d)\<rparr>"

definition increment_usage :: "ident \<Rightarrow> 'm chain_space_scheme \<Rightarrow> ('m chain_space_scheme, SpaceError) result" where
  "increment_usage tx_id s =
     (case Spaces s tx_id of
        Some d \<Rightarrow> Ok (space_insert tx_id (d\<lparr>txn_count := saturating_add (txn_count d) 1\<rparr>) s)
      | None \<Rightarrow> Err SpaceError.SpaceNotFound)"

definition decrement_usage :: "ident \<Rightarrow> 'm chain_space_scheme \<Rightarrow> ('m chain_space_scheme, SpaceError) result" where
  "decrement_usage tx_id s =
     (case Spaces s tx_id of
        Some d \<Rightarrow> Ok (space_insert tx_id (d\<lparr>txn_count := saturating_sub (txn_count d) 1\<rparr>) s)
      | None \<Rightarrow> Err SpaceError.SpaceNotFound)"

definition increment_usage_entries ::
  "ident \<Rightarrow> u16 \<Rightarrow> 'm chain_space_scheme \<Rightarrow> ('m chain_space_scheme, SpaceError) result" where
  "increment_usage_entries tx_id increment s =
     (case Spaces s tx_id of
        Some d \<Rightarrow> Ok (space_insert tx_id (d\<lparr>txn_count := saturating_add (txn_count d) (ucast increment)\<rparr>) s)
      | None \<Rightarrow> Err SpaceError.SpaceNotFound)"

definition decrement_usage_entries ::
  "ident \<Rightarrow> u16 \<Rightarrow> 'm chain_space_scheme \<Rightarrow> ('m chain_space_scheme, SpaceError) result" where
  "decrement_usage_entries tx_id decrement s =
     (case Spaces s tx_id of
        Some d \<Rightarrow> Ok (space_insert tx_id (d\<lparr>txn_count := saturating_sub (txn_count d) (ucast decrement)\<rparr>) s)
      | None \<Rightarrow> Err SpaceError.SpaceNotFound)"

definition validate_space_for_transaction :: "ident \<Rightarrow> 'm chain_space_scheme \<Rightarrow> (unit, SpaceError) result" where
  "validate_space_for_transaction space_id s =
     and_then (ok_or (Spaces s space_id) SpaceError.SpaceNotFound) (\<lambda>d.
     and_then (ensure (\<not> archived d) SpaceError.ArchivedSpace) (\<lambda>_.
     and_then (ensure (approved d) SpaceError.SpaceNotApproved) (\<lambda>_.
     if txn_capacity d = 0 \<or> txn_count d < txn_capacity d then Ok ()
     else Err SpaceError.CapacityLimitExceeded)))"

definition validate_space_for_restore_transaction ::
  "ident \<Rightarrow> 'm chain_space_scheme \<Rightarrow> (unit, SpaceError) result" where
  "validate_space_for_restore_transaction space_id s =
     and_then (ok_or (Spaces s space_id) SpaceError.SpaceNotFound) (\<lambda>d.
     and_then (ensure (archived d) SpaceError.SpaceNotArchived) (\<lambda>_.
     and_then (ensure (approved d) SpaceError.SpaceNotApproved) (\<lambda>_.
     if txn_capacity d = 0 \<or> txn_count d < txn_capacity d then Ok ()
     else Err SpaceError.CapacityLimitExceeded)))"

definition validate_space_for_transaction_entries ::
  "ident \<Rightarrow> u16 \<Rightarrow> 'm chain_space_scheme \<Rightarrow> (unit, SpaceError) result" where
  "validate_space_for_transaction_entries space_id entries s =
     and_then (ok_or (Spaces s space_id) SpaceError.SpaceNotFound) (\<lambda>d.
     and_then (ensure (\<not> archived d) SpaceError.ArchivedSpace) (\<lambda>_.
     and_then (ensure (approved d) SpaceError.SpaceNotApproved) (\<lambda>_.
     and_then (ok_or (checked_add (txn_count d) (ucast entries)) SpaceError.TypeCapacityOverflow)
       (\<lambda>new_usage.
     if txn_capacity d = 0 \<or> new_usage \<le> txn_capacity d then Ok ()
     else Err SpaceError.CapacityLimitExceeded))))"

definition is_a_delegate :: "ident \<Rightarrow> account \<Rightarrow> 'm chain_space_scheme \<Rightarrow> bool" where
  "is_a_delegate tx_id delegate s = list_ex (\<lambda>d. d = delegate) (Delegates s tx_id)"

subsection \<open>Authorization checks\<close>

definition ensure_authorization_origin ::
  "ident \<Rightarrow> account \<Rightarrow> 'm chain_space_scheme \<Rightarrow> (ident \<times> 'm chain_space_scheme, SpaceError) result" where
  "ensure_authorization_origin authorization_id delegate s =
     and_then (ok_or (Authorizations s authorization_id) SpaceError.AuthorizationNotFound) (\<lambda>d.
     and_then (ensure (auth_delegate d = delegate) SpaceError.UnauthorizedOperation) (\<lambda>_.
     and_then (increment_usage (auth_space_id d) s) (\<lambda>s1.
     and_then (validate_space_for_transaction (auth_space_id d) s1) (\<lambda>_.
     and_then (ensure (contains (auth_permissions d) ASSERT) SpaceError.UnauthorizedOperation) (\<lambda>_.
     Ok (auth_space_id d, s1))))))"

definition ensure_authorization_restore_origin ::
  "ident \<Rightarrow> account \<Rightarrow> 'm chain_space_scheme \<Rightarrow> (ident \<times> 'm chain_space_scheme, SpaceError) result" where
  "ensure_authorization_restore_origin authorization_id delegate s =
     and_then (ok_or (Authorizations s authorization_id) SpaceError.AuthorizationNotFound) (\<lambda>d.
     and_then (ensure (auth_delegate d = delegate) SpaceError.UnauthorizedOperation) (\<lambda>_.
     and_then (increment_usage (auth_space_id d) s) (\<lambda>s1.
     and_then (validate_space_for_restore_transaction (auth_space_id d) s1) (\<lambda>_.
     and_then (ensure (contains (auth_permissions d) ASSERT) SpaceError.UnauthorizedOperation) (\<lambda>_.
     Ok (auth_space_id d, s1))))))"

definition ensure_authorization_admin_origin ::
  "ident \<Rightarrow> account \<Rightarrow> 'm chain_space_scheme \<Rightarrow> (ident \<times> 'm chain_space_scheme, SpaceError) result" where
  "ensure_authorization_admin_origin authorization_id delegate s =
     and_then (ok_or (Authorizations s authorization_id) SpaceError.AuthorizationNotFound) (\<lambda>d.
     and_then (ensure (auth_delegate d = delegate) SpaceError.UnauthorizedOperation) (\<lambda>_.
     and_then (increment_usage (auth_space_id d) s) (\<lambda>s1.
     and_then (validate_space_for_transaction (auth_space_id d) s1) (\<lambda>_.
     and_then (ensure (contains (auth_permissions d) ADMIN) SpaceError.UnauthorizedOperation) (\<lambda>_.
     Ok (auth_space_id d, s1))))))"

definition ensure_authorization_delegator_origin ::
  "ident \<Rightarrow> account \<Rightarrow> 'm chain_space_scheme \<Rightarrow> (ident \<times> 'm chain_space_scheme, SpaceError) result" where
  "ensure_authorization_delegator_origin authorization_id delegate s =
     and_then (ok_or (Authorizations s authorization_id) SpaceError.AuthorizationNotFound) (\<lambda>d.
     and_then (ensure (auth_delegate d = delegate) SpaceError.UnauthorizedOperation) (\<lambda>_.
     and_then (increment_usage (auth_space_id d) s) (\<lambda>s1.
     and_then (validate_space_for_transaction (auth_space_id d) s1) (\<lambda>_.
     and_then (ensure (contains (auth_permissions d) (DELEGATE OR ADMIN))
                 SpaceError.UnauthorizedOperation) (\<lambda>_.
     Ok (auth_space_id d, s1))))))"

definition ensure_authorization_admin_remove_origin ::
  "ident \<Rightarrow> account \<Rightarrow> 'm chain_space_scheme \<Rightarrow> (ident, SpaceError) result" where
  "ensure_authorization_admin_remove_origin authorization_id delegate s =
     and_then (ok_or (Authorizations s authorization_id) SpaceError.AuthorizationNotFound) (\<lambda>d.
     and_then (ensure (auth_delegate d = delegate) SpaceError.UnauthorizedOperation) (\<lambda>_.
     and_then (validate_space_for_transaction (auth_space_id d) s) (\<lambda>_.
     and_then (ensure (contains (auth_permissions d) ADMIN) SpaceError.UnauthorizedOperation) (\<lambda>_.
     Ok (auth_space_id d)))))"

subsection \<open>Identifiers and delegations\<close>

definition space_identifier ::
  "('c) frame_config_scheme \<Rightarrow> hash \<Rightarrow> account \<Rightarrow> (ident, SpaceError) result" where
  "space_identifier T code creator =
     map_err (\<lambda>_. SpaceError.InvalidIdentifierLength)
       (create_identifier T
          (encode_hash T (hashing T (encode_hash T code @ encode_account T creator)))
          IdentifierType.Space)"

definition authorization_identifier ::
  "('c) frame_config_scheme \<Rightarrow> ident \<Rightarrow> account \<Rightarrow> account \<Rightarrow> (ident, SpaceError) result" where
  "authorization_identifier T space_id delegate creator =
     map_err (\<lambda>_. SpaceError.InvalidIdentifierLength)
       (create_identifier T
          (encode_hash T (hashing T
            (encode_ident T space_id @ encode_account T delegate @ encode_account T creator)))
          IdentifierType.Authorization)"

definition space_delegate_addition ::
  "('o, 'c) space_config_scheme \<Rightarrow> ident \<Rightarrow> account \<Rightarrow> account \<Rightarrow> permissions \<Rightarrow> 'm chain_space_scheme
   \<Rightarrow> ('m chain_space_scheme, SpaceError) result" where
  "space_delegate_addition T space_id delegate creator permissions s =
     and_then (authorization_identifier T space_id delegate creator) (\<lambda>delegate_authorization_id.
     and_then (ensure (Authorizations s delegate_authorization_id = None)
                 SpaceError.DelegateAlreadyAdded) (\<lambda>_.
     and_then (ok_or (try_push (unat (MaxSpaceDelegates T)) (Delegates s space_id) delegate)
                 SpaceError.SpaceDelegatesLimitExceeded) (\<lambda>delegates.
     let s1 = s\<lparr>Delegates := (Delegates s)(space_id := delegates)\<rparr>;
         s2 = s1\<lparr>Authorizations := (Authorizations s1)(delegate_authorization_id \<mapsto>
                 \<lparr>auth_space_id = space_id, auth_delegate = delegate,
                  auth_permissions = permissions, auth_delegator = creator\<rparr>)\<rparr>
     in and_then (space_update_activity T space_id IdentifierTypeOf.Auth CallTypeOf.Authorization s2) (\<lambda>s3.
        Ok (space_deposit_event (SpaceEvent.Authorization space_id delegate_authorization_id delegate) s3)))))"

section \<open>Extrinsics\<close>

definition space_add_delegate ::
  "('o, 'c) space_config_scheme \<Rightarrow> 'o \<Rightarrow> ident \<Rightarrow> account \<Rightarrow> ident \<Rightarrow> 'm chain_space_scheme
   \<Rightarrow> 'm space_dispatch_result" where
  "space_add_delegate T origin space_id delegate authorization s =
     and_then (ensure_subject T origin) (\<lambda>creator.
     and_then (map_err Module (ensure_authorization_delegator_origin authorization creator s))
       (\<lambda>(auth_space, s1).
     and_then (ensure (auth_space = space_id) (Module SpaceError.UnauthorizedOperation)) (\<lambda>_.
     map_err Module (space_delegate_addition T auth_space delegate creator ASSERT s1))))"

definition space_add_admin_delegate ::
  "('o, 'c) space_config_scheme \<Rightarrow> 'o \<Rightarrow> ident \<Rightarrow> account \<Rightarrow> ident \<Rightarrow> 'm chain_space_scheme
   \<Rightarrow> 'm space_dispatch_result" where
  "space_add_admin_delegate T origin space_id delegate authorization s =
     and_then (ensure_subject T origin) (\<lambda>creator.
     and_then (map_err Module (ensure_authorization_admin_origin authorization creator s))
       (\<lambda>(auth_space, s1).
     and_then (ensure (auth_space = space_id) (Module SpaceError.UnauthorizedOperation)) (\<lambda>_.
     map_err Module (space_delegate_addition T auth_space delegate creator ADMIN s1))))"

definition space_add_delegator ::
  "('o, 'c) space_config_scheme \<Rightarrow> 'o \<Rightarrow> ident \<Rightarrow> account \<Rightarrow> ident \<Rightarrow> 'm chain_space_scheme
   \<Rightarrow> 'm space_dispatch_result" where
  "space_add_delegator T origin space_id delegate authorization s =
     and_then (ensure_subject T origin) (\<lambda>creator.
     and_then (map_err Module (ensure_authorization_admin_origin authorization creator s))
       (\<lambda>(auth_space, s1).
     and_then (ensure (auth_space = space_id) (Module SpaceError.UnauthorizedOperation)) (\<lambda>_.
     map_err Module (space_delegate_addition T auth_space delegate creator DELEGATE s1))))"

definition space_remove_delegate ::
  "('o, 'c) space_config_scheme \<Rightarrow> 'o \<Rightarrow> ident \<Rightarrow> ident \<Rightarrow> ident \<Rightarrow> 'm chain_space_scheme
   \<Rightarrow> 'm space_dispatch_result" where
  "space_remove_delegate T origin space_id remove_authorization authorization s =
     and_then (ensure_subject T origin) (\<lambda>creator.
     and_then (map_err Module (ensure_authorization_admin_remove_origin authorization creator s))
       (\<lambda>auth_space.
     and_then (ensure (auth_space = space_id) (Module SpaceError.UnauthorizedOperation)) (\<lambda>_.
     and_then (ok_or (Authorizations s remove_authorization)
                 (Module SpaceError.AuthorizationNotFound)) (\<lambda>details.
     case position (auth_delegate details) (Delegates s space_id) of
       None \<Rightarrow> Err (Module SpaceError.DelegateNotFound)
     | Some idx \<Rightarrow>
         and_then (vec_remove idx (Delegates s space_id)) (\<lambda>delegates.
         let s1 = s\<lparr>Delegates := (Delegates s)(space_id := delegates)\<rparr>;
             s2 = s1\<lparr>Authorizations := (Authorizations s1)(remove_authorization := None)\<rparr>
         in and_then (map_err Module (decrement_usage space_id s2)) (\<lambda>s3.
            and_then (map_err Module (space_update_activity T space_id IdentifierTypeOf.Auth
                        CallTypeOf.Deauthorization s3)) (\<lambda>s4.
            Ok (space_deposit_event (SpaceEvent.Deauthorization space_id remove_authorization) s4))))))))"

text \<open>The storage writes \<open>create\<close> and \<open>subspace_create\<close> share: the delegate list and the creator's authorization.\<close>

definition space_anchor ::
  "ident \<Rightarrow> ident \<Rightarrow> account \<Rightarrow> account list \<Rightarrow> 'm chain_space_scheme \<Rightarrow> 'm chain_space_scheme" where
  "space_anchor space_id authorization_id creator delegates s =
     s\<lparr>Delegates := (Delegates s)(space_id := delegates),
       Authorizations := (Authorizations s)(authorization_id \<mapsto>
         \<lparr>auth_space_id = space_id, auth_delegate = creator,
          auth_permissions = permissions_all, auth_delegator = creator\<rparr>)\<rparr>"

definition space_create ::
  "('o, 'c) space_config_scheme \<Rightarrow> 'o \<Rightarrow> hash \<Rightarrow> 'm chain_space_scheme \<Rightarrow> 'm space_dispatch_result" where
  "space_create T origin code s =
     and_then (ensure_subject T origin) (\<lambda>creator.
     and_then (map_err Module (space_identifier T code creator)) (\<lambda>identifier.
     and_then (ensure (Spaces s identifier = None) (Module SpaceError.SpaceAlreadyAnchored)) (\<lambda>_.
     and_then (map_err Module (authorization_identifier T identifier creator creator)) (\<lambda>authorization_id.
     and_then (ok_or (try_push (unat (MaxSpaceDelegates T)) [] creator)
                 (Module SpaceError.SpaceDelegatesLimitExceeded)) (\<lambda>delegates.
     let s1 = space_anchor identifier authorization_id creator delegates s;
         s2 = space_insert identifier
                \<lparr>space_code = code, space_creator = creator, txn_capacity = 0, txn_reserve = 0,
                 txn_count = 0, approved = \<not> is_permissioned T, archived = False,
                 parent = identifier\<rparr> s1
     in and_then (map_err Module (space_update_activity T identifier IdentifierTypeOf.ChainSpace CallTypeOf.Genesis s2)) (\<lambda>s3.
        Ok (space_deposit_event (SpaceEvent.Create identifier creator authorization_id) s3)))))))"

definition space_approve ::
  "('o, 'c) space_config_scheme \<Rightarrow> 'o \<Rightarrow> ident \<Rightarrow> u64 \<Rightarrow> 'm chain_space_scheme \<Rightarrow> 'm space_dispatch_result" where
  "space_approve T origin space_id capacity s =
     and_then (ensure_governance T origin) (\<lambda>_.
     and_then (ok_or (Spaces s space_id) (Module SpaceError.SpaceNotFound)) (\<lambda>details.
     and_then (ensure (\<not> archived details) (Module SpaceError.ArchivedSpace)) (\<lambda>_.
     and_then (ensure (\<not> approved details) (Module SpaceError.SpaceAlreadyApproved)) (\<lambda>_.
     and_then (map_err Module (space_update_activity T space_id IdentifierTypeOf.ChainSpace CallTypeOf.Approved
                 (space_insert space_id (details\<lparr>txn_capacity := capacity, approved := True\<rparr>) s))) (\<lambda>s1.
     Ok (space_deposit_event (SpaceEvent.Approve space_id) s1))))))"

definition space_archive ::
  "('o, 'c) space_config_scheme \<Rightarrow> 'o \<Rightarrow> ident \<Rightarrow> ident \<Rightarrow> 'm chain_space_scheme \<Rightarrow> 'm space_dispatch_result" where
  "space_archive T origin space_id authorization s =
     and_then (ensure_subject T origin) (\<lambda>creator.
     and_then (map_err Module (ensure_authorization_admin_origin authorization creator s))
       (\<lambda>(auth_space, s1).
     and_then (ensure (auth_space = space_id) (Module SpaceError.UnauthorizedOperation)) (\<lambda>_.
     and_then (ok_or (Spaces s1 space_id) (Module SpaceError.SpaceNotFound)) (\<lambda>details.
     and_then (ensure (\<not> archived details) (Module SpaceError.ArchivedSpace)) (\<lambda>_.
     and_then (ensure (approved details) (Module SpaceError.SpaceNotApproved)) (\<lambda>_.
     and_then (map_err Module (space_update_activity T space_id IdentifierTypeOf.ChainSpace CallTypeOf.Archive
                 (space_insert space_id (details\<lparr>archived := True\<rparr>) s1))) (\<lambda>s2.
     Ok (space_deposit_event (SpaceEvent.Archive space_id creator) s2))))))))"

definition space_restore ::
  "('o, 'c) space_config_scheme \<Rightarrow> 'o \<Rightarrow> ident \<Rightarrow> ident \<Rightarrow> 'm chain_space_scheme \<Rightarrow> 'm space_dispatch_result" where
  "space_restore T origin space_id authorization s =
     and_then (ensure_subject T origin) (\<lambda>creator.
     and_then (map_err Module (ensure_authorization_restore_origin authorization creator s))
       (\<lambda>(auth_space, s1).
     and_then (ensure (auth_space = space_id) (Module SpaceError.UnauthorizedOperation)) (\<lambda>_.
     and_then (ok_or (Spaces s1 space_id) (Module SpaceError.SpaceNotFound)) (\<lambda>details.
     and_then (ensure (archived details) (Module SpaceError.SpaceNotArchived)) (\<lambda>_.
     and_then (ensure (approved details) (Module SpaceError.SpaceNotApproved)) (\<lambda>_.
     and_then (map_err Module (space_update_activity T space_id IdentifierTypeOf.ChainSpace CallTypeOf.Restore
                 (space_insert space_id (details\<lparr>archived := False\<rparr>) s1))) (\<lambda>s2.
     Ok (space_deposit_event (SpaceEvent.Restore space_id creator) s2))))))))"

text \<open>
  The check both capacity updates make against the parent, and the parent's new reserve. The sums
  and differences are Rust's plain operators on \<^verbatim>\<open>u64\<close>, from left to right.
\<close>

definition parent_usage_after ::
  "bool \<Rightarrow> space_details \<Rightarrow> space_details \<Rightarrow> u64 \<Rightarrow> (u64, 'e) result" where
  "parent_usage_after ch pd d new_txn_capacity =
     and_then (plain_add ch (txn_count pd) (txn_reserve pd)) (\<lambda>a.
     and_then (plain_add ch a new_txn_capacity) (\<lambda>b.
     plain_sub ch b (txn_capacity d)))"

definition parent_reserve_after ::
  "bool \<Rightarrow> space_details \<Rightarrow> space_details \<Rightarrow> u64 \<Rightarrow> (u64, 'e) result" where
  "parent_reserve_after ch pd d new_txn_capacity =
     and_then (plain_sub ch (txn_reserve pd) (txn_capacity d)) (\<lambda>a.
     plain_add ch a new_txn_capacity)"

definition space_update_transaction_capacity ::
  "('o, 'c) space_config_scheme \<Rightarrow> 'o \<Rightarrow> ident \<Rightarrow> u64 \<Rightarrow> 'm chain_space_scheme \<Rightarrow> 'm space_dispatch_result" where
  "space_update_transaction_capacity T origin space_id new_txn_capacity s =
     and_then (ensure_governance T origin) (\<lambda>_.
     and_then (ok_or (Spaces s space_id) (Module SpaceError.SpaceNotFound)) (\<lambda>details.
     and_then (ensure (\<not> archived details) (Module SpaceError.ArchivedSpace)) (\<lambda>_.
     and_then (ensure (approved details) (Module SpaceError.SpaceNotApproved)) (\<lambda>_.
     and_then (plain_add (overflow_checks T) (txn_count details) (txn_reserve details)) (\<lambda>usage.
     and_then (ensure (usage \<le> new_txn_capacity) (Module SpaceError.CapacityLessThanUsage)) (\<lambda>_.
     and_then
       (if space_id \<noteq> parent details then
          and_then (ok_or (Spaces s (parent details)) (Module SpaceError.SpaceNotFound)) (\<lambda>pd.
          and_then (parent_usage_after (overflow_checks T) pd details new_txn_capacity) (\<lambda>after.
          and_then (ensure (after \<le> txn_capacity pd) (Module SpaceError.CapacityLessThanUsage)) (\<lambda>_.
          and_then (parent_reserve_after (overflow_checks T) pd details new_txn_capacity) (\<lambda>reserve.
          Ok (space_insert (parent details) (pd\<lparr>txn_reserve := reserve\<rparr>) s)))))
        else Ok s) (\<lambda>s1.
     and_then (map_err Module (space_update_activity T space_id IdentifierTypeOf.ChainSpace CallTypeOf.Capacity
                 (space_insert space_id (details\<lparr>txn_capacity := new_txn_capacity\<rparr>) s1))) (\<lambda>s2.
     Ok (space_deposit_event (SpaceEvent.UpdateCapacity space_id) s2)))))))))"

definition space_reset_transaction_count ::
  "('o, 'c) space_config_scheme \<Rightarrow> 'o \<Rightarrow> ident \<Rightarrow> 'm chain_space_scheme \<Rightarrow> 'm space_dispatch_result" where
  "space_reset_transaction_count T origin space_id s =
     and_then (ok_or (Spaces s space_id) (Module SpaceError.SpaceNotFound)) (\<lambda>details.
     and_then (ensure (\<not> archived details) (Module SpaceError.ArchivedSpace)) (\<lambda>_.
     and_then (ensure (approved details) (Module SpaceError.SpaceNotApproved)) (\<lambda>_.
     and_then
       (if space_id \<noteq> parent details then
          and_then (ensure_subject T origin) (\<lambda>creator.
          and_then (ok_or (Spaces s (parent details)) (Module SpaceError.SpaceNotFound)) (\<lambda>pd.
          ensure (space_creator pd = creator) (Module SpaceError.UnauthorizedOperation)))
        else ensure_governance T origin) (\<lambda>_.
     and_then (map_err Module (space_update_activity T space_id IdentifierTypeOf.ChainSpace CallTypeOf.Usage
                 (space_insert space_id (details\<lparr>txn_count := 0\<rparr>) s))) (\<lambda>s1.
     Ok (space_deposit_event (SpaceEvent.ResetUsage space_id) s1))))))"

definition space_approval_revoke ::
  "('o, 'c) space_config_scheme \<Rightarrow> 'o \<Rightarrow> ident \<Rightarrow> 'm chain_space_scheme \<Rightarrow> 'm space_dispatch_result" where
  "space_approval_revoke T origin space_id s =
     and_then (ensure_governance T origin) (\<lambda>_.
     and_then (ok_or (Spaces s space_id) (Module SpaceError.SpaceNotFound)) (\<lambda>details.
     and_then (ensure (\<not> archived details) (Module SpaceError.ArchivedSpace)) (\<lambda>_.
     and_then (ensure (approved details) (Module SpaceError.SpaceNotApproved)) (\<lambda>_.
     and_then (map_err Module (space_update_activity T space_id IdentifierTypeOf.ChainSpace CallTypeOf.CouncilRevoke
                 (space_insert space_id (details\<lparr>approved := False\<rparr>) s))) (\<lambda>s1.
     Ok (space_deposit_event (SpaceEvent.ApprovalRevoke space_id) s1))))))"

definition space_approval_restore ::
  "('o, 'c) space_config_scheme \<Rightarrow> 'o \<Rightarrow> ident \<Rightarrow> 'm chain_space_scheme \<Rightarrow> 'm space_dispatch_result" where
  "space_approval_restore T origin space_id s =
     and_then (ensure_governance T origin) (\<lambda>_.
     and_then (ok_or (Spaces s space_id) (Module SpaceError.SpaceNotFound)) (\<lambda>details.
     and_then (ensure (\<not> archived details) (Module SpaceError.ArchivedSpace)) (\<lambda>_.
     and_then (ensure (\<not> approved details) (Module SpaceError.SpaceAlreadyApproved)) (\<lambda>_.
     and_then (map_err Module (space_update_activity T space_id IdentifierTypeOf.ChainSpace CallTypeOf.CouncilRestore
                 (space_insert space_id (details\<lparr>approved := True\<rparr>) s))) (\<lambda>s1.
     Ok (space_deposit_event (SpaceEvent.ApprovalRestore space_id) s1))))))"

definition space_subspace_create ::
  "('o, 'c) space_config_scheme \<Rightarrow> 'o \<Rightarrow> hash \<Rightarrow> u64 option \<Rightarrow> ident \<Rightarrow> 'm chain_space_scheme
   \<Rightarrow> 'm space_dispatch_result" where
  "space_subspace_create T origin code count space_id s =
     and_then (ensure_subject T origin) (\<lambda>creator.
     and_then (ok_or (Spaces s space_id) (Module SpaceError.SpaceNotFound)) (\<lambda>details.
     and_then (ensure (\<not> archived details) (Module SpaceError.ArchivedSpace)) (\<lambda>_.
     and_then (ensure (approved details) (Module SpaceError.SpaceNotApproved)) (\<lambda>_.
     and_then (ensure (space_creator details = creator) (Module SpaceError.UnauthorizedOperation)) (\<lambda>_.
     and_then (case count of Some value \<Rightarrow> Ok value
               | None \<Rightarrow> if is_permissioned T then Err (Module SpaceError.CapacityValueMissing) else Ok 0)
       (\<lambda>count.
     and_then (plain_add (overflow_checks T) (txn_count details) (txn_reserve details)) (\<lambda>usage.
     and_then (plain_sub (overflow_checks T) (txn_capacity details) usage) (\<lambda>free.
     and_then (ensure (count \<le> free) (Module SpaceError.CapacityLimitExceeded)) (\<lambda>_.
     and_then (map_err Module (space_identifier T code creator)) (\<lambda>identifier.
     and_then (ensure (Spaces s identifier = None) (Module SpaceError.SpaceAlreadyAnchored)) (\<lambda>_.
     and_then (map_err Module (authorization_identifier T identifier creator creator)) (\<lambda>authorization_id.
     and_then (ok_or (try_push (unat (MaxSpaceDelegates T)) [] creator)
                 (Module SpaceError.SpaceDelegatesLimitExceeded)) (\<lambda>delegates.
     and_then (plain_add (overflow_checks T) (txn_count details) 1) (\<lambda>new_count.
     and_then (plain_add (overflow_checks T) (txn_reserve details) count) (\<lambda>new_reserve.
     let s1 = space_anchor identifier authorization_id creator delegates s;
         s2 = space_insert space_id
                (details\<lparr>txn_count := new_count, txn_reserve := new_reserve\<rparr>) s1;
         s3 = space_insert identifier
                \<lparr>space_code = code, space_creator = creator, txn_capacity = count, txn_reserve = 0,
                 txn_count = 0, approved = True, archived = False, parent = space_id\<rparr> s2
     in and_then (map_err Module (space_update_activity T identifier IdentifierTypeOf.ChainSpace CallTypeOf.Genesis s3)) (\<lambda>s4.
        Ok (space_deposit_event (SpaceEvent.Create identifier creator authorization_id) s4)))))))))))))))))"

definition space_update_transaction_capacity_sub ::
  "('o, 'c) space_config_scheme \<Rightarrow> 'o \<Rightarrow> ident \<Rightarrow> u64 \<Rightarrow> 'm chain_space_scheme \<Rightarrow> 'm space_dispatch_result" where
  "space_update_transaction_capacity_sub T origin space_id new_txn_capacity s =
     and_then (ensure_subject T origin) (\<lambda>creator.
     and_then (ok_or (Spaces s space_id) (Module SpaceError.SpaceNotFound)) (\<lambda>details.
     and_then (ensure (\<not> archived details) (Module SpaceError.ArchivedSpace)) (\<lambda>_.
     and_then (ensure (approved details) (Module SpaceError.SpaceNotApproved)) (\<lambda>_.
     and_then (plain_add (overflow_checks T) (txn_count details) (txn_reserve details)) (\<lambda>usage.
     and_then (ensure (usage \<le> new_txn_capacity) (Module SpaceError.CapacityLessThanUsage)) (\<lambda>_.
     and_then (ensure (parent details \<noteq> space_id) (Module SpaceError.UnauthorizedOperation)) (\<lambda>_.
     and_then (ok_or (Spaces s (parent details)) (Module SpaceError.SpaceNotFound)) (\<lambda>pd.
     and_then (ensure (space_creator pd = creator) (Module SpaceError.UnauthorizedOperation)) (\<lambda>_.
     and_then (parent_usage_after (overflow_checks T) pd details new_txn_capacity) (\<lambda>after.
     and_then (ensure (after \<le> txn_capacity pd) (Module SpaceError.CapacityLessThanUsage)) (\<lambda>_.
     and_then (parent_reserve_after (overflow_checks T) pd details new_txn_capacity) (\<lambda>reserve.
     let s1 = space_insert (parent details) (pd\<lparr>txn_reserve := reserve\<rparr>) s;
         s2 = space_insert space_id (details\<lparr>txn_capacity := new_txn_capacity\<rparr>) s1
     in and_then (map_err Module (space_update_activity T space_id IdentifierTypeOf.ChainSpace CallTypeOf.Capacity s2)) (\<lambda>s3.
        Ok (space_deposit_event (SpaceEvent.UpdateCapacity space_id) s3))))))))))))))"

section \<open>Calls and steps\<close>

datatype SpaceCall =
    AddDelegate ident account ident
  | AddAdminDelegate ident account ident
  | AddDelegator ident account ident
  | RemoveDelegate ident ident ident
  | CreateSpace hash
  | ApproveSpace ident u64
  | ArchiveSpace ident ident
  | RestoreSpace ident ident
  | UpdateTransactionCapacity ident u64
  | ResetTransactionCount ident
  | RevokeApproval ident
  | RestoreApproval ident
  | SubspaceCreate hash "u64 option" ident
  | UpdateTransactionCapacitySub ident u64

fun space_dispatch ::
  "('o, 'c) space_config_scheme \<Rightarrow> 'o \<Rightarrow> SpaceCall \<Rightarrow> 'm chain_space_scheme \<Rightarrow> 'm space_dispatch_result" where
  "space_dispatch T origin (AddDelegate sp d a) s = space_add_delegate T origin sp d a s"
| "space_dispatch T origin (AddAdminDelegate sp d a) s = space_add_admin_delegate T origin sp d a s"
| "space_dispatch T origin (AddDelegator sp d a) s = space_add_delegator T origin sp d a s"
| "space_dispatch T origin (RemoveDelegate sp r a) s = space_remove_delegate T origin sp r a s"
| "space_dispatch T origin (CreateSpace code) s = space_create T origin code s"
| "space_dispatch T origin (ApproveSpace sp c) s = space_approve T origin sp c s"
| "space_dispatch T origin (ArchiveSpace sp a) s = space_archive T origin sp a s"
| "space_dispatch T origin (RestoreSpace sp a) s = space_restore T origin sp a s"
| "space_dispatch T origin (UpdateTransactionCapacity sp c) s =
     space_update_transaction_capacity T origin sp c s"
| "space_dispatch T origin (ResetTransactionCount sp) s = space_reset_transaction_count T origin sp s"
| "space_dispatch T origin (RevokeApproval sp) s = space_approval_revoke T origin sp s"
| "space_dispatch T origin (RestoreApproval sp) s = space_approval_restore T origin sp s"
| "space_dispatch T origin (SubspaceCreate code n sp) s = space_subspace_create T origin code n sp s"
| "space_dispatch T origin (UpdateTransactionCapacitySub sp c) s =
     space_update_transaction_capacity_sub T origin sp c s"

text \<open>A step of the pallet: a call that succeeds, or the block and extrinsic counters moving on.\<close>

inductive space_step :: "('o, 'c) space_config_scheme \<Rightarrow> 'm chain_space_scheme \<Rightarrow> 'm chain_space_scheme \<Rightarrow> bool"
  for T where
  call: "space_dispatch T origin c s = Ok s' \<Longrightarrow> space_step T s s'"
| tick: "space_step T s (s\<lparr>block_number := n, extrinsic_index := x\<rparr>)"

definition space_genesis :: "'m chain_space_scheme \<Rightarrow> bool" where
  "space_genesis s \<longleftrightarrow> Spaces s = Map.empty \<and> Authorizations s = Map.empty \<and>
     (\<forall>i. Delegates s i = []) \<and> Identifiers s = Map.empty"

section \<open>Lemmas: what a successful internal call did\<close>

definition active :: "space_details \<Rightarrow> bool" where
  "active d \<longleftrightarrow> approved d \<and> \<not> archived d"

definition count_up :: "space_details \<Rightarrow> space_details" where
  "count_up d = d\<lparr>txn_count := saturating_add (txn_count d) 1\<rparr>"

definition has_room :: "space_details \<Rightarrow> bool" where
  "has_room d \<longleftrightarrow> txn_capacity d = 0 \<or> txn_count d < txn_capacity d"

lemma Spaces_space_insert [simp]: "Spaces (space_insert i d s) = (Spaces s)(i \<mapsto> d)"
  and space_insert_frame [simp]:
    "Authorizations (space_insert i d s) = Authorizations s"
    "Delegates (space_insert i d s) = Delegates s"
    "Identifiers (space_insert i d s) = Identifiers s"
    "space_events (space_insert i d s) = space_events s"
    "timepoint_now (space_insert i d s) = timepoint_now s"
    "chain_space.more (space_insert i d s) = chain_space.more s"
  by (simp_all add: space_insert_def timepoint_now_def)

lemma deposit_event_frame [simp]:
  "Spaces (space_deposit_event e s) = Spaces s"
  "Authorizations (space_deposit_event e s) = Authorizations s"
  "Delegates (space_deposit_event e s) = Delegates s"
  "Identifiers (space_deposit_event e s) = Identifiers s"
  "space_events (space_deposit_event e s) = space_events s @ [e]"
  "chain_space.more (space_deposit_event e s) = chain_space.more s"
  by (simp_all add: space_deposit_event_def)

lemma space_anchor_frame [simp]:
  "Spaces (space_anchor i a c ds s) = Spaces s"
  "Identifiers (space_anchor i a c ds s) = Identifiers s"
  "Delegates (space_anchor i a c ds s) = (Delegates s)(i := ds)"
  "Authorizations (space_anchor i a c ds s) = (Authorizations s)(a \<mapsto>
     \<lparr>auth_space_id = i, auth_delegate = c, auth_permissions = permissions_all, auth_delegator = c\<rparr>)"
  "chain_space.more (space_anchor i a c ds s) = chain_space.more s"
  by (simp_all add: space_anchor_def)

lemma ensure_subject_Ok_iff [simp]:
  "ensure_subject T origin = Ok c \<longleftrightarrow> (\<exists>sender. EnsureOrigin T origin = Some (c, sender))"
  by (auto simp: ensure_subject_def)

lemma ensure_governance_Ok_iff [simp]: "ensure_governance T origin = Ok u \<longleftrightarrow> ChainSpaceOrigin T origin"
  by (auto simp: ensure_governance_def)

lemma space_update_activity_frame:
  "space_update_activity T i ty a s = Ok s' \<Longrightarrow> \<exists>m. s' = s\<lparr>Identifiers := m\<rparr>"
  by (auto simp: space_update_activity_def Let_def dest!: update_timeline_frame)
    (metis (no_types) identifier_storage.surjective identifier_storage.update_convs(1))

lemma increment_usage_Ok_iff [simp]:
  "increment_usage i s = Ok s' \<longleftrightarrow> (\<exists>d. Spaces s i = Some d \<and> s' = space_insert i (count_up d) s)"
  by (auto simp: increment_usage_def count_up_def split: option.splits)

lemma decrement_usage_Ok_iff [simp]:
  "decrement_usage i s = Ok s' \<longleftrightarrow>
     (\<exists>d. Spaces s i = Some d \<and> s' = space_insert i (d\<lparr>txn_count := saturating_sub (txn_count d) 1\<rparr>) s)"
  by (auto simp: decrement_usage_def split: option.splits)

lemma increment_usage_entries_Ok_iff [simp]:
  "increment_usage_entries i n s = Ok s' \<longleftrightarrow>
     (\<exists>d. Spaces s i = Some d \<and>
          s' = space_insert i (d\<lparr>txn_count := saturating_add (txn_count d) (ucast n)\<rparr>) s)"
  by (auto simp: increment_usage_entries_def split: option.splits)

lemma decrement_usage_entries_Ok_iff [simp]:
  "decrement_usage_entries i n s = Ok s' \<longleftrightarrow>
     (\<exists>d. Spaces s i = Some d \<and>
          s' = space_insert i (d\<lparr>txn_count := saturating_sub (txn_count d) (ucast n)\<rparr>) s)"
  by (auto simp: decrement_usage_entries_def split: option.splits)

lemma validate_space_Ok_iff [simp]:
  "validate_space_for_transaction i s = Ok u \<longleftrightarrow> (\<exists>d. Spaces s i = Some d \<and> active d \<and> has_room d)"
  "validate_space_for_restore_transaction i s = Ok u \<longleftrightarrow>
     (\<exists>d. Spaces s i = Some d \<and> archived d \<and> approved d \<and> has_room d)"
  by (auto simp: validate_space_for_transaction_def validate_space_for_restore_transaction_def
      active_def has_room_def split: if_splits)

lemma count_up_simps [simp]:
  "archived (count_up d) = archived d" "approved (count_up d) = approved d"
  "txn_capacity (count_up d) = txn_capacity d" "txn_reserve (count_up d) = txn_reserve d"
  "parent (count_up d) = parent d" "space_creator (count_up d) = space_creator d"
  "active (count_up d) = active d" "txn_count (count_up d) = saturating_add (txn_count d) 1"
  by (simp_all add: count_up_def active_def)

text \<open>The four checks differ in the permission they ask for and in the state of the space.\<close>

definition authorized ::
  "permissions \<Rightarrow> (space_details \<Rightarrow> bool) \<Rightarrow> ident \<Rightarrow> account \<Rightarrow> 'm chain_space_scheme \<Rightarrow> ident \<Rightarrow> bool" where
  "authorized p ok a who s sp \<longleftrightarrow>
     (\<exists>au d. Authorizations s a = Some au \<and> auth_delegate au = who \<and> auth_space_id au = sp \<and>
             contains (auth_permissions au) p \<and>
             Spaces s sp = Some d \<and> ok d \<and> has_room (count_up d))"

definition count_up_at :: "ident \<Rightarrow> 'm chain_space_scheme \<Rightarrow> 'm chain_space_scheme" where
  "count_up_at sp s = space_insert sp (count_up (the (Spaces s sp))) s"

lemma ensure_authorization_Ok_iff:
  "ensure_authorization_origin a who s = Ok (sp, s') \<longleftrightarrow>
     authorized ASSERT active a who s sp \<and> s' = count_up_at sp s"
  "ensure_authorization_admin_origin a who s = Ok (sp, s') \<longleftrightarrow>
     authorized ADMIN active a who s sp \<and> s' = count_up_at sp s"
  "ensure_authorization_delegator_origin a who s = Ok (sp, s') \<longleftrightarrow>
     authorized (DELEGATE OR ADMIN) active a who s sp \<and> s' = count_up_at sp s"
  "ensure_authorization_restore_origin a who s = Ok (sp, s') \<longleftrightarrow>
     authorized ASSERT (\<lambda>d. archived d \<and> approved d) a who s sp \<and> s' = count_up_at sp s"
  by (auto simp: authorized_def count_up_at_def ensure_authorization_origin_def
      ensure_authorization_admin_origin_def ensure_authorization_delegator_origin_def
      ensure_authorization_restore_origin_def)

lemma ensure_authorization_admin_remove_Ok_iff:
  "ensure_authorization_admin_remove_origin a who s = Ok sp \<longleftrightarrow>
     (\<exists>au d. Authorizations s a = Some au \<and> auth_delegate au = who \<and> auth_space_id au = sp \<and>
             contains (auth_permissions au) ADMIN \<and> Spaces s sp = Some d \<and> active d \<and> has_room d)"
  by (auto simp: ensure_authorization_admin_remove_origin_def)

lemma count_up_at_frame [simp]:
  "Authorizations (count_up_at sp s) = Authorizations s"
  "Delegates (count_up_at sp s) = Delegates s"
  "Identifiers (count_up_at sp s) = Identifiers s"
  "space_events (count_up_at sp s) = space_events s"
  "chain_space.more (count_up_at sp s) = chain_space.more s"
  "Spaces (count_up_at sp s) = (Spaces s)(sp \<mapsto> count_up (the (Spaces s sp)))"
  by (simp_all add: count_up_at_def)

end
