(* ===== verification/Authority.thy ===== *)
theory Authority
  imports Frame
begin

text \<open>
  The interface between the pallets that hand out authorizations (chain-space, registries) and the
  pallets whose calls are checked against them. A check is given an authorization identifier and
  the caller, and returns the space or registry the authorization is for.

  The first locale says that a check accepts exactly the holder of an authorization that grants
  the permission, on a target that is usable. The second adds a usage meter with a limit.
\<close>

fun check_times ::
  "(ident \<Rightarrow> account \<Rightarrow> 's \<Rightarrow> (ident \<times> 's, 'e) result) \<Rightarrow> nat \<Rightarrow> ident \<Rightarrow> account \<Rightarrow> 's \<Rightarrow> ('s, 'e) result" where
  "check_times check 0 a who s = Ok s"
| "check_times check (Suc k) a who s = and_then (check a who s) (\<lambda>(_, s'). check_times check k a who s')"

locale authority =
  fixes check :: "ident \<Rightarrow> account \<Rightarrow> 's \<Rightarrow> (ident \<times> 's, 'e) result"
    and grant :: "'s \<Rightarrow> ident \<Rightarrow> (account \<times> ident) option"
    and usable :: "'s \<Rightarrow> ident \<Rightarrow> bool"
  assumes check_sound: "check a who s = Ok (sp, s') \<Longrightarrow> grant s a = Some (who, sp) \<and> usable s sp"
    and check_complete: "grant s a = Some (who, sp) \<Longrightarrow> usable s sp \<Longrightarrow> \<exists>s'. check a who s = Ok (sp, s')"
    and check_grant: "check a who s = Ok (sp, s') \<Longrightarrow> grant s' = grant s"
begin

lemma check_iff: "(\<exists>s'. check a who s = Ok (sp, s')) \<longleftrightarrow> grant s a = Some (who, sp) \<and> usable s sp"
  using check_sound check_complete by blast

lemma check_holder_only: "check a who s = Ok r \<Longrightarrow> \<exists>sp. grant s a = Some (who, sp) \<and> fst r = sp"
  by (cases r) (auto dest: check_sound)

lemma check_same_target:
  "check a who s = Ok (sp, s') \<Longrightarrow> check a who' s' = Ok (sp', s'') \<Longrightarrow> who' = who \<and> sp' = sp"
  using check_sound [of a who s sp s'] check_sound [of a who' s' sp' s''] check_grant [of a who s sp s']
  by simp

lemma check_times_grant: "check_times check k a who s = Ok s' \<Longrightarrow> grant s' = grant s"
  by (induction k arbitrary: s) (auto dest: check_grant)

end

locale metered_authority = authority +
  fixes meter :: "'s \<Rightarrow> ident \<Rightarrow> nat"
    and limit :: "'s \<Rightarrow> ident \<Rightarrow> nat option"
  assumes usable_below:
      "usable s sp \<Longrightarrow> limit s sp = Some l \<Longrightarrow> Suc (meter s sp) < l"
    and check_meter: "check a who s = Ok (sp, s') \<Longrightarrow> limit s sp = Some l \<Longrightarrow>
       meter s' sp = Suc (meter s sp) \<and> limit s' sp = Some l"
    and usable_again: "check a who s = Ok (sp, s') \<Longrightarrow> limit s sp = Some l \<Longrightarrow>
       Suc (meter s' sp) < l \<Longrightarrow> usable s' sp"
begin

text \<open>The number of checks a limited target still accepts: a limit of \<open>l\<close> is used up at \<open>l - 1\<close>.\<close>

lemma check_times_iff:
  assumes "grant s a = Some (who, sp)" "limit s sp = Some l" "usable s sp"
  shows "(\<exists>s'. check_times check k a who s = Ok s') \<longleftrightarrow> k = 0 \<or> meter s sp + k < l"
  using assms
proof (induction k arbitrary: s)
  case 0
  then show ?case by simp
next
  case (Suc k)
  from check_complete [OF Suc.prems(1,3)] obtain t where t: "check a who s = Ok (sp, t)" by blast
  note m = check_meter [OF t Suc.prems(2)]
  have g: "grant t a = Some (who, sp)"
    using check_grant [OF t] Suc.prems(1) by simp
  have below: "Suc (meter s sp) < l"
    by (rule usable_below [OF Suc.prems(3,2)])
  show ?case
  proof (cases "usable t sp")
    case True
    from Suc.IH [OF g _ True] m show ?thesis
      using below by (auto simp: t)
  next
    case False
    then have "\<not> Suc (meter t sp) < l"
      using usable_again [OF t Suc.prems(2)] by blast
    moreover have "check a who t \<noteq> Ok r" for r
      using False g check_sound [of a who t "fst r" "snd r"] by auto
    then have "check_times check k a who t = Ok s' \<Longrightarrow> k = 0" for s'
      by (cases k) auto
    ultimately show ?thesis
      using m below by (cases k) (auto simp: t)
  qed
qed

end

end
