(* ===== verification/Chain_Space_Authority.thy ===== *)
theory Chain_Space_Authority
  imports Chain_Space Authority
begin

text \<open>
  The chain-space pallet as an authority, the interface the schema, statement, asset and score
  pallets use, and its timeline as an activity log.
\<close>

definition space_grant :: "permissions \<Rightarrow> 'm chain_space_scheme \<Rightarrow> ident \<Rightarrow> (account \<times> ident) option" where
  "space_grant p s a =
     (case Authorizations s a of
        Some au \<Rightarrow> if contains (auth_permissions au) p then Some (auth_delegate au, auth_space_id au) else None
      | None \<Rightarrow> None)"

definition space_usable :: "(space_details \<Rightarrow> bool) \<Rightarrow> 'm chain_space_scheme \<Rightarrow> ident \<Rightarrow> bool" where
  "space_usable ok s sp \<longleftrightarrow>
     (case Spaces s sp of Some d \<Rightarrow> ok d \<and> has_room (count_up d) | None \<Rightarrow> False)"

definition space_meter :: "'m chain_space_scheme \<Rightarrow> ident \<Rightarrow> nat" where
  "space_meter s sp = (case Spaces s sp of Some d \<Rightarrow> unat (txn_count d) | None \<Rightarrow> 0)"

definition space_limit :: "'m chain_space_scheme \<Rightarrow> ident \<Rightarrow> nat option" where
  "space_limit s sp =
     (case Spaces s sp of
        Some d \<Rightarrow> if txn_capacity d = 0 then None else Some (unat (txn_capacity d)) | None \<Rightarrow> None)"

lemma has_room_count_up_iff:
  "has_room (count_up d) \<longleftrightarrow> txn_capacity d = 0 \<or> Suc (unat (txn_count d)) < unat (txn_capacity d)"
proof (cases "unat (txn_count d) + 1 < 2 ^ 64")
  case True
  then show ?thesis
    by (auto simp: has_room_def word_less_nat_alt unat_saturating_add)
next
  case False
  then show ?thesis
    using unat_bound [of "txn_capacity d"] by (auto simp: has_room_def word_less_nat_alt unat_saturating_add)
qed

lemma authorized_iff_grant:
  "authorized p ok a who s sp \<longleftrightarrow> space_grant p s a = Some (who, sp) \<and> space_usable ok s sp"
  by (auto simp: authorized_def space_grant_def space_usable_def split: option.splits if_splits)

lemma space_grant_count_up_at [simp]: "space_grant p (count_up_at sp s) = space_grant p s"
  by (auto simp: space_grant_def fun_eq_iff split: option.splits)

lemma meter_count_up_at:
  assumes "space_usable ok s sp" "space_limit s sp = Some l"
  shows "space_meter (count_up_at sp s) sp = Suc (space_meter s sp)"
    and "space_limit (count_up_at sp s) sp = Some l"
    and "Suc (space_meter s sp) < l"
proof -
  obtain d where d: "Spaces s sp = Some d" "has_room (count_up d)" "txn_capacity d \<noteq> 0"
      "l = unat (txn_capacity d)"
    using assms by (auto simp: space_usable_def space_limit_def split: option.splits if_splits)
  then have "Suc (unat (txn_count d)) < unat (txn_capacity d)"
    by (simp add: has_room_count_up_iff)
  moreover have "unat (txn_capacity d) < 2 ^ 64"
    using unat_bound [of "txn_capacity d"] by simp
  ultimately show "space_meter (count_up_at sp s) sp = Suc (space_meter s sp)"
    and "space_limit (count_up_at sp s) sp = Some l" and "Suc (space_meter s sp) < l"
    using d by (simp_all add: space_meter_def space_limit_def unat_saturating_add)
qed

lemma usable_count_up_at:
  assumes "space_usable active s sp" "space_limit s sp = Some l"
    and "Suc (space_meter (count_up_at sp s) sp) < l"
  shows "space_usable active (count_up_at sp s) sp"
  using assms meter_count_up_at(1) [OF assms(1,2)]
  by (auto simp: space_usable_def space_limit_def space_meter_def has_room_count_up_iff
      split: option.splits if_splits)

interpretation space_assert: metered_authority ensure_authorization_origin "space_grant ASSERT"
  "space_usable active" space_meter space_limit
  by unfold_locales
    (auto simp: ensure_authorization_Ok_iff authorized_iff_grant meter_count_up_at
      intro: usable_count_up_at)

interpretation space_admin: metered_authority ensure_authorization_admin_origin "space_grant ADMIN"
  "space_usable active" space_meter space_limit
  by unfold_locales
    (auto simp: ensure_authorization_Ok_iff authorized_iff_grant meter_count_up_at
      intro: usable_count_up_at)

interpretation space_delegator: metered_authority ensure_authorization_delegator_origin
  "space_grant (DELEGATE OR ADMIN)" "space_usable active" space_meter space_limit
  by unfold_locales
    (auto simp: ensure_authorization_Ok_iff authorized_iff_grant meter_count_up_at
      intro: usable_count_up_at)

interpretation space_restorer: authority ensure_authorization_restore_origin "space_grant ASSERT"
  "space_usable (\<lambda>d. archived d \<and> approved d)"
  by unfold_locales (auto simp: ensure_authorization_Ok_iff authorized_iff_grant)

interpretation space_log: activity_log "\<lambda>i. space_update_activity T i ty" "\<lambda>s i. timeline s i ty"
  timepoint_now "unat (MaxEventsHistory T)" for T ty
proof (unfold_locales, goal_cases)
  case (1 s i a)
  then show ?case
    using update_timeline_total [of T s i ty] by (force simp: space_update_activity_def Let_def)
next
  case (2 s i a s')
  then show ?case
    using update_timeline_total [of T s i ty "\<lparr>action = a, location = timepoint_now s\<rparr>"]
    by (auto simp: space_update_activity_def Let_def update_timeline_entries)
next
  case (3 i a s s' j)
  then show ?case
    by (auto simp: space_update_activity_def Let_def dest: update_timeline_other)
qed

end
