(* ===== verification/Chain_Space_Invariants.thy ===== *)
theory Chain_Space_Invariants
  imports Chain_Space_Authority
begin

text \<open>
  Invariants of the chain-space pallet over all its calls.

  \<open>space_wf\<close>: every authorization is for an existing space and carries one of the four permission
  sets the code hands out, parents exist, delegate lists stay within their bound and belong to
  existing spaces, timelines stay within theirs.

  \<open>reserve_exact\<close>: the reserve of a space is the sum, modulo \<open>2 ^ 64\<close>, of the capacities of its
  sub-spaces. All calls keep it but \<open>approve\<close> on a sub-space.
\<close>

section \<open>Well-formed storage\<close>

definition space_wf :: "('o, 'c) space_config_scheme \<Rightarrow> 'm chain_space_scheme \<Rightarrow> bool" where
  "space_wf T s \<longleftrightarrow>
     finite (dom (Spaces s)) \<and>
     (\<forall>i d. Spaces s i = Some d \<longrightarrow> parent d \<in> dom (Spaces s)) \<and>
     (\<forall>a au. Authorizations s a = Some au \<longrightarrow>
        auth_space_id au \<in> dom (Spaces s) \<and>
        auth_permissions au \<in> {ASSERT, DELEGATE, ADMIN, permissions_all}) \<and>
     (\<forall>i. length (Delegates s i) \<le> unat (MaxSpaceDelegates T)) \<and>
     (\<forall>i. Delegates s i \<noteq> [] \<longrightarrow> i \<in> dom (Spaces s)) \<and>
     (\<forall>i ty. length (timeline s i ty) \<le> unat (MaxEventsHistory T))"

lemma timeline_cong: "Identifiers s = Identifiers s' \<Longrightarrow> timeline s = timeline s'"
  by (simp add: timeline_def fun_eq_iff)

lemma space_wf_cong:
  assumes "Spaces s = Spaces s'" "Authorizations s = Authorizations s'" "Delegates s = Delegates s'"
    and "Identifiers s = Identifiers s'"
  shows "space_wf T s = space_wf T s'"
  using assms timeline_cong [OF assms(4)] by (simp add: space_wf_def)

lemma space_wf_deposit [simp]: "space_wf T (space_deposit_event e s) = space_wf T s"
  by (rule space_wf_cong) simp_all

lemma space_wf_tick [simp]: "space_wf T (s\<lparr>block_number := n, extrinsic_index := x\<rparr>) = space_wf T s"
  by (rule space_wf_cong) simp_all

lemma update_timeline_bound:
  assumes "update_timeline T i ty e s = Ok s'" "\<forall>i ty. length (timeline s i ty) \<le> unat (MaxEventsHistory T)"
  shows "length (timeline s' j ty') \<le> unat (MaxEventsHistory T)"
proof (cases "(j, ty') = (i, ty)")
  case True
  with assms show ?thesis
    by (auto simp: update_timeline_def timeline_def Let_def vec_remove_Ok_iff split: if_splits)
next
  case False
  with assms update_timeline_other [OF assms(1)] show ?thesis by auto
qed

lemma space_wf_activity:
  assumes "space_update_activity T i ty a s = Ok s'" "space_wf T s"
  shows "space_wf T s'"
proof -
  from space_update_activity_frame [OF assms(1)] obtain m where s': "s' = s\<lparr>Identifiers := m\<rparr>" ..
  have "length (timeline s' j ty') \<le> unat (MaxEventsHistory T)" for j ty'
    using assms update_timeline_bound [of T i ty _ s s' j ty']
    by (auto simp: space_update_activity_def Let_def space_wf_def)
  with assms(2) show ?thesis by (simp add: space_wf_def s')
qed

lemma space_wf_insert:
  "space_wf T s \<Longrightarrow> parent d \<in> insert i (dom (Spaces s)) \<Longrightarrow> space_wf T (space_insert i d s)"
  by (auto simp: space_wf_def timeline_def)

lemma space_wf_parent: "space_wf T s \<Longrightarrow> Spaces s i = Some d \<Longrightarrow> parent d \<in> dom (Spaces s)"
  by (auto simp: space_wf_def)

lemma space_wf_count_up_at:
  "space_wf T s \<Longrightarrow> Spaces s sp = Some d \<Longrightarrow> space_wf T (count_up_at sp s)"
  unfolding count_up_at_def by (rule space_wf_insert) (auto dest: space_wf_parent)

lemma space_wf_anchor:
  assumes "space_wf T s" "Spaces s i = Some d" "length ds \<le> unat (MaxSpaceDelegates T)"
  shows "space_wf T (space_anchor i a c ds s)"
  using assms by (auto simp: space_wf_def timeline_def)

lemma space_anchor_insert: "space_insert j d (space_anchor i a c ds s) = space_anchor i a c ds (space_insert j d s)"
  by (simp add: space_insert_def space_anchor_def)

lemma space_wf_grant:
  assumes "space_wf T s" "Spaces s i = Some d" "length ds \<le> unat (MaxSpaceDelegates T)"
    and "p \<in> {ASSERT, DELEGATE, ADMIN, permissions_all}"
  shows "space_wf T (s\<lparr>Delegates := (Delegates s)(i := ds),
     Authorizations := (Authorizations s)(a \<mapsto>
       \<lparr>auth_space_id = i, auth_delegate = x, auth_permissions = p, auth_delegator = y\<rparr>)\<rparr>)"
  using assms by (auto simp: space_wf_def timeline_def)

lemma space_wf_ungrant:
  assumes "space_wf T s" "Spaces s i = Some d" "length ds \<le> length (Delegates s i)"
  shows "space_wf T (s\<lparr>Delegates := (Delegates s)(i := ds),
     Authorizations := (Authorizations s)(a := None)\<rparr>)"
  using assms by (auto simp: space_wf_def timeline_def intro: order_trans)

lemmas space_wf_intros = space_wf_activity space_wf_insert space_wf_count_up_at space_wf_anchor

lemma space_delegate_addition_OkE:
  assumes "space_delegate_addition T i x y p s = Ok s'"
  obtains aid t where
    "authorization_identifier T i x y = Ok aid" "Authorizations s aid = None"
    "length (Delegates s i) < unat (MaxSpaceDelegates T)"
    "space_update_activity T i IdentifierTypeOf.Auth CallTypeOf.Authorization
       (s\<lparr>Delegates := (Delegates s)(i := Delegates s i @ [x]),
          Authorizations := (Authorizations s)(aid \<mapsto>
            \<lparr>auth_space_id = i, auth_delegate = x, auth_permissions = p, auth_delegator = y\<rparr>)\<rparr>) = Ok t"
    "s' = space_deposit_event (SpaceEvent.Authorization i aid x) t"
  using assms by (simp add: space_delegate_addition_def Let_def) blast

lemma space_wf_delegate_addition:
  assumes "space_delegate_addition T i x y p s = Ok s'" "space_wf T s" "Spaces s i = Some d"
    and "p \<in> {ASSERT, DELEGATE, ADMIN, permissions_all}"
  shows "space_wf T s'"
  using assms(1)
proof (rule space_delegate_addition_OkE)
  fix aid t
  assume room: "length (Delegates s i) < unat (MaxSpaceDelegates T)"
    and act: "space_update_activity T i IdentifierTypeOf.Auth CallTypeOf.Authorization
       (s\<lparr>Delegates := (Delegates s)(i := Delegates s i @ [x]),
          Authorizations := (Authorizations s)(aid \<mapsto>
            \<lparr>auth_space_id = i, auth_delegate = x, auth_permissions = p, auth_delegator = y\<rparr>)\<rparr>) = Ok t"
    and s': "s' = space_deposit_event (SpaceEvent.Authorization i aid x) t"
  from room have "length (Delegates s i @ [x]) \<le> unat (MaxSpaceDelegates T)" by simp
  then show ?thesis
    using space_wf_activity [OF act] space_wf_grant [OF assms(2,3) _ assms(4)] s' by simp
qed

lemma authorized_space: "authorized p ok a who s sp \<Longrightarrow> \<exists>d. Spaces s sp = Some d"
  by (auto simp: authorized_def)

lemma space_wf_authorized: "authorized p ok a who s sp \<Longrightarrow> space_wf T s \<Longrightarrow> space_wf T (count_up_at sp s)"
  by (auto dest: authorized_space intro: space_wf_count_up_at)

text \<open>Every call that writes one space, keeping its parent.\<close>

lemma space_wf_write:
  assumes "space_update_activity T i ty a (space_insert j d s) = Ok t" "space_wf T s"
    and "Spaces s j = Some d0" "parent d = parent d0"
  shows "space_wf T t"
  using assms by (auto intro!: space_wf_activity [OF assms(1)] space_wf_insert dest: space_wf_parent)

lemma space_wf_delegations:
  assumes "space_wf T s"
  shows "space_add_delegate T origin sp x a s = Ok s' \<Longrightarrow> space_wf T s'"
    and "space_add_admin_delegate T origin sp x a s = Ok s' \<Longrightarrow> space_wf T s'"
    and "space_add_delegator T origin sp x a s = Ok s' \<Longrightarrow> space_wf T s'"
  using assms
  by (auto simp: space_add_delegate_def space_add_admin_delegate_def space_add_delegator_def
      ensure_authorization_Ok_iff dest: space_wf_authorized elim!: space_wf_delegate_addition)

lemma space_remove_delegate_OkE:
  assumes "space_remove_delegate T origin sp r a s = Ok s'"
  obtains who sender au d rau t where
    "EnsureOrigin T origin = Some (who, sender)"
    "Authorizations s a = Some au" "auth_delegate au = who" "auth_space_id au = sp"
    "contains (auth_permissions au) ADMIN" "Spaces s sp = Some d" "active d" "has_room d"
    "Authorizations s r = Some rau" "auth_delegate rau \<in> set (Delegates s sp)"
    "space_update_activity T sp IdentifierTypeOf.Auth CallTypeOf.Deauthorization
       (space_insert sp (d\<lparr>txn_count := saturating_sub (txn_count d) 1\<rparr>)
         (s\<lparr>Delegates := (Delegates s)(sp := remove1 (auth_delegate rau) (Delegates s sp)),
            Authorizations := (Authorizations s)(r := None)\<rparr>)) = Ok t"
    "s' = space_deposit_event (SpaceEvent.Deauthorization sp r) t"
proof -
  from assms obtain rau idx where
    rau: "Authorizations s r = Some rau" "position (auth_delegate rau) (Delegates s sp) = Some idx"
    by (auto simp: space_remove_delegate_def split: option.splits)
  have mem: "auth_delegate rau \<in> set (Delegates s sp)"
    using position_Some [OF rau(2)] by (metis nth_mem)
  show thesis
    using assms rau mem position_remove1 [OF rau(2)] that
    by (auto simp: space_remove_delegate_def ensure_authorization_admin_remove_Ok_iff Let_def
        vec_remove_Ok_iff)
qed

lemma space_wf_remove_delegate:
  assumes "space_remove_delegate T origin sp r a s = Ok s'" "space_wf T s"
  shows "space_wf T s'"
  using assms(1)
proof (rule space_remove_delegate_OkE)
  fix d rau t
  assume d: "Spaces s sp = Some d" and
    act: "space_update_activity T sp IdentifierTypeOf.Auth CallTypeOf.Deauthorization
       (space_insert sp (d\<lparr>txn_count := saturating_sub (txn_count d) 1\<rparr>)
         (s\<lparr>Delegates := (Delegates s)(sp := remove1 (auth_delegate rau) (Delegates s sp)),
            Authorizations := (Authorizations s)(r := None)\<rparr>)) = Ok t" and
    s': "s' = space_deposit_event (SpaceEvent.Deauthorization sp r) t"
  have "length (remove1 (auth_delegate rau) (Delegates s sp)) \<le> length (Delegates s sp)"
    by (simp add: length_remove1)
  from space_wf_write [OF act space_wf_ungrant [OF assms(2) d this]] d s' show ?thesis by simp
qed

lemma space_wf_writes:
  assumes "space_wf T s"
  shows "space_approve T origin sp n s = Ok s' \<Longrightarrow> space_wf T s'"
    and "space_reset_transaction_count T origin sp s = Ok s' \<Longrightarrow> space_wf T s'"
    and "space_approval_revoke T origin sp s = Ok s' \<Longrightarrow> space_wf T s'"
    and "space_approval_restore T origin sp s = Ok s' \<Longrightarrow> space_wf T s'"
  using assms
  by (auto simp: space_approve_def space_reset_transaction_count_def space_approval_revoke_def
      space_approval_restore_def elim!: space_wf_write)

lemma space_wf_archive_restore:
  assumes "space_wf T s"
  shows "space_archive T origin sp a s = Ok s' \<Longrightarrow> space_wf T s'"
    and "space_restore T origin sp a s = Ok s' \<Longrightarrow> space_wf T s'"
  using assms
  by (auto simp: space_archive_def space_restore_def ensure_authorization_Ok_iff
      dest: space_wf_authorized elim!: space_wf_write)

lemma space_create_OkE:
  assumes "space_create T origin code s = Ok s'"
  obtains who sender i aid t where
    "EnsureOrigin T origin = Some (who, sender)"
    "space_identifier T code who = Ok i" "Spaces s i = None"
    "authorization_identifier T i who who = Ok aid" "0 < unat (MaxSpaceDelegates T)"
    "space_update_activity T i IdentifierTypeOf.ChainSpace CallTypeOf.Genesis
       (space_insert i \<lparr>space_code = code, space_creator = who, txn_capacity = 0, txn_reserve = 0,
          txn_count = 0, approved = \<not> is_permissioned T, archived = False, parent = i\<rparr>
          (space_anchor i aid who [who] s)) = Ok t"
    "s' = space_deposit_event (SpaceEvent.Create i who aid) t"
  using assms by (simp add: space_create_def Let_def) blast

lemma count_or_zero_Ok_iff:
  "(case count of Some v \<Rightarrow> Ok v | None \<Rightarrow> if b then Err e else Ok 0) = Ok n \<longleftrightarrow>
     n = (case count of Some v \<Rightarrow> v | None \<Rightarrow> 0) \<and> (count = None \<longrightarrow> \<not> b)"
  by (auto split: option.splits)

lemma space_subspace_create_OkE:
  assumes "space_subspace_create T origin code count sp s = Ok s'"
  obtains who sender d n i aid t where
    "EnsureOrigin T origin = Some (who, sender)" "Spaces s sp = Some d" "active d"
    "space_creator d = who"
    "n = (case count of Some v \<Rightarrow> v | None \<Rightarrow> 0)" "count = None \<longrightarrow> \<not> is_permissioned T"
    "n \<le> txn_capacity d - (txn_count d + txn_reserve d)"
    "space_identifier T code who = Ok i" "Spaces s i = None"
    "authorization_identifier T i who who = Ok aid" "0 < unat (MaxSpaceDelegates T)"
    "space_update_activity T i IdentifierTypeOf.ChainSpace CallTypeOf.Genesis
       (space_insert i \<lparr>space_code = code, space_creator = who, txn_capacity = n, txn_reserve = 0,
          txn_count = 0, approved = True, archived = False, parent = sp\<rparr>
        (space_insert sp (d\<lparr>txn_count := txn_count d + 1, txn_reserve := txn_reserve d + n\<rparr>)
          (space_anchor i aid who [who] s))) = Ok t"
    "s' = space_deposit_event (SpaceEvent.Create i who aid) t"
  using assms
  by (clarsimp simp: space_subspace_create_def Let_def count_or_zero_Ok_iff dest!: plain_OkD)
    (rule that, (assumption | rule refl | simp add: active_def)+)


text \<open>Both capacity updates move the difference into the parent's reserve.\<close>

definition recapacity :: "ident \<Rightarrow> space_details \<Rightarrow> u64 \<Rightarrow> 'm chain_space_scheme \<Rightarrow> 'm chain_space_scheme" where
  "recapacity sp d n s =
     space_insert sp (d\<lparr>txn_capacity := n\<rparr>)
       (if parent d = sp then s
        else (let pd = the (Spaces s (parent d))
              in space_insert (parent d) (pd\<lparr>txn_reserve := txn_reserve pd - txn_capacity d + n\<rparr>) s))"

lemma parent_after_OkD:
  "parent_usage_after ch pd d n = Ok x \<Longrightarrow> x = txn_count pd + txn_reserve pd + n - txn_capacity d"
  "parent_reserve_after ch pd d n = Ok x \<Longrightarrow> x = txn_reserve pd - txn_capacity d + n"
  by (auto simp: parent_usage_after_def parent_reserve_after_def dest!: plain_OkD)

lemma space_update_transaction_capacity_OkE:
  assumes "space_update_transaction_capacity T origin sp n s = Ok s'"
  obtains d t where
    "ChainSpaceOrigin T origin" "Spaces s sp = Some d" "active d" "txn_count d + txn_reserve d \<le> n"
    "parent d \<in> dom (Spaces s)"
    "space_update_activity T sp IdentifierTypeOf.ChainSpace CallTypeOf.Capacity (recapacity sp d n s) = Ok t"
    "s' = space_deposit_event (SpaceEvent.UpdateCapacity sp) t"
  using assms that
  by (fastforce simp: space_update_transaction_capacity_def active_def recapacity_def
      dest!: plain_OkD parent_after_OkD split: if_splits)

lemma space_update_transaction_capacity_sub_OkE:
  assumes "space_update_transaction_capacity_sub T origin sp n s = Ok s'"
  obtains who sender d pd t where
    "EnsureOrigin T origin = Some (who, sender)" "Spaces s sp = Some d" "active d"
    "txn_count d + txn_reserve d \<le> n" "parent d \<noteq> sp" "Spaces s (parent d) = Some pd"
    "space_creator pd = who"
    "space_update_activity T sp IdentifierTypeOf.ChainSpace CallTypeOf.Capacity (recapacity sp d n s) = Ok t"
    "s' = space_deposit_event (SpaceEvent.UpdateCapacity sp) t"
  using assms that
  by (fastforce simp: space_update_transaction_capacity_sub_def active_def recapacity_def
      dest!: plain_OkD parent_after_OkD split: if_splits)

lemma space_wf_recapacity:
  assumes "space_wf T s" "Spaces s sp = Some d"
  shows "space_wf T (recapacity sp d n s)"
proof -
  obtain pd where pd: "Spaces s (parent d) = Some pd"
    using space_wf_parent [OF assms] by auto
  show ?thesis
    using assms pd space_wf_parent [OF assms] space_wf_parent [OF assms(1) pd]
    by (auto simp: recapacity_def Let_def intro!: space_wf_insert)
qed

lemma space_wf_capacity:
  assumes "space_wf T s"
  shows "space_update_transaction_capacity T origin sp n s = Ok s' \<Longrightarrow> space_wf T s'"
    and "space_update_transaction_capacity_sub T origin sp n s = Ok s' \<Longrightarrow> space_wf T s'"
  by (erule space_update_transaction_capacity_OkE, simp, erule space_wf_activity,
      rule space_wf_recapacity [OF assms], assumption)
    (erule space_update_transaction_capacity_sub_OkE, simp, erule space_wf_activity,
      rule space_wf_recapacity [OF assms], assumption)

lemma space_wf_new:
  assumes "space_wf T s" "0 < unat (MaxSpaceDelegates T)" "parent d \<in> insert i (dom (Spaces s))"
  shows "space_wf T (space_insert i d (space_anchor i aid who [who] s))"
  unfolding space_anchor_insert using assms
  by (intro space_wf_anchor [of _ _ i d]) (auto intro: space_wf_insert)

lemma space_wf_create:
  assumes "space_create T origin code s = Ok s'" "space_wf T s"
  shows "space_wf T s'"
  using assms(1)
  by (rule space_create_OkE)
    (simp, erule space_wf_activity, rule space_wf_new [OF assms(2)], simp_all)

lemma space_wf_subspace_create:
  assumes "space_subspace_create T origin code count sp s = Ok s'" "space_wf T s"
  shows "space_wf T s'"
  using assms(1)
proof (rule space_subspace_create_OkE)
  fix who d n i aid t
  assume d: "Spaces s sp = Some d" and pos: "0 < unat (MaxSpaceDelegates T)"
    and s': "s' = space_deposit_event (SpaceEvent.Create i who aid) t"
    and act: "space_update_activity T i IdentifierTypeOf.ChainSpace CallTypeOf.Genesis
       (space_insert i \<lparr>space_code = code, space_creator = who, txn_capacity = n, txn_reserve = 0,
          txn_count = 0, approved = True, archived = False, parent = sp\<rparr>
        (space_insert sp (d\<lparr>txn_count := txn_count d + 1, txn_reserve := txn_reserve d + n\<rparr>)
          (space_anchor i aid who [who] s))) = Ok t"
  let ?u = "space_insert sp (d\<lparr>txn_count := txn_count d + 1, txn_reserve := txn_reserve d + n\<rparr>) s"
  have "space_wf T ?u"
    using assms(2) space_wf_parent [OF assms(2) d] by (intro space_wf_insert) auto
  then have "space_wf T t"
    using pos by (intro space_wf_activity [OF act], unfold space_anchor_insert [of sp]) (rule space_wf_new, auto)
  with s' show ?thesis by simp
qed

lemma space_wf_dispatch:
  assumes "space_dispatch T origin c s = Ok s'" "space_wf T s"
  shows "space_wf T s'"
  using assms
  by (cases c) (auto intro: space_wf_delegations space_wf_remove_delegate space_wf_writes
      space_wf_archive_restore space_wf_capacity space_wf_create space_wf_subspace_create)

lemma space_wf_genesis: "space_genesis s \<Longrightarrow> space_wf T s"
  by (simp add: space_genesis_def space_wf_def timeline_def)

interpretation space_inv: invariant_system space_genesis "space_step T" "space_wf T" for T
  by unfold_locales (auto simp: space_wf_genesis elim!: space_step.cases intro: space_wf_dispatch)

section \<open>The life of one space\<close>

text \<open>
  The abstract machine of a single space: what may happen to its record in one call. The pallet
  refines it: every call takes each existing space through one of these steps and removes none.
\<close>

inductive life_step ::
  "('o, 'c) space_config_scheme \<Rightarrow> 'o \<Rightarrow> space_details \<Rightarrow> space_details \<Rightarrow> bool" for T origin where
  stay: "life_step T origin d d"
| transact: "active d \<Longrightarrow> has_room (count_up d) \<Longrightarrow> life_step T origin d (count_up d)"
| refund: "active d \<Longrightarrow> life_step T origin d (d\<lparr>txn_count := saturating_sub (txn_count d) 1\<rparr>)"
| approve: "ChainSpaceOrigin T origin \<Longrightarrow> \<not> archived d \<Longrightarrow> \<not> approved d \<Longrightarrow>
    life_step T origin d (d\<lparr>txn_capacity := n, approved := True\<rparr>)"
| approval_restore: "ChainSpaceOrigin T origin \<Longrightarrow> \<not> archived d \<Longrightarrow> \<not> approved d \<Longrightarrow>
    life_step T origin d (d\<lparr>approved := True\<rparr>)"
| approval_revoke: "ChainSpaceOrigin T origin \<Longrightarrow> active d \<Longrightarrow> life_step T origin d (d\<lparr>approved := False\<rparr>)"
| archive: "active d \<Longrightarrow> has_room (count_up d) \<Longrightarrow>
    life_step T origin d ((count_up d)\<lparr>archived := True\<rparr>)"
| restore: "archived d \<Longrightarrow> approved d \<Longrightarrow> has_room (count_up d) \<Longrightarrow>
    life_step T origin d ((count_up d)\<lparr>archived := False\<rparr>)"
| resize: "active d \<Longrightarrow> txn_count d + txn_reserve d \<le> n \<Longrightarrow> life_step T origin d (d\<lparr>txn_capacity := n\<rparr>)"
| reset: "active d \<Longrightarrow> life_step T origin d (d\<lparr>txn_count := 0\<rparr>)"
| branch: "active d \<Longrightarrow>
    life_step T origin d (d\<lparr>txn_count := txn_count d + 1, txn_reserve := txn_reserve d + n\<rparr>)"
| child_resize: "life_step T origin d (d\<lparr>txn_reserve := r\<rparr>)"

inductive_cases life_stepE: "life_step T origin d d'"

lemma life_step_fixed:
  "life_step T origin d d' \<Longrightarrow>
     space_code d' = space_code d \<and> space_creator d' = space_creator d \<and> parent d' = parent d"
  by (induction rule: life_step.induct) (auto simp: count_up_def)

text \<open>The calls that write the record of one space and leave its lineage alone.\<close>

definition one_space_effect ::
  "('o, 'c) space_config_scheme \<Rightarrow> 'o \<Rightarrow> SpaceCall \<Rightarrow> 'm chain_space_scheme \<Rightarrow> 'm chain_space_scheme \<Rightarrow> bool" where
  "one_space_effect T origin c s s' \<longleftrightarrow>
     (\<exists>i d d'. Spaces s i = Some d \<and> Spaces s' = (Spaces s)(i \<mapsto> d') \<and> life_step T origin d d' \<and>
        txn_reserve d' = txn_reserve d \<and>
        (txn_capacity d' = txn_capacity d \<or> (\<exists>n. c = ApproveSpace i n)))"

lemma space_update_activity_Spaces:
  "space_update_activity T i ty a s = Ok s' \<Longrightarrow> Spaces s' = Spaces s" for s :: "'m chain_space_scheme"
  by (drule space_update_activity_frame) auto

lemma space_delegate_addition_Spaces:
  "space_delegate_addition T i x y p s = Ok s' \<Longrightarrow> Spaces s' = Spaces s"
  by (erule space_delegate_addition_OkE) (auto dest!: space_update_activity_Spaces)

lemma authorized_life:
  assumes "authorized p ok a who s sp"
  obtains d where "Spaces s sp = Some d" "ok d" "has_room (count_up d)"
  using assms by (auto simp: authorized_def)

lemma one_space_effect_delegations:
  "space_dispatch T origin c s = Ok s' \<Longrightarrow>
   c \<in> {AddDelegate sp x a, AddAdminDelegate sp x a, AddDelegator sp x a} \<Longrightarrow>
   one_space_effect T origin c s s'"
  by (auto simp: space_add_delegate_def space_add_admin_delegate_def space_add_delegator_def
      ensure_authorization_Ok_iff one_space_effect_def
      dest!: space_delegate_addition_Spaces elim!: authorized_life
      intro!: exI [of _ sp] life_step.transact)

lemma one_space_effect_remove:
  "space_dispatch T origin (RemoveDelegate sp r a) s = Ok s' \<Longrightarrow>
   one_space_effect T origin (RemoveDelegate sp r a) s s'"
  by (auto simp: one_space_effect_def dest!: space_update_activity_Spaces
      elim!: space_remove_delegate_OkE intro!: exI [of _ sp] life_step.refund)

lemma one_space_effect_archive:
  "space_dispatch T origin c s = Ok s' \<Longrightarrow> c \<in> {ArchiveSpace sp a, RestoreSpace sp a} \<Longrightarrow>
   one_space_effect T origin c s s'"
  by (auto simp: space_archive_def space_restore_def ensure_authorization_Ok_iff one_space_effect_def
      dest!: space_update_activity_Spaces elim!: authorized_life
      intro!: exI [of _ sp] life_step.archive life_step.restore)

lemma one_space_effect_writes:
  "space_dispatch T origin c s = Ok s' \<Longrightarrow>
   c \<in> {ApproveSpace sp n, RevokeApproval sp, RestoreApproval sp, ResetTransactionCount sp} \<Longrightarrow>
   one_space_effect T origin c s s'"
  by (auto simp: space_approve_def space_approval_revoke_def space_approval_restore_def
      space_reset_transaction_count_def one_space_effect_def active_def
      dest!: space_update_activity_Spaces
      intro!: exI [of _ sp] life_step.approve life_step.approval_revoke life_step.approval_restore
        life_step.reset)

text \<open>Every other call creates a space or moves capacity.\<close>

lemma space_dispatch_cases:
  assumes "space_dispatch T origin c s = Ok s'"
  obtains (one) "one_space_effect T origin c s s'"
  | (create) code where "c = CreateSpace code" "space_create T origin code s = Ok s'"
  | (subspace) code n sp where "c = SubspaceCreate code n sp"
      "space_subspace_create T origin code n sp s = Ok s'"
  | (resize) sp n where "c = UpdateTransactionCapacity sp n"
      "space_update_transaction_capacity T origin sp n s = Ok s'"
  | (resize_sub) sp n where "c = UpdateTransactionCapacitySub sp n"
      "space_update_transaction_capacity_sub T origin sp n s = Ok s'"
  using assms one_space_effect_delegations [OF assms] one_space_effect_archive [OF assms]
    one_space_effect_writes [OF assms] one_space_effect_remove [of T origin _ _ _ s s']
  by (cases c) simp_all

section \<open>Reserves\<close>

text \<open>What the space \<open>j\<close> takes out of the capacity of \<open>i\<close>, and the sum over all spaces.\<close>

definition share :: "(ident \<Rightarrow> space_details option) \<Rightarrow> ident \<Rightarrow> ident \<Rightarrow> u64" where
  "share S i j =
     (case S j of Some c \<Rightarrow> if parent c = i \<and> j \<noteq> i then txn_capacity c else 0 | None \<Rightarrow> 0)"

definition allotted :: "(ident \<Rightarrow> space_details option) \<Rightarrow> ident \<Rightarrow> u64" where
  "allotted S i = (\<Sum>j \<in> dom S. share S i j)"

definition reserve_exact :: "'m chain_space_scheme \<Rightarrow> bool" where
  "reserve_exact s \<longleftrightarrow> (\<forall>i d. Spaces s i = Some d \<longrightarrow> txn_reserve d = allotted (Spaces s) i)"

lemma allotted_update:
  assumes "finite (dom S)"
  shows "allotted (S(k \<mapsto> d)) i = allotted S i - share S i k + share (S(k \<mapsto> d)) i k"
proof -
  have eq: "(\<Sum>j \<in> dom S - {k}. share (S(k \<mapsto> d)) i j) = (\<Sum>j \<in> dom S - {k}. share S i j)"
    by (rule sum.cong) (auto simp: share_def)
  have out: "share S i k = 0" if "k \<notin> dom S"
    using that by (auto simp: share_def domIff split: option.splits)
  show ?thesis
    using assms out eq
    by (cases "k \<in> dom S") (simp_all add: allotted_def sum.remove sum.insert_remove)
qed

lemma share_update_other [simp]: "j \<noteq> k \<Longrightarrow> share (S(k \<mapsto> d)) i j = share S i j"
  by (simp add: share_def)

lemma allotted_fresh:
  assumes "space_wf T s" "Spaces s i = None"
  shows "allotted (Spaces s) i = 0"
proof -
  have "share (Spaces s) i j = 0" for j
    using assms space_wf_parent [OF assms(1), of j]
    by (auto simp: share_def split: option.splits)
  then show ?thesis by (simp add: allotted_def)
qed

lemma space_wf_finite: "space_wf T s \<Longrightarrow> finite (dom (Spaces s))"
  by (simp add: space_wf_def)

lemma reserve_exactD: "reserve_exact s \<Longrightarrow> Spaces s i = Some d \<Longrightarrow> txn_reserve d = allotted (Spaces s) i"
  by (simp add: reserve_exact_def)

lemma reserve_exact_cong: "Spaces s = Spaces s' \<Longrightarrow> reserve_exact s = reserve_exact s'"
  by (simp add: reserve_exact_def)

lemma reserve_exact_activity:
  "space_update_activity T i ty a s = Ok s' \<Longrightarrow> reserve_exact s' = reserve_exact s"
  by (drule space_update_activity_frame) (auto simp: reserve_exact_def)

lemma reserve_exact_insert:
  assumes "reserve_exact s" "finite (dom (Spaces s))" "Spaces s i = Some d0"
    and "parent d = parent d0" "txn_reserve d = txn_reserve d0"
    and "txn_capacity d = txn_capacity d0 \<or> parent d0 = i"
  shows "reserve_exact (space_insert i d s)"
proof -
  have "share ((Spaces s)(i \<mapsto> d)) j i = share (Spaces s) j i" for j
    using assms(3,4,6) by (auto simp: share_def)
  then have "allotted ((Spaces s)(i \<mapsto> d)) j = allotted (Spaces s) j" for j
    using allotted_update [OF assms(2)] by simp
  then show ?thesis
    using assms(1,3,5) by (auto simp: reserve_exact_def)
qed


lemma Spaces_recapacity:
  "Spaces (recapacity sp d n s) =
     (if parent d = sp then (Spaces s)(sp \<mapsto> d\<lparr>txn_capacity := n\<rparr>)
      else (let pd = the (Spaces s (parent d)) in
        (Spaces s)(parent d \<mapsto> pd\<lparr>txn_reserve := txn_reserve pd - txn_capacity d + n\<rparr>,
                   sp \<mapsto> d\<lparr>txn_capacity := n\<rparr>)))"
  by (simp add: recapacity_def Let_def)

lemma reserve_exact_recapacity:
  assumes "reserve_exact s" "space_wf T s" "Spaces s sp = Some d"
  shows "reserve_exact (recapacity sp d n s)"
proof (cases "parent d = sp")
  case True
  with assms show ?thesis
    by (simp add: recapacity_def reserve_exact_insert space_wf_finite)
next
  case False
  obtain pd where pd: "Spaces s (parent d) = Some pd"
    using space_wf_parent [OF assms(2,3)] by auto
  let ?S1 = "(Spaces s)(parent d \<mapsto> pd\<lparr>txn_reserve := txn_reserve pd - txn_capacity d + n\<rparr>)"
  let ?S2 = "?S1(sp \<mapsto> d\<lparr>txn_capacity := n\<rparr>)"
  have fin: "finite (dom (Spaces s))" "finite (dom ?S1)"
    using space_wf_finite [OF assms(2)] by simp_all
  have "share ?S1 i (parent d) = share (Spaces s) i (parent d)" for i
    using pd by (simp add: share_def)
  then have S1: "allotted ?S1 i = allotted (Spaces s) i" for i
    using allotted_update [OF fin(1)] by simp
  have "share ?S1 i sp = (if i = parent d then txn_capacity d else 0)"
    "share ?S2 i sp = (if i = parent d then n else 0)" for i
    using False assms(3) by (auto simp: share_def)
  then have S2: "allotted ?S2 i =
      (if i = parent d then allotted (Spaces s) i - txn_capacity d + n else allotted (Spaces s) i)" for i
    using allotted_update [OF fin(2), of sp "d\<lparr>txn_capacity := n\<rparr>" i] S1 by simp
  have "Spaces (recapacity sp d n s) = ?S2"
    using False pd by (simp add: Spaces_recapacity Let_def)
  then show ?thesis
    using assms(1,3) False pd S2 by (auto simp: reserve_exact_def)
qed

lemma reserve_exact_new:
  assumes "reserve_exact s" "space_wf T s" "Spaces s i = None" "Spaces s' = (Spaces s)(i \<mapsto> d)"
    and "txn_reserve d = 0" "parent d = i"
  shows "reserve_exact s'"
proof -
  have "share (Spaces s) j i = 0" "share ((Spaces s)(i \<mapsto> d)) j i = 0" for j
    using assms(3,6) by (auto simp: share_def)
  then have "allotted (Spaces s') j = allotted (Spaces s) j" for j
    using allotted_update [OF space_wf_finite [OF assms(2)], of i d j] assms(4) by simp
  then show ?thesis
    using assms allotted_fresh [OF assms(2,3)] by (auto simp: reserve_exact_def)
qed

lemma reserve_exact_branch:
  assumes "reserve_exact s" "space_wf T s" "Spaces s i = None" "Spaces s sp = Some d"
    and "txn_reserve d' = txn_reserve d + txn_capacity c" "parent d' = parent d"
    and "txn_capacity d' = txn_capacity d"
    and "txn_reserve c = 0" "parent c = sp"
    and s': "Spaces s' = (Spaces s)(sp \<mapsto> d', i \<mapsto> c)"
  shows "reserve_exact s'"
proof -
  have ne: "i \<noteq> sp" using assms(3,4) by auto
  have fin: "finite (dom (Spaces s))" "finite (dom ((Spaces s)(sp \<mapsto> d')))"
    using space_wf_finite [OF assms(2)] by simp_all
  have "share ((Spaces s)(sp \<mapsto> d')) j sp = share (Spaces s) j sp" for j
    using assms(4,6,7) by (simp add: share_def)
  then have "allotted ((Spaces s)(sp \<mapsto> d')) j = allotted (Spaces s) j" for j
    using allotted_update [OF fin(1)] by simp
  moreover have "share ((Spaces s)(sp \<mapsto> d')) j i = 0"
    "share ((Spaces s)(sp \<mapsto> d', i \<mapsto> c)) j i = (if j = sp then txn_capacity c else 0)" for j
    using assms(3,9) ne by (auto simp: share_def)
  ultimately have "allotted (Spaces s') j =
      (if j = sp then allotted (Spaces s) j + txn_capacity c else allotted (Spaces s) j)" for j
    using allotted_update [OF fin(2), of i c j] s' by simp
  then show ?thesis
    using assms allotted_fresh [OF assms(2,3)] ne by (auto simp: reserve_exact_def)
qed

text \<open>\<open>approve\<close> may give a revoked sub-space any capacity; every other call keeps the accounts.\<close>

definition reapproves_subspace :: "SpaceCall \<Rightarrow> 'm chain_space_scheme \<Rightarrow> bool" where
  "reapproves_subspace c s \<longleftrightarrow>
     (case c of ApproveSpace sp n \<Rightarrow> (case Spaces s sp of Some d \<Rightarrow> parent d \<noteq> sp | None \<Rightarrow> False)
      | _ \<Rightarrow> False)"

lemma reserve_exact_one_space:
  assumes "one_space_effect T origin c s s'" "\<not> reapproves_subspace c s"
    and "reserve_exact s" "space_wf T s"
  shows "reserve_exact s'"
proof -
  from assms(1) obtain i d d' where
    e: "Spaces s i = Some d" "Spaces s' = (Spaces s)(i \<mapsto> d')" "life_step T origin d d'"
      "txn_reserve d' = txn_reserve d" "txn_capacity d' = txn_capacity d \<or> (\<exists>n. c = ApproveSpace i n)"
    by (auto simp: one_space_effect_def)
  have "txn_capacity d' = txn_capacity d \<or> parent d = i"
    using e assms(2) by (auto simp: reapproves_subspace_def)
  then have "reserve_exact (space_insert i d' s)"
    using e life_step_fixed [OF e(3)] assms(3) space_wf_finite [OF assms(4)]
    by (intro reserve_exact_insert [of s i d d']) auto
  then show ?thesis
    using e(2) by (simp cong: reserve_exact_cong [of s' "space_insert i d' s"])
qed

lemma reserve_exact_deposit [simp]: "reserve_exact (space_deposit_event e s) = reserve_exact s"
  by (rule reserve_exact_cong) simp

lemma reserve_exact_capacity:
  assumes "reserve_exact s" "space_wf T s"
  shows "space_update_transaction_capacity T origin sp n s = Ok s' \<Longrightarrow> reserve_exact s'"
    and "space_update_transaction_capacity_sub T origin sp n s = Ok s' \<Longrightarrow> reserve_exact s'"
  by (erule space_update_transaction_capacity_OkE,
      simp add: reserve_exact_activity reserve_exact_recapacity [OF assms])
    (erule space_update_transaction_capacity_sub_OkE,
      simp add: reserve_exact_activity reserve_exact_recapacity [OF assms])

lemma reserve_exact_create:
  assumes "reserve_exact s" "space_wf T s" "space_create T origin code s = Ok s'"
  shows "reserve_exact s'"
  using assms(3)
  by (rule space_create_OkE)
    (simp add: reserve_exact_activity, rule reserve_exact_new [OF assms(1,2)], assumption, simp, simp_all)

lemma reserve_exact_subspace_create:
  assumes "reserve_exact s" "space_wf T s" "space_subspace_create T origin code n sp s = Ok s'"
  shows "reserve_exact s'"
  using assms(3)
  by (rule space_subspace_create_OkE)
    (simp add: reserve_exact_activity, rule reserve_exact_branch [OF assms(1,2)], assumption, assumption,
      auto)

lemma reserve_exact_dispatch:
  assumes "space_dispatch T origin c s = Ok s'" "\<not> reapproves_subspace c s"
    and "reserve_exact s" "space_wf T s"
  shows "reserve_exact s'"
  using assms(1)
proof (cases rule: space_dispatch_cases)
  case one
  then show ?thesis using assms(2-4) by (rule reserve_exact_one_space)
qed (auto intro: reserve_exact_create reserve_exact_subspace_create reserve_exact_capacity assms(3,4))

text \<open>Steps without such a call.\<close>

inductive accounted_step :: "('o, 'c) space_config_scheme \<Rightarrow> 'm chain_space_scheme \<Rightarrow> 'm chain_space_scheme \<Rightarrow> bool"
  for T where
  call: "space_dispatch T origin c s = Ok s' \<Longrightarrow> \<not> reapproves_subspace c s \<Longrightarrow> accounted_step T s s'"
| tick: "accounted_step T s (s\<lparr>block_number := n, extrinsic_index := x\<rparr>)"

interpretation reserve_inv: invariant_system space_genesis "accounted_step T"
  "\<lambda>s. space_wf T s \<and> reserve_exact s" for T
proof (unfold_locales, goal_cases)
  case (1 s)
  then show ?case by (simp add: space_wf_genesis reserve_exact_def space_genesis_def)
next
  case (2 s t)
  from this(2) show ?case
    using 2(1) by cases (auto intro: space_wf_dispatch reserve_exact_dispatch cong: reserve_exact_cong)
qed

section \<open>The pallet refines the machine of one space\<close>

lemma capacity_refines_life:
  assumes "Spaces s i = Some d"
  shows "space_update_transaction_capacity T origin sp n s = Ok s' \<Longrightarrow>
      \<exists>d'. Spaces s' i = Some d' \<and> life_step T origin d d'"
    and "space_update_transaction_capacity_sub T origin sp n s = Ok s' \<Longrightarrow>
      \<exists>d'. Spaces s' i = Some d' \<and> life_step T origin d d'"
  using assms
  by (auto elim!: space_update_transaction_capacity_OkE space_update_transaction_capacity_sub_OkE
      dest!: space_update_activity_Spaces simp: Spaces_recapacity Let_def
      life_step.stay life_step.resize life_step.child_resize split: if_splits)

lemma create_refines_life:
  assumes "Spaces s i = Some d"
  shows "space_create T origin code s = Ok s' \<Longrightarrow> \<exists>d'. Spaces s' i = Some d' \<and> life_step T origin d d'"
    and "space_subspace_create T origin code n sp s = Ok s' \<Longrightarrow>
      \<exists>d'. Spaces s' i = Some d' \<and> life_step T origin d d'"
  using assms
  by (auto elim!: space_create_OkE space_subspace_create_OkE dest!: space_update_activity_Spaces
      simp: life_step.stay life_step.branch)

lemma dispatch_refines_life:
  assumes "space_dispatch T origin c s = Ok s'" "Spaces s i = Some d"
  shows "\<exists>d'. Spaces s' i = Some d' \<and> life_step T origin d d'"
  using assms(1)
proof (cases rule: space_dispatch_cases)
  case one
  then show ?thesis
    using assms(2) by (auto simp: one_space_effect_def intro: life_step.stay)
qed (auto intro: create_refines_life [OF assms(2)] capacity_refines_life [OF assms(2)])

section \<open>Totality of logging, archiving and restoring\<close>

text \<open>What logging needs: room for two entries, and histories within their bound (as \<open>space_wf\<close> has it).\<close>

definition timelines_ok :: "'c identifier_config_scheme \<Rightarrow> 'm identifier_storage_scheme \<Rightarrow> bool" where
  "timelines_ok T s \<longleftrightarrow>
     2 \<le> unat (MaxEventsHistory T) \<and> (\<forall>i ty. length (timeline s i ty) \<le> unat (MaxEventsHistory T))"

lemma timelines_ok_cong: "Identifiers s = Identifiers s' \<Longrightarrow> timelines_ok T s = timelines_ok T s'"
  by (simp add: timelines_ok_def timeline_def)

lemma timelines_ok_frame [simp]:
  "timelines_ok T (space_insert i d s) = timelines_ok T s"
  "timelines_ok T (space_deposit_event e s) = timelines_ok T s"
  "timelines_ok T (count_up_at i s) = timelines_ok T s"
  "timelines_ok T (space_anchor i a c ds s) = timelines_ok T s"
  by (simp_all cong: timelines_ok_cong)

lemma update_timeline_ok:
  assumes "timelines_ok T s"
  shows "\<exists>m. update_timeline T i ty e s = Ok (s\<lparr>Identifiers := m\<rparr>) \<and> timelines_ok T (s\<lparr>Identifiers := m\<rparr>)"
proof -
  from assms obtain s' where s': "update_timeline T i ty e s = Ok s'"
    using update_timeline_total [of T s i ty e] by (auto simp: timelines_ok_def)
  from update_timeline_frame [OF s'] obtain m where m: "s' = s\<lparr>Identifiers := m\<rparr>" ..
  have "timelines_ok T s'"
    using assms update_timeline_bound [OF s'] by (auto simp: timelines_ok_def)
  with s' m show ?thesis by auto
qed

lemma space_update_activity_ok:
  assumes "timelines_ok T s"
  shows "\<exists>m. space_update_activity T i ty a s = Ok (s\<lparr>Identifiers := m\<rparr>) \<and>
     timelines_ok T (s\<lparr>Identifiers := m\<rparr>)"
  using update_timeline_ok [OF assms] by (force simp: space_update_activity_def Let_def)

lemma space_archive_total:
  assumes "EnsureOrigin T origin = Some (who, sender)" "timelines_ok T s"
    and "authorized ADMIN active a who s sp" "Spaces s sp = Some d"
  shows "\<exists>s'. space_archive T origin sp a s = Ok s' \<and> timelines_ok T s' \<and>
     Spaces s' = (Spaces s)(sp \<mapsto> (count_up d)\<lparr>archived := True\<rparr>) \<and> Authorizations s' = Authorizations s"
proof -
  let ?u = "space_insert sp ((count_up d)\<lparr>archived := True\<rparr>) (count_up_at sp s)"
  obtain m where m: "space_update_activity T sp IdentifierTypeOf.ChainSpace CallTypeOf.Archive ?u
      = Ok (?u\<lparr>Identifiers := m\<rparr>)" "timelines_ok T (?u\<lparr>Identifiers := m\<rparr>)"
    using space_update_activity_ok [of T ?u sp IdentifierTypeOf.ChainSpace CallTypeOf.Archive] assms(2) by auto
  have "active d" using assms(3,4) by (auto simp: authorized_def)
  then have "space_archive T origin sp a s = Ok (space_deposit_event (SpaceEvent.Archive sp who) (?u\<lparr>Identifiers := m\<rparr>))"
    using assms m(1) ensure_authorization_Ok_iff(2) [of a who s sp "count_up_at sp s"]
    by (simp add: space_archive_def active_def)
  with m(2) assms(4) show ?thesis by auto
qed

lemma space_restore_total:
  assumes "EnsureOrigin T origin = Some (who, sender)" "timelines_ok T s"
    and "authorized ASSERT (\<lambda>d. archived d \<and> approved d) a who s sp" "Spaces s sp = Some d"
  shows "\<exists>s'. space_restore T origin sp a s = Ok s' \<and> timelines_ok T s' \<and>
     Spaces s' = (Spaces s)(sp \<mapsto> (count_up d)\<lparr>archived := False\<rparr>)"
proof -
  let ?u = "space_insert sp ((count_up d)\<lparr>archived := False\<rparr>) (count_up_at sp s)"
  obtain m where m: "space_update_activity T sp IdentifierTypeOf.ChainSpace CallTypeOf.Restore ?u
      = Ok (?u\<lparr>Identifiers := m\<rparr>)" "timelines_ok T (?u\<lparr>Identifiers := m\<rparr>)"
    using space_update_activity_ok [of T ?u sp IdentifierTypeOf.ChainSpace CallTypeOf.Restore] assms(2) by auto
  have "archived d" "approved d" using assms(3,4) by (auto simp: authorized_def)
  then have "space_restore T origin sp a s = Ok (space_deposit_event (SpaceEvent.Restore sp who) (?u\<lparr>Identifiers := m\<rparr>))"
    using assms m(1) ensure_authorization_Ok_iff(4) [of a who s sp "count_up_at sp s"]
    by (simp add: space_restore_def)
  with m(2) assms(4) show ?thesis by auto
qed

section \<open>Clients of the pallet\<close>

text \<open>No call of this pallet touches the storage of the pallets built on it.\<close>

lemma update_activity_more:
  "space_update_activity T i ty a s = Ok s' \<Longrightarrow> chain_space.more s' = chain_space.more s"
  by (drule space_update_activity_frame) auto

lemma delegate_addition_more:
  "space_delegate_addition T i x y p s = Ok s' \<Longrightarrow> chain_space.more s' = chain_space.more s"
  by (erule space_delegate_addition_OkE) (auto dest!: update_activity_more)

lemma recapacity_more: "chain_space.more (recapacity sp d n s) = chain_space.more s"
  by (simp add: recapacity_def Let_def)

lemma space_dispatch_more:
  assumes "space_dispatch T origin c s = Ok s'"
  shows "chain_space.more s' = chain_space.more s"
proof (cases c)
  case (RemoveDelegate sp r a)
  with assms show ?thesis by (auto elim!: space_remove_delegate_OkE dest!: update_activity_more)
next
  case (CreateSpace code)
  with assms show ?thesis by (auto elim!: space_create_OkE dest!: update_activity_more)
next
  case (SubspaceCreate code n sp)
  with assms show ?thesis by (auto elim!: space_subspace_create_OkE dest!: update_activity_more)
next
  case (UpdateTransactionCapacity sp n)
  with assms show ?thesis
    by (auto elim!: space_update_transaction_capacity_OkE dest!: update_activity_more simp: recapacity_more)
next
  case (UpdateTransactionCapacitySub sp n)
  with assms show ?thesis
    by (auto elim!: space_update_transaction_capacity_sub_OkE dest!: update_activity_more simp: recapacity_more)
qed (use assms in \<open>auto simp: space_add_delegate_def space_add_admin_delegate_def space_add_delegator_def
      space_approve_def space_archive_def space_restore_def space_approval_revoke_def
      space_approval_restore_def space_reset_transaction_count_def ensure_authorization_Ok_iff
      dest!: update_activity_more delegate_addition_more\<close>)

end
