(* ===== verification/Chain_Space_Properties.thy ===== *)
theory Chain_Space_Properties
  imports Chain_Space_Invariants
begin

text \<open>
  The properties of the chain-space pallet. Each rests on the lemmas of the component; the sample
  configuration and storage below are the concrete inputs at which their hypotheses are evaluated.
\<close>

section \<open>Sample configuration and storage\<close>

text \<open>An origin is a signing account or, as \<open>None\<close>, the governing body.\<close>

definition sample_config :: "account option space_config" where
  "sample_config = \<lparr>overflow_checks = True, hashing = sample_hash, encode_hash = id,
     encode_account = id, encode_ident = id, encode_vec = id, blake2b_64 = sample_hash,
     bs58_encode = halves, bs58_decode = unhalves, MaxEventsHistory = 6,
     EnsureOrigin = map_option (\<lambda>a. (a, a)), ChainSpaceOrigin = (\<lambda>o'. o' = None),
     is_permissioned = True, MaxSpaceDelegates = 5\<rparr>"

definition sample_details :: "account \<Rightarrow> u64 \<Rightarrow> ident \<Rightarrow> space_details" where
  "sample_details who n p = \<lparr>space_code = [7], space_creator = who, txn_capacity = n, txn_reserve = 0,
     txn_count = 0, approved = True, archived = False, parent = p\<rparr>"

definition sample_auth :: "ident \<Rightarrow> account \<Rightarrow> permissions \<Rightarrow> space_authorization" where
  "sample_auth sp who p = \<lparr>auth_space_id = sp, auth_delegate = who, auth_permissions = p, auth_delegator = who\<rparr>"

definition empty_storage :: chain_space where
  "empty_storage = \<lparr>block_number = 4, extrinsic_index = Some 1, Identifiers = Map.empty,
     Spaces = Map.empty, Authorizations = Map.empty, Delegates = (\<lambda>_. []), space_events = []\<rparr>"

text \<open>One space \<open>[1]\<close> of capacity 9, created by the account \<open>[2]\<close>, which holds all permissions under \<open>[3]\<close>.\<close>

definition sample_storage :: chain_space where
  "sample_storage = empty_storage\<lparr>Spaces := [[1] \<mapsto> sample_details [2] 9 [1]],
     Authorizations := [[3] \<mapsto> sample_auth [1] [2] permissions_all],
     Delegates := (\<lambda>_. [])([1] := [[2]])\<rparr>"

lemmas sample_simps = sample_config_def sample_details_def sample_auth_def empty_storage_def
  sample_storage_def

lemma contains_all [simp]:
  "contains permissions_all ASSERT" "contains permissions_all DELEGATE" "contains permissions_all ADMIN"
  "contains permissions_all (DELEGATE OR ADMIN)"
  by (simp_all add: contains_def permissions_all_def ASSERT_def DELEGATE_def ADMIN_def)

text \<open>
  A run of five calls: the account \<open>[2]\<close> creates a space, the governing body approves it with capacity
  20, its creator makes a sub-space of capacity 6 and resizes it to 9 and then adds a delegate.
\<close>

definition sample_space :: ident where
  "sample_space = unwrap_or [] (space_identifier sample_config [7] [2])"

definition sample_subspace :: ident where
  "sample_subspace = unwrap_or [] (space_identifier sample_config [8] [2])"

definition sample_authorization :: ident where
  "sample_authorization = unwrap_or [] (authorization_identifier sample_config sample_space [2] [2])"

definition sample_calls :: "(account option \<times> SpaceCall) list" where
  "sample_calls =
     [(Some [2], CreateSpace [7]), (None, ApproveSpace sample_space 20),
      (Some [2], SubspaceCreate [8] (Some 6) sample_space),
      (Some [2], UpdateTransactionCapacitySub sample_subspace 9),
      (Some [2], AddDelegate sample_space [5] sample_authorization)]"

definition sample_subauthorization :: ident where
  "sample_subauthorization = unwrap_or [] (authorization_identifier sample_config sample_subspace [2] [2])"

definition sample_delegation :: ident where
  "sample_delegation = unwrap_or [] (authorization_identifier sample_config sample_space [5] [2])"

lemma sample_identifiers:
  "space_identifier sample_config [7] [2] = Ok sample_space"
  "space_identifier sample_config [8] [2] = Ok sample_subspace"
  "authorization_identifier sample_config sample_space [2] [2] = Ok sample_authorization"
  "authorization_identifier sample_config sample_subspace [2] [2] = Ok sample_subauthorization"
  "authorization_identifier sample_config sample_space [5] [2] = Ok sample_delegation"
  by code_simp+

lemma sample_distinct:
  "sample_space \<noteq> sample_subspace" "sample_subspace \<noteq> sample_space"
  "sample_authorization \<noteq> sample_subauthorization" "sample_subauthorization \<noteq> sample_authorization"
  "sample_authorization \<noteq> sample_delegation" "sample_delegation \<noteq> sample_authorization"
  "sample_subauthorization \<noteq> sample_delegation" "sample_delegation \<noteq> sample_subauthorization"
  by code_simp+

definition sample_run :: chain_space where
  "sample_run = unwrap_or empty_storage
     (run_all (\<lambda>(o', c). space_dispatch sample_config o' c) sample_calls empty_storage)"

lemmas space_dispatch_defs = space_create_def space_approve_def space_subspace_create_def
  space_update_transaction_capacity_sub_def space_add_delegate_def space_delegate_addition_def
  ensure_authorization_delegator_origin_def increment_usage_def validate_space_for_transaction_def
  parent_usage_after_def parent_reserve_after_def space_update_activity_def update_timeline_def
  ensure_subject_def ensure_governance_def plain_add_def plain_sub_def saturating_add_def

lemma sample_config_simps [simp]:
  "overflow_checks sample_config = True" "MaxEventsHistory sample_config = 6"
  "EnsureOrigin sample_config = map_option (\<lambda>a. (a, a))"
  "ChainSpaceOrigin sample_config o' \<longleftrightarrow> o' = None" "is_permissioned sample_config"
  "MaxSpaceDelegates sample_config = 5"
  by (simp_all add: sample_config_def)

lemmas sample_run_simps = sample_run_def sample_calls_def space_dispatch_defs sample_identifiers
  sample_distinct try_push_def empty_storage_def

lemma sample_run_is_Ok:
  "is_Ok (run_all (\<lambda>(o', c). space_dispatch sample_config o' c) sample_calls empty_storage)"
  by (simp add: sample_run_simps Let_def)

lemma sample_run_reachable: "reachable space_genesis (space_step sample_config) sample_run"
  unfolding sample_run_def
  by (rule reachable_run_all [OF _ _ is_Ok_unwrap [OF sample_run_is_Ok]])
    (auto intro: space_step.call reach_init simp: space_genesis_def empty_storage_def)

lemma sample_run_spaces:
  "map_option (\<lambda>d. (txn_capacity d, txn_reserve d, txn_count d)) (Spaces sample_run sample_space) = Some (20, 9, 2)"
  by (simp add: sample_run_simps Let_def)

section \<open>Authorization and capacity\<close>

text \<open>C1: the check every transaction of the schema, statement, asset and score pallets goes through
  accepts exactly the holder of an authorization that grants \<^verbatim>\<open>ASSERT\<close>, on an approved space that is
  not archived and still has room after the transaction is counted; it returns the space of the
  authorization and its only effect is to count one transaction on that space.\<close>

theorem authorization_origin_exact:
  "ensure_authorization_origin a who s = Ok (sp, s') \<longleftrightarrow>
     (\<exists>au d. Authorizations s a = Some au \<and> auth_delegate au = who \<and> auth_space_id au = sp \<and>
        contains (auth_permissions au) ASSERT \<and>
        Spaces s sp = Some d \<and> approved d \<and> \<not> archived d \<and>
        (txn_capacity d = 0 \<or> unat (txn_count d) + 1 < unat (txn_capacity d)) \<and>
        s' = s\<lparr>Spaces := (Spaces s)(sp \<mapsto> d\<lparr>txn_count := saturating_add (txn_count d) 1\<rparr>)\<rparr>)"
  by (auto simp: ensure_authorization_Ok_iff authorized_def count_up_at_def space_insert_def
      has_room_count_up_iff active_def simp flip: count_up_def)

text \<open>C2: the usage counter meters a space exactly: a space with capacity \<open>c > 0\<close> and usage \<open>u\<close> accepts
  \<open>k\<close> further transactions in a row if and only if \<open>u + k < c\<close>. The count is raised before it is
  compared, so the last unit of a capacity can never be used.\<close>

theorem capacity_metering:
  assumes "Authorizations s a = Some au" "auth_delegate au = who" "auth_space_id au = sp"
    and "contains (auth_permissions au) ASSERT"
    and "Spaces s sp = Some d" "approved d" "\<not> archived d" "txn_capacity d \<noteq> 0" "0 < k"
  shows "(\<exists>s'. check_times ensure_authorization_origin k a who s = Ok s') \<longleftrightarrow>
     unat (txn_count d) + k < unat (txn_capacity d)"
proof -
  have g: "space_grant ASSERT s a = Some (who, sp)" and l: "space_limit s sp = Some (unat (txn_capacity d))"
    and m: "space_meter s sp = unat (txn_count d)"
    using assms by (simp_all add: space_grant_def space_limit_def space_meter_def)
  show ?thesis
  proof (cases "space_usable active s sp")
    case True
    from space_assert.check_times_iff [OF g l True, of k] m assms(9) show ?thesis by simp
  next
    case False
    then have full: "\<not> Suc (unat (txn_count d)) < unat (txn_capacity d)"
      using assms by (simp add: space_usable_def active_def has_room_count_up_iff)
    obtain j where k: "k = Suc j" using assms(9) by (cases k) auto
    have "ensure_authorization_origin a who s \<noteq> Ok r" for r
      using False g space_assert.check_sound [of a who s "fst r" "snd r"] by auto
    then have "check_times ensure_authorization_origin k a who s \<noteq> Ok s'" for s'
      by (auto simp: k)
    then show ?thesis using full k by auto
  qed
qed

theorem capacity_metering_witness:
  "(\<exists>s'. check_times ensure_authorization_origin 8 [3] [2] sample_storage = Ok s') \<and>
   \<not> (\<exists>s'. check_times ensure_authorization_origin 9 [3] [2] sample_storage = Ok s')"
  using capacity_metering [of sample_storage "[3]" "sample_auth [1] [2] permissions_all" "[2]" "[1]"
      "sample_details [2] 9 [1]" 8]
    capacity_metering [of sample_storage "[3]" "sample_auth [1] [2] permissions_all" "[2]" "[1]"
      "sample_details [2] 9 [1]" 9]
  by (simp add: sample_simps)

section \<open>Invariants of every run\<close>

text \<open>C3: in every storage the pallet reaches from the empty one, by any calls of any origins,
  each authorization is for an existing space and carries one of the four permission sets the
  code hands out, each space's parent exists, the delegate lists respect their bound and belong to
  existing spaces, and no timeline exceeds its bound.\<close>

theorem space_reachable_wf:
  assumes "reachable space_genesis (space_step T) s"
  shows "space_wf T s"
  using assms by (rule space_inv.inv_reachable)

theorem space_reachable_wf_witness:
  "reachable space_genesis (space_step sample_config) sample_run \<and> space_wf sample_config sample_run"
  using sample_run_reachable space_reachable_wf [OF sample_run_reachable] by simp

text \<open>C4: the reserve a space keeps is exactly the sum of the capacities of its sub-spaces (as 64-bit
  numbers) in every storage reached by calls other than an \<^verbatim>\<open>approve\<close> of a sub-space: sub-space
  creation and both capacity updates keep parent and children in step.\<close>

theorem reserve_is_sum_of_children:
  assumes "reachable space_genesis (accounted_step T) s" "Spaces s i = Some d"
  shows "txn_reserve d = (\<Sum>j \<in> {j. \<exists>c. Spaces s j = Some c \<and> parent c = i \<and> j \<noteq> i}. txn_capacity (the (Spaces s j)))"
proof -
  from reserve_inv.inv_reachable [OF assms(1)]
  have fin: "finite (dom (Spaces s))" and "txn_reserve d = allotted (Spaces s) i"
    using assms(2) by (auto simp: space_wf_def reserve_exact_def)
  moreover have "allotted (Spaces s) i =
      (\<Sum>j \<in> {j. \<exists>c. Spaces s j = Some c \<and> parent c = i \<and> j \<noteq> i}. txn_capacity (the (Spaces s j)))"
    unfolding allotted_def
    by (rule sum.mono_neutral_cong_right [OF fin]) (auto simp: share_def split: option.splits)
  ultimately show ?thesis by simp
qed

definition accounted_dispatch ::
  "account option \<times> SpaceCall \<Rightarrow> chain_space \<Rightarrow> (chain_space, SpaceError dispatch_error) result" where
  "accounted_dispatch oc s =
     (if reapproves_subspace (snd oc) s then Err BadOrigin else space_dispatch sample_config (fst oc) (snd oc) s)"

lemma accounted_run_is_Ok: "is_Ok (run_all accounted_dispatch sample_calls empty_storage)"
  by (simp add: sample_run_simps accounted_dispatch_def reapproves_subspace_def Let_def)

lemma accounted_run_reachable:
  "reachable space_genesis (accounted_step sample_config)
     (unwrap_or empty_storage (run_all accounted_dispatch sample_calls empty_storage))"
  by (rule reachable_run_all [OF _ _ is_Ok_unwrap [OF accounted_run_is_Ok]])
    (auto intro: accounted_step.call reach_init simp: space_genesis_def empty_storage_def
      accounted_dispatch_def split: if_splits)

theorem reserve_is_sum_of_children_witness:
  "\<exists>(s :: chain_space) d. Spaces s sample_space = Some d \<and> txn_reserve d = 9 \<and>
     txn_reserve d = (\<Sum>j \<in> {j. \<exists>c. Spaces s j = Some c \<and> parent c = sample_space \<and> j \<noteq> sample_space}.
       txn_capacity (the (Spaces s j)))"
proof -
  let ?s = "unwrap_or empty_storage (run_all accounted_dispatch sample_calls empty_storage)"
  have "map_option txn_reserve (Spaces ?s sample_space) = Some 9"
    by (simp add: sample_run_simps accounted_dispatch_def reapproves_subspace_def Let_def)
  then obtain d where d: "Spaces ?s sample_space = Some d" "txn_reserve d = 9" by auto
  show ?thesis
    by (intro exI conjI) (rule d, rule d, rule reserve_is_sum_of_children [OF accounted_run_reachable d(1)])
qed

text \<open>The exception of the previous property is real: when governance approves a revoked sub-space
  again with a capacity other than its old one, the reserve of the parent is no longer the sum of
  the capacities of its sub-spaces.\<close>

theorem approve_subspace_breaks_reserve:
  assumes "space_wf T s" "reserve_exact s" "Spaces s sp = Some d" "parent d \<noteq> sp"
    and "n \<noteq> txn_capacity d" "space_approve T origin sp n s = Ok s'"
  shows "\<not> reserve_exact s'"
proof
  assume ex: "reserve_exact s'"
  let ?d = "d\<lparr>txn_capacity := n, approved := True\<rparr>"
  have S: "Spaces s' = (Spaces s)(sp \<mapsto> ?d)"
    using assms(3,6) by (auto simp: space_approve_def dest!: space_update_activity_Spaces)
  obtain pd where pd: "Spaces s (parent d) = Some pd"
    using space_wf_parent [OF assms(1,3)] by auto
  have "txn_reserve pd = allotted (Spaces s) (parent d)" "txn_reserve pd = allotted (Spaces s') (parent d)"
    using reserve_exactD [OF assms(2) pd] reserve_exactD [OF ex, of "parent d" pd] assms(4) pd S by simp_all
  then show False
    using allotted_update [OF space_wf_finite [OF assms(1)], of sp ?d "parent d"] assms(3,4,5) S
    by (simp add: share_def)
qed

definition revoked_storage :: chain_space where
  "revoked_storage = empty_storage\<lparr>Spaces :=
     [[1] \<mapsto> (sample_details [2] 9 [1])\<lparr>txn_reserve := 4\<rparr>,
      [6] \<mapsto> (sample_details [2] 4 [1])\<lparr>approved := False\<rparr>]\<rparr>"

theorem approve_subspace_breaks_reserve_witness:
  "\<exists>s'. space_wf sample_config revoked_storage \<and> reserve_exact revoked_storage \<and>
     space_approve sample_config None [6] 500 revoked_storage = Ok s' \<and> \<not> reserve_exact s'"
proof -
  have wf: "space_wf sample_config revoked_storage"
    by (auto simp: space_wf_def revoked_storage_def sample_simps timeline_def split: if_splits)
  have ex: "reserve_exact revoked_storage"
    by (auto simp: reserve_exact_def allotted_def share_def revoked_storage_def sample_simps split: if_splits)
  obtain s' where s': "space_approve sample_config None [6] 500 revoked_storage = Ok s'"
    using is_Ok_unwrap [of "space_approve sample_config None [6] 500 revoked_storage" undefined]
    by (force simp: space_dispatch_defs revoked_storage_def sample_details_def empty_storage_def
        try_push_def Let_def)
  show ?thesis
    using wf ex s' approve_subspace_breaks_reserve [OF wf ex _ _ _ s']
    by (auto simp: revoked_storage_def sample_details_def)
qed

section \<open>The life of a space\<close>

text \<open>C5: every call refines the machine of a single space: it keeps every existing space and takes it
  through one of the machine's steps, whose guards are the approval, archive, room and governance
  conditions.\<close>

theorem space_refines_life:
  assumes "space_dispatch T origin c s = Ok s'" "Spaces s i = Some d"
  shows "\<exists>d'. Spaces s' i = Some d' \<and> life_step T origin d d'"
  using assms by (rule dispatch_refines_life)

lemma sample_archive_Ok: "is_Ok (space_dispatch sample_config (Some [2]) (ArchiveSpace [1] [3]) sample_storage)"
  by (simp add: space_archive_def ensure_authorization_admin_origin_def space_dispatch_defs sample_storage_def
      sample_details_def sample_auth_def empty_storage_def try_push_def Let_def)

theorem space_refines_life_witness:
  "\<exists>s' d'. space_dispatch sample_config (Some [2]) (ArchiveSpace [1] [3]) sample_storage = Ok s' \<and>
     Spaces s' [1] = Some d' \<and> life_step sample_config (Some [2]) (sample_details [2] 9 [1]) d'"
  using space_refines_life [OF is_Ok_unwrap [OF sample_archive_Ok], of "[1]" "sample_details [2] 9 [1]"]
    is_Ok_unwrap [OF sample_archive_Ok]
  by (force simp: sample_storage_def)

text \<open>Only the governing origin changes whether a space is approved, whatever the call.\<close>

theorem approval_needs_governance:
  assumes "space_dispatch T origin c s = Ok s'" "Spaces s i = Some d" "Spaces s' i = Some d'"
    and "approved d' \<noteq> approved d"
  shows "ChainSpaceOrigin T origin"
proof -
  from dispatch_refines_life [OF assms(1,2)] assms(3) have "life_step T origin d d'" by simp
  then show ?thesis using assms(4) by (cases rule: life_step.cases) auto
qed

lemma sample_revoke_Ok: "is_Ok (space_dispatch sample_config None (RevokeApproval [1]) sample_storage)"
  and sample_revoke_approved: "map_option approved (Spaces
     (unwrap_or empty_storage (space_dispatch sample_config None (RevokeApproval [1]) sample_storage)) [1]) = Some False"
  by (simp_all add: space_approval_revoke_def space_dispatch_defs sample_storage_def
      sample_details_def empty_storage_def try_push_def Let_def)

theorem approval_needs_governance_witness:
  "ChainSpaceOrigin sample_config None \<and> Spaces sample_storage [1] = Some (sample_details [2] 9 [1])"
proof -
  obtain d where "Spaces (unwrap_or empty_storage
      (space_dispatch sample_config None (RevokeApproval [1]) sample_storage)) [1] = Some d" "\<not> approved d"
    using sample_revoke_approved by auto
  moreover have "Spaces sample_storage [1] = Some (sample_details [2] 9 [1])" "approved (sample_details [2] 9 [1])"
    by (simp_all add: sample_storage_def sample_details_def)
  ultimately show ?thesis
    using approval_needs_governance [OF is_Ok_unwrap [OF sample_revoke_Ok]] by blast
qed

text \<open>An archived space is frozen: a call leaves its record as it is, up to the reserve that a
  resize of a sub-space moves, or it is the restore, which needs the space approved and with room
  and counts as one transaction.\<close>

theorem archived_space_frozen:
  assumes "space_dispatch T origin c s = Ok s'" "Spaces s i = Some d" "archived d"
  shows "(\<exists>r. Spaces s' i = Some (d\<lparr>txn_reserve := r\<rparr>)) \<or>
     approved d \<and> has_room (count_up d) \<and> Spaces s' i = Some ((count_up d)\<lparr>archived := False\<rparr>)"
proof -
  from dispatch_refines_life [OF assms(1,2)] obtain d' where
    d': "Spaces s' i = Some d'" "life_step T origin d d'" by blast
  from d'(2) show ?thesis
    using assms(3) d'(1) unfolding active_def
    by (cases rule: life_step.cases) (auto simp: active_def intro: exI [of _ "txn_reserve d"])
qed

definition archived_storage :: chain_space where
  "archived_storage = sample_storage\<lparr>Spaces := [[1] \<mapsto> (sample_details [2] 9 [1])\<lparr>archived := True\<rparr>]\<rparr>"

lemma archived_restore_Ok: "is_Ok (space_dispatch sample_config (Some [2]) (RestoreSpace [1] [3]) archived_storage)"
  by (simp add: space_restore_def ensure_authorization_restore_origin_def
      validate_space_for_restore_transaction_def space_dispatch_defs
      archived_storage_def sample_storage_def
      sample_details_def sample_auth_def empty_storage_def try_push_def Let_def)

theorem archived_space_frozen_witness:
  "\<exists>s' d. space_dispatch sample_config (Some [2]) (RestoreSpace [1] [3]) archived_storage = Ok s' \<and>
     Spaces archived_storage [1] = Some d \<and> archived d \<and>
     ((\<exists>r. Spaces s' [1] = Some (d\<lparr>txn_reserve := r\<rparr>)) \<or>
      approved d \<and> has_room (count_up d) \<and> Spaces s' [1] = Some ((count_up d)\<lparr>archived := False\<rparr>))"
proof -
  have "Spaces archived_storage [1] = Some ((sample_details [2] 9 [1])\<lparr>archived := True\<rparr>)"
    by (simp add: archived_storage_def)
  from archived_space_frozen [OF is_Ok_unwrap [OF archived_restore_Ok] this]
    is_Ok_unwrap [OF archived_restore_Ok] this show ?thesis by fastforce
qed

text \<open>Spaces are never removed and never change hands: along any run, the code, the creator and the
  parent of a space stay what they were.\<close>

theorem space_lineage_fixed:
  assumes "(space_step T)\<^sup>*\<^sup>* s s'" "Spaces s i = Some d"
  shows "\<exists>d'. Spaces s' i = Some d' \<and> space_code d' = space_code d \<and>
     space_creator d' = space_creator d \<and> parent d' = parent d"
  using assms
proof (induction rule: rtranclp_induct)
  case base
  then show ?case by simp
next
  case (step t u)
  then obtain d' where d': "Spaces t i = Some d'" "space_code d' = space_code d"
      "space_creator d' = space_creator d" "parent d' = parent d"
    by blast
  from step(2) show ?case
  proof cases
    case (call origin c)
    from dispatch_refines_life [OF this d'(1)] d'(2-4) show ?thesis
      by (auto dest: life_step_fixed)
  next
    case (tick n x)
    with d' show ?thesis by simp
  qed
qed

theorem space_lineage_fixed_witness:
  "\<exists>s' d'. (space_step sample_config)\<^sup>*\<^sup>* sample_storage s' \<and> s' \<noteq> sample_storage \<and>
     Spaces s' [1] = Some d' \<and> space_creator d' = [2]"
proof -
  let ?s = "unwrap_or empty_storage (space_dispatch sample_config None (RevokeApproval [1]) sample_storage)"
  have r: "(space_step sample_config)\<^sup>*\<^sup>* sample_storage ?s"
    using space_step.call [OF is_Ok_unwrap [OF sample_revoke_Ok]] by blast
  have d: "Spaces sample_storage [1] = Some (sample_details [2] 9 [1])"
    by (simp add: sample_storage_def)
  then have "?s \<noteq> sample_storage"
    using sample_revoke_approved by (auto simp: sample_details_def)
  with r space_lineage_fixed [OF r d] show ?thesis by (auto simp: sample_details_def)
qed

text \<open>Archiving and restoring is a round trip the holder of an authorization with \<^verbatim>\<open>ADMIN\<close> and
  \<^verbatim>\<open>ASSERT\<close> can always make while the space has room for two transactions: both calls succeed and
  the space is as before, with two more transactions counted.\<close>

theorem archive_restore_roundtrip:
  assumes "EnsureOrigin T origin = Some (who, sender)" "timelines_ok T s"
    and "Authorizations s a = Some au" "auth_delegate au = who" "auth_space_id au = sp"
    and "contains (auth_permissions au) ADMIN" "contains (auth_permissions au) ASSERT"
    and "Spaces s sp = Some d" "approved d" "\<not> archived d"
    and "txn_capacity d = 0 \<or> unat (txn_count d) + 2 < unat (txn_capacity d)"
  shows "\<exists>s1 s2. space_archive T origin sp a s = Ok s1 \<and> space_restore T origin sp a s1 = Ok s2 \<and>
     map_option archived (Spaces s1 sp) = Some True \<and>
     Spaces s2 = (Spaces s)(sp \<mapsto> count_up (count_up d))"
proof -
  let ?d1 = "(count_up d)\<lparr>archived := True\<rparr>"
  have "has_room (count_up d)" and room: "has_room (count_up ?d1)"
    using assms(11) unat_bound [of "txn_capacity d"] has_room_count_up_iff [of d]
      has_room_count_up_iff [of ?d1]
    by (auto simp: unat_saturating_add)
  then have "authorized ADMIN active a who s sp"
    using assms by (auto simp: authorized_def active_def)
  from space_archive_total [OF assms(1,2) this assms(8)] obtain s1 where
    s1: "space_archive T origin sp a s = Ok s1" "Spaces s1 = (Spaces s)(sp \<mapsto> ?d1)"
      "Authorizations s1 = Authorizations s" "timelines_ok T s1"
    by blast
  have "authorized ASSERT (\<lambda>d. archived d \<and> approved d) a who s1 sp" "Spaces s1 sp = Some ?d1"
    using assms s1 room by (auto simp: authorized_def)
  from space_restore_total [OF assms(1) s1(4) this] obtain s2 where
    "space_restore T origin sp a s1 = Ok s2" "Spaces s2 = (Spaces s1)(sp \<mapsto> (count_up ?d1)\<lparr>archived := False\<rparr>)"
    by blast
  moreover have "(count_up ?d1)\<lparr>archived := False\<rparr> = count_up (count_up d)"
    using assms(10) by (simp add: count_up_def)
  ultimately show ?thesis using s1 by auto
qed

theorem archive_restore_roundtrip_witness:
  "\<exists>s1 s2. space_archive sample_config (Some [2]) [1] [3] sample_storage = Ok s1 \<and>
     space_restore sample_config (Some [2]) [1] [3] s1 = Ok s2 \<and> map_option txn_count (Spaces s2 [1]) = Some 2"
  using archive_restore_roundtrip [of sample_config "Some [2]" "[2]" "[2]" sample_storage "[3]"
      "sample_auth [1] [2] permissions_all" "[1]" "sample_details [2] 9 [1]"]
  by (fastforce simp: sample_storage_def sample_details_def sample_auth_def empty_storage_def timelines_ok_def
      timeline_def saturating_add_def)

section \<open>Delegation\<close>

text \<open>The authorization that \<^verbatim>\<open>add_delegate\<close> creates does what it is for: it did not exist before, it
  is for the space of the call with \<^verbatim>\<open>ASSERT\<close> only, and the new delegate, and nobody else, can
  transact with it as soon as the space has room.\<close>

theorem added_delegate_can_transact:
  assumes "space_add_delegate T origin sp x a s = Ok s'"
  shows "\<exists>aid d who. authorization_identifier T sp x who = Ok aid \<and> Authorizations s aid = None \<and>
     Spaces s' sp = Some d \<and> auth_permissions (the (Authorizations s' aid)) = ASSERT \<and>
     (\<forall>y. (\<exists>s''. ensure_authorization_origin aid y s' = Ok (sp, s'')) \<longleftrightarrow> y = x \<and> has_room (count_up d))"
proof -
  from assms obtain who where
    who: "authorized (DELEGATE OR ADMIN) active a who s sp"
      "space_delegate_addition T sp x who ASSERT (count_up_at sp s) = Ok s'"
    by (auto simp: space_add_delegate_def ensure_authorization_Ok_iff)
  from who(1) obtain d where d: "Spaces s sp = Some d" "active d" by (auto simp: authorized_def)
  from who(2) show ?thesis
  proof (rule space_delegate_addition_OkE)
    fix aid t
    let ?au = "\<lparr>auth_space_id = sp, auth_delegate = x, auth_permissions = ASSERT, auth_delegator = who\<rparr>"
    assume aid: "authorization_identifier T sp x who = Ok aid" "Authorizations (count_up_at sp s) aid = None"
      and act: "space_update_activity T sp IdentifierTypeOf.Auth CallTypeOf.Authorization
         ((count_up_at sp s)\<lparr>Delegates := (Delegates (count_up_at sp s))(sp := Delegates (count_up_at sp s) sp @ [x]),
            Authorizations := (Authorizations (count_up_at sp s))(aid \<mapsto> ?au)\<rparr>) = Ok t"
      and s': "s' = space_deposit_event (SpaceEvent.Authorization sp aid x) t"
    have f: "Spaces s' sp = Some (count_up d)" "Authorizations s' aid = Some ?au"
      using space_update_activity_frame [OF act] d s' by auto
    have "(\<exists>s''. ensure_authorization_origin aid y s' = Ok (sp, s'')) \<longleftrightarrow> y = x \<and> has_room (count_up (count_up d))" for y
      using f d(2) by (auto simp: ensure_authorization_Ok_iff authorized_def contains_def)
    with aid f show ?thesis
      by (intro exI [of _ aid] exI [of _ "count_up d"] exI [of _ who]) simp
  qed
qed

theorem added_delegate_can_transact_witness:
  "\<exists>s' aid d who. space_add_delegate sample_config (Some [2]) [1] [5] [3] sample_storage = Ok s' \<and>
     authorization_identifier sample_config [1] [5] who = Ok aid \<and> Spaces s' [1] = Some d \<and>
     (\<forall>y. (\<exists>s''. ensure_authorization_origin aid y s' = Ok ([1], s'')) \<longleftrightarrow> y = [5] \<and> has_room (count_up d))"
proof -
  have "is_Ok (authorization_identifier sample_config [1] [5] [2])"
    "unwrap_or [] (authorization_identifier sample_config [1] [5] [2]) \<noteq> [3]"
    by code_simp+
  then obtain i where id: "authorization_identifier sample_config [1] [5] [2] = Ok i" and ne: "i \<noteq> [3]"
    by (cases "authorization_identifier sample_config [1] [5] [2]") auto
  have "is_Ok (space_add_delegate sample_config (Some [2]) [1] [5] [3] sample_storage)"
    using ne by (subst space_add_delegate_def) (simp add: space_dispatch_defs id sample_storage_def
        sample_details_def sample_auth_def empty_storage_def try_push_def Let_def)
  from is_Ok_unwrap [OF this] added_delegate_can_transact [OF is_Ok_unwrap [OF this]]
  show ?thesis by blast
qed

lemma contains_delegate_admin:
  "p \<in> {ASSERT, DELEGATE, ADMIN, permissions_all} \<Longrightarrow> contains p (DELEGATE OR ADMIN) \<Longrightarrow> p = permissions_all"
  by (auto simp: contains_def permissions_all_def ASSERT_def DELEGATE_def ADMIN_def)

text \<open>In every reachable storage, only an authorization with all three permissions, which the code
  gives to the creator of a space alone, can add a plain delegate: the check asks for \<^verbatim>\<open>DELEGATE\<close>
  and \<^verbatim>\<open>ADMIN\<close> together, and neither the delegations made by \<^verbatim>\<open>add_delegator\<close> nor those made by
  \<^verbatim>\<open>add_admin_delegate\<close> carry both.\<close>

theorem add_delegate_needs_all_permissions:
  assumes "reachable space_genesis (space_step T) s" "space_add_delegate T origin sp x a s = Ok s'"
  shows "\<exists>au. Authorizations s a = Some au \<and> auth_permissions au = permissions_all"
proof -
  from assms(2) obtain au where au: "Authorizations s a = Some au"
      "contains (auth_permissions au) (DELEGATE OR ADMIN)"
    by (auto simp: space_add_delegate_def ensure_authorization_Ok_iff authorized_def)
  then have "auth_permissions au \<in> {ASSERT, DELEGATE, ADMIN, permissions_all}"
    using space_inv.inv_reachable [OF assms(1)] by (auto simp: space_wf_def)
  from contains_delegate_admin [OF this au(2)] au(1) show ?thesis by simp
qed

definition sample_calls' :: "(account option \<times> SpaceCall) list" where
  "sample_calls' = [(Some [2], CreateSpace [7]), (None, ApproveSpace sample_space 20)]"

lemma sample_calls'_run:
  "\<exists>s. run_all (\<lambda>(o', c). space_dispatch sample_config o' c) sample_calls' empty_storage = Ok s \<and>
     is_Ok (space_add_delegate sample_config (Some [2]) sample_space [5] sample_authorization s)"
proof -
  let ?r = "run_all (\<lambda>(o', c). space_dispatch sample_config o' c) sample_calls' empty_storage"
  have "is_Ok ?r"
    "is_Ok (space_add_delegate sample_config (Some [2]) sample_space [5] sample_authorization (unwrap_or empty_storage ?r))"
    by (simp_all add: sample_run_simps sample_calls'_def Let_def)
  then show ?thesis using is_Ok_unwrap by fastforce
qed

theorem add_delegate_needs_all_permissions_witness:
  "\<exists>(s :: chain_space) s' au. reachable space_genesis (space_step sample_config) s \<and>
     space_add_delegate sample_config (Some [2]) sample_space [5] sample_authorization s = Ok s' \<and>
     Authorizations s sample_authorization = Some au \<and> auth_permissions au = permissions_all"
proof -
  from sample_calls'_run obtain s s' where
    s: "run_all (\<lambda>(o', c). space_dispatch sample_config o' c) sample_calls' empty_storage = Ok s" and
    s': "space_add_delegate sample_config (Some [2]) sample_space [5] sample_authorization s = Ok s'"
    by (auto dest: is_Ok_unwrap)
  have "reachable space_genesis (space_step sample_config) s"
    by (rule reachable_run_all [OF _ _ s])
      (auto intro: space_step.call reach_init simp: space_genesis_def empty_storage_def)
  with s' add_delegate_needs_all_permissions [OF this s'] show ?thesis by blast
qed

text \<open>Removing a delegate is bound to the space of the remover only through the delegate's
  account: an administrator of one space can delete an authorization for another space, if the
  same account is a delegate of both. The other space keeps the account in its delegate list.\<close>

theorem remove_delegate_reaches_other_space:
  assumes "EnsureOrigin T origin = Some (who, sender)" "timelines_ok T s"
    and "Authorizations s a = Some au" "auth_delegate au = who" "auth_space_id au = sp"
    and "contains (auth_permissions au) ADMIN" "Spaces s sp = Some d" "active d" "has_room d"
    and "Authorizations s r = Some rau" "auth_space_id rau = other" "other \<noteq> sp"
    and "auth_delegate rau \<in> set (Delegates s sp)"
  shows "\<exists>s'. space_remove_delegate T origin sp r a s = Ok s' \<and> Authorizations s' r = None \<and>
     Delegates s' other = Delegates s other"
proof -
  obtain idx where idx: "position (auth_delegate rau) (Delegates s sp) = Some idx"
    using assms(13) position_None_iff [of "auth_delegate rau" "Delegates s sp"] by auto
  let ?ds = "remove1 (auth_delegate rau) (Delegates s sp)"
  let ?u = "space_insert sp (d\<lparr>txn_count := saturating_sub (txn_count d) 1\<rparr>)
     (s\<lparr>Delegates := (Delegates s)(sp := ?ds), Authorizations := (Authorizations s)(r := None)\<rparr>)"
  have "timelines_ok T ?u" using assms(2) by (simp add: timelines_ok_def timeline_def)
  from space_update_activity_ok [OF this, of sp IdentifierTypeOf.Auth CallTypeOf.Deauthorization]
  obtain m where m: "space_update_activity T sp IdentifierTypeOf.Auth CallTypeOf.Deauthorization ?u
      = Ok (?u\<lparr>Identifiers := m\<rparr>)" by blast
  have "space_remove_delegate T origin sp r a s =
      Ok (space_deposit_event (SpaceEvent.Deauthorization sp r) (?u\<lparr>Identifiers := m\<rparr>))"
    using assms m idx position_Some [OF idx] position_remove1 [OF idx]
    by (simp add: space_remove_delegate_def ensure_authorization_admin_remove_Ok_iff vec_remove_def Let_def)
  with assms(12) show ?thesis by simp
qed

text \<open>Two spaces \<open>[1]\<close> and \<open>[6]\<close>; \<open>[5]\<close> is a delegate of both, under \<open>[8]\<close> of the second.\<close>

definition shared_delegate_storage :: chain_space where
  "shared_delegate_storage = sample_storage\<lparr>
     Spaces := [[1] \<mapsto> sample_details [2] 9 [1], [6] \<mapsto> sample_details [4] 9 [6]],
     Authorizations := [[3] \<mapsto> sample_auth [1] [2] permissions_all, [8] \<mapsto> sample_auth [6] [5] ASSERT],
     Delegates := (\<lambda>_. [])([1] := [[2], [5]], [6] := [[4], [5]])\<rparr>"

theorem remove_delegate_reaches_other_space_witness:
  "\<exists>s'. space_remove_delegate sample_config (Some [2]) [1] [8] [3] shared_delegate_storage = Ok s' \<and>
     Authorizations s' [8] = None \<and> Delegates s' [6] = [[4], [5]]"
  using remove_delegate_reaches_other_space [of sample_config "Some [2]" "[2]" "[2]" shared_delegate_storage
      "[3]" "sample_auth [1] [2] permissions_all" "[1]" "sample_details [2] 9 [1]" "[8]"
      "sample_auth [6] [5] ASSERT" "[6]"]
  by (simp add: shared_delegate_storage_def sample_storage_def sample_details_def sample_auth_def
      empty_storage_def timelines_ok_def timeline_def active_def has_room_def)

section \<open>Capacity of parents and sub-spaces\<close>

text \<open>With overflow checks in the build, a capacity update by the creator of the parent keeps both
  spaces within their means: afterwards usage and reserve of the sub-space fit its new capacity,
  and usage and reserve of the parent fit the parent's capacity.\<close>

theorem capacity_update_bounds:
  assumes "space_update_transaction_capacity_sub T origin sp n s = Ok s'" "overflow_checks T"
    and "Spaces s sp = Some d" "Spaces s (parent d) = Some pd"
  shows "\<exists>d' pd'. Spaces s' sp = Some d' \<and> Spaces s' (parent d) = Some pd' \<and> txn_capacity d' = n \<and>
     unat (txn_count d') + unat (txn_reserve d') \<le> unat n \<and>
     unat (txn_count pd') + unat (txn_reserve pd') \<le> unat (txn_capacity pd') \<and>
     unat (txn_reserve pd') = unat (txn_reserve pd) - unat (txn_capacity d) + unat n"
proof -
  from assms(1,3,4) obtain after res where
    ne: "parent d \<noteq> sp" and
    u: "plain_add (overflow_checks T) (txn_count d) (txn_reserve d) = (Ok (txn_count d + txn_reserve d) :: (u64, SpaceError) result)"
       "txn_count d + txn_reserve d \<le> n" and
    p: "parent_usage_after (overflow_checks T) pd d n = (Ok after :: (u64, SpaceError) result)" "after \<le> txn_capacity pd" and
    r: "parent_reserve_after (overflow_checks T) pd d n = (Ok res :: (u64, SpaceError) result)"
    by (auto simp: space_update_transaction_capacity_sub_def parent_usage_after_def parent_reserve_after_def
        plain_add_Ok_iff plain_sub_Ok_iff)
  have S: "Spaces s' sp = Some (d\<lparr>txn_capacity := n\<rparr>)" "Spaces s' (parent d) = Some (pd\<lparr>txn_reserve := res\<rparr>)"
    using assms(1,3,4) ne parent_after_OkD(2) [OF r]
    by (auto elim!: space_update_transaction_capacity_sub_OkE dest!: space_update_activity_Spaces
        simp: Spaces_recapacity Let_def)
  have usage: "unat (txn_count d) + unat (txn_reserve d) \<le> unat n"
    using u assms(2) by (simp add: plain_add_Ok_iff word_le_nat_alt unat_add_no_overflow)
  have res: "unat (txn_capacity d) \<le> unat (txn_reserve pd)"
      "unat res = unat (txn_reserve pd) - unat (txn_capacity d) + unat n"
    using r assms(2)
    by (auto simp: parent_reserve_after_def plain_add_Ok_iff plain_sub_Ok_iff word_le_nat_alt
        unat_add_no_overflow unat_sub)
  have "unat (txn_count pd) + unat (txn_reserve pd) + unat n - unat (txn_capacity d) = unat after"
    using p(1) assms(2)
    by (auto simp: parent_usage_after_def plain_add_Ok_iff plain_sub_Ok_iff word_le_nat_alt
        unat_add_no_overflow unat_sub)
  then have "unat (txn_count pd) + unat res \<le> unat (txn_capacity pd)"
    using res p(2) by (simp add: word_le_nat_alt)
  with S usage res show ?thesis by simp
qed

definition family_storage :: chain_space where
  "family_storage = sample_storage\<lparr>Spaces :=
     [[1] \<mapsto> (sample_details [2] 9 [1])\<lparr>txn_reserve := 4\<rparr>, [6] \<mapsto> sample_details [2] 4 [1]]\<rparr>"

lemma family_resize_Ok:
  "is_Ok (space_update_transaction_capacity_sub sample_config (Some [2]) [6] 7 family_storage)"
  by (simp add: space_dispatch_defs family_storage_def sample_storage_def sample_details_def
      empty_storage_def try_push_def Let_def)

theorem capacity_update_bounds_witness:
  "\<exists>s' d' pd'. space_update_transaction_capacity_sub sample_config (Some [2]) [6] 7 family_storage = Ok s' \<and>
     Spaces s' [6] = Some d' \<and> Spaces s' [1] = Some pd' \<and> txn_capacity d' = 7 \<and> unat (txn_reserve pd') = 7"
proof -
  have "Spaces family_storage [6] = Some (sample_details [2] 4 [1])"
    "Spaces family_storage (parent (sample_details [2] 4 [1])) =
       Some ((sample_details [2] 9 [1])\<lparr>txn_reserve := 4\<rparr>)"
    by (simp_all add: family_storage_def sample_details_def)
  from capacity_update_bounds [OF is_Ok_unwrap [OF family_resize_Ok] _ this] is_Ok_unwrap [OF family_resize_Ok]
  show ?thesis by (fastforce simp: sample_details_def)
qed

text \<open>Creating a sub-space with all of the parent's free capacity overcommits the parent by one,
  because the creation itself is counted after the comparison.\<close>

theorem subspace_overcommits_parent:
  assumes "space_subspace_create T origin code (Some n) sp s = Ok s'" "Spaces s sp = Some d"
    and "n = txn_capacity d - (txn_count d + txn_reserve d)"
  shows "\<exists>d'. Spaces s' sp = Some d' \<and> txn_capacity d' = txn_capacity d \<and>
     txn_count d' + txn_reserve d' = txn_capacity d' + 1"
  using assms(1)
  by (rule space_subspace_create_OkE) (use assms(2,3) in \<open>auto dest!: space_update_activity_Spaces\<close>)

lemma sample_branch_Ok:
  "is_Ok (space_subspace_create sample_config (Some [2]) [8] (Some 9) [1] sample_storage)"
proof -
  have "sample_subspace \<noteq> [1]" by code_simp
  then show ?thesis
    by (simp add: space_dispatch_defs sample_identifiers sample_storage_def sample_details_def
        empty_storage_def try_push_def Let_def)
qed

theorem subspace_overcommits_parent_witness:
  "\<exists>s' d'. space_subspace_create sample_config (Some [2]) [8] (Some 9) [1] sample_storage = Ok s' \<and>
     Spaces s' [1] = Some d' \<and> txn_count d' + txn_reserve d' = 10 \<and> txn_capacity d' = 9"
  using is_Ok_unwrap [OF sample_branch_Ok]
    subspace_overcommits_parent [OF is_Ok_unwrap [OF sample_branch_Ok], of "sample_details [2] 9 [1]"]
  by (fastforce simp: sample_storage_def sample_details_def)

text \<open>From then on the free capacity of that parent is computed as \<open>0 - 1\<close>: a build with overflow
  checks panics on the next sub-space, a build without them accepts a sub-space of any capacity.\<close>

theorem overcommitted_parent:
  assumes "EnsureOrigin T origin = Some (who, sender)" "timelines_ok T s"
    and "Spaces s sp = Some d" "active d" "space_creator d = who"
    and "txn_count d + txn_reserve d = txn_capacity d + 1" "txn_capacity d < txn_capacity d + 1"
    and "unat (txn_count d) + unat (txn_reserve d) < 2 ^ 64"
    and "space_identifier T code who = Ok i" "Spaces s i = None"
    and "authorization_identifier T i who who = Ok aid" "0 < unat (MaxSpaceDelegates T)"
  shows "if overflow_checks T then space_subspace_create T origin code (Some n) sp s = Panic
     else (\<exists>s'. space_subspace_create T origin code (Some n) sp s = Ok s')"
proof (cases "overflow_checks T")
  case True
  then show ?thesis
    using assms by (simp add: space_subspace_create_def ensure_subject_def active_def plain_add_def plain_sub_def)
next
  case False
  let ?u = "space_insert i \<lparr>space_code = code, space_creator = who, txn_capacity = n, txn_reserve = 0,
          txn_count = 0, approved = True, archived = False, parent = sp\<rparr>
        (space_insert sp (d\<lparr>txn_count := txn_count d + 1, txn_reserve := txn_reserve d + n\<rparr>)
          (space_anchor i aid who [who] s))"
  obtain m where m: "space_update_activity T i IdentifierTypeOf.ChainSpace CallTypeOf.Genesis ?u
      = Ok (?u\<lparr>Identifiers := m\<rparr>)"
    using space_update_activity_ok [of T ?u i IdentifierTypeOf.ChainSpace CallTypeOf.Genesis] assms(2) by auto
  have "txn_capacity d - (txn_count d + txn_reserve d) = - 1" using assms(6) by simp
  then show ?thesis
    using False assms m by (simp add: space_subspace_create_def active_def plain_add_def plain_sub_def try_push_def)
qed

theorem overcommitted_parent_witness:
  "space_subspace_create sample_config (Some [2]) [8] (Some 500) [1]
     (sample_storage\<lparr>Spaces := [[1] \<mapsto> (sample_details [2] 9 [1])\<lparr>txn_count := 1, txn_reserve := 9\<rparr>]\<rparr>) = Panic"
proof -
  have "sample_subspace \<noteq> [1]" by code_simp
  then show ?thesis
    using overcommitted_parent [of sample_config "Some [2]" "[2]" "[2]" "sample_storage\<lparr>Spaces := [[1] \<mapsto>
        (sample_details [2] 9 [1])\<lparr>txn_count := 1, txn_reserve := 9\<rparr>]\<rparr>" "[1]"
        "(sample_details [2] 9 [1])\<lparr>txn_count := 1, txn_reserve := 9\<rparr>" "[8]" sample_subspace sample_subauthorization 500]
    by (simp add: sample_identifiers sample_storage_def sample_details_def empty_storage_def timelines_ok_def
        timeline_def active_def)
qed

section \<open>The activity timeline\<close>

text \<open>With room for at least two entries, logging never fails, never lets a history exceed its
  bound and never loses the first entry of an identifier (its creation), over any sequence of
  logged actions on any identifiers.\<close>

theorem timeline_keeps_genesis:
  assumes "2 \<le> unat (MaxEventsHistory T)" "\<forall>i. length (timeline s i ty) \<le> unat (MaxEventsHistory T)"
  shows "\<exists>s'. log_all (\<lambda>i. space_update_activity T i ty) xs s = Ok s' \<and>
     (\<forall>i. length (timeline s' i ty) \<le> unat (MaxEventsHistory T)) \<and>
     (\<forall>j. timeline s j ty \<noteq> [] \<longrightarrow> timeline s' j ty \<noteq> [] \<and> hd (timeline s' j ty) = hd (timeline s j ty))"
  using assms by (rule space_log.log_all_keeps_first)

definition logged_storage :: chain_space where
  "logged_storage = sample_storage\<lparr>Identifiers :=
     [([1], IdentifierTypeOf.ChainSpace) \<mapsto>
        [\<lparr>action = CallTypeOf.Genesis, location = \<lparr>height = 2, index = 0\<rparr>\<rparr>,
         \<lparr>action = CallTypeOf.Approved, location = \<lparr>height = 3, index = 0\<rparr>\<rparr>]]\<rparr>"

theorem timeline_keeps_genesis_witness:
  "\<exists>s'. log_all (\<lambda>i. space_update_activity (sample_config\<lparr>MaxEventsHistory := 2\<rparr>) i IdentifierTypeOf.ChainSpace)
       [([1], CallTypeOf.Archive), ([1], CallTypeOf.Restore)] logged_storage = Ok s' \<and>
     action (hd (timeline s' [1] IdentifierTypeOf.ChainSpace)) = CallTypeOf.Genesis"
proof -
  have "2 \<le> unat (MaxEventsHistory (sample_config\<lparr>MaxEventsHistory := 2\<rparr>))"
    "\<forall>i. length (timeline logged_storage i IdentifierTypeOf.ChainSpace) \<le>
       unat (MaxEventsHistory (sample_config\<lparr>MaxEventsHistory := 2\<rparr>))"
    by (simp_all add: logged_storage_def timeline_def)
  from timeline_keeps_genesis [OF this, of "[([1], CallTypeOf.Archive), ([1], CallTypeOf.Restore)]"]
  obtain s' where "log_all (\<lambda>i. space_update_activity (sample_config\<lparr>MaxEventsHistory := 2\<rparr>) i IdentifierTypeOf.ChainSpace)
       [([1], CallTypeOf.Archive), ([1], CallTypeOf.Restore)] logged_storage = Ok s'"
    "timeline logged_storage [1] IdentifierTypeOf.ChainSpace \<noteq> [] \<longrightarrow>
       hd (timeline s' [1] IdentifierTypeOf.ChainSpace) = hd (timeline logged_storage [1] IdentifierTypeOf.ChainSpace)"
    by blast
  then show ?thesis
    by (intro exI [of _ s'] conjI) (simp_all add: logged_storage_def timeline_def del: log_all.simps)
qed

end
