(* ===== verification/Space_Client.thy ===== *)
theory Space_Client
  imports Chain_Space_Invariants
begin

text \<open>
  What the schema, statement, asset and network-score pallets share as clients of chain-space: every
  extrinsic starts with the origin check and the space authorization, every activity goes to the
  pallet's own timeline, and the errors of both pallets come back to the caller.

  The locale \<open>checked_client\<close> states the contract of such a pallet: a call succeeds only after the
  check, and touches only what the pallet holds for the space of the authorization. From it follows
  that the data of a space changes only at the hands of those authorized for it.
\<close>

type_synonym 'e client_error = "(SpaceError + 'e) dispatch_error"

text \<open>\<^verbatim>\<open>T::EnsureOrigin::ensure_origin(origin)?.subject()\<close>, given what the origin check returned.\<close>

definition subject_of :: "(account \<times> account) option \<Rightarrow> (account, 'e dispatch_error) result" where
  "subject_of success = map_err (\<lambda>_. BadOrigin) (ok_or (map_option fst success) ())"

definition in_space :: "('a, SpaceError) result \<Rightarrow> ('a, 'e client_error) result" where
  "in_space r = map_err (\<lambda>e. Module (Inl e)) r"

definition in_pallet :: "('a, 'e) result \<Rightarrow> ('a, 'e client_error) result" where
  "in_pallet r = map_err (\<lambda>e. Module (Inr e)) r"

text \<open>The opening of every client extrinsic: the subject of the origin and the authorized space.\<close>

definition authorize ::
  "(account \<times> account) option \<Rightarrow> ident \<Rightarrow> 'm chain_space_scheme
   \<Rightarrow> (account \<times> ident \<times> 'm chain_space_scheme, 'e client_error) result" where
  "authorize success authorization s =
     and_then (subject_of success) (\<lambda>creator.
     and_then (in_space (ensure_authorization_origin authorization creator s)) (\<lambda>(space_id, s1).
     Ok (creator, space_id, s1)))"

text \<open>\<^verbatim>\<open>update_activity\<close> of a client pallet: the result of the timeline update is dropped.\<close>

definition client_update_activity ::
  "IdentifierTypeOf \<Rightarrow> 'c identifier_config_scheme \<Rightarrow> ident \<Rightarrow> CallTypeOf \<Rightarrow> 'm identifier_storage_scheme
   \<Rightarrow> ('m identifier_storage_scheme, 'e) result" where
  "client_update_activity ty T tx_id tx_action s =
     (let tx_moment = timepoint_now s; tx_entry = \<lparr>action = tx_action, location = tx_moment\<rparr>
      in ignore_err s (update_timeline T tx_id ty tx_entry s))"

lemma subject_of_Ok_iff [simp]: "subject_of success = Ok c \<longleftrightarrow> (\<exists>sender. success = Some (c, sender))"
  by (cases success) (auto simp: subject_of_def)

lemma in_space_Ok_iff [simp]: "in_space r = Ok x \<longleftrightarrow> r = Ok x"
  by (simp add: in_space_def)

lemma in_pallet_Ok_iff [simp]: "in_pallet r = Ok x \<longleftrightarrow> r = Ok x"
  by (simp add: in_pallet_def)

lemma client_simps [simp]:
  "in_space (Ok x) = Ok x" "in_pallet (Ok x) = Ok x" "subject_of (Some (c, sender)) = Ok c"
  by (simp_all add: in_space_def in_pallet_def subject_of_def)

lemma authorize_Ok_iff:
  "authorize success a s = Ok (who, sp, s1) \<longleftrightarrow>
     (\<exists>sender. success = Some (who, sender)) \<and> authorized ASSERT active a who s sp \<and> s1 = count_up_at sp s"
  by (auto simp: authorize_def ensure_authorization_Ok_iff)

lemma authorize_Ok:
  "success = Some (who, sender) \<Longrightarrow> authorized ASSERT active a who s sp \<Longrightarrow>
   authorize success a s = Ok (who, sp, count_up_at sp s)"
  by (auto simp: authorize_Ok_iff)

lemma client_update_activity_frame:
  "client_update_activity ty T i a s = Ok s' \<Longrightarrow> \<exists>m. s' = s\<lparr>Identifiers := m\<rparr>"
  by (auto simp: client_update_activity_def Let_def dest!: update_timeline_frame)
    (metis (no_types) identifier_storage.surjective identifier_storage.update_convs(1))

lemma client_update_activity_ok:
  assumes "timelines_ok T s"
  shows "\<exists>m. client_update_activity ty T i a s = Ok (s\<lparr>Identifiers := m\<rparr>) \<and>
     timelines_ok T (s\<lparr>Identifiers := m\<rparr>)"
  using update_timeline_ok [OF assms] by (force simp: client_update_activity_def Let_def)

lemma client_update_activity_not_Err [simp]: "client_update_activity ty T i a s \<noteq> Err e"
  by (simp add: client_update_activity_def Let_def)

text \<open>A call made with \<open>a\<close> passed the check, and what is held for other spaces is untouched.\<close>

definition touches_authorized ::
  "(account \<times> account) option \<Rightarrow> ident \<Rightarrow> ('m chain_space_scheme \<Rightarrow> ident \<Rightarrow> 'v)
   \<Rightarrow> 'm chain_space_scheme \<Rightarrow> 'm chain_space_scheme \<Rightarrow> bool" where
  "touches_authorized success a view s s' \<longleftrightarrow>
     (\<exists>who sender sp. success = Some (who, sender) \<and> authorized ASSERT active a who s sp \<and>
        (\<forall>sp'. sp' \<noteq> sp \<longrightarrow> view s' sp' = view s sp'))"

lemma touches_authorizedI:
  "success = Some (who, sender) \<Longrightarrow> authorized ASSERT active a who s sp \<Longrightarrow>
   (\<And>sp'. sp' \<noteq> sp \<Longrightarrow> view s' sp' = view s sp') \<Longrightarrow> touches_authorized success a view s s'"
  by (auto simp: touches_authorized_def)

lemma touches_authorized_checked:
  "touches_authorized success a view s s' \<Longrightarrow>
   \<exists>who sp s1. map_option fst success = Some who \<and> ensure_authorization_origin a who s = Ok (sp, s1) \<and>
     (\<forall>sp'. sp' \<noteq> sp \<longrightarrow> view s' sp' = view s sp')"
  by (auto simp: touches_authorized_def ensure_authorization_Ok_iff)

section \<open>The contract of a client\<close>

locale checked_client = authority check grant usable
  for check :: "ident \<Rightarrow> account \<Rightarrow> 's \<Rightarrow> (ident \<times> 's, 'e) result"
    and grant :: "'s \<Rightarrow> ident \<Rightarrow> (account \<times> ident) option"
    and usable :: "'s \<Rightarrow> ident \<Rightarrow> bool" +
  fixes call :: "'c \<Rightarrow> 's \<Rightarrow> ('s, 'f) result"
    and auth_of :: "'c \<Rightarrow> ident"
    and caller :: "'c \<Rightarrow> account option"
    and view :: "'s \<Rightarrow> ident \<Rightarrow> 'v"
    and wf :: "'s \<Rightarrow> bool"
  assumes call_checked: "wf s \<Longrightarrow> call c s = Ok s' \<Longrightarrow>
      \<exists>who sp s1. caller c = Some who \<and> check (auth_of c) who s = Ok (sp, s1) \<and>
        (\<forall>sp'. sp' \<noteq> sp \<longrightarrow> view s' sp' = view s sp')"
    and call_wf: "wf s \<Longrightarrow> call c s = Ok s' \<Longrightarrow> wf s'"
begin

lemma change_needs_grant:
  assumes "wf s" "call c s = Ok s'" "view s' sp \<noteq> view s sp"
  shows "\<exists>who. caller c = Some who \<and> grant s (auth_of c) = Some (who, sp) \<and> usable s sp"
proof -
  from call_checked [OF assms(1,2)] obtain who sp0 s1 where
    c: "caller c = Some who" "check (auth_of c) who s = Ok (sp0, s1)"
      "\<forall>sp'. sp' \<noteq> sp0 \<longrightarrow> view s' sp' = view s sp'"
    by blast
  have "sp0 = sp" using c(3) [rule_format, of sp] assms(3) by auto
  with c check_sound [OF c(2)] show ?thesis by blast
qed

lemma run_wf: "wf s \<Longrightarrow> run_all call cs s = Ok s' \<Longrightarrow> wf s'"
proof (induction cs arbitrary: s)
  case Nil
  then show ?case by simp
next
  case (Cons c cs)
  then obtain t where "call c s = Ok t" "run_all call cs t = Ok s'" by auto
  with Cons.IH [OF call_wf [OF Cons.prems(1)]] show ?case by blast
qed

text \<open>
  A run changes what is held for a space only if one of its calls was made with an authorization for
  it, in the state the calls before it led to.
\<close>

lemma run_change_needs_grant:
  assumes "wf s" "run_all call cs s = Ok s'" "view s' sp \<noteq> view s sp"
  shows "\<exists>cs1 c cs2 t who. cs = cs1 @ c # cs2 \<and> run_all call cs1 s = Ok t \<and>
     caller c = Some who \<and> grant t (auth_of c) = Some (who, sp) \<and> usable t sp"
  using assms
proof (induction cs arbitrary: s)
  case Nil
  then show ?case by simp
next
  case (Cons c cs)
  from Cons.prems(2) obtain t where t: "call c s = Ok t" "run_all call cs t = Ok s'" by auto
  show ?case
  proof (cases "view t sp = view s sp")
    case True
    with Cons.prems(3) have "view s' sp \<noteq> view t sp" by simp
    from Cons.IH [OF call_wf [OF Cons.prems(1) t(1)] t(2) this] obtain cs1 c' cs2 u who where
      "cs = cs1 @ c' # cs2" "run_all call cs1 t = Ok u" "caller c' = Some who"
      "grant u (auth_of c') = Some (who, sp)" "usable u sp"
      by blast
    with t(1) show ?thesis by (intro exI [of _ "c # cs1"] exI [of _ c'] exI [of _ cs2] exI [of _ u]) auto
  next
    case False
    from change_needs_grant [OF Cons.prems(1) t(1) False] obtain who where
      "caller c = Some who" "grant s (auth_of c) = Some (who, sp)" "usable s sp"
      by blast
    then have "c # cs = [] @ c # cs \<and> run_all call [] s = Ok s \<and> caller c = Some who \<and>
       grant s (auth_of c) = Some (who, sp) \<and> usable s sp"
      by simp
    then show ?thesis by blast
  qed
qed

end

end
