(* ===== verification/Statement.thy ===== *)
theory Statement
  imports Space_Client "HOL-Library.AList" "HOL-Library.Multiset"
begin

text \<open>
  The statement pallet (\<^verbatim>\<open>pallets/statement/src\<close>): statements anchored in a space, each with the digests
  it has had (entries), the digests that are revoked, presentations, and a lookup from digest and
  space to the statement.

  The two double maps the code iterates over are association lists under their first key.
  \<open>iter_order\<close> is the order in which the storage yields the keys of one prefix and
  \<open>clear_prefix_keeps\<close> says which keys a limited \<^verbatim>\<open>clear_prefix\<close> leaves; both belong to the storage
  backend and are parameters. \<open>storage_spec\<close> states what is relied on.
\<close>

section \<open>Types\<close>

record statement_details =
  stmt_digest :: hash
  stmt_space :: ident
  stmt_schema :: "ident option"

record statement_entry_status =
  entry_creator :: account
  entry_revoked :: bool

datatype PresentationTypeOf =
  Other | PDF | JPEG | PNG | GIF | TXT | SVG | JSON | DOCX | XLSX | PPTX | MP3 | MP4 | XML

fun extension :: "PresentationTypeOf \<Rightarrow> string" where
  "extension Other = ''unknown''"
| "extension PDF = ''pdf''"
| "extension JPEG = ''jpeg''"
| "extension PNG = ''png''"
| "extension GIF = ''gif''"
| "extension TXT = ''txt''"
| "extension SVG = ''svg''"
| "extension JSON = ''json''"
| "extension DOCX = ''docx''"
| "extension XLSX = ''xlsx''"
| "extension PPTX = ''pptx''"
| "extension MP3 = ''mp3''"
| "extension MP4 = ''mp4''"
| "extension XML = ''xml''"

record presentation_details =
  pres_creator :: account
  pres_type :: PresentationTypeOf
  pres_digest :: hash
  pres_space :: ident

datatype StatementEvent =
    Register ident hash account
  | Update ident hash account
  | Revoke ident account
  | Restore ident account
  | Remove ident account
  | PartialRemoval ident u32 account
  | PresentationAdded ident hash account
  | PresentationRemoved ident hash account
  | RegisterBatch u32 u32 "u16 list" account

datatype StatementError =
    StatementAlreadyAnchored | StatementNotFound | UnauthorizedOperation | StatementEntryNotFound
  | StatementRevoked | StatementNotRevoked | StatementLinkNotFound | StatementLinkRevoked
  | InvalidSignature | HashAlreadyAnchored | ExpiredSignature | InvalidStatementIdentifier
  | InvalidIdentifierLength | StatementSpaceMismatch | DigestHashAlreadyAnchored
  | InvalidTransactionHash | MetadataLimitExceeded | MetadataAlreadySet | MetadataNotFound
  | TooManyDelegates | TooManyDelegatesToRemove | AuthorizationDetailsNotFound
  | MaxStatementActivitiesExceeded | AttestationNotFound | MaxDigestLimitExceeded
  | BulkTransactionFailed | AssociateDigestAlreadyAnchored | PresentationDigestAlreadyAnchored
  | PresentationNotFound | StatementDigestAlreadyAnchored

record statement_storage = chain_space +
  Statements :: "ident \<Rightarrow> statement_details option"
  StatementEntries :: "ident \<Rightarrow> (hash \<times> account) list"
  Presentations :: "ident \<times> hash \<Rightarrow> presentation_details option"
  RevocationList :: "ident \<Rightarrow> (hash \<times> statement_entry_status) list"
  IdentifierLookup :: "hash \<times> ident \<Rightarrow> ident option"
  statement_events :: "StatementEvent list"

record 'o statement_config = "'o space_config" +
  StatementEnsureOrigin :: "'o \<Rightarrow> (account \<times> account) option"
  MaxDigestsPerBatch :: u16
  MaxRemoveEntries :: u16
  iter_order :: "hash list \<Rightarrow> hash list"
  clear_prefix_keeps :: "nat \<Rightarrow> hash list \<Rightarrow> hash list"

definition storage_spec :: "('o, 'c) statement_config_scheme \<Rightarrow> bool" where
  "storage_spec T \<longleftrightarrow>
     (\<forall>ks. mset (iter_order T ks) = mset ks) \<and>
     (\<forall>n ks. set (clear_prefix_keeps T n ks) \<subseteq> set ks) \<and>
     (\<forall>n ks. length ks \<le> n \<longrightarrow> clear_prefix_keeps T n ks = [])"

type_synonym 'm statement_result = "('m statement_storage_scheme, StatementError client_error) result"

section \<open>Internal functions\<close>

definition statement_deposit_event ::
  "StatementEvent \<Rightarrow> 'm statement_storage_scheme \<Rightarrow> 'm statement_storage_scheme" where
  "statement_deposit_event e s = s\<lparr>statement_events := statement_events s @ [e]\<rparr>"

definition statement_update_activity ::
  "'c identifier_config_scheme \<Rightarrow> ident \<Rightarrow> CallTypeOf \<Rightarrow> 'm identifier_storage_scheme
   \<Rightarrow> ('m identifier_storage_scheme, StatementError) result" where
  "statement_update_activity T = client_update_activity IdentifierTypeOf.Statement T"

definition statement_identifier ::
  "'c frame_config_scheme \<Rightarrow> hash \<Rightarrow> ident \<Rightarrow> account \<Rightarrow> (ident, IdentifierError) result" where
  "statement_identifier T digest space_id creator =
     create_identifier T
       (encode_hash T (hashing T (encode_hash T digest @ encode_ident T space_id @ encode_account T creator)))
       IdentifierType.Statement"

text \<open>The three inserts that anchor a statement, shared by \<open>register\<close> and \<open>register_batch\<close>.\<close>

definition statement_anchor ::
  "ident \<Rightarrow> hash \<Rightarrow> ident \<Rightarrow> ident option \<Rightarrow> account \<Rightarrow> 'm statement_storage_scheme
   \<Rightarrow> 'm statement_storage_scheme" where
  "statement_anchor identifier digest space_id schema_id creator s =
     s\<lparr>Statements := (Statements s)(identifier \<mapsto>
         \<lparr>stmt_digest = digest, stmt_space = space_id, stmt_schema = schema_id\<rparr>),
       StatementEntries := (StatementEntries s)(identifier :=
         AList.update digest creator (StatementEntries s identifier)),
       IdentifierLookup := (IdentifierLookup s)((digest, space_id) \<mapsto> identifier)\<rparr>"

definition revoked :: "ident \<Rightarrow> hash \<Rightarrow> 'm statement_storage_scheme \<Rightarrow> bool" where
  "revoked statement_id digest s \<longleftrightarrow> map_of (RevocationList s statement_id) digest \<noteq> None"

definition lookup_remove ::
  "hash \<Rightarrow> ident \<Rightarrow> 'm statement_storage_scheme \<Rightarrow> 'm statement_storage_scheme" where
  "lookup_remove digest space_id s = s\<lparr>IdentifierLookup := (IdentifierLookup s)((digest, space_id) := None)\<rparr>"

definition clear_prefix ::
  "('o, 'c) statement_config_scheme \<Rightarrow> u32 \<Rightarrow> (hash \<times> 'v) list \<Rightarrow> (hash \<times> 'v) list" where
  "clear_prefix T limit kvs =
     (let kept = clear_prefix_keeps T (unat limit) (map fst kvs)
      in filter (\<lambda>kv. List.member kept (fst kv)) kvs)"

section \<open>Extrinsics\<close>

definition statement_register ::
  "('o, 'c) statement_config_scheme \<Rightarrow> 'o \<Rightarrow> hash \<Rightarrow> ident \<Rightarrow> ident option \<Rightarrow> 'm statement_storage_scheme
   \<Rightarrow> 'm statement_result" where
  "statement_register T origin digest authorization schema_id s =
     and_then (authorize (StatementEnsureOrigin T origin) authorization s) (\<lambda>(creator, space_id, s1).
     and_then (in_pallet (map_err (\<lambda>_. StatementError.InvalidIdentifierLength)
                 (statement_identifier T digest space_id creator))) (\<lambda>identifier.
     and_then (in_pallet (ensure (Statements s1 identifier = None)
                 StatementError.StatementAlreadyAnchored)) (\<lambda>_.
     let s2 = statement_anchor identifier digest space_id schema_id creator s1
     in and_then (in_pallet (statement_update_activity T identifier CallTypeOf.Genesis s2)) (\<lambda>s3.
        Ok (statement_deposit_event (StatementEvent.Register identifier digest creator) s3)))))"

definition statement_update ::
  "('o, 'c) statement_config_scheme \<Rightarrow> 'o \<Rightarrow> ident \<Rightarrow> hash \<Rightarrow> ident \<Rightarrow> 'm statement_storage_scheme
   \<Rightarrow> 'm statement_result" where
  "statement_update T origin statement_id new_statement_digest authorization s =
     and_then (authorize (StatementEnsureOrigin T origin) authorization s) (\<lambda>(updater, space_id, s1).
     and_then (in_pallet (ok_or (Statements s1 statement_id) StatementError.StatementNotFound)) (\<lambda>details.
     and_then (in_pallet (ensure (stmt_space details = space_id) StatementError.UnauthorizedOperation)) (\<lambda>_.
     and_then (in_pallet (ensure (\<not> revoked statement_id (stmt_digest details) s1)
                 StatementError.StatementRevoked)) (\<lambda>_.
     and_then (in_pallet (ensure (map_of (StatementEntries s1 statement_id) new_statement_digest = None)
                 StatementError.StatementDigestAlreadyAnchored)) (\<lambda>_.
     let s2 = s1\<lparr>RevocationList := (RevocationList s1)(statement_id :=
                 AList.update (stmt_digest details) \<lparr>entry_creator = updater, entry_revoked = True\<rparr>
                   (RevocationList s1 statement_id)),
                 StatementEntries := (StatementEntries s1)(statement_id :=
                   AList.update new_statement_digest updater (StatementEntries s1 statement_id)),
                 IdentifierLookup := (IdentifierLookup s1)
                   ((new_statement_digest, stmt_space details) \<mapsto> statement_id),
                 Statements := (Statements s1)(statement_id \<mapsto> details\<lparr>stmt_digest := new_statement_digest\<rparr>)\<rparr>
     in and_then (in_pallet (statement_update_activity T statement_id CallTypeOf.Update s2)) (\<lambda>s3.
        Ok (statement_deposit_event (StatementEvent.Update statement_id new_statement_digest updater) s3)))))))"

definition statement_revoke ::
  "('o, 'c) statement_config_scheme \<Rightarrow> 'o \<Rightarrow> ident \<Rightarrow> ident \<Rightarrow> 'm statement_storage_scheme
   \<Rightarrow> 'm statement_result" where
  "statement_revoke T origin statement_id authorization s =
     and_then (authorize (StatementEnsureOrigin T origin) authorization s) (\<lambda>(updater, space_id, s1).
     and_then (in_pallet (ok_or (Statements s1 statement_id) StatementError.StatementNotFound)) (\<lambda>details.
     and_then (in_pallet (ensure (\<not> revoked statement_id (stmt_digest details) s1)
                 StatementError.StatementRevoked)) (\<lambda>_.
     and_then (in_pallet (ensure (stmt_space details = space_id) StatementError.UnauthorizedOperation)) (\<lambda>_.
     let s2 = s1\<lparr>RevocationList := (RevocationList s1)(statement_id :=
                 AList.update (stmt_digest details) \<lparr>entry_creator = updater, entry_revoked = True\<rparr>
                   (RevocationList s1 statement_id))\<rparr>
     in and_then (in_pallet (statement_update_activity T statement_id CallTypeOf.Revoke s2)) (\<lambda>s3.
        Ok (statement_deposit_event (StatementEvent.Revoke statement_id updater) s3))))))"

definition statement_restore ::
  "('o, 'c) statement_config_scheme \<Rightarrow> 'o \<Rightarrow> ident \<Rightarrow> ident \<Rightarrow> 'm statement_storage_scheme
   \<Rightarrow> 'm statement_result" where
  "statement_restore T origin statement_id authorization s =
     and_then (authorize (StatementEnsureOrigin T origin) authorization s) (\<lambda>(updater, space_id, s1).
     and_then (in_pallet (ok_or (Statements s1 statement_id) StatementError.StatementNotFound)) (\<lambda>details.
     and_then (in_pallet (ensure (revoked statement_id (stmt_digest details) s1)
                 StatementError.StatementNotRevoked)) (\<lambda>_.
     and_then (in_pallet (ensure (stmt_space details = space_id) StatementError.UnauthorizedOperation)) (\<lambda>_.
     let s2 = s1\<lparr>RevocationList := (RevocationList s1)(statement_id :=
                 AList.delete (stmt_digest details) (RevocationList s1 statement_id))\<rparr>
     in and_then (in_pallet (statement_update_activity T statement_id CallTypeOf.Restore s2)) (\<lambda>s3.
        Ok (statement_deposit_event (StatementEvent.Restore statement_id updater) s3))))))"

text \<open>
  The loop of a partial removal. The number of rounds is at most \<^verbatim>\<open>MaxRemoveEntries\<close>, a \<^verbatim>\<open>u16\<close>, so the
  counter cannot overflow and is kept as a natural number until it is cast. The code removes entries from the
  prefix it iterates over, which the documentation of storage maps leaves undefined; the model takes the digests from the
  prefix before any is removed.
\<close>

definition remove_one ::
  "ident \<Rightarrow> ident \<Rightarrow> hash \<Rightarrow> 'm statement_storage_scheme \<times> nat \<Rightarrow> 'm statement_storage_scheme \<times> nat" where
  "remove_one statement_id space_id digest acc =
     (let s = lookup_remove digest space_id (fst acc)
      in (s\<lparr>RevocationList := (RevocationList s)(statement_id :=
              AList.delete digest (RevocationList s statement_id)),
            StatementEntries := (StatementEntries s)(statement_id :=
              AList.delete digest (StatementEntries s statement_id))\<rparr>,
          Suc (snd acc)))"

definition statement_remove ::
  "('o, 'c) statement_config_scheme \<Rightarrow> 'o \<Rightarrow> ident \<Rightarrow> ident \<Rightarrow> 'm statement_storage_scheme
   \<Rightarrow> 'm statement_result" where
  "statement_remove T origin statement_id authorization s =
     and_then (authorize (StatementEnsureOrigin T origin) authorization s) (\<lambda>(updater, space_id, s1).
     and_then (in_pallet (ok_or (Statements s1 statement_id) StatementError.StatementNotFound)) (\<lambda>details.
     and_then (in_pallet (ensure (stmt_space details = space_id) StatementError.UnauthorizedOperation)) (\<lambda>_.
     let digests = iter_order T (map fst (StatementEntries s1 statement_id));
         entries_count = length (StatementEntries s1 statement_id);
         max_removals = unat (MaxRemoveEntries T)
     in if entries_count \<le> max_removals then
          (let s2 = fold (\<lambda>digest. lookup_remove digest space_id) digests s1;
               s3 = s2\<lparr>RevocationList := (RevocationList s2)(statement_id :=
                      clear_prefix T (of_nat entries_count) (RevocationList s2 statement_id))\<rparr>;
               s4 = s3\<lparr>StatementEntries := (StatementEntries s3)(statement_id :=
                      clear_prefix T (of_nat entries_count) (StatementEntries s3 statement_id))\<rparr>;
               s5 = s4\<lparr>Statements := (Statements s4)(statement_id := None)\<rparr>
           in and_then (in_space (decrement_usage_entries space_id (of_nat entries_count) s5)) (\<lambda>s6.
              and_then (in_pallet (statement_update_activity T statement_id CallTypeOf.Remove s6)) (\<lambda>s7.
              Ok (statement_deposit_event (StatementEvent.Remove statement_id updater) s7))))
        else
          (let (s2, removed_count) =
                 fold (remove_one statement_id space_id) (take max_removals digests) (s1, 0)
           in and_then (in_space (decrement_usage_entries space_id (of_nat removed_count) s2)) (\<lambda>s3.
              and_then (in_pallet (statement_update_activity T statement_id CallTypeOf.PartialRemove s3)) (\<lambda>s4.
              Ok (statement_deposit_event
                    (StatementEvent.PartialRemoval statement_id (of_nat removed_count) updater) s4)))))))"

text \<open>
  The loop of \<open>register_batch\<close>. Its counters are \<^verbatim>\<open>u32\<close> and count the digests of one call, of which
  there are at most \<^verbatim>\<open>u16::MAX\<close>, so \<^verbatim>\<open>+= 1\<close> does not overflow.
\<close>

record 'm batch_state =
  batch_storage :: 'm
  batch_success :: u32
  batch_fail :: u32
  batch_indices :: "u16 list"

definition batch_failed :: "nat \<Rightarrow> 'm batch_state \<Rightarrow> 'm batch_state" where
  "batch_failed i b = b\<lparr>batch_fail := batch_fail b + 1, batch_indices := batch_indices b @ [of_nat i]\<rparr>"

definition batch_step ::
  "('o, 'c) statement_config_scheme \<Rightarrow> account \<Rightarrow> ident \<Rightarrow> ident option \<Rightarrow> nat \<Rightarrow> hash
   \<Rightarrow> 'm statement_storage_scheme batch_state
   \<Rightarrow> ('m statement_storage_scheme batch_state, StatementError client_error) result" where
  "batch_step T creator space_id schema_id i digest b =
     (case statement_identifier T digest space_id creator of
        Ok identifier \<Rightarrow>
          if Statements (batch_storage b) identifier \<noteq> None then Ok (batch_failed i b)
          else (let s = statement_anchor identifier digest space_id schema_id creator (batch_storage b) in
                case statement_update_activity T identifier CallTypeOf.Genesis s of
                  Err _ \<Rightarrow> Ok (batch_failed i (b\<lparr>batch_storage := s\<rparr>))
                | Ok s' \<Rightarrow> Ok (b\<lparr>batch_storage := s', batch_success := batch_success b + 1\<rparr>)
                | Panic \<Rightarrow> Panic)
      | Err _ \<Rightarrow> Ok (batch_failed i b)
      | Panic \<Rightarrow> Panic)"

fun batch_loop ::
  "('o, 'c) statement_config_scheme \<Rightarrow> account \<Rightarrow> ident \<Rightarrow> ident option \<Rightarrow> nat \<Rightarrow> hash list
   \<Rightarrow> 'm statement_storage_scheme batch_state
   \<Rightarrow> ('m statement_storage_scheme batch_state, StatementError client_error) result" where
  "batch_loop T creator space_id schema_id i [] b = Ok b"
| "batch_loop T creator space_id schema_id i (digest # digests) b =
     and_then (batch_step T creator space_id schema_id i digest b)
       (batch_loop T creator space_id schema_id (Suc i) digests)"

definition statement_register_batch ::
  "('o, 'c) statement_config_scheme \<Rightarrow> 'o \<Rightarrow> hash list \<Rightarrow> ident \<Rightarrow> ident option
   \<Rightarrow> 'm statement_storage_scheme \<Rightarrow> 'm statement_result" where
  "statement_register_batch T origin digests authorization schema_id s =
     and_then (authorize (StatementEnsureOrigin T origin) authorization s) (\<lambda>(creator, space_id, s1).
     and_then (in_pallet (ensure (length digests \<le> unat (MaxDigestsPerBatch T))
                 StatementError.MaxDigestLimitExceeded)) (\<lambda>_.
     and_then (batch_loop T creator space_id schema_id 0 digests
                 \<lparr>batch_storage = s1, batch_success = 0, batch_fail = 0, batch_indices = []\<rparr>) (\<lambda>b.
     and_then (in_pallet (ensure (0 < batch_success b) StatementError.BulkTransactionFailed)) (\<lambda>_.
     and_then (if 1 < length digests
               then in_space (increment_usage_entries space_id (of_nat (length digests - 1)) (batch_storage b))
               else Ok (batch_storage b)) (\<lambda>s2.
     Ok (statement_deposit_event
           (StatementEvent.RegisterBatch (batch_success b) (batch_fail b) (batch_indices b) creator) s2))))))"

definition statement_add_presentation ::
  "('o, 'c) statement_config_scheme \<Rightarrow> 'o \<Rightarrow> ident \<Rightarrow> hash \<Rightarrow> PresentationTypeOf \<Rightarrow> ident
   \<Rightarrow> 'm statement_storage_scheme \<Rightarrow> 'm statement_result" where
  "statement_add_presentation T origin statement_id presentation_digest presentation_type authorization s =
     and_then (authorize (StatementEnsureOrigin T origin) authorization s) (\<lambda>(creator, space_id, s1).
     and_then (in_pallet (ok_or (Statements s1 statement_id) StatementError.StatementNotFound)) (\<lambda>details.
     and_then (in_pallet (ensure (\<not> revoked statement_id (stmt_digest details) s1)
                 StatementError.StatementRevoked)) (\<lambda>_.
     and_then (in_pallet (ensure (stmt_space details = space_id) StatementError.UnauthorizedOperation)) (\<lambda>_.
     and_then (in_pallet (ensure (Presentations s1 (statement_id, presentation_digest) = None)
                 StatementError.PresentationDigestAlreadyAnchored)) (\<lambda>_.
     let s2 = s1\<lparr>IdentifierLookup := (IdentifierLookup s1)((presentation_digest, space_id) \<mapsto> statement_id),
                 Presentations := (Presentations s1)((statement_id, presentation_digest) \<mapsto>
                   \<lparr>pres_creator = creator, pres_type = presentation_type,
                    pres_digest = stmt_digest details, pres_space = space_id\<rparr>)\<rparr>
     in and_then (in_pallet (statement_update_activity T statement_id CallTypeOf.PresentationAdded s2)) (\<lambda>s3.
        Ok (statement_deposit_event
              (StatementEvent.PresentationAdded statement_id presentation_digest creator) s3)))))))"

definition statement_remove_presentation ::
  "('o, 'c) statement_config_scheme \<Rightarrow> 'o \<Rightarrow> ident \<Rightarrow> hash \<Rightarrow> ident \<Rightarrow> 'm statement_storage_scheme
   \<Rightarrow> 'm statement_result" where
  "statement_remove_presentation T origin statement_id presentation_digest authorization s =
     and_then (authorize (StatementEnsureOrigin T origin) authorization s) (\<lambda>(remover, space_id, s1).
     and_then (in_pallet (ok_or (Presentations s1 (statement_id, presentation_digest))
                 StatementError.PresentationNotFound)) (\<lambda>details.
     and_then (in_pallet (ensure (pres_space details = space_id) StatementError.UnauthorizedOperation)) (\<lambda>_.
     let s2 = lookup_remove presentation_digest space_id
                (s1\<lparr>Presentations := (Presentations s1)((statement_id, presentation_digest) := None)\<rparr>)
     in and_then (in_space (decrement_usage space_id s2)) (\<lambda>s3.
        and_then (in_pallet (statement_update_activity T statement_id CallTypeOf.PresentationRemoved s3)) (\<lambda>s4.
        Ok (statement_deposit_event
              (StatementEvent.PresentationRemoved statement_id presentation_digest remover) s4))))))"

section \<open>Calls\<close>

datatype StatementCall =
    RegisterStatement hash ident "ident option"
  | UpdateStatement ident hash ident
  | RevokeStatement ident ident
  | RestoreStatement ident ident
  | RemoveStatement ident ident
  | RegisterStatements "hash list" ident "ident option"
  | AddPresentation ident hash PresentationTypeOf ident
  | RemovePresentation ident hash ident

fun statement_dispatch ::
  "('o, 'c) statement_config_scheme \<Rightarrow> 'o \<Rightarrow> StatementCall \<Rightarrow> 'm statement_storage_scheme
   \<Rightarrow> 'm statement_result" where
  "statement_dispatch T origin (RegisterStatement d a sc) s = statement_register T origin d a sc s"
| "statement_dispatch T origin (UpdateStatement i d a) s = statement_update T origin i d a s"
| "statement_dispatch T origin (RevokeStatement i a) s = statement_revoke T origin i a s"
| "statement_dispatch T origin (RestoreStatement i a) s = statement_restore T origin i a s"
| "statement_dispatch T origin (RemoveStatement i a) s = statement_remove T origin i a s"
| "statement_dispatch T origin (RegisterStatements ds a sc) s = statement_register_batch T origin ds a sc s"
| "statement_dispatch T origin (AddPresentation i d ty a) s = statement_add_presentation T origin i d ty a s"
| "statement_dispatch T origin (RemovePresentation i d a) s = statement_remove_presentation T origin i d a s"

fun statement_auth_of :: "StatementCall \<Rightarrow> ident" where
  "statement_auth_of (RegisterStatement d a sc) = a"
| "statement_auth_of (UpdateStatement i d a) = a"
| "statement_auth_of (RevokeStatement i a) = a"
| "statement_auth_of (RestoreStatement i a) = a"
| "statement_auth_of (RemoveStatement i a) = a"
| "statement_auth_of (RegisterStatements ds a sc) = a"
| "statement_auth_of (AddPresentation i d ty a) = a"
| "statement_auth_of (RemovePresentation i d a) = a"

end
