(* ===== verification/Statement_Lemmas.thy ===== *)
theory Statement_Lemmas
  imports Statement
begin

text \<open>
  What each successful statement call did, the contract of a space client, and the invariant of the
  pallet's storage.
\<close>

section \<open>Frames\<close>

lemma statement_frame_space [simp]:
  "Statements (space_insert i d s) = Statements s" "StatementEntries (space_insert i d s) = StatementEntries s"
  "Presentations (space_insert i d s) = Presentations s" "RevocationList (space_insert i d s) = RevocationList s"
  "IdentifierLookup (space_insert i d s) = IdentifierLookup s"
  "statement_events (space_insert i d s) = statement_events s"
  by (simp_all add: space_insert_def)

lemma statement_frame_count [simp]:
  "Statements (count_up_at sp s) = Statements s" "StatementEntries (count_up_at sp s) = StatementEntries s"
  "Presentations (count_up_at sp s) = Presentations s" "RevocationList (count_up_at sp s) = RevocationList s"
  "IdentifierLookup (count_up_at sp s) = IdentifierLookup s"
  "statement_events (count_up_at sp s) = statement_events s"
  by (simp_all add: count_up_at_def)

lemma statement_deposit_frame [simp]:
  "Statements (statement_deposit_event e s) = Statements s"
  "StatementEntries (statement_deposit_event e s) = StatementEntries s"
  "Presentations (statement_deposit_event e s) = Presentations s"
  "RevocationList (statement_deposit_event e s) = RevocationList s"
  "IdentifierLookup (statement_deposit_event e s) = IdentifierLookup s"
  "Spaces (statement_deposit_event e s) = Spaces s"
  "Authorizations (statement_deposit_event e s) = Authorizations s"
  "Delegates (statement_deposit_event e s) = Delegates s"
  "Identifiers (statement_deposit_event e s) = Identifiers s"
  "statement_events (statement_deposit_event e s) = statement_events s @ [e]"
  by (simp_all add: statement_deposit_event_def)

lemma statement_anchor_frame [simp]:
  "Statements (statement_anchor i d sp sc c s) =
     (Statements s)(i \<mapsto> \<lparr>stmt_digest = d, stmt_space = sp, stmt_schema = sc\<rparr>)"
  "StatementEntries (statement_anchor i d sp sc c s) =
     (StatementEntries s)(i := AList.update d c (StatementEntries s i))"
  "IdentifierLookup (statement_anchor i d sp sc c s) = (IdentifierLookup s)((d, sp) \<mapsto> i)"
  "Presentations (statement_anchor i d sp sc c s) = Presentations s"
  "RevocationList (statement_anchor i d sp sc c s) = RevocationList s"
  "Spaces (statement_anchor i d sp sc c s) = Spaces s"
  "Authorizations (statement_anchor i d sp sc c s) = Authorizations s"
  "Identifiers (statement_anchor i d sp sc c s) = Identifiers s"
  "statement_events (statement_anchor i d sp sc c s) = statement_events s"
  by (simp_all add: statement_anchor_def)

lemma lookup_remove_frame [simp]:
  "Statements (lookup_remove d sp s) = Statements s"
  "StatementEntries (lookup_remove d sp s) = StatementEntries s"
  "Presentations (lookup_remove d sp s) = Presentations s"
  "RevocationList (lookup_remove d sp s) = RevocationList s"
  "IdentifierLookup (lookup_remove d sp s) = (IdentifierLookup s)((d, sp) := None)"
  "Spaces (lookup_remove d sp s) = Spaces s"
  "Authorizations (lookup_remove d sp s) = Authorizations s"
  "statement_events (lookup_remove d sp s) = statement_events s"
  by (simp_all add: lookup_remove_def)

lemma statement_update_activity_frame:
  "statement_update_activity T i a s = Ok s' \<Longrightarrow> \<exists>m. s' = s\<lparr>Identifiers := m\<rparr>"
  unfolding statement_update_activity_def by (rule client_update_activity_frame)

section \<open>Effects of the calls\<close>

definition refunded :: "u64 \<Rightarrow> space_details \<Rightarrow> space_details" where
  "refunded n d = d\<lparr>txn_count := saturating_sub (txn_count d) n\<rparr>"

lemma decrement_usage_refunded:
  "decrement_usage i s = Ok s' \<longleftrightarrow> (\<exists>d. Spaces s i = Some d \<and> s' = space_insert i (refunded 1 d) s)"
  "decrement_usage_entries i n s = Ok s' \<longleftrightarrow>
     (\<exists>d. Spaces s i = Some d \<and> s' = space_insert i (refunded (ucast n) d) s)"
  by (simp_all add: refunded_def)

text \<open>The lookups of the digests \<open>D\<close> in the space \<open>sp\<close> dropped.\<close>

definition drop_lookups :: "ident \<Rightarrow> hash set \<Rightarrow> (hash \<times> ident \<Rightarrow> ident option) \<Rightarrow> hash \<times> ident \<Rightarrow> ident option" where
  "drop_lookups sp D L = (\<lambda>k. if fst k \<in> D \<and> snd k = sp then None else L k)"

lemma statement_register_OkE:
  assumes "statement_register T origin dg a sc s = Ok s'"
  obtains who sender sp i m where
    "StatementEnsureOrigin T origin = Some (who, sender)" "authorized ASSERT active a who s sp"
    "statement_identifier T dg sp who = Ok i" "Statements s i = None"
    "s' = statement_deposit_event (StatementEvent.Register i dg who)
       ((statement_anchor i dg sp sc who (count_up_at sp s))\<lparr>Identifiers := m\<rparr>)"
  using assms by (auto simp: statement_register_def authorize_Ok_iff Let_def
      simp del: fun_upd_apply dest!: statement_update_activity_frame)

lemma statement_update_OkE:
  assumes "statement_update T origin i dg a s = Ok s'"
  obtains who sender d m where
    "StatementEnsureOrigin T origin = Some (who, sender)" "authorized ASSERT active a who s (stmt_space d)"
    "Statements s i = Some d" "\<not> revoked i (stmt_digest d) s" "map_of (StatementEntries s i) dg = None"
    "s' = statement_deposit_event (StatementEvent.Update i dg who)
       ((count_up_at (stmt_space d) s)\<lparr>RevocationList := (RevocationList s)(i :=
                 AList.update (stmt_digest d) \<lparr>entry_creator = who, entry_revoked = True\<rparr> (RevocationList s i)),
           StatementEntries := (StatementEntries s)(i := AList.update dg who (StatementEntries s i)),
           IdentifierLookup := (IdentifierLookup s)((dg, stmt_space d) \<mapsto> i),
           Statements := (Statements s)(i \<mapsto> d\<lparr>stmt_digest := dg\<rparr>), Identifiers := m\<rparr>)"
  using assms by (auto simp: statement_update_def authorize_Ok_iff Let_def revoked_def
      simp del: fun_upd_apply dest!: statement_update_activity_frame)

lemma statement_revoke_OkE:
  assumes "statement_revoke T origin i a s = Ok s'"
  obtains who sender d m where
    "StatementEnsureOrigin T origin = Some (who, sender)" "authorized ASSERT active a who s (stmt_space d)"
    "Statements s i = Some d" "\<not> revoked i (stmt_digest d) s"
    "s' = statement_deposit_event (StatementEvent.Revoke i who)
       ((count_up_at (stmt_space d) s)\<lparr>RevocationList := (RevocationList s)(i :=
                 AList.update (stmt_digest d) \<lparr>entry_creator = who, entry_revoked = True\<rparr> (RevocationList s i)),
           Identifiers := m\<rparr>)"
  using assms by (auto simp: statement_revoke_def authorize_Ok_iff Let_def revoked_def
      simp del: fun_upd_apply dest!: statement_update_activity_frame)

lemma statement_restore_OkE:
  assumes "statement_restore T origin i a s = Ok s'"
  obtains who sender d m where
    "StatementEnsureOrigin T origin = Some (who, sender)" "authorized ASSERT active a who s (stmt_space d)"
    "Statements s i = Some d" "revoked i (stmt_digest d) s"
    "s' = statement_deposit_event (StatementEvent.Restore i who)
       ((count_up_at (stmt_space d) s)\<lparr>RevocationList := (RevocationList s)(i :=
                 AList.delete (stmt_digest d) (RevocationList s i)), Identifiers := m\<rparr>)"
  using assms by (auto simp: statement_restore_def authorize_Ok_iff Let_def revoked_def
      simp del: fun_upd_apply dest!: statement_update_activity_frame)

lemma statement_add_presentation_OkE:
  assumes "statement_add_presentation T origin i p ty a s = Ok s'"
  obtains who sender d m where
    "StatementEnsureOrigin T origin = Some (who, sender)" "authorized ASSERT active a who s (stmt_space d)"
    "Statements s i = Some d" "\<not> revoked i (stmt_digest d) s" "Presentations s (i, p) = None"
    "s' = statement_deposit_event (StatementEvent.PresentationAdded i p who)
       ((count_up_at (stmt_space d) s)\<lparr>IdentifierLookup := (IdentifierLookup s)((p, stmt_space d) \<mapsto> i),
          Presentations := (Presentations s)((i, p) \<mapsto>
            \<lparr>pres_creator = who, pres_type = ty, pres_digest = stmt_digest d, pres_space = stmt_space d\<rparr>),
          Identifiers := m\<rparr>)"
  using assms by (auto simp: statement_add_presentation_def authorize_Ok_iff Let_def revoked_def
      simp del: fun_upd_apply dest!: statement_update_activity_frame)

lemma statement_remove_presentation_OkE:
  assumes "statement_remove_presentation T origin i p a s = Ok s'"
  obtains who sender pd m where
    "StatementEnsureOrigin T origin = Some (who, sender)" "authorized ASSERT active a who s (pres_space pd)"
    "Presentations s (i, p) = Some pd"
    "s' = statement_deposit_event (StatementEvent.PresentationRemoved i p who)
       ((space_insert (pres_space pd)
          (refunded 1 (count_up (the (Spaces s (pres_space pd)))))
          (lookup_remove p (pres_space pd)
            ((count_up_at (pres_space pd) s)\<lparr>Presentations := (Presentations s)((i, p) := None)\<rparr>)))
        \<lparr>Identifiers := m\<rparr>)"
  using assms by (auto simp: statement_remove_presentation_def authorize_Ok_iff Let_def refunded_def
      simp del: fun_upd_apply simp add: fun_upd_same dest!: statement_update_activity_frame)

section \<open>Removal\<close>

lemma fold_lookup_remove:
  "fold (\<lambda>d. lookup_remove d sp) ds s =
     s\<lparr>IdentifierLookup := drop_lookups sp (set ds) (IdentifierLookup s)\<rparr>"
  by (induction ds arbitrary: s)
    (auto simp: lookup_remove_def drop_lookups_def fun_eq_iff intro!: statement_storage.equality)

lemma clear_prefix_all:
  assumes "storage_spec T" "length kvs \<le> unat n"
  shows "clear_prefix T n kvs = []"
  using assms by (simp add: clear_prefix_def storage_spec_def)

text \<open>What a partial removal drops: the digests \<open>D\<close> of the statement \<open>i\<close>.\<close>

definition drop_digests ::
  "ident \<Rightarrow> ident \<Rightarrow> hash set \<Rightarrow> 'm statement_storage_scheme \<Rightarrow> 'm statement_storage_scheme" where
  "drop_digests i sp D s =
     s\<lparr>IdentifierLookup := drop_lookups sp D (IdentifierLookup s),
       RevocationList := (RevocationList s)(i := filter (\<lambda>kv. fst kv \<notin> D) (RevocationList s i)),
       StatementEntries := (StatementEntries s)(i := filter (\<lambda>kv. fst kv \<notin> D) (StatementEntries s i))\<rparr>"

lemma drop_digests_empty [simp]: "drop_digests i sp {} s = s"
  by (simp add: drop_digests_def drop_lookups_def)

lemma drop_digests_compose: "drop_digests i sp D (drop_digests i sp E s) = drop_digests i sp (D \<union> E) s"
  by (rule statement_storage.equality)
    (auto simp: drop_digests_def drop_lookups_def fun_eq_iff filter_filter intro!: filter_cong)

lemma delete_as_filter: "AList.delete d xs = filter (\<lambda>kv. fst kv \<noteq> d) xs"
  by (auto simp: AList.delete_eq intro!: filter_cong)

lemma remove_one_eq: "remove_one i sp d (s, n) = (drop_digests i sp {d} s, Suc n)"
  by (auto simp: remove_one_def lookup_remove_def drop_digests_def drop_lookups_def delete_as_filter fun_eq_iff
      intro!: statement_storage.equality)

lemma fold_remove_one:
  "fold (remove_one i sp) ds (s, n) = (drop_digests i sp (set ds) s, n + length ds)"
  by (induction ds arbitrary: s n)
    (simp_all add: remove_one_eq drop_digests_compose)

definition removal_digests :: "('o, 'c) statement_config_scheme \<Rightarrow> ident \<Rightarrow> 'm statement_storage_scheme \<Rightarrow> hash list" where
  "removal_digests T i s = take (unat (MaxRemoveEntries T)) (iter_order T (map fst (StatementEntries s i)))"

lemma statement_remove_OkE:
  assumes "statement_remove T origin i a s = Ok s'"
  obtains (complete) who sender d m where
    "StatementEnsureOrigin T origin = Some (who, sender)" "authorized ASSERT active a who s (stmt_space d)"
    "Statements s i = Some d" "length (StatementEntries s i) \<le> unat (MaxRemoveEntries T)"
    "s' = statement_deposit_event (StatementEvent.Remove i who)
       ((space_insert (stmt_space d)
          (refunded (ucast (of_nat (length (StatementEntries s i)) :: u16)) (count_up (the (Spaces s (stmt_space d)))))
          ((count_up_at (stmt_space d) s)\<lparr>
            IdentifierLookup := drop_lookups (stmt_space d) (set (iter_order T (map fst (StatementEntries s i))))
              (IdentifierLookup s),
            RevocationList := (RevocationList s)(i :=
              clear_prefix T (of_nat (length (StatementEntries s i))) (RevocationList s i)),
            StatementEntries := (StatementEntries s)(i :=
              clear_prefix T (of_nat (length (StatementEntries s i))) (StatementEntries s i)),
            Statements := (Statements s)(i := None)\<rparr>))\<lparr>Identifiers := m\<rparr>)"
  | (partial) who sender d m where
    "StatementEnsureOrigin T origin = Some (who, sender)" "authorized ASSERT active a who s (stmt_space d)"
    "Statements s i = Some d" "unat (MaxRemoveEntries T) < length (StatementEntries s i)"
    "s' = statement_deposit_event
        (StatementEvent.PartialRemoval i (of_nat (length (removal_digests T i s))) who)
       ((space_insert (stmt_space d)
          (refunded (ucast (of_nat (length (removal_digests T i s)) :: u16)) (count_up (the (Spaces s (stmt_space d)))))
          (drop_digests i (stmt_space d) (set (removal_digests T i s)) (count_up_at (stmt_space d) s)))
        \<lparr>Identifiers := m\<rparr>)"
proof (cases "length (StatementEntries s i) \<le> unat (MaxRemoveEntries T)")
  case True
  with assms show thesis
    by (auto simp: statement_remove_def authorize_Ok_iff Let_def fold_lookup_remove
          decrement_usage_refunded simp del: fun_upd_apply decrement_usage_entries_Ok_iff
        simp add: fun_upd_same dest!: statement_update_activity_frame intro: complete)
next
  case False
  with assms show thesis
    by (auto simp: statement_remove_def authorize_Ok_iff Let_def fold_remove_one
          decrement_usage_refunded drop_digests_def [of i _ _ "count_up_at _ _"] removal_digests_def
        simp del: fun_upd_apply decrement_usage_entries_Ok_iff simp add: fun_upd_same dest!: statement_update_activity_frame intro: partial)
qed

section \<open>Batches\<close>

lemma batch_step_cases:
  assumes "batch_step T who sp sc k d b = Ok b'"
  obtains (failed) "b' = batch_failed k b"
      "\<forall>i. statement_identifier T d sp who = Ok i \<longrightarrow> Statements (batch_storage b) i \<noteq> None"
  | (anchored) i m where "statement_identifier T d sp who = Ok i" "Statements (batch_storage b) i = None"
      "b' = b\<lparr>batch_storage := (statement_anchor i d sp sc who (batch_storage b))\<lparr>Identifiers := m\<rparr>,
              batch_success := batch_success b + 1\<rparr>"
  using assms
  by (auto simp: batch_step_def Let_def statement_update_activity_def split: result.splits if_splits
      dest!: client_update_activity_frame)

lemma batch_failed_storage [simp]: "batch_storage (batch_failed k b) = batch_storage b"
  by (simp add: batch_failed_def)

lemma batch_loop_invariant:
  assumes "batch_loop T who sp sc k ds b = Ok b'" "P (batch_storage b)"
    and "\<And>s i d m. P s \<Longrightarrow> statement_identifier T d sp who = Ok i \<Longrightarrow> Statements s i = None \<Longrightarrow>
           P ((statement_anchor i d sp sc who s)\<lparr>Identifiers := m\<rparr>)"
  shows "P (batch_storage b')"
  using assms(1,2)
proof (induction ds arbitrary: k b)
  case Nil
  then show ?case by simp
next
  case (Cons d ds)
  then obtain b1 where b1: "batch_step T who sp sc k d b = Ok b1" "batch_loop T who sp sc (Suc k) ds b1 = Ok b'"
    by auto
  from b1(1) have "P (batch_storage b1)"
    by (cases rule: batch_step_cases) (auto intro: assms(3) Cons.prems(2))
  from Cons.IH [OF b1(2) this] show ?case .
qed

text \<open>The counters of a batch: every digest is counted once, and every failure leaves its index.\<close>

definition batch_counts :: "nat \<Rightarrow> 'm batch_state \<Rightarrow> bool" where
  "batch_counts n b \<longleftrightarrow> unat (batch_success b) + unat (batch_fail b) = n \<and>
     length (batch_indices b) = unat (batch_fail b)"

lemma unat_Suc: "unat (a :: u32) < n \<Longrightarrow> n < 2 ^ 32 \<Longrightarrow> unat (a + 1) = Suc (unat a)"
  by (subst unat_add_no_overflow) auto

lemma batch_step_counts:
  assumes "batch_step T who sp sc k d b = Ok b'" "batch_counts n b" "Suc n < 2 ^ 32"
  shows "batch_counts (Suc n) b'"
  using assms(1)
proof (cases rule: batch_step_cases)
  case failed
  then show ?thesis
    using assms(2,3) unat_Suc [of "batch_fail b" "Suc n"] by (auto simp: batch_counts_def batch_failed_def)
next
  case (anchored i m)
  then show ?thesis
    using assms(2,3) unat_Suc [of "batch_success b" "Suc n"] by (auto simp: batch_counts_def)
qed

lemma batch_loop_counts:
  assumes "batch_loop T who sp sc k ds b = Ok b'" "batch_counts n b" "n + length ds < 2 ^ 32"
  shows "batch_counts (n + length ds) b'"
  using assms
proof (induction ds arbitrary: k n b)
  case Nil
  then show ?case by simp
next
  case (Cons d ds)
  then obtain b1 where b1: "batch_step T who sp sc k d b = Ok b1" "batch_loop T who sp sc (Suc k) ds b1 = Ok b'"
    by auto
  have "batch_counts (Suc n) b1"
    using batch_step_counts [OF b1(1)] Cons.prems by simp
  from Cons.IH [OF b1(2) this] Cons.prems show ?case by simp
qed

lemma statement_register_batch_OkE:
  assumes "statement_register_batch T origin ds a sc s = Ok s'"
  obtains who sender sp b where
    "StatementEnsureOrigin T origin = Some (who, sender)" "authorized ASSERT active a who s sp"
    "length ds \<le> unat (MaxDigestsPerBatch T)"
    "batch_loop T who sp sc 0 ds
       \<lparr>batch_storage = count_up_at sp s, batch_success = 0, batch_fail = 0, batch_indices = []\<rparr> = Ok b"
    "0 < batch_success b" "Spaces (batch_storage b) = Spaces (count_up_at sp s)"
    "s' = statement_deposit_event
       (StatementEvent.RegisterBatch (batch_success b) (batch_fail b) (batch_indices b) who)
       (if 1 < length ds
        then space_insert sp ((count_up (the (Spaces s sp)))\<lparr>txn_count :=
               saturating_add (txn_count (count_up (the (Spaces s sp)))) (ucast (of_nat (length ds - 1) :: u16))\<rparr>)
               (batch_storage b)
        else batch_storage b)"
proof -
  from assms obtain who sender sp b s2 where
    h: "StatementEnsureOrigin T origin = Some (who, sender)" "authorized ASSERT active a who s sp"
      "length ds \<le> unat (MaxDigestsPerBatch T)" "0 < batch_success b" and
    b: "batch_loop T who sp sc 0 ds
       \<lparr>batch_storage = count_up_at sp s, batch_success = 0, batch_fail = 0, batch_indices = []\<rparr> = Ok b" and
    s2: "(if 1 < length ds
               then in_space (increment_usage_entries sp (of_nat (length ds - 1)) (batch_storage b))
               else Ok (batch_storage b)) = (Ok s2 :: (_, StatementError client_error) result)" and
    s': "s' = statement_deposit_event
       (StatementEvent.RegisterBatch (batch_success b) (batch_fail b) (batch_indices b) who) s2"
    unfolding statement_register_batch_def and_then_Ok_iff
    by (auto simp: authorize_Ok_iff simp del: increment_usage_entries_Ok_iff)
  have sp: "Spaces (batch_storage b) = Spaces (count_up_at sp s)"
    by (rule batch_loop_invariant [OF b]) auto
  show thesis
    by (rule that [OF h(1-3) b h(4) sp]) (use s' s2 sp in \<open>auto split: if_splits\<close>)
qed

section \<open>The storage invariant\<close>

definition statement_wf :: "'m statement_storage_scheme \<Rightarrow> bool" where
  "statement_wf s \<longleftrightarrow>
     (\<forall>i. distinct (map fst (StatementEntries s i)) \<and> distinct (map fst (RevocationList s i))) \<and>
     (\<forall>i. StatementEntries s i \<noteq> [] \<longrightarrow> Statements s i \<noteq> None)"

lemma statement_wf_anchor:
  "statement_wf s \<Longrightarrow> statement_wf ((statement_anchor i d sp sc who s)\<lparr>Identifiers := m\<rparr>)"
  by (auto simp: statement_wf_def distinct_update)

lemma distinct_map_filter_fst: "distinct (map fst xs) \<Longrightarrow> distinct (map fst (filter P xs))"
  by (induction xs) auto

lemma clear_prefix_distinct: "distinct (map fst xs) \<Longrightarrow> distinct (map fst (clear_prefix T n xs))"
  by (simp add: clear_prefix_def Let_def distinct_map_filter_fst)

lemma unat_of_nat_entries:
  assumes "n \<le> unat (m :: u16)"
  shows "unat (of_nat n :: u32) = n" "unat (of_nat n :: u16) = n"
proof -
  have "n < 2 ^ 16" using assms unat_bound [of m] by simp
  then show "unat (of_nat n :: u32) = n" "unat (of_nat n :: u16) = n"
    by (simp_all add: unat_of_nat)
qed

lemma clear_entries:
  assumes "storage_spec T" "length xs \<le> unat (MaxRemoveEntries T)"
  shows "clear_prefix T (of_nat (length xs)) xs = []"
  using assms unat_of_nat_entries(1) [OF assms(2)] by (intro clear_prefix_all) simp_all

lemma statement_wf_dispatch:
  assumes "statement_dispatch T origin c s = Ok s'" "storage_spec T" "statement_wf s"
  shows "statement_wf s'"
proof (cases c)
  case (RegisterStatements ds a sc)
  with assms(1) have "statement_register_batch T origin ds a sc s = Ok s'" by simp
  then show ?thesis
  proof (rule statement_register_batch_OkE)
    fix who sp b
    assume b: "batch_loop T who sp sc 0 ds
       \<lparr>batch_storage = count_up_at sp s, batch_success = 0, batch_fail = 0, batch_indices = []\<rparr> = Ok b"
      and s': "s' = statement_deposit_event
       (StatementEvent.RegisterBatch (batch_success b) (batch_fail b) (batch_indices b) who)
       (if 1 < length ds
        then space_insert sp ((count_up (the (Spaces s sp)))\<lparr>txn_count :=
               saturating_add (txn_count (count_up (the (Spaces s sp)))) (ucast (of_nat (length ds - 1) :: u16))\<rparr>)
               (batch_storage b)
        else batch_storage b)"
    have "statement_wf (batch_storage b)"
      by (rule batch_loop_invariant [OF b]) (use assms(3) in \<open>simp add: statement_wf_def\<close>, rule statement_wf_anchor)
    with s' show ?thesis by (simp add: statement_wf_def)
  qed
next
  case (RemoveStatement i a)
  with assms(1) have "statement_remove T origin i a s = Ok s'" by simp
  then show ?thesis
    using assms(3)
    by (cases rule: statement_remove_OkE)
      (auto simp: statement_wf_def clear_entries [OF assms(2)] clear_prefix_distinct drop_digests_def
        distinct_map_filter_fst filter_empty_conv)
next
  case (RegisterStatement d a sc)
  with assms show ?thesis
    by (auto elim!: statement_register_OkE simp: statement_wf_def distinct_update)
qed (use assms in \<open>auto elim!: statement_update_OkE statement_revoke_OkE statement_restore_OkE
      statement_add_presentation_OkE statement_remove_presentation_OkE
      simp: statement_wf_def distinct_update distinct_delete\<close>)

section \<open>The contract of a space client\<close>

text \<open>Everything the pallet holds for one space.\<close>

definition statement_view ::
  "'m statement_storage_scheme \<Rightarrow> ident \<Rightarrow>
   (ident \<Rightarrow> (statement_details \<times> (hash \<times> account) list \<times> (hash \<times> statement_entry_status) list) option) \<times>
   (ident \<times> hash \<Rightarrow> presentation_details option) \<times> (hash \<Rightarrow> ident option)" where
  "statement_view s sp =
     ((\<lambda>i. case Statements s i of
             Some d \<Rightarrow> if stmt_space d = sp then Some (d, StatementEntries s i, RevocationList s i) else None
           | None \<Rightarrow> None),
      (\<lambda>k. case Presentations s k of
             Some p \<Rightarrow> if pres_space p = sp then Some p else None | None \<Rightarrow> None),
      (\<lambda>d. IdentifierLookup s (d, sp)))"

lemma statement_view_cong:
  assumes "Statements s = Statements t" "StatementEntries s = StatementEntries t"
    and "RevocationList s = RevocationList t" "Presentations s = Presentations t"
    and "IdentifierLookup s = IdentifierLookup t"
  shows "statement_view s = statement_view t"
  unfolding statement_view_def assms ..

lemma statement_view_anchor:
  "Statements s i = None \<Longrightarrow> sp' \<noteq> sp \<Longrightarrow>
   statement_view ((statement_anchor i d sp sc who s)\<lparr>Identifiers := m\<rparr>) sp' = statement_view s sp'"
  by (auto simp: statement_view_def fun_eq_iff split: option.split)

lemma statement_view_batch:
  assumes "statement_register_batch T origin ds a sc s = Ok s'"
  shows "touches_authorized (StatementEnsureOrigin T origin) a statement_view s s'"
  using assms
proof (rule statement_register_batch_OkE)
  fix who sender sp b
  assume h: "StatementEnsureOrigin T origin = Some (who, sender)" "authorized ASSERT active a who s sp"
    and b: "batch_loop T who sp sc 0 ds
       \<lparr>batch_storage = count_up_at sp s, batch_success = 0, batch_fail = 0, batch_indices = []\<rparr> = Ok b"
    and s': "s' = statement_deposit_event
       (StatementEvent.RegisterBatch (batch_success b) (batch_fail b) (batch_indices b) who)
       (if 1 < length ds
        then space_insert sp ((count_up (the (Spaces s sp)))\<lparr>txn_count :=
               saturating_add (txn_count (count_up (the (Spaces s sp)))) (ucast (of_nat (length ds - 1) :: u16))\<rparr>)
               (batch_storage b)
        else batch_storage b)"
  have "statement_view s' sp' = statement_view s sp'" if "sp' \<noteq> sp" for sp'
  proof -
    have "statement_view (batch_storage b) sp' = statement_view s sp'"
      by (rule batch_loop_invariant [OF b])
        (simp_all add: statement_view_anchor [OF _ that] statement_view_cong [of "count_up_at sp s" s])
    moreover have "statement_view s' = statement_view (batch_storage b)"
      by (rule statement_view_cong) (simp_all add: s')
    ultimately show ?thesis by simp
  qed
  with h show ?thesis by (rule touches_authorizedI)
qed

lemma statement_view_remove:
  assumes "statement_remove T origin i a s = Ok s'"
  shows "touches_authorized (StatementEnsureOrigin T origin) a statement_view s s'"
  using assms
proof (cases rule: statement_remove_OkE)
  case (complete who sender d m)
  show ?thesis
    by (rule touches_authorizedI [OF complete(1,2)])
      (auto simp: complete(3,5) statement_view_def drop_lookups_def fun_eq_iff split: option.split)
next
  case (partial who sender d m)
  show ?thesis
    by (rule touches_authorizedI [OF partial(1,2)])
      (auto simp: partial(3,5) statement_view_def drop_digests_def drop_lookups_def fun_eq_iff split: option.split)
qed

lemma statement_view_writes:
  "statement_register T origin d a sc s = Ok s' \<Longrightarrow> touches_authorized (StatementEnsureOrigin T origin) a statement_view s s'"
  "statement_update T origin i d a s = Ok s' \<Longrightarrow> touches_authorized (StatementEnsureOrigin T origin) a statement_view s s'"
  "statement_revoke T origin i a s = Ok s' \<Longrightarrow> touches_authorized (StatementEnsureOrigin T origin) a statement_view s s'"
  "statement_restore T origin i a s = Ok s' \<Longrightarrow> touches_authorized (StatementEnsureOrigin T origin) a statement_view s s'"
  "statement_add_presentation T origin i d ty a s = Ok s' \<Longrightarrow>
     touches_authorized (StatementEnsureOrigin T origin) a statement_view s s'"
  "statement_remove_presentation T origin i d a s = Ok s' \<Longrightarrow>
     touches_authorized (StatementEnsureOrigin T origin) a statement_view s s'"
  by (erule statement_register_OkE statement_update_OkE statement_revoke_OkE statement_restore_OkE
      statement_add_presentation_OkE statement_remove_presentation_OkE,
      rule touches_authorizedI, assumption, assumption,
      auto simp: statement_view_def fun_eq_iff split: option.split)+

lemma statement_view_dispatch:
  "statement_dispatch T origin c s = Ok s' \<Longrightarrow>
   touches_authorized (StatementEnsureOrigin T origin) (statement_auth_of c) statement_view s s'"
  by (cases c) (auto dest: statement_view_writes statement_view_batch statement_view_remove)

interpretation statement_client: checked_client ensure_authorization_origin "space_grant ASSERT" "space_usable active"
  "\<lambda>(origin, c). statement_dispatch T origin c" "\<lambda>(origin, c). statement_auth_of c"
  "\<lambda>(origin, c). map_option fst (StatementEnsureOrigin T origin)" statement_view
  "\<lambda>s. storage_spec T \<and> statement_wf s" for T
proof (unfold_locales, goal_cases)
  case (1 s oc s')
  then show ?case
    by (cases oc) (auto dest!: statement_view_dispatch dest: touches_authorized_checked)
next
  case (2 s oc s')
  then show ?case
    by (cases oc) (auto dest: statement_wf_dispatch)
qed

end
