(* ===== verification/Statement_Properties.thy ===== *)
theory Statement_Properties
  imports Statement_Lemmas Chain_Space_Properties
begin

text \<open>The properties of the statement pallet.\<close>

section \<open>Sample storage\<close>

definition sample_statement_config :: "account option statement_config" where
  "sample_statement_config = \<lparr>overflow_checks = True, hashing = sample_hash, encode_hash = id,
     encode_account = id, encode_ident = id, encode_vec = id, blake2b_64 = sample_hash,
     bs58_encode = halves, bs58_decode = unhalves, MaxEventsHistory = 6,
     EnsureOrigin = map_option (\<lambda>a. (a, a)), ChainSpaceOrigin = (\<lambda>o'. o' = None),
     is_permissioned = True, MaxSpaceDelegates = 5,
     StatementEnsureOrigin = map_option (\<lambda>a. (a, a)), MaxDigestsPerBatch = 10, MaxRemoveEntries = 2,
     iter_order = id, clear_prefix_keeps = (\<lambda>n ks. drop n ks)\<rparr>"

lemma sample_statement_config_simps [simp]:
  "MaxEventsHistory sample_statement_config = 6" "overflow_checks sample_statement_config"
  "EnsureOrigin sample_statement_config = map_option (\<lambda>a. (a, a))"
  "ChainSpaceOrigin sample_statement_config o' \<longleftrightarrow> o' = None" "is_permissioned sample_statement_config"
  "MaxSpaceDelegates sample_statement_config = 5"
  "StatementEnsureOrigin sample_statement_config = map_option (\<lambda>a. (a, a))"
  "MaxDigestsPerBatch sample_statement_config = 10" "MaxRemoveEntries sample_statement_config = 2"
  "iter_order sample_statement_config = id"
  by (simp_all add: sample_statement_config_def)

lemma sample_storage_spec: "storage_spec sample_statement_config"
  by (auto simp: storage_spec_def sample_statement_config_def dest: in_set_dropD)

text \<open>The space \<open>[1]\<close> of unlimited capacity with its creator's authorization \<open>[3]\<close>, and a statement \<open>[9]\<close>
  with three digests in it.\<close>

definition empty_statements :: statement_storage where
  "empty_statements = \<lparr>block_number = 4, extrinsic_index = Some 1, Identifiers = Map.empty,
     Spaces = [[1] \<mapsto> sample_details [2] 0 [1]], Authorizations = [[3] \<mapsto> sample_auth [1] [2] permissions_all],
     Delegates = (\<lambda>_. [])([1] := [[2]]), space_events = [],
     Statements = Map.empty, StatementEntries = (\<lambda>_. []), Presentations = Map.empty,
     RevocationList = (\<lambda>_. []), IdentifierLookup = Map.empty, statement_events = []\<rparr>"

definition sample_statement :: statement_details where
  "sample_statement = \<lparr>stmt_digest = [13], stmt_space = [1], stmt_schema = None\<rparr>"

definition sample_statements :: statement_storage where
  "sample_statements = empty_statements\<lparr>Statements := [[9] \<mapsto> sample_statement],
     StatementEntries := (\<lambda>_. [])([9] := [([11], [2]), ([12], [2]), ([13], [2])])\<rparr>"

lemma sample_authorized:
  "authorized ASSERT active [3] [2] empty_statements [1]" "authorized ASSERT active [3] [2] sample_statements [1]"
  by (simp_all add: authorized_def sample_statements_def empty_statements_def sample_auth_def sample_details_def
      active_def has_room_def)

lemma sample_timelines:
  "timelines_ok sample_statement_config empty_statements" "timelines_ok sample_statement_config sample_statements"
  by (simp_all add: timelines_ok_def timeline_def sample_statements_def empty_statements_def)

lemma statement_update_activity_ok:
  "timelines_ok T s \<Longrightarrow> \<exists>m. statement_update_activity T i a s = Ok (s\<lparr>Identifiers := m\<rparr>) \<and>
     timelines_ok T (s\<lparr>Identifiers := m\<rparr>)"
  unfolding statement_update_activity_def by (rule client_update_activity_ok)

lemma timelines_ok_statement [simp]:
  "timelines_ok T (statement_anchor i d sp sc who s) = timelines_ok T s"
  "timelines_ok T (statement_deposit_event e s) = timelines_ok T s"
  "timelines_ok T (lookup_remove d sp s) = timelines_ok T s"
  "timelines_ok T (s\<lparr>RevocationList := r\<rparr>) = timelines_ok T s"
  by (rule timelines_ok_cong, simp add: lookup_remove_def)+

section \<open>Registration\<close>

lemma register_total:
  assumes "timelines_ok T s" "StatementEnsureOrigin T origin = Some (who, sender)"
    and "authorized ASSERT active a who s sp" "statement_identifier T dg sp who = Ok i" "Statements s i = None"
  shows "\<exists>m. statement_register T origin dg a sc s = Ok (statement_deposit_event (StatementEvent.Register i dg who)
       ((statement_anchor i dg sp sc who (count_up_at sp s))\<lparr>Identifiers := m\<rparr>)) \<and>
     timelines_ok T ((statement_anchor i dg sp sc who (count_up_at sp s))\<lparr>Identifiers := m\<rparr>)"
proof -
  let ?u = "statement_anchor i dg sp sc who (count_up_at sp s)"
  have "timelines_ok T ?u" using assms(1) by simp
  from statement_update_activity_ok [OF this, of i CallTypeOf.Genesis] obtain m where
    "statement_update_activity T i CallTypeOf.Genesis ?u = Ok (?u\<lparr>Identifiers := m\<rparr>)"
    "timelines_ok T (?u\<lparr>Identifiers := m\<rparr>)" by blast
  moreover have "statement_register T origin dg a sc s =
      and_then (in_pallet (statement_update_activity T i CallTypeOf.Genesis ?u))
        (\<lambda>u. Ok (statement_deposit_event (StatementEvent.Register i dg who) u))"
    unfolding statement_register_def authorize_Ok [OF assms(2,3)] using assms(4,5) by simp
  ultimately show ?thesis by auto
qed

text \<open>C9: registering a digest succeeds exactly when the caller is authorized for a space, the
  identifier derived from digest, space and caller can be made and is not taken; then the
  statement, its first entry and the lookup from digest and space are stored, every other
  statement stays as it was, and the space counts one transaction.\<close>

theorem register_exact:
  assumes "timelines_ok T s"
  shows "((\<exists>s'. statement_register T origin dg a sc s = Ok s') \<longleftrightarrow>
       (\<exists>who sender sp i. StatementEnsureOrigin T origin = Some (who, sender) \<and>
          authorized ASSERT active a who s sp \<and> statement_identifier T dg sp who = Ok i \<and> Statements s i = None)) \<and>
     (\<forall>s'. statement_register T origin dg a sc s = Ok s' \<longrightarrow>
       (\<exists>who sp i. authorized ASSERT active a who s sp \<and> statement_identifier T dg sp who = Ok i \<and>
         Statements s' = (Statements s)(i \<mapsto> \<lparr>stmt_digest = dg, stmt_space = sp, stmt_schema = sc\<rparr>) \<and>
         map_of (StatementEntries s' i) dg = Some who \<and> IdentifierLookup s' (dg, sp) = Some i \<and>
         Spaces s' = (Spaces s)(sp \<mapsto> count_up (the (Spaces s sp)))))"
proof (intro conjI allI impI)
  show "(\<exists>s'. statement_register T origin dg a sc s = Ok s') \<longleftrightarrow>
       (\<exists>who sender sp i. StatementEnsureOrigin T origin = Some (who, sender) \<and>
          authorized ASSERT active a who s sp \<and> statement_identifier T dg sp who = Ok i \<and> Statements s i = None)"
    using register_total [OF assms] by (blast elim: statement_register_OkE)
  fix s'
  assume "statement_register T origin dg a sc s = Ok s'"
  then show "\<exists>who sp i. authorized ASSERT active a who s sp \<and> statement_identifier T dg sp who = Ok i \<and>
         Statements s' = (Statements s)(i \<mapsto> \<lparr>stmt_digest = dg, stmt_space = sp, stmt_schema = sc\<rparr>) \<and>
         map_of (StatementEntries s' i) dg = Some who \<and> IdentifierLookup s' (dg, sp) = Some i \<and>
         Spaces s' = (Spaces s)(sp \<mapsto> count_up (the (Spaces s sp)))"
    by (rule statement_register_OkE) (intro exI conjI, assumption, assumption, simp_all add: update_conv')
qed

definition sample_statement_id :: ident where
  "sample_statement_id = unwrap_or [] (statement_identifier sample_statement_config [11] [1] [2])"

lemma sample_statement_id: "statement_identifier sample_statement_config [11] [1] [2] = Ok sample_statement_id"
  by code_simp

theorem register_exact_witness:
  "timelines_ok sample_statement_config empty_statements \<and>
   (\<exists>s'. statement_register sample_statement_config (Some [2]) [11] [3] None empty_statements = Ok s')"
  using register_exact [OF sample_timelines(1), of "Some [2]" "[11]" "[3]" None] sample_authorized(1)
    sample_statement_id sample_timelines(1)
  by (auto simp: empty_statements_def)

section \<open>Revocation\<close>

lemma revoke_total:
  assumes "timelines_ok T s" "StatementEnsureOrigin T origin = Some (who, sender)"
    and "Statements s i = Some d" "authorized ASSERT active a who s (stmt_space d)" "\<not> revoked i (stmt_digest d) s"
  shows "\<exists>s'. statement_revoke T origin i a s = Ok s' \<and> timelines_ok T s' \<and>
     Statements s' = Statements s \<and> StatementEntries s' = StatementEntries s \<and>
     Authorizations s' = Authorizations s \<and> Spaces s' = Spaces (count_up_at (stmt_space d) s) \<and>
     RevocationList s' = (RevocationList s)(i := AList.update (stmt_digest d)
       \<lparr>entry_creator = who, entry_revoked = True\<rparr> (RevocationList s i))"
proof -
  let ?u = "(count_up_at (stmt_space d) s)\<lparr>RevocationList := (RevocationList s)(i := AList.update (stmt_digest d)
       \<lparr>entry_creator = who, entry_revoked = True\<rparr> (RevocationList s i))\<rparr>"
  have "timelines_ok T ?u" using assms(1) by simp
  from statement_update_activity_ok [OF this, of i CallTypeOf.Revoke] obtain m where
    m: "statement_update_activity T i CallTypeOf.Revoke ?u = Ok (?u\<lparr>Identifiers := m\<rparr>)"
    "timelines_ok T (?u\<lparr>Identifiers := m\<rparr>)" by blast
  have "statement_revoke T origin i a s =
      Ok (statement_deposit_event (StatementEvent.Revoke i who) (?u\<lparr>Identifiers := m\<rparr>))"
    unfolding statement_revoke_def authorize_Ok [OF assms(2,4)] using assms(3,5) m(1) by (simp add: revoked_def)
  with m(2) show ?thesis by simp
qed

lemma restore_total:
  assumes "timelines_ok T s" "StatementEnsureOrigin T origin = Some (who, sender)"
    and "Statements s i = Some d" "authorized ASSERT active a who s (stmt_space d)" "revoked i (stmt_digest d) s"
  shows "\<exists>s'. statement_restore T origin i a s = Ok s' \<and> timelines_ok T s' \<and>
     Statements s' = Statements s \<and> StatementEntries s' = StatementEntries s \<and>
     Authorizations s' = Authorizations s \<and> Spaces s' = Spaces (count_up_at (stmt_space d) s) \<and>
     RevocationList s' = (RevocationList s)(i := AList.delete (stmt_digest d) (RevocationList s i))"
proof -
  let ?u = "(count_up_at (stmt_space d) s)\<lparr>RevocationList := (RevocationList s)(i :=
       AList.delete (stmt_digest d) (RevocationList s i))\<rparr>"
  have "timelines_ok T ?u" using assms(1) by simp
  from statement_update_activity_ok [OF this, of i CallTypeOf.Restore] obtain m where
    m: "statement_update_activity T i CallTypeOf.Restore ?u = Ok (?u\<lparr>Identifiers := m\<rparr>)"
    "timelines_ok T (?u\<lparr>Identifiers := m\<rparr>)" by blast
  have "statement_restore T origin i a s =
      Ok (statement_deposit_event (StatementEvent.Restore i who) (?u\<lparr>Identifiers := m\<rparr>))"
    unfolding statement_restore_def authorize_Ok [OF assms(2,4)] using assms(3,5) m(1) by (simp add: revoked_def)
  with m(2) show ?thesis by simp
qed

lemma delete_update_fresh: "map_of xs k = None \<Longrightarrow> AList.delete k (AList.update k v xs) = xs"
  by (induction xs) (auto split: if_splits)

lemma authorized_count_up_again:
  assumes "authorized ASSERT active a who s sp" "Spaces s sp = Some d" "has_room (count_up (count_up d))"
    and "Authorizations s' = Authorizations s" "Spaces s' = Spaces (count_up_at sp s)"
  shows "authorized ASSERT active a who s' sp"
  using assms by (auto simp: authorized_def)

text \<open>Revoking a statement and restoring it is a round trip: with room for two transactions both
  calls succeed for the authorized holder, in between the current digest counts as revoked and a
  second revocation is refused, and afterwards the revocation list, the statement and its entries
  are what they were.\<close>

theorem revoke_restore_roundtrip:
  assumes "timelines_ok T s" "StatementEnsureOrigin T origin = Some (who, sender)"
    and "Statements s i = Some d" "authorized ASSERT active a who s (stmt_space d)"
    and "\<not> revoked i (stmt_digest d) s"
    and "Spaces s (stmt_space d) = Some sd" "has_room (count_up (count_up sd))"
  shows "\<exists>s1 s2. statement_revoke T origin i a s = Ok s1 \<and> statement_restore T origin i a s1 = Ok s2 \<and>
     revoked i (stmt_digest d) s1 \<and> (\<nexists>s3. statement_revoke T origin i a s1 = Ok s3) \<and>
     RevocationList s2 = RevocationList s \<and> Statements s2 = Statements s \<and>
     StatementEntries s2 = StatementEntries s"
proof -
  from revoke_total [OF assms(1-5)] obtain s1 where
    s1: "statement_revoke T origin i a s = Ok s1" "timelines_ok T s1" "Statements s1 = Statements s"
      "StatementEntries s1 = StatementEntries s" "Authorizations s1 = Authorizations s"
      "Spaces s1 = Spaces (count_up_at (stmt_space d) s)"
      "RevocationList s1 = (RevocationList s)(i := AList.update (stmt_digest d)
         \<lparr>entry_creator = who, entry_revoked = True\<rparr> (RevocationList s i))"
    by blast
  have rev: "revoked i (stmt_digest d) s1" by (simp add: revoked_def s1(7) update_conv')
  have "Statements s1 i = Some d" using s1(3) assms(3) by simp
  moreover have "authorized ASSERT active a who s1 (stmt_space d)"
    using authorized_count_up_again [OF assms(4,6,7) s1(5,6)] .
  ultimately obtain s2 where
    s2: "statement_restore T origin i a s1 = Ok s2" "Statements s2 = Statements s1"
      "StatementEntries s2 = StatementEntries s1"
      "RevocationList s2 = (RevocationList s1)(i := AList.delete (stmt_digest d) (RevocationList s1 i))"
    using restore_total [OF s1(2) assms(2) _ _ rev] by blast
  have "\<nexists>s3. statement_revoke T origin i a s1 = Ok s3"
    using rev s1(3) assms(3) by (auto elim!: statement_revoke_OkE)
  moreover have "RevocationList s2 = RevocationList s"
    using assms(5) by (simp add: s2(4) s1(7) revoked_def delete_update_fresh)
  ultimately show ?thesis using s1 s2 rev by auto
qed

theorem revoke_restore_roundtrip_witness:
  "\<exists>s1 s2. statement_revoke sample_statement_config (Some [2]) [9] [3] sample_statements = Ok s1 \<and>
     statement_restore sample_statement_config (Some [2]) [9] [3] s1 = Ok s2 \<and>
     revoked [9] [13] s1 \<and> RevocationList s2 = RevocationList sample_statements"
  using revoke_restore_roundtrip [OF sample_timelines(2), of "Some [2]" "[2]" "[2]" "[9]" sample_statement "[3]"
      "sample_details [2] 0 [1]"] sample_authorized(2)
  by (fastforce simp: sample_statement_def sample_statements_def empty_statements_def revoked_def has_room_def
      sample_details_def)

section \<open>Isolation of spaces\<close>

text \<open>C10: what the pallet holds for a space (its statements with their digests and revocations, its
  presentations and lookups) changes along a run of calls only if one of the calls was made by the
  holder of an authorization for that very space, which was active at that moment.\<close>

theorem statement_isolation:
  fixes s :: "'m statement_storage_scheme"
  assumes "storage_spec T" "statement_wf s"
    and "run_all (\<lambda>(origin, c). statement_dispatch T origin c) cs s = Ok s'"
    and "statement_view s' sp \<noteq> statement_view s sp"
  shows "\<exists>cs1 origin c cs2 t who. cs = cs1 @ (origin, c) # cs2 \<and>
     run_all (\<lambda>(origin, c). statement_dispatch T origin c) cs1 s = Ok t \<and>
     map_option fst (StatementEnsureOrigin T origin) = Some who \<and>
     space_grant ASSERT t (statement_auth_of c) = Some (who, sp) \<and> space_usable active t sp"
proof -
  from statement_client.run_change_needs_grant [OF _ assms(3,4)] assms(1,2)
  obtain cs1 oc cs2 who and t :: "'m statement_storage_scheme" where
    "cs = cs1 @ oc # cs2" "run_all (\<lambda>(origin, c). statement_dispatch T origin c) cs1 s = Ok t"
    "(case oc of (origin, c) \<Rightarrow> map_option fst (StatementEnsureOrigin T origin)) = Some who"
    "space_grant ASSERT t (case oc of (origin, c) \<Rightarrow> statement_auth_of c) = Some (who, sp)"
    "space_usable active t sp"
    by blast
  then show ?thesis by (cases oc) fastforce
qed

theorem statement_isolation_witness:
  "\<exists>s'. run_all (\<lambda>(origin, c). statement_dispatch sample_statement_config origin c)
       [(Some [2], RevokeStatement [9] [3])] sample_statements = Ok s' \<and>
     (\<exists>cs1 origin c cs2 t who. [(Some [2], RevokeStatement [9] [3])] = cs1 @ (origin, c) # cs2 \<and>
        run_all (\<lambda>(origin, c). statement_dispatch sample_statement_config origin c) cs1 sample_statements = Ok t \<and>
        map_option fst (StatementEnsureOrigin sample_statement_config origin) = Some who \<and>
        space_grant ASSERT t (statement_auth_of c) = Some (who, [1]) \<and> space_usable active t [1])"
proof -
  from revoke_total [OF sample_timelines(2), of "Some [2]" "[2]" "[2]" "[9]" sample_statement "[3]"] sample_authorized(2)
  obtain s' where s': "statement_revoke sample_statement_config (Some [2]) [9] [3] sample_statements = Ok s'"
    "Statements s' = Statements sample_statements"
    "RevocationList s' [9] = [([13], \<lparr>entry_creator = [2], entry_revoked = True\<rparr>)]"
    by (fastforce simp: sample_statement_def sample_statements_def empty_statements_def revoked_def)
  have "fst (statement_view s' [1]) [9] \<noteq> fst (statement_view sample_statements [1]) [9]"
    using s'(2,3) by (simp add: statement_view_def sample_statements_def empty_statements_def sample_statement_def)
  then have v: "statement_view s' [1] \<noteq> statement_view sample_statements [1]" by auto
  have wf: "statement_wf sample_statements"
    by (simp add: statement_wf_def sample_statements_def empty_statements_def)
  have r: "run_all (\<lambda>(origin, c). statement_dispatch sample_statement_config origin c)
       [(Some [2], RevokeStatement [9] [3])] sample_statements = Ok s'"
    using s'(1) by simp
  from r statement_isolation [OF sample_storage_spec wf r v] show ?thesis by blast
qed

section \<open>Updates\<close>

lemma update_known_digest_fails:
  "map_of (StatementEntries s i) dg \<noteq> None \<Longrightarrow> statement_update T origin i dg a s \<noteq> Ok s'"
  by (auto elim!: statement_update_OkE)

text \<open>An update replaces the current digest of a statement by one it does not have on record, revokes
  the old digest, keeps every recorded digest and makes the new one findable; no digest on record
  can become the statement's digest again.\<close>

theorem update_supersedes:
  assumes "statement_update T origin i dg a s = Ok s'" "Statements s i = Some d"
  shows "Statements s' i = Some (d\<lparr>stmt_digest := dg\<rparr>) \<and>
     map_of (StatementEntries s i) dg = None \<and> revoked i (stmt_digest d) s' \<and>
     (\<exists>who. map_of (StatementEntries s' i) = (map_of (StatementEntries s i))(dg \<mapsto> who)) \<and>
     IdentifierLookup s' (dg, stmt_space d) = Some i \<and>
     (\<forall>dg'. map_of (StatementEntries s i) dg' \<noteq> None \<or> dg' = dg \<longrightarrow>
        (\<forall>origin' a' s''. statement_update T origin' i dg' a' s' \<noteq> Ok s''))"
  using assms(1)
proof (rule statement_update_OkE)
    fix who sender d0 m
    assume d0: "Statements s i = Some d0" "map_of (StatementEntries s i) dg = None"
      and s': "s' = statement_deposit_event (StatementEvent.Update i dg who)
       ((count_up_at (stmt_space d0) s)\<lparr>RevocationList := (RevocationList s)(i :=
                 AList.update (stmt_digest d0) \<lparr>entry_creator = who, entry_revoked = True\<rparr> (RevocationList s i)),
           StatementEntries := (StatementEntries s)(i := AList.update dg who (StatementEntries s i)),
           IdentifierLookup := (IdentifierLookup s)((dg, stmt_space d0) \<mapsto> i),
           Statements := (Statements s)(i \<mapsto> d0\<lparr>stmt_digest := dg\<rparr>), Identifiers := m\<rparr>)"
    have e: "map_of (StatementEntries s' i) = (map_of (StatementEntries s i))(dg \<mapsto> who)"
      by (simp add: s' update_conv')
    have "statement_update T origin' i dg' a' s' \<noteq> Ok s''"
      if "map_of (StatementEntries s i) dg' \<noteq> None \<or> dg' = dg" for origin' dg' a' s''
      using that by (intro update_known_digest_fails) (auto simp: e)
    moreover have "d0 = d" using d0 assms(2) by simp
    ultimately show ?thesis
      using d0(2) e by (auto simp: s' revoked_def update_conv')
qed

lemma sample_update_Ok: "is_Ok (statement_update sample_statement_config (Some [2]) [9] [14] [3] sample_statements)"
proof -
  have "authorize (StatementEnsureOrigin sample_statement_config (Some [2])) [3] sample_statements =
      (Ok ([2], [1], count_up_at [1] sample_statements) :: (_, StatementError client_error) result)"
    by (rule authorize_Ok [OF _ sample_authorized(2)]) simp
  then show ?thesis
    unfolding statement_update_def
    by (simp add: statement_update_activity_def client_update_activity_def update_timeline_def revoked_def
        sample_statements_def empty_statements_def sample_statement_def try_push_def Let_def)
qed

theorem update_supersedes_witness:
  "\<exists>s'. statement_update sample_statement_config (Some [2]) [9] [14] [3] sample_statements = Ok s' \<and>
     revoked [9] [13] s' \<and> IdentifierLookup s' ([14], [1]) = Some [9] \<and>
     (\<forall>origin' a' s''. statement_update sample_statement_config origin' [9] [11] a' s' \<noteq> Ok s'')"
proof -
  obtain s' where s': "statement_update sample_statement_config (Some [2]) [9] [14] [3] sample_statements = Ok s'"
    using is_Ok_unwrap [OF sample_update_Ok] by blast
  have d: "Statements sample_statements [9] = Some sample_statement"
    "map_of (StatementEntries sample_statements [9]) [11] = Some [2]"
    by (simp_all add: sample_statements_def)
  from update_supersedes [OF s' d(1)] d(2) s' show ?thesis
    by (intro exI [of _ s']) (simp add: sample_statement_def)
qed

section \<open>Batches\<close>

lemma saturating_add_Suc:
  fixes c :: u64
  assumes "Suc k < 2 ^ 16"
  shows "saturating_add (saturating_add c 1) (ucast (of_nat k :: u16)) = saturating_add c (of_nat (Suc k))"
proof -
  have "unat (of_nat k :: u16) = k" using assms by (simp add: unat_of_nat)
  then have "unat (ucast (of_nat k :: u16) :: u64) = k"
    using assms by (simp add: unsigned_ucast_eq unsigned_take_bit_eq take_bit_nat_eq_self)
  moreover have "unat (of_nat (Suc k) :: u64) = Suc k"
    using assms by (simp only: unat_of_nat) simp
  ultimately show ?thesis
    by (simp add: word_unat_eq_iff unat_saturating_add del: of_nat_Suc)
qed

text \<open>A batch reports every digest exactly once, as anchored or with its index as failed, and
  raises the usage of the space by the number of digests, anchored or not, with no look at the
  capacity beyond the first transaction.\<close>

theorem batch_accounts:
  assumes "statement_register_batch T origin ds a sc s = Ok s'"
  shows "\<exists>who sp d succ fail idx. authorized ASSERT active a who s sp \<and> Spaces s sp = Some d \<and>
     last (statement_events s') = StatementEvent.RegisterBatch succ fail idx who \<and>
     unat succ + unat fail = length ds \<and> length idx = unat fail \<and> 0 < succ \<and>
     Spaces s' = (Spaces s)(sp \<mapsto> d\<lparr>txn_count := saturating_add (txn_count d) (of_nat (length ds))\<rparr>)"
  using assms
proof (rule statement_register_batch_OkE)
  fix who sp b
  let ?b0 = "\<lparr>batch_storage = count_up_at sp s, batch_success = 0, batch_fail = 0, batch_indices = []\<rparr>"
  assume auth: "authorized ASSERT active a who s sp" and len: "length ds \<le> unat (MaxDigestsPerBatch T)"
    and b: "batch_loop T who sp sc 0 ds ?b0 = Ok b" and pos: "0 < batch_success b"
    and S: "Spaces (batch_storage b) = Spaces (count_up_at sp s)"
    and s': "s' = statement_deposit_event
       (StatementEvent.RegisterBatch (batch_success b) (batch_fail b) (batch_indices b) who)
       (if 1 < length ds
        then space_insert sp ((count_up (the (Spaces s sp)))\<lparr>txn_count :=
               saturating_add (txn_count (count_up (the (Spaces s sp)))) (ucast (of_nat (length ds - 1) :: u16))\<rparr>)
               (batch_storage b)
        else batch_storage b)"
  obtain d where d: "Spaces s sp = Some d" using authorized_space [OF auth] by blast
  have small: "length ds < 2 ^ 16" using len unat_bound [of "MaxDigestsPerBatch T"] by simp
  have "batch_counts (0 + length ds) b"
    by (rule batch_loop_counts [OF b]) (use small in \<open>simp_all add: batch_counts_def\<close>)
  then have counts: "unat (batch_success b) + unat (batch_fail b) = length ds"
      "length (batch_indices b) = unat (batch_fail b)"
    by (simp_all add: batch_counts_def)
  have "0 < unat (batch_success b)" using pos by (simp add: word_less_nat_alt)
  with counts have "0 < length ds" by linarith
  then obtain k where k: "length ds = Suc k" by (cases ds) auto
  then have "Spaces s' = (Spaces s)(sp \<mapsto> d\<lparr>txn_count := saturating_add (txn_count d) (of_nat (length ds))\<rparr>)"
    using d S saturating_add_Suc [of k "txn_count d"] small
    by (cases "k = 0") (simp add: s' count_up_def, simp add: s' count_up_def del: of_nat_Suc)
  then show ?thesis
    using auth d counts pos by (intro exI [of _ who] exI [of _ sp] exI [of _ d]) (simp add: s')
qed

definition sample_statement_id' :: ident where
  "sample_statement_id' = unwrap_or [] (statement_identifier sample_statement_config [12] [1] [2])"

lemma sample_statement_id':
  "statement_identifier sample_statement_config [12] [1] [2] = Ok sample_statement_id'"
  "sample_statement_id' \<noteq> sample_statement_id"
  by code_simp+

lemma sample_batch_Ok:
  "is_Ok (statement_register_batch sample_statement_config (Some [2]) [[11], [12], [11]] [3] None empty_statements)"
proof -
  have "authorize (StatementEnsureOrigin sample_statement_config (Some [2])) [3] empty_statements =
      (Ok ([2], [1], count_up_at [1] empty_statements) :: (_, StatementError client_error) result)"
    by (rule authorize_Ok [OF _ sample_authorized(1)]) simp
  then show ?thesis
    unfolding statement_register_batch_def
    by (simp add: batch_step_def batch_failed_def sample_statement_id sample_statement_id' increment_usage_entries_def
        statement_update_activity_def client_update_activity_def update_timeline_def
        empty_statements_def try_push_def Let_def)
qed

theorem batch_accounts_witness:
  "\<exists>s' succ fail idx. statement_register_batch sample_statement_config (Some [2]) [[11], [12], [11]] [3] None
       empty_statements = Ok s' \<and>
     last (statement_events s') = StatementEvent.RegisterBatch succ fail idx [2] \<and> unat succ + unat fail = 3"
proof -
  obtain s' where s': "statement_register_batch sample_statement_config (Some [2]) [[11], [12], [11]] [3] None
       empty_statements = Ok s'"
    using is_Ok_unwrap [OF sample_batch_Ok] by blast
  from batch_accounts [OF s'] obtain who sp succ fail idx where
    "authorized ASSERT active [3] who empty_statements sp"
    "last (statement_events s') = StatementEvent.RegisterBatch succ fail idx who" "unat succ + unat fail = 3"
    by auto
  moreover from this(1) have "who = [2]"
    by (auto simp: authorized_def empty_statements_def sample_auth_def split: if_splits)
  ultimately show ?thesis using s' by blast
qed

text \<open>Registering the digests one call at a time, passing over the calls that fail.\<close>

definition register_each ::
  "('o, 'c) statement_config_scheme \<Rightarrow> 'o \<Rightarrow> hash list \<Rightarrow> ident \<Rightarrow> ident option \<Rightarrow> 'm statement_storage_scheme
   \<Rightarrow> 'm statement_storage_scheme" where
  "register_each T origin ds a sc s = fold (\<lambda>d t. unwrap_or t (statement_register T origin d a sc t)) ds s"

definition same_statements :: "'m statement_storage_scheme \<Rightarrow> 'm statement_storage_scheme \<Rightarrow> bool" where
  "same_statements s t \<longleftrightarrow> Statements s = Statements t \<and> StatementEntries s = StatementEntries t \<and>
     IdentifierLookup s = IdentifierLookup t \<and> RevocationList s = RevocationList t \<and>
     Presentations s = Presentations t"

text \<open>A space with room for a number of transactions, and the storage with the limit of a space lifted.\<close>

definition room_for :: "nat \<Rightarrow> space_details \<Rightarrow> bool" where
  "room_for n d \<longleftrightarrow> txn_capacity d = 0 \<or> unat (txn_count d) + n < unat (txn_capacity d)"

definition lift_limit :: "ident \<Rightarrow> 'm chain_space_scheme \<Rightarrow> 'm chain_space_scheme" where
  "lift_limit sp s = space_insert sp ((the (Spaces s sp))\<lparr>txn_capacity := 0\<rparr>) s"

lemma room_for_has_room: "room_for n d \<Longrightarrow> 0 < n \<Longrightarrow> has_room (count_up d)"
  by (auto simp: room_for_def has_room_count_up_iff)

lemma room_for_count_up: "room_for (Suc n) d \<Longrightarrow> room_for n (count_up d)"
  by (auto simp: room_for_def count_up_def unat_saturating_add min_def)

lemma room_for_less: "room_for (Suc n) d \<Longrightarrow> room_for n d"
  by (auto simp: room_for_def)

lemma batch_step_same:
  assumes "batch_step T who sp sc k dg b = Ok b'" "same_statements (batch_storage b) t"
    and "timelines_ok T t" "StatementEnsureOrigin T origin = Some (who, sender)"
    and "authorized ASSERT active a who t sp" "Spaces t sp = Some d" "room_for (Suc n) d"
  shows "\<exists>t' d'. unwrap_or t (statement_register T origin dg a sc t) = t' \<and> same_statements (batch_storage b') t' \<and>
     timelines_ok T t' \<and> (0 < n \<longrightarrow> authorized ASSERT active a who t' sp) \<and> Spaces t' sp = Some d' \<and> room_for n d'"
  using assms(1)
proof (cases rule: batch_step_cases)
  case failed
  have "statement_register T origin dg a sc t \<noteq> Ok t'" for t'
  proof
    assume "statement_register T origin dg a sc t = Ok t'"
    then obtain who' sp' i where r: "Some (who', snd (who', sender)) = Some (who, sender)"
        "authorized ASSERT active a who' t sp'" "statement_identifier T dg sp' who' = Ok i" "Statements t i = None"
      using assms(4) by (auto elim!: statement_register_OkE)
    then have "who' = who" "sp' = sp" using assms(5) by (auto simp: authorized_def)
    with r failed(2) assms(2) show False by (auto simp: same_statements_def)
  qed
  then have "unwrap_or t (statement_register T origin dg a sc t) = t"
    by (cases "statement_register T origin dg a sc t") auto
  with failed assms show ?thesis by (auto intro: room_for_less)
next
  case (anchored i m)
  have "Statements t i = None" using anchored assms(2) by (auto simp: same_statements_def)
  from register_total [OF assms(3,4,5) anchored(1) this, of sc] obtain m' where
    m': "statement_register T origin dg a sc t = Ok (statement_deposit_event (StatementEvent.Register i dg who)
       ((statement_anchor i dg sp sc who (count_up_at sp t))\<lparr>Identifiers := m'\<rparr>))"
      "timelines_ok T ((statement_anchor i dg sp sc who (count_up_at sp t))\<lparr>Identifiers := m'\<rparr>)"
    by blast
  let ?t' = "statement_deposit_event (StatementEvent.Register i dg who)
       ((statement_anchor i dg sp sc who (count_up_at sp t))\<lparr>Identifiers := m'\<rparr>)"
  have room: "room_for n (count_up d)" by (rule room_for_count_up [OF assms(7)])
  have "authorized ASSERT active a who ?t' sp" if "0 < n"
    by (rule authorized_count_up_again [OF assms(5,6) room_for_has_room [OF room that]]) simp_all
  then show ?thesis
    using anchored assms m' room by (auto simp: same_statements_def)
qed

lemma batch_loop_same:
  assumes "batch_loop T who sp sc k ds b = Ok b'" "same_statements (batch_storage b) t"
    and "timelines_ok T t" "StatementEnsureOrigin T origin = Some (who, sender)"
    and "ds \<noteq> [] \<longrightarrow> authorized ASSERT active a who t sp" "Spaces t sp = Some d" "room_for (length ds) d"
  shows "same_statements (batch_storage b') (register_each T origin ds a sc t)"
  using assms
proof (induction ds arbitrary: k b t d)
  case Nil
  then show ?case by (simp add: register_each_def)
next
  case (Cons dg ds)
  then obtain b1 where b1: "batch_step T who sp sc k dg b = Ok b1" "batch_loop T who sp sc (Suc k) ds b1 = Ok b'"
    by auto
  have "authorized ASSERT active a who t sp" "room_for (Suc (length ds)) d" using Cons.prems(5,7) by simp_all
  from batch_step_same [OF b1(1) Cons.prems(2-4) this(1) Cons.prems(6) this(2)] obtain t' d' where
    t': "unwrap_or t (statement_register T origin dg a sc t) = t'" "same_statements (batch_storage b1) t'"
      "timelines_ok T t'" "0 < length ds \<longrightarrow> authorized ASSERT active a who t' sp" "Spaces t' sp = Some d'" "room_for (length ds) d'"
    by blast
  from Cons.IH [OF b1(2) t'(2,3) Cons.prems(4) _ t'(5,6)] t'(1,4) show ?case
    by (simp add: register_each_def)
qed

text \<open>C11: a batch that succeeds was authorized for a space, and does to the statements, entries, lookups, revocations and
  presentations exactly what registering its digests one call after the other, skipping those that fail, would do if this
  space had no capacity limit. If the space has none, or has room for all digests, this is what registering them one by
  one does. (A batch is checked for one transaction only, so it goes on where single registrations are refused.)\<close>

theorem batch_equals_single_registrations:
  assumes "statement_register_batch T origin ds a sc s = Ok s'" "timelines_ok T s"
  shows "\<exists>who sp d. authorized ASSERT active a who s sp \<and> Spaces s sp = Some d \<and>
     same_statements s' (register_each T origin ds a sc (lift_limit sp s)) \<and>
     (room_for (length ds) d \<longrightarrow> same_statements s' (register_each T origin ds a sc s))"
  using assms(1)
proof (rule statement_register_batch_OkE)
  fix who sender sp b
  assume h: "StatementEnsureOrigin T origin = Some (who, sender)" "authorized ASSERT active a who s sp"
    and b: "batch_loop T who sp sc 0 ds
       \<lparr>batch_storage = count_up_at sp s, batch_success = 0, batch_fail = 0, batch_indices = []\<rparr> = Ok b"
    and s': "s' = statement_deposit_event
       (StatementEvent.RegisterBatch (batch_success b) (batch_fail b) (batch_indices b) who)
       (if 1 < length ds
        then space_insert sp ((count_up (the (Spaces s sp)))\<lparr>txn_count :=
               saturating_add (txn_count (count_up (the (Spaces s sp)))) (ucast (of_nat (length ds - 1) :: u16))\<rparr>)
               (batch_storage b)
        else batch_storage b)"
  obtain d where d: "Spaces s sp = Some d" using h(2) by (auto simp: authorized_def)
  have same: "same_statements (batch_storage b) (register_each T origin ds a sc t)"
    if "same_statements s t" "timelines_ok T t" "authorized ASSERT active a who t sp" "Spaces t sp = Some d'" "room_for (length ds) d'" for t d'
    by (rule batch_loop_same [OF b _ that(2) h(1) _ that(4,5)]) (use that(1,3) in \<open>simp_all add: same_statements_def\<close>)
  have "same_statements (batch_storage b) (register_each T origin ds a sc (lift_limit sp s))"
    by (rule same [of _ "d\<lparr>txn_capacity := 0\<rparr>"])
      (use d h(2) assms(2) in \<open>auto simp: lift_limit_def same_statements_def authorized_def room_for_def has_room_def count_up_def active_def
         timelines_ok_def timeline_def\<close>)
  moreover have "room_for (length ds) d \<longrightarrow> same_statements (batch_storage b) (register_each T origin ds a sc s)"
    using same [OF _ assms(2) h(2) d] by (simp add: same_statements_def)
  ultimately show ?thesis using h(2) d by (auto simp: s' same_statements_def)
qed

theorem batch_equals_single_registrations_witness:
  "\<exists>s'. statement_register_batch sample_statement_config (Some [2]) [[11], [12], [11]] [3] None empty_statements = Ok s' \<and>
     same_statements s' (register_each sample_statement_config (Some [2]) [[11], [12], [11]] [3] None empty_statements)"
proof -
  obtain s' where s': "statement_register_batch sample_statement_config (Some [2]) [[11], [12], [11]] [3] None
       empty_statements = Ok s'"
    using is_Ok_unwrap [OF sample_batch_Ok] by blast
  from batch_equals_single_registrations [OF s' sample_timelines(1)] s' show ?thesis
    by (auto simp: authorized_def empty_statements_def sample_auth_def sample_details_def room_for_def split: if_splits)
qed

section \<open>Removal\<close>

lemma length_filter_notin:
  assumes "distinct (map fst xs)" "set ds \<subseteq> fst ` set xs" "distinct ds"
  shows "length (filter (\<lambda>kv. fst kv \<notin> set ds) xs) = length xs - length ds"
proof -
  have "length (filter (\<lambda>kv. fst kv \<notin> set ds) xs) = card (set (map fst (filter (\<lambda>kv. fst kv \<notin> set ds) xs)))"
    using distinct_card [OF distinct_map_filter_fst [OF assms(1)]] by simp
  also have "set (map fst (filter (\<lambda>kv. fst kv \<notin> set ds) xs)) = fst ` set xs - set ds" by auto
  also have "card (fst ` set xs - set ds) = card (fst ` set xs) - card (set ds)"
    using assms(2) by (intro card_Diff_subset) auto
  also have "\<dots> = length xs - length ds"
    using distinct_card [OF assms(1)] distinct_card [OF assms(3)] by simp
  finally show ?thesis .
qed

lemma iter_order_props:
  assumes "storage_spec T"
  shows "set (iter_order T ks) = set ks" "length (iter_order T ks) = length ks"
    and "distinct (iter_order T ks) = distinct ks"
proof -
  have "mset (iter_order T ks) = mset ks" using assms by (simp add: storage_spec_def)
  then show "set (iter_order T ks) = set ks" "length (iter_order T ks) = length ks"
    "distinct (iter_order T ks) = distinct ks"
    by (auto dest: mset_eq_setD mset_eq_length mset_eq_imp_distinct_iff)
qed

lemma map_of_filter_notin: "map_of (filter (\<lambda>kv. fst kv \<notin> D) xs) k = (if k \<in> D then None else map_of xs k)"
  by (induction xs) auto

text \<open>Removing a statement is complete or partial. With at most \<^verbatim>\<open>MaxRemoveEntries\<close> digests the
  statement, its entries and the lookups of its digests are gone; with more, exactly
  \<^verbatim>\<open>MaxRemoveEntries\<close> of its digests are dropped with their lookups and the statement stays.\<close>

theorem remove_complete_or_partial:
  assumes "statement_remove T origin i a s = Ok s'" "storage_spec T" "statement_wf s" "Statements s i = Some d"
  shows "if length (StatementEntries s i) \<le> unat (MaxRemoveEntries T)
     then Statements s' i = None \<and> StatementEntries s' i = [] \<and>
       (\<forall>dg. map_of (StatementEntries s i) dg \<noteq> None \<longrightarrow> IdentifierLookup s' (dg, stmt_space d) = None)
     else Statements s' i = Some d \<and>
       length (StatementEntries s' i) = length (StatementEntries s i) - unat (MaxRemoveEntries T) \<and>
       (\<forall>dg. map_of (StatementEntries s i) dg \<noteq> None \<and> map_of (StatementEntries s' i) dg = None \<longrightarrow>
          IdentifierLookup s' (dg, stmt_space d) = None)"
  using assms(1)
proof (cases rule: statement_remove_OkE)
  case (complete who sender d0 m)
  have "dg \<in> fst ` set (StatementEntries s i)" if "map_of (StatementEntries s i) dg \<noteq> None" for dg
    using that by (metis map_of_eq_None_iff)
  then show ?thesis
    using complete(3,4) assms(4) clear_entries [OF assms(2) complete(4)]
    by (simp add: complete(5) drop_lookups_def iter_order_props [OF assms(2)])
next
  case (partial who sender d0 m)
  let ?ds = "removal_digests T i s"
  have dist: "distinct (map fst (StatementEntries s i))" using assms(3) by (simp add: statement_wf_def)
  have ds: "set ?ds \<subseteq> fst ` set (StatementEntries s i)" "distinct ?ds" "length ?ds = unat (MaxRemoveEntries T)"
    using iter_order_props [OF assms(2), of "map fst (StatementEntries s i)"] dist partial(4)
    by (auto simp: removal_digests_def dest: in_set_takeD)
  have "StatementEntries s' i = filter (\<lambda>kv. fst kv \<notin> set ?ds) (StatementEntries s i)"
    "IdentifierLookup s' = drop_lookups (stmt_space d0) (set ?ds) (IdentifierLookup s)"
    "Statements s' = Statements s" "d0 = d"
    using partial(3) assms(4) by (simp_all add: partial(5) drop_digests_def)
  then show ?thesis
    using partial(4) assms(4) length_filter_notin [OF dist ds(1,2)] ds(3)
    by (auto simp: drop_lookups_def map_of_filter_notin split: if_splits)
qed

lemma sample_remove_Ok: "is_Ok (statement_remove sample_statement_config (Some [2]) [9] [3] sample_statements)"
proof -
  have "authorize (StatementEnsureOrigin sample_statement_config (Some [2])) [3] sample_statements =
      (Ok ([2], [1], count_up_at [1] sample_statements) :: (_, StatementError client_error) result)"
    by (rule authorize_Ok [OF _ sample_authorized(2)]) simp
  then show ?thesis
    unfolding statement_remove_def
    by (simp add: remove_one_eq drop_digests_def decrement_usage_entries_def
        statement_update_activity_def client_update_activity_def update_timeline_def
        sample_statements_def empty_statements_def sample_statement_def try_push_def Let_def)
qed

theorem remove_complete_or_partial_witness:
  "\<exists>s'. statement_remove sample_statement_config (Some [2]) [9] [3] sample_statements = Ok s' \<and>
     length (StatementEntries s' [9]) = 1 \<and> Statements s' [9] = Some sample_statement"
proof -
  obtain s' where s': "statement_remove sample_statement_config (Some [2]) [9] [3] sample_statements = Ok s'"
    using is_Ok_unwrap [OF sample_remove_Ok] by blast
  have "statement_wf sample_statements" "Statements sample_statements [9] = Some sample_statement"
    by (simp_all add: statement_wf_def sample_statements_def empty_statements_def)
  from remove_complete_or_partial [OF s' sample_storage_spec this] s' show ?thesis
    by (simp add: sample_statements_def)
qed

section \<open>Every run\<close>

text \<open>The calls of the space pallet leave the storage of its clients alone.\<close>

inductive statement_step ::
  "('o, 'c) statement_config_scheme \<Rightarrow> 'm statement_storage_scheme \<Rightarrow> 'm statement_storage_scheme \<Rightarrow> bool"
  for T where
  call: "statement_dispatch T origin c s = Ok s' \<Longrightarrow> statement_step T s s'"
| space: "space_dispatch T origin c s = Ok s' \<Longrightarrow> statement_step T s s'"
| tick: "statement_step T s (s\<lparr>block_number := n, extrinsic_index := x\<rparr>)"

definition statement_genesis :: "'m statement_storage_scheme \<Rightarrow> bool" where
  "statement_genesis s \<longleftrightarrow> space_genesis s \<and> Statements s = Map.empty \<and> (\<forall>i. StatementEntries s i = []) \<and>
     (\<forall>i. RevocationList s i = []) \<and> Presentations s = Map.empty \<and> IdentifierLookup s = Map.empty"

lemma statement_wf_more:
  assumes "chain_space.more s' = chain_space.more s"
  shows "statement_wf s' = statement_wf s"
  using assms by (cases s; cases s') (simp add: statement_wf_def)

interpretation statement_inv: invariant_system statement_genesis "statement_step T"
  "\<lambda>s. storage_spec T \<longrightarrow> statement_wf s" for T
proof (unfold_locales, goal_cases)
  case (1 s)
  then show ?case by (simp add: statement_genesis_def statement_wf_def)
next
  case (2 s t)
  from this(2) show ?case
  proof cases
    case (call origin c)
    with 2(1) show ?thesis by (auto intro: statement_wf_dispatch)
  next
    case (space origin c)
    from statement_wf_more [OF space_dispatch_more [OF this]] 2(1) show ?thesis by simp
  next
    case (tick n x)
    with 2(1) show ?thesis by (simp add: statement_wf_def)
  qed
qed

text \<open>In every storage reached from the empty one by calls of the statement and the space pallet,
  no statement has a digest twice in its entries or its revocations, and no entries are left
  without their statement.\<close>

theorem statement_no_orphans:
  assumes "reachable statement_genesis (statement_step T) s" "storage_spec T"
  shows "distinct (map fst (StatementEntries s i)) \<and> distinct (map fst (RevocationList s i)) \<and>
     (StatementEntries s i \<noteq> [] \<longrightarrow> Statements s i \<noteq> None)"
  using statement_inv.inv_reachable [OF assms(1)] assms(2) by (simp add: statement_wf_def)

definition blank_statements :: statement_storage where
  "blank_statements = empty_statements\<lparr>Spaces := Map.empty, Authorizations := Map.empty, Delegates := (\<lambda>_. [])\<rparr>"

definition system_call ::
  "account option \<times> (SpaceCall + StatementCall) \<Rightarrow> statement_storage \<Rightarrow> (statement_storage, StatementError client_error) result" where
  "system_call oc s = (case snd oc of
     Inl c \<Rightarrow> map_err (\<lambda>_. BadOrigin) (space_dispatch sample_statement_config (fst oc) c s)
   | Inr c \<Rightarrow> statement_dispatch sample_statement_config (fst oc) c s)"

definition system_calls :: "(account option \<times> (SpaceCall + StatementCall)) list" where
  "system_calls = [(Some [2], Inl (CreateSpace [7])), (None, Inl (ApproveSpace sample_space 20)),
     (Some [2], Inr (RegisterStatement [11] sample_authorization None))]"

lemma system_identifiers:
  "space_identifier sample_statement_config [7] [2] = Ok sample_space"
  "authorization_identifier sample_statement_config sample_space [2] [2] = Ok sample_authorization"
  "is_Ok (statement_identifier sample_statement_config [11] sample_space [2])"
  by code_simp+

lemma system_run_Ok: "is_Ok (run_all system_call system_calls blank_statements)"
proof -
  obtain i where "statement_identifier sample_statement_config [11] sample_space [2] = Ok i"
    using is_Ok_unwrap [OF system_identifiers(3)] by blast
  then show ?thesis
    using system_identifiers(1,2)
    by (simp add: system_calls_def system_call_def space_dispatch_defs blank_statements_def empty_statements_def
        statement_register_def authorize_def ensure_authorization_origin_def subject_of_def space_anchor_def space_deposit_event_def
        statement_update_activity_def client_update_activity_def try_push_def Let_def)
qed

theorem statement_no_orphans_witness:
  "\<exists>s :: statement_storage. run_all system_call system_calls blank_statements = Ok s \<and>
     (\<forall>i. StatementEntries s i \<noteq> [] \<longrightarrow> Statements s i \<noteq> None)"
proof -
  obtain s where s: "run_all system_call system_calls blank_statements = Ok s"
    using is_Ok_unwrap [OF system_run_Ok] by blast
  have "reachable statement_genesis (statement_step sample_statement_config) s"
  proof (rule reachable_run_all [OF _ _ s])
    show "reachable statement_genesis (statement_step sample_statement_config) blank_statements"
      by (rule reach_init)
        (simp add: statement_genesis_def space_genesis_def blank_statements_def empty_statements_def)
  qed (auto simp: system_call_def split: sum.splits intro: statement_step.call statement_step.space)
  from s statement_no_orphans [OF this sample_storage_spec] show ?thesis by blast
qed

end
