(* ===== verification/Statement_Removal.thy ===== *)
theory Statement_Removal
  imports Statement_Properties
begin

text \<open>
  Removing a large statement takes several calls: \<^verbatim>\<open>remove\<close> of pallets/statement/src/lib.rs drops at most
  \<^verbatim>\<open>MaxRemoveEntries\<close> digests a call and answers \<^verbatim>\<open>PartialRemoval\<close> while some are left, and the caller
  submits it again. This theory counts those calls and shows that neither the capacity of the space nor the
  timeline of the statement can stop the caller half way.
\<close>

section \<open>Resubmitting the call\<close>

primrec remove_calls ::
  "('o, 'c) statement_config_scheme \<Rightarrow> 'o \<Rightarrow> ident \<Rightarrow> ident \<Rightarrow> nat \<Rightarrow> 'm statement_storage_scheme
   \<Rightarrow> 'm statement_result" where
  "remove_calls T origin i a 0 s = Ok s"
| "remove_calls T origin i a (Suc n) s =
     and_then (statement_remove T origin i a s) (remove_calls T origin i a n)"

text \<open>The calls a statement with \<open>n\<close> digests takes when each drops \<open>m\<close> of them.\<close>

definition calls_needed :: "nat \<Rightarrow> nat \<Rightarrow> nat" where
  "calls_needed m n = Suc ((n - 1) div m)"

lemma calls_needed_last: "0 < m \<Longrightarrow> n \<le> m \<Longrightarrow> calls_needed m n = 1"
  by (cases n) (simp_all add: calls_needed_def)

lemma calls_needed_step: "0 < m \<Longrightarrow> m < n \<Longrightarrow> calls_needed m n = Suc (calls_needed m (n - m))"
  by (simp add: calls_needed_def div_if)

section \<open>One call goes through\<close>

text \<open>What the caller needs: a usable authorization in the space of the statement, and timelines in order.\<close>

definition may_remove ::
  "('o, 'c) statement_config_scheme \<Rightarrow> 'o \<Rightarrow> ident \<Rightarrow> ident \<Rightarrow> statement_details \<Rightarrow> 'm statement_storage_scheme
   \<Rightarrow> bool" where
  "may_remove T origin i a d s \<longleftrightarrow>
     (\<exists>who sender. StatementEnsureOrigin T origin = Some (who, sender) \<and>
        authorized ASSERT active a who s (stmt_space d)) \<and>
     Statements s i = Some d \<and> timelines_ok T s \<and> statement_wf s"

lemma timelines_ok_more [simp]:
  "timelines_ok T (drop_digests i sp D s) = timelines_ok T s"
  "timelines_ok T (s\<lparr>IdentifierLookup := l\<rparr>) = timelines_ok T s"
  "timelines_ok T (s\<lparr>StatementEntries := e\<rparr>) = timelines_ok T s"
  "timelines_ok T (s\<lparr>Statements := st\<rparr>) = timelines_ok T s"
  by (rule timelines_ok_cong, simp add: drop_digests_def)+

lemma remove_total:
  assumes "may_remove T origin i a d s"
  shows "\<exists>s'. statement_remove T origin i a s = Ok s' \<and> timelines_ok T s'"
proof -
  from assms obtain who sender where o: "StatementEnsureOrigin T origin = Some (who, sender)"
    and a: "authorized ASSERT active a who s (stmt_space d)" and st: "Statements s i = Some d"
    and t: "timelines_ok T s"
    by (auto simp: may_remove_def)
  obtain sd where sd: "Spaces s (stmt_space d) = Some sd" using a by (auto simp: authorized_def)
  have [simp]: "authorize (StatementEnsureOrigin T origin) a s =
      (Ok (who, stmt_space d, count_up_at (stmt_space d) s) :: (_, StatementError client_error) result)"
    using o a by (rule authorize_Ok)
  have act: "\<exists>s'. (\<exists>v. statement_update_activity T i act u = Ok v \<and> statement_deposit_event ev v = s') \<and>
      timelines_ok T s'" if "timelines_ok T u" for act ev and u :: "'e statement_storage_scheme"
    using statement_update_activity_ok [OF that, of i act] by auto
  show ?thesis
    using st sd t
    by (auto simp: statement_remove_def Let_def fold_lookup_remove fold_remove_one decrement_usage_entries_def
        count_up_at_def drop_digests_def intro!: act)
qed

section \<open>The next call is possible\<close>

text \<open>A call is charged once and refunded for each digest it drops, so the usage of the space does not grow
  and the caller keeps its room.\<close>

lemma has_room_refunded:
  assumes "has_room (count_up d)" "1 \<le> n"
  shows "has_room (count_up (refunded n (count_up d)))"
  using assms unsigned_less [of "txn_count d", where ?'a = nat]
  by (auto simp: has_room_def count_up_def refunded_def word_less_nat_alt word_le_nat_alt
      unat_saturating_add unat_saturating_sub)

lemma partial_removal_keeps:
  assumes "may_remove T origin i a d s" "statement_remove T origin i a s = Ok s'" "storage_spec T"
    and "0 < unat (MaxRemoveEntries T)" "unat (MaxRemoveEntries T) < length (StatementEntries s i)" "timelines_ok T s'"
  shows "may_remove T origin i a d s'"
    and "length (StatementEntries s' i) = length (StatementEntries s i) - unat (MaxRemoveEntries T)"
proof -
  note st = assms(1) [unfolded may_remove_def]
  have wf': "statement_wf s'"
    using statement_wf_dispatch [of T origin "RemoveStatement i a" s s'] assms(2,3) st by simp
  show "length (StatementEntries s' i) = length (StatementEntries s i) - unat (MaxRemoveEntries T)"
    using remove_complete_or_partial [OF assms(2,3), of d] st assms(5) by simp
  show "may_remove T origin i a d s'"
    using assms(2)
  proof (cases rule: statement_remove_OkE)
    case complete
    then show ?thesis using assms(5) by simp
  next
    case (partial who sender d' m)
    have "length (removal_digests T i s) = unat (MaxRemoveEntries T)"
      using partial(4) iter_order_props(2) [OF assms(3), of "map fst (StatementEntries s i)"]
      by (simp add: removal_digests_def)
    then have "1 \<le> (ucast (of_nat (length (removal_digests T i s)) :: u16) :: u64)"
      using assms(4) unsigned_less [of "MaxRemoveEntries T", where ?'a = nat]
      by (simp add: word_le_nat_alt unsigned_ucast_eq take_bit_nat_eq_self Suc_le_eq)
    moreover have "d' = d" using partial(3) st by simp
    ultimately have "authorized ASSERT active a who s' (stmt_space d)"
      using partial(2) has_room_refunded
      by (auto simp: authorized_def partial(5) drop_digests_def count_up_at_def active_def refunded_def)
    then show ?thesis
      using partial(1,3) st assms(6) wf' by (simp add: may_remove_def partial(5) drop_digests_def)
  qed
qed

section \<open>Removal terminates\<close>

lemma remove_calls_run:
  assumes "storage_spec T" "0 < unat (MaxRemoveEntries T)" "may_remove T origin i a d s"
  shows "(\<exists>s'. remove_calls T origin i a (calls_needed (unat (MaxRemoveEntries T)) (length (StatementEntries s i))) s = Ok s' \<and>
            Statements s' i = None \<and> StatementEntries s' i = []) \<and>
     (\<forall>k < calls_needed (unat (MaxRemoveEntries T)) (length (StatementEntries s i)).
        \<exists>s'. remove_calls T origin i a k s = Ok s' \<and> Statements s' i = Some d)"
  using assms(3)
proof (induction "length (StatementEntries s i)" arbitrary: s rule: less_induct)
  case less
  let ?m = "unat (MaxRemoveEntries T)" and ?n = "length (StatementEntries s i)"
  obtain s1 where s1: "statement_remove T origin i a s = Ok s1" and t: "timelines_ok T s1"
    using remove_total [OF less.prems] by blast
  have st: "statement_wf s" "Statements s i = Some d" using less.prems by (simp_all add: may_remove_def)
  show ?case
  proof (cases "?n \<le> ?m")
    case True
    then show ?thesis
      using remove_complete_or_partial [OF s1 assms(1) st] s1 st(2) calls_needed_last [OF assms(2) True] by simp
  next
    case False
    then have n: "?m < ?n" by simp
    note next_call = partial_removal_keeps [OF less.prems s1 assms(1,2) n t]
    from next_call(2) assms(2) n have "length (StatementEntries s1 i) < ?n" by simp
    from less.hyps [OF this next_call(1)] next_call(2)
    have "(\<exists>s'. remove_calls T origin i a (calls_needed ?m (?n - ?m)) s1 = Ok s' \<and>
            Statements s' i = None \<and> StatementEntries s' i = []) \<and>
          (\<forall>k < calls_needed ?m (?n - ?m). \<exists>s'. remove_calls T origin i a k s1 = Ok s' \<and> Statements s' i = Some d)"
      by simp
    then show ?thesis
      using s1 st(2) calls_needed_step [OF assms(2) n] by (auto simp: less_Suc_eq_0_disj)
  qed
qed

text \<open>C12: Removing a statement terminates. Whoever may submit \<^verbatim>\<open>remove\<close> for a statement once, with an
  authorization that has room in the space, may resubmit it until the statement is gone: with a positive
  \<^verbatim>\<open>MaxRemoveEntries\<close> all calls go through, the statement and its digests are gone after exactly the number of
  calls its digests need, and it is still there after any smaller number.\<close>

theorem removal_terminates:
  assumes "storage_spec T" "0 < unat (MaxRemoveEntries T)" "timelines_ok T s" "statement_wf s"
    and "StatementEnsureOrigin T origin = Some (who, sender)" "Statements s i = Some d"
    and "authorized ASSERT active a who s (stmt_space d)"
  defines "calls \<equiv> calls_needed (unat (MaxRemoveEntries T)) (length (StatementEntries s i))"
  shows "(\<exists>s'. remove_calls T origin i a calls s = Ok s' \<and> Statements s' i = None \<and> StatementEntries s' i = []) \<and>
     (\<forall>k < calls. \<exists>s'. remove_calls T origin i a k s = Ok s' \<and> Statements s' i = Some d)"
  unfolding calls_def by (rule remove_calls_run) (use assms(1-7) in \<open>auto simp: may_remove_def\<close>)

theorem removal_terminates_witness:
  "\<exists>s'. remove_calls sample_statement_config (Some [2]) [9] [3] 2 sample_statements = Ok s' \<and>
     Statements s' [9] = None \<and> StatementEntries s' [9] = []"
proof -
  have "statement_wf sample_statements" "Statements sample_statements [9] = Some sample_statement"
    "stmt_space sample_statement = [1]"
    "calls_needed (unat (MaxRemoveEntries sample_statement_config)) (length (StatementEntries sample_statements [9])) = 2"
    by (simp_all add: statement_wf_def sample_statements_def empty_statements_def sample_statement_def calls_needed_def)
  with removal_terminates [of sample_statement_config sample_statements "Some [2]" "[2]" "[2]" "[9]" sample_statement "[3]"]
  show ?thesis by (simp add: sample_storage_spec sample_timelines sample_authorized)
qed

end
