(* ===== verification/Asset.thy ===== *)
theory Asset
  imports Space_Client
begin

text \<open>
  The asset pallet (\<^verbatim>\<open>pallets/asset/src\<close>): assets with a total quantity, instances of them issued to
  owners, transfers and status changes, once for assets described on chain and once for assets
  described by a credential (\<^verbatim>\<open>vc_\<close>). Both kinds share the distribution list and the lookup.
\<close>

section \<open>Types\<close>

datatype AssetTypeOf = ART | BOND | MF

datatype AssetStatusOf = ACTIVE | INACTIVE | EXPIRED

fun is_valid_asset_type :: "AssetTypeOf \<Rightarrow> bool" where
  "is_valid_asset_type ART = True"
| "is_valid_asset_type BOND = True"
| "is_valid_asset_type MF = True"

fun is_valid_status_type :: "AssetStatusOf \<Rightarrow> bool" where
  "is_valid_status_type ACTIVE = True"
| "is_valid_status_type INACTIVE = True"
| "is_valid_status_type EXPIRED = True"

record asset_input_entry =
  asset_type :: AssetTypeOf
  asset_desc :: bytes
  asset_qty :: u64
  asset_value :: u32
  asset_tag :: bytes
  asset_meta :: bytes

record asset_entry =
  asset_detail :: asset_input_entry
  asset_issuance :: u64
  asset_status :: AssetStatusOf
  asset_issuer :: account
  asset_created_at :: u32

record vc_asset_entry =
  vc_digest :: hash
  vc_issuance :: u64
  vc_status :: AssetStatusOf
  vc_issuer :: account
  vc_qty :: u64
  vc_created_at :: u32

record asset_distribution_entry =
  instance_detail :: asset_input_entry
  instance_parent :: ident
  instance_status :: AssetStatusOf
  instance_issuer :: account
  instance_owner :: account
  instance_created_at :: u32

record vc_asset_distribution_entry =
  vci_qty :: u64
  vci_parent :: ident
  vci_digest :: hash
  vci_status :: AssetStatusOf
  vci_issuer :: account
  vci_owner :: account
  vci_created_at :: u32

record asset_issuance_entry =
  issue_asset_id :: ident
  issue_owner :: account
  issue_qty :: "u64 option"

record asset_transfer_entry =
  transfer_asset_id :: ident
  transfer_instance_id :: ident
  transfer_owner :: account
  transfer_new_owner :: account

datatype AssetEvent =
    Create ident account
  | Issue ident ident
  | Transfer ident ident account account
  | StatusChange ident "ident option" AssetStatusOf

datatype AssetError =
    UnauthorizedOperation | InvalidIdentifierLength | InvalidDigest | InvalidSignature
  | AssetIdAlreadyExists | InvalidAssetValue | InvalidAssetQty | InvalidAssetType
  | InvalidAssetStatus | AssetIdNotFound | AssetNotActive | InstanceNotActive | OverIssuanceLimit
  | DistributionLimitExceeded | AssetInstanceNotFound | AssetInSameState

record asset_storage = chain_space +
  Assets :: "ident \<Rightarrow> asset_entry option"
  VCAssets :: "ident \<Rightarrow> vc_asset_entry option"
  Distribution :: "ident \<Rightarrow> ident list option"
  Issuance :: "ident \<times> ident \<Rightarrow> asset_distribution_entry option"
  VCIssuance :: "ident \<times> ident \<Rightarrow> vc_asset_distribution_entry option"
  AssetLookup :: "hash \<Rightarrow> ident option"
  asset_events :: "AssetEvent list"

record 'o asset_config = "'o space_config" +
  AssetEnsureOrigin :: "'o \<Rightarrow> (account \<times> account) option"
  MaxEncodedValueLength :: u32
  MaxAssetDistribution :: u32

type_synonym 'm asset_result = "('m asset_storage_scheme, AssetError client_error) result"

section \<open>Internal functions\<close>

definition asset_deposit_event :: "AssetEvent \<Rightarrow> 'm asset_storage_scheme \<Rightarrow> 'm asset_storage_scheme" where
  "asset_deposit_event e s = s\<lparr>asset_events := asset_events s @ [e]\<rparr>"

definition asset_update_activity ::
  "'c identifier_config_scheme \<Rightarrow> ident \<Rightarrow> CallTypeOf \<Rightarrow> 'm identifier_storage_scheme
   \<Rightarrow> ('m identifier_storage_scheme, AssetError) result" where
  "asset_update_activity T = client_update_activity IdentifierTypeOf.Asset T"

definition get_distributed_qty :: "ident \<Rightarrow> 'm asset_storage_scheme \<Rightarrow> u32" where
  "get_distributed_qty asset_id s =
     (case Distribution s asset_id of Some v \<Rightarrow> of_nat (length v) | None \<Rightarrow> 0)"

definition asset_identifier ::
  "'c frame_config_scheme \<Rightarrow> hash \<Rightarrow> ident \<Rightarrow> account \<Rightarrow> (ident, AssetError) result" where
  "asset_identifier T digest space_id creator =
     map_err (\<lambda>_. AssetError.InvalidIdentifierLength)
       (create_identifier T
         (encode_hash T (hashing T (encode_hash T digest @ encode_ident T space_id @ encode_account T creator)))
         IdentifierType.Asset)"

definition asset_instance_identifier ::
  "'c frame_config_scheme \<Rightarrow> ident \<Rightarrow> account \<Rightarrow> ident \<Rightarrow> account \<Rightarrow> hash \<Rightarrow> (ident, AssetError) result" where
  "asset_instance_identifier T asset_id owner space_id issuer digest =
     map_err (\<lambda>_. AssetError.InvalidIdentifierLength)
       (create_identifier T
         (encode_hash T (hashing T (encode_ident T asset_id @ encode_account T owner @
            encode_ident T space_id @ encode_account T issuer @ encode_hash T digest)))
         IdentifierType.AssetInstance)"

definition distribute ::
  "('o, 'c) asset_config_scheme \<Rightarrow> ident \<Rightarrow> ident \<Rightarrow> 'm asset_storage_scheme
   \<Rightarrow> ('m asset_storage_scheme, AssetError) result" where
  "distribute T asset_id instance_id s =
     (let dist = (case Distribution s asset_id of Some v \<Rightarrow> v | None \<Rightarrow> [])
      in and_then (ok_or (try_push (unat (MaxAssetDistribution T)) dist instance_id)
                     AssetError.DistributionLimitExceeded) (\<lambda>dist'.
         Ok (s\<lparr>Distribution := (Distribution s)(asset_id \<mapsto> dist')\<rparr>)))"

section \<open>Extrinsics\<close>

definition asset_create ::
  "('o, 'c) asset_config_scheme \<Rightarrow> 'o \<Rightarrow> asset_input_entry \<Rightarrow> hash \<Rightarrow> ident \<Rightarrow> 'm asset_storage_scheme
   \<Rightarrow> 'm asset_result" where
  "asset_create T origin entry digest authorization s =
     and_then (authorize (AssetEnsureOrigin T origin) authorization s) (\<lambda>(creator, space_id, s1).
     and_then (in_pallet (ensure (0 < asset_qty entry \<and> 0 < asset_value entry) AssetError.InvalidAssetValue)) (\<lambda>_.
     and_then (in_pallet (ensure (is_valid_asset_type (asset_type entry)) AssetError.InvalidAssetType)) (\<lambda>_.
     and_then (in_pallet (asset_identifier T digest space_id creator)) (\<lambda>identifier.
     and_then (in_pallet (ensure (Assets s1 identifier = None) AssetError.AssetIdAlreadyExists)) (\<lambda>_.
     let s2 = s1\<lparr>AssetLookup := (AssetLookup s1)(digest \<mapsto> identifier),
                 Assets := (Assets s1)(identifier \<mapsto>
                   \<lparr>asset_detail = entry, asset_issuance = 0, asset_status = ACTIVE,
                    asset_issuer = creator, asset_created_at = block_number s1\<rparr>)\<rparr>
     in and_then (in_pallet (asset_update_activity T identifier CallTypeOf.Genesis s2)) (\<lambda>s3.
        Ok (asset_deposit_event (AssetEvent.Create identifier creator) s3)))))))"

definition asset_issue ::
  "('o, 'c) asset_config_scheme \<Rightarrow> 'o \<Rightarrow> asset_issuance_entry \<Rightarrow> hash \<Rightarrow> ident \<Rightarrow> 'm asset_storage_scheme
   \<Rightarrow> 'm asset_result" where
  "asset_issue T origin entry digest authorization s =
     and_then (authorize (AssetEnsureOrigin T origin) authorization s) (\<lambda>(issuer, space_id, s1).
     and_then (in_pallet (ok_or (Assets s1 (issue_asset_id entry)) AssetError.AssetIdNotFound)) (\<lambda>asset.
     and_then (in_pallet (ensure (asset_issuer asset = issuer) AssetError.UnauthorizedOperation)) (\<lambda>_.
     and_then (in_pallet (ensure (ACTIVE = asset_status asset) AssetError.AssetNotActive)) (\<lambda>_.
     let issuance_qty = (case issue_qty entry of Some q \<Rightarrow> q | None \<Rightarrow> 1);
         overall_issuance = saturating_add (asset_issuance asset) issuance_qty
     in and_then (in_pallet (ensure (overall_issuance \<le> asset_qty (asset_detail asset))
                    AssetError.OverIssuanceLimit)) (\<lambda>_.
        and_then (in_pallet (asset_instance_identifier T (issue_asset_id entry) (issue_owner entry)
                    space_id issuer digest)) (\<lambda>instance_id.
        and_then (in_pallet (distribute T (issue_asset_id entry) instance_id s1)) (\<lambda>s2.
        let s3 = s2\<lparr>AssetLookup := (AssetLookup s2)(digest \<mapsto> issue_asset_id entry),
                    Issuance := (Issuance s2)((issue_asset_id entry, instance_id) \<mapsto>
                      \<lparr>instance_detail = (asset_detail asset)\<lparr>asset_qty := issuance_qty\<rparr>,
                       instance_parent = issue_asset_id entry, instance_status = ACTIVE,
                       instance_issuer = issuer, instance_owner = issue_owner entry,
                       instance_created_at = block_number s2\<rparr>),
                    Assets := (Assets s2)(issue_asset_id entry \<mapsto> asset\<lparr>asset_issuance := overall_issuance\<rparr>)\<rparr>
        in and_then (in_pallet (asset_update_activity T (issue_asset_id entry) CallTypeOf.Issue s3)) (\<lambda>s4.
           and_then (in_pallet (asset_update_activity T instance_id CallTypeOf.Genesis s4)) (\<lambda>s5.
           Ok (asset_deposit_event (AssetEvent.Issue (issue_asset_id entry) instance_id) s5))))))))))"

definition asset_transfer ::
  "('o, 'c) asset_config_scheme \<Rightarrow> 'o \<Rightarrow> asset_transfer_entry \<Rightarrow> hash \<Rightarrow> 'm asset_storage_scheme
   \<Rightarrow> 'm asset_result" where
  "asset_transfer T origin entry digest s =
     and_then (subject_of (AssetEnsureOrigin T origin)) (\<lambda>owner.
     and_then (in_pallet (ok_or (Assets s (transfer_asset_id entry)) AssetError.AssetIdNotFound)) (\<lambda>asset.
     and_then (in_pallet (ok_or (Issuance s (transfer_asset_id entry, transfer_instance_id entry))
                 AssetError.AssetInstanceNotFound)) (\<lambda>inst.
     and_then (in_pallet (ensure (instance_owner inst = owner) AssetError.UnauthorizedOperation)) (\<lambda>_.
     and_then (in_pallet (ensure (instance_owner inst = transfer_owner entry)
                 AssetError.UnauthorizedOperation)) (\<lambda>_.
     and_then (in_pallet (ensure (ACTIVE = asset_status asset) AssetError.AssetNotActive)) (\<lambda>_.
     and_then (in_pallet (ensure (ACTIVE = instance_status inst) AssetError.InstanceNotActive)) (\<lambda>_.
     let s1 = s\<lparr>Issuance := (Issuance s)((transfer_asset_id entry, transfer_instance_id entry) \<mapsto>
                inst\<lparr>instance_owner := transfer_new_owner entry, instance_created_at := block_number s\<rparr>)\<rparr>
     in and_then (in_pallet (asset_update_activity T (transfer_instance_id entry) CallTypeOf.Transfer s1)) (\<lambda>s2.
        Ok (asset_deposit_event (AssetEvent.Transfer (transfer_asset_id entry) (transfer_instance_id entry)
              owner (transfer_new_owner entry)) s2)))))))))"

definition asset_status_change ::
  "('o, 'c) asset_config_scheme \<Rightarrow> 'o \<Rightarrow> ident \<Rightarrow> ident option \<Rightarrow> AssetStatusOf \<Rightarrow> 'm asset_storage_scheme
   \<Rightarrow> 'm asset_result" where
  "asset_status_change T origin asset_id instance_id new_status s =
     and_then (subject_of (AssetEnsureOrigin T origin)) (\<lambda>issuer.
     and_then (in_pallet (ok_or (Assets s asset_id) AssetError.AssetIdNotFound)) (\<lambda>asset.
     and_then (in_pallet (ensure (asset_issuer asset = issuer) AssetError.UnauthorizedOperation)) (\<lambda>_.
     and_then (in_pallet (ensure (is_valid_status_type new_status) AssetError.InvalidAssetStatus)) (\<lambda>_.
     and_then (case instance_id of
         Some inst_id \<Rightarrow>
           and_then (in_pallet (ok_or (Issuance s (asset_id, inst_id)) AssetError.AssetInstanceNotFound)) (\<lambda>inst.
           and_then (in_pallet (ensure (new_status \<noteq> instance_status inst) AssetError.AssetInSameState)) (\<lambda>_.
           in_pallet (asset_update_activity T inst_id CallTypeOf.Update
             (s\<lparr>Issuance := (Issuance s)((asset_id, inst_id) \<mapsto> inst\<lparr>instance_status := new_status\<rparr>)\<rparr>))))
       | None \<Rightarrow>
           and_then (in_pallet (ensure (new_status \<noteq> asset_status asset) AssetError.AssetInSameState)) (\<lambda>_.
           in_pallet (asset_update_activity T asset_id CallTypeOf.Update
             (s\<lparr>Assets := (Assets s)(asset_id \<mapsto> asset\<lparr>asset_status := new_status\<rparr>)\<rparr>)))) (\<lambda>s1.
     Ok (asset_deposit_event (AssetEvent.StatusChange asset_id instance_id new_status) s1))))))"

definition asset_vc_create ::
  "('o, 'c) asset_config_scheme \<Rightarrow> 'o \<Rightarrow> u64 \<Rightarrow> hash \<Rightarrow> ident \<Rightarrow> 'm asset_storage_scheme
   \<Rightarrow> 'm asset_result" where
  "asset_vc_create T origin qty digest authorization s =
     and_then (authorize (AssetEnsureOrigin T origin) authorization s) (\<lambda>(creator, space_id, s1).
     and_then (in_pallet (ensure (0 < qty) AssetError.InvalidAssetQty)) (\<lambda>_.
     and_then (in_pallet (asset_identifier T digest space_id creator)) (\<lambda>identifier.
     and_then (in_pallet (ensure (VCAssets s1 identifier = None) AssetError.AssetIdAlreadyExists)) (\<lambda>_.
     let s2 = s1\<lparr>AssetLookup := (AssetLookup s1)(digest \<mapsto> identifier),
                 VCAssets := (VCAssets s1)(identifier \<mapsto>
                   \<lparr>vc_digest = digest, vc_issuance = 0, vc_status = ACTIVE, vc_issuer = creator,
                    vc_qty = qty, vc_created_at = block_number s1\<rparr>)\<rparr>
     in and_then (in_pallet (asset_update_activity T identifier CallTypeOf.Genesis s2)) (\<lambda>s3.
        Ok (asset_deposit_event (AssetEvent.Create identifier creator) s3))))))"

definition asset_vc_issue ::
  "('o, 'c) asset_config_scheme \<Rightarrow> 'o \<Rightarrow> asset_issuance_entry \<Rightarrow> hash \<Rightarrow> ident \<Rightarrow> 'm asset_storage_scheme
   \<Rightarrow> 'm asset_result" where
  "asset_vc_issue T origin entry digest authorization s =
     and_then (authorize (AssetEnsureOrigin T origin) authorization s) (\<lambda>(issuer, space_id, s1).
     and_then (in_pallet (ok_or (VCAssets s1 (issue_asset_id entry)) AssetError.AssetIdNotFound)) (\<lambda>asset.
     and_then (in_pallet (ensure (vc_issuer asset = issuer) AssetError.UnauthorizedOperation)) (\<lambda>_.
     and_then (in_pallet (ensure (ACTIVE = vc_status asset) AssetError.AssetNotActive)) (\<lambda>_.
     let issuance_qty = (case issue_qty entry of Some q \<Rightarrow> q | None \<Rightarrow> 1);
         overall_issuance = saturating_add (vc_issuance asset) issuance_qty
     in and_then (in_pallet (ensure (overall_issuance \<le> vc_qty asset) AssetError.OverIssuanceLimit)) (\<lambda>_.
        and_then (in_pallet (asset_instance_identifier T (issue_asset_id entry) (issue_owner entry)
                    space_id issuer digest)) (\<lambda>instance_id.
        and_then (in_pallet (distribute T (issue_asset_id entry) instance_id s1)) (\<lambda>s2.
        let s3 = s2\<lparr>AssetLookup := (AssetLookup s2)(digest \<mapsto> issue_asset_id entry),
                    VCIssuance := (VCIssuance s2)((issue_asset_id entry, instance_id) \<mapsto>
                      \<lparr>vci_qty = issuance_qty, vci_parent = issue_asset_id entry, vci_digest = digest,
                       vci_status = ACTIVE, vci_issuer = issuer, vci_owner = issue_owner entry,
                       vci_created_at = block_number s2\<rparr>),
                    VCAssets := (VCAssets s2)(issue_asset_id entry \<mapsto> asset\<lparr>vc_issuance := overall_issuance\<rparr>)\<rparr>
        in and_then (in_pallet (asset_update_activity T (issue_asset_id entry) CallTypeOf.Issue s3)) (\<lambda>s4.
           and_then (in_pallet (asset_update_activity T instance_id CallTypeOf.Genesis s4)) (\<lambda>s5.
           Ok (asset_deposit_event (AssetEvent.Issue (issue_asset_id entry) instance_id) s5))))))))))"

definition asset_vc_transfer ::
  "('o, 'c) asset_config_scheme \<Rightarrow> 'o \<Rightarrow> asset_transfer_entry \<Rightarrow> hash \<Rightarrow> 'm asset_storage_scheme
   \<Rightarrow> 'm asset_result" where
  "asset_vc_transfer T origin entry digest s =
     and_then (subject_of (AssetEnsureOrigin T origin)) (\<lambda>owner.
     and_then (in_pallet (ok_or (VCAssets s (transfer_asset_id entry)) AssetError.AssetIdNotFound)) (\<lambda>asset.
     and_then (in_pallet (ok_or (VCIssuance s (transfer_asset_id entry, transfer_instance_id entry))
                 AssetError.AssetInstanceNotFound)) (\<lambda>inst.
     and_then (in_pallet (ensure (vci_owner inst = owner) AssetError.UnauthorizedOperation)) (\<lambda>_.
     and_then (in_pallet (ensure (vci_owner inst = transfer_owner entry)
                 AssetError.UnauthorizedOperation)) (\<lambda>_.
     and_then (in_pallet (ensure (ACTIVE = vc_status asset) AssetError.AssetNotActive)) (\<lambda>_.
     and_then (in_pallet (ensure (ACTIVE = vci_status inst) AssetError.InstanceNotActive)) (\<lambda>_.
     let s1 = s\<lparr>VCIssuance := (VCIssuance s)((transfer_asset_id entry, transfer_instance_id entry) \<mapsto>
                inst\<lparr>vci_owner := transfer_new_owner entry, vci_digest := digest,
                     vci_created_at := block_number s\<rparr>)\<rparr>
     in and_then (in_pallet (asset_update_activity T (transfer_instance_id entry) CallTypeOf.Transfer s1)) (\<lambda>s2.
        Ok (asset_deposit_event (AssetEvent.Transfer (transfer_asset_id entry) (transfer_instance_id entry)
              owner (transfer_new_owner entry)) s2)))))))))"

definition asset_vc_status_change ::
  "('o, 'c) asset_config_scheme \<Rightarrow> 'o \<Rightarrow> ident \<Rightarrow> ident option \<Rightarrow> AssetStatusOf \<Rightarrow> 'm asset_storage_scheme
   \<Rightarrow> 'm asset_result" where
  "asset_vc_status_change T origin asset_id instance_id new_status s =
     and_then (subject_of (AssetEnsureOrigin T origin)) (\<lambda>issuer.
     and_then (in_pallet (ok_or (VCAssets s asset_id) AssetError.AssetIdNotFound)) (\<lambda>asset.
     and_then (in_pallet (ensure (vc_issuer asset = issuer) AssetError.UnauthorizedOperation)) (\<lambda>_.
     and_then (in_pallet (ensure (is_valid_status_type new_status) AssetError.InvalidAssetStatus)) (\<lambda>_.
     and_then (case instance_id of
         Some inst_id \<Rightarrow>
           and_then (in_pallet (ok_or (VCIssuance s (asset_id, inst_id)) AssetError.AssetInstanceNotFound)) (\<lambda>inst.
           and_then (in_pallet (ensure (new_status \<noteq> vci_status inst) AssetError.AssetInSameState)) (\<lambda>_.
           in_pallet (asset_update_activity T inst_id CallTypeOf.Update
             (s\<lparr>VCIssuance := (VCIssuance s)((asset_id, inst_id) \<mapsto> inst\<lparr>vci_status := new_status\<rparr>)\<rparr>))))
       | None \<Rightarrow>
           and_then (in_pallet (ensure (new_status \<noteq> vc_status asset) AssetError.AssetInSameState)) (\<lambda>_.
           in_pallet (asset_update_activity T asset_id CallTypeOf.Update
             (s\<lparr>VCAssets := (VCAssets s)(asset_id \<mapsto> asset\<lparr>vc_status := new_status\<rparr>)\<rparr>)))) (\<lambda>s1.
     Ok (asset_deposit_event (AssetEvent.StatusChange asset_id instance_id new_status) s1))))))"

section \<open>Calls and steps\<close>

datatype AssetCall =
    CreateAsset asset_input_entry hash ident
  | IssueAsset asset_issuance_entry hash ident
  | TransferAsset asset_transfer_entry hash
  | ChangeAssetStatus ident "ident option" AssetStatusOf
  | VcCreateAsset u64 hash ident
  | VcIssueAsset asset_issuance_entry hash ident
  | VcTransferAsset asset_transfer_entry hash
  | VcChangeAssetStatus ident "ident option" AssetStatusOf

fun asset_dispatch ::
  "('o, 'c) asset_config_scheme \<Rightarrow> 'o \<Rightarrow> AssetCall \<Rightarrow> 'm asset_storage_scheme \<Rightarrow> 'm asset_result" where
  "asset_dispatch T origin (CreateAsset e d a) s = asset_create T origin e d a s"
| "asset_dispatch T origin (IssueAsset e d a) s = asset_issue T origin e d a s"
| "asset_dispatch T origin (TransferAsset e d) s = asset_transfer T origin e d s"
| "asset_dispatch T origin (ChangeAssetStatus i j st) s = asset_status_change T origin i j st s"
| "asset_dispatch T origin (VcCreateAsset q d a) s = asset_vc_create T origin q d a s"
| "asset_dispatch T origin (VcIssueAsset e d a) s = asset_vc_issue T origin e d a s"
| "asset_dispatch T origin (VcTransferAsset e d) s = asset_vc_transfer T origin e d s"
| "asset_dispatch T origin (VcChangeAssetStatus i j st) s = asset_vc_status_change T origin i j st s"

inductive asset_step ::
  "('o, 'c) asset_config_scheme \<Rightarrow> 'm asset_storage_scheme \<Rightarrow> 'm asset_storage_scheme \<Rightarrow> bool" for T where
  call: "asset_dispatch T origin c s = Ok s' \<Longrightarrow> asset_step T s s'"
| space: "space_dispatch T origin c s = Ok s' \<Longrightarrow> asset_step T s s'"
| tick: "asset_step T s (s\<lparr>block_number := n, extrinsic_index := x\<rparr>)"

definition asset_genesis :: "'m asset_storage_scheme \<Rightarrow> bool" where
  "asset_genesis s \<longleftrightarrow> space_genesis s \<and> Assets s = Map.empty \<and> VCAssets s = Map.empty \<and>
     Distribution s = Map.empty \<and> Issuance s = Map.empty \<and> VCIssuance s = Map.empty \<and> AssetLookup s = Map.empty"

section \<open>Books\<close>

text \<open>
  What holds of both kinds of assets, over their three maps: the assets with what has been issued of
  them and their quantity, the instances with their quantity, and the distribution lists. Every
  instance belongs to an asset and is listed, and what all instances of an asset hold together, counted
  up to the largest 64-bit number, where the addition saturates, is covered by its issuance, which is within
  its quantity.
\<close>

definition issued :: "('i \<Rightarrow> u64) \<Rightarrow> (ident \<times> ident \<Rightarrow> 'i option) \<Rightarrow> ident \<Rightarrow> nat" where
  "issued iqty I a = (\<Sum>j \<in> {j. I (a, j) \<noteq> None}. unat (iqty (the (I (a, j)))))"

definition listed :: "(ident \<Rightarrow> ident list option) \<Rightarrow> ident \<Rightarrow> ident list" where
  "listed D a = (case D a of Some v \<Rightarrow> v | None \<Rightarrow> [])"

lemma listed_update [simp]: "listed (D(a \<mapsto> xs)) b = (if b = a then xs else listed D b)"
  by (simp add: listed_def)

definition book_ok ::
  "('e \<Rightarrow> u64) \<Rightarrow> ('e \<Rightarrow> u64) \<Rightarrow> ('i \<Rightarrow> u64) \<Rightarrow>
   (ident \<Rightarrow> 'e option) \<Rightarrow> (ident \<times> ident \<Rightarrow> 'i option) \<Rightarrow> (ident \<Rightarrow> ident list option) \<Rightarrow> bool" where
  "book_ok iss qty iqty A I D \<longleftrightarrow>
     (\<forall>a j i. I (a, j) = Some i \<longrightarrow> A a \<noteq> None \<and> j \<in> set (listed D a)) \<and>
     (\<forall>a e. A a = Some e \<longrightarrow> iss e \<le> qty e \<and> min (issued iqty I a) (2 ^ 64 - 1) \<le> unat (iss e))"

lemma book_finite: "book_ok iss qty iqty A I D \<Longrightarrow> finite {j. I (a, j) \<noteq> None}"
  by (rule finite_subset [of _ "set (listed D a)"]) (auto simp: book_ok_def)

lemma issued_other [simp]: "b \<noteq> a \<Longrightarrow> issued iqty (I((a, j) \<mapsto> i)) b = issued iqty I b"
  by (simp add: issued_def)

lemma issued_update:
  assumes "finite {j. I (a, j) \<noteq> None}"
  shows "issued iqty (I((a, j) \<mapsto> i)) a \<le> issued iqty I a + unat (iqty i)"
proof -
  let ?J = "{j. I (a, j) \<noteq> None}"
  have "issued iqty (I((a, j) \<mapsto> i)) a = (\<Sum>k \<in> insert j ?J. unat (iqty (the ((I((a, j) \<mapsto> i)) (a, k)))))"
    unfolding issued_def by (rule sum.cong) auto
  also have "\<dots> = unat (iqty i) + (\<Sum>k \<in> ?J - {j}. unat (iqty (the (I (a, k)))))"
    using assms by (subst sum.insert_remove) auto
  also have "\<dots> \<le> unat (iqty i) + issued iqty I a"
    unfolding issued_def using assms by (auto intro: sum_mono2)
  finally show ?thesis by simp
qed

lemma issued_rewrite:
  assumes "I (a, j) = Some i" "iqty i' = iqty i"
  shows "issued iqty (I((a, j) \<mapsto> i')) b = issued iqty I b"
proof (cases "b = a")
  case True
  have "{k. (I((a, j) \<mapsto> i')) (a, k) \<noteq> None} = {k. I (a, k) \<noteq> None}" using assms(1) by auto
  then show ?thesis unfolding issued_def True by (rule sum.cong) (use assms in auto)
qed simp

lemma book_issue:
  assumes "book_ok iss qty iqty A I D" "A a = Some e" "saturating_add (iss e) (iqty i) \<le> qty e"
    and "iss e' = saturating_add (iss e) (iqty i)" "qty e' = qty e"
  shows "book_ok iss qty iqty (A(a \<mapsto> e')) (I((a, j) \<mapsto> i)) (D(a \<mapsto> listed D a @ [j]))"
proof -
  have "min (issued iqty I a) (2 ^ 64 - 1) \<le> unat (iss e)" using assms(1,2) by (auto simp: book_ok_def)
  then have "min (issued iqty (I((a, j) \<mapsto> i)) a) (2 ^ 64 - 1) \<le> unat (iss e')"
    using issued_update [OF book_finite [OF assms(1)], of iqty a j i] by (simp add: assms(4) unat_saturating_add)
  then show ?thesis
    using assms by (auto simp: book_ok_def)
qed

lemma book_new:
  assumes "book_ok iss qty iqty A I D" "A a = None" "iss e = 0"
  shows "book_ok iss qty iqty (A(a \<mapsto> e)) I D"
proof -
  have "I (a, j) = None" for j
    using assms(1,2) unfolding book_ok_def by (metis not_None_eq)
  then have "issued iqty I a = 0" by (simp add: issued_def)
  with assms show ?thesis by (auto simp: book_ok_def)
qed

lemma book_asset_rewrite:
  "book_ok iss qty iqty A I D \<Longrightarrow> A a = Some e \<Longrightarrow> iss e' = iss e \<Longrightarrow> qty e' = qty e \<Longrightarrow>
   book_ok iss qty iqty (A(a \<mapsto> e')) I D"
  by (auto simp: book_ok_def)

lemma book_instance_rewrite:
  "book_ok iss qty iqty A I D \<Longrightarrow> I (a, j) = Some i \<Longrightarrow> iqty i' = iqty i \<Longrightarrow>
   book_ok iss qty iqty A (I((a, j) \<mapsto> i')) D"
  by (auto simp: book_ok_def issued_rewrite)

lemma book_list_more: "book_ok iss qty iqty A I D \<Longrightarrow> book_ok iss qty iqty A I (D(a \<mapsto> listed D a @ [j]))"
  by (fastforce simp: book_ok_def)

end
