(* ===== verification/Asset_Properties.thy ===== *)
theory Asset_Properties
  imports Asset Chain_Space_Properties
begin

text \<open>The invariant of the asset pallet's books and the properties of the pallet.\<close>

section \<open>Frames\<close>

lemma asset_frame_space [simp]:
  "Assets (space_insert i d s) = Assets s" "VCAssets (space_insert i d s) = VCAssets s"
  "Distribution (space_insert i d s) = Distribution s" "Issuance (space_insert i d s) = Issuance s"
  "VCIssuance (space_insert i d s) = VCIssuance s" "AssetLookup (space_insert i d s) = AssetLookup s"
  by (simp_all add: space_insert_def)

lemma asset_frame_count [simp]:
  "Assets (count_up_at sp s) = Assets s" "VCAssets (count_up_at sp s) = VCAssets s"
  "Distribution (count_up_at sp s) = Distribution s" "Issuance (count_up_at sp s) = Issuance s"
  "VCIssuance (count_up_at sp s) = VCIssuance s" "AssetLookup (count_up_at sp s) = AssetLookup s"
  by (simp_all add: count_up_at_def space_insert_def)

lemma asset_deposit_frame [simp]:
  "Assets (asset_deposit_event e s) = Assets s" "VCAssets (asset_deposit_event e s) = VCAssets s"
  "Distribution (asset_deposit_event e s) = Distribution s" "Issuance (asset_deposit_event e s) = Issuance s"
  "VCIssuance (asset_deposit_event e s) = VCIssuance s" "AssetLookup (asset_deposit_event e s) = AssetLookup s"
  "Spaces (asset_deposit_event e s) = Spaces s" "Authorizations (asset_deposit_event e s) = Authorizations s"
  by (simp_all add: asset_deposit_event_def)

lemma asset_activity_frame:
  assumes "asset_update_activity T i a s = Ok s'"
  shows "Assets s' = Assets s" "VCAssets s' = VCAssets s" "Distribution s' = Distribution s"
    and "Issuance s' = Issuance s" "VCIssuance s' = VCIssuance s" "AssetLookup s' = AssetLookup s"
    and "Spaces s' = Spaces s" "Authorizations s' = Authorizations s"
  using client_update_activity_frame [OF assms [unfolded asset_update_activity_def]] by auto

lemma distribute_Ok_iff [simp]:
  "distribute T a j s = Ok s' \<longleftrightarrow>
     length (listed (Distribution s) a) < unat (MaxAssetDistribution T) \<and>
     s' = s\<lparr>Distribution := (Distribution s)(a \<mapsto> listed (Distribution s) a @ [j])\<rparr>"
  by (auto simp: distribute_def listed_def Let_def)

section \<open>The invariant\<close>

abbreviation asset_book :: "'m asset_storage_scheme \<Rightarrow> bool" where
  "asset_book s \<equiv> book_ok asset_issuance (asset_qty \<circ> asset_detail) (asset_qty \<circ> instance_detail)
     (Assets s) (Issuance s) (Distribution s)"

abbreviation vc_asset_book :: "'m asset_storage_scheme \<Rightarrow> bool" where
  "vc_asset_book s \<equiv> book_ok vc_issuance vc_qty vci_qty (VCAssets s) (VCIssuance s) (Distribution s)"

definition asset_wf :: "('o, 'c) asset_config_scheme \<Rightarrow> 'm asset_storage_scheme \<Rightarrow> bool" where
  "asset_wf T s \<longleftrightarrow> asset_book s \<and> vc_asset_book s \<and>
     (\<forall>a. length (listed (Distribution s) a) \<le> unat (MaxAssetDistribution T))"

lemma asset_wf_create:
  "asset_create T origin e d a s = Ok s' \<Longrightarrow> asset_wf T s \<Longrightarrow> asset_wf T s'"
  "asset_vc_create T origin q d a s = Ok s' \<Longrightarrow> asset_wf T s \<Longrightarrow> asset_wf T s'"
  by (auto simp: asset_create_def asset_vc_create_def asset_wf_def authorize_Ok_iff Let_def asset_activity_frame
      intro!: book_new)

text \<open>The quantity a call issues: one if none is given.\<close>

abbreviation issued_qty :: "asset_issuance_entry \<Rightarrow> u64" where
  "issued_qty e \<equiv> (case issue_qty e of Some q \<Rightarrow> q | None \<Rightarrow> 1)"

lemma asset_issue_OkE:
  assumes "asset_issue T origin e dg a s = Ok s'"
  obtains who sender sp asset j where
    "AssetEnsureOrigin T origin = Some (who, sender)" "authorized ASSERT active a who s sp"
    "Assets s (issue_asset_id e) = Some asset" "asset_issuer asset = who" "asset_status asset = ACTIVE"
    "saturating_add (asset_issuance asset) (issued_qty e) \<le> asset_qty (asset_detail asset)"
    "asset_instance_identifier T (issue_asset_id e) (issue_owner e) sp who dg = Ok j"
    "length (listed (Distribution s) (issue_asset_id e)) < unat (MaxAssetDistribution T)"
    "Distribution s' = (Distribution s)(issue_asset_id e \<mapsto> listed (Distribution s) (issue_asset_id e) @ [j])"
    "Assets s' = (Assets s)(issue_asset_id e \<mapsto>
       asset\<lparr>asset_issuance := saturating_add (asset_issuance asset) (issued_qty e)\<rparr>)"
    "Issuance s' = (Issuance s)((issue_asset_id e, j) \<mapsto>
       \<lparr>instance_detail = (asset_detail asset)\<lparr>asset_qty := issued_qty e\<rparr>,
        instance_parent = issue_asset_id e, instance_status = ACTIVE, instance_issuer = who,
        instance_owner = issue_owner e, instance_created_at = block_number s\<rparr>)"
    "VCAssets s' = VCAssets s" "VCIssuance s' = VCIssuance s" "Authorizations s' = Authorizations s"
  using assms
  by (clarsimp simp: asset_issue_def authorize_Ok_iff Let_def asset_activity_frame simp del: fun_upd_apply)
    (rule that, (assumption | rule refl | simp add: asset_activity_frame count_up_at_def space_insert_def del: fun_upd_apply)+)

lemma asset_vc_issue_OkE:
  assumes "asset_vc_issue T origin e dg a s = Ok s'"
  obtains who sender sp asset j where
    "AssetEnsureOrigin T origin = Some (who, sender)" "authorized ASSERT active a who s sp"
    "VCAssets s (issue_asset_id e) = Some asset" "vc_issuer asset = who" "vc_status asset = ACTIVE"
    "saturating_add (vc_issuance asset) (issued_qty e) \<le> vc_qty asset"
    "asset_instance_identifier T (issue_asset_id e) (issue_owner e) sp who dg = Ok j"
    "length (listed (Distribution s) (issue_asset_id e)) < unat (MaxAssetDistribution T)"
    "Distribution s' = (Distribution s)(issue_asset_id e \<mapsto> listed (Distribution s) (issue_asset_id e) @ [j])"
    "VCAssets s' = (VCAssets s)(issue_asset_id e \<mapsto>
       asset\<lparr>vc_issuance := saturating_add (vc_issuance asset) (issued_qty e)\<rparr>)"
    "VCIssuance s' = (VCIssuance s)((issue_asset_id e, j) \<mapsto>
       \<lparr>vci_qty = issued_qty e, vci_parent = issue_asset_id e, vci_digest = dg, vci_status = ACTIVE,
        vci_issuer = who, vci_owner = issue_owner e, vci_created_at = block_number s\<rparr>)"
    "Assets s' = Assets s" "Issuance s' = Issuance s"
  using assms
  by (clarsimp simp: asset_vc_issue_def authorize_Ok_iff Let_def asset_activity_frame simp del: fun_upd_apply)
    (rule that, (assumption | rule refl | simp add: asset_activity_frame count_up_at_def space_insert_def del: fun_upd_apply)+)

lemma asset_wf_issue:
  assumes "asset_issue T origin e dg a s = Ok s'" "asset_wf T s"
  shows "asset_wf T s'"
  using assms(1)
proof (rule asset_issue_OkE, goal_cases)
  case (1 who sender sp asset j)
  then show ?case
    using assms(2) book_issue [of asset_issuance "asset_qty \<circ> asset_detail" "asset_qty \<circ> instance_detail"
        "Assets s" "Issuance s" "Distribution s" "issue_asset_id e" asset]
    by (auto simp: asset_wf_def intro: book_list_more)
qed

lemma asset_wf_vc_issue:
  assumes "asset_vc_issue T origin e dg a s = Ok s'" "asset_wf T s"
  shows "asset_wf T s'"
  using assms(1)
proof (rule asset_vc_issue_OkE, goal_cases)
  case (1 who sender sp asset j)
  then show ?case
    using assms(2) book_issue [of vc_issuance vc_qty vci_qty
        "VCAssets s" "VCIssuance s" "Distribution s" "issue_asset_id e" asset]
    by (auto simp: asset_wf_def intro: book_list_more)
qed

lemma asset_wf_transfer:
  "asset_transfer T origin e d s = Ok s' \<Longrightarrow> asset_wf T s \<Longrightarrow> asset_wf T s'"
  "asset_vc_transfer T origin e d s = Ok s' \<Longrightarrow> asset_wf T s \<Longrightarrow> asset_wf T s'"
  by (auto simp: asset_transfer_def asset_vc_transfer_def asset_wf_def Let_def asset_activity_frame
      intro!: book_instance_rewrite)

lemma asset_status_change_OkE:
  assumes "asset_status_change T origin a j st s = Ok s'"
  obtains e where "j = None" "Assets s a = Some e" "Assets s' = (Assets s)(a \<mapsto> e\<lparr>asset_status := st\<rparr>)"
      "Issuance s' = Issuance s" "VCAssets s' = VCAssets s" "VCIssuance s' = VCIssuance s" "Distribution s' = Distribution s"
  | k i where "j = Some k" "Issuance s (a, k) = Some i" "Issuance s' = (Issuance s)((a, k) \<mapsto> i\<lparr>instance_status := st\<rparr>)"
      "Assets s' = Assets s" "VCAssets s' = VCAssets s" "VCIssuance s' = VCIssuance s" "Distribution s' = Distribution s"
  using assms by (cases j) (auto simp: asset_status_change_def asset_activity_frame intro: that)

lemma asset_vc_status_change_OkE:
  assumes "asset_vc_status_change T origin a j st s = Ok s'"
  obtains e where "j = None" "VCAssets s a = Some e" "VCAssets s' = (VCAssets s)(a \<mapsto> e\<lparr>vc_status := st\<rparr>)"
      "Issuance s' = Issuance s" "Assets s' = Assets s" "VCIssuance s' = VCIssuance s" "Distribution s' = Distribution s"
  | k i where "j = Some k" "VCIssuance s (a, k) = Some i" "VCIssuance s' = (VCIssuance s)((a, k) \<mapsto> i\<lparr>vci_status := st\<rparr>)"
      "Assets s' = Assets s" "VCAssets s' = VCAssets s" "Issuance s' = Issuance s" "Distribution s' = Distribution s"
  using assms by (cases j) (auto simp: asset_vc_status_change_def asset_activity_frame intro: that)

lemma asset_wf_status:
  "asset_status_change T origin i j st s = Ok s' \<Longrightarrow> asset_wf T s \<Longrightarrow> asset_wf T s'"
  by (erule asset_status_change_OkE) (simp_all add: asset_wf_def book_asset_rewrite book_instance_rewrite)

lemma asset_wf_vc_status:
  "asset_vc_status_change T origin i j st s = Ok s' \<Longrightarrow> asset_wf T s \<Longrightarrow> asset_wf T s'"
  by (erule asset_vc_status_change_OkE) (simp_all add: asset_wf_def book_asset_rewrite book_instance_rewrite)

lemma asset_wf_dispatch:
  "asset_dispatch T origin c s = Ok s' \<Longrightarrow> asset_wf T s \<Longrightarrow> asset_wf T s'"
  by (cases c) (auto dest: asset_wf_create asset_wf_issue asset_wf_vc_issue asset_wf_transfer asset_wf_status asset_wf_vc_status)

lemma asset_wf_more: "chain_space.more s' = chain_space.more s \<Longrightarrow> asset_wf T s' = asset_wf T s"
  by (cases s; cases s') (simp add: asset_wf_def)

interpretation asset_inv: invariant_system asset_genesis "asset_step T" "asset_wf T" for T
proof (unfold_locales, goal_cases)
  case (1 s)
  then show ?case by (simp add: asset_genesis_def asset_wf_def book_ok_def listed_def)
next
  case (2 s t)
  from this(2) show ?case
  proof cases
    case (call origin c)
    then show ?thesis using 2(1) by (rule asset_wf_dispatch)
  next
    case (space origin c)
    from asset_wf_more [OF space_dispatch_more [OF this], of T] 2(1) show ?thesis by simp
  next
    case (tick n x)
    with 2(1) show ?thesis by (simp add: asset_wf_def)
  qed
qed

section \<open>Properties\<close>

text \<open>The recorded issuance of a quantity below the largest 64-bit number is not cut off.\<close>

lemma below_saturation:
  assumes "min n (2 ^ 64 - 1) \<le> unat (v :: u64)" "v \<le> q" "q < - 1"
  shows "n \<le> unat v"
proof -
  have "unat (- 1 :: u64) = 2 ^ 64 - 1" by (simp add: unsigned_minus_1_eq_mask mask_eq_exp_minus_1)
  then have "unat v < 2 ^ 64 - 1"
    using assms(2,3) by (simp add: word_le_nat_alt word_less_nat_alt)
  then show ?thesis using assms(1) by (simp add: min_def split: if_splits)
qed

text \<open>C13: in every reachable storage the recorded issuance of an asset is at most its quantity, no asset has more
  instances listed than allowed, and what all instances of an asset hold together, cut off at the largest 64-bit
  number, is at most its recorded issuance. So an asset whose quantity is below the largest 64-bit number is never
  over-issued; \<open>asset_over_issued_at_limit\<close> shows that one with the largest quantity can be.\<close>

theorem asset_never_over_issued:
  assumes "reachable asset_genesis (asset_step T) s" "Assets s a = Some e"
  shows "asset_issuance e \<le> asset_qty (asset_detail e) \<and>
     length (listed (Distribution s) a) \<le> unat (MaxAssetDistribution T) \<and>
     min (\<Sum>j \<in> {j. Issuance s (a, j) \<noteq> None}. unat (asset_qty (instance_detail (the (Issuance s (a, j))))))
       (2 ^ 64 - 1) \<le> unat (asset_issuance e) \<and>
     (asset_qty (asset_detail e) < - 1 \<longrightarrow>
       (\<Sum>j \<in> {j. Issuance s (a, j) \<noteq> None}. unat (asset_qty (instance_detail (the (Issuance s (a, j))))))
         \<le> unat (asset_issuance e))"
proof -
  have "asset_wf T s" by (rule asset_inv.inv_reachable [OF assms(1)])
  then have "asset_issuance e \<le> asset_qty (asset_detail e)" "length (listed (Distribution s) a) \<le> unat (MaxAssetDistribution T)"
    "min (issued (asset_qty \<circ> instance_detail) (Issuance s) a) (2 ^ 64 - 1) \<le> unat (asset_issuance e)"
    using assms(2) by (auto simp: asset_wf_def book_ok_def)
  then show ?thesis using below_saturation by (auto simp: issued_def)
qed

definition sample_asset_config :: "account option asset_config" where
  "sample_asset_config = \<lparr>overflow_checks = True, hashing = sample_hash, encode_hash = id,
     encode_account = id, encode_ident = id, encode_vec = id, blake2b_64 = sample_hash,
     bs58_encode = halves, bs58_decode = unhalves, MaxEventsHistory = 6,
     EnsureOrigin = map_option (\<lambda>a. (a, a)), ChainSpaceOrigin = (\<lambda>o'. o' = None),
     is_permissioned = True, MaxSpaceDelegates = 5,
     AssetEnsureOrigin = map_option (\<lambda>a. (a, a)), MaxEncodedValueLength = 20, MaxAssetDistribution = 4\<rparr>"

lemma sample_asset_config_simps [simp]:
  "overflow_checks sample_asset_config" "MaxEventsHistory sample_asset_config = 6"
  "EnsureOrigin sample_asset_config = map_option (\<lambda>a. (a, a))"
  "ChainSpaceOrigin sample_asset_config o' \<longleftrightarrow> o' = None" "is_permissioned sample_asset_config"
  "MaxSpaceDelegates sample_asset_config = 5"
  "AssetEnsureOrigin sample_asset_config = map_option (\<lambda>a. (a, a))" "MaxAssetDistribution sample_asset_config = 4"
  by (simp_all add: sample_asset_config_def)

definition blank_assets :: asset_storage where
  "blank_assets = \<lparr>block_number = 4, extrinsic_index = Some 1, Identifiers = Map.empty,
     Spaces = Map.empty, Authorizations = Map.empty, Delegates = (\<lambda>_. []), space_events = [],
     Assets = Map.empty, VCAssets = Map.empty, Distribution = Map.empty, Issuance = Map.empty,
     VCIssuance = Map.empty, AssetLookup = Map.empty, asset_events = []\<rparr>"

definition sample_input :: asset_input_entry where
  "sample_input = \<lparr>asset_type = ART, asset_desc = [1], asset_qty = 10, asset_value = 3, asset_tag = [], asset_meta = []\<rparr>"

definition sample_asset :: ident where
  "sample_asset = unwrap_or [] (asset_identifier sample_asset_config [21] sample_space [2])"

definition sample_instance :: ident where
  "sample_instance = unwrap_or []
     (asset_instance_identifier sample_asset_config sample_asset [5] sample_space [2] [22])"

lemma asset_identifiers:
  "space_identifier sample_asset_config [7] [2] = Ok sample_space"
  "authorization_identifier sample_asset_config sample_space [2] [2] = Ok sample_authorization"
  "asset_identifier sample_asset_config [21] sample_space [2] = Ok sample_asset"
  "asset_instance_identifier sample_asset_config sample_asset [5] sample_space [2] [22] = Ok sample_instance"
  by code_simp+

definition asset_system_call ::
  "account option \<times> (SpaceCall + AssetCall) \<Rightarrow> asset_storage \<Rightarrow> (asset_storage, AssetError client_error) result" where
  "asset_system_call oc s = (case snd oc of
     Inl c \<Rightarrow> map_err (\<lambda>_. BadOrigin) (space_dispatch sample_asset_config (fst oc) c s)
   | Inr c \<Rightarrow> asset_dispatch sample_asset_config (fst oc) c s)"

definition asset_calls :: "(account option \<times> (SpaceCall + AssetCall)) list" where
  "asset_calls = [(Some [2], Inl (CreateSpace [7])), (None, Inl (ApproveSpace sample_space 20)),
     (Some [2], Inr (CreateAsset sample_input [21] sample_authorization)),
     (Some [2], Inr (IssueAsset \<lparr>issue_asset_id = sample_asset, issue_owner = [5], issue_qty = Some 4\<rparr> [22]
        sample_authorization))]"

definition asset_run :: asset_storage where
  "asset_run = unwrap_or blank_assets (run_all asset_system_call asset_calls blank_assets)"

lemmas asset_run_simps = asset_calls_def asset_system_call_def space_dispatch_defs blank_assets_def
  asset_create_def asset_issue_def authorize_def ensure_authorization_origin_def subject_of_def
  space_anchor_def space_deposit_event_def asset_deposit_event_def sample_input_def distribute_def
  asset_update_activity_def client_update_activity_def try_push_def space_insert_def timepoint_now_def asset_identifiers

lemma asset_run_Ok: "is_Ok (run_all asset_system_call asset_calls blank_assets)"
  by (simp add: asset_run_simps Let_def cong: and_then_weak_cong)

lemma asset_run_asset: "map_option (\<lambda>e. (asset_qty (asset_detail e), asset_issuance e)) (Assets asset_run sample_asset) = Some (10, 4)"
  by (simp add: asset_run_def asset_run_simps Let_def cong: and_then_weak_cong)

lemma asset_run_reachable: "reachable asset_genesis (asset_step sample_asset_config) asset_run"
  unfolding asset_run_def
proof (rule reachable_run_all [OF _ _ is_Ok_unwrap [OF asset_run_Ok]])
  show "reachable asset_genesis (asset_step sample_asset_config) blank_assets"
    by (rule reach_init) (simp add: asset_genesis_def space_genesis_def blank_assets_def)
qed (auto simp: asset_system_call_def split: sum.splits intro: asset_step.call asset_step.space)

theorem asset_never_over_issued_witness:
  "\<exists>e. Assets asset_run sample_asset = Some e \<and> asset_issuance e = 4 \<and> asset_qty (asset_detail e) = 10 \<and>
     (\<Sum>j \<in> {j. Issuance asset_run (sample_asset, j) \<noteq> None}.
        unat (asset_qty (instance_detail (the (Issuance asset_run (sample_asset, j)))))) \<le> unat (asset_issuance e)"
proof -
  obtain e where e: "Assets asset_run sample_asset = Some e" "asset_qty (asset_detail e) = 10" "asset_issuance e = 4"
    using asset_run_asset by auto
  from asset_never_over_issued [OF asset_run_reachable e(1)] e show ?thesis by (auto simp: word_less_nat_alt)
qed

text \<open>The largest quantity can be issued again and again: the sum saturates and stays within the quantity.\<close>

definition u64_MAX :: u64 where "u64_MAX = 18446744073709551615"

lemma u64_MAX_simps [simp]: "0 < u64_MAX" "- 1 \<le> u64_MAX" "saturating_add 0 u64_MAX = u64_MAX" "unat u64_MAX = 18446744073709551615"
  by (simp_all add: u64_MAX_def saturating_add_def word_le_nat_alt unsigned_minus_1_eq_mask mask_eq_exp_minus_1)

definition unlimited_input :: asset_input_entry where
  "unlimited_input = sample_input\<lparr>asset_qty := u64_MAX\<rparr>"

definition second_instance :: ident where
  "second_instance = unwrap_or []
     (asset_instance_identifier sample_asset_config sample_asset [6] sample_space [2] [23])"

lemma second_identifier:
  "asset_instance_identifier sample_asset_config sample_asset [6] sample_space [2] [23] = Ok second_instance"
  "sample_instance \<noteq> second_instance" "second_instance \<noteq> sample_instance" "sample_instance \<noteq> sample_asset"
  "second_instance \<noteq> sample_asset"
  by code_simp+

definition over_issue_calls :: "(account option \<times> (SpaceCall + AssetCall)) list" where
  "over_issue_calls = [(Some [2], Inl (CreateSpace [7])), (None, Inl (ApproveSpace sample_space 20)),
     (Some [2], Inr (CreateAsset unlimited_input [21] sample_authorization)),
     (Some [2], Inr (IssueAsset \<lparr>issue_asset_id = sample_asset, issue_owner = [5], issue_qty = Some u64_MAX\<rparr> [22] sample_authorization)),
     (Some [2], Inr (IssueAsset \<lparr>issue_asset_id = sample_asset, issue_owner = [6], issue_qty = Some u64_MAX\<rparr> [23] sample_authorization))]"

definition over_issue_run :: asset_storage where
  "over_issue_run = unwrap_or blank_assets (run_all asset_system_call over_issue_calls blank_assets)"

lemmas over_issue_simps = over_issue_calls_def unlimited_input_def second_identifier asset_run_simps

lemma over_issue_run_Ok: "is_Ok (run_all asset_system_call over_issue_calls blank_assets)"
  by (simp add: over_issue_simps Let_def cong: and_then_weak_cong)

lemma over_issue_run_views:
  "map_option (\<lambda>e. (asset_qty (asset_detail e), asset_issuance e)) (Assets over_issue_run sample_asset) = Some (u64_MAX, - 1)"
  "map_option (asset_qty \<circ> instance_detail) (Issuance over_issue_run (sample_asset, sample_instance)) = Some u64_MAX"
  "map_option (asset_qty \<circ> instance_detail) (Issuance over_issue_run (sample_asset, second_instance)) = Some u64_MAX"
  "{j. Issuance over_issue_run (sample_asset, j) \<noteq> None} = {sample_instance, second_instance}"
  by (auto simp add: over_issue_run_def over_issue_simps saturating_add_def Let_def cong: and_then_weak_cong)

theorem asset_over_issued_at_limit:
  "reachable asset_genesis (asset_step sample_asset_config) over_issue_run \<and>
   (\<exists>e. Assets over_issue_run sample_asset = Some e \<and>
     unat (asset_qty (asset_detail e)) < (\<Sum>j \<in> {j. Issuance over_issue_run (sample_asset, j) \<noteq> None}.
        unat (asset_qty (instance_detail (the (Issuance over_issue_run (sample_asset, j)))))))"
proof
  show "reachable asset_genesis (asset_step sample_asset_config) over_issue_run"
    unfolding over_issue_run_def
  proof (rule reachable_run_all [OF _ _ is_Ok_unwrap [OF over_issue_run_Ok]])
    show "reachable asset_genesis (asset_step sample_asset_config) blank_assets"
      by (rule reach_init) (simp add: asset_genesis_def space_genesis_def blank_assets_def)
  qed (auto simp: asset_system_call_def split: sum.splits intro: asset_step.call asset_step.space)
  show "\<exists>e. Assets over_issue_run sample_asset = Some e \<and>
     unat (asset_qty (asset_detail e)) < (\<Sum>j \<in> {j. Issuance over_issue_run (sample_asset, j) \<noteq> None}.
        unat (asset_qty (instance_detail (the (Issuance over_issue_run (sample_asset, j))))))"
    unfolding over_issue_run_views(4) using over_issue_run_views(1-3) second_identifier(2) by auto
qed

lemma asset_transfer_OkE:
  assumes "asset_transfer T origin e dg s = Ok s'"
  obtains sender asset inst where
    "AssetEnsureOrigin T origin = Some (transfer_owner e, sender)"
    "Assets s (transfer_asset_id e) = Some asset" "asset_status asset = ACTIVE"
    "Issuance s (transfer_asset_id e, transfer_instance_id e) = Some inst"
    "instance_owner inst = transfer_owner e" "instance_status inst = ACTIVE"
    "Assets s' = Assets s" "Spaces s' = Spaces s" "Authorizations s' = Authorizations s"
    "Distribution s' = Distribution s"
    "Issuance s' = (Issuance s)((transfer_asset_id e, transfer_instance_id e) \<mapsto>
         (the (Issuance s (transfer_asset_id e, transfer_instance_id e)))
           \<lparr>instance_owner := transfer_new_owner e, instance_created_at := block_number s\<rparr>)"
  using assms by (auto simp: asset_transfer_def Let_def asset_activity_frame intro: that)

lemma transfer_total:
  assumes "timelines_ok T s" "AssetEnsureOrigin T origin = Some (transfer_owner e, sender)"
    and "Assets s (transfer_asset_id e) = Some asset" "asset_status asset = ACTIVE"
    and "Issuance s (transfer_asset_id e, transfer_instance_id e) = Some inst"
    and "instance_owner inst = transfer_owner e" "instance_status inst = ACTIVE"
  shows "\<exists>s'. asset_transfer T origin e dg s = Ok s'"
proof -
  let ?u = "s\<lparr>Issuance := (Issuance s)((transfer_asset_id e, transfer_instance_id e) \<mapsto>
     inst\<lparr>instance_owner := transfer_new_owner e, instance_created_at := block_number s\<rparr>)\<rparr>"
  have "timelines_ok T ?u" using assms(1) by (simp add: timelines_ok_def timeline_def)
  from client_update_activity_ok [OF this] obtain m where
    "asset_update_activity T (transfer_instance_id e) CallTypeOf.Transfer ?u = Ok (?u\<lparr>Identifiers := m\<rparr>)"
    unfolding asset_update_activity_def by blast
  then show ?thesis using assms by (simp add: asset_transfer_def Let_def)
qed

text \<open>C14: an instance is transferred exactly when its owner calls, names himself as the owner, and both
  asset and instance are active; then only the owner and the time stamp of that instance change.\<close>

theorem transfer_exact:
  assumes "timelines_ok T s"
  shows "((\<exists>s'. asset_transfer T origin e dg s = Ok s') \<longleftrightarrow>
       (\<exists>sender asset inst. AssetEnsureOrigin T origin = Some (transfer_owner e, sender) \<and>
          Assets s (transfer_asset_id e) = Some asset \<and> asset_status asset = ACTIVE \<and>
          Issuance s (transfer_asset_id e, transfer_instance_id e) = Some inst \<and>
          instance_owner inst = transfer_owner e \<and> instance_status inst = ACTIVE)) \<and>
     (\<forall>s'. asset_transfer T origin e dg s = Ok s' \<longrightarrow>
       Assets s' = Assets s \<and> Spaces s' = Spaces s \<and>
       Issuance s' = (Issuance s)((transfer_asset_id e, transfer_instance_id e) \<mapsto>
         (the (Issuance s (transfer_asset_id e, transfer_instance_id e)))
           \<lparr>instance_owner := transfer_new_owner e, instance_created_at := block_number s\<rparr>))"
  using transfer_total [OF assms] by (blast elim: asset_transfer_OkE)

definition sample_transfer :: asset_transfer_entry where
  "sample_transfer = \<lparr>transfer_asset_id = sample_asset, transfer_instance_id = sample_instance,
     transfer_owner = [5], transfer_new_owner = [6]\<rparr>"

definition owned_assets :: asset_storage where
  "owned_assets = blank_assets\<lparr>
     Assets := [sample_asset \<mapsto> \<lparr>asset_detail = sample_input, asset_issuance = 4, asset_status = ACTIVE,
       asset_issuer = [2], asset_created_at = 1\<rparr>],
     Issuance := [(sample_asset, sample_instance) \<mapsto> \<lparr>instance_detail = sample_input\<lparr>asset_qty := 4\<rparr>,
       instance_parent = sample_asset, instance_status = ACTIVE, instance_issuer = [2],
       instance_owner = [5], instance_created_at = 1\<rparr>]\<rparr>"

theorem transfer_exact_witness:
  "\<exists>s'. asset_transfer sample_asset_config (Some [5]) sample_transfer [23] owned_assets = Ok s' \<and>
     map_option instance_owner (Issuance s' (sample_asset, sample_instance)) = Some [6] \<and>
     (\<nexists>s''. asset_transfer sample_asset_config (Some [2]) sample_transfer [23] owned_assets = Ok s'')"
proof -
  have ok: "timelines_ok sample_asset_config owned_assets"
    by (simp add: timelines_ok_def timeline_def owned_assets_def blank_assets_def)
  have "\<exists>s'. asset_transfer sample_asset_config (Some [5]) sample_transfer [23] owned_assets = Ok s'"
    "\<nexists>s''. asset_transfer sample_asset_config (Some [2]) sample_transfer [23] owned_assets = Ok s''"
    using transfer_exact [OF ok, of "Some [5]" sample_transfer "[23]"] transfer_exact [OF ok, of "Some [2]" sample_transfer "[23]"]
    by (simp_all add: owned_assets_def sample_transfer_def)
  moreover have "map_option instance_owner (Issuance s' (sample_asset, sample_instance)) = Some [6]"
    if "asset_transfer sample_asset_config (Some [5]) sample_transfer [23] owned_assets = Ok s'" for s'
    using that transfer_exact [OF ok, of "Some [5]" sample_transfer "[23]"] by (auto simp: sample_transfer_def)
  ultimately show ?thesis by blast
qed

text \<open>Nothing keeps an issuer from issuing an instance a second time: with the entry and the digest
  of the first call the identifier is the same, the record of the instance is overwritten, and an
  instance its owner has transferred belongs to the first owner again.\<close>

theorem reissue_resets_owner:
  assumes "asset_issue T origin e dg a s = Ok s1" "asset_transfer T origin' tr dg' s1 = Ok s2"
    and "transfer_asset_id tr = issue_asset_id e"
    and "transfer_instance_id tr = last (listed (Distribution s1) (issue_asset_id e))"
    and "asset_issue T origin e dg a s2 = Ok s3"
  shows "map_option instance_owner (Issuance s2 (issue_asset_id e, transfer_instance_id tr)) = Some (transfer_new_owner tr) \<and>
     map_option instance_owner (Issuance s3 (issue_asset_id e, transfer_instance_id tr)) = Some (issue_owner e)"
proof -
  from assms(1) obtain who sender sp au j where
    j: "AssetEnsureOrigin T origin = Some (who, sender)" "Authorizations s a = Some au" "auth_space_id au = sp"
      "asset_instance_identifier T (issue_asset_id e) (issue_owner e) sp who dg = Ok j"
      "transfer_instance_id tr = j" and A1: "Authorizations s1 = Authorizations s"
    using assms(4) by (auto elim!: asset_issue_OkE simp: authorized_def)
  have s2: "map_option instance_owner (Issuance s2 (issue_asset_id e, j)) = Some (transfer_new_owner tr)"
    "Authorizations s2 = Authorizations s1"
    using assms(2,3) j(5) by (auto elim!: asset_transfer_OkE)
  from assms(5) have "map_option instance_owner (Issuance s3 (issue_asset_id e, j)) = Some (issue_owner e)"
    using j s2(2) A1 by (auto elim!: asset_issue_OkE simp: authorized_def)
  with s2(1) j(5) show ?thesis by simp
qed

definition sample_issue :: asset_issuance_entry where
  "sample_issue = \<lparr>issue_asset_id = sample_asset, issue_owner = [5], issue_qty = Some 4\<rparr>"

definition asset_returned :: "asset_storage \<Rightarrow> (asset_storage, AssetError client_error) result" where
  "asset_returned s = asset_transfer sample_asset_config (Some [5]) sample_transfer [23] s"

definition asset_issued_again :: "asset_storage \<Rightarrow> (asset_storage, AssetError client_error) result" where
  "asset_issued_again s = asset_issue sample_asset_config (Some [2]) sample_issue [22] sample_authorization s"

lemma sample_asset_distinct [simp]:
  "sample_instance \<noteq> sample_asset" "sample_asset \<noteq> sample_instance"
  "sample_space \<noteq> sample_asset" "sample_asset \<noteq> sample_space"
  "sample_space \<noteq> sample_instance" "sample_instance \<noteq> sample_space"
  "sample_authorization \<noteq> sample_asset" "sample_asset \<noteq> sample_authorization"
  "sample_authorization \<noteq> sample_instance" "sample_instance \<noteq> sample_authorization"
  by code_simp+

lemmas reissue_simps = asset_run_simps asset_transfer_def sample_issue_def sample_transfer_def
  asset_returned_def asset_issued_again_def

lemma reissue_Ok:
  "is_Ok (and_then (run_all asset_system_call asset_calls blank_assets) (\<lambda>s. and_then (asset_returned s) asset_issued_again))"
  by (simp add: reissue_simps Let_def cong: and_then_weak_cong)

lemma reissue_listed: "listed (Distribution asset_run) sample_asset = [sample_instance]"
  by (simp add: asset_run_def asset_run_simps listed_def Let_def cong: and_then_weak_cong)

theorem reissue_resets_owner_witness:
  "\<exists>s2 s3. asset_returned asset_run = Ok s2 \<and> asset_issued_again s2 = Ok s3 \<and>
     map_option instance_owner (Issuance s2 (sample_asset, sample_instance)) = Some [6] \<and>
     map_option instance_owner (Issuance s3 (sample_asset, sample_instance)) = Some [5]"
proof -
  have run: "run_all asset_system_call asset_calls blank_assets = Ok asset_run"
    unfolding asset_run_def by (rule is_Ok_unwrap [OF asset_run_Ok])
  obtain s2 s3 where s: "asset_returned asset_run = Ok s2" "asset_issued_again s2 = Ok s3"
    using is_Ok_unwrap [OF reissue_Ok, of blank_assets] by (auto simp: run)
  from run obtain s where "asset_issue sample_asset_config (Some [2]) sample_issue [22] sample_authorization s = Ok asset_run"
    by (auto simp: asset_calls_def asset_system_call_def sample_issue_def)
  from reissue_resets_owner [OF this s(1) [unfolded asset_returned_def] _ _ s(2) [unfolded asset_issued_again_def]]
    reissue_listed s show ?thesis
    by (simp add: sample_issue_def sample_transfer_def)
qed

end
