(* ===== verification/Network_Score.thy ===== *)
theory Network_Score
  imports Space_Client
begin

text \<open>
  The network-score pallet (\<^verbatim>\<open>pallets/network-score/src\<close>): ratings of entities as a journal of credit
  and debit entries, with an aggregate per entity and rating type that every entry adds to or
  takes from. \<^verbatim>\<open>pallet_timestamp\<close> is outside the repository: its clock is a field of the storage.
\<close>

section \<open>Types\<close>

datatype RatingTypeOf = Overall | Delivery

datatype EntryTypeOf = Credit | Debit

fun is_valid_rating_type :: "RatingTypeOf \<Rightarrow> bool" where
  "is_valid_rating_type Overall = True"
| "is_valid_rating_type Delivery = True"

record rating_input_entry =
  entity_id :: bytes
  provider_id :: bytes
  count_of_txn :: u64
  total_encoded_rating :: u64
  rating_type :: RatingTypeOf
  provider_did :: account

record rating_entry =
  rating_input :: rating_input_entry
  rating_digest :: hash
  rating_message_id :: bytes
  rating_space :: ident
  rating_creator_id :: account
  rating_entry_type :: EntryTypeOf
  rating_reference_id :: "ident option"
  rating_created_at :: u64

record aggregated_entry =
  agg_count_of_txn :: u64
  agg_total_encoded_rating :: u64

datatype ScoreEvent =
    RatingEntryAdded ident bytes account account
  | RatingEntryRevoked ident bytes account account
  | RatingEntryRevised ident bytes account account
  | AggregateScoreUpdated bytes

datatype ScoreError =
    UnauthorizedOperation | InvalidIdentifierLength | InvalidDigest | InvalidSignature
  | InvalidRatingIdentifier | MessageIdAlreadyExists | InvalidRatingValue | TooManyJournalEntries
  | InvalidEntitySignature | DigestAlreadyAnchored | RatingIdentifierAlreadyAdded
  | InvalidRatingType | RatingIdentifierNotFound | ReferenceIdentifierNotFound
  | ReferenceNotDebitIdentifier | EntityMismatch | SpaceMismatch

record score_storage = chain_space +
  timestamp_now :: u64
  RatingEntries :: "ident \<Rightarrow> rating_entry option"
  AggregateScores :: "bytes \<times> RatingTypeOf \<Rightarrow> aggregated_entry option"
  MessageIdentifiers :: "bytes \<times> account \<Rightarrow> ident option"
  score_events :: "ScoreEvent list"

record 'o score_config = "'o space_config" +
  ScoreEnsureOrigin :: "'o \<Rightarrow> (account \<times> account) option"
  ScoreMaxEncodedValueLength :: u32
  MaxRatingValue :: u32

type_synonym 'm score_result = "('m score_storage_scheme, ScoreError client_error) result"

section \<open>Internal functions\<close>

definition score_deposit_event :: "ScoreEvent \<Rightarrow> 'm score_storage_scheme \<Rightarrow> 'm score_storage_scheme" where
  "score_deposit_event e s = s\<lparr>score_events := score_events s @ [e]\<rparr>"

definition score_update_activity ::
  "'c identifier_config_scheme \<Rightarrow> ident \<Rightarrow> CallTypeOf \<Rightarrow> 'm identifier_storage_scheme
   \<Rightarrow> ('m identifier_storage_scheme, ScoreError) result" where
  "score_update_activity T = client_update_activity IdentifierTypeOf.Rating T"

definition get_current_time :: "'m score_storage_scheme \<Rightarrow> u64" where
  "get_current_time s = timestamp_now s"

text \<open>One field of an aggregate after an entry.\<close>

fun post :: "EntryTypeOf \<Rightarrow> u64 \<Rightarrow> u64 \<Rightarrow> u64" where
  "post EntryTypeOf.Credit old amount = saturating_add old amount"
| "post EntryTypeOf.Debit old amount = saturating_sub old amount"

definition aggregate_score ::
  "rating_input_entry \<Rightarrow> EntryTypeOf \<Rightarrow> 'm score_storage_scheme \<Rightarrow> 'm score_storage_scheme" where
  "aggregate_score entry rtype s =
     (let key = (entity_id entry, rating_type entry);
          new = (case AggregateScores s key of
             Some aggregate \<Rightarrow>
               \<lparr>agg_count_of_txn = post rtype (agg_count_of_txn aggregate) (count_of_txn entry),
                agg_total_encoded_rating =
                  post rtype (agg_total_encoded_rating aggregate) (total_encoded_rating entry)\<rparr>
           | None \<Rightarrow>
               \<lparr>agg_count_of_txn = count_of_txn entry, agg_total_encoded_rating = total_encoded_rating entry\<rparr>)
      in score_deposit_event (AggregateScoreUpdated (entity_id entry))
           (s\<lparr>AggregateScores := (AggregateScores s)(key \<mapsto> new)\<rparr>))"

text \<open>The value check of \<open>register_rating\<close> and \<open>revise_rating\<close>; the product is computed last.\<close>

definition rating_value_ok ::
  "('o, 'c) score_config_scheme \<Rightarrow> rating_input_entry \<Rightarrow> (bool, ScoreError) result" where
  "rating_value_ok T entry =
     (if 0 < total_encoded_rating entry \<and> 0 < count_of_txn entry
      then and_then (plain_mul (overflow_checks T) (count_of_txn entry) (ucast (MaxRatingValue T))) (\<lambda>m.
           Ok (total_encoded_rating entry \<le> m))
      else Ok False)"

definition rating_identifier ::
  "'c frame_config_scheme \<Rightarrow> hash \<Rightarrow> bytes \<Rightarrow> bytes \<Rightarrow> ident \<Rightarrow> account \<Rightarrow> (ident, ScoreError) result" where
  "rating_identifier T digest entity message space_id provider =
     map_err (\<lambda>_. ScoreError.InvalidIdentifierLength)
       (create_identifier T
         (encode_hash T (hashing T (encode_hash T digest @ encode_vec T entity @ encode_vec T message @
            encode_ident T space_id @ encode_account T provider)))
         IdentifierType.Rating)"

text \<open>The two authors of a call, \<^verbatim>\<open>subject()\<close> and \<^verbatim>\<open>sender()\<close>.\<close>

definition tx_authors :: "(account \<times> account) option \<Rightarrow> (account \<times> account, 'e dispatch_error) result" where
  "tx_authors success = map_err (\<lambda>_. BadOrigin) (ok_or success ())"

section \<open>Extrinsics\<close>

definition register_rating ::
  "('o, 'c) score_config_scheme \<Rightarrow> 'o \<Rightarrow> rating_input_entry \<Rightarrow> hash \<Rightarrow> bytes \<Rightarrow> ident
   \<Rightarrow> 'm score_storage_scheme \<Rightarrow> 'm score_result" where
  "register_rating T origin entry digest message_id authorization s =
     and_then (tx_authors (ScoreEnsureOrigin T origin)) (\<lambda>(provider, creator).
     and_then (in_space (ensure_authorization_origin authorization provider s)) (\<lambda>(space_id, s1).
     and_then (in_pallet (rating_value_ok T entry)) (\<lambda>ok.
     and_then (in_pallet (ensure ok ScoreError.InvalidRatingValue)) (\<lambda>_.
     and_then (in_pallet (ensure (is_valid_rating_type (rating_type entry)) ScoreError.InvalidRatingType)) (\<lambda>_.
     and_then (in_pallet (ensure (MessageIdentifiers s1 (message_id, provider) = None)
                 ScoreError.MessageIdAlreadyExists)) (\<lambda>_.
     and_then (in_pallet (rating_identifier T digest (entity_id entry) message_id space_id (provider_did entry))) (\<lambda>identifier.
     and_then (in_pallet (ensure (RatingEntries s1 identifier = None)
                 ScoreError.RatingIdentifierAlreadyAdded)) (\<lambda>_.
     let s2 = aggregate_score entry EntryTypeOf.Credit s1;
         s3 = s2\<lparr>RatingEntries := (RatingEntries s2)(identifier \<mapsto>
                  \<lparr>rating_input = entry, rating_digest = digest, rating_message_id = message_id,
                   rating_space = space_id, rating_creator_id = creator, rating_entry_type = EntryTypeOf.Credit,
                   rating_reference_id = None, rating_created_at = get_current_time s2\<rparr>),
                 MessageIdentifiers := (MessageIdentifiers s2)((message_id, provider_did entry) \<mapsto> identifier)\<rparr>
     in and_then (in_pallet (score_update_activity T identifier CallTypeOf.Genesis s3)) (\<lambda>s4.
        Ok (score_deposit_event (RatingEntryAdded identifier (entity_id entry) (provider_did entry) creator) s4))))))))))"

definition revoke_rating ::
  "('o, 'c) score_config_scheme \<Rightarrow> 'o \<Rightarrow> ident \<Rightarrow> bytes \<Rightarrow> hash \<Rightarrow> ident
   \<Rightarrow> 'm score_storage_scheme \<Rightarrow> 'm score_result" where
  "revoke_rating T origin entry_identifier message_id digest authorization s =
     and_then (tx_authors (ScoreEnsureOrigin T origin)) (\<lambda>(provider, creator).
     and_then (in_space (ensure_authorization_origin authorization provider s)) (\<lambda>(space_id, s1).
     and_then (in_pallet (ok_or (RatingEntries s1 entry_identifier) ScoreError.RatingIdentifierNotFound)) (\<lambda>rating_details.
     and_then (in_pallet (ensure (rating_space rating_details = space_id) ScoreError.UnauthorizedOperation)) (\<lambda>_.
     and_then (in_pallet (ensure (MessageIdentifiers s1 (message_id, provider) = None)
                 ScoreError.MessageIdAlreadyExists)) (\<lambda>_.
     let entry = rating_input rating_details
     in and_then (in_pallet (rating_identifier T digest (entity_id entry) message_id space_id (provider_did entry))) (\<lambda>identifier.
        and_then (in_pallet (ensure (RatingEntries s1 identifier = None)
                    ScoreError.RatingIdentifierAlreadyAdded)) (\<lambda>_.
        let s2 = aggregate_score entry EntryTypeOf.Debit s1;
            s3 = s2\<lparr>RatingEntries := (RatingEntries s2)(identifier \<mapsto>
                     rating_details\<lparr>rating_creator_id := creator, rating_entry_type := EntryTypeOf.Debit,
                       rating_reference_id := Some entry_identifier, rating_created_at := get_current_time s2\<rparr>),
                    MessageIdentifiers := (MessageIdentifiers s2)((message_id, provider_did entry) \<mapsto> identifier)\<rparr>
        in and_then (in_pallet (score_update_activity T identifier CallTypeOf.Genesis s3)) (\<lambda>s4.
           and_then (in_pallet (score_update_activity T entry_identifier CallTypeOf.Debit s4)) (\<lambda>s5.
           Ok (score_deposit_event (RatingEntryRevoked identifier (entity_id entry) (provider_did entry) creator) s5))))))))))"

definition revise_rating ::
  "('o, 'c) score_config_scheme \<Rightarrow> 'o \<Rightarrow> rating_input_entry \<Rightarrow> hash \<Rightarrow> bytes \<Rightarrow> ident \<Rightarrow> ident
   \<Rightarrow> 'm score_storage_scheme \<Rightarrow> 'm score_result" where
  "revise_rating T origin entry digest message_id debit_ref_id authorization s =
     and_then (tx_authors (ScoreEnsureOrigin T origin)) (\<lambda>(provider, creator).
     and_then (in_space (ensure_authorization_origin authorization provider s)) (\<lambda>(space_id, s1).
     and_then (in_pallet (rating_value_ok T entry)) (\<lambda>ok.
     and_then (in_pallet (ensure ok ScoreError.InvalidRatingValue)) (\<lambda>_.
     and_then (in_pallet (ensure (is_valid_rating_type (rating_type entry)) ScoreError.InvalidRatingType)) (\<lambda>_.
     and_then (in_pallet (ok_or (RatingEntries s1 debit_ref_id) ScoreError.ReferenceIdentifierNotFound)) (\<lambda>rating_details.
     and_then (in_pallet (ensure (entity_id entry = entity_id (rating_input rating_details))
                 ScoreError.EntityMismatch)) (\<lambda>_.
     and_then (in_pallet (ensure (space_id = rating_space rating_details) ScoreError.SpaceMismatch)) (\<lambda>_.
     and_then (in_pallet (ensure (EntryTypeOf.Debit = rating_entry_type rating_details)
                 ScoreError.ReferenceNotDebitIdentifier)) (\<lambda>_.
     and_then (in_pallet (ensure (MessageIdentifiers s1 (message_id, provider) = None)
                 ScoreError.MessageIdAlreadyExists)) (\<lambda>_.
     and_then (in_pallet (rating_identifier T digest (entity_id entry) message_id space_id (provider_did entry))) (\<lambda>identifier.
     and_then (in_pallet (ensure (RatingEntries s1 identifier = None)
                 ScoreError.RatingIdentifierAlreadyAdded)) (\<lambda>_.
     let s2 = aggregate_score entry EntryTypeOf.Credit s1;
         reference = rating_reference_id rating_details;
         s3 = s2\<lparr>RatingEntries := (RatingEntries s2)(identifier \<mapsto>
                  \<lparr>rating_input = entry, rating_digest = digest, rating_message_id = message_id,
                   rating_space = space_id, rating_creator_id = creator, rating_entry_type = EntryTypeOf.Credit,
                   rating_reference_id = reference, rating_created_at = get_current_time s2\<rparr>),
                 MessageIdentifiers := (MessageIdentifiers s2)((message_id, provider_did entry) \<mapsto> identifier)\<rparr>
     in and_then (in_pallet (score_update_activity T identifier CallTypeOf.Genesis s3)) (\<lambda>s4.
        and_then (case reference of
            Some reference_id \<Rightarrow> in_pallet (score_update_activity T reference_id CallTypeOf.Credit s4)
          | None \<Rightarrow> Ok s4) (\<lambda>s5.
        Ok (score_deposit_event (RatingEntryRevised identifier (entity_id (rating_input rating_details))
              (provider_did entry) creator) s5)))))))))))))))"

section \<open>Calls and steps\<close>

datatype ScoreCall =
    RegisterRating rating_input_entry hash bytes ident
  | RevokeRating ident bytes hash ident
  | ReviseRating rating_input_entry hash bytes ident ident

fun score_dispatch ::
  "('o, 'c) score_config_scheme \<Rightarrow> 'o \<Rightarrow> ScoreCall \<Rightarrow> 'm score_storage_scheme \<Rightarrow> 'm score_result" where
  "score_dispatch T origin (RegisterRating e d m a) s = register_rating T origin e d m a s"
| "score_dispatch T origin (RevokeRating i m d a) s = revoke_rating T origin i m d a s"
| "score_dispatch T origin (ReviseRating e d m r a) s = revise_rating T origin e d m r a s"

inductive score_step ::
  "('o, 'c) score_config_scheme \<Rightarrow> 'm score_storage_scheme \<Rightarrow> 'm score_storage_scheme \<Rightarrow> bool" for T where
  call: "score_dispatch T origin c s = Ok s' \<Longrightarrow> score_step T s s'"
| space: "space_dispatch T origin c s = Ok s' \<Longrightarrow> score_step T s s'"
| tick: "score_step T s (s\<lparr>block_number := n, extrinsic_index := x, timestamp_now := m\<rparr>)"

definition score_genesis :: "'m score_storage_scheme \<Rightarrow> bool" where
  "score_genesis s \<longleftrightarrow> space_genesis s \<and> RatingEntries s = Map.empty \<and> AggregateScores s = Map.empty \<and>
     MessageIdentifiers s = Map.empty"

end
