(* ===== verification/Network_Score_Properties.thy ===== *)
theory Network_Score_Properties
  imports Network_Score Chain_Space_Properties
begin

text \<open>
  The journal of ratings as a ledger: what every call writes, the invariant that ties the aggregates
  to the credit and debit entries, and the properties of the pallet.
\<close>

section \<open>Frames\<close>

lemma score_frame_count [simp]:
  "RatingEntries (count_up_at sp s) = RatingEntries s" "AggregateScores (count_up_at sp s) = AggregateScores s"
  "MessageIdentifiers (count_up_at sp s) = MessageIdentifiers s"
  by (simp_all add: count_up_at_def space_insert_def)

lemma score_deposit_frame [simp]:
  "RatingEntries (score_deposit_event e s) = RatingEntries s"
  "AggregateScores (score_deposit_event e s) = AggregateScores s"
  "MessageIdentifiers (score_deposit_event e s) = MessageIdentifiers s"
  by (simp_all add: score_deposit_event_def)

lemma score_activity_frame:
  assumes "score_update_activity T i a s = Ok s'"
  shows "RatingEntries s' = RatingEntries s" "AggregateScores s' = AggregateScores s"
    and "MessageIdentifiers s' = MessageIdentifiers s"
  using client_update_activity_frame [OF assms [unfolded score_update_activity_def]] by auto

lemma aggregate_frame [simp]:
  "RatingEntries (aggregate_score e rty s) = RatingEntries s"
  "MessageIdentifiers (aggregate_score e rty s) = MessageIdentifiers s"
  by (simp_all add: aggregate_score_def Let_def)

lemma tx_authors_Ok_iff [simp]: "tx_authors success = Ok p \<longleftrightarrow> success = Some p"
  by (simp add: tx_authors_def)

section \<open>What a call posts\<close>

definition rating_key :: "rating_input_entry \<Rightarrow> bytes \<times> RatingTypeOf" where
  "rating_key e = (entity_id e, rating_type e)"

definition posted_score ::
  "(bytes \<times> RatingTypeOf \<Rightarrow> aggregated_entry option) \<Rightarrow> rating_input_entry \<Rightarrow> EntryTypeOf \<Rightarrow> aggregated_entry" where
  "posted_score A e rty = (case A (rating_key e) of
     Some g \<Rightarrow> \<lparr>agg_count_of_txn = post rty (agg_count_of_txn g) (count_of_txn e),
               agg_total_encoded_rating = post rty (agg_total_encoded_rating g) (total_encoded_rating e)\<rparr>
   | None \<Rightarrow> \<lparr>agg_count_of_txn = count_of_txn e, agg_total_encoded_rating = total_encoded_rating e\<rparr>)"

lemma AggregateScores_aggregate:
  "AggregateScores (aggregate_score e rty s) =
     (AggregateScores s)(rating_key e \<mapsto> posted_score (AggregateScores s) e rty)"
  by (simp add: aggregate_score_def posted_score_def rating_key_def Let_def)

text \<open>
  A call adds one entry under a fresh identifier and posts it to its aggregate. A credit has passed
  the value check; a debit repeats an entry that is stored.
\<close>

definition posts ::
  "('o, 'c) score_config_scheme \<Rightarrow> ident \<Rightarrow> rating_entry \<Rightarrow> 'm score_storage_scheme \<Rightarrow> 'm score_storage_scheme \<Rightarrow> bool" where
  "posts T i d s s' \<longleftrightarrow>
     RatingEntries s i = None \<and> RatingEntries s' = (RatingEntries s)(i \<mapsto> d) \<and>
     AggregateScores s' = (AggregateScores s)(rating_key (rating_input d) \<mapsto>
       posted_score (AggregateScores s) (rating_input d) (rating_entry_type d)) \<and>
     (rating_entry_type d = EntryTypeOf.Credit \<and> rating_value_ok T (rating_input d) = Ok True \<or>
      rating_entry_type d = EntryTypeOf.Debit \<and>
        (\<exists>j d0. RatingEntries s j = Some d0 \<and> rating_input d0 = rating_input d))"

lemma timestamp_frame [simp]:
  "get_current_time (aggregate_score e rty s) = timestamp_now s" "timestamp_now (count_up_at sp s) = timestamp_now s"
  by (simp_all add: get_current_time_def aggregate_score_def score_deposit_event_def count_up_at_def
      space_insert_def Let_def)

lemmas score_call_simps = ensure_authorization_Ok_iff Let_def score_activity_frame posts_def AggregateScores_aggregate

lemma register_rating_OkE:
  assumes "register_rating T origin e dg m a s = Ok s'"
  obtains provider creator sp i where
    "ScoreEnsureOrigin T origin = Some (provider, creator)" "authorized ASSERT active a provider s sp"
    "MessageIdentifiers s (m, provider) = None"
    "rating_identifier T dg (entity_id e) m sp (provider_did e) = Ok i"
    "MessageIdentifiers s' = (MessageIdentifiers s)((m, provider_did e) \<mapsto> i)"
    "posts T i \<lparr>rating_input = e, rating_digest = dg, rating_message_id = m, rating_space = sp,
       rating_creator_id = creator, rating_entry_type = EntryTypeOf.Credit, rating_reference_id = None,
       rating_created_at = timestamp_now s\<rparr> s s'"
  using assms
  by (clarsimp simp: register_rating_def score_call_simps)

lemma revoke_rating_OkE:
  assumes "revoke_rating T origin j m dg a s = Ok s'"
  obtains provider creator sp i d0 where
    "ScoreEnsureOrigin T origin = Some (provider, creator)" "authorized ASSERT active a provider s sp"
    "RatingEntries s j = Some d0" "rating_space d0 = sp"
    "posts T i (d0\<lparr>rating_creator_id := creator, rating_entry_type := EntryTypeOf.Debit,
       rating_reference_id := Some j, rating_created_at := timestamp_now s\<rparr>) s s'"
  using assms
  by (clarsimp simp: revoke_rating_def score_call_simps)
    (rule that, (assumption | rule refl | simp add: score_call_simps | blast)+)

lemma optional_activity_frame:
  assumes "(case r of Some i \<Rightarrow> in_pallet (score_update_activity T i a s) | None \<Rightarrow> Ok s) = Ok s'"
  shows "RatingEntries s' = RatingEntries s \<and> AggregateScores s' = AggregateScores s"
  using assms by (auto simp: score_activity_frame split: option.splits)

lemma revise_rating_OkE:
  assumes "revise_rating T origin e dg m j a s = Ok s'"
  obtains provider creator sp i d0 where
    "ScoreEnsureOrigin T origin = Some (provider, creator)" "authorized ASSERT active a provider s sp"
    "RatingEntries s j = Some d0" "rating_space d0 = sp" "rating_entry_type d0 = EntryTypeOf.Debit"
    "entity_id (rating_input d0) = entity_id e"
    "posts T i \<lparr>rating_input = e, rating_digest = dg, rating_message_id = m, rating_space = sp,
       rating_creator_id = creator, rating_entry_type = EntryTypeOf.Credit,
       rating_reference_id = rating_reference_id d0, rating_created_at = timestamp_now s\<rparr> s s'"
  using assms
  by (clarsimp simp: revise_rating_def score_call_simps dest!: optional_activity_frame)

lemma score_dispatch_posts:
  assumes "score_dispatch T origin c s = Ok s'"
  shows "\<exists>i d. posts T i d s s'"
proof (cases c)
  case (RegisterRating e dg m a)
  with assms show ?thesis by (auto elim!: register_rating_OkE)
next
  case (RevokeRating j m dg a)
  with assms show ?thesis by (auto elim!: revoke_rating_OkE)
next
  case (ReviseRating e dg m j a)
  with assms show ?thesis by (auto elim!: revise_rating_OkE)
qed

section \<open>The ledger\<close>

text \<open>The sum of one field over the entries of one type under one key.\<close>

definition booked ::
  "(rating_input_entry \<Rightarrow> u64) \<Rightarrow> EntryTypeOf \<Rightarrow> (ident \<Rightarrow> rating_entry option) \<Rightarrow> bytes \<times> RatingTypeOf \<Rightarrow> nat" where
  "booked f rty R k =
     (\<Sum>i \<in> dom R. if rating_entry_type (the (R i)) = rty \<and> rating_key (rating_input (the (R i))) = k
        then unat (f (rating_input (the (R i)))) else 0)"

lemma booked_update:
  assumes "finite (dom R)" "R i = None"
  shows "booked f rty (R(i \<mapsto> d)) k =
     booked f rty R k + (if rating_entry_type d = rty \<and> rating_key (rating_input d) = k then unat (f (rating_input d)) else 0)"
proof -
  have "i \<notin> dom R" using assms(2) by auto
  then show ?thesis using assms(1) by (auto simp: booked_def intro!: sum.cong)
qed

lemma booked_none:
  "\<forall>i d. R i = Some d \<longrightarrow> rating_key (rating_input d) \<noteq> k \<Longrightarrow> booked f rty R k = 0"
  unfolding booked_def by (rule sum.neutral) (fastforce split: if_splits)

text \<open>
  What an aggregate can be off by: nothing above the credits, cut off at the largest 64-bit number, where the addition
  saturates, and below that at most by the debits.
\<close>

definition within_ledger ::
  "(rating_input_entry \<Rightarrow> u64) \<Rightarrow> (ident \<Rightarrow> rating_entry option) \<Rightarrow> bytes \<times> RatingTypeOf \<Rightarrow> u64 \<Rightarrow> bool" where
  "within_ledger f R k v \<longleftrightarrow>
     unat v \<le> booked f EntryTypeOf.Credit R k \<and>
     min (booked f EntryTypeOf.Credit R k) (2 ^ 64 - 1) \<le> unat v + booked f EntryTypeOf.Debit R k"

lemma within_ledger_post:
  assumes "finite (dom R)" "R i = None" "within_ledger f R (rating_key (rating_input d)) v"
  shows "within_ledger f (R(i \<mapsto> d)) (rating_key (rating_input d)) (post (rating_entry_type d) v (f (rating_input d)))"
  using assms
  by (cases "rating_entry_type d")
    (auto simp: within_ledger_def booked_update unat_saturating_add unat_saturating_sub)

lemma within_ledger_first:
  assumes "finite (dom R)" "R i = None" "booked f EntryTypeOf.Credit R (rating_key (rating_input d)) = 0"
    and "rating_entry_type d = EntryTypeOf.Credit"
  shows "within_ledger f (R(i \<mapsto> d)) (rating_key (rating_input d)) (f (rating_input d))"
  using assms by (simp add: within_ledger_def booked_update)

lemma within_ledger_other:
  assumes "finite (dom R)" "R i = None" "rating_key (rating_input d) \<noteq> k"
  shows "within_ledger f (R(i \<mapsto> d)) k v = within_ledger f R k v"
  using assms by (simp add: within_ledger_def booked_update)

definition rating_bounded :: "('o, 'c) score_config_scheme \<Rightarrow> rating_input_entry \<Rightarrow> bool" where
  "rating_bounded T e \<longleftrightarrow> 0 < total_encoded_rating e \<and>
     (overflow_checks T \<longrightarrow> unat (total_encoded_rating e) \<le> unat (count_of_txn e) * unat (MaxRatingValue T))"

lemma rating_value_ok_bounded:
  assumes "rating_value_ok T e = Ok True"
  shows "rating_bounded T e"
proof -
  have m: "unat (ucast (MaxRatingValue T) :: u64) = unat (MaxRatingValue T)"
    by (simp add: unsigned_ucast_eq unsigned_take_bit_eq take_bit_nat_eq_self order.strict_trans [OF unat_bound])
  have "unat (count_of_txn e * ucast (MaxRatingValue T)) = unat (count_of_txn e) * unat (MaxRatingValue T)"
    if "unat (count_of_txn e) * unat (ucast (MaxRatingValue T) :: u64) < 2 ^ 64"
    using that by (simp add: unat_word_ariths m)
  with assms show ?thesis
    by (auto simp: rating_value_ok_def rating_bounded_def plain_mul_Ok_iff word_le_nat_alt split: if_splits)
qed

definition score_wf :: "('o, 'c) score_config_scheme \<Rightarrow> 'm score_storage_scheme \<Rightarrow> bool" where
  "score_wf T s \<longleftrightarrow> finite (dom (RatingEntries s)) \<and>
     (\<forall>i d. RatingEntries s i = Some d \<longrightarrow>
        AggregateScores s (rating_key (rating_input d)) \<noteq> None \<and> rating_bounded T (rating_input d)) \<and>
     (\<forall>k g. AggregateScores s k = Some g \<longrightarrow>
        within_ledger count_of_txn (RatingEntries s) k (agg_count_of_txn g) \<and>
        within_ledger total_encoded_rating (RatingEntries s) k (agg_total_encoded_rating g))"

lemma score_wf_aggregate:
  "score_wf T s \<Longrightarrow> AggregateScores s k = Some g \<Longrightarrow>
   within_ledger count_of_txn (RatingEntries s) k (agg_count_of_txn g) \<and>
   within_ledger total_encoded_rating (RatingEntries s) k (agg_total_encoded_rating g)"
  unfolding score_wf_def by blast

lemma score_wf_posts:
  assumes "posts T i d s s'" "score_wf T s"
  shows "score_wf T s'"
proof -
  let ?R = "RatingEntries s" and ?k = "rating_key (rating_input d)"
  have fresh: "?R i = None" and fin: "finite (dom ?R)"
    using assms by (simp_all add: posts_def score_wf_def)
  have bound: "rating_bounded T (rating_input d)"
    using assms by (auto simp: posts_def score_wf_def dest: rating_value_ok_bounded) metis
  let ?g = "posted_score (AggregateScores s) (rating_input d) (rating_entry_type d)"
  have new: "within_ledger count_of_txn (?R(i \<mapsto> d)) ?k (agg_count_of_txn ?g) \<and>
     within_ledger total_encoded_rating (?R(i \<mapsto> d)) ?k (agg_total_encoded_rating ?g)"
  proof (cases "AggregateScores s ?k")
    case None
    then have none: "\<forall>j d0. ?R j = Some d0 \<longrightarrow> rating_key (rating_input d0) \<noteq> ?k"
      using assms(2) None unfolding score_wf_def by metis
    then have "rating_entry_type d = EntryTypeOf.Credit"
      using assms(1) unfolding posts_def by metis
    with None booked_none [OF none] show ?thesis
      by (simp add: posted_score_def within_ledger_first [OF fin fresh])
  next
    case (Some g)
    with score_wf_aggregate [OF assms(2) this] show ?thesis
      by (simp add: posted_score_def within_ledger_post [OF fin fresh])
  qed
  show ?thesis
    using assms new bound
    by (auto simp: posts_def score_wf_def within_ledger_other [OF fin fresh])
qed

lemma score_wf_more: "chain_space.more s' = chain_space.more s \<Longrightarrow> score_wf T s' = score_wf T s"
  by (cases s; cases s') (simp add: score_wf_def)

interpretation score_inv: invariant_system score_genesis "score_step T" "score_wf T" for T
proof (unfold_locales, goal_cases)
  case (1 s)
  then show ?case by (simp add: score_genesis_def score_wf_def)
next
  case (2 s t)
  from this(2) show ?case
  proof cases
    case (call origin c)
    then show ?thesis using 2(1) by (auto dest!: score_dispatch_posts intro: score_wf_posts)
  next
    case (space origin c)
    from score_wf_more [OF space_dispatch_more [OF this], of T] 2(1) show ?thesis by simp
  next
    case (tick n x m)
    with 2(1) show ?thesis by (simp add: score_wf_def)
  qed
qed

section \<open>Properties\<close>

text \<open>C15: in every reachable storage, the aggregate of an entity lies between what its credit entries add
  up to, cut off at the largest 64-bit number, less its debit entries, and what its credit entries add up to, cut off
  in the same way, for the count and for the rating; without debits it is exactly their sum, cut off.
  \<open>score_credits_lost\<close> shows a reachable aggregate below the sum of its credits.\<close>

theorem score_within_ledger:
  assumes "reachable score_genesis (score_step T) s" "AggregateScores s k = Some g"
  shows "unat (agg_count_of_txn g) \<in>
      {min (booked count_of_txn EntryTypeOf.Credit (RatingEntries s) k) (2 ^ 64 - 1) -
       booked count_of_txn EntryTypeOf.Debit (RatingEntries s) k ..
       min (booked count_of_txn EntryTypeOf.Credit (RatingEntries s) k) (2 ^ 64 - 1)} \<and>
    unat (agg_total_encoded_rating g) \<in>
      {min (booked total_encoded_rating EntryTypeOf.Credit (RatingEntries s) k) (2 ^ 64 - 1) -
       booked total_encoded_rating EntryTypeOf.Debit (RatingEntries s) k ..
       min (booked total_encoded_rating EntryTypeOf.Credit (RatingEntries s) k) (2 ^ 64 - 1)}"
proof -
  have "unat v \<le> 2 ^ 64 - 1" for v :: u64 using unat_bound [of v] by simp
  then show ?thesis
    using score_wf_aggregate [OF score_inv.inv_reachable [OF assms(1)] assms(2)] by (simp add: within_ledger_def le_diff_conv)
qed

definition sample_score_config :: "account option score_config" where
  "sample_score_config = \<lparr>overflow_checks = True, hashing = sample_hash, encode_hash = id,
     encode_account = id, encode_ident = id, encode_vec = id, blake2b_64 = sample_hash,
     bs58_encode = halves, bs58_decode = unhalves, MaxEventsHistory = 6,
     EnsureOrigin = map_option (\<lambda>a. (a, a)), ChainSpaceOrigin = (\<lambda>o'. o' = None),
     is_permissioned = True, MaxSpaceDelegates = 5,
     ScoreEnsureOrigin = map_option (\<lambda>a. (a, a)), ScoreMaxEncodedValueLength = 20, MaxRatingValue = 50\<rparr>"

lemma sample_score_config_simps [simp]:
  "overflow_checks sample_score_config" "MaxEventsHistory sample_score_config = 6"
  "EnsureOrigin sample_score_config = map_option (\<lambda>a. (a, a))"
  "ChainSpaceOrigin sample_score_config o' \<longleftrightarrow> o' = None" "is_permissioned sample_score_config"
  "MaxSpaceDelegates sample_score_config = 5"
  "ScoreEnsureOrigin sample_score_config = map_option (\<lambda>a. (a, a))" "MaxRatingValue sample_score_config = 50"
  by (simp_all add: sample_score_config_def)

definition blank_scores :: score_storage where
  "blank_scores = \<lparr>block_number = 4, extrinsic_index = Some 1, Identifiers = Map.empty,
     Spaces = Map.empty, Authorizations = Map.empty, Delegates = (\<lambda>_. []), space_events = [],
     timestamp_now = 100, RatingEntries = Map.empty, AggregateScores = Map.empty,
     MessageIdentifiers = Map.empty, score_events = []\<rparr>"

definition rating_a :: rating_input_entry where
  "rating_a = \<lparr>entity_id = [8], provider_id = [9], count_of_txn = 2, total_encoded_rating = 60,
     rating_type = Overall, provider_did = [2]\<rparr>"

definition rating_b :: rating_input_entry where
  "rating_b = \<lparr>entity_id = [8], provider_id = [9], count_of_txn = 1, total_encoded_rating = 40,
     rating_type = Overall, provider_did = [3]\<rparr>"

definition rating_id :: "rating_input_entry \<Rightarrow> hash \<Rightarrow> bytes \<Rightarrow> ident" where
  "rating_id e dg m = unwrap_or [] (rating_identifier sample_score_config dg (entity_id e) m sample_space (provider_did e))"

definition score_id_a :: ident where
  "score_id_a = rating_id rating_a [31] [41]"

definition score_id_b :: ident where
  "score_id_b = rating_id rating_b [32] [42]"

definition score_id_c :: ident where
  "score_id_c = rating_id rating_a [33] [43]"

definition score_id_d :: ident where
  "score_id_d = rating_id rating_a [34] [44]"

lemma score_identifiers:
  "space_identifier sample_score_config [7] [2] = Ok sample_space"
  "authorization_identifier sample_score_config sample_space [2] [2] = Ok sample_authorization"
  "rating_identifier sample_score_config [31] [8] [41] sample_space [2] = Ok score_id_a"
  "rating_identifier sample_score_config [32] [8] [42] sample_space [3] = Ok score_id_b"
  "rating_identifier sample_score_config [33] [8] [43] sample_space [2] = Ok score_id_c"
  "rating_identifier sample_score_config [34] [8] [44] sample_space [2] = Ok score_id_d"
  by code_simp+

lemma score_ids_distinct:
  "score_id_a \<noteq> score_id_b" "score_id_a \<noteq> score_id_c" "score_id_a \<noteq> score_id_d"
  "score_id_b \<noteq> score_id_c" "score_id_b \<noteq> score_id_d" "score_id_c \<noteq> score_id_d"
  by code_simp+

definition score_system_call ::
  "account option \<times> (SpaceCall + ScoreCall) \<Rightarrow> score_storage \<Rightarrow> (score_storage, ScoreError client_error) result" where
  "score_system_call oc s = (case snd oc of
     Inl c \<Rightarrow> map_err (\<lambda>_. BadOrigin) (space_dispatch sample_score_config (fst oc) c s)
   | Inr c \<Rightarrow> score_dispatch sample_score_config (fst oc) c s)"

definition score_calls :: "(account option \<times> (SpaceCall + ScoreCall)) list" where
  "score_calls = [(Some [2], Inl (CreateSpace [7])), (None, Inl (ApproveSpace sample_space 20)),
     (Some [2], Inr (RegisterRating rating_a [31] [41] sample_authorization)),
     (Some [2], Inr (RegisterRating rating_b [32] [42] sample_authorization))]"

definition score_run :: score_storage where
  "score_run = unwrap_or blank_scores (run_all score_system_call score_calls blank_scores)"

lemmas score_run_simps = score_system_call_def space_dispatch_defs blank_scores_def
  register_rating_def revoke_rating_def tx_authors_def rating_value_ok_def plain_mul_def
  ensure_authorization_origin_def space_anchor_def space_deposit_event_def score_deposit_event_def
  score_update_activity_def client_update_activity_def try_push_def space_insert_def timepoint_now_def
  aggregate_score_def get_current_time_def rating_a_def rating_b_def score_identifiers score_ids_distinct score_ids_distinct [symmetric]

lemma score_run_Ok: "is_Ok (run_all score_system_call score_calls blank_scores)"
  by (simp add: score_run_simps score_calls_def Let_def cong: and_then_weak_cong)

lemma score_run_views:
  "AggregateScores score_run ([8], Overall) = Some \<lparr>agg_count_of_txn = 3, agg_total_encoded_rating = 100\<rparr>"
  "dom (RatingEntries score_run) = {score_id_a, score_id_b}"
  "map_option rating_input (RatingEntries score_run score_id_a) = Some rating_a"
  "map_option rating_input (RatingEntries score_run score_id_b) = Some rating_b"
  "map_option rating_entry_type (RatingEntries score_run score_id_a) = Some EntryTypeOf.Credit"
  "map_option rating_entry_type (RatingEntries score_run score_id_b) = Some EntryTypeOf.Credit"
  by (auto simp add: score_run_def score_run_simps score_calls_def saturating_add_def Let_def cong: and_then_weak_cong)

lemma score_run_reachable: "reachable score_genesis (score_step sample_score_config) score_run"
  unfolding score_run_def
proof (rule reachable_run_all [OF _ _ is_Ok_unwrap [OF score_run_Ok]])
  show "reachable score_genesis (score_step sample_score_config) blank_scores"
    by (rule reach_init) (simp add: score_genesis_def space_genesis_def blank_scores_def)
qed (auto simp: score_system_call_def split: sum.splits intro: score_step.call score_step.space)

theorem score_within_ledger_witness:
  "booked total_encoded_rating EntryTypeOf.Credit (RatingEntries score_run) ([8], Overall) = 100 \<and>
   100 \<in> {booked total_encoded_rating EntryTypeOf.Credit (RatingEntries score_run) ([8], Overall) -
       booked total_encoded_rating EntryTypeOf.Debit (RatingEntries score_run) ([8], Overall) ..
       booked total_encoded_rating EntryTypeOf.Credit (RatingEntries score_run) ([8], Overall)}"
proof -
  have "booked total_encoded_rating EntryTypeOf.Credit (RatingEntries score_run) ([8], Overall) = 100"
    "booked count_of_txn EntryTypeOf.Credit (RatingEntries score_run) ([8], Overall) = 3"
    using score_run_views(3-) score_ids_distinct(1)
    by (auto simp: booked_def score_run_views(2) rating_key_def rating_a_def rating_b_def)
  with score_within_ledger [OF score_run_reachable score_run_views(1)] show ?thesis by simp
qed

text \<open>Two large ratings of an entity: the sum saturates, and what is above the limit is lost.\<close>

definition large :: "rating_input_entry \<Rightarrow> rating_input_entry" where
  "large e = e\<lparr>count_of_txn := 288230376151711744, total_encoded_rating := 9223372036854775808\<rparr>"

definition large_calls :: "(account option \<times> (SpaceCall + ScoreCall)) list" where
  "large_calls = [(Some [2], Inl (CreateSpace [7])), (None, Inl (ApproveSpace sample_space 20)),
     (Some [2], Inr (RegisterRating (large rating_a) [31] [41] sample_authorization)),
     (Some [2], Inr (RegisterRating (large rating_b) [32] [42] sample_authorization))]"

definition large_run :: score_storage where
  "large_run = unwrap_or blank_scores (run_all score_system_call large_calls blank_scores)"

lemma large_run_Ok: "is_Ok (run_all score_system_call large_calls blank_scores)"
  by (simp add: score_run_simps large_calls_def large_def Let_def cong: and_then_weak_cong)

lemma large_run_views:
  "map_option agg_total_encoded_rating (AggregateScores large_run ([8], Overall)) = Some (- 1)"
  "dom (RatingEntries large_run) = {score_id_a, score_id_b}"
  "map_option rating_input (RatingEntries large_run score_id_a) = Some (large rating_a)"
  "map_option rating_input (RatingEntries large_run score_id_b) = Some (large rating_b)"
  "map_option rating_entry_type (RatingEntries large_run score_id_a) = Some EntryTypeOf.Credit"
  "map_option rating_entry_type (RatingEntries large_run score_id_b) = Some EntryTypeOf.Credit"
  by (auto simp add: large_run_def score_run_simps large_calls_def large_def saturating_add_def Let_def cong: and_then_weak_cong)

theorem score_credits_lost:
  "reachable score_genesis (score_step sample_score_config) large_run \<and>
   (\<exists>g. AggregateScores large_run ([8], Overall) = Some g \<and>
      unat (agg_total_encoded_rating g) + booked total_encoded_rating EntryTypeOf.Debit (RatingEntries large_run) ([8], Overall)
        < booked total_encoded_rating EntryTypeOf.Credit (RatingEntries large_run) ([8], Overall))"
proof
  show "reachable score_genesis (score_step sample_score_config) large_run"
    unfolding large_run_def
  proof (rule reachable_run_all [OF _ _ is_Ok_unwrap [OF large_run_Ok]])
    show "reachable score_genesis (score_step sample_score_config) blank_scores"
      by (rule reach_init) (simp add: score_genesis_def space_genesis_def blank_scores_def)
  qed (auto simp: score_system_call_def split: sum.splits intro: score_step.call score_step.space)
  show "\<exists>g. AggregateScores large_run ([8], Overall) = Some g \<and>
      unat (agg_total_encoded_rating g) + booked total_encoded_rating EntryTypeOf.Debit (RatingEntries large_run) ([8], Overall)
        < booked total_encoded_rating EntryTypeOf.Credit (RatingEntries large_run) ([8], Overall)"
  proof -
    obtain r r' where r: "RatingEntries large_run score_id_a = Some r" "RatingEntries large_run score_id_b = Some r'"
      "rating_input r = large rating_a" "rating_input r' = large rating_b" "rating_entry_type r = EntryTypeOf.Credit"
      "rating_entry_type r' = EntryTypeOf.Credit"
      using large_run_views(3-) by auto
    have "booked total_encoded_rating EntryTypeOf.Credit (RatingEntries large_run) ([8], Overall) = 2 ^ 64"
      "booked total_encoded_rating EntryTypeOf.Debit (RatingEntries large_run) ([8], Overall) = 0"
      using r score_ids_distinct(1)
      by (simp_all add: booked_def large_run_views(2) rating_key_def rating_a_def rating_b_def large_def)
    moreover obtain g where "AggregateScores large_run ([8], Overall) = Some g" "agg_total_encoded_rating g = - 1"
      using large_run_views(1) by auto
    moreover have "unat (- 1 :: u64) < 2 ^ 64" using unat_bound [of "- 1 :: u64"] by simp
    ultimately show ?thesis by simp
  qed
qed

text \<open>Nothing marks a rating as revoked: as often as it is revoked, each time with another message
  and digest, its amount is taken from the aggregate again, down to zero.\<close>

theorem double_revoke_debits_twice:
  assumes "revoke_rating T origin i m dg a s = Ok s1" "revoke_rating T origin' i m' dg' a' s1 = Ok s2"
    and "RatingEntries s i = Some r" "AggregateScores s (rating_key (rating_input r)) = Some g"
  shows "AggregateScores s2 (rating_key (rating_input r)) =
     Some \<lparr>agg_count_of_txn = saturating_sub (saturating_sub (agg_count_of_txn g) (count_of_txn (rating_input r)))
             (count_of_txn (rating_input r)),
           agg_total_encoded_rating = saturating_sub (saturating_sub (agg_total_encoded_rating g)
             (total_encoded_rating (rating_input r))) (total_encoded_rating (rating_input r))\<rparr>"
proof -
  from assms(1,3,4) have "RatingEntries s1 i = Some r"
    and "AggregateScores s1 (rating_key (rating_input r)) =
       Some \<lparr>agg_count_of_txn = saturating_sub (agg_count_of_txn g) (count_of_txn (rating_input r)),
         agg_total_encoded_rating = saturating_sub (agg_total_encoded_rating g) (total_encoded_rating (rating_input r))\<rparr>"
    by (auto elim!: revoke_rating_OkE simp: posts_def posted_score_def)
  with assms(2) show ?thesis
    by (auto elim!: revoke_rating_OkE simp: posts_def posted_score_def)
qed

definition revoke_a :: "bytes \<Rightarrow> hash \<Rightarrow> score_storage \<Rightarrow> (score_storage, ScoreError client_error) result" where
  "revoke_a m dg s = revoke_rating sample_score_config (Some [2]) score_id_a m dg sample_authorization s"

lemma revoke_a_twice:
  "is_Ok (and_then (run_all score_system_call score_calls blank_scores) (\<lambda>s. and_then (revoke_a [43] [33] s) (revoke_a [44] [34])))"
  by (simp add: score_run_simps revoke_a_def score_calls_def Let_def cong: and_then_weak_cong)

theorem double_revoke_debits_twice_witness:
  "\<exists>s1 s2. revoke_a [43] [33] score_run = Ok s1 \<and> revoke_a [44] [34] s1 = Ok s2 \<and>
     AggregateScores s2 ([8], Overall) = Some \<lparr>agg_count_of_txn = 0, agg_total_encoded_rating = 0\<rparr>"
proof -
  have run: "run_all score_system_call score_calls blank_scores = Ok score_run"
    unfolding score_run_def by (rule is_Ok_unwrap [OF score_run_Ok])
  obtain s1 s2 where s: "revoke_a [43] [33] score_run = Ok s1" "revoke_a [44] [34] s1 = Ok s2"
    using is_Ok_unwrap [OF revoke_a_twice, of blank_scores] by (auto simp: run)
  obtain r where r: "RatingEntries score_run score_id_a = Some r" "rating_input r = rating_a"
    using score_run_views(3) by auto
  with double_revoke_debits_twice [OF s [unfolded revoke_a_def] r(1)] score_run_views(1) s show ?thesis
    by (simp add: rating_key_def rating_a_def saturating_sub_def)
qed

text \<open>The check against a repeated message identifier works only for providers who rate under their
  own name: after a rating is registered, the identifier is recorded for the provider the rating
  names, and it is taken for the calling provider exactly if the rating names him.\<close>

theorem message_id_guard:
  assumes "register_rating T origin e dg m a s = Ok s'" "ScoreEnsureOrigin T origin = Some (provider, creator)"
  shows "MessageIdentifiers s' (m, provider_did e) \<noteq> None \<and>
     (MessageIdentifiers s' (m, provider) \<noteq> None \<longleftrightarrow> provider_did e = provider)"
  using assms by (auto elim!: register_rating_OkE split: if_splits)

theorem message_id_guard_witness:
  "MessageIdentifiers score_run ([42], [3]) \<noteq> None \<and> MessageIdentifiers score_run ([42], [2]) = None"
proof -
  have "run_all score_system_call score_calls blank_scores = Ok score_run"
    unfolding score_run_def by (rule is_Ok_unwrap [OF score_run_Ok])
  then obtain s where
    "register_rating sample_score_config (Some [2]) rating_b [32] [42] sample_authorization s = Ok score_run"
    by (auto simp: score_calls_def score_system_call_def)
  from message_id_guard [OF this] show ?thesis by (simp add: rating_b_def)
qed

end
