(* ===== verification/Schema.thy ===== *)
theory Schema
  imports Space_Client Chain_Space_Properties
begin

text \<open>
  The two schema registries: \<^verbatim>\<open>pallets/schema\<close>, where a schema is anchored within a chain space, and
  \<^verbatim>\<open>pallets/schema-accounts\<close>, where any signed account anchors one. Both keep schemas under an
  identifier derived from the content; the locale \<open>anchor_store\<close> states what follows from that.
\<close>

section \<open>Stores that only grow\<close>

text \<open>
  A store to which a step adds at most one valid entry, under the key of the entry, where none was.
\<close>

locale anchor_store =
  fixes init :: "'s \<Rightarrow> bool" and step :: "'s \<Rightarrow> 's \<Rightarrow> bool"
    and store :: "'s \<Rightarrow> ident \<Rightarrow> 'e option"
    and key :: "'e \<Rightarrow> ident option" and valid :: "'e \<Rightarrow> bool"
  assumes init_empty: "init s \<Longrightarrow> store s = Map.empty"
    and step_adds: "step s t \<Longrightarrow> store t = store s \<or>
      (\<exists>i e. store s i = None \<and> key e = Some i \<and> valid e \<and> store t = (store s)(i \<mapsto> e))"
begin

lemma addressed: "reachable init step s \<Longrightarrow> store s i = Some e \<Longrightarrow> key e = Some i \<and> valid e"
proof (induction arbitrary: i e rule: reachable.induct)
  case (reach_init s)
  then show ?case by (simp add: init_empty)
next
  case (reach_step s t)
  from step_adds [OF reach_step.hyps(2)] reach_step show ?case by (auto split: if_splits)
qed

lemma unique:
  "reachable init step s \<Longrightarrow> store s i = Some e \<Longrightarrow> store s j = Some e' \<Longrightarrow> key e = key e' \<Longrightarrow> i = j \<and> e = e'"
  using addressed [of s i e] addressed [of s j e'] by auto

lemma immutable: "step\<^sup>*\<^sup>* s t \<Longrightarrow> store s i = Some e \<Longrightarrow> store t i = Some e"
proof (induction rule: rtranclp_induct)
  case base
  then show ?case by simp
next
  case (step t u)
  from step_adds [OF step.hyps(2)] step show ?case by auto
qed

end

section \<open>Schemas of a space\<close>

record schema_entry =
  schema_schema :: bytes
  schema_digest :: hash
  schema_creator :: account
  schema_space :: ident

datatype SchemaEvent = SchemaCreated ident account

datatype SchemaError =
    SchemaAlreadyAnchored | SchemaNotFound | InvalidIdentifierLength | UnableToPayFees
  | CreatorNotFound | MaxEncodedSchemaLimitExceeded | EmptyTransaction

record schema_storage = chain_space +
  Schemas :: "ident \<Rightarrow> schema_entry option"
  schema_events :: "SchemaEvent list"

record 'o schema_config = "'o space_config" +
  SchemaEnsureOrigin :: "'o \<Rightarrow> (account \<times> account) option"
  MaxEncodedSchemaLength :: u32

definition schema_deposit_event :: "SchemaEvent \<Rightarrow> 'm schema_storage_scheme \<Rightarrow> 'm schema_storage_scheme" where
  "schema_deposit_event e s = s\<lparr>schema_events := schema_events s @ [e]\<rparr>"

definition schema_is_valid :: "ident \<Rightarrow> 'm schema_storage_scheme \<Rightarrow> (unit, SchemaError) result" where
  "schema_is_valid tx_ident s = ensure (Schemas s tx_ident \<noteq> None) SchemaError.SchemaNotFound"

definition schema_update_activity ::
  "'c identifier_config_scheme \<Rightarrow> ident \<Rightarrow> CallTypeOf \<Rightarrow> 'm identifier_storage_scheme
   \<Rightarrow> ('m identifier_storage_scheme, SchemaError) result" where
  "schema_update_activity T = client_update_activity IdentifierTypeOf.Schema T"

definition schema_identifier ::
  "'c frame_config_scheme \<Rightarrow> bytes \<Rightarrow> ident \<Rightarrow> account \<Rightarrow> (ident, SchemaError) result" where
  "schema_identifier T tx_schema space_id creator =
     map_err (\<lambda>_. SchemaError.InvalidIdentifierLength)
       (create_identifier T
         (encode_hash T (hashing T (encode_vec T tx_schema @ encode_ident T space_id @ encode_account T creator)))
         IdentifierType.Schema)"

text \<open>Unlike the other pallets this one checks its argument between the origin and the authorization.\<close>

definition schema_create ::
  "('o, 'c) schema_config_scheme \<Rightarrow> 'o \<Rightarrow> bytes \<Rightarrow> ident \<Rightarrow> 'm schema_storage_scheme
   \<Rightarrow> ('m schema_storage_scheme, SchemaError client_error) result" where
  "schema_create T origin tx_schema authorization s =
     and_then (subject_of (SchemaEnsureOrigin T origin)) (\<lambda>creator.
     and_then (in_pallet (ensure (0 < length tx_schema) SchemaError.EmptyTransaction)) (\<lambda>_.
     and_then (in_pallet (ensure (length tx_schema \<le> unat (MaxEncodedSchemaLength T))
                 SchemaError.MaxEncodedSchemaLimitExceeded)) (\<lambda>_.
     and_then (in_space (ensure_authorization_origin authorization creator s)) (\<lambda>(space_id, s1).
     and_then (in_pallet (schema_identifier T tx_schema space_id creator)) (\<lambda>identifier.
     and_then (in_pallet (ensure (Schemas s1 identifier = None) SchemaError.SchemaAlreadyAnchored)) (\<lambda>_.
     let digest = hashing T tx_schema;
         s2 = s1\<lparr>Schemas := (Schemas s1)(identifier \<mapsto>
                \<lparr>schema_schema = tx_schema, schema_digest = digest, schema_creator = creator,
                 schema_space = space_id\<rparr>)\<rparr>
     in and_then (in_pallet (schema_update_activity T identifier CallTypeOf.Genesis s2)) (\<lambda>s3.
        Ok (schema_deposit_event (SchemaCreated identifier creator) s3))))))))"

inductive schema_step ::
  "('o, 'c) schema_config_scheme \<Rightarrow> 'm schema_storage_scheme \<Rightarrow> 'm schema_storage_scheme \<Rightarrow> bool" for T where
  create: "schema_create T origin x a s = Ok s' \<Longrightarrow> schema_step T s s'"
| space: "space_dispatch T origin c s = Ok s' \<Longrightarrow> schema_step T s s'"
| tick: "schema_step T s (s\<lparr>block_number := n, extrinsic_index := x\<rparr>)"

definition schema_genesis :: "'m schema_storage_scheme \<Rightarrow> bool" where
  "schema_genesis s \<longleftrightarrow> space_genesis s \<and> Schemas s = Map.empty"

section \<open>Schemas of accounts\<close>

record account_schema_entry =
  account_schema :: bytes
  account_schema_digest :: hash
  account_schema_creator :: account

record account_schema_storage = identifier_storage +
  AccountSchemas :: "ident \<Rightarrow> account_schema_entry option"
  account_schema_events :: "SchemaEvent list"

record 'o account_schema_config = identifier_config +
  SchemaEnsureSigned :: "'o \<Rightarrow> account option"
  AccountMaxEncodedSchemaLength :: u32

definition account_schema_deposit_event ::
  "SchemaEvent \<Rightarrow> 'm account_schema_storage_scheme \<Rightarrow> 'm account_schema_storage_scheme" where
  "account_schema_deposit_event e s = s\<lparr>account_schema_events := account_schema_events s @ [e]\<rparr>"

definition account_schema_is_valid :: "ident \<Rightarrow> 'm account_schema_storage_scheme \<Rightarrow> (unit, SchemaError) result" where
  "account_schema_is_valid tx_ident s = ensure (AccountSchemas s tx_ident \<noteq> None) SchemaError.SchemaNotFound"

definition account_schema_update_activity ::
  "'c identifier_config_scheme \<Rightarrow> ident \<Rightarrow> CallTypeOf \<Rightarrow> 'm identifier_storage_scheme
   \<Rightarrow> ('m identifier_storage_scheme, SchemaError) result" where
  "account_schema_update_activity T = client_update_activity IdentifierTypeOf.SchemaAccounts T"

definition account_schema_identifier :: "'c frame_config_scheme \<Rightarrow> bytes \<Rightarrow> (ident, SchemaError) result" where
  "account_schema_identifier T tx_schema =
     map_err (\<lambda>_. SchemaError.InvalidIdentifierLength)
       (create_identifier T (encode_hash T (hashing T (encode_vec T tx_schema))) IdentifierType.SchemaAccounts)"

definition account_schema_create ::
  "('o, 'c) account_schema_config_scheme \<Rightarrow> 'o \<Rightarrow> bytes \<Rightarrow> 'm account_schema_storage_scheme
   \<Rightarrow> ('m account_schema_storage_scheme, SchemaError dispatch_error) result" where
  "account_schema_create T origin tx_schema s =
     and_then (ok_or (SchemaEnsureSigned T origin) BadOrigin) (\<lambda>creator.
     and_then (ensure (0 < length tx_schema) (Module SchemaError.EmptyTransaction)) (\<lambda>_.
     and_then (ensure (length tx_schema \<le> unat (AccountMaxEncodedSchemaLength T))
                 (Module SchemaError.MaxEncodedSchemaLimitExceeded)) (\<lambda>_.
     and_then (map_err Module (account_schema_identifier T tx_schema)) (\<lambda>identifier.
     and_then (ensure (AccountSchemas s identifier = None) (Module SchemaError.SchemaAlreadyAnchored)) (\<lambda>_.
     let digest = hashing T tx_schema;
         s1 = s\<lparr>AccountSchemas := (AccountSchemas s)(identifier \<mapsto>
                \<lparr>account_schema = tx_schema, account_schema_digest = digest, account_schema_creator = creator\<rparr>)\<rparr>
     in and_then (map_err Module (account_schema_update_activity T identifier CallTypeOf.Genesis s1)) (\<lambda>s2.
        Ok (account_schema_deposit_event (SchemaCreated identifier creator) s2)))))))"

inductive account_schema_step ::
  "('o, 'c) account_schema_config_scheme \<Rightarrow> 'm account_schema_storage_scheme \<Rightarrow> 'm account_schema_storage_scheme \<Rightarrow> bool"
  for T where
  create: "account_schema_create T origin x s = Ok s' \<Longrightarrow> account_schema_step T s s'"
| tick: "account_schema_step T s (s\<lparr>block_number := n, extrinsic_index := x\<rparr>)"

definition account_schema_genesis :: "'m account_schema_storage_scheme \<Rightarrow> bool" where
  "account_schema_genesis s \<longleftrightarrow> Identifiers s = Map.empty \<and> AccountSchemas s = Map.empty"

section \<open>Both as stores\<close>

fun ok_option :: "('a, 'e) result \<Rightarrow> 'a option" where
  "ok_option (Ok x) = Some x"
| "ok_option (Err e) = None"
| "ok_option Panic = None"

definition schema_key :: "'c frame_config_scheme \<Rightarrow> schema_entry \<Rightarrow> ident option" where
  "schema_key T e = ok_option (schema_identifier T (schema_schema e) (schema_space e) (schema_creator e))"

definition schema_ok :: "('o, 'c) schema_config_scheme \<Rightarrow> schema_entry \<Rightarrow> bool" where
  "schema_ok T e \<longleftrightarrow> 0 < length (schema_schema e) \<and>
     length (schema_schema e) \<le> unat (MaxEncodedSchemaLength T) \<and> schema_digest e = hashing T (schema_schema e)"

definition account_schema_key :: "'c frame_config_scheme \<Rightarrow> account_schema_entry \<Rightarrow> ident option" where
  "account_schema_key T e = ok_option (account_schema_identifier T (account_schema e))"

definition account_schema_ok :: "('o, 'c) account_schema_config_scheme \<Rightarrow> account_schema_entry \<Rightarrow> bool" where
  "account_schema_ok T e \<longleftrightarrow> 0 < length (account_schema e) \<and>
     length (account_schema e) \<le> unat (AccountMaxEncodedSchemaLength T) \<and>
     account_schema_digest e = hashing T (account_schema e)"

lemma Schemas_frame [simp]:
  "Schemas (count_up_at sp s) = Schemas s" "Schemas (schema_deposit_event e s) = Schemas s"
  "AccountSchemas (account_schema_deposit_event e r) = AccountSchemas r"
  by (simp_all add: count_up_at_def space_insert_def schema_deposit_event_def account_schema_deposit_event_def)

lemma schema_create_OkE:
  assumes "schema_create T origin x a s = Ok s'"
  obtains creator sender sp i where
    "SchemaEnsureOrigin T origin = Some (creator, sender)" "authorized ASSERT active a creator s sp"
    "schema_identifier T x sp creator = Ok i" "Schemas s i = None"
    "0 < length x" "length x \<le> unat (MaxEncodedSchemaLength T)"
    "Schemas s' = (Schemas s)(i \<mapsto> \<lparr>schema_schema = x, schema_digest = hashing T x,
       schema_creator = creator, schema_space = sp\<rparr>)"
  using assms
  by (auto simp: schema_create_def ensure_authorization_Ok_iff Let_def schema_update_activity_def
      dest!: client_update_activity_frame intro: that)

lemma account_schema_create_OkE:
  assumes "account_schema_create T origin x s = Ok s'"
  obtains creator i where
    "SchemaEnsureSigned T origin = Some creator" "account_schema_identifier T x = Ok i"
    "AccountSchemas s i = None" "0 < length x" "length x \<le> unat (AccountMaxEncodedSchemaLength T)"
    "AccountSchemas s' = (AccountSchemas s)(i \<mapsto> \<lparr>account_schema = x, account_schema_digest = hashing T x,
       account_schema_creator = creator\<rparr>)"
  using assms
  by (auto simp: account_schema_create_def Let_def account_schema_update_activity_def
      dest!: client_update_activity_frame intro: that)

lemma Schemas_more: "chain_space.more s' = chain_space.more s \<Longrightarrow> Schemas s' = Schemas s"
  by (cases s; cases s') simp

interpretation schema_store: anchor_store schema_genesis "schema_step T" Schemas "schema_key T" "schema_ok T" for T
proof (unfold_locales, goal_cases)
  case (1 s)
  then show ?case by (simp add: schema_genesis_def)
next
  case (2 s t)
  then show ?case
  proof cases
    case (create origin x a)
    then show ?thesis
      by (elim schema_create_OkE) (auto simp: schema_key_def schema_ok_def intro!: exI)
  next
    case (space origin c)
    from Schemas_more [OF space_dispatch_more [OF this]] show ?thesis by simp
  next
    case (tick n x)
    then show ?thesis by simp
  qed
qed

interpretation account_schema_store: anchor_store account_schema_genesis "account_schema_step T" AccountSchemas
  "account_schema_key T" "account_schema_ok T" for T
proof (unfold_locales, goal_cases)
  case (1 s)
  then show ?case by (simp add: account_schema_genesis_def)
next
  case (2 s t)
  then show ?case
  proof cases
    case (create origin x)
    then show ?thesis
      by (elim account_schema_create_OkE) (auto simp: account_schema_key_def account_schema_ok_def intro!: exI)
  next
    case (tick n x)
    then show ?thesis by simp
  qed
qed

section \<open>Properties\<close>

text \<open>C16: schemas of a space are content-addressed and immutable: in every reachable storage a schema is
  stored under the identifier computed from its content, space and creator, with the hash of its
  content and within the length bound, and it stays as it is forever after.\<close>

theorem schema_content_addressed:
  assumes "reachable schema_genesis (schema_step T) s" "Schemas s i = Some e" "(schema_step T)\<^sup>*\<^sup>* s t"
  shows "schema_identifier T (schema_schema e) (schema_space e) (schema_creator e) = Ok i \<and>
     schema_digest e = hashing T (schema_schema e) \<and>
     0 < length (schema_schema e) \<and> length (schema_schema e) \<le> unat (MaxEncodedSchemaLength T) \<and>
     Schemas t i = Some e"
proof -
  have "ok_option r = Some i \<Longrightarrow> r = Ok i" for r :: "(ident, SchemaError) result"
    by (cases r) simp_all
  with schema_store.addressed [OF assms(1,2)] schema_store.immutable [OF assms(3,2)] show ?thesis
    by (auto simp: schema_key_def schema_ok_def)
qed

definition sample_schema_config :: "account option schema_config" where
  "sample_schema_config = \<lparr>overflow_checks = True, hashing = sample_hash, encode_hash = id,
     encode_account = id, encode_ident = id, encode_vec = id, blake2b_64 = sample_hash,
     bs58_encode = halves, bs58_decode = unhalves, MaxEventsHistory = 6,
     EnsureOrigin = map_option (\<lambda>a. (a, a)), ChainSpaceOrigin = (\<lambda>o'. o' = None),
     is_permissioned = True, MaxSpaceDelegates = 5,
     SchemaEnsureOrigin = map_option (\<lambda>a. (a, a)), MaxEncodedSchemaLength = 30\<rparr>"

lemma sample_schema_config_simps [simp]:
  "overflow_checks sample_schema_config" "MaxEventsHistory sample_schema_config = 6"
  "EnsureOrigin sample_schema_config = map_option (\<lambda>a. (a, a))"
  "ChainSpaceOrigin sample_schema_config o' \<longleftrightarrow> o' = None" "is_permissioned sample_schema_config"
  "MaxSpaceDelegates sample_schema_config = 5"
  "SchemaEnsureOrigin sample_schema_config = map_option (\<lambda>a. (a, a))" "MaxEncodedSchemaLength sample_schema_config = 30"
  by (simp_all add: sample_schema_config_def)

definition blank_schemas :: schema_storage where
  "blank_schemas = \<lparr>block_number = 4, extrinsic_index = Some 1, Identifiers = Map.empty,
     Spaces = Map.empty, Authorizations = Map.empty, Delegates = (\<lambda>_. []), space_events = [],
     Schemas = Map.empty, schema_events = []\<rparr>"

definition sample_schema :: ident where
  "sample_schema = unwrap_or [] (schema_identifier sample_schema_config [51, 52] sample_space [2])"

lemma schema_identifiers:
  "space_identifier sample_schema_config [7] [2] = Ok sample_space"
  "authorization_identifier sample_schema_config sample_space [2] [2] = Ok sample_authorization"
  "schema_identifier sample_schema_config [51, 52] sample_space [2] = Ok sample_schema"
  by code_simp+

fun schema_system_call ::
  "account option \<times> (SpaceCall + bytes \<times> ident) \<Rightarrow> schema_storage \<Rightarrow> (schema_storage, SchemaError client_error) result" where
  "schema_system_call (origin, Inl c) s = map_err (\<lambda>_. BadOrigin) (space_dispatch sample_schema_config origin c s)"
| "schema_system_call (origin, Inr (x, a)) s = schema_create sample_schema_config origin x a s"

definition schema_calls :: "(account option \<times> (SpaceCall + bytes \<times> ident)) list" where
  "schema_calls = [(Some [2], Inl (CreateSpace [7])), (None, Inl (ApproveSpace sample_space 20)),
     (Some [2], Inr ([51, 52], sample_authorization))]"

definition schema_run :: schema_storage where
  "schema_run = unwrap_or blank_schemas (run_all schema_system_call schema_calls blank_schemas)"

lemmas schema_run_simps = schema_calls_def space_dispatch_defs blank_schemas_def schema_create_def subject_of_def
  ensure_authorization_origin_def space_anchor_def space_deposit_event_def schema_deposit_event_def
  schema_update_activity_def client_update_activity_def try_push_def space_insert_def timepoint_now_def
  schema_identifiers

lemma schema_run_Ok: "is_Ok (run_all schema_system_call schema_calls blank_schemas)"
  by (simp add: schema_run_simps Let_def cong: and_then_weak_cong)

lemma schema_run_schema: "map_option schema_schema (Schemas schema_run sample_schema) = Some [51, 52]"
  by (simp add: schema_run_def schema_run_simps Let_def cong: and_then_weak_cong)

lemma schema_run_reachable: "reachable schema_genesis (schema_step sample_schema_config) schema_run"
  unfolding schema_run_def
proof (rule reachable_run_all [OF _ _ is_Ok_unwrap [OF schema_run_Ok]])
  show "reachable schema_genesis (schema_step sample_schema_config) blank_schemas"
    by (rule reach_init) (simp add: schema_genesis_def space_genesis_def blank_schemas_def)
next
  fix oc s t
  assume "schema_system_call oc s = Ok t"
  then show "schema_step sample_schema_config s t"
    by (cases "(oc, s)" rule: schema_system_call.cases) (auto intro: schema_step.create schema_step.space)
qed

theorem schema_content_addressed_witness:
  "\<exists>e. Schemas schema_run sample_schema = Some e \<and> schema_schema e = [51, 52] \<and>
     schema_digest e = sample_hash [51, 52] \<and>
     Schemas (schema_run\<lparr>block_number := 5, extrinsic_index := None\<rparr>) sample_schema = Some e"
proof -
  obtain e where e: "Schemas schema_run sample_schema = Some e" "schema_schema e = [51, 52]"
    using schema_run_schema by auto
  have "(schema_step sample_schema_config)\<^sup>*\<^sup>* schema_run (schema_run\<lparr>block_number := 5, extrinsic_index := None\<rparr>)"
    by (rule r_into_rtranclp) (rule schema_step.tick)
  from schema_content_addressed [OF schema_run_reachable e(1) this] e show ?thesis
    by (simp add: sample_schema_config_def)
qed

text \<open>A schema anchored by an account is anchored for good and for everyone: whatever happens later,
  the entry stays, and no signed origin can anchor the same content again.\<close>

theorem account_schema_first_wins:
  assumes "reachable account_schema_genesis (account_schema_step T) s" "AccountSchemas s i = Some e"
    and "(account_schema_step T)\<^sup>*\<^sup>* s t" "SchemaEnsureSigned T origin = Some who"
  shows "AccountSchemas t i = Some e \<and>
     account_schema_create T origin (account_schema e) t = Err (Module SchemaError.SchemaAlreadyAnchored)"
proof -
  have "ok_option r = Some i \<Longrightarrow> r = Ok i" for r :: "(ident, SchemaError) result"
    by (cases r) simp_all
  then have "account_schema_identifier T (account_schema e) = Ok i" "account_schema_ok T e"
    using account_schema_store.addressed [OF assms(1,2)] by (simp_all add: account_schema_key_def)
  with account_schema_store.immutable [OF assms(3,2)] assms(4) show ?thesis
    by (simp add: account_schema_create_def account_schema_ok_def)
qed

definition sample_account_config :: "account account_schema_config" where
  "sample_account_config = \<lparr>overflow_checks = True, hashing = sample_hash, encode_hash = id,
     encode_account = id, encode_ident = id, encode_vec = id, blake2b_64 = sample_hash,
     bs58_encode = halves, bs58_decode = unhalves, MaxEventsHistory = 6,
     SchemaEnsureSigned = Some, AccountMaxEncodedSchemaLength = 30\<rparr>"

definition blank_account_schemas :: account_schema_storage where
  "blank_account_schemas = \<lparr>block_number = 4, extrinsic_index = Some 1, Identifiers = Map.empty,
     AccountSchemas = Map.empty, account_schema_events = []\<rparr>"

definition account_schema_run :: account_schema_storage where
  "account_schema_run = unwrap_or blank_account_schemas
     (account_schema_create sample_account_config [5] [51, 52] blank_account_schemas)"

theorem account_schema_first_wins_witness:
  "account_schema_create sample_account_config [6] [51, 52] account_schema_run =
     Err (Module SchemaError.SchemaAlreadyAnchored)"
proof -
  have "is_Ok (account_schema_create sample_account_config [5] [51, 52] blank_account_schemas)"
    by code_simp
  from is_Ok_unwrap [OF this]
  have run: "account_schema_create sample_account_config [5] [51, 52] blank_account_schemas = Ok account_schema_run"
    unfolding account_schema_run_def .
  have init: "reachable account_schema_genesis (account_schema_step sample_account_config) blank_account_schemas"
    by (rule reach_init) (simp add: account_schema_genesis_def blank_account_schemas_def)
  from run obtain i e where e: "AccountSchemas account_schema_run i = Some e" "account_schema e = [51, 52]"
    by (metis account_schema_create_OkE account_schema_entry.select_convs(1) fun_upd_same)
  from account_schema_first_wins [OF reach_step [OF init account_schema_step.create [OF run]] e(1) rtranclp.rtrancl_refl,
      of "[6]" "[6]"] e(2)
  show ?thesis by (simp add: sample_account_config_def)
qed

end
