(* ===== verification/Registries.thy ===== *)
theory Registries
  imports Space_Client
begin

text \<open>
  The registries pallet (\<^verbatim>\<open>pallets/registries/src\<close>): registries owned by accounts, with delegates who
  hold authorizations, and the life cycle archive/restore and revoke/reinstate. It gives the
  entries pallet the same kind of check chain-space gives its clients, without a usage meter.
\<close>

section \<open>Types\<close>

definition registry_ASSERT :: u32 where "registry_ASSERT = 0b00000001"
definition registry_DELEGATE :: u32 where "registry_DELEGATE = 0b00000010"
definition registry_ADMIN :: u32 where "registry_ADMIN = 0b00000100"

definition registry_permissions_all :: u32 where
  "registry_permissions_all = registry_ASSERT OR registry_DELEGATE OR registry_ADMIN"

definition registry_as_u8 :: "u32 \<Rightarrow> bytes" where
  "registry_as_u8 x =
     (let b1 = ucast (drop_bit 24 x AND 0xff); b2 = ucast (drop_bit 16 x AND 0xff);
          b3 = ucast (drop_bit 8 x AND 0xff); b4 = ucast (x AND 0xff)
      in [b4, b3, b2, b1])"

definition registry_permissions_default :: u32 where
  "registry_permissions_default = registry_ASSERT"

record registry_details =
  registry_creator :: account
  registry_revoked :: bool
  registry_archived :: bool
  registry_digest :: hash
  registry_schema_id :: "ident option"

record registry_authorization =
  rauth_registry_id :: ident
  rauth_delegate :: account
  rauth_permissions :: u32
  rauth_delegator :: account

datatype RegistryEvent =
    Authorization ident ident account
  | Deauthorization ident ident
  | Create ident account ident
  | Revoke ident account
  | Reinstate ident account
  | Update ident account ident
  | Archive ident account
  | Restore ident account

datatype RegistryError =
    RegistryAlreadyAnchored | RegistryNotFound | UnauthorizedOperation | InvalidIdentifier
  | InvalidIdentifierLength | RegistryDelegatesLimitExceeded | DelegateAlreadyAdded
  | AuthorizationNotFound | DelegateNotFound | RegistryNotRevoked | RegistryAlreadyRevoked
  | RegistryRevoked | RegistryNotArchived | RegistryAlreadyArchived | RegistryArchived

record registry_storage = identifier_storage +
  RegistryInfo :: "ident \<Rightarrow> registry_details option"
  RegistryAuthorizations :: "ident \<Rightarrow> registry_authorization option"
  RegistryDelegates :: "ident \<Rightarrow> account list"
  registry_events :: "RegistryEvent list"

record 'o registry_config = identifier_config +
  ensure_signed :: "'o \<Rightarrow> account option"
  MaxRegistryDelegates :: u32
  MaxRegistryBlobSize :: u32
  RegistryMaxEncodedInputLength :: u32

type_synonym 'm registry_result = "('m registry_storage_scheme, RegistryError dispatch_error) result"

section \<open>Internal functions\<close>

definition registry_signed :: "('o, 'c) registry_config_scheme \<Rightarrow> 'o \<Rightarrow> (account, 'e dispatch_error) result" where
  "registry_signed T origin = ok_or (ensure_signed T origin) BadOrigin"

definition registry_deposit_event :: "RegistryEvent \<Rightarrow> 'm registry_storage_scheme \<Rightarrow> 'm registry_storage_scheme" where
  "registry_deposit_event e s = s\<lparr>registry_events := registry_events s @ [e]\<rparr>"

definition registry_update_activity ::
  "'c identifier_config_scheme \<Rightarrow> ident \<Rightarrow> IdentifierTypeOf \<Rightarrow> CallTypeOf \<Rightarrow> 'm identifier_storage_scheme
   \<Rightarrow> ('m identifier_storage_scheme, RegistryError) result" where
  "registry_update_activity T tx_id tx_type tx_action s = client_update_activity tx_type T tx_id tx_action s"

definition registry_insert :: "ident \<Rightarrow> registry_details \<Rightarrow> 'm registry_storage_scheme \<Rightarrow> 'm registry_storage_scheme" where
  "registry_insert registry_id d s = s\<lparr>RegistryInfo := (RegistryInfo s)(registry_id \<mapsto> d)\<rparr>"

definition validate_registry_for_transaction ::
  "ident \<Rightarrow> 'm registry_storage_scheme \<Rightarrow> (unit, RegistryError) result" where
  "validate_registry_for_transaction registry_id s =
     and_then (ok_or (RegistryInfo s registry_id) RegistryError.RegistryNotFound) (\<lambda>d.
     if registry_archived d then Err RegistryArchived
     else if registry_revoked d then Err RegistryRevoked
     else Ok ())"

definition validate_registry_for_restore_transaction ::
  "ident \<Rightarrow> 'm registry_storage_scheme \<Rightarrow> (unit, RegistryError) result" where
  "validate_registry_for_restore_transaction registry_id s =
     and_then (ok_or (RegistryInfo s registry_id) RegistryError.RegistryNotFound) (\<lambda>d.
     if \<not> registry_archived d then Err RegistryNotArchived else Ok ())"

definition validate_registry_for_reinstate_transaction ::
  "ident \<Rightarrow> 'm registry_storage_scheme \<Rightarrow> (unit, RegistryError) result" where
  "validate_registry_for_reinstate_transaction registry_id s =
     and_then (ok_or (RegistryInfo s registry_id) RegistryError.RegistryNotFound) (\<lambda>d.
     if \<not> registry_revoked d then Err RegistryNotRevoked else Ok ())"

definition registry_is_a_delegate :: "ident \<Rightarrow> account \<Rightarrow> 'm registry_storage_scheme \<Rightarrow> bool" where
  "registry_is_a_delegate tx_id delegate s \<longleftrightarrow> list_ex (\<lambda>d. d = delegate) (RegistryDelegates s tx_id)"

definition registry_ensure_authorization_origin ::
  "ident \<Rightarrow> account \<Rightarrow> 'm registry_storage_scheme \<Rightarrow> (ident, RegistryError) result" where
  "registry_ensure_authorization_origin authorization_id delegate s =
     and_then (ok_or (RegistryAuthorizations s authorization_id) RegistryError.AuthorizationNotFound) (\<lambda>d.
     and_then (ensure (rauth_delegate d = delegate) RegistryError.UnauthorizedOperation) (\<lambda>_.
     and_then (validate_registry_for_transaction (rauth_registry_id d) s) (\<lambda>_.
     and_then (ensure (contains (rauth_permissions d) registry_ASSERT) RegistryError.UnauthorizedOperation) (\<lambda>_.
     Ok (rauth_registry_id d)))))"

definition registry_ensure_authorization_reinstate_origin ::
  "ident \<Rightarrow> account \<Rightarrow> 'm registry_storage_scheme \<Rightarrow> (ident, RegistryError) result" where
  "registry_ensure_authorization_reinstate_origin authorization_id delegate s =
     and_then (ok_or (RegistryAuthorizations s authorization_id) RegistryError.AuthorizationNotFound) (\<lambda>d.
     and_then (ensure (rauth_delegate d = delegate) RegistryError.UnauthorizedOperation) (\<lambda>_.
     and_then (validate_registry_for_reinstate_transaction (rauth_registry_id d) s) (\<lambda>_.
     and_then (ensure (contains (rauth_permissions d) registry_ADMIN) RegistryError.UnauthorizedOperation) (\<lambda>_.
     Ok (rauth_registry_id d)))))"

definition registry_ensure_authorization_restore_origin ::
  "ident \<Rightarrow> account \<Rightarrow> 'm registry_storage_scheme \<Rightarrow> (ident, RegistryError) result" where
  "registry_ensure_authorization_restore_origin authorization_id delegate s =
     and_then (ok_or (RegistryAuthorizations s authorization_id) RegistryError.AuthorizationNotFound) (\<lambda>d.
     and_then (ensure (rauth_delegate d = delegate) RegistryError.UnauthorizedOperation) (\<lambda>_.
     and_then (validate_registry_for_restore_transaction (rauth_registry_id d) s) (\<lambda>_.
     and_then (ensure (contains (rauth_permissions d) registry_ADMIN) RegistryError.UnauthorizedOperation) (\<lambda>_.
     Ok (rauth_registry_id d)))))"

definition registry_ensure_authorization_admin_origin ::
  "ident \<Rightarrow> account \<Rightarrow> 'm registry_storage_scheme \<Rightarrow> (ident, RegistryError) result" where
  "registry_ensure_authorization_admin_origin authorization_id delegate s =
     and_then (ok_or (RegistryAuthorizations s authorization_id) RegistryError.AuthorizationNotFound) (\<lambda>d.
     and_then (ensure (rauth_delegate d = delegate) RegistryError.UnauthorizedOperation) (\<lambda>_.
     and_then (validate_registry_for_transaction (rauth_registry_id d) s) (\<lambda>_.
     and_then (ensure (contains (rauth_permissions d) registry_ADMIN) RegistryError.UnauthorizedOperation) (\<lambda>_.
     Ok (rauth_registry_id d)))))"

definition registry_ensure_authorization_delegator_origin ::
  "ident \<Rightarrow> account \<Rightarrow> 'm registry_storage_scheme \<Rightarrow> (ident, RegistryError) result" where
  "registry_ensure_authorization_delegator_origin authorization_id delegate s =
     and_then (ok_or (RegistryAuthorizations s authorization_id) RegistryError.AuthorizationNotFound) (\<lambda>d.
     and_then (ensure (rauth_delegate d = delegate) RegistryError.UnauthorizedOperation) (\<lambda>_.
     and_then (validate_registry_for_transaction (rauth_registry_id d) s) (\<lambda>_.
     and_then (ensure (contains (rauth_permissions d) (registry_DELEGATE OR registry_ADMIN))
                 RegistryError.UnauthorizedOperation) (\<lambda>_.
     Ok (rauth_registry_id d)))))"

definition registry_ensure_authorization_admin_remove_origin ::
  "ident \<Rightarrow> account \<Rightarrow> 'm registry_storage_scheme \<Rightarrow> (ident, RegistryError) result" where
  "registry_ensure_authorization_admin_remove_origin authorization_id delegate s =
     and_then (ok_or (RegistryAuthorizations s authorization_id) RegistryError.AuthorizationNotFound) (\<lambda>d.
     and_then (ensure (rauth_delegate d = delegate) RegistryError.UnauthorizedOperation) (\<lambda>_.
     and_then (validate_registry_for_transaction (rauth_registry_id d) s) (\<lambda>_.
     and_then (ensure (contains (rauth_permissions d) registry_ADMIN) RegistryError.UnauthorizedOperation) (\<lambda>_.
     Ok (rauth_registry_id d)))))"

definition registry_is_valid_ss58_format :: "'c frame_config_scheme \<Rightarrow> ident \<Rightarrow> bool" where
  "registry_is_valid_ss58_format T identifier =
     (case get_type T identifier of Ok id_type \<Rightarrow> id_type = IdentifierType.Registries | _ \<Rightarrow> False)"

definition registry_identifier ::
  "'c frame_config_scheme \<Rightarrow> hash \<Rightarrow> account \<Rightarrow> (ident, RegistryError) result" where
  "registry_identifier T digest creator =
     map_err (\<lambda>_. RegistryError.InvalidIdentifierLength)
       (create_identifier T (encode_hash T (hashing T (encode_hash T digest @ encode_account T creator)))
         IdentifierType.Registries)"

definition registry_authorization_identifier ::
  "'c frame_config_scheme \<Rightarrow> ident \<Rightarrow> account \<Rightarrow> account \<Rightarrow> (ident, RegistryError) result" where
  "registry_authorization_identifier T registry_id delegate creator =
     map_err (\<lambda>_. RegistryError.InvalidIdentifierLength)
       (create_identifier T
         (encode_hash T (hashing T (encode_ident T registry_id @ encode_account T delegate @ encode_account T creator)))
         IdentifierType.RegistryAuthorization)"

definition registry_delegate_addition ::
  "('o, 'c) registry_config_scheme \<Rightarrow> ident \<Rightarrow> account \<Rightarrow> account \<Rightarrow> u32 \<Rightarrow> 'm registry_storage_scheme
   \<Rightarrow> ('m registry_storage_scheme, RegistryError) result" where
  "registry_delegate_addition T registry_id delegate creator permissions s =
     and_then (registry_authorization_identifier T registry_id delegate creator) (\<lambda>delegate_authorization_id.
     and_then (ensure (RegistryAuthorizations s delegate_authorization_id = None) RegistryError.DelegateAlreadyAdded) (\<lambda>_.
     and_then (ok_or (try_push (unat (MaxRegistryDelegates T)) (RegistryDelegates s registry_id) delegate)
                 RegistryDelegatesLimitExceeded) (\<lambda>delegates.
     let s1 = s\<lparr>RegistryDelegates := (RegistryDelegates s)(registry_id := delegates),
                RegistryAuthorizations := (RegistryAuthorizations s)(delegate_authorization_id \<mapsto>
                  \<lparr>rauth_registry_id = registry_id, rauth_delegate = delegate,
                   rauth_permissions = permissions, rauth_delegator = creator\<rparr>)\<rparr>
     in and_then (registry_update_activity T registry_id IdentifierTypeOf.RegistryAuthorization
                    CallTypeOf.Authorization s1) (\<lambda>s2.
        Ok (registry_deposit_event
              (RegistryEvent.Authorization registry_id delegate_authorization_id delegate) s2)))))"

section \<open>Extrinsics\<close>

definition registry_add_delegate ::
  "('o, 'c) registry_config_scheme \<Rightarrow> 'o \<Rightarrow> ident \<Rightarrow> account \<Rightarrow> ident \<Rightarrow> 'm registry_storage_scheme
   \<Rightarrow> 'm registry_result" where
  "registry_add_delegate T origin registry_id delegate authorization s =
     and_then (registry_signed T origin) (\<lambda>creator.
     and_then (map_err Module (registry_ensure_authorization_delegator_origin authorization creator s)) (\<lambda>auth_registry_id.
     and_then (ensure (auth_registry_id = registry_id) (Module RegistryError.UnauthorizedOperation)) (\<lambda>_.
     map_err Module (registry_delegate_addition T auth_registry_id delegate creator registry_ASSERT s))))"

definition registry_add_admin_delegate ::
  "('o, 'c) registry_config_scheme \<Rightarrow> 'o \<Rightarrow> ident \<Rightarrow> account \<Rightarrow> ident \<Rightarrow> 'm registry_storage_scheme
   \<Rightarrow> 'm registry_result" where
  "registry_add_admin_delegate T origin registry_id delegate authorization s =
     and_then (registry_signed T origin) (\<lambda>creator.
     and_then (map_err Module (registry_ensure_authorization_admin_origin authorization creator s)) (\<lambda>auth_registry_id.
     and_then (ensure (auth_registry_id = registry_id) (Module RegistryError.UnauthorizedOperation)) (\<lambda>_.
     map_err Module (registry_delegate_addition T auth_registry_id delegate creator registry_ADMIN s))))"

definition registry_add_delegator ::
  "('o, 'c) registry_config_scheme \<Rightarrow> 'o \<Rightarrow> ident \<Rightarrow> account \<Rightarrow> ident \<Rightarrow> 'm registry_storage_scheme
   \<Rightarrow> 'm registry_result" where
  "registry_add_delegator T origin registry_id delegate authorization s =
     and_then (registry_signed T origin) (\<lambda>creator.
     and_then (map_err Module (registry_ensure_authorization_admin_origin authorization creator s)) (\<lambda>auth_registry_id.
     and_then (ensure (auth_registry_id = registry_id) (Module RegistryError.UnauthorizedOperation)) (\<lambda>_.
     map_err Module (registry_delegate_addition T auth_registry_id delegate creator registry_DELEGATE s))))"

definition registry_remove_delegate ::
  "('o, 'c) registry_config_scheme \<Rightarrow> 'o \<Rightarrow> ident \<Rightarrow> ident \<Rightarrow> ident \<Rightarrow> 'm registry_storage_scheme
   \<Rightarrow> 'm registry_result" where
  "registry_remove_delegate T origin registry_id remove_authorization authorization s =
     and_then (registry_signed T origin) (\<lambda>creator.
     and_then (map_err Module (registry_ensure_authorization_admin_remove_origin authorization creator s)) (\<lambda>auth_registry_id.
     and_then (ensure (authorization \<noteq> remove_authorization) (Module RegistryError.UnauthorizedOperation)) (\<lambda>_.
     and_then (ensure (auth_registry_id = registry_id) (Module RegistryError.UnauthorizedOperation)) (\<lambda>_.
     and_then (ok_or (RegistryAuthorizations s remove_authorization) (Module RegistryError.AuthorizationNotFound)) (\<lambda>d.
     (case position (rauth_delegate d) (RegistryDelegates s registry_id) of
        Some i \<Rightarrow>
          and_then (vec_remove i (RegistryDelegates s registry_id)) (\<lambda>delegates.
          let s1 = s\<lparr>RegistryDelegates := (RegistryDelegates s)(registry_id := delegates),
                     RegistryAuthorizations := (RegistryAuthorizations s)(remove_authorization := None)\<rparr>
          in and_then (map_err Module (registry_update_activity T registry_id
                 IdentifierTypeOf.RegistryAuthorization CallTypeOf.Deauthorization s1)) (\<lambda>s2.
             Ok (registry_deposit_event (RegistryEvent.Deauthorization registry_id remove_authorization) s2)))
      | None \<Rightarrow> Err (Module RegistryError.DelegateNotFound)))))))"

definition registry_create ::
  "('o, 'c) registry_config_scheme \<Rightarrow> 'o \<Rightarrow> ident \<Rightarrow> hash \<Rightarrow> ident option \<Rightarrow> bytes option
   \<Rightarrow> 'm registry_storage_scheme \<Rightarrow> 'm registry_result" where
  "registry_create T origin unused_registry_id digest schema_id unused_blob s =
     and_then (registry_signed T origin) (\<lambda>creator.
     and_then (map_err Module (registry_identifier T digest creator)) (\<lambda>identifier.
     and_then (ensure (RegistryInfo s identifier = None) (Module RegistryAlreadyAnchored)) (\<lambda>_.
     and_then (map_err Module (registry_authorization_identifier T identifier creator creator)) (\<lambda>authorization_id.
     and_then (ok_or (try_push (unat (MaxRegistryDelegates T)) [] creator)
                 (Module RegistryDelegatesLimitExceeded)) (\<lambda>delegates.
     let s1 = s\<lparr>RegistryDelegates := (RegistryDelegates s)(identifier := delegates),
                RegistryAuthorizations := (RegistryAuthorizations s)(authorization_id \<mapsto>
                  \<lparr>rauth_registry_id = identifier, rauth_delegate = creator,
                   rauth_permissions = registry_permissions_all, rauth_delegator = creator\<rparr>),
                RegistryInfo := (RegistryInfo s)(identifier \<mapsto>
                  \<lparr>registry_creator = creator, registry_revoked = False, registry_archived = False,
                   registry_digest = digest, registry_schema_id = schema_id\<rparr>)\<rparr>
     in and_then (map_err Module (registry_update_activity T identifier
                    IdentifierTypeOf.Registries CallTypeOf.Genesis s1)) (\<lambda>s2.
        Ok (registry_deposit_event (RegistryEvent.Create identifier creator authorization_id) s2)))))))"

definition registry_revoke ::
  "('o, 'c) registry_config_scheme \<Rightarrow> 'o \<Rightarrow> ident \<Rightarrow> ident \<Rightarrow> 'm registry_storage_scheme
   \<Rightarrow> 'm registry_result" where
  "registry_revoke T origin registry_id authorization s =
     and_then (registry_signed T origin) (\<lambda>creator.
     and_then (map_err Module (registry_ensure_authorization_admin_origin authorization creator s)) (\<lambda>auth_registry_id.
     and_then (ensure (auth_registry_id = registry_id) (Module RegistryError.UnauthorizedOperation)) (\<lambda>_.
     and_then (ok_or (RegistryInfo s registry_id) (Module RegistryError.RegistryNotFound)) (\<lambda>d.
     and_then (ensure (\<not> registry_revoked d) (Module RegistryAlreadyRevoked)) (\<lambda>_.
     let s1 = registry_insert registry_id (d\<lparr>registry_revoked := True\<rparr>) s
     in and_then (map_err Module (registry_update_activity T registry_id IdentifierTypeOf.Registries CallTypeOf.Revoke s1)) (\<lambda>s2.
        Ok (registry_deposit_event (RegistryEvent.Revoke registry_id creator) s2)))))))"

definition registry_reinstate ::
  "('o, 'c) registry_config_scheme \<Rightarrow> 'o \<Rightarrow> ident \<Rightarrow> ident \<Rightarrow> 'm registry_storage_scheme
   \<Rightarrow> 'm registry_result" where
  "registry_reinstate T origin registry_id authorization s =
     and_then (registry_signed T origin) (\<lambda>creator.
     and_then (map_err Module (registry_ensure_authorization_reinstate_origin authorization creator s)) (\<lambda>auth_registry_id.
     and_then (ensure (auth_registry_id = registry_id) (Module RegistryError.UnauthorizedOperation)) (\<lambda>_.
     and_then (ok_or (RegistryInfo s registry_id) (Module RegistryError.RegistryNotFound)) (\<lambda>d.
     and_then (ensure (registry_revoked d) (Module RegistryNotRevoked)) (\<lambda>_.
     let s1 = registry_insert registry_id (d\<lparr>registry_revoked := False\<rparr>) s
     in and_then (map_err Module (registry_update_activity T registry_id IdentifierTypeOf.Registries CallTypeOf.Reinstate s1)) (\<lambda>s2.
        Ok (registry_deposit_event (RegistryEvent.Reinstate registry_id creator) s2)))))))"

definition registry_update ::
  "('o, 'c) registry_config_scheme \<Rightarrow> 'o \<Rightarrow> ident \<Rightarrow> hash \<Rightarrow> bytes option \<Rightarrow> ident \<Rightarrow> 'm registry_storage_scheme
   \<Rightarrow> 'm registry_result" where
  "registry_update T origin registry_id digest unused_blob authorization s =
     and_then (registry_signed T origin) (\<lambda>creator.
     and_then (ok_or (RegistryInfo s registry_id) (Module RegistryError.RegistryNotFound)) (\<lambda>registry.
     and_then (map_err Module (registry_ensure_authorization_admin_origin authorization creator s)) (\<lambda>auth_registry_id.
     and_then (ensure (auth_registry_id = registry_id) (Module RegistryError.UnauthorizedOperation)) (\<lambda>_.
     let s1 = registry_insert registry_id (registry\<lparr>registry_digest := digest\<rparr>) s
     in and_then (map_err Module (registry_update_activity T registry_id IdentifierTypeOf.Registries CallTypeOf.Update s1)) (\<lambda>s2.
        Ok (registry_deposit_event (RegistryEvent.Update registry_id creator authorization) s2))))))"

definition registry_archive ::
  "('o, 'c) registry_config_scheme \<Rightarrow> 'o \<Rightarrow> ident \<Rightarrow> ident \<Rightarrow> 'm registry_storage_scheme
   \<Rightarrow> 'm registry_result" where
  "registry_archive T origin registry_id authorization s =
     and_then (registry_signed T origin) (\<lambda>creator.
     and_then (map_err Module (registry_ensure_authorization_admin_origin authorization creator s)) (\<lambda>auth_registry_id.
     and_then (ensure (auth_registry_id = registry_id) (Module RegistryError.UnauthorizedOperation)) (\<lambda>_.
     and_then (ok_or (RegistryInfo s registry_id) (Module RegistryError.RegistryNotFound)) (\<lambda>d.
     and_then (ensure (\<not> registry_archived d) (Module RegistryAlreadyArchived)) (\<lambda>_.
     let s1 = registry_insert registry_id (d\<lparr>registry_archived := True\<rparr>) s
     in and_then (map_err Module (registry_update_activity T registry_id IdentifierTypeOf.Registries CallTypeOf.Archive s1)) (\<lambda>s2.
        Ok (registry_deposit_event (RegistryEvent.Archive registry_id creator) s2)))))))"

definition registry_restore ::
  "('o, 'c) registry_config_scheme \<Rightarrow> 'o \<Rightarrow> ident \<Rightarrow> ident \<Rightarrow> 'm registry_storage_scheme
   \<Rightarrow> 'm registry_result" where
  "registry_restore T origin registry_id authorization s =
     and_then (registry_signed T origin) (\<lambda>creator.
     and_then (map_err Module (registry_ensure_authorization_restore_origin authorization creator s)) (\<lambda>auth_registry_id.
     and_then (ensure (auth_registry_id = registry_id) (Module RegistryError.UnauthorizedOperation)) (\<lambda>_.
     and_then (ok_or (RegistryInfo s registry_id) (Module RegistryError.RegistryNotFound)) (\<lambda>d.
     and_then (ensure (registry_archived d) (Module RegistryNotArchived)) (\<lambda>_.
     let s1 = registry_insert registry_id (d\<lparr>registry_archived := False\<rparr>) s
     in and_then (map_err Module (registry_update_activity T registry_id IdentifierTypeOf.Registries CallTypeOf.Restore s1)) (\<lambda>s2.
        Ok (registry_deposit_event (RegistryEvent.Restore registry_id creator) s2)))))))"

section \<open>Calls\<close>

datatype RegistryCall =
    AddRegistryDelegate ident account ident
  | AddRegistryAdminDelegate ident account ident
  | AddRegistryDelegator ident account ident
  | RemoveRegistryDelegate ident ident ident
  | CreateRegistry ident hash "ident option" "bytes option"
  | RevokeRegistry ident ident
  | ReinstateRegistry ident ident
  | UpdateRegistry ident hash "bytes option" ident
  | ArchiveRegistry ident ident
  | RestoreRegistry ident ident

fun registry_dispatch ::
  "('o, 'c) registry_config_scheme \<Rightarrow> 'o \<Rightarrow> RegistryCall \<Rightarrow> 'm registry_storage_scheme \<Rightarrow> 'm registry_result" where
  "registry_dispatch T origin (AddRegistryDelegate r d a) s = registry_add_delegate T origin r d a s"
| "registry_dispatch T origin (AddRegistryAdminDelegate r d a) s = registry_add_admin_delegate T origin r d a s"
| "registry_dispatch T origin (AddRegistryDelegator r d a) s = registry_add_delegator T origin r d a s"
| "registry_dispatch T origin (RemoveRegistryDelegate r x a) s = registry_remove_delegate T origin r x a s"
| "registry_dispatch T origin (CreateRegistry r h sc b) s = registry_create T origin r h sc b s"
| "registry_dispatch T origin (RevokeRegistry r a) s = registry_revoke T origin r a s"
| "registry_dispatch T origin (ReinstateRegistry r a) s = registry_reinstate T origin r a s"
| "registry_dispatch T origin (UpdateRegistry r h b a) s = registry_update T origin r h b a s"
| "registry_dispatch T origin (ArchiveRegistry r a) s = registry_archive T origin r a s"
| "registry_dispatch T origin (RestoreRegistry r a) s = registry_restore T origin r a s"

definition registry_genesis :: "'m registry_storage_scheme \<Rightarrow> bool" where
  "registry_genesis s \<longleftrightarrow> Identifiers s = Map.empty \<and> RegistryInfo s = Map.empty \<and>
     RegistryAuthorizations s = Map.empty \<and> RegistryDelegates s = (\<lambda>_. [])"

end
