(* ===== verification/Entries.thy ===== *)
theory Entries
  imports Registries
begin

text \<open>
  The entries pallet (\<^verbatim>\<open>pallets/entries/src\<close>): entries of a registry, created, updated, revoked and
  reinstated by those the registries pallet has authorized.
\<close>

section \<open>Types\<close>

record registry_entry_details =
  entry_digest :: hash
  entry_revoked :: bool
  entry_creator :: account
  entry_registry_id :: ident

datatype EntryError =
    InvalidIdentifierLength | InvalidRegistryEntryIdentifier | UnauthorizedOperation
  | RegistryEntryIdentifierAlreadyExists | RegistryEntryIdentifierDoesNotExist | RegistryEntryNotRevoked

datatype EntryEvent =
    RegistryEntryCreated account ident ident
  | RegistryEntryUpdated account ident
  | RegistryEntryRevoked account ident
  | RegistryEntryReinstated account ident

record entry_storage = registry_storage +
  RegistryEntries :: "ident \<Rightarrow> registry_entry_details option"
  entry_events :: "EntryEvent list"

record 'o entry_config = "'o registry_config" +
  MaxRegistryEntryBlobSize :: u32
  EntryMaxEncodedInputLength :: u32

type_synonym 'm entry_result = "('m entry_storage_scheme, (RegistryError + EntryError) dispatch_error) result"

section \<open>Internal functions\<close>

definition in_registry :: "('a, RegistryError) result \<Rightarrow> ('a, (RegistryError + 'e) dispatch_error) result" where
  "in_registry r = map_err (\<lambda>e. Module (Inl e)) r"

definition in_entries :: "('a, 'e) result \<Rightarrow> ('a, (RegistryError + 'e) dispatch_error) result" where
  "in_entries r = map_err (\<lambda>e. Module (Inr e)) r"

definition entry_deposit_event :: "EntryEvent \<Rightarrow> 'm entry_storage_scheme \<Rightarrow> 'm entry_storage_scheme" where
  "entry_deposit_event e s = s\<lparr>entry_events := entry_events s @ [e]\<rparr>"

definition entry_update_activity ::
  "'c identifier_config_scheme \<Rightarrow> ident \<Rightarrow> CallTypeOf \<Rightarrow> 'm identifier_storage_scheme
   \<Rightarrow> ('m identifier_storage_scheme, EntryError) result" where
  "entry_update_activity T = client_update_activity IdentifierTypeOf.Entries T"

definition entry_is_valid_ss58_format :: "'c frame_config_scheme \<Rightarrow> ident \<Rightarrow> bool" where
  "entry_is_valid_ss58_format T identifier =
     (case get_type T identifier of Ok id_type \<Rightarrow> id_type = IdentifierType.Entries | _ \<Rightarrow> False)"

definition entry_identifier ::
  "'c frame_config_scheme \<Rightarrow> hash \<Rightarrow> ident \<Rightarrow> account \<Rightarrow> (ident, EntryError) result" where
  "entry_identifier T digest registry_id creator =
     map_err (\<lambda>_. EntryError.InvalidIdentifierLength)
       (create_identifier T
         (encode_hash T (hashing T (encode_hash T digest @ encode_ident T registry_id @ encode_account T creator)))
         IdentifierType.Entries)"

section \<open>Extrinsics\<close>

definition entry_create ::
  "('o, 'c) entry_config_scheme \<Rightarrow> 'o \<Rightarrow> ident \<Rightarrow> ident \<Rightarrow> hash \<Rightarrow> bytes option \<Rightarrow> 'm entry_storage_scheme
   \<Rightarrow> 'm entry_result" where
  "entry_create T origin unused_registry_entry_id authorization digest unused_blob s =
     and_then (registry_signed T origin) (\<lambda>creator.
     and_then (in_registry (registry_ensure_authorization_origin authorization creator s)) (\<lambda>registry_id.
     and_then (in_entries (entry_identifier T digest registry_id creator)) (\<lambda>registry_entry_id.
     and_then (in_entries (ensure (RegistryEntries s registry_entry_id = None)
                 EntryError.RegistryEntryIdentifierAlreadyExists)) (\<lambda>_.
     let s1 = s\<lparr>RegistryEntries := (RegistryEntries s)(registry_entry_id \<mapsto>
                \<lparr>entry_digest = digest, entry_revoked = False, entry_creator = creator,
                 entry_registry_id = registry_id\<rparr>)\<rparr>
     in and_then (in_entries (entry_update_activity T registry_entry_id CallTypeOf.Genesis s1)) (\<lambda>s2.
        Ok (entry_deposit_event (RegistryEntryCreated creator registry_id registry_entry_id) s2))))))"

definition entry_update ::
  "('o, 'c) entry_config_scheme \<Rightarrow> 'o \<Rightarrow> ident \<Rightarrow> ident \<Rightarrow> hash \<Rightarrow> bytes option \<Rightarrow> 'm entry_storage_scheme
   \<Rightarrow> 'm entry_result" where
  "entry_update T origin registry_entry_id authorization digest unused_blob s =
     and_then (registry_signed T origin) (\<lambda>updater.
     and_then (in_registry (registry_ensure_authorization_origin authorization updater s)) (\<lambda>registry_id.
     and_then (in_entries (ok_or (RegistryEntries s registry_entry_id)
                 EntryError.RegistryEntryIdentifierDoesNotExist)) (\<lambda>entry.
     and_then (in_entries (ensure (entry_registry_id entry = registry_id) EntryError.UnauthorizedOperation)) (\<lambda>_.
     let s1 = s\<lparr>RegistryEntries := (RegistryEntries s)(registry_entry_id \<mapsto> entry\<lparr>entry_digest := digest\<rparr>)\<rparr>
     in and_then (in_entries (entry_update_activity T registry_entry_id CallTypeOf.Update s1)) (\<lambda>s2.
        Ok (entry_deposit_event (RegistryEntryUpdated updater registry_entry_id) s2))))))"

definition entry_revoke ::
  "('o, 'c) entry_config_scheme \<Rightarrow> 'o \<Rightarrow> ident \<Rightarrow> ident \<Rightarrow> 'm entry_storage_scheme \<Rightarrow> 'm entry_result" where
  "entry_revoke T origin registry_entry_id authorization s =
     and_then (registry_signed T origin) (\<lambda>updater.
     and_then (in_registry (registry_ensure_authorization_origin authorization updater s)) (\<lambda>registry_id.
     and_then (in_entries (ok_or (RegistryEntries s registry_entry_id)
                 EntryError.RegistryEntryIdentifierDoesNotExist)) (\<lambda>entry.
     and_then (in_entries (ensure (entry_registry_id entry = registry_id) EntryError.UnauthorizedOperation)) (\<lambda>_.
     let s1 = s\<lparr>RegistryEntries := (RegistryEntries s)(registry_entry_id \<mapsto> entry\<lparr>entry_revoked := True\<rparr>)\<rparr>
     in and_then (in_entries (entry_update_activity T registry_entry_id CallTypeOf.Revoke s1)) (\<lambda>s2.
        Ok (entry_deposit_event (RegistryEntryRevoked updater registry_entry_id) s2))))))"

definition entry_reinstate ::
  "('o, 'c) entry_config_scheme \<Rightarrow> 'o \<Rightarrow> ident \<Rightarrow> ident \<Rightarrow> 'm entry_storage_scheme \<Rightarrow> 'm entry_result" where
  "entry_reinstate T origin registry_entry_id authorization s =
     and_then (registry_signed T origin) (\<lambda>updater.
     and_then (in_registry (registry_ensure_authorization_origin authorization updater s)) (\<lambda>registry_id.
     and_then (in_entries (ok_or (RegistryEntries s registry_entry_id)
                 EntryError.RegistryEntryIdentifierDoesNotExist)) (\<lambda>entry.
     and_then (in_entries (ensure (entry_registry_id entry = registry_id) EntryError.UnauthorizedOperation)) (\<lambda>_.
     and_then (in_entries (ensure (entry_revoked entry) EntryError.RegistryEntryNotRevoked)) (\<lambda>_.
     let s1 = s\<lparr>RegistryEntries := (RegistryEntries s)(registry_entry_id \<mapsto> entry\<lparr>entry_revoked := False\<rparr>)\<rparr>
     in and_then (in_entries (entry_update_activity T registry_entry_id CallTypeOf.Reinstate s1)) (\<lambda>s2.
        Ok (entry_deposit_event (RegistryEntryReinstated updater registry_entry_id) s2)))))))"

section \<open>Calls\<close>

datatype EntryCall =
    CreateEntry ident ident hash "bytes option"
  | UpdateEntry ident ident hash "bytes option"
  | RevokeEntry ident ident
  | ReinstateEntry ident ident

fun entry_dispatch ::
  "('o, 'c) entry_config_scheme \<Rightarrow> 'o \<Rightarrow> EntryCall \<Rightarrow> 'm entry_storage_scheme \<Rightarrow> 'm entry_result" where
  "entry_dispatch T origin (CreateEntry i a h b) s = entry_create T origin i a h b s"
| "entry_dispatch T origin (UpdateEntry i a h b) s = entry_update T origin i a h b s"
| "entry_dispatch T origin (RevokeEntry i a) s = entry_revoke T origin i a s"
| "entry_dispatch T origin (ReinstateEntry i a) s = entry_reinstate T origin i a s"

end
