(* ===== verification/Registries_Properties.thy ===== *)
theory Registries_Properties
  imports Entries
begin

text \<open>
  The registries pallet as an authority for the entries pallet, the life cycle of a registry, the
  invariant of both pallets' storage, and their properties.
\<close>

section \<open>The check\<close>

definition live :: "registry_details \<Rightarrow> bool" where
  "live d \<longleftrightarrow> \<not> registry_archived d \<and> \<not> registry_revoked d"

definition registry_grant :: "u32 \<Rightarrow> 'm registry_storage_scheme \<Rightarrow> ident \<Rightarrow> (account \<times> ident) option" where
  "registry_grant p s a =
     (case RegistryAuthorizations s a of
        Some au \<Rightarrow> if contains (rauth_permissions au) p then Some (rauth_delegate au, rauth_registry_id au) else None
      | None \<Rightarrow> None)"

definition registry_usable :: "(registry_details \<Rightarrow> bool) \<Rightarrow> 'm registry_storage_scheme \<Rightarrow> ident \<Rightarrow> bool" where
  "registry_usable ok s r \<longleftrightarrow> (case RegistryInfo s r of Some d \<Rightarrow> ok d | None \<Rightarrow> False)"

lemma validate_registry_Ok_iff:
  "validate_registry_for_transaction r s = Ok u \<longleftrightarrow> registry_usable live s r"
  "validate_registry_for_restore_transaction r s = Ok u \<longleftrightarrow> registry_usable registry_archived s r"
  "validate_registry_for_reinstate_transaction r s = Ok u \<longleftrightarrow> registry_usable registry_revoked s r"
  by (auto simp: validate_registry_for_transaction_def validate_registry_for_restore_transaction_def
      validate_registry_for_reinstate_transaction_def registry_usable_def live_def split: option.splits if_splits)

lemma registry_ensure_Ok_iff:
  "registry_ensure_authorization_origin a who s = Ok r \<longleftrightarrow>
     registry_grant registry_ASSERT s a = Some (who, r) \<and> registry_usable live s r"
  "registry_ensure_authorization_admin_origin a who s = Ok r \<longleftrightarrow>
     registry_grant registry_ADMIN s a = Some (who, r) \<and> registry_usable live s r"
  "registry_ensure_authorization_admin_remove_origin a who s = Ok r \<longleftrightarrow>
     registry_grant registry_ADMIN s a = Some (who, r) \<and> registry_usable live s r"
  "registry_ensure_authorization_delegator_origin a who s = Ok r \<longleftrightarrow>
     registry_grant (registry_DELEGATE OR registry_ADMIN) s a = Some (who, r) \<and> registry_usable live s r"
  "registry_ensure_authorization_restore_origin a who s = Ok r \<longleftrightarrow>
     registry_grant registry_ADMIN s a = Some (who, r) \<and> registry_usable registry_archived s r"
  "registry_ensure_authorization_reinstate_origin a who s = Ok r \<longleftrightarrow>
     registry_grant registry_ADMIN s a = Some (who, r) \<and> registry_usable registry_revoked s r"
  by (auto simp: registry_ensure_authorization_origin_def registry_ensure_authorization_admin_origin_def
      registry_ensure_authorization_admin_remove_origin_def registry_ensure_authorization_delegator_origin_def
      registry_ensure_authorization_restore_origin_def registry_ensure_authorization_reinstate_origin_def
      validate_registry_Ok_iff registry_grant_def split: option.splits if_splits)

lemma contains_or: "contains p (q OR r) \<Longrightarrow> contains p r"
  by (auto simp: contains_def bit_eq_iff bit_and_iff bit_or_iff)

lemma registry_grant_delegator:
  "registry_grant (registry_DELEGATE OR registry_ADMIN) s a = Some x \<Longrightarrow> registry_grant registry_ADMIN s a = Some x"
  by (auto simp: registry_grant_def dest: contains_or split: option.splits if_splits)

text \<open>The check only reads; as a check with a state it returns the state it was given.\<close>

definition registry_check ::
  "ident \<Rightarrow> account \<Rightarrow> 'm registry_storage_scheme \<Rightarrow> (ident \<times> 'm registry_storage_scheme, RegistryError) result" where
  "registry_check a who s = and_then (registry_ensure_authorization_origin a who s) (\<lambda>r. Ok (r, s))"

lemma registry_check_Ok_iff:
  "registry_check a who s = Ok (r, s') \<longleftrightarrow>
     registry_grant registry_ASSERT s a = Some (who, r) \<and> registry_usable live s r \<and> s' = s"
  by (auto simp: registry_check_def registry_ensure_Ok_iff)

interpretation registry_assert: authority registry_check "registry_grant registry_ASSERT" "registry_usable live"
  by unfold_locales (auto simp: registry_check_Ok_iff)

lemma registry_signed_Ok_iff [simp]: "registry_signed T origin = Ok who \<longleftrightarrow> ensure_signed T origin = Some who"
  by (simp add: registry_signed_def)

section \<open>Frames\<close>

lemma registry_deposit_frame [simp]:
  "RegistryInfo (registry_deposit_event e s) = RegistryInfo s"
  "RegistryAuthorizations (registry_deposit_event e s) = RegistryAuthorizations s"
  "RegistryDelegates (registry_deposit_event e s) = RegistryDelegates s"
  "registry_storage.more (registry_deposit_event e s) = registry_storage.more s"
  by (simp_all add: registry_deposit_event_def)

lemma registry_insert_frame [simp]:
  "RegistryInfo (registry_insert r d s) = (RegistryInfo s)(r \<mapsto> d)"
  "RegistryAuthorizations (registry_insert r d s) = RegistryAuthorizations s"
  "RegistryDelegates (registry_insert r d s) = RegistryDelegates s"
  "registry_storage.more (registry_insert r d s) = registry_storage.more s"
  by (simp_all add: registry_insert_def)

lemma registry_activity_frame:
  assumes "registry_update_activity T i ty a s = Ok s'"
  shows "RegistryInfo s' = RegistryInfo s" "RegistryAuthorizations s' = RegistryAuthorizations s"
    and "RegistryDelegates s' = RegistryDelegates s" "registry_storage.more s' = registry_storage.more s"
  using client_update_activity_frame [OF assms [unfolded registry_update_activity_def]] by auto

section \<open>The life of a registry\<close>

inductive registry_life :: "registry_details \<Rightarrow> registry_details \<Rightarrow> bool" where
  redigest: "live d \<Longrightarrow> registry_life d (d\<lparr>registry_digest := h\<rparr>)"
| archive: "live d \<Longrightarrow> registry_life d (d\<lparr>registry_archived := True\<rparr>)"
| restore: "registry_archived d \<Longrightarrow> registry_life d (d\<lparr>registry_archived := False\<rparr>)"
| revoke: "live d \<Longrightarrow> registry_life d (d\<lparr>registry_revoked := True\<rparr>)"
| reinstate: "registry_revoked d \<Longrightarrow> registry_life d (d\<lparr>registry_revoked := False\<rparr>)"

inductive_simps registry_life_simps: "registry_life d d'"

text \<open>What a call does to the registries, their authorizations and their delegates.\<close>

inductive registry_effect ::
  "('o, 'c) registry_config_scheme \<Rightarrow> account \<Rightarrow> 'm registry_storage_scheme \<Rightarrow> 'm registry_storage_scheme \<Rightarrow> bool"
  for T who s s' where
  admin_write: "registry_grant registry_ADMIN s a = Some (who, r) \<Longrightarrow> RegistryInfo s r = Some d \<Longrightarrow>
    registry_life d d' \<Longrightarrow> RegistryInfo s' = (RegistryInfo s)(r \<mapsto> d') \<Longrightarrow>
    RegistryAuthorizations s' = RegistryAuthorizations s \<Longrightarrow> RegistryDelegates s' = RegistryDelegates s \<Longrightarrow>
    registry_effect T who s s'"
| delegation: "registry_grant registry_ADMIN s a = Some (who, r) \<Longrightarrow> registry_usable live s r \<Longrightarrow>
    RegistryInfo s' = RegistryInfo s \<Longrightarrow> RegistryAuthorizations s x = None \<Longrightarrow>
    RegistryAuthorizations s' = (RegistryAuthorizations s)(x \<mapsto>
      \<lparr>rauth_registry_id = r, rauth_delegate = d, rauth_permissions = p, rauth_delegator = who\<rparr>) \<Longrightarrow>
    length (RegistryDelegates s r) < unat (MaxRegistryDelegates T) \<Longrightarrow>
    RegistryDelegates s' = (RegistryDelegates s)(r := RegistryDelegates s r @ [d]) \<Longrightarrow>
    registry_effect T who s s'"
| removal: "registry_grant registry_ADMIN s a = Some (who, r) \<Longrightarrow> registry_usable live s r \<Longrightarrow> x \<noteq> a \<Longrightarrow>
    RegistryInfo s' = RegistryInfo s \<Longrightarrow> RegistryAuthorizations s x = Some au \<Longrightarrow>
    RegistryAuthorizations s' = (RegistryAuthorizations s)(x := None) \<Longrightarrow>
    rauth_delegate au \<in> set (RegistryDelegates s r) \<Longrightarrow>
    RegistryDelegates s' = (RegistryDelegates s)(r := remove1 (rauth_delegate au) (RegistryDelegates s r)) \<Longrightarrow>
    registry_effect T who s s'"
| creation: "registry_identifier T h who = Ok r \<Longrightarrow> RegistryInfo s r = None \<Longrightarrow>
    RegistryInfo s' = (RegistryInfo s)(r \<mapsto> \<lparr>registry_creator = who, registry_revoked = False,
      registry_archived = False, registry_digest = h, registry_schema_id = sc\<rparr>) \<Longrightarrow>
    RegistryAuthorizations s' = (RegistryAuthorizations s)(x \<mapsto>
      \<lparr>rauth_registry_id = r, rauth_delegate = who, rauth_permissions = registry_permissions_all, rauth_delegator = who\<rparr>) \<Longrightarrow>
    0 < unat (MaxRegistryDelegates T) \<Longrightarrow>
    RegistryDelegates s' = (RegistryDelegates s)(r := [who]) \<Longrightarrow> registry_effect T who s s'"

lemma registry_delegate_addition_OkE:
  assumes "registry_delegate_addition T r d who p s = Ok s'"
  obtains x where "RegistryAuthorizations s x = None" "RegistryInfo s' = RegistryInfo s"
    "RegistryAuthorizations s' = (RegistryAuthorizations s)(x \<mapsto>
      \<lparr>rauth_registry_id = r, rauth_delegate = d, rauth_permissions = p, rauth_delegator = who\<rparr>)"
    "length (RegistryDelegates s r) < unat (MaxRegistryDelegates T)"
    "RegistryDelegates s' = (RegistryDelegates s)(r := RegistryDelegates s r @ [d])"
    "registry_storage.more s' = registry_storage.more s"
  using assms by (auto simp: registry_delegate_addition_def Let_def registry_activity_frame intro: that)

lemma registry_writes:
  "registry_revoke T origin r a s = Ok s' \<Longrightarrow> \<exists>who. ensure_signed T origin = Some who \<and> registry_effect T who s s'"
  "registry_reinstate T origin r a s = Ok s' \<Longrightarrow> \<exists>who. ensure_signed T origin = Some who \<and> registry_effect T who s s'"
  "registry_update T origin r h b a s = Ok s' \<Longrightarrow> \<exists>who. ensure_signed T origin = Some who \<and> registry_effect T who s s'"
  "registry_archive T origin r a s = Ok s' \<Longrightarrow> \<exists>who. ensure_signed T origin = Some who \<and> registry_effect T who s s'"
  "registry_restore T origin r a s = Ok s' \<Longrightarrow> \<exists>who. ensure_signed T origin = Some who \<and> registry_effect T who s s'"
  by (auto simp: registry_revoke_def registry_reinstate_def registry_update_def registry_archive_def
      registry_restore_def registry_ensure_Ok_iff registry_usable_def Let_def registry_activity_frame
      intro!: admin_write registry_life.intros)

lemma registry_delegations:
  "registry_add_delegate T origin r d a s = Ok s' \<Longrightarrow> \<exists>who. ensure_signed T origin = Some who \<and> registry_effect T who s s'"
  "registry_add_admin_delegate T origin r d a s = Ok s' \<Longrightarrow> \<exists>who. ensure_signed T origin = Some who \<and> registry_effect T who s s'"
  "registry_add_delegator T origin r d a s = Ok s' \<Longrightarrow> \<exists>who. ensure_signed T origin = Some who \<and> registry_effect T who s s'"
  by (auto simp: registry_add_delegate_def registry_add_admin_delegate_def registry_add_delegator_def
      registry_ensure_Ok_iff elim!: registry_delegate_addition_OkE
      intro: delegation dest: registry_grant_delegator)

lemma registry_removal:
  assumes "registry_remove_delegate T origin r x a s = Ok s'"
  shows "\<exists>who. ensure_signed T origin = Some who \<and> registry_effect T who s s'"
proof -
  from assms obtain au k where
    au: "RegistryAuthorizations s x = Some au" "position (rauth_delegate au) (RegistryDelegates s r) = Some k"
    by (auto simp: registry_remove_delegate_def split: option.splits)
  have mem: "rauth_delegate au \<in> set (RegistryDelegates s r)"
    using position_Some [OF au(2)] by (metis nth_mem)
  from assms au obtain who where
    who: "ensure_signed T origin = Some who" "registry_grant registry_ADMIN s a = Some (who, r)"
      "registry_usable live s r" "x \<noteq> a"
    and s': "RegistryInfo s' = RegistryInfo s" "RegistryAuthorizations s' = (RegistryAuthorizations s)(x := None)"
      "RegistryDelegates s' = (RegistryDelegates s)(r := remove1 (rauth_delegate au) (RegistryDelegates s r))"
    by (auto simp: registry_remove_delegate_def registry_ensure_Ok_iff Let_def registry_activity_frame
        vec_remove_Ok_iff position_remove1)
  from removal [OF who(2-4) s'(1) au(1) s'(2) mem s'(3)] who(1) show ?thesis by blast
qed

lemma registry_creation:
  "registry_create T origin r h sc b s = Ok s' \<Longrightarrow> \<exists>who. ensure_signed T origin = Some who \<and> registry_effect T who s s'"
  by (auto simp: registry_create_def Let_def registry_activity_frame intro!: creation)

lemma registry_dispatch_effect:
  "registry_dispatch T origin c s = Ok s' \<Longrightarrow> \<exists>who. ensure_signed T origin = Some who \<and> registry_effect T who s s'"
  by (cases c) (auto dest: registry_writes registry_delegations registry_removal registry_creation)

section \<open>The system of both pallets\<close>

inductive entry_step ::
  "('o, 'c) entry_config_scheme \<Rightarrow> 'm entry_storage_scheme \<Rightarrow> 'm entry_storage_scheme \<Rightarrow> bool" for T where
  call: "entry_dispatch T origin c s = Ok s' \<Longrightarrow> entry_step T s s'"
| registry: "registry_dispatch T origin c s = Ok s' \<Longrightarrow> entry_step T s s'"
| tick: "entry_step T s (s\<lparr>block_number := n, extrinsic_index := x\<rparr>)"

definition entry_genesis :: "'m entry_storage_scheme \<Rightarrow> bool" where
  "entry_genesis s \<longleftrightarrow> registry_genesis s \<and> RegistryEntries s = Map.empty"

lemma entry_frame [simp]:
  "RegistryEntries (entry_deposit_event e s) = RegistryEntries s"
  "RegistryInfo (entry_deposit_event e s) = RegistryInfo s"
  "RegistryAuthorizations (entry_deposit_event e s) = RegistryAuthorizations s"
  "RegistryDelegates (entry_deposit_event e s) = RegistryDelegates s"
  by (simp_all add: entry_deposit_event_def)

lemma entry_activity_frame:
  assumes "entry_update_activity T i a s = Ok s'"
  shows "RegistryEntries s' = RegistryEntries s" "RegistryInfo s' = RegistryInfo s"
    and "RegistryAuthorizations s' = RegistryAuthorizations s" "RegistryDelegates s' = RegistryDelegates s"
  using client_update_activity_frame [OF assms [unfolded entry_update_activity_def]] by auto

lemma in_registry_Ok_iff [simp]: "in_registry r = Ok x \<longleftrightarrow> r = Ok x"
  by (simp add: in_registry_def)

lemma in_entries_Ok_iff [simp]: "in_entries r = Ok x \<longleftrightarrow> r = Ok x"
  by (simp add: in_entries_def)

text \<open>The authorization a call is made with.\<close>

fun entry_auth_of :: "EntryCall \<Rightarrow> ident" where
  "entry_auth_of (CreateEntry i a h b) = a"
| "entry_auth_of (UpdateEntry i a h b) = a"
| "entry_auth_of (RevokeEntry i a) = a"
| "entry_auth_of (ReinstateEntry i a) = a"

text \<open>What a call does: it writes one entry of the registry its authorization is for.\<close>

inductive entry_effect ::
  "account \<Rightarrow> ident \<Rightarrow> 'm entry_storage_scheme \<Rightarrow> 'm entry_storage_scheme \<Rightarrow> bool" for who a s s' where
  change: "registry_grant registry_ASSERT s a = Some (who, entry_registry_id e) \<Longrightarrow>
    registry_usable live s (entry_registry_id e) \<Longrightarrow> RegistryEntries s i = Some e \<Longrightarrow>
    RegistryEntries s' = (RegistryEntries s)(i \<mapsto> e') \<Longrightarrow>
    entry_registry_id e' = entry_registry_id e \<Longrightarrow> entry_creator e' = entry_creator e \<Longrightarrow>
    RegistryInfo s' = RegistryInfo s \<Longrightarrow> RegistryAuthorizations s' = RegistryAuthorizations s \<Longrightarrow>
    RegistryDelegates s' = RegistryDelegates s \<Longrightarrow> entry_effect who a s s'"
| new: "registry_grant registry_ASSERT s a = Some (who, r) \<Longrightarrow> registry_usable live s r \<Longrightarrow>
    RegistryEntries s i = None \<Longrightarrow>
    RegistryEntries s' = (RegistryEntries s)(i \<mapsto>
      \<lparr>entry_digest = h, entry_revoked = False, entry_creator = who, entry_registry_id = r\<rparr>) \<Longrightarrow>
    RegistryInfo s' = RegistryInfo s \<Longrightarrow> RegistryAuthorizations s' = RegistryAuthorizations s \<Longrightarrow>
    RegistryDelegates s' = RegistryDelegates s \<Longrightarrow> entry_effect who a s s'"

lemma entry_create_effect:
  "entry_create T origin i a h b s = Ok s' \<Longrightarrow> \<exists>who. ensure_signed T origin = Some who \<and> entry_effect who a s s'"
  by (auto simp: entry_create_def registry_ensure_Ok_iff Let_def)
    (rule entry_effect.new, assumption+, simp_all add: entry_activity_frame)

lemma entry_write_effect:
  assumes "entry_update T origin i a h b s = Ok s' \<or> entry_revoke T origin i a s = Ok s' \<or>
    entry_reinstate T origin i a s = Ok s'"
  shows "\<exists>who. ensure_signed T origin = Some who \<and> entry_effect who a s s'"
proof -
  from assms obtain who e e' where
    "ensure_signed T origin = Some who" "registry_grant registry_ASSERT s a = Some (who, entry_registry_id e)"
    "registry_usable live s (entry_registry_id e)" "RegistryEntries s i = Some e"
    "RegistryEntries s' = (RegistryEntries s)(i \<mapsto> e')" "entry_registry_id e' = entry_registry_id e"
    "entry_creator e' = entry_creator e" "RegistryInfo s' = RegistryInfo s"
    "RegistryAuthorizations s' = RegistryAuthorizations s" "RegistryDelegates s' = RegistryDelegates s"
    by (fastforce simp: entry_update_def entry_revoke_def entry_reinstate_def registry_ensure_Ok_iff
        Let_def entry_activity_frame)
  then show ?thesis by (blast intro: entry_effect.change)
qed

lemma entry_dispatch_effect:
  assumes "entry_dispatch T origin c s = Ok s'"
  shows "\<exists>who. ensure_signed T origin = Some who \<and> entry_effect who (entry_auth_of c) s s'"
proof (cases c)
  case (CreateEntry i a h b)
  with assms show ?thesis using entry_create_effect [of T origin i a h b s s'] by simp
next
  case (UpdateEntry i a h b)
  with assms show ?thesis using entry_write_effect [of T origin i a h b s s'] by simp
next
  case (RevokeEntry i a)
  with assms show ?thesis using entry_write_effect [of T origin i a _ _ s s'] by simp
next
  case (ReinstateEntry i a)
  with assms show ?thesis using entry_write_effect [of T origin i a _ _ s s'] by simp
qed

definition registry_wf :: "('o, 'c) registry_config_scheme \<Rightarrow> 'm registry_storage_scheme \<Rightarrow> bool" where
  "registry_wf T s \<longleftrightarrow>
     (\<forall>r d. RegistryInfo s r = Some d \<longrightarrow> \<not> (registry_archived d \<and> registry_revoked d)) \<and>
     (\<forall>a au. RegistryAuthorizations s a = Some au \<longrightarrow> RegistryInfo s (rauth_registry_id au) \<noteq> None) \<and>
     (\<forall>r. length (RegistryDelegates s r) \<le> unat (MaxRegistryDelegates T)) \<and>
     (\<forall>r. RegistryInfo s r = None \<longrightarrow> RegistryDelegates s r = [])"

lemma registry_wf_effect:
  assumes "registry_effect T who s s'" "registry_wf T s"
  shows "registry_wf T s'"
  using assms
proof cases
  case (admin_write a r d d')
  with assms(2) show ?thesis by (auto simp: registry_wf_def registry_life_simps live_def)
next
  case (delegation a r x d p)
  with assms(2) show ?thesis by (auto simp: registry_wf_def registry_usable_def split: option.splits)
next
  case (removal a r x au)
  have "length (remove1 (rauth_delegate au) (RegistryDelegates s r)) \<le> length (RegistryDelegates s r)"
    by (simp add: length_remove1)
  with removal assms(2) show ?thesis
    unfolding registry_wf_def by (auto simp: registry_usable_def intro: order_trans split: option.splits)
next
  case (creation h r sc x)
  with assms(2) show ?thesis by (auto simp: registry_wf_def)
qed

lemma registry_wf_cong:
  "RegistryInfo s' = RegistryInfo s \<Longrightarrow> RegistryAuthorizations s' = RegistryAuthorizations s \<Longrightarrow>
   RegistryDelegates s' = RegistryDelegates s \<Longrightarrow> registry_wf T s' = registry_wf T s"
  by (simp add: registry_wf_def)

interpretation registry_inv: invariant_system entry_genesis "entry_step T" "registry_wf T" for T
proof (unfold_locales, goal_cases)
  case (1 s)
  then show ?case by (simp add: entry_genesis_def registry_genesis_def registry_wf_def)
next
  case (2 s t)
  from this(2) show ?case
  proof cases
    case (call origin c)
    with 2(1) show ?thesis
      by (auto dest!: entry_dispatch_effect simp: registry_wf_cong [of t s] elim: entry_effect.cases)
  next
    case (registry origin c)
    with 2(1) show ?thesis by (auto dest!: registry_dispatch_effect intro: registry_wf_effect)
  next
    case (tick n x)
    with 2(1) show ?thesis by (simp add: registry_wf_def)
  qed
qed

text \<open>The entries held for a registry, and the entries pallet as a client of the registries.\<close>

definition entry_view :: "'m entry_storage_scheme \<Rightarrow> ident \<Rightarrow> ident \<Rightarrow> registry_entry_details option" where
  "entry_view s r i = (case RegistryEntries s i of
     Some e \<Rightarrow> if entry_registry_id e = r then Some e else None | None \<Rightarrow> None)"

lemma entry_effect_view:
  "entry_effect who a s s' \<Longrightarrow>
   \<exists>r. registry_grant registry_ASSERT s a = Some (who, r) \<and> registry_usable live s r \<and>
     (\<forall>r'. r' \<noteq> r \<longrightarrow> entry_view s' r' = entry_view s r')"
  by (erule entry_effect.cases) (auto simp: entry_view_def fun_eq_iff split: option.split)

interpretation entry_client: checked_client registry_check "registry_grant registry_ASSERT" "registry_usable live"
  "\<lambda>(origin, c). entry_dispatch T origin c" "\<lambda>(origin, c). entry_auth_of c"
  "\<lambda>(origin, c). ensure_signed T origin" entry_view "\<lambda>_. True" for T
proof (unfold_locales, goal_cases)
  case (1 s oc s')
  then show ?case
    by (cases oc) (auto dest!: entry_dispatch_effect entry_effect_view simp: registry_check_Ok_iff)
qed simp

section \<open>Properties\<close>

text \<open>In every storage the two pallets can reach, no registry is archived and revoked at once, every
  authorization is for an existing registry, no registry has more delegates than allowed, and there
  are no delegates without a registry.\<close>

theorem registry_reachable_wf:
  assumes "reachable entry_genesis (entry_step T) s"
  shows "(\<forall>r d. RegistryInfo s r = Some d \<longrightarrow> \<not> (registry_archived d \<and> registry_revoked d)) \<and>
     (\<forall>a au. RegistryAuthorizations s a = Some au \<longrightarrow> RegistryInfo s (rauth_registry_id au) \<noteq> None) \<and>
     (\<forall>r. length (RegistryDelegates s r) \<le> unat (MaxRegistryDelegates T)) \<and>
     (\<forall>r. RegistryInfo s r = None \<longrightarrow> RegistryDelegates s r = [])"
  using registry_inv.inv_reachable [OF assms] by (simp add: registry_wf_def)

definition sample_entry_config :: "account entry_config" where
  "sample_entry_config = \<lparr>overflow_checks = True, hashing = sample_hash, encode_hash = id,
     encode_account = id, encode_ident = id, encode_vec = id, blake2b_64 = sample_hash,
     bs58_encode = halves, bs58_decode = unhalves, MaxEventsHistory = 6,
     ensure_signed = Some, MaxRegistryDelegates = 3, MaxRegistryBlobSize = 10,
     RegistryMaxEncodedInputLength = 10, MaxRegistryEntryBlobSize = 10, EntryMaxEncodedInputLength = 10\<rparr>"

lemma sample_entry_config_simps [simp]:
  "MaxEventsHistory sample_entry_config = 6" "ensure_signed sample_entry_config = Some"
  "MaxRegistryDelegates sample_entry_config = 3"
  by (simp_all add: sample_entry_config_def)

definition blank_entries :: entry_storage where
  "blank_entries = \<lparr>block_number = 4, extrinsic_index = Some 1, Identifiers = Map.empty,
     RegistryInfo = Map.empty, RegistryAuthorizations = Map.empty, RegistryDelegates = (\<lambda>_. []),
     registry_events = [], RegistryEntries = Map.empty, entry_events = []\<rparr>"

definition sample_registry :: ident where
  "sample_registry = unwrap_or [] (registry_identifier sample_entry_config [61] [2])"

definition sample_registry_auth :: ident where
  "sample_registry_auth = unwrap_or [] (registry_authorization_identifier sample_entry_config sample_registry [2] [2])"

definition sample_registry_delegation :: ident where
  "sample_registry_delegation =
     unwrap_or [] (registry_authorization_identifier sample_entry_config sample_registry [5] [2])"

definition sample_entry :: ident where
  "sample_entry = unwrap_or [] (entry_identifier sample_entry_config [62] sample_registry [5])"

lemma registry_identifiers:
  "registry_identifier sample_entry_config [61] [2] = Ok sample_registry"
  "registry_authorization_identifier sample_entry_config sample_registry [2] [2] = Ok sample_registry_auth"
  "registry_authorization_identifier sample_entry_config sample_registry [5] [2] = Ok sample_registry_delegation"
  "entry_identifier sample_entry_config [62] sample_registry [5] = Ok sample_entry"
  by code_simp+

lemma registry_identifiers_distinct:
  "sample_registry_auth \<noteq> sample_registry_delegation" "sample_registry_delegation \<noteq> sample_registry_auth"
  by code_simp+

fun entry_system_call ::
  "account \<times> (RegistryCall + EntryCall) \<Rightarrow> entry_storage \<Rightarrow> (entry_storage, (RegistryError + EntryError) dispatch_error) result" where
  "entry_system_call (origin, Inl c) s = map_err (\<lambda>_. BadOrigin) (registry_dispatch sample_entry_config origin c s)"
| "entry_system_call (origin, Inr c) s = entry_dispatch sample_entry_config origin c s"

definition entry_calls :: "(account \<times> (RegistryCall + EntryCall)) list" where
  "entry_calls = [([2], Inl (CreateRegistry [] [61] None None)),
     ([2], Inl (AddRegistryDelegate sample_registry [5] sample_registry_auth)),
     ([5], Inr (CreateEntry [] sample_registry_delegation [62] None))]"

definition entry_run :: entry_storage where
  "entry_run = unwrap_or blank_entries (run_all entry_system_call entry_calls blank_entries)"

lemma registry_contains [simp]:
  "contains registry_ASSERT registry_ASSERT" "contains registry_permissions_all registry_ASSERT"
  "contains registry_permissions_all registry_ADMIN"
  "contains registry_permissions_all (registry_DELEGATE OR registry_ADMIN)"
  by (simp_all add: contains_def registry_permissions_all_def registry_ASSERT_def registry_DELEGATE_def registry_ADMIN_def)

lemmas entry_run_simps = entry_calls_def blank_entries_def registry_create_def registry_add_delegate_def
  registry_ensure_authorization_delegator_origin_def registry_ensure_authorization_origin_def
  validate_registry_for_transaction_def registry_delegate_addition_def registry_signed_def
  registry_update_activity_def registry_deposit_event_def entry_create_def entry_update_activity_def
  entry_deposit_event_def client_update_activity_def update_timeline_def timepoint_now_def try_push_def
  in_registry_def in_entries_def registry_identifiers registry_identifiers_distinct

lemma entry_run_Ok: "is_Ok (run_all entry_system_call entry_calls blank_entries)"
  by (simp add: entry_run_simps Let_def cong: and_then_weak_cong)

lemma entry_run_eq: "run_all entry_system_call entry_calls blank_entries = Ok entry_run"
  unfolding entry_run_def by (rule is_Ok_unwrap [OF entry_run_Ok])

lemma entry_run_timelines: "timelines_ok sample_entry_config entry_run"
  by (simp add: entry_run_def entry_run_simps timelines_ok_def timeline_def Let_def cong: and_then_weak_cong)

lemma entry_run_views:
  "RegistryDelegates entry_run sample_registry = [[2], [5]]"
  "RegistryEntries entry_run sample_entry = Some \<lparr>entry_digest = [62], entry_revoked = False,
     entry_creator = [5], entry_registry_id = sample_registry\<rparr>"
  "registry_grant registry_ASSERT entry_run sample_registry_delegation = Some ([5], sample_registry)"
  "registry_usable live entry_run sample_registry"
  by (simp_all add: entry_run_def entry_run_simps registry_grant_def registry_usable_def live_def Let_def
      cong: and_then_weak_cong)

lemma entry_run_reachable: "reachable entry_genesis (entry_step sample_entry_config) entry_run"
  unfolding entry_run_def
proof (rule reachable_run_all [OF _ _ is_Ok_unwrap [OF entry_run_Ok]])
  show "reachable entry_genesis (entry_step sample_entry_config) blank_entries"
    by (rule reach_init) (simp add: entry_genesis_def registry_genesis_def blank_entries_def)
next
  fix oc s t
  assume "entry_system_call oc s = Ok t"
  then show "entry_step sample_entry_config s t"
    by (cases "(oc, s)" rule: entry_system_call.cases) (auto intro: entry_step.call entry_step.registry)
qed

theorem registry_reachable_wf_witness:
  "RegistryDelegates entry_run sample_registry = [[2], [5]] \<and> RegistryInfo entry_run sample_registry \<noteq> None \<and>
   length (RegistryDelegates entry_run sample_registry) \<le> 3"
  using registry_reachable_wf [OF entry_run_reachable] entry_run_views(1) by fastforce

text \<open>C17: every call takes each registry through a step of its life cycle (a new digest, archive, restore,
  revoke, reinstate, each only from the state it starts in) or leaves it as it is; only a signed
  holder of an \<^verbatim>\<open>ADMIN\<close> authorization for that registry moves it, and no call removes one. This goes for restore and
  reinstate too, of which a comment in the code says that they check \<^verbatim>\<open>ASSERT\<close>.\<close>

theorem registry_refines_life:
  assumes "registry_dispatch T origin c s = Ok s'" "RegistryInfo s r = Some d"
  shows "\<exists>d'. RegistryInfo s' r = Some d' \<and>
     (d' = d \<or> registry_life d d' \<and>
        (\<exists>a who. ensure_signed T origin = Some who \<and> registry_grant registry_ADMIN s a = Some (who, r)))"
proof -
  from registry_dispatch_effect [OF assms(1)] obtain who where
    who: "ensure_signed T origin = Some who" and eff: "registry_effect T who s s'"
    by blast
  from eff assms(2) show ?thesis by cases (auto simp: who)
qed

theorem registry_refines_life_witness:
  "\<exists>s' d d'. registry_archive sample_entry_config [2] sample_registry sample_registry_auth entry_run = Ok s' \<and>
     RegistryInfo entry_run sample_registry = Some d \<and> RegistryInfo s' sample_registry = Some d' \<and>
     registry_archived d' \<and> registry_life d d'"
proof -
  have "is_Ok (and_then (run_all entry_system_call entry_calls blank_entries)
     (\<lambda>s. map_err (\<lambda>_. BadOrigin) (registry_archive sample_entry_config [2] sample_registry sample_registry_auth s)))"
    by (simp add: entry_run_simps registry_archive_def registry_ensure_authorization_admin_origin_def
        registry_insert_def Let_def cong: and_then_weak_cong)
  from is_Ok_unwrap [OF this, of blank_entries]
  obtain s' where s': "registry_archive sample_entry_config [2] sample_registry sample_registry_auth entry_run = Ok s'"
    unfolding entry_run_eq by auto
  obtain d where d: "RegistryInfo entry_run sample_registry = Some d" "\<not> registry_archived d"
    using entry_run_views(4) by (auto simp: registry_usable_def live_def split: option.splits)
  from s' d have "RegistryInfo s' sample_registry = Some (d\<lparr>registry_archived := True\<rparr>)"
    by (auto simp: registry_archive_def Let_def registry_activity_frame)
  with registry_refines_life [of sample_entry_config "[2]" "ArchiveRegistry sample_registry sample_registry_auth" entry_run s', OF _ d(1)]
    s' d show ?thesis by (cases d) auto
qed

lemma entry_revoke_total:
  assumes "timelines_ok T s" "ensure_signed T origin = Some who"
    and "registry_grant registry_ASSERT s a = Some (who, entry_registry_id e)"
    and "registry_usable live s (entry_registry_id e)" "RegistryEntries s i = Some e"
  shows "\<exists>s'. entry_revoke T origin i a s = Ok s' \<and> timelines_ok T s' \<and>
     RegistryEntries s' = (RegistryEntries s)(i \<mapsto> e\<lparr>entry_revoked := True\<rparr>) \<and>
     RegistryInfo s' = RegistryInfo s \<and> RegistryAuthorizations s' = RegistryAuthorizations s"
proof -
  let ?u = "s\<lparr>RegistryEntries := (RegistryEntries s)(i \<mapsto> e\<lparr>entry_revoked := True\<rparr>)\<rparr>"
  have "timelines_ok T ?u" using assms(1) by (simp add: timelines_ok_def timeline_def)
  from client_update_activity_ok [OF this] obtain m where
    m: "entry_update_activity T i CallTypeOf.Revoke ?u = Ok (?u\<lparr>Identifiers := m\<rparr>)" "timelines_ok T (?u\<lparr>Identifiers := m\<rparr>)"
    unfolding entry_update_activity_def by blast
  have "registry_ensure_authorization_origin a who s = Ok (entry_registry_id e)"
    using assms(3,4) by (simp add: registry_ensure_Ok_iff)
  with assms m show ?thesis
    by (simp add: entry_revoke_def Let_def entry_deposit_event_def timelines_ok_def timeline_def)
qed

text \<open>C39: what is held for a registry changes along a run of calls only if one of the calls was signed
  by the holder of an \<^verbatim>\<open>ASSERT\<close> authorization for that very registry, which was neither archived nor
  revoked at that moment.\<close>

theorem entry_isolation:
  assumes "run_all (\<lambda>(origin, c). entry_dispatch T origin c) cs s = Ok s'" "entry_view s' r \<noteq> entry_view s r"
  shows "\<exists>cs1 origin c cs2 t who. cs = cs1 @ (origin, c) # cs2 \<and>
     run_all (\<lambda>(origin, c). entry_dispatch T origin c) cs1 s = Ok t \<and> ensure_signed T origin = Some who \<and>
     registry_grant registry_ASSERT t (entry_auth_of c) = Some (who, r) \<and> registry_usable live t r"
proof -
  from entry_client.run_change_needs_grant [OF TrueI assms] obtain cs1 oc cs2 t who where
    "cs = cs1 @ oc # cs2" "run_all (\<lambda>(origin, c). entry_dispatch T origin c) cs1 s = Ok t"
    "(case oc of (origin, c) \<Rightarrow> ensure_signed T origin) = Some who"
    "registry_grant registry_ASSERT t (case oc of (origin, c) \<Rightarrow> entry_auth_of c) = Some (who, r)"
    "registry_usable live t r"
    by blast
  then show ?thesis by (cases oc) fastforce
qed

theorem entry_isolation_witness:
  "\<exists>s'. run_all (\<lambda>(origin, c). entry_dispatch sample_entry_config origin c)
       [([5], RevokeEntry sample_entry sample_registry_delegation)] entry_run = Ok s' \<and>
     (\<exists>cs1 origin c cs2 t who.
        [([5], RevokeEntry sample_entry sample_registry_delegation)] = cs1 @ (origin, c) # cs2 \<and>
        run_all (\<lambda>(origin, c). entry_dispatch sample_entry_config origin c) cs1 entry_run = Ok t \<and>
        ensure_signed sample_entry_config origin = Some who \<and>
        registry_grant registry_ASSERT t (entry_auth_of c) = Some (who, sample_registry) \<and>
        registry_usable live t sample_registry)"
proof -
  from entry_revoke_total [OF entry_run_timelines, of "[5]" "[5]" sample_registry_delegation _ sample_entry] entry_run_views
  obtain s' where s': "entry_revoke sample_entry_config [5] sample_entry sample_registry_delegation entry_run = Ok s'"
    "map_option entry_revoked (RegistryEntries s' sample_entry) = Some True"
    by fastforce
  have "entry_view s' sample_registry sample_entry \<noteq> entry_view entry_run sample_registry sample_entry"
    using s'(2) by (auto simp: entry_view_def entry_run_views(2) split: if_splits)
  then have v: "entry_view s' sample_registry \<noteq> entry_view entry_run sample_registry" by auto
  have r: "run_all (\<lambda>(origin, c). entry_dispatch sample_entry_config origin c)
       [([5], RevokeEntry sample_entry sample_registry_delegation)] entry_run = Ok s'"
    using s'(1) by simp
  from r entry_isolation [OF r v] show ?thesis by blast
qed

text \<open>Revoking an entry and reinstating it brings it back exactly: whoever may revoke an entry that is
  not revoked may reinstate it right after, and then every entry is as before.\<close>

theorem entry_revoke_reinstate_roundtrip:
  assumes "timelines_ok T s" "ensure_signed T origin = Some who"
    and "registry_grant registry_ASSERT s a = Some (who, entry_registry_id e)"
    and "registry_usable live s (entry_registry_id e)" "RegistryEntries s i = Some e" "\<not> entry_revoked e"
  shows "\<exists>s1 s2. entry_revoke T origin i a s = Ok s1 \<and> entry_reinstate T origin i a s1 = Ok s2 \<and>
     map_option entry_revoked (RegistryEntries s1 i) = Some True \<and> RegistryEntries s2 = RegistryEntries s"
proof -
  from entry_revoke_total [OF assms(1-5)] obtain s1 where
    s1: "entry_revoke T origin i a s = Ok s1" "timelines_ok T s1"
      "RegistryEntries s1 = (RegistryEntries s)(i \<mapsto> e\<lparr>entry_revoked := True\<rparr>)"
      "RegistryInfo s1 = RegistryInfo s" "RegistryAuthorizations s1 = RegistryAuthorizations s"
    by blast
  have same: "e\<lparr>entry_revoked := False\<rparr> = e" "(RegistryEntries s)(i \<mapsto> e) = RegistryEntries s"
    using assms(5,6) by auto
  let ?u = "s1\<lparr>RegistryEntries := RegistryEntries s\<rparr>"
  have "timelines_ok T ?u" using s1(2) by (simp add: timelines_ok_def timeline_def)
  from client_update_activity_ok [OF this] obtain m where
    m: "entry_update_activity T i CallTypeOf.Reinstate ?u = Ok (?u\<lparr>Identifiers := m\<rparr>)"
    unfolding entry_update_activity_def by blast
  have "registry_ensure_authorization_origin a who s1 = Ok (entry_registry_id e)"
    using assms(3,4) s1(4,5) by (simp add: registry_ensure_Ok_iff registry_grant_def registry_usable_def)
  with assms(2) s1 m same show ?thesis
    by (simp add: entry_reinstate_def Let_def entry_deposit_event_def)
qed

theorem entry_revoke_reinstate_roundtrip_witness:
  "\<exists>s1 s2. entry_revoke sample_entry_config [5] sample_entry sample_registry_delegation entry_run = Ok s1 \<and>
     entry_reinstate sample_entry_config [5] sample_entry sample_registry_delegation s1 = Ok s2 \<and>
     map_option entry_revoked (RegistryEntries s1 sample_entry) = Some True \<and>
     RegistryEntries s2 = RegistryEntries entry_run"
  using entry_revoke_reinstate_roundtrip [OF entry_run_timelines, of "[5]" "[5]" sample_registry_delegation
      "the (RegistryEntries entry_run sample_entry)" sample_entry] entry_run_views
  by simp

end
