(* ===== verification/Network_Membership.thy ===== *)
theory Network_Membership
  imports Frame
begin

text \<open>
  The network-membership pallet (\<^verbatim>\<open>pallets/network-membership/src\<close>): the accounts that may send
  transactions, with memberships that expire at a block unless a renewal was requested before. The
  provider counters of \<^verbatim>\<open>frame_system\<close> are outside the repository: how they are counted is a
  parameter of the model.

  Shown: the expiry lists agree with the members; a membership that was scheduled and is neither
  renewed nor revoked ends at its block; a membership without expiry can never be ended.
\<close>

section \<open>Types\<close>

record member_data =
  expire_on :: u32

datatype MembershipEvent =
    MembershipAcquired account
  | MembershipExpired account
  | MembershipRenewed account
  | MembershipRevoked account
  | MembershipRenewalRequested account

datatype MembershipError =
    MembershipNotFound | MembershipAlreadyAcquired | MembershipRenewalAlreadyRequested
  | OriginNotAuthorized | MembershipRequestRejected | MembershipExpired | MaxMembersExceededForTheBlock

text \<open>\<open>Members\<close> is a counted map: the number of its keys is kept beside it.\<close>

record membership_storage = frame_system +
  Members :: "account \<Rightarrow> member_data option"
  Members_counter :: u32
  MembershipsExpiresOn :: "u32 \<Rightarrow> account list"
  MembershipsRenewsOn :: "account \<Rightarrow> unit option"
  MembershipBlacklist :: "account \<Rightarrow> unit option"
  provider_refs :: "account \<Rightarrow> nat"
  membership_events :: "MembershipEvent list"

record 'o membership_config = frame_config +
  NetworkMembershipOrigin :: "'o \<Rightarrow> bool"
  MembershipPeriod :: u32
  MaxMembersPerBlock :: u32
  inc_providers :: "account \<Rightarrow> (account \<Rightarrow> nat) \<Rightarrow> account \<Rightarrow> nat"
  dec_providers :: "account \<Rightarrow> (account \<Rightarrow> nat) \<Rightarrow> account \<Rightarrow> nat"

type_synonym 'm membership_result = "('m membership_storage_scheme, MembershipError dispatch_error) result"

section \<open>Internal functions\<close>

definition membership_deposit_event ::
  "MembershipEvent \<Rightarrow> 'm membership_storage_scheme \<Rightarrow> 'm membership_storage_scheme" where
  "membership_deposit_event e s = s\<lparr>membership_events := membership_events s @ [e]\<rparr>"

definition members_insert ::
  "account \<Rightarrow> member_data \<Rightarrow> 'm membership_storage_scheme \<Rightarrow> 'm membership_storage_scheme" where
  "members_insert member d s = s\<lparr>Members := (Members s)(member \<mapsto> d),
     Members_counter := (if Members s member = None then saturating_add (Members_counter s) 1 else Members_counter s)\<rparr>"

definition members_remove :: "account \<Rightarrow> 'm membership_storage_scheme \<Rightarrow> 'm membership_storage_scheme" where
  "members_remove member s = s\<lparr>Members := (Members s)(member := None),
     Members_counter := (if Members s member = None then Members_counter s else saturating_sub (Members_counter s) 1)\<rparr>"

text \<open>The result of the bounded push is dropped: a full list is left as it is.\<close>

definition schedule_expiry ::
  "('o, 'c) membership_config_scheme \<Rightarrow> u32 \<Rightarrow> account \<Rightarrow> 'm membership_storage_scheme \<Rightarrow> 'm membership_storage_scheme" where
  "schedule_expiry T expire member s =
     (case try_push (unat (MaxMembersPerBlock T)) (MembershipsExpiresOn s expire) member of
        Some members \<Rightarrow> s\<lparr>MembershipsExpiresOn := (MembershipsExpiresOn s)(expire := members)\<rparr>
      | None \<Rightarrow> s)"

definition add_member_and_schedule_expiry ::
  "('o, 'c) membership_config_scheme \<Rightarrow> account \<Rightarrow> bool \<Rightarrow> 'm membership_storage_scheme
   \<Rightarrow> 'm membership_result" where
  "add_member_and_schedule_expiry T member expires s =
     (if expires
      then and_then (plain_add (overflow_checks T) (block_number s) (MembershipPeriod T)) (\<lambda>expire.
           let s1 = members_insert member \<lparr>expire_on = expire\<rparr> s;
               s2 = s1\<lparr>provider_refs := inc_providers T member (provider_refs s1)\<rparr>
           in Ok (schedule_expiry T expire member s2))
      else let s1 = members_insert member \<lparr>expire_on = 0\<rparr> s
           in Ok (s1\<lparr>provider_refs := inc_providers T member (provider_refs s1)\<rparr>))"

definition renew_membership_and_schedule_expiry ::
  "('o, 'c) membership_config_scheme \<Rightarrow> account \<Rightarrow> u32 \<Rightarrow> 'm membership_storage_scheme
   \<Rightarrow> 'm membership_result" where
  "renew_membership_and_schedule_expiry T member expire s =
     and_then (plain_add (overflow_checks T) expire (MembershipPeriod T)) (\<lambda>schedule.
     Ok (schedule_expiry T schedule member (members_insert member \<lparr>expire_on = schedule\<rparr> s)))"

definition do_expire_or_renew_membership ::
  "('o, 'c) membership_config_scheme \<Rightarrow> account \<Rightarrow> u32 \<Rightarrow> 'm membership_storage_scheme
   \<Rightarrow> 'm membership_result" where
  "do_expire_or_renew_membership T member expire s =
     (if MembershipsRenewsOn s member \<noteq> None
      then and_then (renew_membership_and_schedule_expiry T member expire
                       (s\<lparr>MembershipsRenewsOn := (MembershipsRenewsOn s)(member := None)\<rparr>)) (\<lambda>s1.
           Ok (membership_deposit_event (MembershipEvent.MembershipRenewed member) s1))
      else Ok (membership_deposit_event (MembershipEvent.MembershipExpired member) (members_remove member s)))"

fun expire_or_renew_loop ::
  "('o, 'c) membership_config_scheme \<Rightarrow> u32 \<Rightarrow> account list \<Rightarrow> 'm membership_storage_scheme
   \<Rightarrow> 'm membership_result" where
  "expire_or_renew_loop T n [] s = Ok s"
| "expire_or_renew_loop T n (member # members) s =
     and_then (do_expire_or_renew_membership T member n s) (expire_or_renew_loop T n members)"

definition renew_or_expire_memberships ::
  "('o, 'c) membership_config_scheme \<Rightarrow> u32 \<Rightarrow> 'm membership_storage_scheme
   \<Rightarrow> 'm membership_result" where
  "renew_or_expire_memberships T n s =
     expire_or_renew_loop T n (MembershipsExpiresOn s n)
       (s\<lparr>MembershipsExpiresOn := (MembershipsExpiresOn s)(n := [])\<rparr>)"

definition membership_on_initialize ::
  "('o, 'c) membership_config_scheme \<Rightarrow> u32 \<Rightarrow> 'm membership_storage_scheme
   \<Rightarrow> 'm membership_result" where
  "membership_on_initialize T n s = (if 0 < n then renew_or_expire_memberships T n s else Ok s)"

definition is_member :: "account \<Rightarrow> 'm membership_storage_scheme \<Rightarrow> bool" where
  "is_member member s \<longleftrightarrow> Members s member \<noteq> None"

definition members_count :: "'m membership_storage_scheme \<Rightarrow> u32" where
  "members_count s = Members_counter s"

text \<open>The signed extension \<open>CheckNetworkMembership\<close>: a transaction of an account is valid only if it is a member.\<close>

datatype TransactionValidityError = InvalidTransaction_Call

record valid_transaction =
  priority :: u64
  requires :: "bytes list"
  provides :: "bytes list"
  longevity :: u64
  propagate :: bool

definition check_membership_validate ::
  "account \<Rightarrow> 'm membership_storage_scheme \<Rightarrow> (valid_transaction, TransactionValidityError) result" where
  "check_membership_validate who s =
     (if Members s who \<noteq> None
      then Ok \<lparr>priority = 0, requires = [], provides = [], longevity = - 1, propagate = True\<rparr>
      else Err InvalidTransaction_Call)"

definition check_membership_pre_dispatch ::
  "account \<Rightarrow> 'm membership_storage_scheme \<Rightarrow> (unit, TransactionValidityError) result" where
  "check_membership_pre_dispatch who s = and_then (check_membership_validate who s) (\<lambda>_. Ok ())"

text \<open>The genesis build adds the configured accounts one after the other.\<close>

fun membership_genesis_build ::
  "('o, 'c) membership_config_scheme \<Rightarrow> (account \<times> bool) list \<Rightarrow> 'm membership_storage_scheme
   \<Rightarrow> 'm membership_result" where
  "membership_genesis_build T [] s = Ok s"
| "membership_genesis_build T ((member, expires) # ms) s =
     and_then (add_member_and_schedule_expiry T member expires s) (membership_genesis_build T ms)"

section \<open>Extrinsics\<close>

definition membership_origin :: "('o, 'c) membership_config_scheme \<Rightarrow> 'o \<Rightarrow> (unit, 'e dispatch_error) result" where
  "membership_origin T origin = ensure (NetworkMembershipOrigin T origin) BadOrigin"

definition membership_nominate ::
  "('o, 'c) membership_config_scheme \<Rightarrow> 'o \<Rightarrow> account \<Rightarrow> bool \<Rightarrow> 'm membership_storage_scheme
   \<Rightarrow> 'm membership_result" where
  "membership_nominate T origin member expires s =
     and_then (membership_origin T origin) (\<lambda>_.
     and_then (ensure (Members s member = None) (Module MembershipAlreadyAcquired)) (\<lambda>_.
     and_then (add_member_and_schedule_expiry T member expires s) (\<lambda>s1.
     Ok (membership_deposit_event (MembershipEvent.MembershipAcquired member) s1))))"

definition membership_renew ::
  "('o, 'c) membership_config_scheme \<Rightarrow> 'o \<Rightarrow> account \<Rightarrow> 'm membership_storage_scheme \<Rightarrow> 'm membership_result" where
  "membership_renew T origin member s =
     and_then (membership_origin T origin) (\<lambda>_.
     and_then (ensure (MembershipsRenewsOn s member = None) (Module MembershipRenewalAlreadyRequested)) (\<lambda>_.
     Ok (membership_deposit_event (MembershipEvent.MembershipRenewalRequested member)
           (s\<lparr>MembershipsRenewsOn := (MembershipsRenewsOn s)(member \<mapsto> ())\<rparr>))))"

definition membership_revoke ::
  "('o, 'c) membership_config_scheme \<Rightarrow> 'o \<Rightarrow> account \<Rightarrow> 'm membership_storage_scheme \<Rightarrow> 'm membership_result" where
  "membership_revoke T origin member s =
     and_then (membership_origin T origin) (\<lambda>_.
     and_then (ok_or (Members s member) (Module MembershipNotFound)) (\<lambda>member_details.
     let s1 = members_remove member s; expire = expire_on member_details
     in case position member (MembershipsExpiresOn s1 expire) of
          Some i \<Rightarrow>
            and_then (swap_remove i (MembershipsExpiresOn s1 expire)) (\<lambda>members.
            let s2 = s1\<lparr>MembershipsExpiresOn := (MembershipsExpiresOn s1)(expire := members)\<rparr>;
                s3 = s2\<lparr>provider_refs := dec_providers T member (provider_refs s2)\<rparr>
            in Ok (membership_deposit_event (MembershipEvent.MembershipRevoked member) s3))
        | None \<Rightarrow> Err (Module MembershipNotFound)))"

section \<open>Calls and blocks\<close>

datatype MembershipCall =
    NominateMember account bool
  | RenewMember account
  | RevokeMember account

fun membership_dispatch ::
  "('o, 'c) membership_config_scheme \<Rightarrow> 'o \<Rightarrow> MembershipCall \<Rightarrow> 'm membership_storage_scheme
   \<Rightarrow> 'm membership_result" where
  "membership_dispatch T origin (NominateMember m e) s = membership_nominate T origin m e s"
| "membership_dispatch T origin (RenewMember m) s = membership_renew T origin m s"
| "membership_dispatch T origin (RevokeMember m) s = membership_revoke T origin m s"

text \<open>
  A block opens with the hook, for the number after the last one, and goes on with calls. A failed
  call leaves the storage as it was.
\<close>

definition open_block ::
  "('o, 'c) membership_config_scheme \<Rightarrow> 'm membership_storage_scheme \<Rightarrow> 'm membership_result" where
  "open_block T s = membership_on_initialize T (block_number s + 1) (s\<lparr>block_number := block_number s + 1\<rparr>)"

fun apply_calls ::
  "('o, 'c) membership_config_scheme \<Rightarrow> ('o \<times> MembershipCall) list \<Rightarrow> 'm membership_storage_scheme
   \<Rightarrow> 'm membership_storage_scheme" where
  "apply_calls T [] s = s"
| "apply_calls T ((origin, c) # cs) s = apply_calls T cs
     (case membership_dispatch T origin c s of Ok s' \<Rightarrow> s' | _ \<Rightarrow> s)"

fun run_blocks ::
  "('o, 'c) membership_config_scheme \<Rightarrow> ('o \<times> MembershipCall) list list \<Rightarrow> 'm membership_storage_scheme
   \<Rightarrow> 'm membership_result" where
  "run_blocks T [] s = Ok s"
| "run_blocks T (cs # css) s = and_then (open_block T s) (\<lambda>s1. run_blocks T css (apply_calls T cs s1))"

inductive membership_step ::
  "('o, 'c) membership_config_scheme \<Rightarrow> 'm membership_storage_scheme \<Rightarrow> 'm membership_storage_scheme \<Rightarrow> bool" for T where
  call: "membership_dispatch T origin c s = Ok s' \<Longrightarrow> membership_step T s s'"
| block: "open_block T s = Ok s' \<Longrightarrow> membership_step T s s'"

definition membership_genesis :: "'m membership_storage_scheme \<Rightarrow> bool" where
  "membership_genesis s \<longleftrightarrow> Members s = Map.empty \<and> Members_counter s = 0 \<and>
     MembershipsExpiresOn s = (\<lambda>_. []) \<and> MembershipsRenewsOn s = Map.empty"

section \<open>Lemmas\<close>

text \<open>Every scheduled account is a member that expires at that block, and is scheduled there once.\<close>

definition membership_wf :: "'m membership_storage_scheme \<Rightarrow> bool" where
  "membership_wf s \<longleftrightarrow>
     (\<forall>n m. m \<in> set (MembershipsExpiresOn s n) \<longrightarrow> Members s m = Some \<lparr>expire_on = n\<rparr>) \<and>
     (\<forall>n. distinct (MembershipsExpiresOn s n))"

lemma membership_frame [simp]:
  "Members (membership_deposit_event e s) = Members s"
  "MembershipsExpiresOn (membership_deposit_event e s) = MembershipsExpiresOn s"
  "MembershipsRenewsOn (membership_deposit_event e s) = MembershipsRenewsOn s"
  "block_number (membership_deposit_event e s) = block_number s"
  "Members (members_insert m d s) = (Members s)(m \<mapsto> d)"
  "MembershipsExpiresOn (members_insert m d s) = MembershipsExpiresOn s"
  "MembershipsRenewsOn (members_insert m d s) = MembershipsRenewsOn s"
  "block_number (members_insert m d s) = block_number s"
  "Members (members_remove m s) = (Members s)(m := None)"
  "MembershipsExpiresOn (members_remove m s) = MembershipsExpiresOn s"
  "MembershipsRenewsOn (members_remove m s) = MembershipsRenewsOn s"
  "block_number (members_remove m s) = block_number s"
  by (simp_all add: membership_deposit_event_def members_insert_def members_remove_def)

lemma schedule_frame [simp]:
  "Members (schedule_expiry T n m s) = Members s"
  "MembershipsRenewsOn (schedule_expiry T n m s) = MembershipsRenewsOn s"
  "block_number (schedule_expiry T n m s) = block_number s"
  by (simp_all add: schedule_expiry_def split: option.split)

lemma schedule_lists:
  "MembershipsExpiresOn (schedule_expiry T n m s) k =
     (if k = n \<and> length (MembershipsExpiresOn s n) < unat (MaxMembersPerBlock T)
      then MembershipsExpiresOn s n @ [m] else MembershipsExpiresOn s k)"
  by (simp add: schedule_expiry_def try_push_def)

text \<open>
  Scheduling a member for the block his entry names keeps the lists well-formed, if he was in none.
\<close>

definition unscheduled :: "account \<Rightarrow> 'm membership_storage_scheme \<Rightarrow> bool" where
  "unscheduled m s \<longleftrightarrow> (\<forall>n. m \<notin> set (MembershipsExpiresOn s n))"

lemma membership_wf_cong:
  "Members s' = Members s \<Longrightarrow> MembershipsExpiresOn s' = MembershipsExpiresOn s \<Longrightarrow> membership_wf s' = membership_wf s"
  by (simp add: membership_wf_def)

lemma membership_wf_event [simp]: "membership_wf (membership_deposit_event e s) = membership_wf s"
  by (simp add: membership_wf_def)

lemma wf_nonmember: "membership_wf s \<Longrightarrow> Members s m = None \<Longrightarrow> unscheduled m s"
  by (auto simp: membership_wf_def unscheduled_def)

lemma wf_enrol:
  assumes "membership_wf s" "unscheduled m s"
  shows "membership_wf (schedule_expiry T n m (members_insert m \<lparr>expire_on = n\<rparr> s))"
  using assms by (auto simp: membership_wf_def unscheduled_def schedule_lists)

lemma wf_permanent:
  assumes "membership_wf s" "unscheduled m s"
  shows "membership_wf (members_insert m d s)"
  using assms by (auto simp: membership_wf_def unscheduled_def)

lemma wf_dismiss:
  assumes "membership_wf s" "unscheduled m s"
  shows "membership_wf (members_remove m s)"
  using assms by (auto simp: membership_wf_def unscheduled_def)

text \<open>What happens to one account: nothing, as far as the storage tells.\<close>

definition same_for :: "account \<Rightarrow> 'm membership_storage_scheme \<Rightarrow> 'm membership_storage_scheme \<Rightarrow> bool" where
  "same_for m s s' \<longleftrightarrow> Members s' m = Members s m \<and> MembershipsRenewsOn s' m = MembershipsRenewsOn s m \<and>
     (\<forall>n. m \<in> set (MembershipsExpiresOn s' n) \<longleftrightarrow> m \<in> set (MembershipsExpiresOn s n))"

lemma same_for_trans: "same_for m s t \<Longrightarrow> same_for m t u \<Longrightarrow> same_for m s u"
  by (simp add: same_for_def)

lemma same_for_unscheduled: "same_for m s s' \<Longrightarrow> unscheduled m s' = unscheduled m s"
  by (simp add: same_for_def unscheduled_def)

lemma do_expire_or_renew_OkE:
  assumes "do_expire_or_renew_membership T m n s = Ok s'"
  obtains k where "MembershipsRenewsOn s m \<noteq> None" "k = n + MembershipPeriod T"
      "Members s' = Members (schedule_expiry T k m (members_insert m \<lparr>expire_on = k\<rparr> s))"
      "MembershipsExpiresOn s' = MembershipsExpiresOn (schedule_expiry T k m (members_insert m \<lparr>expire_on = k\<rparr> s))"
      "MembershipsRenewsOn s' = (MembershipsRenewsOn s)(m := None)" "block_number s' = block_number s"
  | "MembershipsRenewsOn s m = None" "Members s' = (Members s)(m := None)"
      "MembershipsExpiresOn s' = MembershipsExpiresOn s" "MembershipsRenewsOn s' = MembershipsRenewsOn s"
      "block_number s' = block_number s"
proof (cases "MembershipsRenewsOn s m = None")
  case True
  with assms that(2) show thesis by (auto simp: do_expire_or_renew_membership_def)
next
  case False
  with assms obtain s1 where
    "s' = membership_deposit_event (MembershipEvent.MembershipRenewed m) (schedule_expiry T (n + MembershipPeriod T) m
       (members_insert m \<lparr>expire_on = n + MembershipPeriod T\<rparr> (s\<lparr>MembershipsRenewsOn := (MembershipsRenewsOn s)(m := None)\<rparr>)))"
    by (auto simp: do_expire_or_renew_membership_def renew_membership_and_schedule_expiry_def dest!: plain_OkD)
  with False show thesis by (intro that(1)) (auto simp: schedule_lists)
qed

lemma do_expire_or_renew_other:
  "do_expire_or_renew_membership T m n s = Ok s' \<Longrightarrow> m' \<noteq> m \<Longrightarrow> same_for m' s s'"
  by (erule do_expire_or_renew_OkE) (auto simp: same_for_def schedule_lists)

lemma do_expire_or_renew_wf:
  "do_expire_or_renew_membership T m n s = Ok s' \<Longrightarrow> membership_wf s \<Longrightarrow> unscheduled m s \<Longrightarrow> membership_wf s'"
  by (erule do_expire_or_renew_OkE)
    (auto simp: membership_wf_cong [of s' "schedule_expiry T (n + MembershipPeriod T) m
       (members_insert m \<lparr>expire_on = n + MembershipPeriod T\<rparr> s)"] wf_enrol
       membership_wf_cong [of s' "members_remove m s"] wf_dismiss)

lemma do_expire_or_renew_total:
  "(overflow_checks T \<longrightarrow> unat n + unat (MembershipPeriod T) < 2 ^ 32) \<Longrightarrow>
   \<exists>s'. do_expire_or_renew_membership T m n s = Ok s'"
  by (auto simp: do_expire_or_renew_membership_def renew_membership_and_schedule_expiry_def plain_add_def)

lemma loop_other:
  "expire_or_renew_loop T n ms s = Ok s' \<Longrightarrow> m \<notin> set ms \<Longrightarrow> same_for m s s'"
proof (induction ms arbitrary: s)
  case Nil
  then show ?case by (simp add: same_for_def)
next
  case (Cons x ms)
  then obtain t where t: "do_expire_or_renew_membership T x n s = Ok t" "expire_or_renew_loop T n ms t = Ok s'"
    by auto
  with Cons show ?case
    by (auto intro: same_for_trans [OF do_expire_or_renew_other [OF t(1)]])
qed

lemma loop_wf:
  "expire_or_renew_loop T n ms s = Ok s' \<Longrightarrow> membership_wf s \<Longrightarrow> \<forall>m \<in> set ms. unscheduled m s \<Longrightarrow> distinct ms \<Longrightarrow>
   membership_wf s'"
proof (induction ms arbitrary: s)
  case Nil
  then show ?case by simp
next
  case (Cons x ms)
  then obtain t where t: "do_expire_or_renew_membership T x n s = Ok t" "expire_or_renew_loop T n ms t = Ok s'"
    by auto
  have "unscheduled m t" if "m \<in> set ms" for m
  proof -
    have "m \<noteq> x" using that Cons.prems(4) by auto
    with do_expire_or_renew_other [OF t(1), of m] that Cons.prems(3) show ?thesis
      by (simp add: same_for_unscheduled)
  qed
  moreover have "membership_wf t"
    using do_expire_or_renew_wf [OF t(1) Cons.prems(2)] Cons.prems(3) by simp
  ultimately show ?case using Cons.IH [OF t(2)] Cons.prems(4) by simp
qed

lemma loop_expires:
  "expire_or_renew_loop T n ms s = Ok s' \<Longrightarrow> m \<in> set ms \<Longrightarrow> MembershipsRenewsOn s m = None \<Longrightarrow> distinct ms \<Longrightarrow>
   Members s' m = None"
proof (induction ms arbitrary: s)
  case Nil
  then show ?case by simp
next
  case (Cons x ms)
  then obtain t where t: "do_expire_or_renew_membership T x n s = Ok t" "expire_or_renew_loop T n ms t = Ok s'"
    by auto
  show ?case
  proof (cases "m = x")
    case True
    then have "Members t m = None" using Cons.prems(3) t(1) by (auto elim: do_expire_or_renew_OkE)
    with loop_other [OF t(2), of m] True Cons.prems(4) show ?thesis by (simp add: same_for_def)
  next
    case False
    with do_expire_or_renew_other [OF t(1) False] Cons show ?thesis
      by (auto simp: same_for_def intro: Cons.IH [OF t(2)])
  qed
qed

lemma loop_total:
  "(overflow_checks T \<longrightarrow> unat n + unat (MembershipPeriod T) < 2 ^ 32) \<Longrightarrow> \<exists>s'. expire_or_renew_loop T n ms s = Ok s'"
proof (induction ms arbitrary: s)
  case (Cons m ms)
  from do_expire_or_renew_total [OF Cons.prems] obtain t where "do_expire_or_renew_membership T m n s = Ok t" by blast
  with Cons show ?case by auto
qed simp

lemma loop_block: "expire_or_renew_loop T n ms s = Ok s' \<Longrightarrow> block_number s' = block_number s"
  by (induction ms arbitrary: s) (auto elim!: do_expire_or_renew_OkE)

section \<open>The hook and the calls\<close>

lemma wf_one_list:
  assumes "membership_wf s" "m \<in> set (MembershipsExpiresOn s n)" "m \<in> set (MembershipsExpiresOn s k)"
  shows "n = k"
  using assms unfolding membership_wf_def by (metis member_data.select_convs(1) option.sel)

lemma emptied_wf:
  assumes "membership_wf s"
  shows "membership_wf (s\<lparr>MembershipsExpiresOn := (MembershipsExpiresOn s)(n := [])\<rparr>)"
    and "m \<in> set (MembershipsExpiresOn s n) \<Longrightarrow> unscheduled m (s\<lparr>MembershipsExpiresOn := (MembershipsExpiresOn s)(n := [])\<rparr>)"
proof -
  show "membership_wf (s\<lparr>MembershipsExpiresOn := (MembershipsExpiresOn s)(n := [])\<rparr>)"
    using assms by (auto simp: membership_wf_def)
  assume m: "m \<in> set (MembershipsExpiresOn s n)"
  have "m \<notin> set (MembershipsExpiresOn s k)" if "k \<noteq> n" for k
    using wf_one_list [OF assms m] that by blast
  then show "unscheduled m (s\<lparr>MembershipsExpiresOn := (MembershipsExpiresOn s)(n := [])\<rparr>)"
    by (auto simp: unscheduled_def)
qed

lemma membership_wf_block: "membership_wf (s\<lparr>block_number := n\<rparr>) = membership_wf s"
  by (simp add: membership_wf_def)

lemma open_block_wf:
  assumes "open_block T s = Ok s'" "membership_wf s"
  shows "membership_wf s'"
proof -
  let ?n = "block_number s + 1" and ?s = "s\<lparr>block_number := block_number s + 1\<rparr>"
  have wf: "membership_wf ?s" using assms(2) by (simp add: membership_wf_block)
  then have "distinct (MembershipsExpiresOn ?s ?n)" by (simp add: membership_wf_def)
  with assms(1) emptied_wf [OF wf, where n = "?n"] wf show ?thesis
    by (auto simp: open_block_def membership_on_initialize_def renew_or_expire_memberships_def
        intro: loop_wf split: if_splits)
qed

lemma open_block_number: "open_block T s = Ok s' \<Longrightarrow> block_number s' = block_number s + 1"
  by (auto simp: open_block_def membership_on_initialize_def renew_or_expire_memberships_def
      dest!: loop_block split: if_splits)

lemma open_block_total:
  "(overflow_checks T \<longrightarrow> unat (block_number s + 1) + unat (MembershipPeriod T) < 2 ^ 32) \<Longrightarrow> \<exists>s'. open_block T s = Ok s'"
  by (simp add: open_block_def membership_on_initialize_def renew_or_expire_memberships_def loop_total)

lemma add_member_OkE:
  assumes "add_member_and_schedule_expiry T m e s = Ok s'"
  obtains n where "e" "n = block_number s + MembershipPeriod T"
      "Members s' = Members (schedule_expiry T n m (members_insert m \<lparr>expire_on = n\<rparr> s))"
      "MembershipsExpiresOn s' = MembershipsExpiresOn (schedule_expiry T n m (members_insert m \<lparr>expire_on = n\<rparr> s))"
      "MembershipsRenewsOn s' = MembershipsRenewsOn s" "block_number s' = block_number s"
  | "\<not> e" "Members s' = (Members s)(m \<mapsto> \<lparr>expire_on = 0\<rparr>)"
      "MembershipsExpiresOn s' = MembershipsExpiresOn s" "MembershipsRenewsOn s' = MembershipsRenewsOn s"
      "block_number s' = block_number s"
proof (cases e)
  case True
  with assms that(1) show thesis
    by (auto simp: add_member_and_schedule_expiry_def Let_def schedule_lists fun_eq_iff dest!: plain_OkD)
next
  case False
  with assms that(2) show thesis by (auto simp: add_member_and_schedule_expiry_def Let_def)
qed

lemma add_member_wf:
  assumes "add_member_and_schedule_expiry T m e s = Ok s'" "membership_wf s" "unscheduled m s"
  shows "membership_wf s'"
  using assms(1)
proof (cases rule: add_member_OkE)
  case (1 n)
  with wf_enrol [OF assms(2,3), of T n] show ?thesis by (simp add: membership_wf_def)
next
  case 2
  with wf_permanent [OF assms(2,3), of "\<lparr>expire_on = 0\<rparr>"] show ?thesis by (simp add: membership_wf_def)
qed

lemma add_member_other:
  "add_member_and_schedule_expiry T m e s = Ok s' \<Longrightarrow> m' \<noteq> m \<Longrightarrow> same_for m' s s'"
  by (erule add_member_OkE) (auto simp: same_for_def schedule_lists)

lemma membership_nominate_OkE:
  assumes "membership_nominate T origin m e s = Ok s'"
  obtains t where "NetworkMembershipOrigin T origin" "Members s m = None"
    "add_member_and_schedule_expiry T m e s = Ok t"
    "s' = membership_deposit_event (MembershipEvent.MembershipAcquired m) t"
  using assms by (auto simp: membership_nominate_def membership_origin_def)

lemma membership_revoke_OkE:
  assumes "membership_revoke T origin m s = Ok s'"
  obtains d i where "NetworkMembershipOrigin T origin" "Members s m = Some d"
    "position m (MembershipsExpiresOn s (expire_on d)) = Some i" "Members s' = (Members s)(m := None)"
    "MembershipsExpiresOn s' = (MembershipsExpiresOn s)(expire_on d :=
       butlast ((MembershipsExpiresOn s (expire_on d))[i := last (MembershipsExpiresOn s (expire_on d))]))"
    "MembershipsRenewsOn s' = MembershipsRenewsOn s" "block_number s' = block_number s"
  using assms
  by (auto simp: membership_revoke_def membership_origin_def Let_def swap_remove_Ok_iff split: option.splits)

lemma membership_revoke_lists:
  assumes "membership_revoke T origin m s = Ok s'" "membership_wf s"
  shows "distinct (MembershipsExpiresOn s' n)" "set (MembershipsExpiresOn s' n) = set (MembershipsExpiresOn s n) - {m}"
proof -
  from assms(1) obtain d i where d: "Members s m = Some d" "position m (MembershipsExpiresOn s (expire_on d)) = Some i"
    "MembershipsExpiresOn s' = (MembershipsExpiresOn s)(expire_on d :=
       butlast ((MembershipsExpiresOn s (expire_on d))[i := last (MembershipsExpiresOn s (expire_on d))]))"
    by (rule membership_revoke_OkE)
  have dist: "distinct (MembershipsExpiresOn s k)" for k using assms(2) by (simp add: membership_wf_def)
  have i: "i < length (MembershipsExpiresOn s (expire_on d))" "MembershipsExpiresOn s (expire_on d) ! i = m"
    using position_Some [OF d(2)] by simp_all
  have other: "m \<notin> set (MembershipsExpiresOn s n)" if "n \<noteq> expire_on d"
    using assms(2) d(1) that by (auto simp: membership_wf_def)
  show "distinct (MembershipsExpiresOn s' n)" "set (MembershipsExpiresOn s' n) = set (MembershipsExpiresOn s n) - {m}"
    using swap_removed [OF dist i(1)] i(2) dist other by (auto simp: d(3))
qed

lemma membership_wf_dispatch:
  assumes "membership_dispatch T origin c s = Ok s'" "membership_wf s"
  shows "membership_wf s'"
proof (cases c)
  case (NominateMember m e)
  with assms(1) have "membership_nominate T origin m e s = Ok s'" by simp
  then obtain t where "Members s m = None" "add_member_and_schedule_expiry T m e s = Ok t"
    "s' = membership_deposit_event (MembershipEvent.MembershipAcquired m) t"
    by (rule membership_nominate_OkE)
  with add_member_wf [of T m e s t] wf_nonmember [OF assms(2)] assms(2) show ?thesis by simp
next
  case (RenewMember m)
  with assms show ?thesis by (auto simp: membership_renew_def membership_wf_def)
next
  case (RevokeMember m)
  with assms(1) have r: "membership_revoke T origin m s = Ok s'" by simp
  then have "Members s' = (Members s)(m := None)" by (rule membership_revoke_OkE)
  with membership_revoke_lists [OF r assms(2)] assms(2) show ?thesis by (simp add: membership_wf_def)
qed

text \<open>The storages the chain starts from: built from the configured accounts, each given once.\<close>

definition membership_built ::
  "('o, 'c) membership_config_scheme \<Rightarrow> 'm membership_storage_scheme \<Rightarrow> bool" where
  "membership_built T s \<longleftrightarrow> (\<exists>ms s0. membership_genesis s0 \<and> distinct (map fst ms) \<and> membership_genesis_build T ms s0 = Ok s)"

lemma genesis_build_wf:
  "membership_genesis_build T ms s = Ok s' \<Longrightarrow> membership_wf s \<Longrightarrow> distinct (map fst ms) \<Longrightarrow>
   \<forall>m \<in> set (map fst ms). Members s m = None \<Longrightarrow> membership_wf s'"
proof (induction ms arbitrary: s)
  case Nil
  then show ?case by simp
next
  case (Cons x ms)
  obtain m e where x: "x = (m, e)" by (cases x)
  from Cons.prems(1) obtain t where
    t: "add_member_and_schedule_expiry T m e s = Ok t" "membership_genesis_build T ms t = Ok s'"
    by (auto simp: x)
  have un: "unscheduled m s" using wf_nonmember [OF Cons.prems(2)] Cons.prems(4) by (simp add: x)
  have "Members t m' = Members s m'" if "m' \<noteq> m" for m'
    using add_member_other [OF t(1) that] by (simp add: same_for_def)
  moreover have "m \<notin> set (map fst ms)" using Cons.prems(3) by (simp add: x)
  ultimately have "\<forall>m' \<in> set (map fst ms). Members t m' = None" using Cons.prems(4) by (metis list.set_intros(2) list.simps(9))
  with Cons.IH [OF t(2) add_member_wf [OF t(1) Cons.prems(2) un]] Cons.prems(3) show ?case by simp
qed

interpretation membership_inv: invariant_system "membership_built T" "membership_step T" membership_wf for T
proof (unfold_locales, goal_cases)
  case (1 s)
  then obtain ms s0 where "membership_genesis s0" "distinct (map fst ms)" "membership_genesis_build T ms s0 = Ok s"
    by (auto simp: membership_built_def)
  then show ?case by (elim genesis_build_wf) (auto simp: membership_genesis_def membership_wf_def)
next
  case (2 s t)
  from this(2) show ?case
  proof cases
    case (call origin c)
    from membership_wf_dispatch [OF this 2(1)] show ?thesis .
  next
    case block
    from open_block_wf [OF this 2(1)] show ?thesis .
  qed
qed

section \<open>A scheduled membership\<close>

definition scheduled :: "account \<Rightarrow> u32 \<Rightarrow> 'm membership_storage_scheme \<Rightarrow> bool" where
  "scheduled m e s \<longleftrightarrow> Members s m = Some \<lparr>expire_on = e\<rparr> \<and> m \<in> set (MembershipsExpiresOn s e) \<and>
     MembershipsRenewsOn s m = None"

fun concerns :: "account \<Rightarrow> MembershipCall \<Rightarrow> bool" where
  "concerns m (NominateMember m' e) = False"
| "concerns m (RenewMember m') = (m' = m)"
| "concerns m (RevokeMember m') = (m' = m)"

lemma scheduled_call:
  assumes "membership_dispatch T origin c s = Ok s'" "membership_wf s" "scheduled m e s" "\<not> concerns m c"
  shows "scheduled m e s'"
proof (cases c)
  case (NominateMember m' e')
  with assms(1) have "membership_nominate T origin m' e' s = Ok s'" by simp
  then obtain t where t: "Members s m' = None" "add_member_and_schedule_expiry T m' e' s = Ok t"
    "s' = membership_deposit_event (MembershipEvent.MembershipAcquired m') t"
    by (rule membership_nominate_OkE)
  then have "m \<noteq> m'" using assms(3) by (auto simp: scheduled_def)
  with add_member_other [OF t(2)] t(3) assms(3) show ?thesis by (auto simp: scheduled_def same_for_def)
next
  case (RenewMember m')
  with assms show ?thesis by (auto simp: membership_renew_def scheduled_def)
next
  case (RevokeMember m')
  with assms(1) have r: "membership_revoke T origin m' s = Ok s'" by simp
  then have "Members s' = (Members s)(m' := None) \<and> MembershipsRenewsOn s' = MembershipsRenewsOn s"
    by (rule membership_revoke_OkE) simp
  with membership_revoke_lists(2) [OF r assms(2), of e] assms(3,4) RevokeMember show ?thesis
    by (simp add: scheduled_def)
qed

lemma open_block_other:
  assumes "open_block T s = Ok s'" "m \<notin> set (MembershipsExpiresOn s (block_number s + 1))"
  shows "same_for m s s'"
proof (cases "0 < block_number s + 1")
  case True
  let ?u = "s\<lparr>block_number := block_number s + 1, MembershipsExpiresOn := (MembershipsExpiresOn s)(block_number s + 1 := [])\<rparr>"
  from True assms(1) have
    "expire_or_renew_loop T (block_number s + 1) (MembershipsExpiresOn s (block_number s + 1)) ?u = Ok s'"
    by (simp add: open_block_def membership_on_initialize_def renew_or_expire_memberships_def)
  from loop_other [OF this assms(2)] assms(2) show ?thesis by (auto simp: same_for_def)
next
  case False
  with assms(1) show ?thesis by (auto simp: open_block_def membership_on_initialize_def same_for_def)
qed

lemma scheduled_block:
  assumes "open_block T s = Ok s'" "membership_wf s" "scheduled m e s" "block_number s + 1 \<noteq> e"
  shows "scheduled m e s'"
proof -
  have "m \<notin> set (MembershipsExpiresOn s (block_number s + 1))"
    using wf_one_list [OF assms(2)] assms(3,4) by (auto simp: scheduled_def)
  from open_block_other [OF assms(1) this] assms(3) show ?thesis by (auto simp: same_for_def scheduled_def)
qed

lemma scheduled_ends:
  assumes "open_block T s = Ok s'" "membership_wf s" "scheduled m e s" "block_number s + 1 = e" "0 < e"
  shows "Members s' m = None"
proof -
  let ?u = "s\<lparr>block_number := e, MembershipsExpiresOn := (MembershipsExpiresOn s)(e := [])\<rparr>"
  have "expire_or_renew_loop T e (MembershipsExpiresOn s e) ?u = Ok s'"
    using assms(1,4,5) by (auto simp: open_block_def membership_on_initialize_def renew_or_expire_memberships_def)
  from loop_expires [OF this, of m] assms(2,3) show ?thesis by (auto simp: scheduled_def membership_wf_def)
qed

lemma apply_calls_scheduled:
  "membership_wf s \<Longrightarrow> scheduled m e s \<Longrightarrow> \<forall>oc \<in> set cs. \<not> concerns m (snd oc) \<Longrightarrow>
   membership_wf (apply_calls T cs s) \<and> scheduled m e (apply_calls T cs s)"
proof (induction cs arbitrary: s)
  case (Cons oc cs)
  obtain origin c where oc: "oc = (origin, c)" by (cases oc)
  let ?t = "case membership_dispatch T origin c s of Ok s' \<Rightarrow> s' | _ \<Rightarrow> s"
  have "membership_wf ?t \<and> scheduled m e ?t"
    using membership_wf_dispatch [of T origin c s] scheduled_call [of T origin c s] Cons.prems
    by (auto simp: oc split: result.splits)
  with Cons show ?case by (simp add: oc)
qed simp

lemma membership_dispatch_block:
  assumes "membership_dispatch T origin c s = Ok t"
  shows "block_number t = block_number s"
proof (cases c)
  case (NominateMember m e)
  with assms have "membership_nominate T origin m e s = Ok t" by simp
  then obtain u where "add_member_and_schedule_expiry T m e s = Ok u"
    "t = membership_deposit_event (MembershipEvent.MembershipAcquired m) u"
    by (rule membership_nominate_OkE)
  then show ?thesis by (cases rule: add_member_OkE [OF \<open>add_member_and_schedule_expiry T m e s = Ok u\<close>]) simp_all
next
  case (RenewMember m)
  with assms show ?thesis by (auto simp: membership_renew_def)
next
  case (RevokeMember m)
  with assms have "membership_revoke T origin m s = Ok t" by simp
  then show ?thesis by (rule membership_revoke_OkE)
qed

lemma apply_calls_block [simp]: "block_number (apply_calls T cs s) = block_number s"
proof (induction cs arbitrary: s)
  case (Cons oc cs)
  obtain origin c where oc: "oc = (origin, c)" by (cases oc)
  show ?case
    using membership_dispatch_block [of T origin c s] by (cases "membership_dispatch T origin c s") (simp_all add: oc Cons)
qed simp

lemma run_blocks_scheduled:
  assumes "membership_wf s" "scheduled m e s" "\<forall>cs \<in> set css. \<forall>oc \<in> set cs. \<not> concerns m (snd oc)"
    and "unat (block_number s) + length css < unat e" "overflow_checks T \<longrightarrow> unat e + unat (MembershipPeriod T) < 2 ^ 32"
  shows "\<exists>s'. run_blocks T css s = Ok s' \<and> membership_wf s' \<and> scheduled m e s' \<and>
     unat (block_number s') = unat (block_number s) + length css"
  using assms(1-4)
proof (induction css arbitrary: s)
  case Nil
  then show ?case by simp
next
  case (Cons cs css)
  have n: "unat (block_number s + 1) = unat (block_number s) + 1"
    using Cons.prems(4) unat_bound [of e] by (subst unat_add_no_overflow) auto
  have ne: "block_number s + 1 \<noteq> e" using n Cons.prems(4) by auto
  have "overflow_checks T \<longrightarrow> unat (block_number s + 1) + unat (MembershipPeriod T) < 2 ^ 32"
    using n assms(5) Cons.prems(4) by auto
  from open_block_total [OF this] obtain t where t: "open_block T s = Ok t" by blast
  let ?t = "apply_calls T cs t"
  have "\<forall>oc \<in> set cs. \<not> concerns m (snd oc)" using Cons.prems(3) by simp
  from apply_calls_scheduled [OF open_block_wf [OF t Cons.prems(1)] scheduled_block [OF t Cons.prems(1,2) ne] this, of T]
  have "membership_wf ?t" "scheduled m e ?t" by simp_all
  moreover have b: "unat (block_number ?t) = unat (block_number s) + 1" by (simp add: open_block_number [OF t] n)
  ultimately obtain s' where "run_blocks T css ?t = Ok s'" "membership_wf s'" "scheduled m e s'"
    "unat (block_number s') = unat (block_number ?t) + length css"
    using Cons.IH [of ?t] Cons.prems(3,4) by auto
  with t b show ?case by simp
qed

section \<open>A membership without expiry\<close>

definition permanent :: "account \<Rightarrow> 'm membership_storage_scheme \<Rightarrow> bool" where
  "permanent m s \<longleftrightarrow> Members s m = Some \<lparr>expire_on = 0\<rparr> \<and> unscheduled m s"

lemma permanent_same: "same_for m s s' \<Longrightarrow> permanent m s \<Longrightarrow> permanent m s'"
  by (simp add: permanent_def same_for_def unscheduled_def)

lemma permanent_revoke:
  "NetworkMembershipOrigin T origin \<Longrightarrow> permanent m s \<Longrightarrow>
   membership_revoke T origin m s = Err (Module MembershipNotFound)"
  by (simp add: membership_revoke_def membership_origin_def permanent_def unscheduled_def
      position_None_iff [THEN iffD2])

lemma permanent_call:
  assumes "membership_dispatch T origin c s = Ok s'" "membership_wf s" "permanent m s"
  shows "permanent m s'"
proof (cases c)
  case (NominateMember m' e)
  with assms(1) have "membership_nominate T origin m' e s = Ok s'" by simp
  then obtain t where t: "Members s m' = None" "add_member_and_schedule_expiry T m' e s = Ok t"
    "s' = membership_deposit_event (MembershipEvent.MembershipAcquired m') t"
    by (rule membership_nominate_OkE)
  then have "m \<noteq> m'" using assms(3) by (auto simp: permanent_def)
  from permanent_same [OF add_member_other [OF t(2) this] assms(3)] t(3) show ?thesis
    by (simp add: permanent_def unscheduled_def)
next
  case (RenewMember m')
  with assms show ?thesis by (auto simp: membership_renew_def permanent_def unscheduled_def)
next
  case (RevokeMember m')
  with assms(1) have r: "membership_revoke T origin m' s = Ok s'" by simp
  then have s': "NetworkMembershipOrigin T origin \<and> Members s' = (Members s)(m' := None)"
    by (rule membership_revoke_OkE) simp
  then have "m' \<noteq> m" using permanent_revoke [of T origin m s] assms(3) r by auto
  with s' membership_revoke_lists(2) [OF r assms(2)] assms(3) show ?thesis
    by (simp add: permanent_def unscheduled_def)
qed

lemma permanent_steps:
  assumes "(membership_step T)\<^sup>*\<^sup>* s t" "membership_wf s" "permanent m s"
  shows "membership_wf t \<and> permanent m t"
  using assms(1)
proof (induction rule: rtranclp_induct)
  case base
  then show ?case using assms(2,3) by simp
next
  case (step t u)
  then have wf: "membership_wf t" and p: "permanent m t" by simp_all
  from step(2) show ?case
  proof cases
    case (call origin c)
    from membership_wf_dispatch [OF this wf] permanent_call [OF this wf p] show ?thesis ..
  next
    case block
    have "m \<notin> set (MembershipsExpiresOn t (block_number t + 1))" using p by (simp add: permanent_def unscheduled_def)
    from open_block_wf [OF block wf] permanent_same [OF open_block_other [OF block this] p] show ?thesis ..
  qed
qed

section \<open>A small network\<close>

definition sample_membership_config :: "nat membership_config" where
  "sample_membership_config = \<lparr>overflow_checks = True, hashing = sample_hash, encode_hash = id,
     encode_account = id, encode_ident = id, encode_vec = id, blake2b_64 = sample_hash,
     bs58_encode = halves, bs58_decode = unhalves,
     NetworkMembershipOrigin = (\<lambda>origin. origin = 0), MembershipPeriod = 3, MaxMembersPerBlock = 2,
     inc_providers = (\<lambda>who refs. refs(who := refs who + 1)),
     dec_providers = (\<lambda>who refs. refs(who := refs who - 1))\<rparr>"

definition sample_members_0 :: membership_storage where
  "sample_members_0 = \<lparr>block_number = 0, extrinsic_index = None, Members = Map.empty, Members_counter = 0,
     MembershipsExpiresOn = (\<lambda>_. []), MembershipsRenewsOn = Map.empty, MembershipBlacklist = Map.empty,
     provider_refs = (\<lambda>_. 0), membership_events = []\<rparr>"

definition sample_members :: membership_storage where
  "sample_members = unwrap_or sample_members_0
     (membership_genesis_build sample_membership_config [([1], True), ([2], False)] sample_members_0)"

lemmas sample_membership_defs =
  sample_membership_config_def sample_members_0_def add_member_and_schedule_expiry_def plain_add_def
  members_insert_def schedule_expiry_def try_push_def Let_def

lemma sample_members_run:
  "membership_genesis_build sample_membership_config [([1], True), ([2], False)] sample_members_0 = Ok sample_members"
  unfolding sample_members_def
  by (rule is_Ok_unwrap) (simp add: sample_membership_defs cong: and_then_weak_cong)

lemma sample_members_reachable:
  "reachable (membership_built sample_membership_config) (membership_step sample_membership_config) sample_members"
proof (rule reach_init)
  have "membership_genesis sample_members_0" by (simp add: membership_genesis_def sample_members_0_def)
  with sample_members_run show "membership_built sample_membership_config sample_members"
    unfolding membership_built_def by (intro exI [of _ "[([1], True), ([2], False)]"] exI [of _ sample_members_0]) simp
qed

lemma sample_members_facts:
  "scheduled [1] 3 sample_members" "block_number sample_members = 0" "Members sample_members [3] = None"
  by (simp_all add: sample_members_def scheduled_def sample_membership_defs cong: and_then_weak_cong)

section \<open>Properties\<close>

text \<open>C18: a membership ends at its block: if an account is scheduled to expire at block \<open>e\<close>, then through
  any blocks and calls up to \<open>e\<close> that neither renew nor revoke it, the chain gets to block \<open>e\<close>, and
  when that block opens the account is no member any more.\<close>

theorem membership_expires:
  assumes "reachable (membership_built T) (membership_step T) s" "scheduled m e s"
    and "\<forall>cs \<in> set css. \<forall>oc \<in> set cs. \<not> concerns m (snd oc)"
    and "unat (block_number s) + length css + 1 = unat e"
    and "overflow_checks T \<longrightarrow> unat e + unat (MembershipPeriod T) < 2 ^ 32"
  shows "\<exists>s1 s2. run_blocks T css s = Ok s1 \<and> is_member m s1 \<and> open_block T s1 = Ok s2 \<and>
     block_number s2 = e \<and> \<not> is_member m s2"
proof -
  have wf: "membership_wf s" by (rule membership_inv.inv_reachable [OF assms(1)])
  from run_blocks_scheduled [OF wf assms(2,3) _ assms(5)] assms(4) obtain s1 where
    s1: "run_blocks T css s = Ok s1" "membership_wf s1" "scheduled m e s1"
      "unat (block_number s1) = unat (block_number s) + length css"
    by auto
  have e: "block_number s1 + 1 = e"
  proof -
    have "unat (block_number s1 + 1) = unat (block_number s1) + 1"
      using s1(4) assms(4) unat_bound [of e] by (subst unat_add_no_overflow) auto
    then have "unat (block_number s1 + 1) = unat e" using s1(4) assms(4) by simp
    then show ?thesis by (rule word_unat_eq_iff [THEN iffD2])
  qed
  then obtain s2 where s2: "open_block T s1 = Ok s2" using open_block_total [of T s1] assms(5) by auto
  have "0 < e" using assms(4) by (simp add: word_less_nat_alt)
  from scheduled_ends [OF s2 s1(2,3) e this] s1 s2 open_block_number [OF s2] e show ?thesis
    by (auto simp: is_member_def scheduled_def)
qed

theorem membership_expires_witness:
  "\<exists>s1 s2. run_blocks sample_membership_config [[(0, RenewMember [2])], [(0, NominateMember [4] True)]] sample_members = Ok s1 \<and>
     is_member [1] s1 \<and> open_block sample_membership_config s1 = Ok s2 \<and> block_number s2 = 3 \<and> \<not> is_member [1] s2"
proof (rule membership_expires)
  show "reachable (membership_built sample_membership_config) (membership_step sample_membership_config) sample_members"
    by (rule sample_members_reachable)
  show "scheduled [1] 3 sample_members" by (rule sample_members_facts)
qed (simp_all add: sample_members_facts sample_membership_config_def)

text \<open>An account that was nominated without expiry stays a member for good: no call and no block
  ends its membership, and every authorized attempt to revoke it is refused as
  \<open>MembershipNotFound\<close>.\<close>

theorem permanent_member_irrevocable:
  assumes "reachable (membership_built T) (membership_step T) s"
    and "membership_nominate T origin m False s = Ok s1" "(membership_step T)\<^sup>*\<^sup>* s1 t"
  shows "is_member m t \<and>
    (\<forall>origin'. NetworkMembershipOrigin T origin' \<longrightarrow> membership_revoke T origin' m t = Err (Module MembershipNotFound))"
proof -
  have wf: "membership_wf s" by (rule membership_inv.inv_reachable [OF assms(1)])
  from assms(2) obtain u where u: "Members s m = None" "add_member_and_schedule_expiry T m False s = Ok u"
    "s1 = membership_deposit_event (MembershipEvent.MembershipAcquired m) u"
    by (rule membership_nominate_OkE)
  have un: "unscheduled m s" by (rule wf_nonmember [OF wf u(1)])
  have "membership_wf s1" using add_member_wf [OF u(2) wf un] u(3) by simp
  moreover have "permanent m s1"
    using un u(2,3) by (auto simp: permanent_def unscheduled_def elim!: add_member_OkE)
  ultimately have "permanent m t" using permanent_steps [OF assms(3)] by simp
  with permanent_revoke [of T _ m t] show ?thesis by (auto simp: is_member_def permanent_def)
qed

theorem permanent_member_irrevocable_witness:
  "\<exists>s1. membership_nominate sample_membership_config 0 [3] False sample_members = Ok s1 \<and>
     membership_revoke sample_membership_config 0 [3] s1 = Err (Module MembershipNotFound)"
proof -
  obtain s1 where s1: "membership_nominate sample_membership_config 0 [3] False sample_members = Ok s1"
    by (simp add: membership_nominate_def membership_origin_def sample_members_facts
        add_member_and_schedule_expiry_def Let_def sample_membership_config_def)
  from permanent_member_irrevocable [OF sample_members_reachable s1 rtranclp.rtrancl_refl] s1
  show ?thesis by (simp add: sample_membership_config_def)
qed

end
