(* ===== verification/Did_Details.thy ===== *)
theory Did_Details
  imports Identifier
begin

text \<open>
  The documents of the did pallet (\<^verbatim>\<open>pallets/did/src/did_details.rs\<close>, \<^verbatim>\<open>errors.rs\<close>, \<^verbatim>\<open>utils.rs\<close> and
  \<^verbatim>\<open>service_endpoints.rs\<close>): the keys of an identity and their relationships, signatures, and service
  endpoints. The signature schemes, the SCALE encodings and the parser of URIs (\<^verbatim>\<open>fluent_uri\<close>) are
  parameters.

  Shown: the keys of a document are exactly those in use, within their bounds, each under its own
  identifier, and every update of a document keeps this.
\<close>

type_synonym did = bytes
type_synonym key_id = hash
type_synonym service_id = bytes

section \<open>Errors\<close>

datatype KeyType = KT_Authentication | KT_KeyAgreement | KT_AssertionMethod | KT_Delegation

datatype NotFoundKind = NF_Did | NF_Key KeyType

datatype StorageError =
    SE_AlreadyExists | SE_NotFound NotFoundKind | SE_MaxPublicKeysExceeded
  | SE_MaxTotalKeyAgreementKeysExceeded | SE_AlreadyDeleted

datatype SignatureError = SigInvalidFormat | SigInvalidData | SigInvalidNonce | SigTransactionExpired

datatype InputError =
    IE_MaxKeyAgreementKeysLimitExceeded | IE_MaxServicesCountExceeded | IE_MaxUrlCountExceeded
  | IE_MaxTypeCountExceeded | IE_MaxIdLengthExceeded | IE_MaxUrlLengthExceeded
  | IE_MaxTypeLengthExceeded | IE_InvalidEncoding

datatype DidError = DE_Storage StorageError | DE_Signature SignatureError | DE_Input InputError | DE_Internal

section \<open>Keys and signatures\<close>

datatype DidVerificationKey = Ed25519Key bytes | Sr25519Key bytes | EcdsaKey bytes | AccountKey account

datatype DidEncryptionKey = X25519 bytes

datatype DidPublicKey = PublicVerificationKey DidVerificationKey | PublicEncryptionKey DidEncryptionKey

datatype DidVerificationKeyRelationship =
  Authentication | CapabilityDelegation | CapabilityInvocation | AssertionMethod

datatype DidSignature = Ed25519Sig bytes | Sr25519Sig bytes | EcdsaSig bytes

fun key_type_of :: "DidVerificationKeyRelationship \<Rightarrow> KeyType" where
  "key_type_of Authentication = KT_Authentication"
| "key_type_of AssertionMethod = KT_AssertionMethod"
| "key_type_of CapabilityDelegation = KT_Delegation"
| "key_type_of CapabilityInvocation = KT_Delegation"

record did_endpoint =
  endpoint_id :: service_id
  service_types :: "bytes list"
  urls :: "bytes list"

record did_creation_details =
  creation_did :: did
  creation_submitter :: account
  new_key_agreement_keys :: "DidEncryptionKey list"
  new_assertion_key :: "DidVerificationKey option"
  new_delegation_key :: "DidVerificationKey option"
  new_service_details :: "did_endpoint list"

text \<open>The verification functions of the signature schemes take the signature, the payload and the key.\<close>

record did_details_config = frame_config +
  MaxPublicKeysPerDid :: u32
  MaxNewKeyAgreementKeys :: u32
  MaxTotalKeyAgreementKeys :: u32
  MaxNumberOfServicesPerDid :: u32
  MaxServiceIdLength :: u32
  MaxServiceTypeLength :: u32
  MaxNumberOfTypesPerService :: u32
  MaxServiceUrlLength :: u32
  MaxNumberOfUrlsPerService :: u32
  ed25519_verify :: "bytes \<Rightarrow> bytes \<Rightarrow> bytes \<Rightarrow> bool"
  sr25519_verify :: "bytes \<Rightarrow> bytes \<Rightarrow> bytes \<Rightarrow> bool"
  ecdsa_verify :: "bytes \<Rightarrow> bytes \<Rightarrow> bytes \<Rightarrow> bool"
  ecdsa_recover :: "bytes \<Rightarrow> bytes \<Rightarrow> bytes option"
  blake2_256 :: "bytes \<Rightarrow> bytes"
  encode_public_key :: "DidPublicKey \<Rightarrow> bytes"
  encode_creation :: "did_creation_details \<Rightarrow> bytes"
  uri_parses :: "bytes \<Rightarrow> bool"

fun verify_signature ::
  "'c did_details_config_scheme \<Rightarrow> DidVerificationKey \<Rightarrow> bytes \<Rightarrow> DidSignature \<Rightarrow> (unit, SignatureError) result" where
  "verify_signature T (Ed25519Key pk) payload (Ed25519Sig sig) = ensure (ed25519_verify T sig payload pk) SigInvalidData"
| "verify_signature T (Sr25519Key pk) payload (Sr25519Sig sig) = ensure (sr25519_verify T sig payload pk) SigInvalidData"
| "verify_signature T (EcdsaKey pk) payload (EcdsaSig sig) = ensure (ecdsa_verify T sig payload pk) SigInvalidData"
| "verify_signature T _ payload _ = Err SigInvalidFormat"

fun into_account :: "'c did_details_config_scheme \<Rightarrow> DidVerificationKey \<Rightarrow> account" where
  "into_account T (Ed25519Key pk) = pk"
| "into_account T (Sr25519Key pk) = pk"
| "into_account T (EcdsaKey pk) = blake2_256 T pk"
| "into_account T (AccountKey a) = a"

text \<open>An identifier is the raw public key, or the hash of the one an ECDSA signature recovers to.\<close>

fun verify_and_recover_signature ::
  "'c did_details_config_scheme \<Rightarrow> did \<Rightarrow> bytes \<Rightarrow> DidSignature \<Rightarrow> (DidVerificationKey, SignatureError) result" where
  "verify_and_recover_signature T did payload (Ed25519Sig sig) =
     and_then (verify_signature T (Ed25519Key did) payload (Ed25519Sig sig)) (\<lambda>_. Ok (Ed25519Key did))"
| "verify_and_recover_signature T did payload (Sr25519Sig sig) =
     and_then (verify_signature T (Sr25519Key did) payload (Sr25519Sig sig)) (\<lambda>_. Ok (Sr25519Key did))"
| "verify_and_recover_signature T did payload (EcdsaSig sig) =
     and_then (ensure (length sig = 65) SigInvalidData) (\<lambda>_.
     and_then (ok_or (ecdsa_recover T sig (blake2_256 T payload)) SigInvalidData) (\<lambda>recovered_pk.
     and_then (ensure (blake2_256 T recovered_pk = did) SigInvalidData) (\<lambda>_.
     Ok (EcdsaKey recovered_pk))))"

definition calculate_key_id :: "'c did_details_config_scheme \<Rightarrow> DidPublicKey \<Rightarrow> key_id" where
  "calculate_key_id T key = hashing T (encode_public_key T key)"

section \<open>Service endpoints\<close>

definition is_valid_ascii_string :: "bytes \<Rightarrow> bool" where
  "is_valid_ascii_string input \<longleftrightarrow> list_all (\<lambda>c. c < 0x80) input"

definition is_valid_uri :: "'c did_details_config_scheme \<Rightarrow> bytes \<Rightarrow> bool" where
  "is_valid_uri T input \<longleftrightarrow> uri_parses T input"

text \<open>The bytes of \<^verbatim>\<open>did:cord:test-did\<close>; \<^verbatim>\<open>#\<close> is \<open>0x23\<close>.\<close>

definition TEST_URI_BASE :: bytes where
  "TEST_URI_BASE = [0x64, 0x69, 0x64, 0x3A, 0x63, 0x6F, 0x72, 0x64, 0x3A, 0x74, 0x65, 0x73, 0x74, 0x2D, 0x64, 0x69, 0x64]"

definition is_valid_uri_fragment :: "'c did_details_config_scheme \<Rightarrow> bytes \<Rightarrow> bool" where
  "is_valid_uri_fragment T input \<longleftrightarrow> uri_parses T (TEST_URI_BASE @ 0x23 # input)"

fun check_all :: "('a \<Rightarrow> (unit, 'e) result) \<Rightarrow> 'a list \<Rightarrow> (unit, 'e) result" where
  "check_all f [] = Ok ()"
| "check_all f (x # xs) = and_then (f x) (\<lambda>_. check_all f xs)"

definition validate_against_constraints ::
  "'c did_details_config_scheme \<Rightarrow> did_endpoint \<Rightarrow> (unit, InputError) result" where
  "validate_against_constraints T e =
     and_then (ensure (length (service_types e) \<le> unat (MaxNumberOfTypesPerService T)) IE_MaxTypeCountExceeded) (\<lambda>_.
     and_then (ensure (length (urls e) \<le> unat (MaxNumberOfUrlsPerService T)) IE_MaxUrlCountExceeded) (\<lambda>_.
     and_then (ensure (length (endpoint_id e) \<le> unat (MaxServiceIdLength T)) IE_MaxIdLengthExceeded) (\<lambda>_.
     and_then (ensure (utf8_valid (endpoint_id e)) IE_InvalidEncoding) (\<lambda>_.
     and_then (ensure (is_valid_uri_fragment T (endpoint_id e)) IE_InvalidEncoding) (\<lambda>_.
     and_then (check_all (\<lambda>s_type.
         and_then (ensure (length s_type \<le> unat (MaxServiceTypeLength T)) IE_MaxTypeLengthExceeded) (\<lambda>_.
         and_then (ensure (utf8_valid s_type) IE_InvalidEncoding) (\<lambda>_.
         ensure (is_valid_ascii_string s_type) IE_InvalidEncoding))) (service_types e)) (\<lambda>_.
     check_all (\<lambda>s_url.
         and_then (ensure (length s_url \<le> unat (MaxServiceUrlLength T)) IE_MaxUrlLengthExceeded) (\<lambda>_.
         and_then (ensure (utf8_valid s_url) IE_InvalidEncoding) (\<lambda>_.
         ensure (is_valid_uri T s_url) IE_InvalidEncoding))) (urls e)))))))"

definition validate_new_service_endpoints ::
  "'c did_details_config_scheme \<Rightarrow> did_endpoint list \<Rightarrow> (unit, InputError) result" where
  "validate_new_service_endpoints T endpoints =
     and_then (ensure (length endpoints \<le> unat (MaxNumberOfServicesPerDid T)) IE_MaxServicesCountExceeded) (\<lambda>_.
     check_all (validate_against_constraints T) endpoints)"

section \<open>Documents\<close>

record did_public_key_details =
  pk_key :: DidPublicKey
  pk_block_number :: u32

record did_details =
  authentication_key :: key_id
  key_agreement_keys :: "key_id set"
  delegation_key :: "key_id option"
  assertion_key :: "key_id option"
  public_keys :: "key_id \<Rightarrow> did_public_key_details option"
  last_tx_counter :: u64

text \<open>
  \<open>BoundedBTreeMap::try_insert\<close> and \<open>BoundedBTreeSet::try_insert\<close> fail if the key is new and the
  bound is reached.
\<close>

definition map_try_insert :: "nat \<Rightarrow> 'k \<Rightarrow> 'v \<Rightarrow> ('k \<Rightarrow> 'v option) \<Rightarrow> ('k \<Rightarrow> 'v option) option" where
  "map_try_insert bound k v m = (if m k \<noteq> None \<or> card (dom m) < bound then Some (m(k \<mapsto> v)) else None)"

definition set_try_insert :: "nat \<Rightarrow> 'k \<Rightarrow> 'k set \<Rightarrow> 'k set option" where
  "set_try_insert bound k m = (if k \<in> m \<or> card m < bound then Some (insert k m) else None)"

definition insert_public_key ::
  "'c did_details_config_scheme \<Rightarrow> DidPublicKey \<Rightarrow> u32 \<Rightarrow> did_details \<Rightarrow> (did_details, StorageError) result" where
  "insert_public_key T key block d =
     and_then (ok_or (map_try_insert (unat (MaxPublicKeysPerDid T)) (calculate_key_id T key)
                 \<lparr>pk_key = key, pk_block_number = block\<rparr> (public_keys d)) SE_MaxPublicKeysExceeded) (\<lambda>keys.
     Ok (d\<lparr>public_keys := keys\<rparr>))"

definition remove_key_if_unused :: "key_id \<Rightarrow> did_details \<Rightarrow> did_details" where
  "remove_key_if_unused key_id d =
     (if authentication_key d \<noteq> key_id \<and> assertion_key d \<noteq> Some key_id \<and> delegation_key d \<noteq> Some key_id \<and>
         key_id \<notin> key_agreement_keys d
      then d\<lparr>public_keys := (public_keys d)(key_id := None)\<rparr> else d)"

definition did_details_new ::
  "'c did_details_config_scheme \<Rightarrow> DidVerificationKey \<Rightarrow> u32 \<Rightarrow> (did_details, StorageError) result" where
  "did_details_new T auth block =
     insert_public_key T (PublicVerificationKey auth) block
       \<lparr>authentication_key = calculate_key_id T (PublicVerificationKey auth), key_agreement_keys = {},
        delegation_key = None, assertion_key = None, public_keys = Map.empty, last_tx_counter = 0\<rparr>"

definition update_authentication_key ::
  "'c did_details_config_scheme \<Rightarrow> DidVerificationKey \<Rightarrow> u32 \<Rightarrow> did_details \<Rightarrow> (did_details, StorageError) result" where
  "update_authentication_key T new block d =
     (let old_id = authentication_key d; new_id = calculate_key_id T (PublicVerificationKey new);
          d1 = remove_key_if_unused old_id (d\<lparr>authentication_key := new_id\<rparr>)
      in insert_public_key T (PublicVerificationKey new) block d1)"

definition add_key_agreement_key ::
  "'c did_details_config_scheme \<Rightarrow> DidEncryptionKey \<Rightarrow> u32 \<Rightarrow> did_details \<Rightarrow> (did_details, StorageError) result" where
  "add_key_agreement_key T new block d =
     and_then (insert_public_key T (PublicEncryptionKey new) block d) (\<lambda>d1.
     and_then (ok_or (set_try_insert (unat (MaxTotalKeyAgreementKeys T))
                 (calculate_key_id T (PublicEncryptionKey new)) (key_agreement_keys d1))
                 SE_MaxTotalKeyAgreementKeysExceeded) (\<lambda>keys.
     Ok (d1\<lparr>key_agreement_keys := keys\<rparr>)))"

fun add_key_agreement_keys ::
  "'c did_details_config_scheme \<Rightarrow> DidEncryptionKey list \<Rightarrow> u32 \<Rightarrow> did_details \<Rightarrow> (did_details, StorageError) result" where
  "add_key_agreement_keys T [] block d = Ok d"
| "add_key_agreement_keys T (k # ks) block d =
     and_then (add_key_agreement_key T k block d) (add_key_agreement_keys T ks block)"

definition remove_key_agreement_key :: "key_id \<Rightarrow> did_details \<Rightarrow> (did_details, StorageError) result" where
  "remove_key_agreement_key key_id d =
     and_then (ensure (key_id \<in> key_agreement_keys d) (SE_NotFound (NF_Key KT_KeyAgreement))) (\<lambda>_.
     Ok (remove_key_if_unused key_id (d\<lparr>key_agreement_keys := key_agreement_keys d - {key_id}\<rparr>)))"

definition update_assertion_key ::
  "'c did_details_config_scheme \<Rightarrow> DidVerificationKey \<Rightarrow> u32 \<Rightarrow> did_details \<Rightarrow> (did_details, StorageError) result" where
  "update_assertion_key T new block d =
     (let new_id = calculate_key_id T (PublicVerificationKey new);
          d1 = (case assertion_key d of
                  Some old_id \<Rightarrow> remove_key_if_unused old_id (d\<lparr>assertion_key := None\<rparr>)
                | None \<Rightarrow> d\<lparr>assertion_key := None\<rparr>)
      in insert_public_key T (PublicVerificationKey new) block (d1\<lparr>assertion_key := Some new_id\<rparr>))"

definition remove_assertion_key :: "did_details \<Rightarrow> (did_details, StorageError) result" where
  "remove_assertion_key d =
     and_then (ok_or (assertion_key d) (SE_NotFound (NF_Key KT_AssertionMethod))) (\<lambda>old_id.
     Ok (remove_key_if_unused old_id (d\<lparr>assertion_key := None\<rparr>)))"

definition update_delegation_key ::
  "'c did_details_config_scheme \<Rightarrow> DidVerificationKey \<Rightarrow> u32 \<Rightarrow> did_details \<Rightarrow> (did_details, StorageError) result" where
  "update_delegation_key T new block d =
     (let new_id = calculate_key_id T (PublicVerificationKey new);
          d1 = (case delegation_key d of
                  Some old_id \<Rightarrow> remove_key_if_unused old_id (d\<lparr>delegation_key := None\<rparr>)
                | None \<Rightarrow> d\<lparr>delegation_key := None\<rparr>)
      in insert_public_key T (PublicVerificationKey new) block (d1\<lparr>delegation_key := Some new_id\<rparr>))"

definition remove_delegation_key :: "did_details \<Rightarrow> (did_details, StorageError) result" where
  "remove_delegation_key d =
     and_then (ok_or (delegation_key d) (SE_NotFound (NF_Key KT_AssertionMethod))) (\<lambda>old_id.
     Ok (remove_key_if_unused old_id (d\<lparr>delegation_key := None\<rparr>)))"

definition get_verification_key_for_key_type ::
  "DidVerificationKeyRelationship \<Rightarrow> did_details \<Rightarrow> DidVerificationKey option" where
  "get_verification_key_for_key_type key_type d =
     (case (case key_type of
              AssertionMethod \<Rightarrow> assertion_key d
            | Authentication \<Rightarrow> Some (authentication_key d)
            | CapabilityDelegation \<Rightarrow> delegation_key d
            | _ \<Rightarrow> None) of
        None \<Rightarrow> None
      | Some key_id \<Rightarrow>
          (case public_keys d key_id of
             None \<Rightarrow> None
           | Some key_details \<Rightarrow>
               (case pk_key key_details of PublicVerificationKey key \<Rightarrow> Some key | _ \<Rightarrow> None)))"

definition increase_tx_counter :: "did_details \<Rightarrow> did_details" where
  "increase_tx_counter d = d\<lparr>last_tx_counter := last_tx_counter d + 1\<rparr>"

definition new_with_creation_details ::
  "'c did_details_config_scheme \<Rightarrow> did_creation_details \<Rightarrow> DidVerificationKey \<Rightarrow> u32 \<Rightarrow> (did_details, DidError) result" where
  "new_with_creation_details T details new_auth_key block =
     and_then (ensure (length (new_key_agreement_keys details) \<le> unat (MaxNewKeyAgreementKeys T))
                 (DE_Input IE_MaxKeyAgreementKeysLimitExceeded)) (\<lambda>_.
     and_then (map_err DE_Storage (did_details_new T new_auth_key block)) (\<lambda>d1.
     and_then (map_err DE_Storage (add_key_agreement_keys T (new_key_agreement_keys details) block d1)) (\<lambda>d2.
     and_then (case new_assertion_key details of
                 Some k \<Rightarrow> map_err DE_Storage (update_assertion_key T k block d2) | None \<Rightarrow> Ok d2) (\<lambda>d3.
     case new_delegation_key details of
       Some k \<Rightarrow> map_err DE_Storage (update_delegation_key T k block d3) | None \<Rightarrow> Ok d3))))"

section \<open>Well-formed documents\<close>

text \<open>The identifiers of the keys a document uses.\<close>

definition used_keys :: "did_details \<Rightarrow> key_id set" where
  "used_keys d = insert (authentication_key d)
     (set_option (assertion_key d) \<union> set_option (delegation_key d) \<union> key_agreement_keys d)"

text \<open>
  The keys of a document, up to one key \<open>x\<close> that may be used without being stored yet: the stored
  keys are the used ones, each under its own identifier, and the relationships name keys of the right
  sort.
\<close>

definition keys_wf :: "'c did_details_config_scheme \<Rightarrow> key_id set \<Rightarrow> did_details \<Rightarrow> bool" where
  "keys_wf T X d \<longleftrightarrow> dom (public_keys d) \<union> X = used_keys d \<union> X \<and> finite (key_agreement_keys d) \<and>
     card (dom (public_keys d)) \<le> unat (MaxPublicKeysPerDid T) \<and>
     card (key_agreement_keys d) \<le> unat (MaxTotalKeyAgreementKeys T) \<and>
     (\<forall>i p. public_keys d i = Some p \<longrightarrow> i = calculate_key_id T (pk_key p)) \<and>
     insert (authentication_key d) (set_option (assertion_key d) \<union> set_option (delegation_key d))
       \<subseteq> range (\<lambda>k. calculate_key_id T (PublicVerificationKey k)) \<and>
     key_agreement_keys d \<subseteq> range (\<lambda>k. calculate_key_id T (PublicEncryptionKey k))"

definition did_details_wf :: "'c did_details_config_scheme \<Rightarrow> did_details \<Rightarrow> bool" where
  "did_details_wf T d \<longleftrightarrow> keys_wf T {} d"

lemma used_keys_finite: "finite (key_agreement_keys d) \<Longrightarrow> finite (used_keys d)"
  by (simp add: used_keys_def)

lemma keys_wf_finite: "keys_wf T X d \<Longrightarrow> finite X \<Longrightarrow> finite (dom (public_keys d))"
  using used_keys_finite [of d] unfolding keys_wf_def by (metis finite_Un)

lemma insert_public_key_OkD:
  "insert_public_key T key block d = Ok d' \<Longrightarrow>
   d' = d\<lparr>public_keys := (public_keys d)(calculate_key_id T key \<mapsto> \<lparr>pk_key = key, pk_block_number = block\<rparr>)\<rparr> \<and>
   (public_keys d (calculate_key_id T key) \<noteq> None \<or> card (dom (public_keys d)) < unat (MaxPublicKeysPerDid T))"
  by (auto simp: insert_public_key_def map_try_insert_def split: if_splits)

lemma insert_card:
  assumes "finite (dom m)" "m k \<noteq> None \<or> card (dom m) < n" "card (dom m) \<le> n"
  shows "card (insert k (dom m)) \<le> n"
  using assms by (auto simp: card_insert_if domIff)

lemma insert_public_key_wf:
  assumes "insert_public_key T key block d = Ok d'" "keys_wf T {calculate_key_id T key} d"
  shows "keys_wf T {calculate_key_id T key} d'" and "calculate_key_id T key \<in> used_keys d' \<Longrightarrow> did_details_wf T d'"
proof -
  note d' = insert_public_key_OkD [OF assms(1)]
  have dom': "dom (public_keys d') = insert (calculate_key_id T key) (dom (public_keys d))"
    using d' by auto
  have "card (dom (public_keys d')) \<le> unat (MaxPublicKeysPerDid T)"
    unfolding dom' using keys_wf_finite [OF assms(2)] d' assms(2) by (intro insert_card) (auto simp: keys_wf_def)
  then show *: "keys_wf T {calculate_key_id T key} d'"
    using assms(2) d' dom' by (auto simp: keys_wf_def used_keys_def)
  assume "calculate_key_id T key \<in> used_keys d'"
  with * dom' show "did_details_wf T d'" by (auto simp: did_details_wf_def keys_wf_def)
qed

text \<open>Dropping a relationship and then its key, if nothing else uses it.\<close>

lemma remove_unused_frame [simp]:
  "used_keys (remove_key_if_unused i d) = used_keys d"
  "authentication_key (remove_key_if_unused i d) = authentication_key d"
  "assertion_key (remove_key_if_unused i d) = assertion_key d"
  "delegation_key (remove_key_if_unused i d) = delegation_key d"
  "key_agreement_keys (remove_key_if_unused i d) = key_agreement_keys d"
  "last_tx_counter (remove_key_if_unused i d) = last_tx_counter d"
  by (simp_all add: remove_key_if_unused_def used_keys_def)

lemma remove_unused_keys:
  "public_keys (remove_key_if_unused i d) = (if i \<in> used_keys d then public_keys d else (public_keys d)(i := None))"
  by (auto simp: remove_key_if_unused_def used_keys_def)

lemma insert_minus_eq: "insert i (D \<union> X) = insert i (U \<union> X) \<Longrightarrow> i \<notin> U \<Longrightarrow> (D - {i}) \<union> X = U \<union> X"
  by (simp add: set_eq_iff) metis

lemma remove_unused_wf:
  assumes "keys_wf T (insert i X) d" "finite X" "i \<in> used_keys d \<Longrightarrow> i \<in> dom (public_keys d) \<or> i \<in> X"
  shows "keys_wf T X (remove_key_if_unused i d)"
proof -
  have fin: "finite (dom (public_keys d))" using keys_wf_finite [OF assms(1)] assms(2) by simp
  let ?d = "remove_key_if_unused i d"
  have eq: "insert i (dom (public_keys d) \<union> X) = insert i (used_keys d \<union> X)" using assms(1) by (simp add: keys_wf_def)
  have dom: "dom (public_keys ?d) = dom (public_keys d) - (if i \<in> used_keys d then {} else {i})"
    by (auto simp: remove_unused_keys)
  have "dom (public_keys ?d) \<union> X = used_keys d \<union> X"
  proof (cases "i \<in> used_keys d")
    case True
    then have "i \<in> dom (public_keys d) \<union> X" "i \<in> used_keys d \<union> X" using assms(3) by auto
    with eq show ?thesis by (simp add: dom True insert_absorb)
  next
    case False
    from insert_minus_eq [OF eq False] show ?thesis by (simp add: dom False)
  qed
  moreover have "card (dom (public_keys ?d)) \<le> card (dom (public_keys d))"
    unfolding dom using fin by (intro card_mono) auto
  moreover have "\<forall>k p. public_keys ?d k = Some p \<longrightarrow> public_keys d k = Some p" by (simp add: remove_unused_keys)
  ultimately show ?thesis using assms(1) unfolding keys_wf_def by (auto simp del: Un_insert_left Un_insert_right)
qed

lemma wf_update_authentication:
  assumes "update_authentication_key T k block d = Ok d'" "did_details_wf T d"
  shows "did_details_wf T d'"
proof -
  let ?i = "calculate_key_id T (PublicVerificationKey k)" and ?old = "authentication_key d"
  let ?d = "remove_key_if_unused ?old (d\<lparr>authentication_key := ?i\<rparr>)"
  have ins: "insert_public_key T (PublicVerificationKey k) block ?d = Ok d'"
    using assms(1) by (simp add: update_authentication_key_def Let_def)
  have "keys_wf T (insert ?old {?i}) (d\<lparr>authentication_key := ?i\<rparr>)" "?old \<in> dom (public_keys d)"
    using assms(2) by (auto simp: did_details_wf_def keys_wf_def used_keys_def)
  then have "keys_wf T {?i} ?d" by (intro remove_unused_wf) auto
  moreover have "?i \<in> used_keys d'" using insert_public_key_OkD [OF ins] by (simp add: used_keys_def)
  ultimately show ?thesis using insert_public_key_wf(2) [OF ins] by simp
qed

lemma wf_add_key_agreement:
  assumes "add_key_agreement_key T k block d = Ok d'" "did_details_wf T d"
  shows "did_details_wf T d'"
proof -
  let ?i = "calculate_key_id T (PublicEncryptionKey k)"
  obtain d1 where ins: "insert_public_key T (PublicEncryptionKey k) block d = Ok d1"
    and d': "d' = d1\<lparr>key_agreement_keys := insert ?i (key_agreement_keys d1)\<rparr>"
      "?i \<in> key_agreement_keys d1 \<or> card (key_agreement_keys d1) < unat (MaxTotalKeyAgreementKeys T)"
    using assms(1) by (auto simp: add_key_agreement_key_def set_try_insert_def split: if_splits)
  have "keys_wf T {?i} d" using assms(2) by (auto simp: did_details_wf_def keys_wf_def)
  note wf = insert_public_key_wf(1) [OF ins this]
  have dom: "?i \<in> dom (public_keys d1)" using insert_public_key_OkD [OF ins] by auto
  have "card (insert ?i (key_agreement_keys d1)) \<le> unat (MaxTotalKeyAgreementKeys T)"
    using wf d'(2) by (auto simp: keys_wf_def card_insert_if)
  moreover have "insert ?i (dom (public_keys d1)) = insert ?i (used_keys d1)" using wf by (simp add: keys_wf_def)
  then have "dom (public_keys d1) = insert ?i (used_keys d1)" using dom by (simp add: insert_absorb)
  moreover have "used_keys d' = insert ?i (used_keys d1)" by (auto simp: used_keys_def d'(1))
  ultimately show ?thesis using wf by (simp add: did_details_wf_def keys_wf_def d'(1))
qed

lemma wf_add_key_agreements:
  "add_key_agreement_keys T ks block d = Ok d' \<Longrightarrow> did_details_wf T d \<Longrightarrow> did_details_wf T d'"
  by (induction ks arbitrary: d) (auto intro: wf_add_key_agreement)

lemma wf_drop:
  assumes "did_details_wf T d" "i \<in> used_keys d" "public_keys d1 = public_keys d"
    "used_keys d1 \<subseteq> used_keys d" "used_keys d \<subseteq> insert i (used_keys d1)"
    "authentication_key d1 = authentication_key d" "set_option (assertion_key d1) \<subseteq> set_option (assertion_key d)"
    "set_option (delegation_key d1) \<subseteq> set_option (delegation_key d)" "key_agreement_keys d1 \<subseteq> key_agreement_keys d"
  shows "keys_wf T {i} d1" "did_details_wf T (remove_key_if_unused i d1)"
proof -
  have "card (key_agreement_keys d1) \<le> card (key_agreement_keys d)" "finite (key_agreement_keys d1)"
    using assms(1,9) by (auto simp: did_details_wf_def keys_wf_def intro: card_mono finite_subset)
  with assms show *: "keys_wf T {i} d1"
    unfolding did_details_wf_def keys_wf_def by auto
  have "i \<in> dom (public_keys d1)" using assms(1-3) by (auto simp: did_details_wf_def keys_wf_def)
  with * show "did_details_wf T (remove_key_if_unused i d1)"
    unfolding did_details_wf_def by (intro remove_unused_wf) auto
qed

lemma wf_remove_key_agreement:
  assumes "remove_key_agreement_key i d = Ok d'" "did_details_wf T d"
  shows "did_details_wf T d'"
  using assms by (auto simp: remove_key_agreement_key_def used_keys_def intro!: wf_drop(2) [OF assms(2)])

lemma wf_remove_assertion:
  assumes "remove_assertion_key d = Ok d'" "did_details_wf T d"
  shows "did_details_wf T d'"
  using assms by (auto simp: remove_assertion_key_def used_keys_def intro!: wf_drop(2) [OF assms(2)])

lemma wf_remove_delegation:
  assumes "remove_delegation_key d = Ok d'" "did_details_wf T d"
  shows "did_details_wf T d'"
  using assms by (auto simp: remove_delegation_key_def used_keys_def intro!: wf_drop(2) [OF assms(2)])

text \<open>Setting a relationship of a document that has none.\<close>

lemma wf_set_fresh:
  assumes "did_details_wf T d" "i = calculate_key_id T (PublicVerificationKey k)"
    "insert_public_key T (PublicVerificationKey k) block d1 = Ok d'"
    "d1 = d\<lparr>assertion_key := Some i\<rparr> \<and> assertion_key d = None \<or> d1 = d\<lparr>delegation_key := Some i\<rparr> \<and> delegation_key d = None"
  shows "did_details_wf T d'"
proof -
  have "used_keys d1 = insert i (used_keys d)" "public_keys d1 = public_keys d" "dom (public_keys d) = used_keys d"
    using assms(1,4) by (auto simp: used_keys_def did_details_wf_def keys_wf_def)
  then have "keys_wf T {calculate_key_id T (PublicVerificationKey k)} d1"
    using assms(1,2,4) by (auto simp: did_details_wf_def keys_wf_def)
  moreover have "calculate_key_id T (PublicVerificationKey k) \<in> used_keys d'"
    using insert_public_key_OkD [OF assms(3)] assms(2,4) by (auto simp: used_keys_def)
  ultimately show ?thesis using insert_public_key_wf(2) [OF assms(3)] by simp
qed

lemma wf_update_assertion:
  assumes "update_assertion_key T k block d = Ok d'" "did_details_wf T d"
  shows "did_details_wf T d'"
proof -
  define d1 where "d1 = (case assertion_key d of
      Some old \<Rightarrow> remove_key_if_unused old (d\<lparr>assertion_key := None\<rparr>) | None \<Rightarrow> d\<lparr>assertion_key := None\<rparr>)"
  have wf: "did_details_wf T d1"
  proof (cases "assertion_key d")
    case None
    then have "d1 = d" by (simp add: d1_def)
    with assms(2) show ?thesis by simp
  next
    case (Some i)
    then have "remove_assertion_key d = Ok d1" by (simp add: d1_def remove_assertion_key_def)
    then show ?thesis by (rule wf_remove_assertion [OF _ assms(2)])
  qed
  have "assertion_key d1 = None" by (simp add: d1_def split: option.split)
  moreover have "insert_public_key T (PublicVerificationKey k) block
      (d1\<lparr>assertion_key := Some (calculate_key_id T (PublicVerificationKey k))\<rparr>) = Ok d'"
    using assms(1) by (simp add: update_assertion_key_def Let_def d1_def)
  ultimately show ?thesis using wf_set_fresh [OF wf refl] by blast
qed

lemma wf_update_delegation:
  assumes "update_delegation_key T k block d = Ok d'" "did_details_wf T d"
  shows "did_details_wf T d'"
proof -
  define d1 where "d1 = (case delegation_key d of
      Some old \<Rightarrow> remove_key_if_unused old (d\<lparr>delegation_key := None\<rparr>) | None \<Rightarrow> d\<lparr>delegation_key := None\<rparr>)"
  have wf: "did_details_wf T d1"
  proof (cases "delegation_key d")
    case None
    then have "d1 = d" by (simp add: d1_def)
    with assms(2) show ?thesis by simp
  next
    case (Some i)
    then have "remove_delegation_key d = Ok d1" by (simp add: d1_def remove_delegation_key_def)
    then show ?thesis by (rule wf_remove_delegation [OF _ assms(2)])
  qed
  have "delegation_key d1 = None" by (simp add: d1_def split: option.split)
  moreover have "insert_public_key T (PublicVerificationKey k) block
      (d1\<lparr>delegation_key := Some (calculate_key_id T (PublicVerificationKey k))\<rparr>) = Ok d'"
    using assms(1) by (simp add: update_delegation_key_def Let_def d1_def)
  ultimately show ?thesis using wf_set_fresh [OF wf refl] by blast
qed

lemma wf_new:
  assumes "did_details_new T k block = Ok d"
  shows "did_details_wf T d"
  by (rule insert_public_key_wf(2) [OF assms [unfolded did_details_new_def]])
    (use insert_public_key_OkD [OF assms [unfolded did_details_new_def]] in \<open>auto simp: keys_wf_def used_keys_def\<close>)

lemma wf_creation:
  assumes "new_with_creation_details T details k block = Ok d"
  shows "did_details_wf T d"
proof -
  from assms obtain d1 d2 d3 where
    d1: "did_details_new T k block = Ok d1" and
    d2: "add_key_agreement_keys T (new_key_agreement_keys details) block d1 = Ok d2" and
    d3: "(case new_assertion_key details of
            Some k \<Rightarrow> map_err DE_Storage (update_assertion_key T k block d2) | None \<Rightarrow> Ok d2) = Ok d3" and
    d: "(case new_delegation_key details of
            Some k \<Rightarrow> map_err DE_Storage (update_delegation_key T k block d3) | None \<Rightarrow> Ok d3) = Ok d"
    by (clarsimp simp: new_with_creation_details_def)
  have "did_details_wf T d2" by (rule wf_add_key_agreements [OF d2 wf_new [OF d1]])
  with d3 have "did_details_wf T d3" by (auto split: option.splits intro: wf_update_assertion)
  with d show ?thesis by (auto split: option.splits intro: wf_update_delegation)
qed

lemma wf_counter: "did_details_wf T (increase_tx_counter d) = did_details_wf T d"
  by (simp add: did_details_wf_def keys_wf_def increase_tx_counter_def used_keys_def)

lemmas did_details_wf_intros = wf_update_authentication wf_add_key_agreement wf_remove_key_agreement
  wf_update_assertion wf_remove_assertion wf_update_delegation wf_remove_delegation

text \<open>If no two keys share an identifier, every relationship leads to a key of the right sort.\<close>

lemma wf_verification_key:
  assumes "did_details_wf T d" "inj (calculate_key_id T)"
    and "i \<in> insert (authentication_key d) (set_option (assertion_key d) \<union> set_option (delegation_key d))"
  shows "\<exists>p k. public_keys d i = Some p \<and> pk_key p = PublicVerificationKey k \<and> i = calculate_key_id T (PublicVerificationKey k)"
proof -
  have "i \<in> dom (public_keys d)" using assms(1,3) by (auto simp: did_details_wf_def keys_wf_def used_keys_def)
  then obtain p where p: "public_keys d i = Some p" by blast
  have "i \<in> range (\<lambda>k. calculate_key_id T (PublicVerificationKey k))"
    using assms(1) subsetD [OF _ assms(3)] by (simp add: did_details_wf_def keys_wf_def)
  then obtain k where k: "i = calculate_key_id T (PublicVerificationKey k)" by (rule rangeE)
  have "i = calculate_key_id T (pk_key p)" using assms(1) p by (simp add: did_details_wf_def keys_wf_def)
  with k have "pk_key p = PublicVerificationKey k" using injD [OF assms(2)] by simp
  with p k show ?thesis by blast
qed

end
