(* ===== verification/Did_Pallet.thy ===== *)
theory Did_Pallet
  imports Did_Details
begin

text \<open>
  The did pallet (\<^verbatim>\<open>pallets/did/src/lib.rs\<close>, \<^verbatim>\<open>origin.rs\<close>, \<^verbatim>\<open>signature.rs\<close>, \<^verbatim>\<open>try_state.rs\<close>): creation, update and
  deletion of identities, and calls made in the name of an identity, either with its signature and a
  counter or by the account of its key.

  The calls of the runtime are a type parameter. How a call is dispatched, and which key it needs, are
  parameters too. The first is assumed to touch the storage of this pallet only through its functions
  (\<open>dispatch_spec\<close>), as FRAME isolates the storage of pallets. What a limited \<^verbatim>\<open>clear_prefix\<close> leaves is a
  parameter with its documented law (\<open>clear_spec\<close>).
\<close>

section \<open>Types\<close>

datatype DidPalletError =
    InvalidSignatureFormat | DidInvalidSignature | DidAlreadyExists | DidNotFound | VerificationKeyNotFound
  | InvalidNonce | UnsupportedDidAuthorizationCall | InvalidDidAuthorizationCall
  | MaxNewKeyAgreementKeysLimitExceeded | MaxPublicKeysExceeded | MaxKeyAgreementKeysExceeded | BadDidOrigin
  | TransactionExpired | AlreadyDeleted | MaxNumberOfServicesExceeded | MaxServiceIdLengthExceeded
  | MaxServiceTypeLengthExceeded | MaxNumberOfTypesPerServiceExceeded | MaxServiceUrlLengthExceeded
  | MaxNumberOfUrlsPerServiceExceeded | ServiceAlreadyExists | ServiceNotFound | InvalidServiceEncoding
  | MaxStoredEndpointsCountExceeded | DidInternal

text \<open>An error of another pallet is its index and its encoded error.\<close>

type_synonym did_dispatch_error = "(DidPalletError + (u8 \<times> bytes)) dispatch_error"

datatype DidEvent =
    DidCreated account did
  | DidUpdated did
  | DidDeleted did
  | CallDispatched did "(unit, did_dispatch_error) result"

datatype RelationshipDeriveError = NotCallableByDid | InvalidCallParameter

record did_raw_origin =
  origin_id :: did
  origin_submitter :: account

record 'call did_operation =
  op_did :: did
  op_tx_counter :: u64
  op_call :: 'call
  op_block_number :: u32
  op_submitter :: account

record did_storage = frame_system +
  Did :: "did \<Rightarrow> did_details option"
  ServiceEndpoints :: "did \<Rightarrow> service_id \<Rightarrow> did_endpoint option"
  DidEndpointsCount :: "did \<Rightarrow> u32"
  DidBlacklist :: "did \<Rightarrow> unit option"
  did_events :: "DidEvent list"

type_synonym 'm did_result = "('m did_storage_scheme, did_dispatch_error) result"

record ('o, 'call, 's) did_config = did_details_config +
  MaxBlocksTxValidity :: u32
  did_signed :: "'o \<Rightarrow> account option"
  did_raw_from :: "'o \<Rightarrow> did_raw_origin option"
  did_raw_into :: "did_raw_origin \<Rightarrow> 'o"
  did_of_account :: "account \<Rightarrow> did"
  derive_relationship :: "'call \<Rightarrow> (DidVerificationKeyRelationship, RelationshipDeriveError) result"
  dispatch_call :: "'call \<Rightarrow> 'o \<Rightarrow> 's \<Rightarrow> ('s, did_dispatch_error) result"
  encode_operation :: "'call did_operation \<Rightarrow> bytes"
  clear_endpoints :: "u32 \<Rightarrow> (service_id \<Rightarrow> did_endpoint option) \<Rightarrow> (service_id \<Rightarrow> did_endpoint option) \<times> bool"

text \<open>A cursor is left exactly if something is; with a limit that suffices nothing is left.\<close>

definition clear_spec :: "('o, 'call, 's, 'c) did_config_scheme \<Rightarrow> bool" where
  "clear_spec T \<longleftrightarrow> (\<forall>n m m' cursor. clear_endpoints T n m = (m', cursor) \<longrightarrow>
     (cursor \<longleftrightarrow> m' \<noteq> Map.empty) \<and> (card (dom m) \<le> unat n \<longrightarrow> m' = Map.empty))"

section \<open>Errors of the pallet\<close>

fun from_storage_error :: "StorageError \<Rightarrow> DidPalletError" where
  "from_storage_error (SE_NotFound NF_Did) = DidNotFound"
| "from_storage_error (SE_NotFound (NF_Key _)) = VerificationKeyNotFound"
| "from_storage_error SE_AlreadyExists = DidAlreadyExists"
| "from_storage_error SE_MaxPublicKeysExceeded = MaxPublicKeysExceeded"
| "from_storage_error SE_MaxTotalKeyAgreementKeysExceeded = MaxKeyAgreementKeysExceeded"
| "from_storage_error SE_AlreadyDeleted = AlreadyDeleted"

fun from_signature_error :: "SignatureError \<Rightarrow> DidPalletError" where
  "from_signature_error SigInvalidData = DidInvalidSignature"
| "from_signature_error SigInvalidFormat = InvalidSignatureFormat"
| "from_signature_error SigInvalidNonce = InvalidNonce"
| "from_signature_error SigTransactionExpired = TransactionExpired"

fun from_input_error :: "InputError \<Rightarrow> DidPalletError" where
  "from_input_error IE_MaxKeyAgreementKeysLimitExceeded = MaxNewKeyAgreementKeysLimitExceeded"
| "from_input_error IE_MaxIdLengthExceeded = MaxServiceIdLengthExceeded"
| "from_input_error IE_MaxServicesCountExceeded = MaxNumberOfServicesExceeded"
| "from_input_error IE_MaxTypeCountExceeded = MaxNumberOfTypesPerServiceExceeded"
| "from_input_error IE_MaxTypeLengthExceeded = MaxServiceTypeLengthExceeded"
| "from_input_error IE_MaxUrlCountExceeded = MaxNumberOfUrlsPerServiceExceeded"
| "from_input_error IE_MaxUrlLengthExceeded = MaxServiceUrlLengthExceeded"
| "from_input_error IE_InvalidEncoding = InvalidServiceEncoding"

fun from_did_error :: "DidError \<Rightarrow> DidPalletError" where
  "from_did_error (DE_Storage e) = from_storage_error e"
| "from_did_error (DE_Signature e) = from_signature_error e"
| "from_did_error (DE_Input e) = from_input_error e"
| "from_did_error DE_Internal = DidInternal"

fun from_derive_error :: "RelationshipDeriveError \<Rightarrow> DidPalletError" where
  "from_derive_error InvalidCallParameter = InvalidDidAuthorizationCall"
| "from_derive_error NotCallableByDid = UnsupportedDidAuthorizationCall"

definition did_err :: "DidPalletError \<Rightarrow> did_dispatch_error" where
  "did_err e = Module (Inl e)"

section \<open>Internal functions\<close>

definition did_deposit_event :: "DidEvent \<Rightarrow> 'm did_storage_scheme \<Rightarrow> 'm did_storage_scheme" where
  "did_deposit_event e s = s\<lparr>did_events := did_events s @ [e]\<rparr>"

definition saturated_u32 :: "nat \<Rightarrow> u32" where
  "saturated_u32 n = (if n < 2 ^ 32 then of_nat n else - 1)"

definition try_insert_did :: "did \<Rightarrow> did_details \<Rightarrow> account \<Rightarrow> 'm did_storage_scheme \<Rightarrow> 'm did_result" where
  "try_insert_did did_identifier did_entry sender s =
     and_then (ensure (DidBlacklist s did_identifier = None) (did_err AlreadyDeleted)) (\<lambda>_.
     and_then (ensure (Did s did_identifier = None) (did_err DidAlreadyExists)) (\<lambda>_.
     Ok (did_deposit_event (DidCreated sender did_identifier) (s\<lparr>Did := (Did s)(did_identifier \<mapsto> did_entry)\<rparr>))))"

definition try_update_did :: "did \<Rightarrow> did_details \<Rightarrow> 'm did_storage_scheme \<Rightarrow> 'm did_result" where
  "try_update_did did_identifier did_details s = Ok (s\<lparr>Did := (Did s)(did_identifier \<mapsto> did_details)\<rparr>)"

definition validate_block_number_value ::
  "('o, 'call, 's, 'c) did_config_scheme \<Rightarrow> u32 \<Rightarrow> 'm did_storage_scheme \<Rightarrow> (unit, DidError) result" where
  "validate_block_number_value T block s =
     ensure (block \<le> block_number s \<and> block_number s \<le> saturating_add block (MaxBlocksTxValidity T))
       (DE_Signature SigTransactionExpired)"

definition validate_counter_value :: "u64 \<Rightarrow> did_details \<Rightarrow> (unit, DidError) result" where
  "validate_counter_value counter d = ensure (counter = last_tx_counter d + 1) (DE_Signature SigInvalidNonce)"

definition key_for ::
  "DidVerificationKeyRelationship \<Rightarrow> did_details \<Rightarrow> (DidVerificationKey, DidError) result" where
  "key_for key_type d =
     ok_or (get_verification_key_for_key_type key_type d) (DE_Storage (SE_NotFound (NF_Key (key_type_of key_type))))"

definition verify_payload_signature_with_did_key_type ::
  "'c did_details_config_scheme \<Rightarrow> bytes \<Rightarrow> DidSignature \<Rightarrow> did_details \<Rightarrow> DidVerificationKeyRelationship
   \<Rightarrow> (unit, DidError) result" where
  "verify_payload_signature_with_did_key_type T payload signature d key_type =
     and_then (key_for key_type d) (\<lambda>verification_key.
     map_err DE_Signature (verify_signature T verification_key payload signature))"

definition verify_did_operation_signature_and_increase_nonce ::
  "('o, 'call, 's, 'c) did_config_scheme \<Rightarrow> 'call did_operation \<Rightarrow> DidVerificationKeyRelationship \<Rightarrow> DidSignature
   \<Rightarrow> 'm did_storage_scheme \<Rightarrow> ('m did_storage_scheme, DidError) result" where
  "verify_did_operation_signature_and_increase_nonce T oper key_type signature s =
     and_then (validate_block_number_value T (op_block_number oper) s) (\<lambda>_.
     and_then (ok_or (Did s (op_did oper)) (DE_Storage (SE_NotFound NF_Did))) (\<lambda>did_details.
     and_then (validate_counter_value (op_tx_counter oper) did_details) (\<lambda>_.
     let did_details1 = increase_tx_counter did_details in
     and_then (verify_payload_signature_with_did_key_type T (encode_operation T oper) signature did_details1 key_type) (\<lambda>_.
     Ok (s\<lparr>Did := (Did s)(op_did oper \<mapsto> did_details1)\<rparr>)))))"

definition verify_account_authorization ::
  "'c did_details_config_scheme \<Rightarrow> did \<Rightarrow> account \<Rightarrow> DidVerificationKeyRelationship \<Rightarrow> 'm did_storage_scheme
   \<Rightarrow> (unit, DidError) result" where
  "verify_account_authorization T did_identifier submitter_account key_type s =
     and_then (ok_or (Did s did_identifier) (DE_Storage (SE_NotFound NF_Did))) (\<lambda>did_details.
     and_then (key_for key_type did_details) (\<lambda>verification_key.
     if submitter_account = into_account T verification_key then Ok () else Err (DE_Signature SigInvalidData)))"

definition delete_did ::
  "('o, 'call, 's, 'c) did_config_scheme \<Rightarrow> did \<Rightarrow> u32 \<Rightarrow> 'm did_storage_scheme \<Rightarrow> 'm did_result" where
  "delete_did T did_subject endpoints_to_remove s =
     (let current_endpoints_count = DidEndpointsCount s did_subject in
     and_then (ensure (current_endpoints_count \<le> endpoints_to_remove) (did_err MaxStoredEndpointsCountExceeded)) (\<lambda>_.
     case clear_endpoints T current_endpoints_count (ServiceEndpoints s did_subject) of
       (rest, maybe_cursor) \<Rightarrow>
         let s1 = s\<lparr>ServiceEndpoints := (ServiceEndpoints s)(did_subject := rest)\<rparr> in
         if maybe_cursor then Err (did_err DidInternal)
         else and_then (ok_or (Did s1 did_subject) (did_err DidNotFound)) (\<lambda>_.
           Ok (did_deposit_event (DidDeleted did_subject)
                 (s1\<lparr>Did := (Did s1)(did_subject := None), DidEndpointsCount := (DidEndpointsCount s1)(did_subject := 0),
                    DidBlacklist := (DidBlacklist s1)(did_subject \<mapsto> ())\<rparr>)))))"

text \<open>The verifier of signatures the pallet offers to others.\<close>

datatype SignatureVerificationError = SignerInformationNotPresent | SignatureInvalid

definition DidSignatureVerify ::
  "'c did_details_config_scheme \<Rightarrow> did \<Rightarrow> bytes \<Rightarrow> DidSignature \<Rightarrow> 'm did_storage_scheme
   \<Rightarrow> (unit, SignatureVerificationError) result" where
  "DidSignatureVerify T delegate payload signature s =
     and_then (ok_or (Did s delegate) SignerInformationNotPresent) (\<lambda>delegate_details.
     map_err (\<lambda>err. case err of DE_Signature _ \<Rightarrow> SignatureInvalid | _ \<Rightarrow> SignerInformationNotPresent)
       (verify_payload_signature_with_did_key_type T payload signature delegate_details Authentication))"

section \<open>Extrinsics\<close>

definition did_sender ::
  "('o, 'call, 's, 'c) did_config_scheme \<Rightarrow> 'o \<Rightarrow> (account, did_dispatch_error) result" where
  "did_sender T origin = ok_or (did_signed T origin) BadOrigin"

definition did_subject ::
  "('o, 'call, 's, 'c) did_config_scheme \<Rightarrow> 'o \<Rightarrow> (did, did_dispatch_error) result" where
  "did_subject T origin = ok_or (map_option origin_id (did_raw_from T origin)) BadOrigin"

fun insert_endpoints :: "did \<Rightarrow> did_endpoint list \<Rightarrow> 'm did_storage_scheme \<Rightarrow> 'm did_storage_scheme" where
  "insert_endpoints i [] s = s"
| "insert_endpoints i (service # services) s = insert_endpoints i services
     (s\<lparr>ServiceEndpoints := (ServiceEndpoints s)(i := (ServiceEndpoints s i)(endpoint_id service \<mapsto> service))\<rparr>)"

definition did_create ::
  "('o, 'call, 's, 'c) did_config_scheme \<Rightarrow> 'o \<Rightarrow> did_creation_details \<Rightarrow> DidSignature \<Rightarrow> 'm did_storage_scheme
   \<Rightarrow> 'm did_result" where
  "did_create T origin details signature s =
     and_then (did_sender T origin) (\<lambda>sender.
     let did_identifier = creation_did details in
     and_then (ensure (sender = creation_submitter details) BadOrigin) (\<lambda>_.
     and_then (map_err (\<lambda>e. did_err (from_signature_error e))
         (verify_and_recover_signature T did_identifier (encode_creation T details) signature)) (\<lambda>account_did_auth_key.
     let input_service_endpoints = new_service_details details in
     and_then (map_err (\<lambda>e. did_err (from_input_error e))
         (validate_new_service_endpoints T input_service_endpoints)) (\<lambda>_.
     let s1 = insert_endpoints did_identifier input_service_endpoints s;
         s2 = s1\<lparr>DidEndpointsCount := (DidEndpointsCount s1)(did_identifier := saturated_u32 (length input_service_endpoints))\<rparr>
     in and_then (map_err (\<lambda>e. did_err (from_did_error e))
         (new_with_creation_details T details account_did_auth_key (block_number s2))) (\<lambda>did_entry.
     try_insert_did did_identifier did_entry sender s2)))))"

text \<open>The calls that update the document of the subject share their frame.\<close>

definition with_did ::
  "('o, 'call, 's, 'c) did_config_scheme \<Rightarrow> 'o \<Rightarrow> (did_details \<Rightarrow> (did_details, StorageError) result)
   \<Rightarrow> 'm did_storage_scheme \<Rightarrow> 'm did_result" where
  "with_did T origin f s =
     and_then (did_subject T origin) (\<lambda>subj.
     and_then (ok_or (Did s subj) (did_err DidNotFound)) (\<lambda>did_details.
     and_then (map_err (\<lambda>e. did_err (from_storage_error e)) (f did_details)) (\<lambda>did_details1.
     and_then (try_update_did subj did_details1 s) (\<lambda>s1.
     Ok (did_deposit_event (DidUpdated subj) s1)))))"

definition did_set_authentication_key where
  "did_set_authentication_key T origin new_key s = with_did T origin (update_authentication_key T new_key (block_number s)) s"

definition did_set_delegation_key where
  "did_set_delegation_key T origin new_key s = with_did T origin (update_delegation_key T new_key (block_number s)) s"

definition did_remove_delegation_key where
  "did_remove_delegation_key T origin s = with_did T origin remove_delegation_key s"

definition did_set_assertion_key where
  "did_set_assertion_key T origin new_key s = with_did T origin (update_assertion_key T new_key (block_number s)) s"

definition did_remove_assertion_key where
  "did_remove_assertion_key T origin s = with_did T origin remove_assertion_key s"

definition did_add_key_agreement_key where
  "did_add_key_agreement_key T origin new_key s = with_did T origin (add_key_agreement_key T new_key (block_number s)) s"

definition did_remove_key_agreement_key where
  "did_remove_key_agreement_key T origin key_id s = with_did T origin (remove_key_agreement_key key_id) s"

definition did_add_service_endpoint ::
  "('o, 'call, 's, 'c) did_config_scheme \<Rightarrow> 'o \<Rightarrow> did_endpoint \<Rightarrow> 'm did_storage_scheme \<Rightarrow> 'm did_result" where
  "did_add_service_endpoint T origin service_endpoint s =
     and_then (did_subject T origin) (\<lambda>subj.
     and_then (map_err (\<lambda>e. did_err (from_input_error e)) (validate_against_constraints T service_endpoint)) (\<lambda>_.
     and_then (ok_or (Did s subj) (did_err DidNotFound)) (\<lambda>did_details.
     let currently_stored_endpoints_count = DidEndpointsCount s subj in
     and_then (ensure (currently_stored_endpoints_count < MaxNumberOfServicesPerDid T)
                 (did_err MaxNumberOfServicesExceeded)) (\<lambda>_.
     and_then (ensure (ServiceEndpoints s subj (endpoint_id service_endpoint) = None) (did_err ServiceAlreadyExists)) (\<lambda>_.
     let s1 = s\<lparr>ServiceEndpoints := (ServiceEndpoints s)
                 (subj := (ServiceEndpoints s subj)(endpoint_id service_endpoint \<mapsto> service_endpoint))\<rparr>;
         s2 = s1\<lparr>DidEndpointsCount := (DidEndpointsCount s1)(subj := saturating_add currently_stored_endpoints_count 1)\<rparr>
     in and_then (try_update_did subj did_details s2) (\<lambda>s3.
     Ok (did_deposit_event (DidUpdated subj) s3)))))))"

definition did_remove_service_endpoint ::
  "('o, 'call, 's, 'c) did_config_scheme \<Rightarrow> 'o \<Rightarrow> service_id \<Rightarrow> 'm did_storage_scheme \<Rightarrow> 'm did_result" where
  "did_remove_service_endpoint T origin service s =
     and_then (did_subject T origin) (\<lambda>subj.
     and_then (ok_or (Did s subj) (did_err DidNotFound)) (\<lambda>did_details.
     and_then (ensure (ServiceEndpoints s subj service \<noteq> None) (did_err ServiceNotFound)) (\<lambda>_.
     let s1 = s\<lparr>ServiceEndpoints := (ServiceEndpoints s)(subj := (ServiceEndpoints s subj)(service := None))\<rparr>;
         s2 = s1\<lparr>DidEndpointsCount := (DidEndpointsCount s1)(subj := saturating_sub (DidEndpointsCount s1 subj) 1)\<rparr>
     in and_then (try_update_did subj did_details s2) (\<lambda>s3.
     Ok (did_deposit_event (DidUpdated subj) s3)))))"

definition did_delete ::
  "('o, 'call, 's, 'c) did_config_scheme \<Rightarrow> 'o \<Rightarrow> u32 \<Rightarrow> 'm did_storage_scheme \<Rightarrow> 'm did_result" where
  "did_delete T origin endpoints_to_remove s =
     and_then (did_subject T origin) (\<lambda>subj. delete_did T subj endpoints_to_remove s)"

definition did_create_from_account ::
  "('o, 'call, 's, 'c) did_config_scheme \<Rightarrow> 'o \<Rightarrow> DidVerificationKey \<Rightarrow> 'm did_storage_scheme \<Rightarrow> 'm did_result" where
  "did_create_from_account T origin auth_key s =
     and_then (did_sender T origin) (\<lambda>sender.
     let did_identifier = did_of_account T sender in
     and_then (map_err (\<lambda>e. did_err (from_storage_error e)) (did_details_new T auth_key (block_number s))) (\<lambda>did_entry.
     try_insert_did did_identifier did_entry sender s))"

text \<open>A failed inner call fails the whole extrinsic, whose writes are then dropped.\<close>

definition submit_did_call ::
  "('o, 'call, 'm did_storage_scheme, 'c) did_config_scheme \<Rightarrow> 'o \<Rightarrow> 'call did_operation \<Rightarrow> DidSignature
   \<Rightarrow> 'm did_storage_scheme \<Rightarrow> 'm did_result" where
  "submit_did_call T origin did_call signature s =
     and_then (did_sender T origin) (\<lambda>who.
     and_then (ensure (op_submitter did_call = who) (did_err BadDidOrigin)) (\<lambda>_.
     let did_identifier = op_did did_call in
     and_then (map_err (\<lambda>e. did_err (from_derive_error e)) (derive_relationship T (op_call did_call))) (\<lambda>key_type.
     and_then (map_err (\<lambda>e. did_err (from_did_error e))
         (verify_did_operation_signature_and_increase_nonce T did_call key_type signature s)) (\<lambda>s1.
     and_then (dispatch_call T (op_call did_call)
         (did_raw_into T \<lparr>origin_id = did_identifier, origin_submitter = who\<rparr>) s1) (\<lambda>s2.
     Ok (did_deposit_event (CallDispatched did_identifier (Ok ())) s2))))))"

definition dispatch_as ::
  "('o, 'call, 'm did_storage_scheme, 'c) did_config_scheme \<Rightarrow> 'o \<Rightarrow> did \<Rightarrow> 'call \<Rightarrow> 'm did_storage_scheme \<Rightarrow> 'm did_result" where
  "dispatch_as T origin did_identifier call s =
     and_then (did_sender T origin) (\<lambda>who.
     and_then (map_err (\<lambda>e. did_err (from_derive_error e)) (derive_relationship T call)) (\<lambda>key_type.
     and_then (map_err (\<lambda>e. did_err (from_did_error e))
         (verify_account_authorization T did_identifier who key_type s)) (\<lambda>_.
     and_then (dispatch_call T call (did_raw_into T \<lparr>origin_id = did_identifier, origin_submitter = who\<rparr>) s) (\<lambda>s1.
     Ok (did_deposit_event (CallDispatched did_identifier (Ok ())) s1)))))"

section \<open>The state check of the pallet\<close>

text \<open>\<open>do_try_state\<close> goes through all identities and all deleted ones.\<close>

definition do_try_state :: "'c did_details_config_scheme \<Rightarrow> 'm did_storage_scheme \<Rightarrow> bool" where
  "do_try_state T s \<longleftrightarrow>
     (\<forall>subj d. Did s subj = Some d \<longrightarrow>
        (let service_endpoints_count = card (dom (ServiceEndpoints s subj)) in
         service_endpoints_count = unat (DidEndpointsCount s subj) \<and>
         card (key_agreement_keys d) \<le> unat (MaxTotalKeyAgreementKeys T) \<and>
         service_endpoints_count \<le> unat (MaxNumberOfServicesPerDid T) \<and>
         DidBlacklist s subj = None)) \<and>
     (\<forall>subj. DidBlacklist s subj \<noteq> None \<longrightarrow> card (dom (ServiceEndpoints s subj)) = 0)"

section \<open>Steps\<close>

text \<open>
  The elementary changes of the storage: the calls of the pallet, an accepted signed operation (the part
  of \<open>submit_did_call\<close> before the inner call), and any change elsewhere. \<open>P\<close> restricts the creations.
  The list records the identities whose signed operations were accepted.
\<close>

definition same_did :: "'m did_storage_scheme \<Rightarrow> 'm did_storage_scheme \<Rightarrow> bool" where
  "same_did s s' \<longleftrightarrow> Did s' = Did s \<and> ServiceEndpoints s' = ServiceEndpoints s \<and>
     DidEndpointsCount s' = DidEndpointsCount s \<and> DidBlacklist s' = DidBlacklist s"

datatype DidUpdate =
    SetAuthenticationKey DidVerificationKey | SetDelegationKey DidVerificationKey | RemoveDelegationKey
  | SetAssertionKey DidVerificationKey | RemoveAssertionKey | AddKeyAgreementKey DidEncryptionKey
  | RemoveKeyAgreementKey key_id | AddServiceEndpoint did_endpoint | RemoveServiceEndpoint service_id | DeleteDid u32

fun did_update_call ::
  "('o, 'call, 's, 'c) did_config_scheme \<Rightarrow> 'o \<Rightarrow> DidUpdate \<Rightarrow> 'm did_storage_scheme \<Rightarrow> 'm did_result" where
  "did_update_call T origin (SetAuthenticationKey k) s = did_set_authentication_key T origin k s"
| "did_update_call T origin (SetDelegationKey k) s = did_set_delegation_key T origin k s"
| "did_update_call T origin RemoveDelegationKey s = did_remove_delegation_key T origin s"
| "did_update_call T origin (SetAssertionKey k) s = did_set_assertion_key T origin k s"
| "did_update_call T origin RemoveAssertionKey s = did_remove_assertion_key T origin s"
| "did_update_call T origin (AddKeyAgreementKey k) s = did_add_key_agreement_key T origin k s"
| "did_update_call T origin (RemoveKeyAgreementKey i) s = did_remove_key_agreement_key T origin i s"
| "did_update_call T origin (AddServiceEndpoint e) s = did_add_service_endpoint T origin e s"
| "did_update_call T origin (RemoveServiceEndpoint i) s = did_remove_service_endpoint T origin i s"
| "did_update_call T origin (DeleteDid n) s = did_delete T origin n s"

inductive did_step ::
  "(did_creation_details \<Rightarrow> bool) \<Rightarrow> ('o, 'call, 's, 'c) did_config_scheme \<Rightarrow> did option
   \<Rightarrow> 'm did_storage_scheme \<Rightarrow> 'm did_storage_scheme \<Rightarrow> bool" for P T where
  created: "did_create T origin details sig s = Ok s' \<Longrightarrow> P details \<Longrightarrow> did_step P T None s s'"
| created_from_account: "did_create_from_account T origin k s = Ok s' \<Longrightarrow> did_step P T None s s'"
| updated: "did_update_call T origin u s = Ok s' \<Longrightarrow> did_step P T None s s'"
| operated: "verify_did_operation_signature_and_increase_nonce T oper key_type sig s = Ok s' \<Longrightarrow>
    did_step P T (Some (op_did oper)) s s'"
| elsewhere: "same_did s s' \<Longrightarrow> did_step P T None s s'"

inductive did_steps ::
  "(did_creation_details \<Rightarrow> bool) \<Rightarrow> ('o, 'call, 's, 'c) did_config_scheme \<Rightarrow> did list
   \<Rightarrow> 'm did_storage_scheme \<Rightarrow> 'm did_storage_scheme \<Rightarrow> bool" for P T where
  none: "did_steps P T [] s s"
| silent: "did_steps P T is s t \<Longrightarrow> did_step P T None t u \<Longrightarrow> did_steps P T is s u"
| signed: "did_steps P T is s t \<Longrightarrow> did_step P T (Some i) t u \<Longrightarrow> did_steps P T (is @ [i]) s u"

text \<open>Calls of the runtime reach the storage of this pallet only through its functions.\<close>

definition dispatch_spec ::
  "(did_creation_details \<Rightarrow> bool) \<Rightarrow> ('o, 'call, 'm did_storage_scheme, 'c) did_config_scheme \<Rightarrow> bool" where
  "dispatch_spec P T \<longleftrightarrow> (\<forall>call origin s s'. dispatch_call T call origin s = Ok s' \<longrightarrow> (\<exists>is. did_steps P T is s s'))"

definition did_genesis :: "'m did_storage_scheme \<Rightarrow> bool" where
  "did_genesis s \<longleftrightarrow> Did s = Map.empty \<and> ServiceEndpoints s = (\<lambda>_. Map.empty) \<and> DidEndpointsCount s = (\<lambda>_. 0) \<and>
     DidBlacklist s = Map.empty"

end
