(* ===== verification/Did_Properties.thy ===== *)
theory Did_Properties
  imports Did_Pallet
begin

text \<open>
  Properties of the did pallet: documents stay well-formed and controllable, the state check of the
  pallet holds as long as no creation names an endpoint twice, signed operations cannot be
  replayed, and a deleted identity never comes back.
\<close>

section \<open>What the calls change\<close>

lemma did_event_frame [simp]:
  "Did (did_deposit_event e s) = Did s" "ServiceEndpoints (did_deposit_event e s) = ServiceEndpoints s"
  "DidEndpointsCount (did_deposit_event e s) = DidEndpointsCount s" "DidBlacklist (did_deposit_event e s) = DidBlacklist s"
  by (simp_all add: did_deposit_event_def)

lemma insert_endpoints_frame [simp]:
  "Did (insert_endpoints i es s) = Did s" "DidEndpointsCount (insert_endpoints i es s) = DidEndpointsCount s"
  "DidBlacklist (insert_endpoints i es s) = DidBlacklist s" "block_number (insert_endpoints i es s) = block_number s"
  by (induction i es s rule: insert_endpoints.induct) simp_all

lemma insert_endpoints_other: "j \<noteq> i \<Longrightarrow> ServiceEndpoints (insert_endpoints i es s) j = ServiceEndpoints s j"
  by (induction i es s rule: insert_endpoints.induct) simp_all

lemma insert_endpoints_dom:
  "dom (ServiceEndpoints (insert_endpoints i es s) i) = dom (ServiceEndpoints s i) \<union> endpoint_id ` set es"
  by (induction i es s rule: insert_endpoints.induct) auto

lemma insert_endpoints_value:
  "ServiceEndpoints (insert_endpoints i es s) i j = Some e \<Longrightarrow>
   ServiceEndpoints s i j = Some e \<or> e \<in> set es \<and> endpoint_id e = j"
  by (induction i es s rule: insert_endpoints.induct) (auto split: if_splits)

lemma create_OkE:
  assumes "did_create T origin details sig s = Ok s'"
  obtains k d where "did_signed T origin = Some (creation_submitter details)"
    "verify_and_recover_signature T (creation_did details) (encode_creation T details) sig = Ok k"
    "validate_new_service_endpoints T (new_service_details details) = Ok ()"
    "new_with_creation_details T details k (block_number s) = Ok d"
    "Did s (creation_did details) = None" "DidBlacklist s (creation_did details) = None"
    "Did s' = (Did s)(creation_did details \<mapsto> d)" "DidBlacklist s' = DidBlacklist s"
    "ServiceEndpoints s' = ServiceEndpoints (insert_endpoints (creation_did details) (new_service_details details) s)"
    "DidEndpointsCount s' = (DidEndpointsCount s)(creation_did details := saturated_u32 (length (new_service_details details)))"
  using assms by (auto simp: did_create_def did_sender_def try_insert_did_def Let_def)

lemma create_from_account_OkE:
  assumes "did_create_from_account T origin k s = Ok s'"
  obtains a d where "did_signed T origin = Some a" "did_details_new T k (block_number s) = Ok d"
    "Did s (did_of_account T a) = None" "DidBlacklist s (did_of_account T a) = None"
    "Did s' = (Did s)(did_of_account T a \<mapsto> d)" "DidBlacklist s' = DidBlacklist s"
    "ServiceEndpoints s' = ServiceEndpoints s" "DidEndpointsCount s' = DidEndpointsCount s"
  using assms by (auto simp: did_create_from_account_def did_sender_def try_insert_did_def Let_def)

lemma increased_key:
  "get_verification_key_for_key_type key_type (increase_tx_counter d) = get_verification_key_for_key_type key_type d"
  by (simp add: get_verification_key_for_key_type_def increase_tx_counter_def cong: option.case_cong DidVerificationKeyRelationship.case_cong)

lemma operated_OkE:
  assumes "verify_did_operation_signature_and_increase_nonce T oper key_type sig s = Ok s'"
  obtains d k where "op_block_number oper \<le> block_number s"
    "block_number s \<le> saturating_add (op_block_number oper) (MaxBlocksTxValidity T)"
    "Did s (op_did oper) = Some d" "op_tx_counter oper = last_tx_counter d + 1"
    "get_verification_key_for_key_type key_type d = Some k"
    "verify_signature T k (encode_operation T oper) sig = Ok ()"
    "s' = s\<lparr>Did := (Did s)(op_did oper \<mapsto> increase_tx_counter d)\<rparr>"
  using assms by (auto simp: verify_did_operation_signature_and_increase_nonce_def validate_block_number_value_def
      validate_counter_value_def verify_payload_signature_with_did_key_type_def key_for_def Let_def increased_key intro!: that)

text \<open>
  A call with the origin of an identity replaces its document, changes its endpoints, or deletes it. The
  document keeps its counter and its well-formedness.
\<close>

lemma counter_insert: "insert_public_key T k b d = Ok d' \<Longrightarrow> last_tx_counter d' = last_tx_counter d"
  by (auto dest: insert_public_key_OkD)

lemma counter_updates:
  "update_authentication_key T k b d = Ok d' \<Longrightarrow> last_tx_counter d' = last_tx_counter d"
  "update_delegation_key T k b d = Ok d' \<Longrightarrow> last_tx_counter d' = last_tx_counter d"
  "remove_delegation_key d = Ok d' \<Longrightarrow> last_tx_counter d' = last_tx_counter d"
  "update_assertion_key T k b d = Ok d' \<Longrightarrow> last_tx_counter d' = last_tx_counter d"
  "remove_assertion_key d = Ok d' \<Longrightarrow> last_tx_counter d' = last_tx_counter d"
  "add_key_agreement_key T e b d = Ok d' \<Longrightarrow> last_tx_counter d' = last_tx_counter d"
  "remove_key_agreement_key i d = Ok d' \<Longrightarrow> last_tx_counter d' = last_tx_counter d"
  by (auto simp: update_authentication_key_def update_delegation_key_def remove_delegation_key_def update_assertion_key_def
      remove_assertion_key_def add_key_agreement_key_def remove_key_agreement_key_def Let_def
      dest!: counter_insert split: option.splits)

inductive did_effect ::
  "('o, 'call, 's, 'c) did_config_scheme \<Rightarrow> did \<Rightarrow> 'm did_storage_scheme \<Rightarrow> 'm did_storage_scheme \<Rightarrow> bool" for T i s where
  keyed: "Did s i = Some d \<Longrightarrow> last_tx_counter d' = last_tx_counter d \<Longrightarrow> (did_details_wf T d \<Longrightarrow> did_details_wf T d') \<Longrightarrow>
    Did s' = (Did s)(i \<mapsto> d') \<Longrightarrow> ServiceEndpoints s' = ServiceEndpoints s \<Longrightarrow> DidEndpointsCount s' = DidEndpointsCount s \<Longrightarrow>
    DidBlacklist s' = DidBlacklist s \<Longrightarrow> did_effect T i s s'"
| endpoint_added: "Did s i = Some d \<Longrightarrow> validate_against_constraints T e = Ok () \<Longrightarrow> ServiceEndpoints s i (endpoint_id e) = None \<Longrightarrow>
    DidEndpointsCount s i < MaxNumberOfServicesPerDid T \<Longrightarrow> Did s' = Did s \<Longrightarrow>
    ServiceEndpoints s' = (ServiceEndpoints s)(i := (ServiceEndpoints s i)(endpoint_id e \<mapsto> e)) \<Longrightarrow>
    DidEndpointsCount s' = (DidEndpointsCount s)(i := saturating_add (DidEndpointsCount s i) 1) \<Longrightarrow>
    DidBlacklist s' = DidBlacklist s \<Longrightarrow> did_effect T i s s'"
| endpoint_removed: "Did s i = Some d \<Longrightarrow> ServiceEndpoints s i j \<noteq> None \<Longrightarrow> Did s' = Did s \<Longrightarrow>
    ServiceEndpoints s' = (ServiceEndpoints s)(i := (ServiceEndpoints s i)(j := None)) \<Longrightarrow>
    DidEndpointsCount s' = (DidEndpointsCount s)(i := saturating_sub (DidEndpointsCount s i) 1) \<Longrightarrow>
    DidBlacklist s' = DidBlacklist s \<Longrightarrow> did_effect T i s s'"
| deleted: "Did s i = Some d \<Longrightarrow> Did s' = (Did s)(i := None) \<Longrightarrow> (clear_spec T \<Longrightarrow> ServiceEndpoints s' = (ServiceEndpoints s)(i := Map.empty)) \<Longrightarrow>
    DidEndpointsCount s' = (DidEndpointsCount s)(i := 0) \<Longrightarrow> DidBlacklist s' = (DidBlacklist s)(i \<mapsto> ()) \<Longrightarrow> did_effect T i s s'"

lemma with_did_effect:
  assumes "with_did T origin f s = Ok s'"
    and "\<And>d d'. f d = Ok d' \<Longrightarrow> last_tx_counter d' = last_tx_counter d" "\<And>d d'. f d = Ok d' \<Longrightarrow> did_details_wf T d \<Longrightarrow> did_details_wf T d'"
  shows "\<exists>r. did_raw_from T origin = Some r \<and> did_effect T (origin_id r) s s'"
proof -
  from assms(1) obtain r d d' where r: "did_raw_from T origin = Some r" "Did s (origin_id r) = Some d" "f d = Ok d'"
    "s' = did_deposit_event (DidUpdated (origin_id r)) (s\<lparr>Did := (Did s)(origin_id r \<mapsto> d')\<rparr>)"
    by (auto simp: with_did_def did_subject_def try_update_did_def)
  have "did_effect T (origin_id r) s s'"
    by (rule keyed [OF r(2) assms(2) [OF r(3)] assms(3) [OF r(3)]]) (simp_all add: r(4))
  with r(1) show ?thesis by blast
qed

lemma map_upd_same: "m i = Some d \<Longrightarrow> m(i \<mapsto> d) = m"
  by auto

lemma add_service_endpoint_effect:
  assumes "did_add_service_endpoint T origin e s = Ok s'"
  shows "\<exists>r. did_raw_from T origin = Some r \<and> did_effect T (origin_id r) s s'"
proof -
  from assms obtain r d where "did_raw_from T origin = Some r" "Did s (origin_id r) = Some d" "validate_against_constraints T e = Ok ()"
    "ServiceEndpoints s (origin_id r) (endpoint_id e) = None" "DidEndpointsCount s (origin_id r) < MaxNumberOfServicesPerDid T"
    "Did s' = Did s" "ServiceEndpoints s' = (ServiceEndpoints s)(origin_id r := (ServiceEndpoints s (origin_id r))(endpoint_id e \<mapsto> e))"
    "DidEndpointsCount s' = (DidEndpointsCount s)(origin_id r := saturating_add (DidEndpointsCount s (origin_id r)) 1)"
    "DidBlacklist s' = DidBlacklist s"
    by (auto simp: did_add_service_endpoint_def did_subject_def try_update_did_def Let_def map_upd_same)
  with endpoint_added show ?thesis by blast
qed

lemma remove_service_endpoint_effect:
  assumes "did_remove_service_endpoint T origin j s = Ok s'"
  shows "\<exists>r. did_raw_from T origin = Some r \<and> did_effect T (origin_id r) s s'"
proof -
  from assms obtain r d where "did_raw_from T origin = Some r" "Did s (origin_id r) = Some d"
    "ServiceEndpoints s (origin_id r) j \<noteq> None"
    "Did s' = Did s" "ServiceEndpoints s' = (ServiceEndpoints s)(origin_id r := (ServiceEndpoints s (origin_id r))(j := None))"
    "DidEndpointsCount s' = (DidEndpointsCount s)(origin_id r := saturating_sub (DidEndpointsCount s (origin_id r)) 1)"
    "DidBlacklist s' = DidBlacklist s"
    by (auto simp: did_remove_service_endpoint_def did_subject_def try_update_did_def Let_def map_upd_same)
  with endpoint_removed show ?thesis by blast
qed

lemma delete_effect:
  assumes "did_delete T origin n s = Ok s'"
  shows "\<exists>r. did_raw_from T origin = Some r \<and> did_effect T (origin_id r) s s'"
proof -
  from assms obtain r where r: "did_raw_from T origin = Some r" "delete_did T (origin_id r) n s = Ok s'"
    by (auto simp: did_delete_def did_subject_def)
  obtain m c where mc: "clear_endpoints T (DidEndpointsCount s (origin_id r)) (ServiceEndpoints s (origin_id r)) = (m, c)"
    by fastforce
  from r(2) obtain d where d: "\<not> c" "Did s (origin_id r) = Some d" "Did s' = (Did s)(origin_id r := None)"
    "ServiceEndpoints s' = (ServiceEndpoints s)(origin_id r := m)"
    "DidEndpointsCount s' = (DidEndpointsCount s)(origin_id r := 0)" "DidBlacklist s' = (DidBlacklist s)(origin_id r \<mapsto> ())"
    by (auto simp: delete_did_def Let_def mc split: if_splits)
  have "ServiceEndpoints s' = (ServiceEndpoints s)(origin_id r := Map.empty)" if "clear_spec T"
    using that mc d(1,4) unfolding clear_spec_def by blast
  with r(1) deleted [OF d(2,3) _ d(5,6), of T] show ?thesis by blast
qed

lemma did_update_effect:
  assumes "did_update_call T origin u s = Ok s'"
  shows "\<exists>r. did_raw_from T origin = Some r \<and> did_effect T (origin_id r) s s'"
proof (cases u)
  case (AddServiceEndpoint e)
  with assms show ?thesis by (auto intro: add_service_endpoint_effect)
next
  case (RemoveServiceEndpoint j)
  with assms show ?thesis by (auto intro: remove_service_endpoint_effect)
next
  case (DeleteDid n)
  with assms show ?thesis by (auto intro: delete_effect)
qed (use assms in \<open>auto simp: did_set_authentication_key_def did_set_delegation_key_def did_remove_delegation_key_def
      did_set_assertion_key_def did_remove_assertion_key_def did_add_key_agreement_key_def did_remove_key_agreement_key_def
      elim!: with_did_effect counter_updates did_details_wf_intros\<close>)


section \<open>Well-formed storage\<close>

text \<open>
  The endpoints of an identity: each under its identifier and validated, at most as many as the counter
  says. With \<open>exact\<close> the counter is their number. An identity without a document has none.
\<close>

definition endpoints_wf ::
  "bool \<Rightarrow> 'c did_details_config_scheme \<Rightarrow> bool \<Rightarrow> (service_id \<Rightarrow> did_endpoint option) \<Rightarrow> u32 \<Rightarrow> bool" where
  "endpoints_wf exact T gone m n \<longleftrightarrow> finite (dom m) \<and> card (dom m) \<le> unat n \<and> (exact \<longrightarrow> card (dom m) = unat n) \<and>
     n \<le> MaxNumberOfServicesPerDid T \<and> (\<forall>j e. m j = Some e \<longrightarrow> endpoint_id e = j \<and> validate_against_constraints T e = Ok ()) \<and>
     (gone \<longrightarrow> m = Map.empty \<and> n = 0)"

definition did_wf :: "bool \<Rightarrow> 'c did_details_config_scheme \<Rightarrow> 'm did_storage_scheme \<Rightarrow> bool" where
  "did_wf exact T s \<longleftrightarrow>
     (\<forall>i d. Did s i = Some d \<longrightarrow> did_details_wf T d \<and> DidBlacklist s i = None) \<and>
     (\<forall>i. endpoints_wf exact T (Did s i = None) (ServiceEndpoints s i) (DidEndpointsCount s i))"

lemma did_wf_at:
  assumes "did_wf exact T s" "\<And>j. j \<noteq> i \<Longrightarrow> Did s' j = Did s j" "\<And>j. j \<noteq> i \<Longrightarrow> ServiceEndpoints s' j = ServiceEndpoints s j"
    "\<And>j. j \<noteq> i \<Longrightarrow> DidEndpointsCount s' j = DidEndpointsCount s j" "\<And>j. j \<noteq> i \<Longrightarrow> DidBlacklist s' j = DidBlacklist s j"
    "\<And>d. Did s' i = Some d \<Longrightarrow> did_details_wf T d \<and> DidBlacklist s' i = None"
    "endpoints_wf exact T (Did s' i = None) (ServiceEndpoints s' i) (DidEndpointsCount s' i)"
  shows "did_wf exact T s'"
  unfolding did_wf_def
proof (intro conjI allI impI)
  fix j d assume "Did s' j = Some d"
  with assms(1,2,5,6) show "did_details_wf T d" "DidBlacklist s' j = None"
    by (cases "j = i"; fastforce simp: did_wf_def)+
next
  fix j show "endpoints_wf exact T (Did s' j = None) (ServiceEndpoints s' j) (DidEndpointsCount s' j)"
    using assms(1-4,7) by (cases "j = i") (simp_all add: did_wf_def)
qed

lemma did_wfD:
  assumes "did_wf exact T s"
  shows "Did s i = Some d \<Longrightarrow> did_details_wf T d" "Did s i = Some d \<Longrightarrow> DidBlacklist s i = None"
    and "endpoints_wf exact T (Did s i = None) (ServiceEndpoints s i) (DidEndpointsCount s i)"
  using assms by (auto simp: did_wf_def)

lemma endpoints_wf_empty: "endpoints_wf exact T gone Map.empty 0"
  by (simp add: endpoints_wf_def)

lemma endpoints_wf_present: "endpoints_wf exact T gone m n \<Longrightarrow> endpoints_wf exact T False m n"
  by (simp add: endpoints_wf_def)

lemma endpoints_wf_add:
  assumes "endpoints_wf exact T gone m n" "validate_against_constraints T e = Ok ()" "m (endpoint_id e) = None"
    and "n < MaxNumberOfServicesPerDid T"
  shows "endpoints_wf exact T False (m(endpoint_id e \<mapsto> e)) (saturating_add n 1)"
proof -
  have "unat n + 1 < 2 ^ 32" using assms(4) unat_bound [of "MaxNumberOfServicesPerDid T"] by (simp add: word_less_nat_alt)
  then have n: "unat (saturating_add n 1) = unat n + 1" by (simp add: unat_saturating_add)
  have "card (dom (m(endpoint_id e \<mapsto> e))) = card (dom m) + 1"
    using assms(1,3) by (simp add: endpoints_wf_def domIff)
  with assms n show ?thesis by (auto simp: endpoints_wf_def word_le_nat_alt word_less_nat_alt)
qed

lemma endpoints_wf_remove:
  assumes "endpoints_wf exact T gone m n" "m j \<noteq> None"
  shows "endpoints_wf exact T False (m(j := None)) (saturating_sub n 1)"
proof -
  have "j \<in> dom m" "finite (dom m)" using assms by (auto simp: endpoints_wf_def)
  then have "card (dom (m(j := None))) = card (dom m) - 1" by (simp add: card_Diff_singleton)
  with assms show ?thesis
    by (auto simp: endpoints_wf_def word_le_nat_alt unat_saturating_sub)
qed

definition distinct_endpoints :: "did_creation_details \<Rightarrow> bool" where
  "distinct_endpoints details \<longleftrightarrow> distinct (map endpoint_id (new_service_details details))"

lemma check_all_Ok_iff: "check_all f xs = Ok () \<longleftrightarrow> (\<forall>x \<in> set xs. f x = Ok ())"
  by (induction xs) auto

text \<open>A creation counts the endpoints it is given; naming one twice stores it once.\<close>

lemma endpoints_wf_create:
  assumes "endpoints_wf exact T True (ServiceEndpoints s i) n" "validate_new_service_endpoints T es = Ok ()"
    and "exact \<Longrightarrow> distinct (map endpoint_id es)"
  shows "endpoints_wf exact T False (ServiceEndpoints (insert_endpoints i es s) i) (saturated_u32 (length es))"
proof -
  let ?m = "ServiceEndpoints (insert_endpoints i es s) i"
  have empty: "ServiceEndpoints s i = Map.empty" using assms(1) by (simp add: endpoints_wf_def)
  have es: "length es \<le> unat (MaxNumberOfServicesPerDid T)" "\<forall>e \<in> set es. validate_against_constraints T e = Ok ()"
    using assms(2) by (auto simp: validate_new_service_endpoints_def check_all_Ok_iff)
  then have n: "unat (saturated_u32 (length es)) = length es"
    using unat_bound [of "MaxNumberOfServicesPerDid T"] by (simp add: saturated_u32_def unat_of_nat)
  have dom: "dom ?m = set (map endpoint_id es)" by (simp add: insert_endpoints_dom empty)
  have "card (dom ?m) \<le> length es" "exact \<Longrightarrow> card (dom ?m) = length es"
    using card_length [of "map endpoint_id es"] distinct_card [OF assms(3)] unfolding dom by simp_all
  moreover have "endpoint_id e = j \<and> validate_against_constraints T e = Ok ()" if "?m j = Some e" for j e
    using insert_endpoints_value [OF that] es(2) by (auto simp: empty)
  ultimately show ?thesis using es(1) n dom by (auto simp: endpoints_wf_def word_le_nat_alt simp del: set_map)
qed

lemma did_wf_effect:
  assumes "did_effect T i s s'" "did_wf exact T s" "clear_spec T"
  shows "did_wf exact T s'"
  using assms(1)
proof cases
  case (keyed d d')
  with did_wfD [OF assms(2), of i] show ?thesis
    by (intro did_wf_at [OF assms(2), of i]) auto
next
  case (endpoint_added d e)
  with did_wfD [OF assms(2), of i] endpoints_wf_add [OF did_wfD(3) [OF assms(2)], of e i] show ?thesis
    by (intro did_wf_at [OF assms(2), of i]) auto
next
  case (endpoint_removed d j)
  with did_wfD [OF assms(2), of i] endpoints_wf_remove [OF did_wfD(3) [OF assms(2)], of i j] show ?thesis
    by (intro did_wf_at [OF assms(2), of i]) auto
next
  case (deleted d)
  with assms(3) show ?thesis
    by (intro did_wf_at [OF assms(2), of i]) (auto simp: endpoints_wf_empty)
qed

lemma did_step_wf:
  assumes "did_step P T io s s'" "did_wf exact T s" "clear_spec T"
    and "\<And>details. exact \<Longrightarrow> P details \<Longrightarrow> distinct_endpoints details"
  shows "did_wf exact T s'"
  using assms(1)
proof cases
  case (created origin details sig)
  let ?i = "creation_did details"
  from created(2) show ?thesis
  proof (rule create_OkE)
    fix k d assume new: "new_with_creation_details T details k (block_number s) = Ok d" "Did s ?i = None" "DidBlacklist s ?i = None"
      "validate_new_service_endpoints T (new_service_details details) = Ok ()"
      and s': "Did s' = (Did s)(?i \<mapsto> d)" "DidBlacklist s' = DidBlacklist s"
      "ServiceEndpoints s' = ServiceEndpoints (insert_endpoints ?i (new_service_details details) s)"
      "DidEndpointsCount s' = (DidEndpointsCount s)(?i := saturated_u32 (length (new_service_details details)))"
    have "endpoints_wf exact T False (ServiceEndpoints s' ?i) (DidEndpointsCount s' ?i)"
      using endpoints_wf_create [of exact T s ?i, OF _ new(4)] assms(4) [OF _ created(3)] did_wfD(3) [OF assms(2), of ?i]
      by (simp add: s'(3,4) new(2) distinct_endpoints_def)
    then show ?thesis
      by (intro did_wf_at [OF assms(2), of ?i]) (use new wf_creation [OF new(1)] in \<open>auto simp: s' insert_endpoints_other\<close>)
  qed
next
  case (created_from_account origin k)
  from created_from_account(2) show ?thesis
  proof (rule create_from_account_OkE)
    fix a d assume "did_details_new T k (block_number s) = Ok d" "Did s (did_of_account T a) = None"
      "DidBlacklist s (did_of_account T a) = None" "Did s' = (Did s)(did_of_account T a \<mapsto> d)" "DidBlacklist s' = DidBlacklist s"
      "ServiceEndpoints s' = ServiceEndpoints s" "DidEndpointsCount s' = DidEndpointsCount s"
    with did_wfD(3) [OF assms(2), of "did_of_account T a"] wf_new show ?thesis
      by (intro did_wf_at [OF assms(2), of "did_of_account T a"]) (auto intro: endpoints_wf_present)
  qed
next
  case (updated origin u)
  from did_update_effect [OF updated(2)] show ?thesis using did_wf_effect [OF _ assms(2,3)] by blast
next
  case (operated oper kt sig)
  from operated(2) show ?thesis
  proof (rule operated_OkE)
    fix d assume "Did s (op_did oper) = Some d" "s' = s\<lparr>Did := (Did s)(op_did oper \<mapsto> increase_tx_counter d)\<rparr>"
    with did_wfD [OF assms(2), of "op_did oper"] show ?thesis
      by (intro did_wf_at [OF assms(2), of "op_did oper"]) (auto simp: wf_counter)
  qed
next
  case elsewhere
  with assms(2) show ?thesis by (simp add: same_did_def did_wf_def)
qed

section \<open>Runs of the chain\<close>

inductive did_chain_step ::
  "(did_creation_details \<Rightarrow> bool) \<Rightarrow> ('o, 'call, 'm did_storage_scheme, 'c) did_config_scheme
   \<Rightarrow> 'm did_storage_scheme \<Rightarrow> 'm did_storage_scheme \<Rightarrow> bool" for P T where
  create: "did_create T origin details sig s = Ok s' \<Longrightarrow> P details \<Longrightarrow> did_chain_step P T s s'"
| create_from_account: "did_create_from_account T origin k s = Ok s' \<Longrightarrow> did_chain_step P T s s'"
| update: "did_update_call T origin u s = Ok s' \<Longrightarrow> did_chain_step P T s s'"
| submit: "submit_did_call T origin oper sig s = Ok s' \<Longrightarrow> did_chain_step P T s s'"
| as_did: "dispatch_as T origin i call s = Ok s' \<Longrightarrow> did_chain_step P T s s'"
| other: "same_did s s' \<Longrightarrow> did_chain_step P T s s'"

lemma did_steps_append: "did_steps P T js t u \<Longrightarrow> did_steps P T is s t \<Longrightarrow> \<exists>ks. did_steps P T ks s u"
  by (induction rule: did_steps.induct) (blast intro: did_steps.intros)+

lemma did_steps_event: "did_step P T None t (did_deposit_event e t)"
  by (rule did_step.elsewhere) (simp add: same_did_def)

lemma did_step_steps: "did_step P T io s t \<Longrightarrow> \<exists>is. did_steps P T is s t"
  by (cases io) (blast intro: did_steps.intros)+

lemma submit_steps:
  assumes "submit_did_call T origin oper sig s = Ok t" "dispatch_spec P T"
  shows "\<exists>is. did_steps P T is s t"
proof -
  from assms(1) obtain kt s1 s2 who where ok: "verify_did_operation_signature_and_increase_nonce T oper kt sig s = Ok s1"
    "dispatch_call T (op_call oper) (did_raw_into T \<lparr>origin_id = op_did oper, origin_submitter = who\<rparr>) s1 = Ok s2"
    "t = did_deposit_event (CallDispatched (op_did oper) (Ok ())) s2"
    by (auto simp: submit_did_call_def Let_def)
  from did_step_steps [OF did_step.operated [OF ok(1)]] ok(2) assms(2) obtain js where "did_steps P T js s s2"
    unfolding dispatch_spec_def by (meson did_steps_append)
  then show ?thesis unfolding ok(3) by (blast intro: did_steps.silent did_steps_event)
qed

lemma dispatch_as_steps:
  assumes "dispatch_as T origin i call s = Ok t" "dispatch_spec P T"
  shows "\<exists>is. did_steps P T is s t"
proof -
  from assms(1) obtain s1 who where ok: "dispatch_call T call (did_raw_into T \<lparr>origin_id = i, origin_submitter = who\<rparr>) s = Ok s1"
    "t = did_deposit_event (CallDispatched i (Ok ())) s1"
    by (auto simp: dispatch_as_def)
  from ok(1) assms(2) obtain js where "did_steps P T js s s1" unfolding dispatch_spec_def by blast
  then show ?thesis unfolding ok(2) by (blast intro: did_steps.silent did_steps_event)
qed

lemma did_chain_step_steps: "did_chain_step P T s t \<Longrightarrow> dispatch_spec P T \<Longrightarrow> \<exists>is. did_steps P T is s t"
  by (erule did_chain_step.cases) (blast intro: submit_steps dispatch_as_steps did_step_steps did_step.intros)+

text \<open>What the chain around the pallet provides; \<open>exact\<close> asks that no creation names an endpoint twice.\<close>

definition did_environment ::
  "bool \<Rightarrow> (did_creation_details \<Rightarrow> bool) \<Rightarrow> ('o, 'call, 'm did_storage_scheme, 'c) did_config_scheme \<Rightarrow> bool" where
  "did_environment exact P T \<longleftrightarrow> dispatch_spec P T \<and> clear_spec T \<and>
     (exact \<longrightarrow> (\<forall>details. P details \<longrightarrow> distinct_endpoints details))"

lemma did_steps_wf:
  assumes "did_steps P T is s t" "did_environment exact P T" "did_wf exact T s"
  shows "did_wf exact T t"
  using assms by (induction rule: did_steps.induct) (auto simp: did_environment_def intro: did_step_wf)

interpretation did_inv: invariant_system
  "\<lambda>s. did_genesis s \<and> did_environment exact P T" "did_chain_step P T" "\<lambda>s. did_wf exact T s \<and> did_environment exact P T"
  for exact P and T :: "('o, 'call, 'm did_storage_scheme, 'c) did_config_scheme"
proof unfold_locales
  show "did_wf exact T s \<and> did_environment exact P T" if "did_genesis s \<and> did_environment exact P T" for s
    using that by (simp add: did_genesis_def did_wf_def endpoints_wf_empty)
  show "did_wf exact T t \<and> did_environment exact P T"
    if "did_wf exact T s \<and> did_environment exact P T" "did_chain_step P T s t" for s t
    using that did_chain_step_steps [OF that(2)] by (auto simp: did_environment_def intro: did_steps_wf)
qed

section \<open>Counters and deletion\<close>

text \<open>An identity either has a document with counter \<open>c\<close> or was deleted.\<close>

definition did_at :: "did \<Rightarrow> u64 \<Rightarrow> 'm did_storage_scheme \<Rightarrow> bool" where
  "did_at i c s \<longleftrightarrow> (case Did s i of Some d \<Rightarrow> last_tx_counter d = c | None \<Rightarrow> DidBlacklist s i \<noteq> None)"

definition did_deleted :: "did \<Rightarrow> 'm did_storage_scheme \<Rightarrow> bool" where
  "did_deleted i s \<longleftrightarrow> Did s i = None \<and> DidBlacklist s i \<noteq> None"

lemma did_effect_at: "did_effect T j s s' \<Longrightarrow> did_at i c s \<Longrightarrow> did_at i c s'"
  by (erule did_effect.cases) (auto simp: did_at_def split: option.splits if_splits)

lemma did_effect_deleted: "did_effect T j s s' \<Longrightarrow> did_deleted i s \<Longrightarrow> did_deleted i s'"
  by (erule did_effect.cases) (auto simp: did_deleted_def split: if_splits)

lemma did_step_at:
  assumes "did_step P T io s s'" "did_at i c s"
  shows "did_at i (if io = Some i then c + 1 else c) s'"
  using assms(1)
proof cases
  case (created origin details sig)
  from created(2) show ?thesis
    by (rule create_OkE) (use assms(2) created(1) in \<open>auto simp: did_at_def split: option.splits if_splits\<close>)
next
  case (created_from_account origin k)
  from created_from_account(2) show ?thesis
    by (rule create_from_account_OkE) (use assms(2) created_from_account(1) in \<open>auto simp: did_at_def split: option.splits if_splits\<close>)
next
  case (updated origin u)
  from did_update_effect [OF updated(2)] assms(2) updated(1) show ?thesis by (auto intro: did_effect_at)
next
  case (operated oper kt sig)
  from operated(2) show ?thesis
    by (rule operated_OkE) (use assms(2) operated(1) in \<open>auto simp: did_at_def increase_tx_counter_def split: option.splits\<close>)
next
  case elsewhere
  with assms(2) show ?thesis by (auto simp: same_did_def did_at_def split: option.splits)
qed

lemma did_steps_at:
  "did_steps P T is s t \<Longrightarrow> did_at i c s \<Longrightarrow> did_at i (c + of_nat (count_list is i)) t"
proof (induction rule: did_steps.induct)
  case (signed "is" s t j u)
  from did_step_at [OF signed.hyps(2) signed.IH [OF signed.prems]] show ?case
    by (cases "j = i") (auto simp: add.assoc add.commute [of "1::u64"])
qed (auto dest: did_step_at)

lemma did_deleted_at: "did_deleted i s \<longleftrightarrow> (\<forall>c. did_at i c s)"
proof (cases "Did s i")
  case (Some d)
  have "last_tx_counter d \<noteq> last_tx_counter d + 1" by simp
  with Some show ?thesis by (auto simp: did_deleted_def did_at_def intro: exI [of _ "last_tx_counter d + 1"])
qed (simp add: did_deleted_def did_at_def)

lemma did_steps_deleted: "did_steps P T is s t \<Longrightarrow> did_deleted i s \<Longrightarrow> did_deleted i t"
  unfolding did_deleted_at using did_steps_at [of P T "is" s t i] by (metis diff_add_cancel)

interpretation did_gone: invariant_system
  "\<lambda>s. did_deleted i s \<and> dispatch_spec P T" "did_chain_step P T" "\<lambda>s. did_deleted i s \<and> dispatch_spec P T"
  for i P and T :: "('o, 'call, 'm did_storage_scheme, 'c) did_config_scheme"
  by unfold_locales (auto dest: did_chain_step_steps intro: did_steps_deleted)

lemma replay_refused:
  assumes "did_at (op_did oper) c t" "op_tx_counter oper \<noteq> c + 1"
  shows "submit_did_call T origin oper sig t \<noteq> Ok u"
proof
  assume "submit_did_call T origin oper sig t = Ok u"
  then obtain kt t1 where "verify_did_operation_signature_and_increase_nonce T oper kt sig t = Ok t1"
    by (auto simp: submit_did_call_def Let_def)
  then show False by (rule operated_OkE) (use assms in \<open>auto simp: did_at_def\<close>)
qed

section \<open>Keys of a created identity\<close>

lemma authentication_frame:
  "insert_public_key T p b d = Ok d' \<Longrightarrow> authentication_key d' = authentication_key d"
  "add_key_agreement_key T e b d = Ok d' \<Longrightarrow> authentication_key d' = authentication_key d"
  "update_assertion_key T k b d = Ok d' \<Longrightarrow> authentication_key d' = authentication_key d"
  "update_delegation_key T k b d = Ok d' \<Longrightarrow> authentication_key d' = authentication_key d"
  by (auto simp: add_key_agreement_key_def update_assertion_key_def update_delegation_key_def Let_def
      dest!: insert_public_key_OkD split: option.splits)

lemma authentication_agreements:
  "add_key_agreement_keys T ks b d = Ok d' \<Longrightarrow> authentication_key d' = authentication_key d"
  by (induction ks arbitrary: d) (auto dest: authentication_frame)

lemma authentication_creation:
  assumes "new_with_creation_details T details k b = Ok d"
  shows "authentication_key d = calculate_key_id T (PublicVerificationKey k)"
  using assms by (auto simp: new_with_creation_details_def did_details_new_def
      dest!: authentication_frame authentication_agreements split: option.splits)

lemma recovered_account: "verify_and_recover_signature T i payload sig = Ok k \<Longrightarrow> into_account T k = i"
  by (cases sig) auto

lemma wf_authentication_key:
  assumes "did_details_wf T d" "inj (calculate_key_id T)"
  shows "\<exists>k. get_verification_key_for_key_type Authentication d = Some k \<and>
    authentication_key d = calculate_key_id T (PublicVerificationKey k)"
proof -
  from wf_verification_key [OF assms, of "authentication_key d"] obtain p k where
    "public_keys d (authentication_key d) = Some p" "pk_key p = PublicVerificationKey k"
    "authentication_key d = calculate_key_id T (PublicVerificationKey k)" by auto
  then show ?thesis by (simp add: get_verification_key_for_key_type_def)
qed

lemma wf_optional_keys:
  assumes "did_details_wf T d" "inj (calculate_key_id T)"
  shows "assertion_key d \<noteq> None \<Longrightarrow> get_verification_key_for_key_type AssertionMethod d \<noteq> None"
    and "delegation_key d \<noteq> None \<Longrightarrow> get_verification_key_for_key_type CapabilityDelegation d \<noteq> None"
  using wf_verification_key [OF assms] by (fastforce simp: get_verification_key_for_key_type_def)+

section \<open>A small chain of identities\<close>

text \<open>Calls do nothing, signatures repeat the key, an origin is an account or an identity.\<close>

fun sample_encode_key :: "DidPublicKey \<Rightarrow> bytes" where
  "sample_encode_key (PublicVerificationKey (Ed25519Key b)) = 0 # b"
| "sample_encode_key (PublicVerificationKey (Sr25519Key b)) = 1 # b"
| "sample_encode_key (PublicVerificationKey (EcdsaKey b)) = 2 # b"
| "sample_encode_key (PublicVerificationKey (AccountKey b)) = 3 # b"
| "sample_encode_key (PublicEncryptionKey (X25519 b)) = 4 # b"

definition sample_did_config :: "(account + did_raw_origin, unit, did_storage) did_config" where
  "sample_did_config = \<lparr>overflow_checks = True, hashing = id, encode_hash = id,
     encode_account = id, encode_ident = id, encode_vec = id, blake2b_64 = sample_hash,
     bs58_encode = halves, bs58_decode = unhalves,
     MaxPublicKeysPerDid = 4, MaxNewKeyAgreementKeys = 2, MaxTotalKeyAgreementKeys = 3, MaxNumberOfServicesPerDid = 3,
     MaxServiceIdLength = 8, MaxServiceTypeLength = 8, MaxNumberOfTypesPerService = 2, MaxServiceUrlLength = 8,
     MaxNumberOfUrlsPerService = 2, ed25519_verify = (\<lambda>sig payload pk. sig = pk), sr25519_verify = (\<lambda>sig payload pk. sig = pk),
     ecdsa_verify = (\<lambda>sig payload pk. sig = pk), ecdsa_recover = (\<lambda>sig payload. Some sig), blake2_256 = sample_hash,
     encode_public_key = sample_encode_key, encode_creation = creation_did, uri_parses = (\<lambda>_. True),
     MaxBlocksTxValidity = 10, did_signed = (\<lambda>x. case x of Inl a \<Rightarrow> Some a | Inr _ \<Rightarrow> None),
     did_raw_from = (\<lambda>x. case x of Inl _ \<Rightarrow> None | Inr r \<Rightarrow> Some r), did_raw_into = Inr, did_of_account = id,
     derive_relationship = (\<lambda>_. Ok Authentication), dispatch_call = (\<lambda>c x s. Ok s), encode_operation = op_did,
     clear_endpoints = (\<lambda>n m. if card (dom m) \<le> unat n then (Map.empty, False) else (m, m \<noteq> Map.empty))\<rparr>"

lemma sample_did_config_simps [simp]:
  "hashing sample_did_config = id" "MaxPublicKeysPerDid sample_did_config = 4" "MaxNewKeyAgreementKeys sample_did_config = 2"
  "MaxTotalKeyAgreementKeys sample_did_config = 3" "MaxNumberOfServicesPerDid sample_did_config = 3"
  "MaxServiceIdLength sample_did_config = 8" "MaxNumberOfTypesPerService sample_did_config = 2"
  "MaxNumberOfUrlsPerService sample_did_config = 2" "ed25519_verify sample_did_config sig p pk \<longleftrightarrow> sig = pk"
  "encode_public_key sample_did_config = sample_encode_key" "encode_creation sample_did_config = creation_did"
  "uri_parses sample_did_config u" "MaxBlocksTxValidity sample_did_config = 10"
  "did_signed sample_did_config (Inl a) = Some a" "did_signed sample_did_config (Inr r) = None"
  "did_raw_from sample_did_config (Inl a) = None" "did_raw_from sample_did_config (Inr r) = Some r"
  "did_raw_into sample_did_config = Inr" "did_of_account sample_did_config = id"
  "derive_relationship sample_did_config c = Ok Authentication" "dispatch_call sample_did_config c x s = Ok s"
  "encode_operation sample_did_config = op_did"
  "clear_endpoints sample_did_config n m = (if card (dom m) \<le> unat n then (Map.empty, False) else (m, m \<noteq> Map.empty))"
  by (simp_all add: sample_did_config_def)

lemma sample_key_ids: "calculate_key_id sample_did_config = sample_encode_key"
  by (simp add: fun_eq_iff calculate_key_id_def)

lemma sample_encode_key_inj: "inj sample_encode_key"
proof (rule injI)
  fix x y assume "sample_encode_key x = sample_encode_key y"
  then show "x = y" by (cases x rule: sample_encode_key.cases; cases y rule: sample_encode_key.cases) auto
qed

lemma sample_did_environment: "did_environment True distinct_endpoints sample_did_config"
  by (auto simp: distinct_endpoints_def did_environment_def dispatch_spec_def clear_spec_def intro: did_steps.none split: if_splits)

definition sample_did_0 :: did_storage where
  "sample_did_0 = \<lparr>block_number = 3, extrinsic_index = None, Did = Map.empty, ServiceEndpoints = (\<lambda>_. Map.empty),
     DidEndpointsCount = (\<lambda>_. 0), DidBlacklist = Map.empty, did_events = []\<rparr>"

definition sample_endpoint :: "service_id \<Rightarrow> did_endpoint" where
  "sample_endpoint i = \<lparr>endpoint_id = i, service_types = [], urls = []\<rparr>"

definition sample_creation :: "service_id list \<Rightarrow> did_creation_details" where
  "sample_creation services = \<lparr>creation_did = [7], creation_submitter = [1], new_key_agreement_keys = [X25519 [5]],
     new_assertion_key = Some (Sr25519Key [8]), new_delegation_key = None,
     new_service_details = map sample_endpoint services\<rparr>"

lemmas sample_did_defs = did_create_def did_sender_def try_insert_did_def new_with_creation_details_def did_details_new_def
  insert_public_key_def map_try_insert_def set_try_insert_def add_key_agreement_key_def update_assertion_key_def
  remove_key_if_unused_def validate_new_service_endpoints_def validate_against_constraints_def is_valid_uri_fragment_def
  sample_key_ids sample_did_0_def sample_creation_def sample_endpoint_def saturated_u32_def did_deposit_event_def

definition sample_created :: did_storage where
  "sample_created = unwrap_or sample_did_0
     (did_create sample_did_config (Inl [1]) (sample_creation [[1], [2]]) (Ed25519Sig [7]) sample_did_0)"

lemma sample_create:
  "did_create sample_did_config (Inl [1]) (sample_creation [[1], [2]]) (Ed25519Sig [7]) sample_did_0 = Ok sample_created"
  unfolding sample_created_def
  by (rule is_Ok_unwrap) (simp add: sample_did_defs Let_def card_insert_if cong: and_then_weak_cong)

lemma sample_created_reachable:
  "reachable (\<lambda>s. did_genesis s \<and> did_environment True distinct_endpoints sample_did_config)
     (did_chain_step distinct_endpoints sample_did_config) sample_created"
proof (rule reach_step)
  show "reachable (\<lambda>s. did_genesis s \<and> did_environment True distinct_endpoints sample_did_config)
     (did_chain_step distinct_endpoints sample_did_config) sample_did_0"
    by (rule reach_init) (simp add: sample_did_environment did_genesis_def sample_did_0_def)
  show "did_chain_step distinct_endpoints sample_did_config sample_did_0 sample_created"
    by (rule did_chain_step.create [OF sample_create])
      (simp add: distinct_endpoints_def sample_creation_def sample_endpoint_def)
qed

lemma sample_created_document:
  "Did sample_created [7] = Some \<lparr>authentication_key = [0, 7], key_agreement_keys = {[4, 5]}, delegation_key = None,
     assertion_key = Some [1, 8], public_keys = [[0, 7] \<mapsto> \<lparr>pk_key = PublicVerificationKey (Ed25519Key [7]), pk_block_number = 3\<rparr>,
       [4, 5] \<mapsto> \<lparr>pk_key = PublicEncryptionKey (X25519 [5]), pk_block_number = 3\<rparr>,
       [1, 8] \<mapsto> \<lparr>pk_key = PublicVerificationKey (Sr25519Key [8]), pk_block_number = 3\<rparr>], last_tx_counter = 0\<rparr>"
  "DidEndpointsCount sample_created [7] = 2" "card (dom (ServiceEndpoints sample_created [7])) = 2" "block_number sample_created = 3"
  by (simp_all add: sample_created_def sample_did_defs Let_def card_insert_if cong: and_then_weak_cong)

definition sample_operation :: "unit did_operation" where
  "sample_operation = \<lparr>op_did = [7], op_tx_counter = 1, op_call = (), op_block_number = 1, op_submitter = [1]\<rparr>"

definition sample_origin :: did_raw_origin where
  "sample_origin = \<lparr>origin_id = [7], origin_submitter = [1]\<rparr>"

lemmas sample_verify_defs = verify_did_operation_signature_and_increase_nonce_def validate_block_number_value_def
  validate_counter_value_def verify_payload_signature_with_did_key_type_def key_for_def get_verification_key_for_key_type_def
  increase_tx_counter_def sample_operation_def saturating_add_def Let_def

section \<open>Properties\<close>



text \<open>
  The hypothesis on creations is needed: a creation that names an endpoint twice is accepted, counts
  two endpoints and stores one, and the state check fails.
\<close>

theorem duplicate_endpoints_break_try_state:
  "\<exists>t. did_create sample_did_config (Inl [1]) (sample_creation [[1], [1]]) (Ed25519Sig [7]) sample_did_0 = Ok t \<and>
     DidEndpointsCount t [7] = 2 \<and> card (dom (ServiceEndpoints t [7])) = 1 \<and> \<not> do_try_state sample_did_config t"
proof -
  let ?run = "did_create sample_did_config (Inl [1]) (sample_creation [[1], [1]]) (Ed25519Sig [7]) sample_did_0"
  let ?t = "unwrap_or sample_did_0 ?run"
  have ok: "?run = Ok ?t"
    by (rule is_Ok_unwrap) (simp add: sample_did_defs Let_def card_insert_if cong: and_then_weak_cong)
  have "DidEndpointsCount ?t [7] = 2" "card (dom (ServiceEndpoints ?t [7])) = 1" "Did ?t [7] \<noteq> None"
    by (simp_all add: sample_did_defs Let_def card_insert_if cong: and_then_weak_cong)
  moreover from this have "\<not> do_try_state sample_did_config ?t"
    unfolding do_try_state_def by (auto simp: Let_def)
  ultimately show ?thesis using ok by blast
qed

text \<open>C25: a call submitted in the name of an identity goes through exactly if the transaction is signed by the
  account the operation names, the operation is neither too new nor too old, its counter is the
  successor of the one in the document, the key the call requires exists and verifies the signature, and
  the call itself succeeds with the origin of the identity on the storage with the counter increased.\<close>

theorem submit_did_call_iff:
  "submit_did_call T origin oper sig s = Ok t \<longleftrightarrow>
     (\<exists>key_type d key u. did_signed T origin = Some (op_submitter oper) \<and> derive_relationship T (op_call oper) = Ok key_type \<and>
       op_block_number oper \<le> block_number s \<and>
       block_number s \<le> saturating_add (op_block_number oper) (MaxBlocksTxValidity T) \<and>
       Did s (op_did oper) = Some d \<and> op_tx_counter oper = last_tx_counter d + 1 \<and>
       get_verification_key_for_key_type key_type d = Some key \<and>
       verify_signature T key (encode_operation T oper) sig = Ok () \<and>
       dispatch_call T (op_call oper) (did_raw_into T \<lparr>origin_id = op_did oper, origin_submitter = op_submitter oper\<rparr>)
         (s\<lparr>Did := (Did s)(op_did oper \<mapsto> increase_tx_counter d)\<rparr>) = Ok u \<and>
       t = did_deposit_event (CallDispatched (op_did oper) (Ok ())) u)" (is "_ \<longleftrightarrow> ?ok")
proof
  assume "submit_did_call T origin oper sig s = Ok t"
  then obtain kt s1 u where ok: "did_signed T origin = Some (op_submitter oper)" "derive_relationship T (op_call oper) = Ok kt"
    "verify_did_operation_signature_and_increase_nonce T oper kt sig s = Ok s1"
    "dispatch_call T (op_call oper) (did_raw_into T \<lparr>origin_id = op_did oper, origin_submitter = op_submitter oper\<rparr>) s1 = Ok u"
    "t = did_deposit_event (CallDispatched (op_did oper) (Ok ())) u"
    by (auto simp: submit_did_call_def did_sender_def Let_def)
  from ok(3) show ?ok by (rule operated_OkE) (use ok in blast)
next
  assume ?ok
  then show "submit_did_call T origin oper sig s = Ok t"
    by (auto simp: submit_did_call_def did_sender_def Let_def verify_did_operation_signature_and_increase_nonce_def
        validate_block_number_value_def validate_counter_value_def verify_payload_signature_with_did_key_type_def key_for_def
        increased_key)
qed

text \<open>C26: an accepted operation cannot be replayed: whatever happens in between, even the deletion of the identity
  and attempts to create it again, as long as fewer than \<open>2 ^ 64\<close> further operations of the same
  identity are accepted, the same operation is refused, under any signature and from any origin.\<close>

theorem did_operation_not_replayable:
  assumes "verify_did_operation_signature_and_increase_nonce T oper key_type sig s = Ok s1"
    and "did_steps P T is s1 t" "count_list is (op_did oper) + 1 < 2 ^ 64"
  shows "submit_did_call T origin oper sig' t \<noteq> Ok u"
proof -
  from assms(1) have at: "did_at (op_did oper) (op_tx_counter oper) s1"
    by (rule operated_OkE) (simp add: did_at_def increase_tx_counter_def)
  have "unat (of_nat (count_list is (op_did oper) + 1) :: u64) = count_list is (op_did oper) + 1"
    using assms(3) by (simp add: unat_of_nat del: of_nat_add of_nat_Suc)
  then have "of_nat (count_list is (op_did oper) + 1) \<noteq> (0 :: u64)" by (metis add_is_0 one_neq_zero unsigned_0)
  then have "op_tx_counter oper \<noteq> op_tx_counter oper + of_nat (count_list is (op_did oper)) + 1"
    by (simp add: add.assoc add.commute)
  with did_steps_at [OF assms(2) at] show ?thesis by (rule replay_refused)
qed

theorem did_operation_not_replayable_witness:
  "\<exists>s1. verify_did_operation_signature_and_increase_nonce sample_did_config sample_operation Authentication (Ed25519Sig [7])
      sample_created = Ok s1 \<and> submit_did_call sample_did_config (Inl [1]) sample_operation (Ed25519Sig [7]) s1 \<noteq> Ok s1"
proof -
  let ?run = "verify_did_operation_signature_and_increase_nonce sample_did_config sample_operation Authentication (Ed25519Sig [7])
      sample_created"
  have "is_Ok ?run" by (simp add: sample_verify_defs sample_created_document cong: and_then_weak_cong)
  then obtain s1 where s1: "?run = Ok s1" by (cases ?run) auto
  from did_operation_not_replayable [OF s1 did_steps.none] s1 show ?thesis by simp
qed

text \<open>C27: a deleted identity never comes back: in every later state of the chain it has no document, no
  creation for it succeeds, whether signed or from an account, and no operation of it is accepted.\<close>

theorem deleted_did_stays_deleted:
  assumes "did_delete T origin n s = Ok s1" "did_raw_from T origin = Some r"
    and "dispatch_spec P T" "(did_chain_step P T)\<^sup>*\<^sup>* s1 t"
  shows "Did t (origin_id r) = None \<and>
    (creation_did details = origin_id r \<longrightarrow> did_create T origin' details sig t \<noteq> Ok u) \<and>
    (did_signed T origin' = Some a \<and> did_of_account T a = origin_id r \<longrightarrow> did_create_from_account T origin' k t \<noteq> Ok u) \<and>
    (op_did oper = origin_id r \<longrightarrow> submit_did_call T origin' oper sig t \<noteq> Ok u)"
proof -
  have "delete_did T (origin_id r) n s = Ok s1" using assms(1,2) by (simp add: did_delete_def did_subject_def)
  then have "did_deleted (origin_id r) s1"
    by (auto simp: delete_did_def did_deleted_def Let_def split: prod.splits if_splits)
  with did_gone.inv_steps [OF _ assms(4), of "origin_id r"] assms(3) have gone: "did_deleted (origin_id r) t" by simp
  then have "did_at (origin_id r) (op_tx_counter oper) t" by (simp add: did_deleted_at)
  then have "submit_did_call T origin' oper sig t \<noteq> Ok u" if "op_did oper = origin_id r"
    unfolding that [symmetric] by (rule replay_refused) simp
  with gone show ?thesis by (auto simp: did_deleted_def elim!: create_OkE create_from_account_OkE)
qed

theorem deleted_did_stays_deleted_witness:
  "\<exists>s1. did_delete sample_did_config (Inr sample_origin) 2 sample_created = Ok s1 \<and>
     did_create sample_did_config (Inl [1]) (sample_creation []) (Ed25519Sig [7]) s1 \<noteq> Ok s1"
proof -
  let ?run = "did_delete sample_did_config (Inr sample_origin) 2 sample_created"
  have "is_Ok ?run"
    by (simp add: did_delete_def did_subject_def delete_did_def sample_origin_def sample_created_document Let_def
        cong: and_then_weak_cong)
  then obtain s1 where s1: "?run = Ok s1" by (cases ?run) auto
  have "did_raw_from sample_did_config (Inr sample_origin) = Some sample_origin"
    "dispatch_spec distinct_endpoints sample_did_config" "creation_did (sample_creation []) = origin_id sample_origin"
    using sample_did_environment by (simp_all add: did_environment_def sample_creation_def sample_origin_def)
  with deleted_did_stays_deleted [OF s1 _ _ rtranclp.rtrancl_refl] s1 show ?thesis by blast
qed

text \<open>C28: an identity can always be used by its owner: if no two keys share an identifier, then in every reachable
  state each document leads to a verification key for authentication, the account of this key may act
  for the identity, and assertion and delegation keys that are set can be found.\<close>

theorem did_always_controllable:
  assumes "reachable (\<lambda>s. did_genesis s \<and> did_environment exact P T) (did_chain_step P T) s"
    and "inj (calculate_key_id T)" "Did s i = Some d"
  shows "(\<exists>k. get_verification_key_for_key_type Authentication d = Some k \<and>
      verify_account_authorization T i (into_account T k) Authentication s = Ok ()) \<and>
    (assertion_key d \<noteq> None \<longrightarrow> get_verification_key_for_key_type AssertionMethod d \<noteq> None) \<and>
    (delegation_key d \<noteq> None \<longrightarrow> get_verification_key_for_key_type CapabilityDelegation d \<noteq> None)"
proof -
  have wf: "did_details_wf T d" using did_inv.inv_reachable [OF assms(1)] assms(3) by (auto simp: did_wf_def)
  from wf_authentication_key [OF this assms(2)] obtain k where
    "get_verification_key_for_key_type Authentication d = Some k" by blast
  with assms(3) wf_optional_keys [OF wf assms(2)] show ?thesis
    by (auto simp: verify_account_authorization_def key_for_def)
qed

theorem did_always_controllable_witness:
  "\<exists>d. Did sample_created [7] = Some d \<and> get_verification_key_for_key_type Authentication d \<noteq> None \<and>
     get_verification_key_for_key_type AssertionMethod d \<noteq> None"
  using did_always_controllable [OF sample_created_reachable _ sample_created_document(1)] sample_encode_key_inj
  by (auto simp: sample_created_document(1) sample_key_ids)

text \<open>Whoever creates an identity proves control of it: the identifier is the account of the key that verified
  the creation, and this key is the authentication key of the document.\<close>

theorem created_did_is_its_key:
  assumes "did_create T origin details sig s = Ok t" "inj (calculate_key_id T)"
  shows "\<exists>d k. Did t (creation_did details) = Some d \<and> get_verification_key_for_key_type Authentication d = Some k \<and>
    into_account T k = creation_did details \<and>
    verify_and_recover_signature T (creation_did details) (encode_creation T details) sig = Ok k"
  using assms(1)
proof (rule create_OkE)
  fix k d assume d: "new_with_creation_details T details k (block_number s) = Ok d" "Did t = (Did s)(creation_did details \<mapsto> d)"
    and k: "verify_and_recover_signature T (creation_did details) (encode_creation T details) sig = Ok k"
  from wf_authentication_key [OF wf_creation [OF d(1)] assms(2)] obtain k' where
    k': "get_verification_key_for_key_type Authentication d = Some k'" "authentication_key d = calculate_key_id T (PublicVerificationKey k')"
    by blast
  then have "k' = k" using authentication_creation [OF d(1)] injD [OF assms(2)] by auto
  with k k' d(2) recovered_account [OF k] show ?thesis by auto
qed

theorem created_did_is_its_key_witness:
  "\<exists>d k. Did sample_created [7] = Some d \<and> get_verification_key_for_key_type Authentication d = Some k \<and>
     into_account sample_did_config k = [7]"
  using created_did_is_its_key [OF sample_create] sample_encode_key_inj by (auto simp: sample_key_ids sample_creation_def)

end
