(* ===== verification/Did_Name.thy ===== *)
theory Did_Name
  imports Frame
begin

text \<open>
  The did-name pallet (\<^verbatim>\<open>pallets/did-name/src\<close>): readable names such as \<open>abc.12@cord\<close> for
  identities. \<^verbatim>\<open>did_name.rs\<close> parses a name, \<^verbatim>\<open>lib.rs\<close> registers, releases, bans and unbans names.
  The type \<^verbatim>\<open>Config::DidName\<close> is \<open>AsciiDidName\<close>, as in the runtimes.

  Shown: the parser accepts exactly the language of a grammar; owners and names are in a bijection,
  so that the \<^verbatim>\<open>unwrap\<close> of \<open>unregister_name\<close> never panics; a banned name stays out of use until it is
  unbanned; a release undoes a registration.
\<close>

section \<open>Types\<close>

type_synonym did_name = bytes

record did_name_ownership =
  name_owner :: account
  registered_at :: u32

datatype DidNameEvent =
    DidNameRegistered account did_name
  | DidNameReleased account did_name
  | DidNameBanned did_name
  | DidNameUnbanned did_name

datatype DidNameError =
    InsufficientFunds | AlreadyExists | NotFound | OwnerAlreadyExists | OwnerNotFound | Banned
  | NotBanned | AlreadyBanned | NotAuthorized | NameTooShort | NameExceedsMaxLength
  | NamePrefixTooShort | NamePrefixTooLong | InvalidSuffix | SuffixTooLong | InvalidFormat

record did_name_storage = frame_system +
  Owner :: "did_name \<Rightarrow> did_name_ownership option"
  Names :: "account \<Rightarrow> did_name option"
  BannedNames :: "did_name \<Rightarrow> unit option"
  did_name_events :: "DidNameEvent list"

text \<open>\<open>NameEnsureOrigin\<close> gives the subject and the sender of an accepted origin.\<close>

record 'o did_name_config = frame_config +
  BanOrigin :: "'o \<Rightarrow> bool"
  NameEnsureOrigin :: "'o \<Rightarrow> (account \<times> account) option"
  MinNameLength :: u32
  MaxNameLength :: u32
  MaxPrefixLength :: u32

type_synonym ('m, 'a) did_name_result = "('m did_name_storage_scheme \<times> 'a, DidNameError dispatch_error) result"
type_synonym 'm did_name_dispatch_result = "('m did_name_storage_scheme, DidNameError dispatch_error) result"

section \<open>Parsing a name\<close>

text \<open>The bytes of \<^verbatim>\<open>b'@'\<close>, \<^verbatim>\<open>b'.'\<close> and \<^verbatim>\<open>b"cord"\<close>.\<close>

definition NAME_SEPARATOR :: u8 where "NAME_SEPARATOR = 0x40"
definition NETWORK_SUFFIX :: bytes where "NETWORK_SUFFIX = [0x63, 0x6F, 0x72, 0x64]"
definition dot :: u8 where "dot = 0x2E"

definition is_ascii_lowercase :: "u8 \<Rightarrow> bool" where
  "is_ascii_lowercase c \<longleftrightarrow> 0x61 \<le> c \<and> c \<le> 0x7A"

definition is_ascii_digit :: "u8 \<Rightarrow> bool" where
  "is_ascii_digit c \<longleftrightarrow> 0x30 \<le> c \<and> c \<le> 0x39"

text \<open>The loop over the characters after the first; \<open>None\<close> is the early \<^verbatim>\<open>return false\<close>.\<close>

fun prefix_loop :: "u8 option \<Rightarrow> bool \<Rightarrow> bytes \<Rightarrow> bool option" where
  "prefix_loop prev_char is_valid [] = Some is_valid"
| "prefix_loop prev_char is_valid (c # cs) =
     (if is_ascii_lowercase c \<or> is_ascii_digit c then prefix_loop (Some c) True cs
      else if c = dot
      then (if prev_char = Some dot then None else prefix_loop (Some c) is_valid cs)
      else None)"

definition is_valid_did_name_prefix :: "bytes \<Rightarrow> bool" where
  "is_valid_did_name_prefix input =
     (if input = [] then False
      else if \<not> is_ascii_lowercase (hd input) then False
      else case prefix_loop None False (tl input) of
             None \<Rightarrow> False
           | Some is_valid \<Rightarrow> if last input = dot then False else is_valid)"

text \<open>\<open>splitn(2, ..)\<close>: the part before the first separator, and the rest after it if there is one.\<close>

fun splitn2 :: "u8 \<Rightarrow> bytes \<Rightarrow> bytes \<times> bytes option" where
  "splitn2 sep [] = ([], None)"
| "splitn2 sep (c # cs) = (if c = sep then ([], Some cs) else (case splitn2 sep cs of (p, s) \<Rightarrow> (c # p, s)))"

definition AsciiDidName_try_from ::
  "('o, 'c) did_name_config_scheme \<Rightarrow> bytes \<Rightarrow> (did_name, DidNameError) result" where
  "AsciiDidName_try_from T value =
     and_then (ensure (unat (MinNameLength T) \<le> length value) NameTooShort) (\<lambda>_.
     and_then (ensure (length value \<le> unat (MaxNameLength T)) NameExceedsMaxLength) (\<lambda>_.
     case splitn2 NAME_SEPARATOR value of
       (prefix, Some suffix) \<Rightarrow>
         and_then (ensure (suffix = NETWORK_SUFFIX) InvalidSuffix) (\<lambda>_.
         and_then (ensure (unat (MinNameLength T) \<le> length prefix) NameTooShort) (\<lambda>_.
         and_then (ensure (length prefix \<le> unat (MaxPrefixLength T)) NameExceedsMaxLength) (\<lambda>_.
         and_then (ensure (is_valid_did_name_prefix prefix) InvalidFormat) (\<lambda>_.
         Ok value))))
     | (prefix, None) \<Rightarrow> Err InvalidFormat))"

section \<open>Internal functions\<close>

definition did_name_deposit_event ::
  "DidNameEvent \<Rightarrow> 'm did_name_storage_scheme \<Rightarrow> 'm did_name_storage_scheme" where
  "did_name_deposit_event e s = s\<lparr>did_name_events := did_name_events s @ [e]\<rparr>"

definition check_claiming_preconditions ::
  "('o, 'c) did_name_config_scheme \<Rightarrow> bytes \<Rightarrow> account \<Rightarrow> 'm did_name_storage_scheme
   \<Rightarrow> (did_name, DidNameError dispatch_error) result" where
  "check_claiming_preconditions T name_input owner s =
     and_then (map_err Module (AsciiDidName_try_from T name_input)) (\<lambda>name.
     and_then (ensure (Names s owner = None) (Module OwnerAlreadyExists)) (\<lambda>_.
     and_then (ensure (Owner s name = None) (Module AlreadyExists)) (\<lambda>_.
     and_then (ensure (BannedNames s name = None) (Module DidNameError.Banned)) (\<lambda>_.
     Ok name))))"

definition register_name ::
  "did_name \<Rightarrow> account \<Rightarrow> 'm did_name_storage_scheme \<Rightarrow> 'm did_name_storage_scheme" where
  "register_name name owner s = s\<lparr>Names := (Names s)(owner \<mapsto> name),
     Owner := (Owner s)(name \<mapsto> \<lparr>name_owner = owner, registered_at = block_number s\<rparr>)\<rparr>"

definition check_releasing_preconditions ::
  "account \<Rightarrow> 'm did_name_storage_scheme \<Rightarrow> (did_name, DidNameError dispatch_error) result" where
  "check_releasing_preconditions owner s = ok_or (Names s owner) (Module OwnerNotFound)"

definition unregister_name ::
  "did_name \<Rightarrow> 'm did_name_storage_scheme \<Rightarrow> ('m, did_name_ownership) did_name_result" where
  "unregister_name name s =
     (case Owner s name of
        None \<Rightarrow> Panic
      | Some name_ownership \<Rightarrow>
          let s1 = s\<lparr>Owner := (Owner s)(name := None)\<rparr>
          in Ok (s1\<lparr>Names := (Names s1)(name_owner name_ownership := None)\<rparr>, name_ownership))"

definition check_banning_preconditions ::
  "('o, 'c) did_name_config_scheme \<Rightarrow> bytes \<Rightarrow> 'm did_name_storage_scheme
   \<Rightarrow> (did_name \<times> bool, DidNameError dispatch_error) result" where
  "check_banning_preconditions T name_input s =
     and_then (map_err Module (AsciiDidName_try_from T name_input)) (\<lambda>name.
     and_then (ensure (BannedNames s name = None) (Module AlreadyBanned)) (\<lambda>_.
     Ok (name, Owner s name \<noteq> None)))"

definition ban_name :: "did_name \<Rightarrow> 'm did_name_storage_scheme \<Rightarrow> 'm did_name_storage_scheme" where
  "ban_name name s = s\<lparr>BannedNames := (BannedNames s)(name \<mapsto> ())\<rparr>"

definition check_unbanning_preconditions ::
  "('o, 'c) did_name_config_scheme \<Rightarrow> bytes \<Rightarrow> 'm did_name_storage_scheme
   \<Rightarrow> (did_name, DidNameError dispatch_error) result" where
  "check_unbanning_preconditions T name_input s =
     and_then (map_err Module (AsciiDidName_try_from T name_input)) (\<lambda>name.
     and_then (ensure (BannedNames s name \<noteq> None) (Module NotBanned)) (\<lambda>_.
     Ok name))"

definition unban_name :: "did_name \<Rightarrow> 'm did_name_storage_scheme \<Rightarrow> 'm did_name_storage_scheme" where
  "unban_name name s = s\<lparr>BannedNames := (BannedNames s)(name := None)\<rparr>"

section \<open>Extrinsics\<close>

definition name_subject ::
  "('o, 'c) did_name_config_scheme \<Rightarrow> 'o \<Rightarrow> (account, DidNameError dispatch_error) result" where
  "name_subject T origin = ok_or (map_option fst (NameEnsureOrigin T origin)) BadOrigin"

definition did_name_register ::
  "('o, 'c) did_name_config_scheme \<Rightarrow> 'o \<Rightarrow> bytes \<Rightarrow> 'm did_name_storage_scheme \<Rightarrow> 'm did_name_dispatch_result" where
  "did_name_register T origin name s =
     and_then (name_subject T origin) (\<lambda>owner.
     and_then (check_claiming_preconditions T name owner s) (\<lambda>decoded_name.
     Ok (did_name_deposit_event (DidNameRegistered owner decoded_name) (register_name decoded_name owner s))))"

definition did_name_release ::
  "('o, 'c) did_name_config_scheme \<Rightarrow> 'o \<Rightarrow> 'm did_name_storage_scheme \<Rightarrow> 'm did_name_dispatch_result" where
  "did_name_release T origin s =
     and_then (name_subject T origin) (\<lambda>owner.
     and_then (check_releasing_preconditions owner s) (\<lambda>owned_name.
     and_then (unregister_name owned_name s) (\<lambda>(s1, _).
     Ok (did_name_deposit_event (DidNameReleased owner owned_name) s1))))"

definition did_name_ban ::
  "('o, 'c) did_name_config_scheme \<Rightarrow> 'o \<Rightarrow> bytes \<Rightarrow> 'm did_name_storage_scheme \<Rightarrow> 'm did_name_dispatch_result" where
  "did_name_ban T origin name s =
     and_then (ensure (BanOrigin T origin) BadOrigin) (\<lambda>_.
     and_then (check_banning_preconditions T name s) (\<lambda>(decoded_name, is_claimed).
     and_then (if is_claimed then and_then (unregister_name decoded_name s) (\<lambda>(s1, _). Ok s1) else Ok s) (\<lambda>s1.
     Ok (did_name_deposit_event (DidNameBanned decoded_name) (ban_name decoded_name s1)))))"

definition did_name_unban ::
  "('o, 'c) did_name_config_scheme \<Rightarrow> 'o \<Rightarrow> bytes \<Rightarrow> 'm did_name_storage_scheme \<Rightarrow> 'm did_name_dispatch_result" where
  "did_name_unban T origin name s =
     and_then (ensure (BanOrigin T origin) BadOrigin) (\<lambda>_.
     and_then (check_unbanning_preconditions T name s) (\<lambda>decoded_name.
     Ok (did_name_deposit_event (DidNameUnbanned decoded_name) (unban_name decoded_name s))))"

datatype DidNameCall = RegisterName bytes | ReleaseName | BanName bytes | UnbanName bytes

fun did_name_dispatch ::
  "('o, 'c) did_name_config_scheme \<Rightarrow> 'o \<times> DidNameCall \<Rightarrow> 'm did_name_storage_scheme \<Rightarrow> 'm did_name_dispatch_result" where
  "did_name_dispatch T (origin, RegisterName n) s = did_name_register T origin n s"
| "did_name_dispatch T (origin, ReleaseName) s = did_name_release T origin s"
| "did_name_dispatch T (origin, BanName n) s = did_name_ban T origin n s"
| "did_name_dispatch T (origin, UnbanName n) s = did_name_unban T origin n s"

text \<open>A successful call, or the next block.\<close>

inductive did_name_step ::
  "('o, 'c) did_name_config_scheme \<Rightarrow> 'm did_name_storage_scheme \<Rightarrow> 'm did_name_storage_scheme \<Rightarrow> bool" for T where
  name_call: "did_name_dispatch T oc s = Ok s' \<Longrightarrow> did_name_step T s s'"
| name_block: "did_name_step T s (s\<lparr>block_number := block_number s + 1\<rparr>)"

definition did_name_genesis :: "'m did_name_storage_scheme \<Rightarrow> bool" where
  "did_name_genesis s \<longleftrightarrow> Owner s = Map.empty \<and> Names s = Map.empty \<and> BannedNames s = Map.empty"

section \<open>The language of names\<close>

text \<open>
  A grammar for names, independent of the parser: labels of lowercase letters and digits, joined by
  single dots, at least two characters that start with a letter, then \<open>@cord\<close>.
\<close>

definition label :: "bytes \<Rightarrow> bool" where
  "label l \<longleftrightarrow> l \<noteq> [] \<and> (\<forall>c \<in> set l. is_ascii_lowercase c \<or> is_ascii_digit c)"

definition joined :: "bytes \<Rightarrow> bytes list \<Rightarrow> bytes" where
  "joined l ls = l @ concat (map ((#) dot) ls)"

definition name_prefix :: "bytes \<Rightarrow> bool" where
  "name_prefix p \<longleftrightarrow> (\<exists>l ls. p = joined l ls \<and> (\<forall>x \<in> set (l # ls). label x)) \<and>
     is_ascii_lowercase (hd p) \<and> 2 \<le> length p"

definition name_language :: "('o, 'c) did_name_config_scheme \<Rightarrow> bytes \<Rightarrow> bool" where
  "name_language T name \<longleftrightarrow> (\<exists>p. name = p @ NAME_SEPARATOR # NETWORK_SUFFIX \<and> name_prefix p \<and>
     length p \<in> {unat (MinNameLength T)..unat (MaxPrefixLength T)} \<and> length name \<le> unat (MaxNameLength T))"

lemma dot_no_label [simp]: "\<not> is_ascii_lowercase dot" "\<not> is_ascii_digit dot"
  by (simp_all add: is_ascii_lowercase_def is_ascii_digit_def dot_def)

lemma separator_no_label [simp]:
  "\<not> is_ascii_lowercase NAME_SEPARATOR" "\<not> is_ascii_digit NAME_SEPARATOR" "NAME_SEPARATOR \<noteq> dot" "dot \<noteq> NAME_SEPARATOR"
  by (simp_all add: is_ascii_lowercase_def is_ascii_digit_def dot_def NAME_SEPARATOR_def)

lemma label_alt: "label [] = False"
  "label (c # l) \<longleftrightarrow> (is_ascii_lowercase c \<or> is_ascii_digit c) \<and> (l = [] \<or> label l)"
  by (auto simp: label_def)

text \<open>What is left of a prefix after the character \<open>p\<close>: the rest of a label, then more labels.\<close>

definition tail_ok :: "u8 \<Rightarrow> bytes \<Rightarrow> bool" where
  "tail_ok p cs \<longleftrightarrow> (\<exists>l ls. cs = joined l ls \<and> (l = [] \<or> label l) \<and> (p = dot \<longrightarrow> l \<noteq> []) \<and> (\<forall>x \<in> set ls. label x))"

lemma tail_ok_Nil: "tail_ok p [] \<longleftrightarrow> p \<noteq> dot"
  by (auto simp: tail_ok_def joined_def label_alt)

lemma tail_ok_char:
  assumes "is_ascii_lowercase c \<or> is_ascii_digit c"
  shows "tail_ok p (c # cs) \<longleftrightarrow> tail_ok c cs"
proof
  assume "tail_ok p (c # cs)"
  then obtain l ls where l: "c # cs = joined l ls" "l = [] \<or> label l" "\<forall>x \<in> set ls. label x"
    by (auto simp: tail_ok_def)
  have "l \<noteq> []" using l(1) assms by (cases ls) (auto simp: joined_def)
  then obtain l' where "l = c # l'" using l(1) by (cases l) (auto simp: joined_def)
  then show "tail_ok c cs" unfolding tail_ok_def using l assms
    by (intro exI [of _ l'] exI [of _ ls]) (auto simp: joined_def label_alt)
next
  assume "tail_ok c cs"
  then obtain l ls where "cs = joined l ls" "l = [] \<or> label l" "\<forall>x \<in> set ls. label x"
    by (auto simp: tail_ok_def)
  then show "tail_ok p (c # cs)" unfolding tail_ok_def using assms
    by (intro exI [of _ "c # l"] exI [of _ ls]) (auto simp: joined_def label_alt)
qed

lemma tail_ok_dot: "tail_ok p (dot # cs) \<longleftrightarrow> p \<noteq> dot \<and> tail_ok dot cs"
proof
  assume "tail_ok p (dot # cs)"
  then obtain l ls where l: "dot # cs = joined l ls" "l = [] \<or> label l" "p = dot \<longrightarrow> l \<noteq> []" "\<forall>x \<in> set ls. label x"
    by (auto simp: tail_ok_def)
  have "l = []" using l(1,2) by (cases l) (auto simp: joined_def label_alt)
  moreover obtain x ls' where "ls = x # ls'" using l(1) \<open>l = []\<close> by (cases ls) (auto simp: joined_def)
  ultimately show "p \<noteq> dot \<and> tail_ok dot cs" unfolding tail_ok_def using l
    by (auto simp: joined_def label_alt intro!: exI [of _ x] exI [of _ ls'])
next
  assume "p \<noteq> dot \<and> tail_ok dot cs"
  then obtain l ls where "p \<noteq> dot" "cs = joined l ls" "label l" "\<forall>x \<in> set ls. label x"
    by (auto simp: tail_ok_def)
  then show "tail_ok p (dot # cs)" unfolding tail_ok_def
    by (intro exI [of _ "[]"] exI [of _ "l # ls"]) (auto simp: joined_def)
qed

lemma tail_ok_other:
  assumes "\<not> is_ascii_lowercase c" "\<not> is_ascii_digit c" "c \<noteq> dot"
  shows "\<not> tail_ok p (c # cs)"
proof
  assume "tail_ok p (c # cs)"
  then obtain l ls where l: "c # cs = joined l ls" "l = [] \<or> label l" by (auto simp: tail_ok_def)
  with assms show False by (cases l; cases ls) (auto simp: joined_def label_alt)
qed

lemma prefix_loop_tail:
  assumes "prev = Some p \<or> prev = None \<and> p \<noteq> dot"
  shows "prefix_loop prev v cs = Some w \<and> last (p # cs) \<noteq> dot \<longleftrightarrow> tail_ok p cs \<and> w = (v \<or> cs \<noteq> [])"
  using assms
proof (induction cs arbitrary: prev p v)
  case Nil
  then show ?case by (auto simp: tail_ok_Nil)
next
  case (Cons c cs)
  consider "is_ascii_lowercase c \<or> is_ascii_digit c" | "c = dot" | "\<not> is_ascii_lowercase c" "\<not> is_ascii_digit c" "c \<noteq> dot"
    by blast
  then show ?case
  proof cases
    case 1
    with Cons.IH [of "Some c" c True] show ?thesis by (simp add: tail_ok_char)
  next
    case 2
    with Cons.IH [of "Some dot" dot v] Cons.prems show ?thesis
      by (cases cs) (auto simp: tail_ok_dot tail_ok_Nil)
  next
    case 3
    then show ?thesis by (simp add: tail_ok_other)
  qed
qed

lemma joined_first: "joined (c # l) ls = c # joined l ls"
  by (simp add: joined_def)

lemma valid_prefix_iff: "is_valid_did_name_prefix p \<longleftrightarrow> name_prefix p"
proof (cases p)
  case Nil
  then show ?thesis by (simp add: is_valid_did_name_prefix_def name_prefix_def)
next
  case (Cons c cs)
  have "name_prefix p \<longleftrightarrow> is_ascii_lowercase c \<and> tail_ok c cs \<and> cs \<noteq> []"
  proof
    assume "name_prefix p"
    then obtain l ls where l: "c # cs = joined l ls" "label l" "\<forall>x \<in> set ls. label x" "is_ascii_lowercase c" "cs \<noteq> []"
      by (fastforce simp: name_prefix_def Cons)
    then obtain l' where "l = c # l'" by (cases l) (auto simp: joined_def label_alt)
    with l show "is_ascii_lowercase c \<and> tail_ok c cs \<and> cs \<noteq> []" unfolding tail_ok_def
      by (intro conjI exI [of _ l'] exI [of _ ls]) (auto simp: joined_first label_alt)
  next
    assume a: "is_ascii_lowercase c \<and> tail_ok c cs \<and> cs \<noteq> []"
    then obtain l ls where "cs = joined l ls" "l = [] \<or> label l" "\<forall>x \<in> set ls. label x"
      by (auto simp: tail_ok_def)
    with a show "name_prefix p" unfolding name_prefix_def Cons
      by (intro conjI exI [of _ "c # l"] exI [of _ ls]) (auto simp: joined_first label_alt Suc_le_eq)
  qed
  moreover have "is_valid_did_name_prefix p \<longleftrightarrow> is_ascii_lowercase c \<and> tail_ok c cs \<and> cs \<noteq> []"
  proof (cases "is_ascii_lowercase c")
    case True
    then have "c \<noteq> dot" by auto
    with prefix_loop_tail [of None c False cs True] prefix_loop_tail [of None c False cs False] True show ?thesis
      by (auto simp: is_valid_did_name_prefix_def Cons split: option.splits)
  qed (simp add: is_valid_did_name_prefix_def Cons)
  ultimately show ?thesis by simp
qed

lemma splitn2_iff: "splitn2 sep v = (p, Some q) \<longleftrightarrow> v = p @ sep # q \<and> sep \<notin> set p"
proof (induction v arbitrary: p)
  case (Cons c v)
  note IH = this
  obtain a b where ab: "splitn2 sep v = (a, b)" by fastforce
  show ?case
  proof (cases p)
    case Nil
    then show ?thesis by (auto simp: ab)
  next
    case (Cons d p')
    with IH [of p'] show ?thesis by (auto simp: ab)
  qed
qed simp

lemma label_separator: "label l \<Longrightarrow> NAME_SEPARATOR \<notin> set l"
  using separator_no_label by (auto simp: label_def)

lemma name_prefix_separator: "name_prefix p \<Longrightarrow> NAME_SEPARATOR \<notin> set p"
  by (auto simp: name_prefix_def joined_def label_separator split: if_splits)


lemma try_from_iff: "AsciiDidName_try_from T v = Ok n \<longleftrightarrow> n = v \<and> name_language T v"
proof
  assume a: "AsciiDidName_try_from T v = Ok n"
  obtain p q where pq: "splitn2 NAME_SEPARATOR v = (p, q)" by fastforce
  with a obtain q' where q: "q = Some q'" by (cases q) (auto simp: AsciiDidName_try_from_def)
  from a pq splitn2_iff [of NAME_SEPARATOR v p q'] show "n = v \<and> name_language T v"
    by (auto simp: AsciiDidName_try_from_def q name_language_def valid_prefix_iff intro!: exI [of _ p])
next
  assume "n = v \<and> name_language T v"
  then obtain p where p: "n = v" "v = p @ NAME_SEPARATOR # NETWORK_SUFFIX" "name_prefix p"
    "unat (MinNameLength T) \<le> length p" "length p \<le> unat (MaxPrefixLength T)" "length v \<le> unat (MaxNameLength T)"
    by (auto simp: name_language_def)
  have "splitn2 NAME_SEPARATOR v = (p, Some NETWORK_SUFFIX)"
    using splitn2_iff p(2) name_prefix_separator [OF p(3)] by blast
  with p show "AsciiDidName_try_from T v = Ok n"
    by (simp add: AsciiDidName_try_from_def valid_prefix_iff)
qed

section \<open>Owners and names\<close>

text \<open>
  A name has an owner exactly if that is the owner's name, it is in the language, and no banned
  name has one.
\<close>

definition did_name_wf :: "('o, 'c) did_name_config_scheme \<Rightarrow> 'm did_name_storage_scheme \<Rightarrow> bool" where
  "did_name_wf T s \<longleftrightarrow>
     (\<forall>a n. Names s a = Some n \<longleftrightarrow> (\<exists>r. Owner s n = Some r \<and> name_owner r = a)) \<and>
     (\<forall>n. Owner s n \<noteq> None \<longrightarrow> BannedNames s n = None) \<and>
     (\<forall>n. Owner s n \<noteq> None \<or> BannedNames s n \<noteq> None \<longrightarrow> name_language T n)"

lemma did_name_event_frame [simp]:
  "Owner (did_name_deposit_event e s) = Owner s" "Names (did_name_deposit_event e s) = Names s"
  "BannedNames (did_name_deposit_event e s) = BannedNames s"
  by (simp_all add: did_name_deposit_event_def)

lemma register_OkE:
  assumes "did_name_register T origin v s = Ok s'"
  obtains a sender where "NameEnsureOrigin T origin = Some (a, sender)" "name_language T v" "Names s a = None"
    "Owner s v = None" "BannedNames s v = None" "Names s' = (Names s)(a \<mapsto> v)"
    "Owner s' = (Owner s)(v \<mapsto> \<lparr>name_owner = a, registered_at = block_number s\<rparr>)" "BannedNames s' = BannedNames s"
  using assms
  by (auto simp: did_name_register_def name_subject_def check_claiming_preconditions_def try_from_iff register_name_def)

lemma release_OkE:
  assumes "did_name_release T origin s = Ok s'"
  obtains a sender n r where "NameEnsureOrigin T origin = Some (a, sender)" "Names s a = Some n" "Owner s n = Some r"
    "Names s' = (Names s)(name_owner r := None)" "Owner s' = (Owner s)(n := None)" "BannedNames s' = BannedNames s"
  using assms
  by (auto simp: did_name_release_def name_subject_def check_releasing_preconditions_def unregister_name_def Let_def
      split: option.splits)

lemma ban_OkE:
  assumes "did_name_ban T origin v s = Ok s'"
  obtains r where "BanOrigin T origin" "name_language T v" "BannedNames s v = None" "Owner s v = Some r"
      "Names s' = (Names s)(name_owner r := None)" "Owner s' = (Owner s)(v := None)"
      "BannedNames s' = (BannedNames s)(v \<mapsto> ())"
  | "BanOrigin T origin" "name_language T v" "BannedNames s v = None" "Owner s v = None"
      "Names s' = Names s" "Owner s' = Owner s" "BannedNames s' = (BannedNames s)(v \<mapsto> ())"
  using assms
  by (auto simp: did_name_ban_def check_banning_preconditions_def try_from_iff unregister_name_def Let_def ban_name_def
      split: option.splits if_splits)

lemma unban_OkE:
  assumes "did_name_unban T origin v s = Ok s'"
  obtains "BanOrigin T origin" "name_language T v" "BannedNames s v \<noteq> None"
    "Names s' = Names s" "Owner s' = Owner s" "BannedNames s' = (BannedNames s)(v := None)"
  using assms by (auto simp: did_name_unban_def check_unbanning_preconditions_def try_from_iff unban_name_def)

text \<open>Taking a name from its owner, with or without a ban, keeps the bijection.\<close>

lemma wf_unregister:
  assumes "did_name_wf T s" "Owner s n = Some r" "Names s' = (Names s)(name_owner r := None)"
    "Owner s' = (Owner s)(n := None)" "BannedNames s' = BannedNames s \<or> BannedNames s' = (BannedNames s)(n \<mapsto> ())"
  shows "did_name_wf T s'"
proof -
  have bij: "Names s a = Some m \<longleftrightarrow> (\<exists>r. Owner s m = Some r \<and> name_owner r = a)" for a m
    using assms(1) by (simp add: did_name_wf_def)
  have own: "Names s (name_owner r) = Some n" using bij [of "name_owner r" n] assms(2) by simp
  have "Names s' a = Some m \<longleftrightarrow> (\<exists>r. Owner s' m = Some r \<and> name_owner r = a)" for a m
    using bij [of a m] own assms(2) by (auto simp: assms(3,4))
  moreover have "name_language T n" using assms(1,2) by (simp add: did_name_wf_def)
  ultimately show ?thesis using assms(1,5) by (auto simp: did_name_wf_def assms(4))
qed

lemma did_name_wf_register:
  assumes "did_name_register T origin v s = Ok s'" "did_name_wf T s"
  shows "did_name_wf T s'"
  using assms(1)
proof (rule register_OkE)
  fix a
  assume s': "name_language T v" "Names s a = None" "Owner s v = None" "BannedNames s v = None"
    "Names s' = (Names s)(a \<mapsto> v)" "Owner s' = (Owner s)(v \<mapsto> \<lparr>name_owner = a, registered_at = block_number s\<rparr>)"
    "BannedNames s' = BannedNames s"
  have bij: "Names s a = Some m \<longleftrightarrow> (\<exists>r. Owner s m = Some r \<and> name_owner r = a)" for a m
    using assms(2) by (simp add: did_name_wf_def)
  have "Names s' b = Some m \<longleftrightarrow> (\<exists>r. Owner s' m = Some r \<and> name_owner r = b)" for b m
    using bij [of b m] bij [of a m] s'(2,3) by (auto simp: s'(5,6))
  then show ?thesis using assms(2) s'(1,4) by (auto simp: did_name_wf_def s'(6,7))
qed

lemma did_name_wf_dispatch:
  assumes "did_name_dispatch T (origin, c) s = Ok s'" "did_name_wf T s"
  shows "did_name_wf T s'"
proof (cases c)
  case (RegisterName v)
  with assms show ?thesis by (auto intro: did_name_wf_register)
next
  case ReleaseName
  with assms(1) have "did_name_release T origin s = Ok s'" by simp
  then show ?thesis by (rule release_OkE) (rule wf_unregister [OF assms(2)], simp_all)
next
  case (BanName v)
  with assms(1) have "did_name_ban T origin v s = Ok s'" by simp
  then show ?thesis
  proof (cases rule: ban_OkE)
    case (1 r)
    then show ?thesis by (intro wf_unregister [OF assms(2), of v r s']) simp_all
  next
    case 2
    with assms(2) show ?thesis by (auto simp: did_name_wf_def)
  qed
next
  case (UnbanName v)
  with assms(1) have "did_name_unban T origin v s = Ok s'" by simp
  then show ?thesis by (rule unban_OkE) (use assms(2) in \<open>auto simp: did_name_wf_def\<close>)
qed

interpretation did_name_inv: invariant_system did_name_genesis "did_name_step T" "did_name_wf T" for T
proof (unfold_locales, goal_cases)
  case (1 s)
  then show ?case by (simp add: did_name_genesis_def did_name_wf_def)
next
  case (2 s t)
  from 2(2) show ?case
  proof cases
    case (name_call oc)
    with did_name_wf_dispatch [of T "fst oc" "snd oc" s t] 2(1) show ?thesis by simp
  next
    case name_block
    with 2(1) show ?thesis by (simp add: did_name_wf_def)
  qed
qed

lemma try_from_not_Panic: "AsciiDidName_try_from T v \<noteq> Panic"
  by (simp add: AsciiDidName_try_from_def and_then_Panic_iff split: prod.split option.split)

lemma did_name_no_panic:
  assumes "did_name_wf T s"
  shows "did_name_dispatch T (origin, c) s \<noteq> Panic"
proof -
  have own: "Owner s n = None \<Longrightarrow> Names s a \<noteq> Some n" for a n
    using assms by (auto simp: did_name_wf_def)
  show ?thesis
    by (cases c) (auto simp: own did_name_register_def did_name_release_def did_name_ban_def did_name_unban_def name_subject_def
      check_claiming_preconditions_def check_releasing_preconditions_def check_banning_preconditions_def
      check_unbanning_preconditions_def unregister_name_def try_from_not_Panic and_then_Panic_iff Let_def
      split: option.splits if_splits)
qed

text \<open>A banned name stays banned while no call unbans it.\<close>

lemma banned_stays:
  assumes "did_name_dispatch T (origin, c) s = Ok s'" "BannedNames s v \<noteq> None" "c \<noteq> UnbanName v"
  shows "BannedNames s' v \<noteq> None"
  using assms
  by (cases c) (auto elim!: register_OkE release_OkE ban_OkE unban_OkE)

lemma banned_run:
  assumes "run_all (did_name_dispatch T) cs s = Ok t" "did_name_wf T s" "BannedNames s v \<noteq> None"
    "UnbanName v \<notin> snd ` set cs"
  shows "did_name_wf T t \<and> BannedNames t v \<noteq> None"
  using assms
proof (induction cs arbitrary: s)
  case (Cons oc cs)
  obtain origin c where oc: "oc = (origin, c)" by (cases oc)
  from Cons.prems(1) obtain u where u: "did_name_dispatch T (origin, c) s = Ok u" "run_all (did_name_dispatch T) cs u = Ok t"
    by (auto simp: oc)
  have "c \<noteq> UnbanName v" "UnbanName v \<notin> snd ` set cs" using Cons.prems(4) by (auto simp: oc)
  with Cons.IH [OF u(2) did_name_wf_dispatch [OF u(1) Cons.prems(2)]] banned_stays [OF u(1) Cons.prems(3)]
  show ?case by simp
qed simp

section \<open>A small registry of names\<close>

text \<open>The lengths are those of the runtimes; \<open>abc.1@cord\<close> is the name.\<close>

definition sample_name_config :: "account option did_name_config" where
  "sample_name_config = \<lparr>overflow_checks = True, hashing = sample_hash, encode_hash = id,
     encode_account = id, encode_ident = id, encode_vec = id, blake2b_64 = sample_hash,
     bs58_encode = halves, bs58_decode = unhalves,
     BanOrigin = (\<lambda>origin. origin = None), NameEnsureOrigin = map_option (\<lambda>a. (a, a)),
     MinNameLength = 3, MaxNameLength = 64, MaxPrefixLength = 54\<rparr>"

definition sample_name :: did_name where
  "sample_name = [0x61, 0x62, 0x63, 0x2E, 0x31, 0x40, 0x63, 0x6F, 0x72, 0x64]"

definition sample_names_0 :: did_name_storage where
  "sample_names_0 = \<lparr>block_number = 7, extrinsic_index = None, Owner = Map.empty, Names = Map.empty,
     BannedNames = Map.empty, did_name_events = []\<rparr>"

lemma sample_name_language: "name_language sample_name_config sample_name"
proof -
  have "AsciiDidName_try_from sample_name_config sample_name = Ok sample_name" by code_simp
  then show ?thesis by (simp add: try_from_iff)
qed

lemma sample_names_reachable: "reachable did_name_genesis (did_name_step sample_name_config) sample_names_0"
  by (rule reach_init) (simp add: did_name_genesis_def sample_names_0_def)

section \<open>Properties\<close>

text \<open>C19: the name parser accepts exactly the language of the grammar, gives the name back unchanged, and
  answers every other input with an error.\<close>

theorem did_name_parser_language:
  "case AsciiDidName_try_from T v of
     Ok n \<Rightarrow> n = v \<and> name_language T v
   | Err e \<Rightarrow> \<not> name_language T v
   | Panic \<Rightarrow> False"
proof (cases "AsciiDidName_try_from T v")
  case (Ok n)
  then show ?thesis using try_from_iff by auto
next
  case (Err e)
  with try_from_iff [of T v v] show ?thesis by simp
next
  case Panic
  then show ?thesis by (simp add: try_from_not_Panic)
qed

text \<open>In every reachable storage accounts and names are in a bijection, owned and banned names are in the
  language, no banned name has an owner, and no call panics.\<close>

theorem did_name_reachable_wf:
  assumes "reachable did_name_genesis (did_name_step T) s"
  shows "did_name_wf T s \<and> (\<forall>origin c. did_name_dispatch T (origin, c) s \<noteq> Panic)"
proof -
  have "did_name_wf T s" by (rule did_name_inv.inv_reachable [OF assms])
  with did_name_no_panic [OF this] show ?thesis by blast
qed

theorem did_name_reachable_wf_witness:
  "did_name_wf sample_name_config sample_names_0 \<and>
   (\<forall>origin c. did_name_dispatch sample_name_config (origin, c) sample_names_0 \<noteq> Panic)"
  by (rule did_name_reachable_wf [OF sample_names_reachable])

text \<open>A ban takes the name away from its owner and keeps it out of use: after any calls that do not unban
  it, nobody holds it and nobody can register it; and an unban in that state makes it available to
  an account without a name.\<close>

theorem banned_name_unusable:
  assumes "reachable did_name_genesis (did_name_step T) s"
    and "did_name_ban T origin v s = Ok s1"
    and "run_all (did_name_dispatch T) cs s1 = Ok t" "UnbanName v \<notin> snd ` set cs"
  shows "(\<forall>a. Names t a \<noteq> Some v) \<and> (\<forall>origin t'. did_name_register T origin v t \<noteq> Ok t') \<and>
    (\<forall>gov origin a sender. BanOrigin T gov \<and> NameEnsureOrigin T origin = Some (a, sender) \<and> Names t a = None \<longrightarrow>
       (\<exists>t1 t2. did_name_unban T gov v t = Ok t1 \<and> did_name_register T origin v t1 = Ok t2 \<and> Names t2 a = Some v))"
proof -
  have wf: "did_name_wf T s" by (rule did_name_inv.inv_reachable [OF assms(1)])
  have "did_name_wf T s1" using did_name_wf_dispatch [of T origin "BanName v" s s1] assms(2) wf by simp
  moreover have "BannedNames s1 v \<noteq> None" using assms(2) by (auto elim!: ban_OkE)
  ultimately have t: "did_name_wf T t" "BannedNames t v \<noteq> None" using banned_run [OF assms(3)] assms(4) by auto
  then have unowned: "Owner t v = None" and lang: "name_language T v" by (auto simp: did_name_wf_def)
  have "Names t a \<noteq> Some v" for a using t(1) unowned by (auto simp: did_name_wf_def)
  moreover have "did_name_register T origin v t \<noteq> Ok t'" for origin t'
    using t(2) by (auto elim!: register_OkE)
  moreover have "\<exists>t1 t2. did_name_unban T gov v t = Ok t1 \<and> did_name_register T origin v t1 = Ok t2 \<and> Names t2 a = Some v"
    if "BanOrigin T gov" "NameEnsureOrigin T origin = Some (a, sender)" "Names t a = None" for gov origin a sender
    using that t(2) unowned lang try_from_iff [of T v v]
    by (simp add: did_name_unban_def did_name_register_def check_unbanning_preconditions_def name_subject_def
        check_claiming_preconditions_def unban_name_def register_name_def)
  ultimately show ?thesis by blast
qed

theorem banned_name_unusable_witness:
  "\<exists>s1 s2. did_name_register sample_name_config (Some [5]) sample_name sample_names_0 = Ok s1 \<and>
     did_name_ban sample_name_config None sample_name s1 = Ok s2 \<and> Names s2 [5] \<noteq> Some sample_name"
proof -
  obtain s1 where s1: "did_name_register sample_name_config (Some [5]) sample_name sample_names_0 = Ok s1"
    "Owner s1 sample_name \<noteq> None" "BannedNames s1 sample_name = None"
    using try_from_iff [of sample_name_config sample_name sample_name] sample_name_language
    by (simp add: did_name_register_def name_subject_def check_claiming_preconditions_def register_name_def
        sample_names_0_def sample_name_config_def)
  then obtain s2 where s2: "did_name_ban sample_name_config None sample_name s1 = Ok s2"
    using try_from_iff [of sample_name_config sample_name sample_name] sample_name_language
    by (auto simp: did_name_ban_def check_banning_preconditions_def unregister_name_def
        sample_name_config_def Let_def)
  have "reachable did_name_genesis (did_name_step sample_name_config) s1"
    by (rule reach_step [OF sample_names_reachable]) (rule name_call [of _ "(Some [5], RegisterName sample_name)"], simp add: s1)
  from banned_name_unusable [OF this s2, of "[]"] s1 s2 show ?thesis by auto
qed

text \<open>Releasing a name right after its registration succeeds and gives back the owners, the names and the
  bans of before.\<close>

theorem register_release_roundtrip:
  assumes "did_name_register T origin v s = Ok s1"
  shows "\<exists>s2. did_name_release T origin s1 = Ok s2 \<and> Owner s2 = Owner s \<and> Names s2 = Names s \<and>
    BannedNames s2 = BannedNames s"
  using assms
proof (rule register_OkE)
  fix a sender
  assume s1: "NameEnsureOrigin T origin = Some (a, sender)" "Names s a = None" "Owner s v = None"
    "Names s1 = (Names s)(a \<mapsto> v)" "Owner s1 = (Owner s)(v \<mapsto> \<lparr>name_owner = a, registered_at = block_number s\<rparr>)"
    "BannedNames s1 = BannedNames s"
  then show ?thesis
    by (auto simp: did_name_release_def name_subject_def check_releasing_preconditions_def unregister_name_def Let_def)
qed

theorem register_release_roundtrip_witness:
  "\<exists>s1 s2. did_name_register sample_name_config (Some [5]) sample_name sample_names_0 = Ok s1 \<and>
     did_name_release sample_name_config (Some [5]) s1 = Ok s2 \<and> Names s2 = Map.empty"
proof -
  obtain s1 where s1: "did_name_register sample_name_config (Some [5]) sample_name sample_names_0 = Ok s1"
    using try_from_iff [of sample_name_config sample_name sample_name] sample_name_language
    by (simp add: did_name_register_def name_subject_def check_claiming_preconditions_def register_name_def
        sample_names_0_def sample_name_config_def)
  from register_release_roundtrip [OF s1] s1 show ?thesis by (auto simp: sample_names_0_def)
qed

end
