(* ===== verification/Runtime_Calls.thy ===== *)
theory Runtime_Calls
  imports Did_Properties Did_Name
begin

text \<open>
  The logic of the runtimes (\<^verbatim>\<open>runtimes/braid/src/lib.rs\<close>, \<^verbatim>\<open>runtimes/loom/src/lib.rs\<close>, \<^verbatim>\<open>runtimes/weave/src/lib.rs\<close>):
  which key of an identity a call needs (the same text in all three), how the scheduler compares
  origins, and the queries of the DID interface, which join the did and did-name pallets.

  Shown: a batch needs a key exactly if all calls in it do, however deep they are nested; the
  comparison of origins is a preorder that compares fractions of votes; the queries by identity and
  by name agree.
\<close>

section \<open>Calls\<close>

text \<open>Calls are given by their names, with the arguments that matter here: the calls inside a batch.\<close>

datatype DidCall =
    Did_create | Did_set_authentication_key | Did_set_delegation_key | Did_remove_delegation_key
  | Did_set_assertion_key | Did_remove_assertion_key | Did_add_key_agreement_key | Did_remove_key_agreement_key
  | Did_add_service_endpoint | Did_remove_service_endpoint | Did_delete | Did_submit_did_call | Did_dispatch_as
  | Did_create_from_account

datatype ChainSpaceCall =
    Space_add_delegate | Space_add_admin_delegate | Space_add_delegator | Space_remove_delegate | Space_create
  | Space_approve | Space_archive | Space_restore | Space_update_transaction_capacity | Space_reset_transaction_count
  | Space_approval_revoke | Space_approval_restore | Space_subspace_create | Space_update_transaction_capacity_sub

datatype RuntimeCall =
    DidC DidCall
  | DidNameC
  | SchemaC
  | StatementC
  | NetworkScoreC
  | ChainSpaceC ChainSpaceCall
  | Utility_batch "RuntimeCall list"
  | Utility_batch_all "RuntimeCall list"
  | Utility_force_batch "RuntimeCall list"
  | OtherC

fun space_relationship :: "ChainSpaceCall \<Rightarrow> (DidVerificationKeyRelationship, RelationshipDeriveError) result" where
  "space_relationship Space_add_delegate = Ok CapabilityDelegation"
| "space_relationship Space_add_admin_delegate = Ok CapabilityDelegation"
| "space_relationship Space_add_delegator = Ok CapabilityDelegation"
| "space_relationship Space_remove_delegate = Ok CapabilityDelegation"
| "space_relationship Space_create = Ok Authentication"
| "space_relationship Space_archive = Ok Authentication"
| "space_relationship Space_restore = Ok Authentication"
| "space_relationship Space_subspace_create = Ok Authentication"
| "space_relationship Space_update_transaction_capacity = Ok Authentication"
| "space_relationship Space_update_transaction_capacity_sub = Ok Authentication"
| "space_relationship _ = Err NotCallableByDid"

text \<open>\<open>relationship_fold\<close> is the \<^verbatim>\<open>try_fold\<close> over the calls after the first.\<close>

function derive_verification_key_relationship ::
    "RuntimeCall \<Rightarrow> (DidVerificationKeyRelationship, RelationshipDeriveError) result"
  and single_key_relationship ::
    "RuntimeCall list \<Rightarrow> (DidVerificationKeyRelationship, RelationshipDeriveError) result"
  and relationship_fold ::
    "DidVerificationKeyRelationship \<Rightarrow> RuntimeCall list \<Rightarrow> (DidVerificationKeyRelationship, RelationshipDeriveError) result" where
  "derive_verification_key_relationship (DidC c) = (if c = Did_create then Err NotCallableByDid else Ok Authentication)"
| "derive_verification_key_relationship DidNameC = Ok Authentication"
| "derive_verification_key_relationship SchemaC = Ok Authentication"
| "derive_verification_key_relationship StatementC = Ok Authentication"
| "derive_verification_key_relationship NetworkScoreC = Ok Authentication"
| "derive_verification_key_relationship (ChainSpaceC c) = space_relationship c"
| "derive_verification_key_relationship (Utility_batch calls) = single_key_relationship calls"
| "derive_verification_key_relationship (Utility_batch_all calls) = single_key_relationship calls"
| "derive_verification_key_relationship (Utility_force_batch calls) = single_key_relationship calls"
| "derive_verification_key_relationship OtherC = Err NotCallableByDid"
| "single_key_relationship [] = Err InvalidCallParameter"
| "single_key_relationship (call # calls) =
     and_then (derive_verification_key_relationship call) (\<lambda>init. relationship_fold init calls)"
| "relationship_fold acc [] = Ok acc"
| "relationship_fold acc (call # calls) =
     (if Ok acc = derive_verification_key_relationship call then relationship_fold acc calls else Err InvalidCallParameter)"
  by pat_completeness auto

text \<open>A call has fewer constructors than the batch it is in, and the rest of a batch is shorter.\<close>

termination
  by (relation "measure (\<lambda>x. case x of Inl c \<Rightarrow> 2 * size c | Inr (Inl cs) \<Rightarrow> Suc (2 * size_list size cs)
      | Inr (Inr (_, cs)) \<Rightarrow> Suc (2 * size_list size cs))") auto

text \<open>The calls a call stands for once all batches are opened, and whether an empty batch is among them.\<close>

fun leaf_calls :: "RuntimeCall \<Rightarrow> RuntimeCall list" where
  "leaf_calls (Utility_batch calls) = concat (map leaf_calls calls)"
| "leaf_calls (Utility_batch_all calls) = concat (map leaf_calls calls)"
| "leaf_calls (Utility_force_batch calls) = concat (map leaf_calls calls)"
| "leaf_calls c = [c]"

fun has_empty_batch :: "RuntimeCall \<Rightarrow> bool" where
  "has_empty_batch (Utility_batch calls) = (calls = [] \<or> list_ex has_empty_batch calls)"
| "has_empty_batch (Utility_batch_all calls) = (calls = [] \<or> list_ex has_empty_batch calls)"
| "has_empty_batch (Utility_force_batch calls) = (calls = [] \<or> list_ex has_empty_batch calls)"
| "has_empty_batch _ = False"

lemma relationship_fold_iff:
  "relationship_fold acc calls = Ok r \<longleftrightarrow> r = acc \<and> (\<forall>c \<in> set calls. derive_verification_key_relationship c = Ok acc)"
  by (induction calls) auto

lemma single_key_relationship_iff:
  "single_key_relationship calls = Ok r \<longleftrightarrow> calls \<noteq> [] \<and> (\<forall>c \<in> set calls. derive_verification_key_relationship c = Ok r)"
  by (cases calls) (auto simp: relationship_fold_iff)

lemma space_relationship_not_Panic: "space_relationship c \<noteq> Panic"
  by (cases c) simp_all

section \<open>Privileges of origins\<close>

datatype SystemOrigin = Root | Signed account | Unsigned

text \<open>The number of members in favour and the number of all members, or a single member.\<close>

datatype CollectiveOrigin = Members u32 u32 | Member account | Phantom

datatype OriginCaller =
  system_origin SystemOrigin | Council CollectiveOrigin | TechnicalCommittee CollectiveOrigin | DidOrigin did_raw_origin | VoidOrigin

datatype Ordering = Less | Equal | Greater

definition cmp_u32 :: "u32 \<Rightarrow> u32 \<Rightarrow> Ordering" where
  "cmp_u32 a b = (if a < b then Less else if a = b then Equal else Greater)"

text \<open>The runtime braid has no council.\<close>

definition cmp_privilege_braid :: "OriginCaller \<Rightarrow> OriginCaller \<Rightarrow> Ordering option" where
  "cmp_privilege_braid left right =
     (if left = right then Some Equal else
      case (left, right) of
        (system_origin Root, _) \<Rightarrow> Some Greater
      | _ \<Rightarrow> None)"

definition cmp_privilege :: "bool \<Rightarrow> OriginCaller \<Rightarrow> OriginCaller \<Rightarrow> (Ordering option, unit) result" where
  "cmp_privilege checks left right =
     (if left = right then Ok (Some Equal) else
      case (left, right) of
        (system_origin Root, _) \<Rightarrow> Ok (Some Greater)
      | (Council (Members l_yes_votes l_count), Council (Members r_yes_votes r_count)) \<Rightarrow>
          and_then (plain_mul checks l_yes_votes r_count) (\<lambda>l.
          and_then (plain_mul checks r_yes_votes l_count) (\<lambda>r.
          Ok (Some (cmp_u32 l r))))
      | _ \<Rightarrow> Ok None)"

section \<open>Queries\<close>

record did_linked_info =
  linked_identifier :: did
  linked_account :: account
  linked_name :: "did_name option"
  linked_service_endpoints :: "did_endpoint list"
  linked_details :: did_details

text \<open>\<open>iter_prefix\<close> lists the endpoints of an identity in the order of their hashed keys, a parameter.\<close>

definition query ::
  "((service_id \<Rightarrow> did_endpoint option) \<Rightarrow> did_endpoint list) \<Rightarrow> did \<Rightarrow> 'm did_storage_scheme \<Rightarrow> 'n did_name_storage_scheme
   \<Rightarrow> did_linked_info option" where
  "query iter_prefix did s names =
     (case Did s did of
        None \<Rightarrow> None
      | Some details \<Rightarrow>
          Some \<lparr>linked_identifier = did, linked_account = did, linked_name = Names names did,
            linked_service_endpoints = iter_prefix (ServiceEndpoints s did), linked_details = details\<rparr>)"

definition query_by_name ::
  "('o, 'c) did_name_config_scheme \<Rightarrow> ((service_id \<Rightarrow> did_endpoint option) \<Rightarrow> did_endpoint list) \<Rightarrow> bytes
   \<Rightarrow> 'm did_storage_scheme \<Rightarrow> 'n did_name_storage_scheme \<Rightarrow> did_linked_info option" where
  "query_by_name T iter_prefix name s names =
     (case AsciiDidName_try_from T name of
        Ok dname \<Rightarrow>
          (case Owner names dname of
             None \<Rightarrow> None
           | Some owner_info \<Rightarrow>
               (case Did s (name_owner owner_info) of
                  None \<Rightarrow> None
                | Some details \<Rightarrow>
                    Some \<lparr>linked_identifier = name_owner owner_info, linked_account = name_owner owner_info,
                      linked_name = Some dname,
                      linked_service_endpoints = iter_prefix (ServiceEndpoints s (name_owner owner_info)),
                      linked_details = details\<rparr>))
      | _ \<Rightarrow> None)"

section \<open>Votes as fractions\<close>

text \<open>Origins as a collective of fewer than \<open>2 ^ 16\<close> members makes them; the runtimes allow at most a hundred.\<close>

fun proper_origin :: "OriginCaller \<Rightarrow> bool" where
  "proper_origin (Council (Members yes count)) \<longleftrightarrow> 0 < count \<and> yes \<le> count \<and> count < 2 ^ 16"
| "proper_origin _ \<longleftrightarrow> True"

lemma small_product: "unat a * unat b < 2 ^ 32" if "unat a < 2 ^ 16" "unat b < 2 ^ 16" for a b :: u32
  using mult_strict_mono [of "unat a" "2 ^ 16" "unat b" "2 ^ 16"] that by simp

lemma proper_votes:
  assumes "proper_origin (Council (Members y c))"
  shows "unat y < 2 ^ 16" "unat c < 2 ^ 16" "0 < unat c"
  using assms by (auto simp: word_less_nat_alt word_le_nat_alt)

text \<open>The comparison of two proportions of a council: cross multiplication without overflow.\<close>

definition cmp_nat :: "nat \<Rightarrow> nat \<Rightarrow> Ordering" where
  "cmp_nat a b = (if a < b then Less else if a = b then Equal else Greater)"

lemma cmp_council:
  assumes "proper_origin (Council (Members ly lc))" "proper_origin (Council (Members ry rc))"
  shows "cmp_privilege checks (Council (Members ly lc)) (Council (Members ry rc)) =
    Ok (Some (cmp_nat (unat ly * unat rc) (unat ry * unat lc)))"
proof -
  have fit: "unat ly * unat rc < 2 ^ 32" "unat ry * unat lc < 2 ^ 32"
    using small_product [OF proper_votes(1) [OF assms(1)] proper_votes(2) [OF assms(2)]]
      small_product [OF proper_votes(1) [OF assms(2)] proper_votes(2) [OF assms(1)]] by auto
  then have "unat (ly * rc) = unat ly * unat rc" "unat (ry * lc) = unat ry * unat lc"
    by (simp_all add: unat_word_ariths)
  then have "cmp_u32 (ly * rc) (ry * lc) = cmp_nat (unat ly * unat rc) (unat ry * unat lc)"
    by (simp add: cmp_u32_def cmp_nat_def word_less_nat_alt word_unat_eq_iff)
  moreover have "plain_mul checks ly rc = Ok (ly * rc)" "plain_mul checks ry lc = Ok (ry * lc)"
    using fit by (simp_all add: plain_mul_def)
  moreover have "cmp_nat (unat ry * unat lc) (unat ry * unat lc) = Equal" by (simp add: cmp_nat_def)
  ultimately show ?thesis by (auto simp: cmp_privilege_def)
qed

lemma cross_trans:
  fixes a b c p q r :: nat
  assumes "b * p \<le> a * q" "c * q \<le> b * r" "0 < q" "0 < p" "0 < r"
  shows "c * p \<le> a * r" "a * r = c * p \<longleftrightarrow> a * q = b * p \<and> b * r = c * q"
proof -
  have 1: "q * (c * p) \<le> r * (b * p)" using mult_right_mono [OF assms(2), of p] by (simp add: ac_simps)
  have 2: "r * (b * p) \<le> q * (a * r)" using mult_left_mono [OF assms(1), of r] by (simp add: ac_simps)
  from 1 2 assms(3) show "c * p \<le> a * r" by (metis mult_le_cancel1 order_trans)
  show "a * r = c * p \<longleftrightarrow> a * q = b * p \<and> b * r = c * q"
  proof
    assume eq: "a * r = c * p"
    have "r * (b * p) = q * (a * r)" using order_antisym [OF 2] 1 unfolding eq .
    moreover from this have "r * (b * p) = q * (c * p)" unfolding eq .
    ultimately
    have "r * (b * p) = r * (a * q)" "p * (b * r) = p * (c * q)" by (simp_all add: ac_simps)
    then show "a * q = b * p \<and> b * r = c * q" using assms(4,5) by simp
  next
    assume "a * q = b * p \<and> b * r = c * q"
    then have "q * (a * r) = q * (c * p)" by (metis mult.assoc mult.commute)
    with assms(3) show "a * r = c * p" by simp
  qed
qed

lemma cmp_nat_simps: "cmp_nat a b \<noteq> Less \<longleftrightarrow> b \<le> a" "cmp_nat a b = Equal \<longleftrightarrow> a = b"
  by (auto simp: cmp_nat_def)

lemma cmp_privilege_cases:
  assumes "cmp_privilege checks l r = Ok (Some x)"
  obtains "l = r" "x = Equal" | "l = system_origin Root" "l \<noteq> r" "x = Greater"
  | ly lc ry rc where "l = Council (Members ly lc)" "r = Council (Members ry rc)"
  using assms by (auto simp: cmp_privilege_def split: if_splits OriginCaller.splits SystemOrigin.splits CollectiveOrigin.splits)

section \<open>Properties\<close>

text \<open>C29: a call made in the name of an identity may use a key exactly if this key is the one for every call it
  stands for: opening all batches, however nested, gives calls that all need that key, and no batch is
  empty. Nothing that an identity may not call, such as the creation of identities, can be hidden in one.\<close>

theorem batch_authorizes_every_call:
  "derive_verification_key_relationship call = Ok r \<longleftrightarrow>
     \<not> has_empty_batch call \<and> (\<forall>c \<in> set (leaf_calls call). derive_verification_key_relationship c = Ok r)"
proof (induction call)
  case (Utility_batch calls)
  then show ?case by (auto simp: single_key_relationship_iff list_ex_iff)
next
  case (Utility_batch_all calls)
  then show ?case by (auto simp: single_key_relationship_iff list_ex_iff)
next
  case (Utility_force_batch calls)
  then show ?case by (auto simp: single_key_relationship_iff list_ex_iff)
qed simp_all

theorem batch_authorizes_every_call_witness:
  "derive_verification_key_relationship (Utility_batch [StatementC, Utility_batch_all [SchemaC, DidNameC]]) = Ok Authentication \<and>
   derive_verification_key_relationship (Utility_batch [StatementC, Utility_batch_all [DidC Did_create]]) \<noteq> Ok Authentication"
proof
  show "derive_verification_key_relationship (Utility_batch [StatementC, Utility_batch_all [SchemaC, DidNameC]]) = Ok Authentication"
    by (subst batch_authorizes_every_call) simp
  show "derive_verification_key_relationship (Utility_batch [StatementC, Utility_batch_all [DidC Did_create]]) \<noteq> Ok Authentication"
    by (subst batch_authorizes_every_call) simp
qed

text \<open>The comparison of origins never overflows for councils of fewer than \<open>2 ^ 16\<close> members, under either build
  profile, and is a preorder: an origin at least as privileged as another that is at least as
  privileged as a third is at least as privileged as the third, and equal to it only if all are equal.\<close>

theorem privilege_preorder:
  assumes "proper_origin l" "proper_origin m" "proper_origin r"
    and "cmp_privilege checks l m = Ok (Some x)" "x \<noteq> Less" "cmp_privilege checks m r = Ok (Some y)" "y \<noteq> Less"
  shows "\<exists>z. cmp_privilege checks l r = Ok (Some z) \<and> z \<noteq> Less \<and> (z = Equal \<longleftrightarrow> x = Equal \<and> y = Equal)"
  using assms(4)
proof (cases rule: cmp_privilege_cases)
  case 1
  with assms(6,7) show ?thesis by auto
next
  case 2
  from assms(6) 2 have "l \<noteq> r" by (cases rule: cmp_privilege_cases) auto
  then show ?thesis using 2 by (auto simp: cmp_privilege_def)
next
  case (3 ly lc my mc)
  note lm = this
  from assms(6) show ?thesis
  proof (cases rule: cmp_privilege_cases)
    case (3 my' mc' ry rc)
    then have r: "r = Council (Members ry rc)" using lm by simp
    have pos: "0 < unat lc" "0 < unat mc" "0 < unat rc"
      using proper_votes [of ly lc] proper_votes [of my mc] proper_votes [of ry rc] assms(1-3) by (simp_all add: lm r)
    have x: "x = cmp_nat (unat ly * unat mc) (unat my * unat lc)" and y: "y = cmp_nat (unat my * unat rc) (unat ry * unat mc)"
      using assms(1-4,6) cmp_council [of ly lc my mc checks] cmp_council [of my mc ry rc checks] by (simp_all add: lm r)
    from cross_trans [of "unat my" "unat lc" "unat ly" "unat mc" "unat ry" "unat rc"] pos assms(5,7) show ?thesis
      using assms(1-3) cmp_council [of ly lc ry rc checks] by (simp add: lm r x y cmp_nat_simps)
  qed (use assms(4,5) lm in auto)
qed

theorem privilege_preorder_witness:
  "cmp_privilege True (Council (Members 3 4)) (Council (Members 1 3)) = Ok (Some Greater)"
proof -
  let ?l = "Council (Members 3 4)" and ?m = "Council (Members 1 2)" and ?r = "Council (Members 1 3)"
  have "proper_origin ?l" "proper_origin ?m" "proper_origin ?r" by simp_all
  moreover have "cmp_privilege True ?l ?m = Ok (Some Greater)" "cmp_privilege True ?m ?r = Ok (Some Greater)"
    by (simp_all add: cmp_privilege_def plain_mul_def cmp_u32_def)
  ultimately obtain z where z: "cmp_privilege True ?l ?r = Ok (Some z)" "z \<noteq> Less" "z \<noteq> Equal"
    using privilege_preorder [of ?l ?m ?r True Greater Greater] by auto
  then show ?thesis by (cases z) auto
qed

text \<open>The queries by identity and by name agree: in every reachable storage of names, a query by name has an
  answer exactly if the query of some identity has the same answer under that name, and this identity
  is the one in the answer.\<close>

theorem queries_agree:
  assumes "reachable did_name_genesis (did_name_step T) names"
  shows "query_by_name T iter_prefix name s names = Some info \<longleftrightarrow>
    query iter_prefix (linked_identifier info) s names = Some info \<and> linked_name info = Some name"
proof -
  have wf: "did_name_wf T names" by (rule did_name_inv.inv_reachable [OF assms])
  have owner: "Names names i = Some n \<longleftrightarrow> (\<exists>w. Owner names n = Some w \<and> name_owner w = i)" for i n
    using wf by (simp add: did_name_wf_def)
  have lang: "name_language T n" if "Owner names n = Some w" for n w
    using wf that by (auto simp: did_name_wf_def)
  show ?thesis
  proof
    assume "query_by_name T iter_prefix name s names = Some info"
    then show "query iter_prefix (linked_identifier info) s names = Some info \<and> linked_name info = Some name"
      using owner by (fastforce simp: query_by_name_def query_def try_from_iff split: option.splits result.splits)
  next
    assume q: "query iter_prefix (linked_identifier info) s names = Some info \<and> linked_name info = Some name"
    then have n: "Names names (linked_identifier info) = Some name" by (cases info) (auto simp: query_def split: option.splits)
    then obtain w where w: "Owner names name = Some w" "name_owner w = linked_identifier info" using owner by blast
    then have "AsciiDidName_try_from T name = Ok name" using lang by (simp add: try_from_iff)
    with q w n show "query_by_name T iter_prefix name s names = Some info"
      by (auto simp: query_by_name_def query_def split: option.splits)
  qed
qed

theorem queries_agree_witness:
  "\<exists>(names :: did_name_storage) info. query_by_name sample_name_config (\<lambda>m. map (\<lambda>i. the (m i)) [[1], [2]]) sample_name sample_created names = Some info \<and>
     linked_identifier info = [7] \<and> map endpoint_id (linked_service_endpoints info) = [[1], [2]]"
proof -
  obtain names where reg: "did_name_register sample_name_config (Some [7]) sample_name sample_names_0 = Ok names"
    and name: "Names names [7] = Some sample_name"
    using try_from_iff [of sample_name_config sample_name sample_name] sample_name_language
    by (auto simp: did_name_register_def name_subject_def check_claiming_preconditions_def register_name_def did_name_deposit_event_def
        sample_names_0_def sample_name_config_def)
  have reach: "reachable did_name_genesis (did_name_step sample_name_config) names"
    by (rule reach_step [OF sample_names_reachable]) (rule name_call [of _ "(Some [7], RegisterName sample_name)"], simp add: reg)
  let ?iter = "\<lambda>m. map (\<lambda>i. the (m i)) [[1], [2]]"
  obtain info where info: "query ?iter [7] sample_created names = Some info" "linked_identifier info = [7]"
    "linked_name info = Some sample_name" "linked_service_endpoints info = ?iter (ServiceEndpoints sample_created [7])"
    using name by (simp add: query_def sample_created_document(1))
  have "ServiceEndpoints sample_created [7] = [[1] \<mapsto> sample_endpoint [1], [2] \<mapsto> sample_endpoint [2]]"
    by (simp add: sample_created_def sample_did_defs Let_def card_insert_if cong: and_then_weak_cong)
  then have "map endpoint_id (linked_service_endpoints info) = [[1], [2]]" by (simp add: info(4) sample_endpoint_def)
  with queries_agree [OF reach, of ?iter sample_name sample_created info] info(1-3) show ?thesis
    by (intro exI [of _ names] exI [of _ info]) simp
qed

end
