(* ===== verification/Chain_Spec.thy ===== *)
theory Chain_Spec
  imports Frame "HOL-Library.List_Lexorder" "HOL-Library.Sublist"
begin

text \<open>
  The chain specifications of the node (\<^verbatim>\<open>node/cli/src/chain_spec.rs\<close>, \<^verbatim>\<open>command.rs\<close>, \<^verbatim>\<open>service.rs\<close>): the data a chain
  starts from, the development and local test networks, how the node finds a specification by its name, and
  which network a specification is for. Modelled is the build with the features of all three runtimes; the
  others do not compile, because \<^verbatim>\<open>load_spec\<close> refers to the development networks of all three. Telemetry is left out.

  Strings are their bytes. Key pairs made from seeds, the WASM binaries, the name of the executable and the
  files of the user are parameters.

  Shown: every specification the node makes itself is recognised as that of its network, and the addresses of
  the node get the format that the specification states.
\<close>

section \<open>Networks\<close>

type_synonym u128 = "128 word"

datatype Chain = Braid | Loom | Weave | Unknown

datatype ChainType = Development | Local | Live

datatype json_value = JString string | JNumber u64

text \<open>\<^verbatim>\<open>Ss58AddressFormatPrefix\<close> and its conversion; the last is for unknown chains.\<close>

fun Ss58AddressFormatPrefix :: "Chain \<Rightarrow> u16" where
  "Ss58AddressFormatPrefix Braid = 3893"
| "Ss58AddressFormatPrefix Loom = 4926"
| "Ss58AddressFormatPrefix Weave = 29"
| "Ss58AddressFormatPrefix Unknown = 42"

definition UNITS :: u128 where "UNITS = 1000000000000"

definition ENDOWMENT :: u128 where "ENDOWMENT = 10000000 * UNITS"

section \<open>Genesis data\<close>

record session_keys =
  babe :: bytes
  grandpa :: bytes
  im_online :: bytes
  authority_discovery :: bytes

type_synonym authority_keys = "account \<times> bytes \<times> bytes \<times> bytes \<times> bytes"

text \<open>The JSON patch of the genesis configuration, with an entry for every pallet it names.\<close>

record genesis_patch =
  balances :: "(account \<times> u128) list"
  permissioned :: bool
  nodes :: "(bytes \<times> account) list"
  members :: "(account \<times> bool) list"
  initialAuthorities :: "account list"
  session_key_list :: "(account \<times> account \<times> session_keys) list"
  epochConfig :: Chain
  councilMembership :: "account list option"
  technicalMembership :: "account list option"
  sudo :: "account option"

record chain_spec =
  spec_name :: string
  spec_id :: string
  spec_type :: ChainType
  spec_genesis :: genesis_patch
  spec_protocol_id :: string
  spec_properties :: "string \<Rightarrow> json_value option"

datatype key_kind = Sr25519 | BabeId | GrandpaId | ImOnlineId | AuthorityDiscoveryId

record node_env =
  wasm_binary :: "Chain \<Rightarrow> bool"
  pair_public :: "key_kind \<Rightarrow> string \<Rightarrow> bytes option"
  into_account_id :: "bytes \<Rightarrow> account"
  exec_name :: "string option"
  from_json_file :: "string \<Rightarrow> (chain_spec, string) result"

definition session_keys_of :: "authority_keys \<Rightarrow> session_keys" where
  "session_keys_of x = (case x of (_, b, g, i, a) \<Rightarrow> \<lparr>babe = b, grandpa = g, im_online = i, authority_discovery = a\<rparr>)"

text \<open>Collecting pairs into a \<^verbatim>\<open>BTreeMap\<close> sorts them and keeps one of each key.\<close>

definition members_map :: "account list \<Rightarrow> (account \<times> bool) list" where
  "members_map ms = map (\<lambda>member. (member, False)) (sort (remdups ms))"

text \<open>The patch of the given network for its first members, nodes, authorities and root key. The specifications of
  test networks take the epoch configuration of Loom for all runtimes.\<close>

definition genesis_for ::
  "Chain \<Rightarrow> Chain \<Rightarrow> account list \<Rightarrow> (bytes \<times> account) list \<Rightarrow> authority_keys list \<Rightarrow> account \<Rightarrow> genesis_patch" where
  "genesis_for chain epoch initial_members initial_well_known_nodes initial_authorities root_key =
     (let accounts = map fst initial_authorities in
      \<lparr>balances = map (\<lambda>k. (fst k, ENDOWMENT)) initial_authorities,
       permissioned = (chain \<noteq> Weave),
       nodes = initial_well_known_nodes,
       members = members_map initial_members,
       initialAuthorities = accounts,
       session_key_list = map (\<lambda>x. (fst x, fst x, session_keys_of x)) initial_authorities,
       epochConfig = epoch,
       councilMembership = (if chain = Loom then Some accounts else None),
       technicalMembership = (if chain = Loom then Some accounts else None),
       sudo = Some root_key\<rparr>)"

section \<open>Keys from seeds\<close>

definition get_from_seed :: "'e node_env_scheme \<Rightarrow> key_kind \<Rightarrow> string \<Rightarrow> (bytes, string) result" where
  "get_from_seed E kind seed = (case pair_public E kind (''//'' @ seed) of Some p \<Rightarrow> Ok p | None \<Rightarrow> Panic)"

definition get_account_id_from_seed :: "'e node_env_scheme \<Rightarrow> string \<Rightarrow> (account, string) result" where
  "get_account_id_from_seed E seed = and_then (get_from_seed E Sr25519 seed) (\<lambda>p. Ok (into_account_id E p))"

definition get_authority_keys :: "'e node_env_scheme \<Rightarrow> string \<Rightarrow> (authority_keys, string) result" where
  "get_authority_keys E seed =
     and_then (get_account_id_from_seed E seed) (\<lambda>account.
     and_then (get_from_seed E BabeId seed) (\<lambda>b.
     and_then (get_from_seed E GrandpaId seed) (\<lambda>g.
     and_then (get_from_seed E ImOnlineId seed) (\<lambda>i.
     and_then (get_from_seed E AuthorityDiscoveryId seed) (\<lambda>a.
     Ok (account, b, g, i, a))))))"

fun each :: "('a \<Rightarrow> ('b, 'e) result) \<Rightarrow> 'a list \<Rightarrow> ('b list, 'e) result" where
  "each f [] = Ok []"
| "each f (x # xs) = and_then (f x) (\<lambda>y. and_then (each f xs) (\<lambda>ys. Ok (y # ys)))"

definition member_accounts :: "'e node_env_scheme \<Rightarrow> (account list, string) result" where
  "member_accounts E = each (get_account_id_from_seed E) [''Alice'', ''Bob'', ''Charlie'']"

definition bytes_of :: "string \<Rightarrow> bytes" where
  "bytes_of s = map of_char s"

definition test_node :: "'e node_env_scheme \<Rightarrow> string \<times> string \<Rightarrow> (bytes \<times> account, string) result" where
  "test_node E x = and_then (get_account_id_from_seed E (snd x)) (\<lambda>a. Ok (bytes_of (fst x), a))"

section \<open>Test networks\<close>

definition development_nodes :: "(string \<times> string) list" where
  "development_nodes = [(''12D3KooWBmAwcd4PJNJvfV89HwE48nwkRmAgo8Vy3uQEyNNHBox2'', ''Alice'')]"

definition local_nodes :: "(string \<times> string) list" where
  "local_nodes = [(''12D3KooWBmAwcd4PJNJvfV89HwE48nwkRmAgo8Vy3uQEyNNHBox2'', ''Alice''),
     (''12D3KooWQYV9dGMFoRzNStwpXztXaBUjtPqi6aU76ZgUriHhKust'', ''Bob''),
     (''12D3KooWJvyP3VJYymTqG7eH4PM5rN4T2agk5cdNCfNymAqwqcvZ'', ''Charlie''),
     (''12D3KooWPHWFrfaJzxPnqnAYAoRUyAHHKqACmEycGTVmeVhQYuZN'', ''Dave'')]"

text \<open>The networks differ only in the patch they make; all take the members from \<open>member_accounts\<close>.\<close>

definition braid_local_genesis ::
  "'e node_env_scheme \<Rightarrow> authority_keys list \<Rightarrow> (bytes \<times> account) list \<Rightarrow> account \<Rightarrow> (genesis_patch, string) result" where
  "braid_local_genesis E initial_authorities initial_well_known_nodes root_key =
     and_then (member_accounts E) (\<lambda>ms. Ok (genesis_for Braid Loom ms initial_well_known_nodes initial_authorities root_key))"

definition loom_local_genesis ::
  "'e node_env_scheme \<Rightarrow> authority_keys list \<Rightarrow> (bytes \<times> account) list \<Rightarrow> account \<Rightarrow> (genesis_patch, string) result" where
  "loom_local_genesis E initial_authorities initial_well_known_nodes root_key =
     and_then (member_accounts E) (\<lambda>ms. Ok (genesis_for Loom Loom ms initial_well_known_nodes initial_authorities root_key))"

definition weave_local_genesis ::
  "'e node_env_scheme \<Rightarrow> authority_keys list \<Rightarrow> (bytes \<times> account) list \<Rightarrow> account \<Rightarrow> (genesis_patch, string) result" where
  "weave_local_genesis E initial_authorities initial_well_known_nodes root_key =
     and_then (member_accounts E) (\<lambda>ms. Ok (genesis_for Weave Loom ms initial_well_known_nodes initial_authorities root_key))"

definition config_genesis ::
  "'e node_env_scheme \<Rightarrow> (authority_keys list \<Rightarrow> (bytes \<times> account) list \<Rightarrow> account \<Rightarrow> (genesis_patch, string) result)
   \<Rightarrow> string list \<Rightarrow> (string \<times> string) list \<Rightarrow> (genesis_patch, string) result" where
  "config_genesis E make_genesis seeds node_list =
     and_then (each (get_authority_keys E) seeds) (\<lambda>initial_authorities.
     and_then (each (test_node E) node_list) (\<lambda>initial_well_known_nodes.
     and_then (get_account_id_from_seed E ''Alice'') (\<lambda>root_key.
     make_genesis initial_authorities initial_well_known_nodes root_key)))"

definition braid_development_config_genesis :: "'e node_env_scheme \<Rightarrow> (genesis_patch, string) result" where
  "braid_development_config_genesis E = config_genesis E (braid_local_genesis E) [''Alice''] development_nodes"

definition braid_local_config_genesis :: "'e node_env_scheme \<Rightarrow> (genesis_patch, string) result" where
  "braid_local_config_genesis E = config_genesis E (braid_local_genesis E) [''Alice'', ''Bob'', ''Charlie''] local_nodes"

definition loom_development_config_genesis :: "'e node_env_scheme \<Rightarrow> (genesis_patch, string) result" where
  "loom_development_config_genesis E = config_genesis E (loom_local_genesis E) [''Alice''] development_nodes"

definition loom_local_config_genesis :: "'e node_env_scheme \<Rightarrow> (genesis_patch, string) result" where
  "loom_local_config_genesis E = config_genesis E (loom_local_genesis E) [''Alice'', ''Bob'', ''Charlie''] local_nodes"

definition weave_development_config_genesis :: "'e node_env_scheme \<Rightarrow> (genesis_patch, string) result" where
  "weave_development_config_genesis E = config_genesis E (weave_local_genesis E) [''Alice''] development_nodes"

definition weave_local_config_genesis :: "'e node_env_scheme \<Rightarrow> (genesis_patch, string) result" where
  "weave_local_config_genesis E = config_genesis E (weave_local_genesis E) [''Alice'', ''Bob'', ''Charlie''] local_nodes"

definition get_properties :: "string \<Rightarrow> u32 \<Rightarrow> u32 \<Rightarrow> string \<Rightarrow> json_value option" where
  "get_properties symbol decimals ss58format =
     [''tokenSymbol'' \<mapsto> JString symbol, ''tokenDecimals'' \<mapsto> JNumber (ucast decimals), ''ss58Format'' \<mapsto> JNumber (ucast ss58format)]"

fun chain_properties :: "Chain \<Rightarrow> string \<Rightarrow> json_value option" where
  "chain_properties Braid = get_properties ''UNITS'' 12 3893"
| "chain_properties Loom = get_properties ''UNITS'' 12 4926"
| "chain_properties Weave = get_properties ''WAY'' 12 29"
| "chain_properties Unknown = Map.empty"

definition DEFAULT_PROTOCOL_ID :: string where "DEFAULT_PROTOCOL_ID = ''cord''"

text \<open>The builder of a specification; it is refused if the WASM binary is missing.\<close>

definition build_spec ::
  "'e node_env_scheme \<Rightarrow> Chain \<Rightarrow> string \<Rightarrow> string \<Rightarrow> string \<Rightarrow> ChainType \<Rightarrow> (genesis_patch, string) result \<Rightarrow> (chain_spec, string) result" where
  "build_spec E chain no_wasm name spec_ident chain_type genesis =
     and_then (ensure (wasm_binary E chain) no_wasm) (\<lambda>_.
     and_then genesis (\<lambda>patch.
     Ok \<lparr>spec_name = name, spec_id = spec_ident, spec_type = chain_type, spec_genesis = patch,
         spec_protocol_id = DEFAULT_PROTOCOL_ID, spec_properties = chain_properties chain\<rparr>))"

definition braid_development_config :: "'e node_env_scheme \<Rightarrow> (chain_spec, string) result" where
  "braid_development_config E = build_spec E Braid ''Braid development wasm not available'' ''Braid Development'' ''braid-dev''
     Development (braid_development_config_genesis E)"

definition braid_local_config :: "'e node_env_scheme \<Rightarrow> (chain_spec, string) result" where
  "braid_local_config E = build_spec E Braid ''Braid wasm not available'' ''Braid Local Testnet'' ''braid-local''
     Local (braid_local_config_genesis E)"

definition loom_development_config :: "'e node_env_scheme \<Rightarrow> (chain_spec, string) result" where
  "loom_development_config E = build_spec E Loom ''Loom development wasm not available'' ''Loom Development'' ''loom-dev''
     Development (loom_development_config_genesis E)"

definition loom_local_config :: "'e node_env_scheme \<Rightarrow> (chain_spec, string) result" where
  "loom_local_config E = build_spec E Loom ''Loom wasm not available'' ''Loom Local Testnet'' ''loom-local''
     Local (loom_local_config_genesis E)"

definition weave_development_config :: "'e node_env_scheme \<Rightarrow> (chain_spec, string) result" where
  "weave_development_config E = build_spec E Weave ''Weave development wasm not available'' ''Weave Development'' ''weave-dev''
     Development (weave_development_config_genesis E)"

definition weave_local_config :: "'e node_env_scheme \<Rightarrow> (chain_spec, string) result" where
  "weave_local_config E = build_spec E Weave ''Weave wasm not available'' ''Weave Local Testnet'' ''weave-local''
     Local (weave_local_config_genesis E)"

section \<open>Which network a specification is for\<close>

definition is_braid :: "chain_spec \<Rightarrow> bool" where "is_braid spec = prefix ''braid'' (spec_id spec)"
definition is_loom :: "chain_spec \<Rightarrow> bool" where "is_loom spec = prefix ''loom'' (spec_id spec)"
definition is_weave :: "chain_spec \<Rightarrow> bool" where "is_weave spec = prefix ''weave'' (spec_id spec)"
definition is_dev :: "chain_spec \<Rightarrow> bool" where "is_dev spec = Sublist.suffix ''dev'' (spec_id spec)"

definition identify_chain :: "chain_spec \<Rightarrow> Chain" where
  "identify_chain spec =
     (if is_braid spec then Braid else if is_loom spec then Loom else if is_weave spec then Weave else Unknown)"

text \<open>\<^verbatim>\<open>as_u64\<close> of a value, and the cast to 16 bits.\<close>

fun as_u64 :: "json_value \<Rightarrow> u64 option" where
  "as_u64 (JNumber n) = Some n"
| "as_u64 (JString s) = None"

definition set_default_ss58_version :: "chain_spec \<Rightarrow> u16" where
  "set_default_ss58_version spec =
     (if is_weave spec then Ss58AddressFormatPrefix Weave
      else if is_loom spec then Ss58AddressFormatPrefix Loom
      else if is_braid spec then Ss58AddressFormatPrefix Braid
      else (case Option.bind (spec_properties spec ''ss58Format'') as_u64 of
              Some v \<Rightarrow> ucast v
            | None \<Rightarrow> Ss58AddressFormatPrefix Unknown))"

definition load_spec :: "'e node_env_scheme \<Rightarrow> string \<Rightarrow> (chain_spec, string) result" where
  "load_spec E incoming_id =
     (let ident =
        (if incoming_id = '''' then
           let n = (case exec_name E of Some n \<Rightarrow> n | None \<Rightarrow> '''') in
           (case find (\<lambda>chain. prefix chain n) [''braid'', ''loom'', ''weave''] of Some c \<Rightarrow> c | None \<Rightarrow> ''loom'')
         else if incoming_id \<in> {''dev-node-braid'', ''dev-node-loom'', ''dev-node-weave''} then ''dev''
         else incoming_id)
      in if ident \<in> {''braid'', ''braid-local''} then braid_local_config E
         else if ident \<in> {''loom'', ''loom-local''} then loom_local_config E
         else if ident \<in> {''weave'', ''weave-local''} then weave_local_config E
         else if ident = ''dev'' then
           (if incoming_id = ''dev-node-braid'' then braid_development_config E
            else if incoming_id = ''dev-node-loom'' then loom_development_config E
            else if incoming_id = ''dev-node-weave'' then weave_development_config E
            else loom_development_config E)
         else and_then (from_json_file E ident) (\<lambda>spec.
              if is_braid spec \<or> is_loom spec \<or> is_weave spec then from_json_file E ident else Ok spec))"

section \<open>Consistency\<close>

text \<open>A specification that says of itself which network it is for, everywhere in the same way.\<close>

definition consistent_spec :: "Chain \<Rightarrow> chain_spec \<Rightarrow> bool" where
  "consistent_spec chain spec \<longleftrightarrow> identify_chain spec = chain \<and>
     (\<exists>v. spec_properties spec ''ss58Format'' = Some (JNumber v) \<and> set_default_ss58_version spec = ucast v \<and> v = ucast (set_default_ss58_version spec)) \<and>
     permissioned (spec_genesis spec) = (chain \<noteq> Weave) \<and>
     (councilMembership (spec_genesis spec) \<noteq> None \<longleftrightarrow> chain = Loom) \<and>
     balances (spec_genesis spec) = map (\<lambda>a. (a, ENDOWMENT)) (initialAuthorities (spec_genesis spec)) \<and>
     sorted (map fst (members (spec_genesis spec))) \<and> distinct (map fst (members (spec_genesis spec)))"

lemma genesis_for_consistent:
  "permissioned (genesis_for chain epoch ms ns au root) = (chain \<noteq> Weave)"
  "councilMembership (genesis_for chain epoch ms ns au root) = (if chain = Loom then Some (map fst au) else None)"
  "balances (genesis_for chain epoch ms ns au root) = map (\<lambda>a. (a, ENDOWMENT)) (initialAuthorities (genesis_for chain epoch ms ns au root))"
  "sorted (map fst (members (genesis_for chain epoch ms ns au root)))" "distinct (map fst (members (genesis_for chain epoch ms ns au root)))"
  by (simp_all add: genesis_for_def Let_def members_map_def comp_def)

definition made_for :: "Chain \<Rightarrow> genesis_patch \<Rightarrow> bool" where
  "made_for chain g \<longleftrightarrow> (\<exists>epoch ms ns au root. g = genesis_for chain epoch ms ns au root)"

lemma build_spec_consistent:
  assumes "build_spec E chain no_wasm name (prefix_name @ rest) ct genesis = Ok spec"
    and "(chain, prefix_name) \<in> {(Braid, ''braid-''), (Loom, ''loom-''), (Weave, ''weave-'')}"
    and "\<And>g. genesis = Ok g \<Longrightarrow> made_for chain g"
  shows "consistent_spec chain spec"
proof -
  from assms(1,3) obtain epoch ms ns au root where spec: "spec_id spec = prefix_name @ rest" "spec_properties spec = chain_properties chain"
    "spec_genesis spec = genesis_for chain epoch ms ns au root"
    by (auto simp: build_spec_def made_for_def)
  then show ?thesis using assms(2)
    by (auto simp: consistent_spec_def identify_chain_def set_default_ss58_version_def is_braid_def is_loom_def is_weave_def
        get_properties_def genesis_for_consistent)
qed

lemma local_genesis_shape:
  "config_genesis E (braid_local_genesis E) seeds ns = Ok g \<Longrightarrow> made_for Braid g"
  "config_genesis E (loom_local_genesis E) seeds ns = Ok g \<Longrightarrow> made_for Loom g"
  "config_genesis E (weave_local_genesis E) seeds ns = Ok g \<Longrightarrow> made_for Weave g"
  by (auto simp: config_genesis_def braid_local_genesis_def loom_local_genesis_def weave_local_genesis_def made_for_def, blast+)

lemmas network_config_defs = braid_development_config_def braid_local_config_def loom_development_config_def loom_local_config_def
  weave_development_config_def weave_local_config_def braid_development_config_genesis_def braid_local_config_genesis_def
  loom_development_config_genesis_def loom_local_config_genesis_def weave_development_config_genesis_def weave_local_config_genesis_def

lemma network_config_consistent:
  "braid_development_config E = Ok spec \<Longrightarrow> consistent_spec Braid spec" "braid_local_config E = Ok spec \<Longrightarrow> consistent_spec Braid spec"
  "loom_development_config E = Ok spec \<Longrightarrow> consistent_spec Loom spec" "loom_local_config E = Ok spec \<Longrightarrow> consistent_spec Loom spec"
  "weave_development_config E = Ok spec \<Longrightarrow> consistent_spec Weave spec" "weave_local_config E = Ok spec \<Longrightarrow> consistent_spec Weave spec"
  using build_spec_consistent [of E Braid _ _ "''braid-''" "''dev''" _ _ spec] build_spec_consistent [of E Braid _ _ "''braid-''" "''local''" _ _ spec]
    build_spec_consistent [of E Loom _ _ "''loom-''" "''dev''" _ _ spec] build_spec_consistent [of E Loom _ _ "''loom-''" "''local''" _ _ spec]
    build_spec_consistent [of E Weave _ _ "''weave-''" "''dev''" _ _ spec] build_spec_consistent [of E Weave _ _ "''weave-''" "''local''" _ _ spec]
  unfolding network_config_defs by (simp_all add: local_genesis_shape)

text \<open>The network a name stands for.\<close>

definition network_names :: "(string \<times> Chain) list" where
  "network_names = [(''braid'', Braid), (''braid-local'', Braid), (''dev-node-braid'', Braid),
     (''loom'', Loom), (''loom-local'', Loom), (''dev-node-loom'', Loom), (''dev'', Loom),
     (''weave'', Weave), (''weave-local'', Weave), (''dev-node-weave'', Weave)]"

text \<open>Without a name the executable decides.\<close>

definition network_of :: "'e node_env_scheme \<Rightarrow> string \<Rightarrow> Chain option" where
  "network_of E ident =
     (if ident \<noteq> '''' then map_of network_names ident
      else let n = (case exec_name E of Some n \<Rightarrow> n | None \<Rightarrow> '''') in
           Some (if prefix ''braid'' n then Braid else if prefix ''loom'' n then Loom else if prefix ''weave'' n then Weave else Loom))"

lemma load_spec_named:
  assumes "(ident, chain) \<in> set network_names" "load_spec E ident = Ok spec"
  shows "consistent_spec chain spec"
  using assms by (auto simp: network_names_def load_spec_def Let_def network_config_consistent)

lemma load_spec_unnamed:
  assumes "load_spec E '''' = Ok spec" "network_of E '''' = Some chain"
  shows "consistent_spec chain spec"
  using assms by (simp add: network_of_def load_spec_def Let_def split: if_splits) (auto simp: network_config_consistent)

section \<open>A small environment\<close>

definition sample_env :: node_env where
  "sample_env = \<lparr>wasm_binary = (\<lambda>_. True), pair_public = (\<lambda>kind s. Some (bytes_of s)), into_account_id = (\<lambda>p. p), exec_name = Some ''weave-node'',
     from_json_file = (\<lambda>_. Err ''no such file'')\<rparr>"

section \<open>Properties\<close>

text \<open>C40: a specification that the node loads by the name of a network, or without a name for the network the executable is
  named after, is that of the network: it is recognised as such, the addresses of the node get the format its
  properties state, and the genesis is permissioned unless the network is Weave, has a council just for Loom, endows every
  authority, and lists its members once and in order.\<close>

theorem loaded_spec_consistent:
  assumes "load_spec E ident = Ok spec" "network_of E ident = Some chain"
  shows "consistent_spec chain spec"
proof (cases "ident = ''''")
  case True
  then show ?thesis using assms load_spec_unnamed by simp
next
  case False
  then have "(ident, chain) \<in> set network_names" using assms(2) by (auto simp: network_of_def intro: map_of_SomeD)
  then show ?thesis by (rule load_spec_named [OF _ assms(1)])
qed

theorem loaded_spec_consistent_witness:
  "\<exists>spec. load_spec sample_env '''' = Ok spec \<and> set_default_ss58_version spec = 29 \<and> \<not> permissioned (spec_genesis spec)"
proof -
  let ?run = "load_spec sample_env ''''"
  obtain spec where run: "?run = Ok spec"
    by (simp add: load_spec_def sample_env_def network_config_defs build_spec_def config_genesis_def weave_local_genesis_def
        member_accounts_def get_authority_keys_def get_account_id_from_seed_def get_from_seed_def test_node_def local_nodes_def Let_def
        cong: and_then_weak_cong)
  have "network_of sample_env '''' = Some Weave" by (simp add: network_of_def sample_env_def)
  from loaded_spec_consistent [OF run this] run show ?thesis
    by (auto simp: consistent_spec_def identify_chain_def set_default_ss58_version_def split: if_splits)
qed

end
