(* ===== verification/Sorted_Search.thy ===== *)
theory Sorted_Search
  imports Frame "HOL-Library.List_Lexorder" "HOL-Library.Multiset"
begin

text \<open>
  Sorted vectors: \<^verbatim>\<open>slice::binary_search\<close> of Rust's standard library, and what clients may rely on as
  the locale \<open>sorted_search\<close>. The search answers \<open>Ok\<close> with a position of the element, or \<open>Err\<close> with the
  position to insert it. The loop halves the range it looks at and so ends.
\<close>

function binary_search_loop :: "'a::linorder list \<Rightarrow> 'a \<Rightarrow> nat \<Rightarrow> nat \<Rightarrow> (nat, nat) result" where
  "binary_search_loop xs x left right =
     (if left < right
      then let mid = left + (right - left) div 2 in
           if xs ! mid < x then binary_search_loop xs x (mid + 1) right
           else if x < xs ! mid then binary_search_loop xs x left mid
           else Ok mid
      else Err left)"
  by pat_completeness auto

termination
  by (relation "measure (\<lambda>(xs, x, left, right). right - left)") auto

declare binary_search_loop.simps [simp del]

definition binary_search :: "'a::linorder list \<Rightarrow> 'a \<Rightarrow> (nat, nat) result" where
  "binary_search xs x = binary_search_loop xs x 0 (length xs)"

definition binary_search_by_key :: "('b \<Rightarrow> 'a::linorder) \<Rightarrow> 'b list \<Rightarrow> 'a \<Rightarrow> (nat, nat) result" where
  "binary_search_by_key f xs x = binary_search (map f xs) x"

text \<open>\<open>BoundedVec::try_insert\<close> fails at the bound; \<^verbatim>\<open>v[i] = x\<close> panics out of range.\<close>

definition vec_try_insert :: "nat \<Rightarrow> nat \<Rightarrow> 'a \<Rightarrow> 'a list \<Rightarrow> ('a list, unit) result" where
  "vec_try_insert bound i x xs =
     (if length xs < bound then (if i \<le> length xs then Ok (take i xs @ x # drop i xs) else Panic) else Err ())"

definition vec_set :: "nat \<Rightarrow> 'a \<Rightarrow> 'a list \<Rightarrow> ('a list, 'e) result" where
  "vec_set i x xs = (if i < length xs then Ok (xs[i := x]) else Panic)"

lemma vec_try_insert_Ok_iff [result_simps]:
  "vec_try_insert bound i x xs = Ok ys \<longleftrightarrow> length xs < bound \<and> i \<le> length xs \<and> ys = take i xs @ x # drop i xs"
  by (auto simp: vec_try_insert_def)

lemma vec_set_Ok_iff [result_simps]: "vec_set i x xs = Ok ys \<longleftrightarrow> i < length xs \<and> ys = xs[i := x]"
  by (auto simp: vec_set_def)

text \<open>\<^verbatim>\<open>.ok()\<close> and \<^verbatim>\<open>.err()\<close> of the answer of a search.\<close>

fun search_ok :: "(nat, nat) result \<Rightarrow> nat option" where
  "search_ok (Ok i) = Some i"
| "search_ok _ = None"

fun search_err :: "(nat, nat) result \<Rightarrow> nat option" where
  "search_err (Err i) = Some i"
| "search_err _ = None"

lemma search_Some_iff [simp]: "search_ok r = Some i \<longleftrightarrow> r = Ok i" "search_err r = Some i \<longleftrightarrow> r = Err i"
  by (cases r; auto)+

section \<open>What a search promises\<close>

locale sorted_search =
  fixes search :: "'a::linorder list \<Rightarrow> 'a \<Rightarrow> (nat, nat) result"
  assumes found: "sorted xs \<Longrightarrow> search xs x = Ok i \<Longrightarrow> i < length xs \<and> xs ! i = x"
    and missing: "sorted xs \<Longrightarrow> search xs x = Err i \<Longrightarrow>
      i \<le> length xs \<and> (\<forall>y \<in> set (take i xs). y < x) \<and> (\<forall>y \<in> set (drop i xs). x < y)"
    and answers: "search xs x \<noteq> Panic"
begin

lemma missing_absent:
  assumes "sorted xs" "search xs x = Err i"
  shows "x \<notin> set xs"
proof -
  have "set xs = set (take i xs) \<union> set (drop i xs)" by (metis append_take_drop_id set_append)
  then show ?thesis using missing [OF assms] by auto
qed

lemma found_iff: "sorted xs \<Longrightarrow> (\<exists>i. search xs x = Ok i) \<longleftrightarrow> x \<in> set xs"
  using found [of xs x] missing_absent [of xs x] answers [of xs x] by (cases "search xs x") auto

lemma missing_iff: "sorted xs \<Longrightarrow> (\<exists>i. search xs x = Err i) \<longleftrightarrow> x \<notin> set xs"
  using found_iff [of xs x] answers [of xs x] by (cases "search xs x") auto

text \<open>Inserting at the position of a failed search.\<close>

lemma insert_sorted:
  assumes "sorted xs" "search xs x = Err i"
  shows "sorted (take i xs @ x # drop i xs)" "set (take i xs @ x # drop i xs) = insert x (set xs)"
    "distinct (take i xs @ x # drop i xs) \<longleftrightarrow> distinct xs" "length (take i xs @ x # drop i xs) = Suc (length xs)"
proof -
  note m = missing [OF assms]
  have parts: "set xs = set (take i xs) \<union> set (drop i xs)" by (metis append_take_drop_id set_append)
  have srt: "sorted (take i xs)" "sorted (drop i xs)" using assms(1) by (simp_all add: sorted_wrt_take sorted_wrt_drop)
  show "sorted (take i xs @ x # drop i xs)"
    using m srt by (simp add: sorted_append ball_Un) (meson less_imp_le order_less_trans)
  show "set (take i xs @ x # drop i xs) = insert x (set xs)" using parts by simp
  have "distinct xs \<longleftrightarrow> distinct (take i xs) \<and> distinct (drop i xs) \<and> set (take i xs) \<inter> set (drop i xs) = {}"
    by (simp only: distinct_append [symmetric] append_take_drop_id)
  moreover have "x \<notin> set (take i xs)" "x \<notin> set (drop i xs)" using m by auto
  ultimately show "distinct (take i xs @ x # drop i xs) \<longleftrightarrow> distinct xs"
    unfolding distinct_append distinct.simps list.set by blast
  show "length (take i xs @ x # drop i xs) = Suc (length xs)" using m by simp
qed

text \<open>Removing at the position of a successful search.\<close>

lemma remove_sorted:
  assumes "sorted xs" "search xs x = Ok i"
  shows "sorted (take i xs @ drop (Suc i) xs)" "mset (take i xs @ drop (Suc i) xs) = mset xs - {#x#}"
proof -
  have xs: "xs = take i xs @ x # drop (Suc i) xs" using found [OF assms] id_take_nth_drop [of i xs] by simp
  have "sorted (take i xs @ x # drop (Suc i) xs)" using assms(1) xs by simp
  then show "sorted (take i xs @ drop (Suc i) xs)" unfolding sorted_append by auto
  have "mset xs = mset (take i xs) + {#x#} + mset (drop (Suc i) xs)" by (subst xs) simp
  then show "mset (take i xs @ drop (Suc i) xs) = mset xs - {#x#}" by simp
qed

end

section \<open>The search of the standard library\<close>

lemma binary_search_loop_spec:
  assumes "sorted xs" "left \<le> right" "right \<le> length xs"
    and "\<forall>y \<in> set (take left xs). y < x" "\<forall>y \<in> set (drop right xs). x < y"
  shows "case binary_search_loop xs x left right of
      Ok i \<Rightarrow> i < length xs \<and> xs ! i = x
    | Err i \<Rightarrow> i \<le> length xs \<and> (\<forall>y \<in> set (take i xs). y < x) \<and> (\<forall>y \<in> set (drop i xs). x < y)
    | Panic \<Rightarrow> False"
  using assms
proof (induction xs x left right rule: binary_search_loop.induct)
  case (1 xs x left right)
  show ?case
  proof (cases "left < right")
    case True
    define mid where "mid = left + (right - left) div 2"
    have mid: "left \<le> mid" "mid < right" "mid < length xs" using True 1(5) by (auto simp: mid_def)
    note IH = 1(1,2) [OF True mid_def]
    consider "xs ! mid < x" | "x < xs ! mid" | "xs ! mid = x" using less_linear by blast
    then show ?thesis
    proof cases
      case 1
      have "y < x" if "y \<in> set (take (mid + 1) xs)" for y
      proof -
        from that obtain j where "j < mid + 1" "j < length xs" "y = xs ! j" by (auto simp: in_set_conv_nth)
        then show ?thesis using sorted_nth_mono [OF \<open>sorted xs\<close>, of j mid] mid(3) 1 by simp
      qed
      then show ?thesis using IH(1) [OF 1] "1.prems" mid 1 True
        by (subst binary_search_loop.simps) (simp add: Let_def mid_def [symmetric])
    next
      case 2
      have "x < y" if "y \<in> set (drop mid xs)" for y
      proof -
        from that obtain j where "j < length (drop mid xs)" "y = drop mid xs ! j" by (metis in_set_conv_nth)
        then have "mid + j < length xs" "y = xs ! (mid + j)" using mid(3) by auto
        then show ?thesis using sorted_nth_mono [OF \<open>sorted xs\<close>, of mid "mid + j"] 2 by simp
      qed
      moreover have n: "\<not> xs ! mid < x" using 2 by simp
      ultimately show ?thesis using IH(2) [OF n 2] "1.prems" mid 2 True
        by (subst binary_search_loop.simps) (simp add: Let_def mid_def [symmetric] n)
    next
      case 3
      then show ?thesis using True mid(3)
        by (subst binary_search_loop.simps) (simp add: Let_def mid_def [symmetric])
    qed
  next
    case False
    then show ?thesis using "1.prems" by (subst binary_search_loop.simps) simp
  qed
qed

lemma binary_search_not_Panic: "binary_search_loop xs x left right \<noteq> Panic"
  by (induction xs x left right rule: binary_search_loop.induct) (subst binary_search_loop.simps, simp add: Let_def)

interpretation vec_search: sorted_search binary_search
proof unfold_locales
  fix xs :: "'a::linorder list" and x i
  note spec = binary_search_loop_spec [of xs 0 "length xs" x]
  show "sorted xs \<Longrightarrow> binary_search xs x = Ok i \<Longrightarrow> i < length xs \<and> xs ! i = x"
    using spec by (simp add: binary_search_def)
  show "sorted xs \<Longrightarrow> binary_search xs x = Err i \<Longrightarrow>
      i \<le> length xs \<and> (\<forall>y \<in> set (take i xs). y < x) \<and> (\<forall>y \<in> set (drop i xs). x < y)"
    using spec by (simp add: binary_search_def)
  show "binary_search xs x \<noteq> Panic" by (simp add: binary_search_def binary_search_not_Panic)
qed

end
