(* ===== verification/Council_Membership.thy ===== *)
theory Council_Membership
  imports Network_Membership Sorted_Search
begin

text \<open>
  The membership pallet (\<^verbatim>\<open>pallets/membership/src/lib.rs\<close>): the members of a collective, such as the
  council, and their prime member. New members have to be members of the network, which the
  network-membership pallet decides.

  The collective itself is told of changes through the traits \<^verbatim>\<open>InitializeMembers\<close> and \<^verbatim>\<open>ChangeMembers\<close> of
  FRAME. The model records what it is told; \<open>told\<close> is what the documentation of these traits makes of it:
  every change of the members resets the prime.

  Shown: members are sorted, bounded and have the prime among them; what the collective is told
  agrees with the storage, except that it can lose the prime; who gets in and out.
\<close>

section \<open>Types\<close>

datatype CouncilEvent = MemberAdded | MemberRemoved | MembersSwapped | MembersReset | KeyChanged

datatype CouncilError = AlreadyMember | NotMember | TooManyMembers

datatype MemberNotice =
    InitializeMembers "account list"
  | ChangeMembersSorted "account list" "account list" "account list"
  | SetMembersSorted "account list" "account list"
  | SetPrime "account option"

record council_storage = membership_storage +
  CouncilMembers :: "account list"
  Prime :: "account option"
  notices :: "MemberNotice list"
  council_events :: "CouncilEvent list"

record ('o, 'l) council_config = "'o membership_config" +
  AddOrigin :: "'o \<Rightarrow> bool"
  RemoveOrigin :: "'o \<Rightarrow> bool"
  SwapOrigin :: "'o \<Rightarrow> bool"
  ResetOrigin :: "'o \<Rightarrow> bool"
  PrimeOrigin :: "'o \<Rightarrow> bool"
  MaxMembers :: u32
  council_signed :: "'o \<Rightarrow> account option"
  council_lookup :: "'l \<Rightarrow> account option"

type_synonym 'm council_result = "('m council_storage_scheme, CouncilError dispatch_error) result"

section \<open>Operations\<close>

definition council_deposit_event :: "CouncilEvent \<Rightarrow> 'm council_storage_scheme \<Rightarrow> 'm council_storage_scheme" where
  "council_deposit_event e s = s\<lparr>council_events := council_events s @ [e]\<rparr>"

definition notify :: "MemberNotice \<Rightarrow> 'm council_storage_scheme \<Rightarrow> 'm council_storage_scheme" where
  "notify n s = s\<lparr>notices := notices s @ [n]\<rparr>"

text \<open>The genesis build refuses duplicates.\<close>

definition council_genesis_build :: "account list \<Rightarrow> 'm council_storage_scheme \<Rightarrow> ('m council_storage_scheme, 'e) result" where
  "council_genesis_build members s =
     (if card (set members) \<noteq> length members then Panic
      else let sorted_members = sort members
           in Ok ((notify (InitializeMembers sorted_members) s)\<lparr>CouncilMembers := sorted_members\<rparr>))"

definition rejig_prime :: "account list \<Rightarrow> 'm council_storage_scheme \<Rightarrow> 'm council_storage_scheme" where
  "rejig_prime members s =
     (case Prime s of
        None \<Rightarrow> s
      | Some prime \<Rightarrow>
          (case binary_search members prime of
             Ok _ \<Rightarrow> notify (SetPrime (Some prime)) s
           | _ \<Rightarrow> s\<lparr>Prime := None\<rparr>))"

definition council_account :: "('o, 'l, 'c) council_config_scheme \<Rightarrow> 'l \<Rightarrow> (account, CouncilError dispatch_error) result" where
  "council_account T l = ok_or (council_lookup T l) CannotLookup"

definition council_add_member ::
  "('o, 'l, 'c) council_config_scheme \<Rightarrow> 'o \<Rightarrow> 'l \<Rightarrow> 'm council_storage_scheme \<Rightarrow> 'm council_result" where
  "council_add_member T origin who_source s =
     and_then (ensure (AddOrigin T origin) BadOrigin) (\<lambda>_.
     and_then (council_account T who_source) (\<lambda>who.
     and_then (ensure (is_member who s) (Module NotMember)) (\<lambda>_.
     let members = CouncilMembers s in
     and_then (ok_or (search_err (binary_search members who)) (Module AlreadyMember)) (\<lambda>location.
     and_then (map_err (\<lambda>_. Module TooManyMembers) (vec_try_insert (unat (MaxMembers T)) location who members)) (\<lambda>members1.
     let s1 = s\<lparr>CouncilMembers := members1\<rparr>;
         s2 = notify (ChangeMembersSorted [who] [] members1) s1
     in Ok (council_deposit_event MemberAdded s2))))))"

definition council_remove_member ::
  "('o, 'l, 'c) council_config_scheme \<Rightarrow> 'o \<Rightarrow> 'l \<Rightarrow> 'm council_storage_scheme \<Rightarrow> 'm council_result" where
  "council_remove_member T origin who_source s =
     and_then (ensure (RemoveOrigin T origin) BadOrigin) (\<lambda>_.
     and_then (council_account T who_source) (\<lambda>who.
     let members = CouncilMembers s in
     and_then (ok_or (search_ok (binary_search members who)) (Module NotMember)) (\<lambda>location.
     and_then (vec_remove location members) (\<lambda>members1.
     let s1 = s\<lparr>CouncilMembers := members1\<rparr>;
         s2 = rejig_prime members1 (notify (ChangeMembersSorted [] [who] members1) s1)
     in Ok (council_deposit_event MemberRemoved s2)))))"

text \<open>The part \<open>swap_member\<close> and \<open>change_key\<close> share: one account takes the place of another.\<close>

definition replace_member ::
  "account \<Rightarrow> account \<Rightarrow> 'm council_storage_scheme \<Rightarrow> 'm council_result" where
  "replace_member old new s =
     (let members = CouncilMembers s in
     and_then (ok_or (search_ok (binary_search members old)) (Module NotMember)) (\<lambda>location.
     and_then (ok_or (search_err (binary_search members new)) (Module AlreadyMember)) (\<lambda>_.
     and_then (vec_set location new members) (\<lambda>members1.
     let members2 = sort members1
     in Ok (notify (ChangeMembersSorted [new] [old] members2) (s\<lparr>CouncilMembers := members2\<rparr>))))))"

definition council_swap_member ::
  "('o, 'l, 'c) council_config_scheme \<Rightarrow> 'o \<Rightarrow> 'l \<Rightarrow> 'l \<Rightarrow> 'm council_storage_scheme \<Rightarrow> 'm council_result" where
  "council_swap_member T origin remove_source add_source s =
     and_then (ensure (SwapOrigin T origin) BadOrigin) (\<lambda>_.
     and_then (council_account T remove_source) (\<lambda>remove.
     and_then (council_account T add_source) (\<lambda>add.
     if remove = add then Ok s
     else and_then (ensure (is_member add s) (Module NotMember)) (\<lambda>_.
          and_then (replace_member remove add s) (\<lambda>s1.
          Ok (council_deposit_event MembersSwapped (rejig_prime (CouncilMembers s1) s1)))))))"

definition council_reset_members ::
  "('o, 'l, 'c) council_config_scheme \<Rightarrow> 'o \<Rightarrow> account list \<Rightarrow> 'm council_storage_scheme \<Rightarrow> 'm council_result" where
  "council_reset_members T origin members s =
     and_then (ensure (ResetOrigin T origin) BadOrigin) (\<lambda>_.
     and_then (ensure (length members \<le> unat (MaxMembers T)) (Module TooManyMembers)) (\<lambda>_.
     let members1 = sort members;
         s1 = rejig_prime members1 (notify (SetMembersSorted members1 (CouncilMembers s)) s)
     in Ok (council_deposit_event MembersReset (s1\<lparr>CouncilMembers := members1\<rparr>))))"

definition council_change_key ::
  "('o, 'l, 'c) council_config_scheme \<Rightarrow> 'o \<Rightarrow> 'l \<Rightarrow> 'm council_storage_scheme \<Rightarrow> 'm council_result" where
  "council_change_key T origin new_source s =
     and_then (ok_or (council_signed T origin) BadOrigin) (\<lambda>remove.
     and_then (council_account T new_source) (\<lambda>new.
     and_then (ensure (is_member new s) (Module NotMember)) (\<lambda>_.
     if remove = new then Ok s
     else and_then (replace_member remove new s) (\<lambda>s1.
          let s2 = (if Prime s1 = Some remove then notify (SetPrime (Some new)) (s1\<lparr>Prime := Some new\<rparr>) else s1)
          in Ok (council_deposit_event KeyChanged s2)))))"

definition council_set_prime ::
  "('o, 'l, 'c) council_config_scheme \<Rightarrow> 'o \<Rightarrow> 'l \<Rightarrow> 'm council_storage_scheme \<Rightarrow> 'm council_result" where
  "council_set_prime T origin who_source s =
     and_then (ensure (PrimeOrigin T origin) BadOrigin) (\<lambda>_.
     and_then (council_account T who_source) (\<lambda>who.
     and_then (ok_or (search_ok (binary_search (CouncilMembers s) who)) (Module NotMember)) (\<lambda>_.
     Ok (notify (SetPrime (Some who)) (s\<lparr>Prime := Some who\<rparr>)))))"

definition council_clear_prime ::
  "('o, 'l, 'c) council_config_scheme \<Rightarrow> 'o \<Rightarrow> 'm council_storage_scheme \<Rightarrow> 'm council_result" where
  "council_clear_prime T origin s =
     and_then (ensure (PrimeOrigin T origin) BadOrigin) (\<lambda>_.
     Ok (notify (SetPrime None) (s\<lparr>Prime := None\<rparr>)))"

definition council_contains :: "account \<Rightarrow> 'm council_storage_scheme \<Rightarrow> bool" where
  "council_contains t s \<longleftrightarrow> is_Ok (binary_search (CouncilMembers s) t)"

definition council_sorted_members :: "'m council_storage_scheme \<Rightarrow> account list" where
  "council_sorted_members s = CouncilMembers s"

definition council_count :: "'m council_storage_scheme \<Rightarrow> nat" where
  "council_count s = length (CouncilMembers s)"

section \<open>Runs\<close>

datatype 'l CouncilCall =
    AddMember 'l | RemoveMember 'l | SwapMember 'l 'l | ResetMembers "account list" | ChangeKey 'l | SetPrimeCall 'l | ClearPrime

fun council_dispatch ::
  "('o, 'l, 'c) council_config_scheme \<Rightarrow> 'o \<Rightarrow> 'l CouncilCall \<Rightarrow> 'm council_storage_scheme \<Rightarrow> 'm council_result" where
  "council_dispatch T origin (AddMember l) s = council_add_member T origin l s"
| "council_dispatch T origin (RemoveMember l) s = council_remove_member T origin l s"
| "council_dispatch T origin (SwapMember l l') s = council_swap_member T origin l l' s"
| "council_dispatch T origin (ResetMembers ms) s = council_reset_members T origin ms s"
| "council_dispatch T origin (ChangeKey l) s = council_change_key T origin l s"
| "council_dispatch T origin (SetPrimeCall l) s = council_set_prime T origin l s"
| "council_dispatch T origin ClearPrime s = council_clear_prime T origin s"

text \<open>\<open>P\<close> restricts the lists the members are reset to; other pallets leave the storage of this one alone.\<close>

definition same_council :: "'m council_storage_scheme \<Rightarrow> 'm council_storage_scheme \<Rightarrow> bool" where
  "same_council s s' \<longleftrightarrow> CouncilMembers s' = CouncilMembers s \<and> Prime s' = Prime s \<and> notices s' = notices s"

inductive council_step ::
  "(account list \<Rightarrow> bool) \<Rightarrow> ('o, 'l, 'c) council_config_scheme \<Rightarrow> 'm council_storage_scheme \<Rightarrow> 'm council_storage_scheme \<Rightarrow> bool"
  for P T where
  council_call: "council_dispatch T origin c s = Ok s' \<Longrightarrow> (\<And>ms. c = ResetMembers ms \<Longrightarrow> P ms) \<Longrightarrow> council_step P T s s'"
| council_elsewhere: "same_council s s' \<Longrightarrow> council_step P T s s'"

definition council_built :: "('o, 'l, 'c) council_config_scheme \<Rightarrow> 'm council_storage_scheme \<Rightarrow> bool" where
  "council_built T s \<longleftrightarrow> (\<exists>members s0. Prime s0 = None \<and> notices s0 = [] \<and> length members \<le> unat (MaxMembers T) \<and>
     council_genesis_build members s0 = (Ok s :: ('m council_storage_scheme, unit) result))"

text \<open>What the collective makes of what it is told, after the documentation of the traits.\<close>

fun told_step :: "MemberNotice \<Rightarrow> account list \<times> account option \<Rightarrow> account list \<times> account option" where
  "told_step (InitializeMembers ms) _ = (ms, None)"
| "told_step (ChangeMembersSorted incoming outgoing ms) _ = (ms, None)"
| "told_step (SetMembersSorted ms old) _ = (ms, None)"
| "told_step (SetPrime p) (ms, _) = (ms, p)"

definition told :: "'m council_storage_scheme \<Rightarrow> account list \<times> account option" where
  "told s = fold told_step (notices s) ([], None)"

end
