(* ===== verification/Council_Properties.thy ===== *)
theory Council_Properties
  imports Council_Membership
begin

text \<open>Properties of the membership pallet: well-formed members, agreement with the collective, admission and removal.\<close>

section \<open>What the calls change\<close>

lemma council_frame [simp]:
  "CouncilMembers (council_deposit_event e s) = CouncilMembers s" "Prime (council_deposit_event e s) = Prime s"
  "notices (council_deposit_event e s) = notices s" "CouncilMembers (notify n s) = CouncilMembers s" "Prime (notify n s) = Prime s"
  "notices (notify n s) = notices s @ [n]" "told (council_deposit_event e s) = told s" "told (notify n s) = told_step n (told s)"
  "told (s\<lparr>CouncilMembers := ms\<rparr>) = told s" "told (s\<lparr>Prime := p\<rparr>) = told s"
  by (simp_all add: council_deposit_event_def notify_def told_def)

lemma rejig_prime_frame:
  assumes "sorted ms" "told s = (ms, None)"
  shows "CouncilMembers (rejig_prime ms s) = CouncilMembers s"
    "Prime (rejig_prime ms s) = (case Prime s of Some p \<Rightarrow> if p \<in> set ms then Some p else None | None \<Rightarrow> None)"
    "told (rejig_prime ms s) = (ms, Prime (rejig_prime ms s))"
proof -
  have "is_Ok (binary_search ms p) \<longleftrightarrow> p \<in> set ms" for p
    using vec_search.found_iff [OF assms(1), of p] by (cases "binary_search ms p") auto
  then show "CouncilMembers (rejig_prime ms s) = CouncilMembers s"
    "Prime (rejig_prime ms s) = (case Prime s of Some p \<Rightarrow> if p \<in> set ms then Some p else None | None \<Rightarrow> None)"
    "told (rejig_prime ms s) = (ms, Prime (rejig_prime ms s))"
    using assms(2) by (auto simp: rejig_prime_def split: option.splits result.splits) force+
qed

lemma removed_members: "CouncilMembers (rejig_prime ms s) = CouncilMembers s"
  by (simp add: rejig_prime_def split: option.splits result.splits)

text \<open>
  A call that goes through leaves the members alone, admits one, dismisses one, replaces one by another, or
  resets them. The collective is told the new members, and the prime is one of them.
\<close>

definition council_wf :: "('o, 'l, 'c) council_config_scheme \<Rightarrow> 'm council_storage_scheme \<Rightarrow> bool" where
  "council_wf T s \<longleftrightarrow> sorted (CouncilMembers s) \<and> length (CouncilMembers s) \<le> unat (MaxMembers T) \<and>
     (\<forall>p. Prime s = Some p \<longrightarrow> p \<in> set (CouncilMembers s)) \<and>
     fst (told s) = CouncilMembers s \<and> (\<forall>p. snd (told s) = Some p \<longrightarrow> Prime s = Some p)"

inductive council_effect ::
  "('o, 'l, 'c) council_config_scheme \<Rightarrow> 'o \<Rightarrow> 'l CouncilCall \<Rightarrow> 'm council_storage_scheme \<Rightarrow> account list \<Rightarrow> bool" for T origin c s where
  unchanged: "council_effect T origin c s (CouncilMembers s)"
| admitted: "AddOrigin T origin \<Longrightarrow> is_member who s \<Longrightarrow> who \<notin> set (CouncilMembers s) \<Longrightarrow>
    length (CouncilMembers s) < unat (MaxMembers T) \<Longrightarrow> mset ms = add_mset who (mset (CouncilMembers s)) \<Longrightarrow> sorted ms \<Longrightarrow>
    council_effect T origin c s ms"
| dismissed: "RemoveOrigin T origin \<Longrightarrow> who \<in> set (CouncilMembers s) \<Longrightarrow> c = RemoveMember l \<Longrightarrow> council_lookup T l = Some who \<Longrightarrow>
    mset ms = mset (CouncilMembers s) - {#who#} \<Longrightarrow> sorted ms \<Longrightarrow> council_effect T origin c s ms"
| replaced: "SwapOrigin T origin \<or> council_signed T origin = Some old \<Longrightarrow> old \<in> set (CouncilMembers s) \<Longrightarrow>
    new \<notin> set (CouncilMembers s) \<Longrightarrow> is_member new s \<Longrightarrow> mset ms = add_mset new (mset (CouncilMembers s) - {#old#}) \<Longrightarrow> sorted ms \<Longrightarrow>
    council_effect T origin c s ms"
| reset: "ResetOrigin T origin \<Longrightarrow> c = ResetMembers ls \<Longrightarrow> length ls \<le> unat (MaxMembers T) \<Longrightarrow> council_effect T origin c s (sort ls)"

text \<open>The state after the call: members \<open>ms\<close>, told to the collective, with a prime among them.\<close>

definition council_after :: "account list \<Rightarrow> 'm council_storage_scheme \<Rightarrow> bool" where
  "council_after ms s' \<longleftrightarrow> CouncilMembers s' = ms \<and> fst (told s') = ms \<and> (\<forall>p. Prime s' = Some p \<longrightarrow> p \<in> set ms) \<and>
     (\<forall>p. snd (told s') = Some p \<longrightarrow> Prime s' = Some p)"

lemma council_after_rejig:
  assumes "sorted ms" "told s = (ms, None)" "CouncilMembers s' = ms" "Prime s' = Prime (rejig_prime ms s)" "told s' = told (rejig_prime ms s)"
  shows "council_after ms s'"
  using rejig_prime_frame [OF assms(1,2)] assms(3-5) by (auto simp: council_after_def split: option.splits if_splits)

lemma add_effect:
  assumes "council_add_member T origin l s = Ok s'" "council_wf T s"
  shows "\<exists>ms. council_effect T origin c s ms \<and> council_after ms s'"
proof -
  let ?xs = "CouncilMembers s"
  from assms(1) obtain who i where ok: "AddOrigin T origin" "is_member who s" "binary_search ?xs who = Err i"
    "length ?xs < unat (MaxMembers T)"
    "s' = council_deposit_event MemberAdded (notify (ChangeMembersSorted [who] [] (take i ?xs @ who # drop i ?xs))
       (s\<lparr>CouncilMembers := take i ?xs @ who # drop i ?xs\<rparr>))"
    by (auto simp: council_add_member_def Let_def vec_try_insert_Ok_iff)
  let ?ms = "take i ?xs @ who # drop i ?xs"
  have srt: "sorted ?xs" using assms(2) by (simp add: council_wf_def)
  note ins = vec_search.insert_sorted [OF srt ok(3)]
  have "mset ?ms = add_mset who (mset (take i ?xs @ drop i ?xs))" by (simp del: append_take_drop_id)
  then have "mset ?ms = add_mset who (mset ?xs)" by simp
  then have "council_effect T origin c s ?ms"
    using vec_search.missing_absent [OF srt ok(3)] ins(1) ok(1,2,4) by (intro admitted [of T origin who s])
  moreover have "council_after ?ms s'" using assms(2) ins(2) by (auto simp: ok(5) council_after_def council_wf_def)
  ultimately show ?thesis by blast
qed

lemma remove_effect:
  assumes "council_remove_member T origin l s = Ok s'" "council_wf T s"
  shows "\<exists>ms. council_effect T origin (RemoveMember l) s ms \<and> council_after ms s'"
proof -
  let ?xs = "CouncilMembers s"
  from assms(1) obtain who i where ok: "RemoveOrigin T origin" "council_lookup T l = Some who" "binary_search ?xs who = Ok i"
    "s' = council_deposit_event MemberRemoved (rejig_prime (take i ?xs @ drop (Suc i) ?xs)
       (notify (ChangeMembersSorted [] [who] (take i ?xs @ drop (Suc i) ?xs)) (s\<lparr>CouncilMembers := take i ?xs @ drop (Suc i) ?xs\<rparr>)))"
    by (auto simp: council_remove_member_def council_account_def Let_def vec_remove_Ok_iff)
  let ?ms = "take i ?xs @ drop (Suc i) ?xs"
  have srt: "sorted ?xs" using assms(2) by (simp add: council_wf_def)
  note rem = vec_search.remove_sorted [OF srt ok(3)]
  have "who \<in> set ?xs" using vec_search.found_iff [OF srt] ok(3) by blast
  then have "council_effect T origin (RemoveMember l) s ?ms" using ok(1,2) rem by (intro dismissed [of T origin who s]) simp_all
  moreover have "council_after ?ms s'"
    by (rule council_after_rejig [OF rem(1), of "notify (ChangeMembersSorted [] [who] ?ms) (s\<lparr>CouncilMembers := ?ms\<rparr>)"])
      (simp_all add: ok(4) rejig_prime_frame(1) [OF rem(1)])
  ultimately show ?thesis by blast
qed

lemma replace_member_OkE:
  assumes "replace_member old new s = Ok s1" "council_wf T s"
  obtains ms where "old \<in> set (CouncilMembers s)" "new \<notin> set (CouncilMembers s)" "sorted ms"
    "mset ms = add_mset new (mset (CouncilMembers s) - {#old#})" "CouncilMembers s1 = ms" "Prime s1 = Prime s" "told s1 = (ms, None)"
proof -
  let ?xs = "CouncilMembers s"
  from assms(1) obtain i j where ok: "binary_search ?xs old = Ok i" "binary_search ?xs new = Err j" "i < length ?xs"
    "s1 = notify (ChangeMembersSorted [new] [old] (sort (?xs[i := new]))) (s\<lparr>CouncilMembers := sort (?xs[i := new])\<rparr>)"
    by (auto simp: replace_member_def Let_def vec_set_Ok_iff)
  have srt: "sorted ?xs" using assms(2) by (simp add: council_wf_def)
  have "?xs ! i = old" using vec_search.found [OF srt ok(1)] by simp
  then have "mset (sort (?xs[i := new])) = add_mset new (mset ?xs - {#old#})" using ok(3) by (simp add: mset_update)
  moreover have "old \<in> set ?xs" "new \<notin> set ?xs"
    using vec_search.found_iff [OF srt] vec_search.missing_absent [OF srt ok(2)] ok(1) by blast+
  ultimately show thesis by (intro that [of "sort (?xs[i := new])"]) (simp_all add: ok(4))
qed

lemma swap_effect:
  assumes "council_swap_member T origin l l' s = Ok s'" "council_wf T s"
  shows "\<exists>ms. council_effect T origin c s ms \<and> council_after ms s'"
proof (cases "s' = s")
  case True
  with assms(2) show ?thesis by (auto simp: council_after_def council_wf_def intro: unchanged)
next
  case False
  with assms(1) obtain old new s1 where ok: "SwapOrigin T origin" "is_member new s" "replace_member old new s = Ok s1"
    "s' = council_deposit_event MembersSwapped (rejig_prime (CouncilMembers s1) s1)"
    by (auto simp: council_swap_member_def split: if_splits)
  from replace_member_OkE [OF ok(3) assms(2)] obtain ms where ms: "old \<in> set (CouncilMembers s)" "new \<notin> set (CouncilMembers s)"
    "sorted ms" "mset ms = add_mset new (mset (CouncilMembers s) - {#old#})" "CouncilMembers s1 = ms" "told s1 = (ms, None)" by metis
  have "council_effect T origin c s ms" by (rule replaced [OF _ ms(1,2) ok(2) ms(4,3)]) (simp add: ok(1))
  moreover have "council_after ms s'"
    by (rule council_after_rejig [OF ms(3,6)]) (simp_all add: ok(4) ms(5) rejig_prime_frame(1) [OF ms(3,6)])
  ultimately show ?thesis by blast
qed

lemma change_key_effect:
  assumes "council_change_key T origin l s = Ok s'" "council_wf T s"
  shows "\<exists>ms. council_effect T origin c s ms \<and> council_after ms s'"
proof (cases "s' = s")
  case True
  with assms(2) show ?thesis by (auto simp: council_after_def council_wf_def intro: unchanged)
next
  case False
  with assms(1) obtain old new s1 where ok: "council_signed T origin = Some old" "is_member new s" "replace_member old new s = Ok s1"
    "s' = council_deposit_event KeyChanged (if Prime s1 = Some old then notify (SetPrime (Some new)) (s1\<lparr>Prime := Some new\<rparr>) else s1)"
    by (auto simp: council_change_key_def Let_def split: if_splits)
  from replace_member_OkE [OF ok(3) assms(2)] obtain ms where ms: "old \<in> set (CouncilMembers s)" "new \<notin> set (CouncilMembers s)"
    "sorted ms" "mset ms = add_mset new (mset (CouncilMembers s) - {#old#})" "CouncilMembers s1 = ms" "Prime s1 = Prime s" "told s1 = (ms, None)" by metis
  have "council_effect T origin c s ms" by (rule replaced [OF _ ms(1,2) ok(2) ms(4,3)]) (simp add: ok(1))
  moreover have "set ms = set_mset (add_mset new (mset (CouncilMembers s) - {#old#}))" using ms(4) by (metis set_mset_mset)
  then have "new \<in> set ms \<and> (\<forall>p \<in> set (CouncilMembers s). p \<noteq> old \<longrightarrow> p \<in> set ms)"
    by (auto simp: in_diff_count)
  then have "council_after ms s'" using assms(2) ms(4-7) by (auto simp: ok(4) council_after_def council_wf_def)
  ultimately show ?thesis by blast
qed

lemma council_dispatch_effect:
  assumes "council_dispatch T origin c s = Ok s'" "council_wf T s"
  shows "\<exists>ms. council_effect T origin c s ms \<and> council_after ms s'"
proof (cases c)
  case (ResetMembers ls)
  let ?s = "notify (SetMembersSorted (sort ls) (CouncilMembers s)) s"
  from assms(1) ResetMembers have ok: "ResetOrigin T origin" "length ls \<le> unat (MaxMembers T)"
    "s' = council_deposit_event MembersReset ((rejig_prime (sort ls) ?s)\<lparr>CouncilMembers := sort ls\<rparr>)"
    by (simp_all add: council_reset_members_def Let_def)
  have "council_after (sort ls) s'" by (rule council_after_rejig [of _ ?s]) (simp_all add: ok(3))
  then show ?thesis using reset [OF ok(1) ResetMembers ok(2)] by blast
next
  case (SetPrimeCall l)
  from assms(1) SetPrimeCall obtain who i where ok: "binary_search (CouncilMembers s) who = Ok i"
    "s' = notify (SetPrime (Some who)) (s\<lparr>Prime := Some who\<rparr>)" by (auto simp: council_set_prime_def)
  have "who \<in> set (CouncilMembers s)" using vec_search.found_iff ok(1) assms(2) unfolding council_wf_def by blast
  then have "council_after (CouncilMembers s) s'"
    using assms(2) by (cases "told s") (auto simp: ok(2) council_after_def council_wf_def)
  then show ?thesis using unchanged [of T origin c s] by blast
next
  case ClearPrime
  then have "council_after (CouncilMembers s) s'"
    using assms by (cases "told s") (auto simp: council_clear_prime_def council_after_def council_wf_def)
  then show ?thesis using unchanged [of T origin c s] by blast
qed (use assms in \<open>auto intro: add_effect remove_effect swap_effect change_key_effect\<close>)

section \<open>Invariants\<close>

lemma council_effect_wf:
  assumes "council_effect T origin c s ms" "council_wf T s" "council_after ms s'"
  shows "council_wf T s'"
proof -
  have "sorted ms \<and> length ms \<le> unat (MaxMembers T)"
    using assms(1)
  proof cases
    case (admitted who)
    have "length ms = Suc (length (CouncilMembers s))" using arg_cong [OF admitted(5), of size] by simp
    with admitted(4,6) show ?thesis by simp
  next
    case (dismissed who l)
    have "length ms \<le> length (CouncilMembers s)" using arg_cong [OF dismissed(5), of size] dismissed(2) by (simp add: size_Diff_singleton)
    with dismissed(6) assms(2) show ?thesis by (simp add: council_wf_def)
  next
    case (replaced old new)
    have "length ms = Suc (length (CouncilMembers s) - 1)"
      using arg_cong [OF replaced(5), of size] replaced(2) by (simp add: size_Diff_singleton)
    moreover have "0 < length (CouncilMembers s)" using replaced(2) by (auto simp: length_pos_if_in_set)
    ultimately show ?thesis using replaced(6) assms(2) by (simp add: council_wf_def)
  qed (use assms(2) in \<open>auto simp: council_wf_def\<close>)
  with assms(3) show ?thesis by (simp add: council_wf_def council_after_def)
qed

lemma same_council_wf: "same_council s s' \<Longrightarrow> council_wf T s' = council_wf T s"
  by (simp add: same_council_def council_wf_def told_def)

lemma council_build_wf: "council_built T s \<Longrightarrow> council_wf T s \<and> distinct (CouncilMembers s)"
  by (auto simp: council_built_def council_genesis_build_def council_wf_def told_def notify_def Let_def
      card_distinct split: if_splits)

interpretation council_inv: invariant_system "council_built T" "council_step P T" "council_wf T" for P T
proof unfold_locales
  show "council_wf T t" if "council_wf T s" "council_step P T s t" for s t
    using that(2)
  proof cases
    case (council_call origin c)
    from council_dispatch_effect [OF council_call(1) that(1)] obtain ms where
      ms: "council_effect T origin c s ms" "council_after ms t" by blast
    show ?thesis by (rule council_effect_wf [OF ms(1) that(1) ms(2)])
  qed (use that(1) same_council_wf in blast)
qed (use council_build_wf in blast)

text \<open>As long as the members are only reset to lists without duplicates, there are none.\<close>

lemma council_effect_distinct:
  assumes "council_effect T origin c s ms" "distinct (CouncilMembers s)" "\<And>ls. c = ResetMembers ls \<Longrightarrow> distinct ls"
  shows "distinct ms"
  using assms(1)
proof cases
  case (admitted who)
  have "distinct (who # CouncilMembers s)" using admitted(3) assms(2) by simp
  then show ?thesis using admitted(5) mset_eq_imp_distinct_iff [of ms "who # CouncilMembers s"] by simp
next
  case (dismissed who l)
  then have "mset ms = mset (remove1 who (CouncilMembers s))" by simp
  then show ?thesis using assms(2) mset_eq_imp_distinct_iff [of ms "remove1 who (CouncilMembers s)"] by simp
next
  case (replaced old new)
  have "distinct (new # remove1 old (CouncilMembers s))" using replaced(3) assms(2) by (auto dest: notin_set_remove1)
  then show ?thesis using replaced(5) mset_eq_imp_distinct_iff [of ms "new # remove1 old (CouncilMembers s)"] by simp
qed (use assms(2,3) in auto)

interpretation council_distinct: invariant_system "council_built T" "council_step distinct T"
  "\<lambda>s. council_wf T s \<and> distinct (CouncilMembers s)" for T
proof unfold_locales
  show "council_wf T t \<and> distinct (CouncilMembers t)" if "council_wf T s \<and> distinct (CouncilMembers s)" "council_step distinct T s t" for s t
    using that(2)
  proof cases
    case (council_call origin c)
    from council_dispatch_effect [OF council_call(1)] that(1) obtain ms where
      ms: "council_effect T origin c s ms" "council_after ms t" by blast
    have "distinct ms" by (rule council_effect_distinct [OF ms(1)]) (use that(1) council_call(2) in auto)
    then show ?thesis using ms(2) council_inv.inv_step [OF _ that(2)] that(1) by (auto simp: council_after_def)
  next
    case council_elsewhere
    then show ?thesis using that(1) same_council_wf [OF council_elsewhere] by (auto simp: same_council_def)
  qed
qed (use council_build_wf in blast)

lemma contains_iff: "council_wf T s \<Longrightarrow> council_contains a s \<longleftrightarrow> a \<in> set (CouncilMembers s)"
  using vec_search.found_iff [of "CouncilMembers s" a] unfolding council_contains_def council_wf_def
  by (cases "binary_search (CouncilMembers s) a") auto

section \<open>A small council\<close>

text \<open>The origin \<open>0\<close> governs, any other is signed by its account; every account but \<open>[9]\<close> is in the network.\<close>

definition sample_council_config :: "(nat, account) council_config" where
  "sample_council_config = \<lparr>overflow_checks = True, hashing = sample_hash, encode_hash = id,
     encode_account = id, encode_ident = id, encode_vec = id, blake2b_64 = sample_hash,
     bs58_encode = halves, bs58_decode = unhalves,
     NetworkMembershipOrigin = (\<lambda>origin. origin = 0), MembershipPeriod = 5, MaxMembersPerBlock = 3,
     inc_providers = (\<lambda>a r. r(a := Suc (r a))), dec_providers = (\<lambda>a r. r(a := r a - 1)),
     AddOrigin = (\<lambda>origin. origin = 0), RemoveOrigin = (\<lambda>origin. origin = 0), SwapOrigin = (\<lambda>origin. origin = 0),
     ResetOrigin = (\<lambda>origin. origin = 0), PrimeOrigin = (\<lambda>origin. origin = 0), MaxMembers = 3,
     council_signed = (\<lambda>origin. if origin = 0 then None else Some [of_nat origin]), council_lookup = Some\<rparr>"

lemma sample_council_config_simps [simp]:
  "AddOrigin sample_council_config o' \<longleftrightarrow> o' = 0" "RemoveOrigin sample_council_config o' \<longleftrightarrow> o' = 0"
  "ResetOrigin sample_council_config o' \<longleftrightarrow> o' = 0" "PrimeOrigin sample_council_config o' \<longleftrightarrow> o' = 0"
  "MaxMembers sample_council_config = 3" "council_lookup sample_council_config = Some"
  "council_signed sample_council_config o' = (if o' = 0 then None else Some [of_nat o'])"
  by (simp_all add: sample_council_config_def)

definition sample_council_0 :: council_storage where
  "sample_council_0 = \<lparr>block_number = 0, extrinsic_index = None, Members = (\<lambda>a. if a = [9] then None else Some \<lparr>expire_on = 100\<rparr>),
     Members_counter = 0, MembershipsExpiresOn = (\<lambda>_. []), MembershipsRenewsOn = Map.empty, MembershipBlacklist = Map.empty,
     provider_refs = (\<lambda>_. 0), membership_events = [],
     CouncilMembers = [], Prime = None, notices = [], council_events = []\<rparr>"

definition sample_council :: council_storage where
  "sample_council = unwrap_or sample_council_0 (council_genesis_build [[2], [1]] sample_council_0 :: (council_storage, unit) result)"

lemma sample_council_built: "council_built sample_council_config sample_council"
  unfolding council_built_def
  by (rule exI [of _ "[[2], [1]]"], rule exI [of _ sample_council_0])
    (simp add: sample_council_def sample_council_0_def council_genesis_build_def Let_def)

lemma sample_council_reachable:
  "reachable (council_built sample_council_config) (council_step P sample_council_config) sample_council"
  by (rule reach_init) (rule sample_council_built)

lemma sample_council_facts:
  "CouncilMembers sample_council = [[1], [2]]" "Prime sample_council = None" "is_member a sample_council \<longleftrightarrow> a \<noteq> [9]"
  "told sample_council = ([[1], [2]], None)"
  by (simp_all add: sample_council_def sample_council_0_def council_genesis_build_def is_member_def Let_def told_def notify_def)

lemma council_run_reachable:
  assumes "run_all (\<lambda>(origin, c). council_dispatch T origin c) cs s = Ok t" "reachable (council_built T) (council_step P T) s"
    and "\<forall>(origin, c) \<in> set cs. \<forall>ms. c = ResetMembers ms \<longrightarrow> P ms"
  shows "reachable (council_built T) (council_step P T) t"
  using assms
proof (induction cs arbitrary: s)
  case (Cons x cs)
  obtain origin c where x: "x = (origin, c)" by (cases x)
  from Cons.prems(1) obtain u where u: "council_dispatch T origin c s = Ok u"
    "run_all (\<lambda>(origin, c). council_dispatch T origin c) cs u = Ok t" by (auto simp: x)
  have "council_step P T s u" by (rule council_call [OF u(1)]) (use Cons.prems(3) in \<open>auto simp: x\<close>)
  from Cons.IH [OF u(2) reach_step [OF Cons.prems(2) this]] Cons.prems(3) show ?case by simp
qed simp

lemmas sample_council_defs = council_set_prime_def council_add_member_def council_remove_member_def council_reset_members_def
  council_account_def binary_search_def binary_search_loop.simps vec_try_insert_def vec_remove_def rejig_prime_def Let_def
  sample_council_facts(3)

section \<open>Properties\<close>

text \<open>In every reachable storage the members of the council are sorted and within their bound, the prime is one of
  them, and the collective has been told just these members; if it knows a prime, it is the right one.
  An account is reported as a member exactly if the collective counts it as one.\<close>

theorem council_reachable_wf:
  assumes "reachable (council_built T) (council_step P T) s"
  shows "council_wf T s \<and> (council_contains a s \<longleftrightarrow> a \<in> set (fst (told s)))"
proof -
  have wf: "council_wf T s" by (rule council_inv.inv_reachable [OF assms])
  then show ?thesis using contains_iff [OF wf] by (simp add: council_wf_def)
qed

theorem council_reachable_wf_witness:
  "council_contains [2] sample_council \<and> \<not> council_contains [3] sample_council"
  using council_reachable_wf [OF sample_council_reachable, of "[2]"]
    council_reachable_wf [OF sample_council_reachable, of "[3]"]
  by (simp add: sample_council_facts)

text \<open>Nobody gets on the council unasked: an account that a call brings in is a member of the network, and the call
  has the adding or the swapping origin or is signed by the member who hands over his seat; the
  exception is a reset, which asks for the resetting origin and not for membership of the network.\<close>

theorem council_admission:
  assumes "reachable (council_built T) (council_step P T) s" "council_dispatch T origin c s = Ok s'"
    and "council_contains a s'" "\<not> council_contains a s"
  shows "is_member a s \<and> (AddOrigin T origin \<or> SwapOrigin T origin \<or> (\<exists>b. council_signed T origin = Some b \<and> council_contains b s)) \<or>
    ResetOrigin T origin \<and> (\<exists>ms. c = ResetMembers ms \<and> a \<in> set ms)"
proof -
  have wf: "council_wf T s" by (rule council_inv.inv_reachable [OF assms(1)])
  from council_dispatch_effect [OF assms(2) wf] obtain ms where ms: "council_effect T origin c s ms" "council_after ms s'" by blast
  note wf' = council_effect_wf [OF ms(1) wf ms(2)]
  have a: "a \<in> set ms" "a \<notin> set (CouncilMembers s)"
    using assms(3,4) ms(2) contains_iff [OF wf] contains_iff [OF wf'] by (simp_all add: council_after_def)
  from ms(1) show ?thesis
  proof cases
    case (admitted who)
    then have "a = who" using a by (metis mset_eq_setD insertE set_mset_add_mset_insert set_mset_mset)
    with admitted show ?thesis by simp
  next
    case (dismissed who l)
    then have "a \<in># mset (CouncilMembers s) - {#who#}" using a(1) by (metis set_mset_mset)
    then show ?thesis using a(2) by (auto dest: in_diffD)
  next
    case (replaced old new)
    then have "a \<in># add_mset new (mset (CouncilMembers s) - {#old#})" using a(1) by (metis set_mset_mset)
    then have "a = new" using a(2) by (auto dest: in_diffD)
    with replaced contains_iff [OF wf] show ?thesis by auto
  qed (use a in auto)
qed

theorem council_admission_witness:
  "\<exists>s'. council_dispatch sample_council_config 0 (AddMember [3]) sample_council = Ok s' \<and> is_member [3] sample_council"
proof -
  let ?run = "council_dispatch sample_council_config 0 (AddMember [3]) sample_council"
  let ?s = "unwrap_or sample_council ?run"
  have run: "?run = Ok ?s"
    by (rule is_Ok_unwrap) (simp add: sample_council_defs sample_council_facts cong: and_then_weak_cong)
  have "CouncilMembers ?s = [[1], [2], [3]]"
    by (simp add: sample_council_defs sample_council_facts cong: and_then_weak_cong)
  then have "council_contains [3] ?s" by (simp add: council_contains_def binary_search_def binary_search_loop.simps Let_def)
  moreover have "\<not> council_contains [3] sample_council"
    by (simp add: council_contains_def sample_council_facts binary_search_def binary_search_loop.simps Let_def)
  ultimately have "is_member [3] sample_council" using council_admission [OF sample_council_reachable run] by auto
  with run show ?thesis by blast
qed

text \<open>As long as the members are only reset to lists without duplicates, a dismissed member is out: he is not
  reported as a member any more, he is not the prime, and the collective has been told so.\<close>

theorem dismissed_member_is_out:
  assumes "reachable (council_built T) (council_step distinct T) s"
    and "council_remove_member T origin l s = Ok s'" "council_lookup T l = Some a"
  shows "\<not> council_contains a s' \<and> Prime s' \<noteq> Some a \<and> a \<notin> set (fst (told s')) \<and> snd (told s') \<noteq> Some a"
proof -
  have wf: "council_wf T s" "distinct (CouncilMembers s)" using council_distinct.inv_reachable [OF assms(1)] by auto
  have "council_dispatch T origin (RemoveMember l) s = Ok s'" using assms(2) by simp
  from remove_effect [OF assms(2) wf(1)] obtain ms where ms: "council_effect T origin (RemoveMember l) s ms" "council_after ms s'" by blast
  from assms(2) obtain i where i: "binary_search (CouncilMembers s) a = Ok i" "CouncilMembers s' = take i (CouncilMembers s) @ drop (Suc i) (CouncilMembers s)"
    using ms(2) assms(3) by (auto simp: council_remove_member_def council_account_def Let_def vec_remove_Ok_iff removed_members)
  have "sorted (CouncilMembers s)" using wf(1) by (simp add: council_wf_def)
  from vec_search.remove_sorted(2) [OF this i(1)] have "mset (CouncilMembers s') = mset (remove1 a (CouncilMembers s))" by (simp add: i(2))
  then have "a \<notin> set (CouncilMembers s')" using wf(2) by (metis mset_eq_setD set_remove1_eq DiffD2 singletonI)
  with ms(2) contains_iff [OF council_effect_wf [OF ms(1) wf(1) ms(2)]] show ?thesis by (auto simp: council_after_def)
qed

theorem dismissed_member_is_out_witness:
  "\<exists>s'. council_remove_member sample_council_config 0 [2] sample_council = Ok s' \<and> \<not> council_contains [2] s'"
proof -
  let ?run = "council_remove_member sample_council_config 0 [2] sample_council"
  have "is_Ok ?run" by (simp add: sample_council_defs sample_council_facts cong: and_then_weak_cong)
  then obtain s' where s': "?run = Ok s'" by (cases ?run) auto
  from dismissed_member_is_out [OF sample_council_reachable s'] s' show ?thesis by simp
qed

text \<open>
  A reset to a list with a duplicate is accepted, and then the dismissal of the member that is in it twice
  goes through and leaves him a member.
\<close>

theorem duplicate_member_survives_dismissal:
  "\<exists>s1 s2. council_reset_members sample_council_config 0 [[1], [1]] sample_council = Ok s1 \<and>
     council_remove_member sample_council_config 0 [1] s1 = Ok s2 \<and> council_contains [1] s2"
proof -
  let ?run1 = "council_reset_members sample_council_config 0 [[1], [1]] sample_council"
  let ?s1 = "unwrap_or sample_council ?run1"
  let ?run2 = "council_remove_member sample_council_config 0 [1] ?s1"
  let ?s2 = "unwrap_or sample_council ?run2"
  have 1: "?run1 = Ok ?s1" by (rule is_Ok_unwrap) (simp add: sample_council_defs sample_council_facts cong: and_then_weak_cong)
  have m1: "CouncilMembers ?s1 = [[1], [1]]" by (simp add: sample_council_defs sample_council_facts cong: and_then_weak_cong)
  have 2: "?run2 = Ok ?s2"
    by (rule is_Ok_unwrap) (simp add: m1 council_remove_member_def council_account_def binary_search_def binary_search_loop.simps
        vec_remove_def Let_def cong: and_then_weak_cong)
  have "CouncilMembers ?s2 = [[1]]"
    by (simp add: m1 council_remove_member_def council_account_def binary_search_def binary_search_loop.simps
        vec_remove_def Let_def removed_members cong: and_then_weak_cong)
  then have "council_contains [1] ?s2" by (simp add: council_contains_def binary_search_def binary_search_loop.simps Let_def)
  with 1 2 show ?thesis by blast
qed

text \<open>
  An addition resets the prime of the collective and does not set it again, so the pallet has a prime and the
  collective none.
\<close>

theorem addition_loses_prime:
  assumes "Prime s = Some p" "council_add_member T origin l s = Ok s'"
  shows "Prime s' = Some p \<and> snd (told s') = None"
  using assms by (auto simp: council_add_member_def Let_def)

end
