(* ===== verification/Chain_Bootstrap.thy ===== *)
theory Chain_Bootstrap
  imports Chain_Spec Council_Properties
begin

text \<open>
  Setting up a custom chain (\<^verbatim>\<open>node/cli/src/command/chain_setup.rs\<close>, \<^verbatim>\<open>node/cli/src/chain_spec/bootstrap.rs\<close>): the
  settings of the user, read from a file, are checked and turned into a chain specification. Modelled is
  everything between reading the file and printing the specification.

  Rows of the settings are indexed as in Rust, which panics when a row is too short; so do the conversions from
  hexadecimal digits, which are parameters. \<^verbatim>\<open>to_lowercase\<close> is written out for ASCII strings and a parameter for the others.

  Shown: exactly which settings give a specification, and which; the genesis of the pallets from it.
\<close>

section \<open>Settings\<close>

record chain_config_params =
  chain_name :: string
  chain_type :: string
  runtime_type :: string
  authorities :: "string list list"
  well_known_nodes :: "string list list"
  network_members :: "string list list"
  council_members :: "string list option"
  tech_committee_members :: "string list option"
  sudo_key :: "string option"

record chain_params =
  params_chain_name :: string
  params_chain_type :: ChainType
  params_runtime_type :: string
  params_authorities :: "string list list"
  params_well_known_nodes :: "string list list"
  params_network_members :: "string list"
  params_council_members :: "string list"
  params_tech_committee_members :: "string list"
  params_sudo_key :: string

record bootstrap_env = node_env +
  lower_unicode :: "string \<Rightarrow> string"
  hex_account :: "string \<Rightarrow> account option"
  hex_array :: "string \<Rightarrow> bytes option"

datatype BootstrapError = Exit | ChainNameTooLong | InvalidChainType string | InvalidRuntimeType string

definition lower_char :: "char \<Rightarrow> char" where
  "lower_char ch = (if 65 \<le> (of_char ch :: nat) \<and> (of_char ch :: nat) \<le> 90 then char_of (of_char ch + 32 :: nat) else ch)"

definition to_lowercase :: "'e bootstrap_env_scheme \<Rightarrow> string \<Rightarrow> string" where
  "to_lowercase E s = (if list_all (\<lambda>ch. of_char ch < (128 :: nat)) s then map lower_char s else lower_unicode E s)"

definition index :: "nat \<Rightarrow> 'a list \<Rightarrow> ('a, 'e) result" where
  "index i row = (if i < length row then Ok (row ! i) else Panic)"

definition or_panic :: "'a option \<Rightarrow> ('a, 'e) result" where
  "or_panic x = (case x of Some y \<Rightarrow> Ok y | None \<Rightarrow> Panic)"

section \<open>The genesis of a custom chain\<close>

definition cord_braid_custom_genesis :: "account list \<Rightarrow> (bytes \<times> account) list \<Rightarrow> authority_keys list \<Rightarrow> account \<Rightarrow> genesis_patch" where
  "cord_braid_custom_genesis = genesis_for Braid Braid"

definition cord_loom_custom_genesis :: "account list \<Rightarrow> (bytes \<times> account) list \<Rightarrow> authority_keys list \<Rightarrow> account \<Rightarrow> genesis_patch" where
  "cord_loom_custom_genesis = genesis_for Loom Loom"

definition cord_weave_custom_genesis :: "account list \<Rightarrow> (bytes \<times> account) list \<Rightarrow> authority_keys list \<Rightarrow> account \<Rightarrow> genesis_patch" where
  "cord_weave_custom_genesis = genesis_for Weave Loom"

definition node_of_row :: "'e bootstrap_env_scheme \<Rightarrow> string list \<Rightarrow> (bytes \<times> account, string) result" where
  "node_of_row E node =
     and_then (index 0 node) (\<lambda>node_id.
     and_then (index 1 node) (\<lambda>owner.
     and_then (or_panic (hex_account E owner)) (\<lambda>account.
     Ok (bytes_of node_id, account))))"

definition authority_of_row :: "'e bootstrap_env_scheme \<Rightarrow> string list \<Rightarrow> (authority_keys, string) result" where
  "authority_of_row E auth =
     and_then (index 0 auth) (\<lambda>auth0.
     and_then (or_panic (hex_account E auth0)) (\<lambda>account.
     and_then (or_panic (hex_array E auth0)) (\<lambda>babe_key.
     and_then (index 1 auth) (\<lambda>auth1.
     and_then (or_panic (hex_array E auth1)) (\<lambda>grandpa_key.
     Ok (account, babe_key, grandpa_key, babe_key, babe_key))))))"

definition custom_config_genesis ::
  "'e bootstrap_env_scheme \<Rightarrow> (account list \<Rightarrow> (bytes \<times> account) list \<Rightarrow> authority_keys list \<Rightarrow> account \<Rightarrow> genesis_patch)
   \<Rightarrow> chain_params \<Rightarrow> (genesis_patch, string) result" where
  "custom_config_genesis E custom_genesis config =
     and_then (each (\<lambda>m. or_panic (hex_account E m)) (params_network_members config)) (\<lambda>initial_network_members.
     and_then (each (node_of_row E) (params_well_known_nodes config)) (\<lambda>initial_well_known_nodes.
     and_then (each (authority_of_row E) (params_authorities config)) (\<lambda>initial_authorities.
     and_then (or_panic (hex_account E (params_sudo_key config))) (\<lambda>initial_sudo_key.
     Ok (custom_genesis initial_network_members initial_well_known_nodes initial_authorities initial_sudo_key)))))"

definition cord_braid_custom_config_genesis :: "'e bootstrap_env_scheme \<Rightarrow> chain_params \<Rightarrow> (genesis_patch, string) result" where
  "cord_braid_custom_config_genesis E = custom_config_genesis E cord_braid_custom_genesis"

definition cord_loom_custom_config_genesis :: "'e bootstrap_env_scheme \<Rightarrow> chain_params \<Rightarrow> (genesis_patch, string) result" where
  "cord_loom_custom_config_genesis E = custom_config_genesis E cord_loom_custom_genesis"

definition cord_weave_custom_config_genesis :: "'e bootstrap_env_scheme \<Rightarrow> chain_params \<Rightarrow> (genesis_patch, string) result" where
  "cord_weave_custom_config_genesis E = custom_config_genesis E cord_weave_custom_genesis"

definition cord_custom_config :: "'e bootstrap_env_scheme \<Rightarrow> chain_params \<Rightarrow> (chain_spec, string) result" where
  "cord_custom_config E config =
     (let runtime = to_lowercase E (params_runtime_type config) in
      if runtime = ''braid'' then
        build_spec E Braid ''Braid wasm not available'' (params_chain_name config) ''braid-cord-custom''
          (params_chain_type config) (cord_braid_custom_config_genesis E config)
      else if runtime = ''loom'' then
        build_spec E Loom ''Loom wasm not available'' (params_chain_name config) ''loom-cord-custom''
          (params_chain_type config) (cord_loom_custom_config_genesis E config)
      else if runtime = ''weave'' then
        build_spec E Weave ''Weave development wasm not available'' (params_chain_name config) ''weave-cord-custom''
          (params_chain_type config) (cord_weave_custom_config_genesis E config)
      else Err ''Invalid runtime_type'')"

section \<open>The command\<close>

fun chain_type_of :: "string \<Rightarrow> (ChainType, BootstrapError) result" where
  "chain_type_of t =
     (if t = ''dev'' then Ok Development else if t = ''local'' then Ok Local else if t = ''live'' then Ok Live
      else Err (InvalidChainType t))"

definition columns :: "string list \<Rightarrow> (string list, 'e) result" where
  "columns row = and_then (index 1 row) (\<lambda>x. and_then (index 2 row) (\<lambda>y. Ok [x, y]))"

definition bootstrap_run :: "'e bootstrap_env_scheme \<Rightarrow> chain_config_params \<Rightarrow> (chain_spec, BootstrapError) result" where
  "bootstrap_run E config =
     (if authorities config = [] \<or> well_known_nodes config = [] then Err Exit
      else and_then (ensure (length (chain_name config) \<le> 64) ChainNameTooLong) (\<lambda>_.
      and_then (chain_type_of (chain_type config)) (\<lambda>ct.
      and_then (ensure (to_lowercase E (runtime_type config) \<in> set [''braid'', ''loom'', ''weave'']) (InvalidRuntimeType (runtime_type config))) (\<lambda>_.
      and_then (each (index 1) (network_members config)) (\<lambda>initial_members.
      and_then (each columns (well_known_nodes config)) (\<lambda>initial_well_known_nodes.
      and_then (each columns (authorities config)) (\<lambda>initial_authorities.
      and_then (case council_members config of Some ms \<Rightarrow> Ok ms | None \<Rightarrow> each (index 1) (authorities config)) (\<lambda>initial_council_members.
      and_then (case tech_committee_members config of Some ms \<Rightarrow> Ok ms | None \<Rightarrow> each (index 1) (authorities config)) (\<lambda>initial_tech_committee_members.
      and_then (case sudo_key config of Some k \<Rightarrow> Ok k | None \<Rightarrow> and_then (index 0 (authorities config)) (index 1)) (\<lambda>initial_sudo_key.
      case cord_custom_config E
          \<lparr>params_chain_name = chain_name config, params_chain_type = ct, params_runtime_type = to_lowercase E (runtime_type config),
           params_authorities = initial_authorities, params_well_known_nodes = initial_well_known_nodes,
           params_network_members = initial_members, params_council_members = initial_council_members,
           params_tech_committee_members = initial_tech_committee_members, params_sudo_key = initial_sudo_key\<rparr> of
        Ok spec \<Rightarrow> Ok spec
      | _ \<Rightarrow> Panic))))))))))"

section \<open>Lemmas\<close>

lemma index_Ok_iff [result_simps, simp]: "index i row = Ok x \<longleftrightarrow> i < length row \<and> x = row ! i"
  by (auto simp: index_def)

lemma or_panic_Ok_iff [result_simps, simp]: "or_panic o' = Ok x \<longleftrightarrow> o' = Some x"
  by (auto simp: or_panic_def split: option.splits)

lemma each_Ok_iff: "each f xs = Ok ys \<longleftrightarrow> list_all2 (\<lambda>x y. f x = Ok y) xs ys"
proof (induction xs arbitrary: ys)
  case (Cons x xs)
  show ?case by (cases ys) (auto simp: Cons.IH)
qed auto

lemma case_or_panic: "(case r of Ok x \<Rightarrow> Ok x | _ \<Rightarrow> Panic) = Ok y \<longleftrightarrow> r = Ok y"
  by (cases r) auto

lemma columns_Ok_iff: "columns row = Ok r \<longleftrightarrow> 2 < length row \<and> r = [row ! 1, row ! 2]"
  by (auto simp: columns_def)

text \<open>The data a row of the settings stands for.\<close>

definition node_row :: "'e bootstrap_env_scheme \<Rightarrow> string list \<Rightarrow> bytes \<times> account \<Rightarrow> bool" where
  "node_row E row node \<longleftrightarrow> 2 < length row \<and> fst node = bytes_of (row ! 1) \<and> hex_account E (row ! 2) = Some (snd node)"

definition member_row :: "'e bootstrap_env_scheme \<Rightarrow> string list \<Rightarrow> account \<Rightarrow> bool" where
  "member_row E row member \<longleftrightarrow> 1 < length row \<and> hex_account E (row ! 1) = Some member"

definition authority_row :: "'e bootstrap_env_scheme \<Rightarrow> string list \<Rightarrow> authority_keys \<Rightarrow> bool" where
  "authority_row E row au \<longleftrightarrow> 2 < length row \<and>
     (\<exists>account key gran. hex_account E (row ! 1) = Some account \<and> hex_array E (row ! 1) = Some key \<and> hex_array E (row ! 2) = Some gran \<and>
        au = (account, key, gran, key, key))"

lemma rows_compose:
  "(\<exists>ys. list_all2 (\<lambda>x y. f x = Ok y) xs ys \<and> list_all2 (\<lambda>y z. g y = Ok z) ys zs) \<longleftrightarrow>
     list_all2 (\<lambda>x z. \<exists>y. f x = Ok y \<and> g y = Ok z) xs zs"
proof -
  have "list_all2 ((\<lambda>x y. f x = Ok y) OO (\<lambda>y z. g y = Ok z)) xs zs \<longleftrightarrow>
      (list_all2 (\<lambda>x y. f x = Ok y) OO list_all2 (\<lambda>y z. g y = Ok z)) xs zs"
    by (simp add: list.rel_compp)
  then show ?thesis by (simp add: OO_def relcompp_apply)
qed

lemma node_rows: "(\<exists>r. columns row = Ok r \<and> node_of_row E r = Ok node) \<longleftrightarrow> node_row E row node"
  by (cases node) (auto simp: columns_Ok_iff node_of_row_def node_row_def)

lemma authority_rows: "(\<exists>r. columns row = Ok r \<and> authority_of_row E r = Ok au) \<longleftrightarrow> authority_row E row au"
  by (cases au) (auto simp: columns_Ok_iff authority_of_row_def authority_row_def)

lemma member_rows: "(\<exists>m. index 1 row = Ok m \<and> or_panic (hex_account E m) = Ok a) \<longleftrightarrow> member_row E row a"
  by (auto simp: member_row_def)

text \<open>The settings for the council and the committee have no effect on the specification.\<close>

lemmas custom_config_defs = cord_custom_config_def cord_braid_custom_config_genesis_def cord_loom_custom_config_genesis_def
  cord_weave_custom_config_genesis_def custom_config_genesis_def

lemma cord_custom_config_ignores:
  "cord_custom_config E (p\<lparr>params_council_members := xs, params_tech_committee_members := ys\<rparr>) = cord_custom_config E p"
  by (simp add: custom_config_defs Let_def)

lemma authority_column: "each columns rows = Ok rs \<Longrightarrow> each (index 1) rows = Ok (map (\<lambda>row. row ! 1) rows)"
  unfolding each_Ok_iff columns_Ok_iff by (induction rule: list_all2_induct) auto

lemma root_column:
  assumes "each columns rows = Ok rs" "rows \<noteq> []"
  shows "and_then (index 0 rows) (index 1) = Ok (hd rows ! 1)"
  using assms unfolding each_Ok_iff columns_Ok_iff by (cases rows) (auto simp: list_all2_Cons1)

definition root_setting :: "chain_config_params \<Rightarrow> string" where
  "root_setting c = (case sudo_key c of Some k \<Rightarrow> k | None \<Rightarrow> hd (authorities c) ! 1)"

fun chain_label :: "Chain \<Rightarrow> string" where
  "chain_label Braid = ''braid''"
| "chain_label Loom = ''loom''"
| "chain_label Weave = ''weave''"
| "chain_label Unknown = ''''"

lemma lower_label [simp]: "to_lowercase E (chain_label chain) = chain_label chain"
  by (cases chain) (simp_all add: to_lowercase_def lower_char_def)

definition custom_genesis_for :: "Chain \<Rightarrow> account list \<Rightarrow> (bytes \<times> account) list \<Rightarrow> authority_keys list \<Rightarrow> account \<Rightarrow> genesis_patch" where
  "custom_genesis_for chain = genesis_for chain (if chain = Braid then Braid else Loom)"

lemma cord_custom_config_Ok_iff:
  assumes "to_lowercase E (params_runtime_type p) = chain_label chain" "chain \<noteq> Unknown"
  shows "cord_custom_config E p = Ok spec \<longleftrightarrow> wasm_binary E chain \<and> (\<exists>g. custom_config_genesis E (custom_genesis_for chain) p = Ok g \<and>
     spec = \<lparr>spec_name = params_chain_name p, spec_id = chain_label chain @ ''-cord-custom'', spec_type = params_chain_type p,
       spec_genesis = g, spec_protocol_id = ''cord'', spec_properties = chain_properties chain\<rparr>)"
  using assms
  by (cases chain) (auto simp: cord_custom_config_def build_spec_def cord_braid_custom_config_genesis_def cord_loom_custom_config_genesis_def
      cord_weave_custom_config_genesis_def cord_braid_custom_genesis_def cord_loom_custom_genesis_def cord_weave_custom_genesis_def
      custom_genesis_for_def DEFAULT_PROTOCOL_ID_def Let_def)

definition plain_params :: "chain_config_params \<Rightarrow> ChainType \<Rightarrow> string \<Rightarrow> string list list \<Rightarrow> string list list \<Rightarrow> string list \<Rightarrow> chain_params" where
  "plain_params c ct rt au ns ms = \<lparr>params_chain_name = chain_name c, params_chain_type = ct, params_runtime_type = rt,
     params_authorities = au, params_well_known_nodes = ns, params_network_members = ms, params_council_members = [],
     params_tech_committee_members = [], params_sudo_key = root_setting c\<rparr>"

lemma plain_params_simps [simp]:
  "params_chain_name (plain_params c ct rt au ns ms) = chain_name c" "params_chain_type (plain_params c ct rt au ns ms) = ct"
  "params_runtime_type (plain_params c ct rt au ns ms) = rt" "params_authorities (plain_params c ct rt au ns ms) = au"
  "params_well_known_nodes (plain_params c ct rt au ns ms) = ns" "params_network_members (plain_params c ct rt au ns ms) = ms"
  "params_sudo_key (plain_params c ct rt au ns ms) = root_setting c"
  by (simp_all add: plain_params_def)

lemma bootstrap_run_eq:
  "bootstrap_run E c = Ok spec \<longleftrightarrow> authorities c \<noteq> [] \<and> well_known_nodes c \<noteq> [] \<and> length (chain_name c) \<le> 64 \<and>
     to_lowercase E (runtime_type c) \<in> set [''braid'', ''loom'', ''weave''] \<and>
     (\<exists>ct ms ns au. chain_type_of (chain_type c) = Ok ct \<and> each (index 1) (network_members c) = (Ok ms :: (string list, BootstrapError) result) \<and>
        each columns (well_known_nodes c) = (Ok ns :: (string list list, BootstrapError) result) \<and>
        each columns (authorities c) = (Ok au :: (string list list, BootstrapError) result) \<and>
        cord_custom_config E (plain_params c ct (to_lowercase E (runtime_type c)) au ns ms) = Ok spec)"
proof -
  have plain: "cord_custom_config E
      \<lparr>params_chain_name = chain_name c, params_chain_type = ct, params_runtime_type = rt, params_authorities = au,
       params_well_known_nodes = ns, params_network_members = ms, params_council_members = cm, params_tech_committee_members = tm,
       params_sudo_key = root_setting c\<rparr> = cord_custom_config E (plain_params c ct rt au ns ms)" for ct rt au ns ms cm tm
    using cord_custom_config_ignores [where p = "plain_params c ct rt au ns ms" and xs = cm and ys = tm and E = E] by (simp add: plain_params_def)
  have cms: "\<exists>cm. (case x of Some ms \<Rightarrow> Ok ms | None \<Rightarrow> each (index 1) (authorities c)) = (Ok cm :: (string list, BootstrapError) result)"
    if "each columns (authorities c) = (Ok au :: (string list list, BootstrapError) result)" for x au
    using authority_column [OF that] by (cases x) auto
  have root: "(case sudo_key c of Some k \<Rightarrow> Ok k | None \<Rightarrow> and_then (index 0 (authorities c)) (index 1)) =
      (Ok (root_setting c) :: (string, BootstrapError) result)"
    if "each columns (authorities c) = (Ok au :: (string list list, BootstrapError) result)" "authorities c \<noteq> []" for au
    using root_column [OF that] by (auto simp: root_setting_def split: option.splits)
  show ?thesis
  proof (cases "authorities c = [] \<or> well_known_nodes c = []")
    case False
    show ?thesis
    proof (cases "each columns (authorities c) :: (string list list, BootstrapError) result")
      case (Ok au)
      obtain cm tm where "(case council_members c of Some ms \<Rightarrow> Ok ms | None \<Rightarrow> each (index 1) (authorities c)) = (Ok cm :: (string list, BootstrapError) result)"
        "(case tech_committee_members c of Some ms \<Rightarrow> Ok ms | None \<Rightarrow> each (index 1) (authorities c)) = (Ok tm :: (string list, BootstrapError) result)"
        using cms [OF Ok] by blast
      then show ?thesis using False Ok root [OF Ok] by (auto simp: bootstrap_run_def plain case_or_panic simp del: chain_type_of.simps)
    qed (use False in \<open>auto simp: bootstrap_run_def\<close>)
  qed (auto simp: bootstrap_run_def)
qed

lemma custom_genesis_Ok_iff:
  "custom_config_genesis E make_genesis p = Ok g \<longleftrightarrow> (\<exists>ms ns au root.
     list_all2 (\<lambda>m a. hex_account E m = Some a) (params_network_members p) ms \<and>
     list_all2 (\<lambda>r n. node_of_row E r = Ok n) (params_well_known_nodes p) ns \<and>
     list_all2 (\<lambda>r a. authority_of_row E r = Ok a) (params_authorities p) au \<and>
     hex_account E (params_sudo_key p) = Some root \<and> g = make_genesis ms ns au root)"
  by (auto simp: custom_config_genesis_def each_Ok_iff)

lemma chain_type_Ok_iff: "chain_type_of x = Ok ct \<longleftrightarrow> (x, ct) \<in> {(''dev'', Development), (''local'', Local), (''live'', Live)}"
  by auto

lemma runtime_known_iff: "x \<in> set [''braid'', ''loom'', ''weave''] \<longleftrightarrow> (\<exists>chain \<in> {Braid, Loom, Weave}. x = chain_label chain)"
  by auto

definition custom_spec :: "chain_config_params \<Rightarrow> Chain \<Rightarrow> ChainType \<Rightarrow> genesis_patch \<Rightarrow> chain_spec" where
  "custom_spec c chain ct g = \<lparr>spec_name = chain_name c, spec_id = chain_label chain @ ''-cord-custom'', spec_type = ct,
     spec_genesis = g, spec_protocol_id = ''cord'', spec_properties = chain_properties chain\<rparr>"

lemma plain_config_Ok_iff:
  assumes "chain \<in> {Braid, Loom, Weave}"
  shows "cord_custom_config E (plain_params c ct (chain_label chain) au ns ms) = Ok spec \<longleftrightarrow> wasm_binary E chain \<and>
      (\<exists>ms' ns' au' root. list_all2 (\<lambda>m a. hex_account E m = Some a) ms ms' \<and> list_all2 (\<lambda>r n. node_of_row E r = Ok n) ns ns' \<and>
        list_all2 (\<lambda>r a. authority_of_row E r = Ok a) au au' \<and> hex_account E (root_setting c) = Some root \<and>
        spec = custom_spec c chain ct (custom_genesis_for chain ms' ns' au' root))"
proof -
  have "to_lowercase E (params_runtime_type (plain_params c ct (chain_label chain) au ns ms)) = chain_label chain" "chain \<noteq> Unknown"
    using assms by auto
  from cord_custom_config_Ok_iff [OF this] show ?thesis unfolding custom_genesis_Ok_iff plain_params_simps custom_spec_def by blast
qed

lemma member_rows_iff:
  "list_all2 (member_row E) rows ms' \<longleftrightarrow>
     (\<exists>ms. each (index 1) rows = (Ok ms :: (string list, BootstrapError) result) \<and> list_all2 (\<lambda>m a. hex_account E m = Some a) ms ms')"
  using rows_compose [of "index 1 :: _ \<Rightarrow> (_, BootstrapError) result" rows "\<lambda>m. or_panic (hex_account E m)" ms']
  by (simp add: each_Ok_iff member_row_def [abs_def])

lemma node_rows_iff:
  "list_all2 (node_row E) rows ns' \<longleftrightarrow>
     (\<exists>ns. each columns rows = (Ok ns :: (string list list, BootstrapError) result) \<and> list_all2 (\<lambda>r n. node_of_row E r = Ok n) ns ns')"
  using rows_compose [of "columns :: _ \<Rightarrow> (_, BootstrapError) result" rows "node_of_row E" ns'] by (simp add: each_Ok_iff node_rows)

lemma authority_rows_iff:
  "list_all2 (authority_row E) rows au' \<longleftrightarrow>
     (\<exists>au. each columns rows = (Ok au :: (string list list, BootstrapError) result) \<and> list_all2 (\<lambda>r a. authority_of_row E r = Ok a) au au')"
  using rows_compose [of "columns :: _ \<Rightarrow> (_, BootstrapError) result" rows "authority_of_row E" au'] by (simp add: each_Ok_iff authority_rows)

section \<open>A small setting\<close>

text \<open>Hexadecimal digits stand for themselves.\<close>

definition sample_bootstrap_env :: bootstrap_env where
  "sample_bootstrap_env = \<lparr>wasm_binary = (\<lambda>_. True), pair_public = (\<lambda>kind s. Some (bytes_of s)), into_account_id = (\<lambda>p. p), exec_name = None,
     from_json_file = (\<lambda>_. Err ''no such file''), lower_unicode = (\<lambda>s. s), hex_account = (\<lambda>s. Some (bytes_of s)), hex_array = (\<lambda>s. Some (bytes_of s))\<rparr>"

definition sample_settings :: chain_config_params where
  "sample_settings = \<lparr>chain_name = ''test'', chain_type = ''local'', runtime_type = ''Loom'', authorities = [[''first'', ''A'', ''B''], [''second'', ''C'', ''D'']],
     well_known_nodes = [[''first'', ''N'', ''A'']], network_members = [[''first'', ''A''], [''second'', ''C'']], council_members = Some [''E''],
     tech_committee_members = None, sudo_key = None\<rparr>"

section \<open>Properties\<close>

text \<open>C35: the settings of a custom chain are accepted exactly if there are authorities and nodes, the name has at most \<open>64\<close> bytes,
  chain type and runtime are known, the runtime's binary is there, every row is long enough and its keys are
  in hexadecimal digits. The specification then has the name and the network asked for, and its genesis the
  configured members, nodes, authorities and root key, or the first authority for want of one.\<close>

theorem bootstrap_iff:
  "bootstrap_run E c = Ok spec \<longleftrightarrow>
     authorities c \<noteq> [] \<and> well_known_nodes c \<noteq> [] \<and> length (chain_name c) \<le> 64 \<and>
     (\<exists>chain ct ms ns au root.
        (chain_type c, ct) \<in> {(''dev'', Development), (''local'', Local), (''live'', Live)} \<and>
        chain \<in> {Braid, Loom, Weave} \<and> to_lowercase E (runtime_type c) = chain_label chain \<and> wasm_binary E chain \<and>
        list_all2 (member_row E) (network_members c) ms \<and> list_all2 (node_row E) (well_known_nodes c) ns \<and>
        list_all2 (authority_row E) (authorities c) au \<and> hex_account E (root_setting c) = Some root \<and>
        spec = custom_spec c chain ct (custom_genesis_for chain ms ns au root))"
    (is "?run \<longleftrightarrow> ?authorities \<and> ?nodes \<and> ?name \<and> ?spec")
proof
  assume ?run
  then have R: "?authorities \<and> ?nodes \<and> ?name" "\<exists>chain \<in> {Braid, Loom, Weave}. to_lowercase E (runtime_type c) = chain_label chain"
    unfolding bootstrap_run_eq runtime_known_iff by blast+
  from R(2) obtain chain where chain: "chain \<in> {Braid, Loom, Weave}" "to_lowercase E (runtime_type c) = chain_label chain" by blast
  from \<open>?run\<close> obtain ct ms ns au where run: "chain_type_of (chain_type c) = Ok ct"
    "each (index 1) (network_members c) = (Ok ms :: (string list, BootstrapError) result)"
    "each columns (well_known_nodes c) = (Ok ns :: (string list list, BootstrapError) result)"
    "each columns (authorities c) = (Ok au :: (string list list, BootstrapError) result)"
    "cord_custom_config E (plain_params c ct (chain_label chain) au ns ms) = Ok spec"
    unfolding bootstrap_run_eq chain(2) by blast
  from run(5) [unfolded plain_config_Ok_iff [OF chain(1)]] have ?spec
    using run(2-4) chain run(1) [unfolded chain_type_Ok_iff] unfolding member_rows_iff node_rows_iff authority_rows_iff by blast
  with R(1) show "?authorities \<and> ?nodes \<and> ?name \<and> ?spec" by blast
next
  assume R: "?authorities \<and> ?nodes \<and> ?name \<and> ?spec"
  then obtain chain ct ms' ns' au' root where spec: "(chain_type c, ct) \<in> {(''dev'', Development), (''local'', Local), (''live'', Live)}"
    "chain \<in> {Braid, Loom, Weave}" "to_lowercase E (runtime_type c) = chain_label chain" "wasm_binary E chain"
    "list_all2 (member_row E) (network_members c) ms'" "list_all2 (node_row E) (well_known_nodes c) ns'"
    "list_all2 (authority_row E) (authorities c) au'" "hex_account E (root_setting c) = Some root"
    "spec = custom_spec c chain ct (custom_genesis_for chain ms' ns' au' root)"
    by blast
  then obtain ms ns au where rows: "each (index 1) (network_members c) = (Ok ms :: (string list, BootstrapError) result)"
    "each columns (well_known_nodes c) = (Ok ns :: (string list list, BootstrapError) result)"
    "each columns (authorities c) = (Ok au :: (string list list, BootstrapError) result)"
    "cord_custom_config E (plain_params c ct (chain_label chain) au ns ms) = Ok spec"
    unfolding plain_config_Ok_iff [OF spec(2)] member_rows_iff node_rows_iff authority_rows_iff by blast
  with R spec(1-3) show ?run unfolding bootstrap_run_eq runtime_known_iff chain_type_Ok_iff by auto
qed

section \<open>The pallets at genesis\<close>

lemma genesis_members:
  "\<exists>s'. membership_genesis_build T (map (\<lambda>m. (m, False)) ms) s = Ok s' \<and> MembershipsExpiresOn s' = MembershipsExpiresOn s \<and>
     Members s' = (\<lambda>a. if a \<in> set ms then Some \<lparr>expire_on = 0\<rparr> else Members s a)"
proof (induction ms arbitrary: s)
  case (Cons m ms)
  obtain u where u: "add_member_and_schedule_expiry T m False s = Ok u" "MembershipsExpiresOn u = MembershipsExpiresOn s"
    "Members u = (Members s)(m \<mapsto> \<lparr>expire_on = 0\<rparr>)"
    by (simp add: add_member_and_schedule_expiry_def members_insert_def Let_def)
  from Cons.IH [of u] obtain t where "membership_genesis_build T (map (\<lambda>m. (m, False)) ms) u = Ok t"
    "MembershipsExpiresOn t = MembershipsExpiresOn u" "Members t = (\<lambda>a. if a \<in> set ms then Some \<lparr>expire_on = 0\<rparr> else Members u a)" by blast
  then show ?case using u by (auto intro!: exI [of _ t])
qed simp

lemma bootstrapped_genesis:
  assumes "bootstrap_run E c = Ok spec"
  obtains chain ms ns au root where "spec_id spec = chain_label chain @ ''-cord-custom''" "chain \<in> {Braid, Loom, Weave}"
    "spec_genesis spec = custom_genesis_for chain ms ns au root" "list_all2 (member_row E) (network_members c) ms"
    "list_all2 (node_row E) (well_known_nodes c) ns" "list_all2 (authority_row E) (authorities c) au"
proof -
  from assms obtain chain ct ms ns au where run: "to_lowercase E (runtime_type c) \<in> set [''braid'', ''loom'', ''weave'']"
    "each (index 1) (network_members c) = (Ok ms :: (string list, BootstrapError) result)"
    "each columns (well_known_nodes c) = (Ok ns :: (string list list, BootstrapError) result)"
    "each columns (authorities c) = (Ok au :: (string list list, BootstrapError) result)"
    "to_lowercase E (runtime_type c) = chain_label chain" "chain \<in> {Braid, Loom, Weave}"
    "cord_custom_config E (plain_params c ct (chain_label chain) au ns ms) = Ok spec"
    unfolding bootstrap_run_eq runtime_known_iff by (metis (no_types, lifting))
  from run(7) [unfolded plain_config_Ok_iff [OF run(6)]] obtain ms' ns' au' root where g:
    "list_all2 (\<lambda>m a. hex_account E m = Some a) ms ms'" "list_all2 (\<lambda>r n. node_of_row E r = Ok n) ns ns'"
    "list_all2 (\<lambda>r a. authority_of_row E r = Ok a) au au'" "spec = custom_spec c chain ct (custom_genesis_for chain ms' ns' au' root)"
    by blast
  show thesis
    by (rule that [of chain ms' ns' au' root]) (use g run(2-4,6) in \<open>auto simp: custom_spec_def member_rows_iff node_rows_iff authority_rows_iff\<close>)
qed

lemma list_all2_set: "list_all2 P xs ys \<Longrightarrow> (\<And>x y y'. P x y \<Longrightarrow> P x y' \<Longrightarrow> y = y') \<Longrightarrow> set ys = {y. \<exists>x \<in> set xs. P x y}"
  by (induction rule: list_all2_induct) auto

lemma member_row_unique: "member_row E row a \<Longrightarrow> member_row E row a' \<Longrightarrow> a = a'"
  by (simp add: member_row_def)

text \<open>C36: the network members of a custom chain at its start are the accounts of the configured rows. Since the
  genesis lists them without expiry, they stay members ever after, and none of them can be revoked.\<close>

theorem bootstrapped_members:
  assumes "bootstrap_run E c = Ok spec" "membership_genesis s0"
  shows "\<exists>s. membership_genesis_build T (members (spec_genesis spec)) s0 = Ok s \<and> membership_built T s \<and>
    (\<forall>a. is_member a s \<longleftrightarrow> (\<exists>row \<in> set (network_members c). member_row E row a)) \<and>
    (\<forall>t a. (membership_step T)\<^sup>*\<^sup>* s t \<and> is_member a s \<longrightarrow> is_member a t \<and>
       (\<forall>origin. NetworkMembershipOrigin T origin \<longrightarrow> membership_revoke T origin a t = Err (Module MembershipNotFound)))"
proof -
  obtain chain ms ns au root where g: "spec_genesis spec = custom_genesis_for chain ms ns au root"
    "list_all2 (member_row E) (network_members c) ms"
    using assms(1) by (rule bootstrapped_genesis)
  have ms: "members (spec_genesis spec) = map (\<lambda>m. (m, False)) (sort (remdups ms))"
    using g(1) by (simp add: custom_genesis_for_def genesis_for_def members_map_def Let_def)
  obtain s where s: "membership_genesis_build T (members (spec_genesis spec)) s0 = Ok s" "MembershipsExpiresOn s = MembershipsExpiresOn s0"
    "Members s = (\<lambda>a. if a \<in> set ms then Some \<lparr>expire_on = 0\<rparr> else Members s0 a)"
    unfolding ms using genesis_members [of T "sort (remdups ms)" s0] by auto
  have built: "membership_built T s"
    unfolding membership_built_def using assms(2) s(1) by (intro exI [of _ "members (spec_genesis spec)"] exI [of _ s0]) (simp add: ms comp_def)
  have wf: "membership_wf s" by (rule membership_inv.inv_init [OF built])
  have mem: "is_member a s \<longleftrightarrow> a \<in> set ms" for a using s(3) assms(2) by (simp add: is_member_def membership_genesis_def)
  have "permanent a s" if "is_member a s" for a
    using that s(2,3) assms(2) by (auto simp: mem permanent_def unscheduled_def membership_genesis_def)
  then have "permanent a t" if "(membership_step T)\<^sup>*\<^sup>* s t" "is_member a s" for a t
    using permanent_steps [OF that(1) wf] that(2) by blast
  moreover have "is_member a t" if "permanent a t" for a t using that by (simp add: permanent_def is_member_def)
  moreover have "is_member a s \<longleftrightarrow> (\<exists>row \<in> set (network_members c). member_row E row a)" for a
  proof -
    have "set ms = {y. \<exists>x \<in> set (network_members c). member_row E x y}" by (rule list_all2_set [OF g(2)]) (rule member_row_unique)
    then show ?thesis by (auto simp: mem)
  qed
  ultimately show ?thesis using s(1) built permanent_revoke [of T] by blast
qed

text \<open>The settings for the council and the technical committee are read and dropped.\<close>

lemma council_settings_ignored:
  "bootstrap_run E (c\<lparr>council_members := x, tech_committee_members := y\<rparr>) = Ok spec \<longleftrightarrow> bootstrap_run E c = Ok spec"
proof -
  let ?c = "c\<lparr>council_members := x, tech_committee_members := y\<rparr>"
  have "root_setting ?c = root_setting c" by (simp add: root_setting_def split: option.split)
  then have "plain_params ?c = plain_params c" by (intro ext) (simp add: plain_params_def)
  then show ?thesis unfolding bootstrap_run_eq by (simp del: chain_type_of.simps)
qed

text \<open>On Loom the authorities are the council; a chain whose settings name a key for two authorities cannot start.\<close>

lemma bootstrapped_council:
  assumes "bootstrap_run E c = Ok spec" "spec_id spec = ''loom-cord-custom''"
  shows "councilMembership (spec_genesis spec) = Some (initialAuthorities (spec_genesis spec)) \<and>
    (case council_genesis_build (initialAuthorities (spec_genesis spec)) s0 of
       Ok s \<Rightarrow> distinct (initialAuthorities (spec_genesis spec)) \<and> CouncilMembers s = sort (initialAuthorities (spec_genesis spec))
     | _ \<Rightarrow> \<not> distinct (initialAuthorities (spec_genesis spec)))"
proof -
  obtain chain ms ns au root where g: "spec_id spec = chain_label chain @ ''-cord-custom''"  "chain \<in> {Braid, Loom, Weave}"
    "spec_genesis spec = custom_genesis_for chain ms ns au root"
    using assms(1) by (rule bootstrapped_genesis)
  then have "chain = Loom" using assms(2) by auto
  then have a: "councilMembership (spec_genesis spec) = Some (map fst au)" "initialAuthorities (spec_genesis spec) = map fst au"
    using g(3) by (simp_all add: custom_genesis_for_def genesis_for_def Let_def)
  have "card (set (map fst au)) = length (map fst au) \<longleftrightarrow> distinct (map fst au)" by (metis card_distinct distinct_card)
  then show ?thesis unfolding a council_genesis_build_def by (simp add: Let_def)
qed

lemma sample_bootstrap:
  "bootstrap_run sample_bootstrap_env sample_settings = Ok (custom_spec sample_settings Loom Local
     (custom_genesis_for Loom [bytes_of ''A'', bytes_of ''C''] [(bytes_of ''N'', bytes_of ''A'')]
       [(bytes_of ''A'', bytes_of ''A'', bytes_of ''B'', bytes_of ''A'', bytes_of ''A''),
        (bytes_of ''C'', bytes_of ''C'', bytes_of ''D'', bytes_of ''C'', bytes_of ''C'')] (bytes_of ''A'')))"
  by (simp add: bootstrap_run_def sample_settings_def sample_bootstrap_env_def to_lowercase_def lower_char_def char_of_def bit_0 columns_def index_def
      custom_config_defs cord_loom_custom_genesis_def custom_genesis_for_def build_spec_def node_of_row_def authority_of_row_def or_panic_def
      custom_spec_def DEFAULT_PROTOCOL_ID_def Let_def)

theorem bootstrapped_members_witness:
  "\<exists>s. membership_genesis_build sample_council_config (members (custom_genesis_for Loom [bytes_of ''A'', bytes_of ''C''] [(bytes_of ''N'', bytes_of ''A'')]
       [(bytes_of ''A'', bytes_of ''A'', bytes_of ''B'', bytes_of ''A'', bytes_of ''A''),
        (bytes_of ''C'', bytes_of ''C'', bytes_of ''D'', bytes_of ''C'', bytes_of ''C'')] (bytes_of ''A''))) (sample_council_0\<lparr>Members := Map.empty\<rparr>) = Ok s \<and>
     is_member (bytes_of ''C'') s \<and> membership_revoke sample_council_config 0 (bytes_of ''C'') s = Err (Module MembershipNotFound)"
proof -
  have s0: "membership_genesis (sample_council_0\<lparr>Members := Map.empty\<rparr>)" by (simp add: membership_genesis_def sample_council_0_def)
  have row: "\<exists>row \<in> set (network_members sample_settings). member_row sample_bootstrap_env row (bytes_of ''C'')"
    by (simp add: sample_settings_def member_row_def sample_bootstrap_env_def)
  from bootstrapped_members [OF sample_bootstrap s0, of sample_council_config] row show ?thesis
    by (auto simp: custom_spec_def sample_council_config_def)
qed

end
