(* ===== verification/Network_Config.thy ===== *)
theory Network_Config
  imports Chain_Bootstrap Chain_Space_Properties
begin

text \<open>
  The config pallet (\<^verbatim>\<open>pallets/config/src/lib.rs\<close>), which holds whether the network is permissioned, and the
  runtime-upgrade pallet (\<^verbatim>\<open>pallets/runtime-upgrade/src/lib.rs\<close>). The runtimes give the flag of the config pallet to
  the chain-space pallet as \<^verbatim>\<open>NetworkPermission\<close>.

  Shown: from the settings of a custom chain to its spaces, a new space is approved at once exactly on Weave.
\<close>

section \<open>The config pallet\<close>

record config_storage = frame_system +
  NetworkPermissioned :: bool

definition config_genesis_build :: "bool \<Rightarrow> 'm config_storage_scheme \<Rightarrow> 'm config_storage_scheme" where
  "config_genesis_build flag s = s\<lparr>NetworkPermissioned := flag\<rparr>"

definition config_is_permissioned :: "'m config_storage_scheme \<Rightarrow> bool" where
  "config_is_permissioned s = NetworkPermissioned s"

section \<open>The runtime-upgrade pallet\<close>

text \<open>The call of \<^verbatim>\<open>frame_system\<close> it forwards to is a parameter, as is the origin it asks for.\<close>

record ('o, 's, 'e) upgrade_config =
  SetCodeOrigin :: "'o \<Rightarrow> bool"
  root_origin :: 'o
  system_set_code :: "'o \<Rightarrow> bytes \<Rightarrow> 's \<Rightarrow> ('s, 'e dispatch_error) result"

definition set_code :: "('o, 's, 'e, 'c) upgrade_config_scheme \<Rightarrow> 'o \<Rightarrow> bytes \<Rightarrow> 's \<Rightarrow> ('s, 'e dispatch_error) result" where
  "set_code T origin code s =
     and_then (ensure (SetCodeOrigin T origin) BadOrigin) (\<lambda>_.
     system_set_code T (root_origin T) code s)"

lemma set_code_needs_origin:
  "set_code T origin code s = Ok s' \<longleftrightarrow> SetCodeOrigin T origin \<and> system_set_code T (root_origin T) code s = Ok s'"
  by (auto simp: set_code_def)

section \<open>From the settings to the spaces\<close>

lemma bootstrapped_permission:
  assumes "bootstrap_run E c = Ok spec"
  shows "permissioned (spec_genesis spec) \<longleftrightarrow> \<not> is_weave spec"
proof -
  obtain chain ms ns au root where "spec_id spec = chain_label chain @ ''-cord-custom''" "chain \<in> {Braid, Loom, Weave}"
    "spec_genesis spec = custom_genesis_for chain ms ns au root"
    using assms by (rule bootstrapped_genesis)
  then show ?thesis by (auto simp: custom_genesis_for_def genesis_for_def is_weave_def Let_def)
qed

lemma bootstrapped_runtime:
  assumes "bootstrap_run E c = Ok spec"
  shows "is_weave spec \<longleftrightarrow> to_lowercase E (runtime_type c) = ''weave''"
proof -
  from assms obtain chain where chain: "chain \<in> {Braid, Loom, Weave}" "to_lowercase E (runtime_type c) = chain_label chain"
    unfolding bootstrap_run_eq runtime_known_iff by blast
  from assms obtain ct ms ns au where "cord_custom_config E (plain_params c ct (chain_label chain) au ns ms) = Ok spec"
    unfolding bootstrap_run_eq chain(2) by blast
  then have "spec_id spec = chain_label chain @ ''-cord-custom''" unfolding plain_config_Ok_iff [OF chain(1)] by (auto simp: custom_spec_def)
  then show ?thesis using chain by (auto simp: is_weave_def)
qed

lemma created_space_approval:
  assumes "space_create T origin code s = Ok s'"
  shows "\<exists>who sender sp d. EnsureOrigin T origin = Some (who, sender) \<and> space_identifier T code who = Ok sp \<and> Spaces s sp = None \<and>
    Spaces s' sp = Some d \<and> space_creator d = who \<and> approved d = (\<not> is_permissioned T)"
  using assms by (rule space_create_OkE) (auto dest!: space_update_activity_frame simp: space_insert_def)

text \<open>On a custom chain, with the flag its genesis stores in the config pallet given to chain-space, a new space
  is approved at once exactly if the settings asked for Weave; elsewhere it waits for the governing body.\<close>

theorem custom_chain_space_approval:
  assumes "bootstrap_run E c = Ok spec"
    and "is_permissioned T = config_is_permissioned (config_genesis_build (permissioned (spec_genesis spec)) s0)"
    and "space_create T origin code s = Ok s'"
  shows "\<exists>who sender sp d. EnsureOrigin T origin = Some (who, sender) \<and> space_identifier T code who = Ok sp \<and> Spaces s sp = None \<and>
    Spaces s' sp = Some d \<and> space_creator d = who \<and> (approved d \<longleftrightarrow> to_lowercase E (runtime_type c) = ''weave'')"
proof -
  have "is_weave spec \<longleftrightarrow> to_lowercase E (runtime_type c) = ''weave''" by (rule bootstrapped_runtime [OF assms(1)])
  then show ?thesis using created_space_approval [OF assms(3)] assms(2) bootstrapped_permission [OF assms(1)]
    by (simp add: config_is_permissioned_def config_genesis_build_def)
qed

theorem custom_chain_space_approval_witness:
  "\<exists>s' d. space_create sample_config (Some [2]) [7] empty_storage = Ok s' \<and> Spaces s' sample_space = Some d \<and> \<not> approved d"
proof -
  let ?run = "space_create sample_config (Some [2]) [7] empty_storage"
  have run: "?run = Ok (unwrap_or empty_storage ?run)"
    by (rule is_Ok_unwrap) (simp add: sample_run_simps Let_def)
  have flag: "is_permissioned sample_config = config_is_permissioned (config_genesis_build (permissioned (spec_genesis
      (custom_spec sample_settings Loom Local
     (custom_genesis_for Loom [bytes_of ''A'', bytes_of ''C''] [(bytes_of ''N'', bytes_of ''A'')]
       [(bytes_of ''A'', bytes_of ''A'', bytes_of ''B'', bytes_of ''A'', bytes_of ''A''),
        (bytes_of ''C'', bytes_of ''C'', bytes_of ''D'', bytes_of ''C'', bytes_of ''C'')] (bytes_of ''A'')))))
      \<lparr>block_number = 0, extrinsic_index = None, NetworkPermissioned = False\<rparr>)"
    by (simp add: config_is_permissioned_def config_genesis_build_def custom_spec_def custom_genesis_for_def genesis_for_def sample_config_def Let_def)
  from custom_chain_space_approval [OF sample_bootstrap flag run] show ?thesis
    using run by (auto simp: sample_identifiers to_lowercase_def sample_settings_def lower_char_def sample_bootstrap_env_def)
qed

end
