(* ===== verification/Node_Authorization.thy ===== *)
theory Node_Authorization
  imports Identifier "HOL-Library.List_Lexorder"
begin

text \<open>
  The node-authorization pallet (\<^verbatim>\<open>pallets/node-authorization/src\<close>): the well-known nodes of the
  network, their owners, and the additional connections an owner allows for a node. The state is
  what the offchain worker passes to the network layer through \<open>get_authorized_nodes\<close>.

  Node identifiers are base 58 text of peer identifiers; decoding is a parameter. A \<^verbatim>\<open>BTreeSet\<close> is a
  finite set, and its iteration order the lexicographic order of byte strings.

  Shown: every owned node is well known and recorded under the peer identifier of its node
  identifier, connections exist for owned nodes only, and no call takes the number of nodes above its bound; only the
  owner of a node or the governing origin changes it; a swap can be swapped back.
\<close>

section \<open>Types\<close>

type_synonym peer_id = bytes
type_synonym node_id = bytes

record node_info =
  node_info_id :: node_id
  node_info_owner :: account

datatype NodeEvent =
    NodeAdded node_id account
  | NodeRemoved node_id
  | NodeSwapped node_id node_id
  | NodesReset "(peer_id \<times> account) list"
  | NodeClaimed peer_id account
  | ClaimRemoved peer_id account
  | NodeTransferred node_id account
  | ConnectionsAdded node_id node_id
  | ConnectionsRemoved node_id node_id

datatype NodeError =
    NodeIdTooLong | PeerIdTooLong | TooManyNodes | AlreadyJoined | NotExist | AlreadyClaimed
  | NotOwner | PermissionDenied | InvalidUtf8 | InvalidNodeIdentifier | AlreadyConnected

record node_storage = frame_system +
  WellKnownNodes :: "peer_id set"
  Owners :: "peer_id \<Rightarrow> node_info option"
  AdditionalConnections :: "peer_id \<Rightarrow> peer_id set"
  node_events :: "NodeEvent list"

text \<open>\<open>node_lookup\<close> is the runtime's \<^verbatim>\<open>StaticLookup\<close>, \<open>node_signed\<close> gives the signer of a signed origin.\<close>

record ('o, 'l) node_config = frame_config +
  MaxWellKnownNodes :: u32
  MaxPeerIdLength :: u32
  MaxNodeIdLength :: u32
  NodeAuthorizationOrigin :: "'o \<Rightarrow> bool"
  node_signed :: "'o \<Rightarrow> account option"
  node_lookup :: "'l \<Rightarrow> account option"

type_synonym 'm node_result = "('m node_storage_scheme, NodeError dispatch_error) result"

section \<open>Internal functions\<close>

definition generate_peer_id :: "'c frame_config_scheme \<Rightarrow> node_id \<Rightarrow> (peer_id, NodeError) result" where
  "generate_peer_id T node_identity =
     and_then (ensure (utf8_valid node_identity) InvalidUtf8) (\<lambda>_.
     ok_or (bs58_decode T node_identity) InvalidNodeIdentifier)"

definition get_authorized_nodes :: "peer_id \<Rightarrow> 'm node_storage_scheme \<Rightarrow> peer_id list" where
  "get_authorized_nodes node s =
     (let nodes = AdditionalConnections s node; well_known_nodes = WellKnownNodes s
      in if node \<in> well_known_nodes
         then sorted_list_of_set (nodes \<union> (well_known_nodes - {node}))
         else sorted_list_of_set nodes)"

text \<open>The genesis build drops node identifiers that do not decode, and owners of over-long ones.\<close>

definition initialize_node ::
  "('o, 'l, 'c) node_config_scheme \<Rightarrow> node_id \<times> account \<Rightarrow> 'm node_storage_scheme \<Rightarrow> 'm node_storage_scheme" where
  "initialize_node T n s = (case n of (node_id, who) \<Rightarrow>
     if utf8_valid node_id \<and> length node_id \<le> unat (MaxNodeIdLength T)
     then (case generate_peer_id T node_id of
             Ok peer_id \<Rightarrow> s\<lparr>Owners := (Owners s)(peer_id \<mapsto> \<lparr>node_info_id = node_id, node_info_owner = who\<rparr>)\<rparr>
           | _ \<Rightarrow> s)
     else s)"

fun peer_ids_of :: "('o, 'l, 'c) node_config_scheme \<Rightarrow> (node_id \<times> account) list \<Rightarrow> peer_id set" where
  "peer_ids_of T [] = {}"
| "peer_ids_of T ((node_id, _) # nodes) =
     (case generate_peer_id T node_id of Ok peer_id \<Rightarrow> insert peer_id (peer_ids_of T nodes) | _ \<Rightarrow> peer_ids_of T nodes)"

definition initialize_nodes ::
  "('o, 'l, 'c) node_config_scheme \<Rightarrow> (node_id \<times> account) list \<Rightarrow> 'm node_storage_scheme \<Rightarrow> 'm node_storage_scheme" where
  "initialize_nodes T nodes s = fold (initialize_node T) nodes (s\<lparr>WellKnownNodes := peer_ids_of T nodes\<rparr>)"

definition node_deposit_event :: "NodeEvent \<Rightarrow> 'm node_storage_scheme \<Rightarrow> 'm node_storage_scheme" where
  "node_deposit_event e s = s\<lparr>node_events := node_events s @ [e]\<rparr>"

text \<open>Checks the calls share: the peer identifier within its bound, and the owner's signature.\<close>

definition bounded_peer_id ::
  "('o, 'l, 'c) node_config_scheme \<Rightarrow> node_id \<Rightarrow> (peer_id, NodeError dispatch_error) result" where
  "bounded_peer_id T node_id =
     and_then (map_err Module (generate_peer_id T node_id)) (\<lambda>node.
     and_then (ensure (length node < unat (MaxPeerIdLength T)) (Module PeerIdTooLong)) (\<lambda>_.
     Ok node))"

definition short_node_id ::
  "('o, 'l, 'c) node_config_scheme \<Rightarrow> node_id \<Rightarrow> (unit, NodeError dispatch_error) result" where
  "short_node_id T node_id = ensure (length node_id < unat (MaxNodeIdLength T)) (Module NodeIdTooLong)"

definition bounded_node_id ::
  "('o, 'l, 'c) node_config_scheme \<Rightarrow> node_id \<Rightarrow> (node_id, NodeError dispatch_error) result" where
  "bounded_node_id T node_id =
     (if length node_id \<le> unat (MaxNodeIdLength T) then Ok node_id else Err (Module NodeIdTooLong))"

definition owned_by ::
  "account \<Rightarrow> peer_id \<Rightarrow> 'm node_storage_scheme \<Rightarrow> (node_info, NodeError dispatch_error) result" where
  "owned_by sender node s =
     and_then (ok_or (Owners s node) (Module NotExist)) (\<lambda>node_info.
     and_then (ensure (node_info_owner node_info = sender) (Module NotOwner)) (\<lambda>_.
     Ok node_info))"

definition node_sender ::
  "('o, 'l, 'c) node_config_scheme \<Rightarrow> 'o \<Rightarrow> (account, NodeError dispatch_error) result" where
  "node_sender T origin = ok_or (node_signed T origin) BadOrigin"

definition node_account ::
  "('o, 'l, 'c) node_config_scheme \<Rightarrow> 'l \<Rightarrow> (account, NodeError dispatch_error) result" where
  "node_account T l = ok_or (node_lookup T l) CannotLookup"

section \<open>Extrinsics\<close>

definition add_well_known_node ::
  "('o, 'l, 'c) node_config_scheme \<Rightarrow> 'o \<Rightarrow> node_id \<Rightarrow> 'l \<Rightarrow> 'm node_storage_scheme \<Rightarrow> 'm node_result" where
  "add_well_known_node T origin node_id own s =
     and_then (ensure (NodeAuthorizationOrigin T origin) BadOrigin) (\<lambda>_.
     and_then (node_account T own) (\<lambda>owner.
     and_then (bounded_node_id T node_id) (\<lambda>node_id_bytes.
     and_then (bounded_peer_id T node_id) (\<lambda>node.
     and_then (ensure (node \<notin> WellKnownNodes s) (Module AlreadyJoined)) (\<lambda>_.
     and_then (ensure (Owners s node = None) (Module AlreadyClaimed)) (\<lambda>_.
     and_then (ensure (card (WellKnownNodes s) < unat (MaxWellKnownNodes T)) (Module TooManyNodes)) (\<lambda>_.
     Ok (node_deposit_event (NodeAdded node_id owner)
           (s\<lparr>WellKnownNodes := insert node (WellKnownNodes s),
              Owners := (Owners s)(node \<mapsto> \<lparr>node_info_id = node_id_bytes, node_info_owner = owner\<rparr>)\<rparr>)))))))))"

definition remove_well_known_node ::
  "('o, 'l, 'c) node_config_scheme \<Rightarrow> 'o \<Rightarrow> node_id \<Rightarrow> 'm node_storage_scheme \<Rightarrow> 'm node_result" where
  "remove_well_known_node T origin node_id s =
     and_then (ensure (NodeAuthorizationOrigin T origin) BadOrigin) (\<lambda>_.
     and_then (short_node_id T node_id) (\<lambda>_.
     and_then (bounded_peer_id T node_id) (\<lambda>node.
     and_then (ensure (node \<in> WellKnownNodes s) (Module NotExist)) (\<lambda>_.
     Ok (node_deposit_event (NodeRemoved node_id)
           (s\<lparr>WellKnownNodes := WellKnownNodes s - {node}, Owners := (Owners s)(node := None),
              AdditionalConnections := (AdditionalConnections s)(node := {})\<rparr>))))))"

definition swap_well_known_node ::
  "('o, 'l, 'c) node_config_scheme \<Rightarrow> 'o \<Rightarrow> node_id \<Rightarrow> node_id \<Rightarrow> 'm node_storage_scheme \<Rightarrow> 'm node_result" where
  "swap_well_known_node T origin remove_id add_id s =
     and_then (node_sender T origin) (\<lambda>sender.
     and_then (short_node_id T remove_id) (\<lambda>_.
     and_then (short_node_id T add_id) (\<lambda>_.
     if remove_id = add_id then Ok s else
     and_then (bounded_peer_id T remove_id) (\<lambda>rem.
     and_then (owned_by sender rem s) (\<lambda>node_info.
     and_then (bounded_peer_id T add_id) (\<lambda>add.
     and_then (ensure (rem \<in> WellKnownNodes s) (Module NotExist)) (\<lambda>_.
     and_then (ensure (add \<notin> WellKnownNodes s) (Module AlreadyJoined)) (\<lambda>_.
     and_then (bounded_node_id T add_id) (\<lambda>node_id_bytes.
     let s1 = s\<lparr>WellKnownNodes := insert add (WellKnownNodes s - {rem})\<rparr>;
         s2 = s1\<lparr>Owners := (Owners s1)(rem := None,
                 add \<mapsto> \<lparr>node_info_id = node_id_bytes, node_info_owner = node_info_owner node_info\<rparr>)\<rparr>;
         s3 = s2\<lparr>AdditionalConnections := (AdditionalConnections s2)
                 (rem := AdditionalConnections s2 add, add := AdditionalConnections s2 rem)\<rparr>
     in Ok (node_deposit_event (NodeSwapped remove_id add_id) s3))))))))))"

definition transfer_node ::
  "('o, 'l, 'c) node_config_scheme \<Rightarrow> 'o \<Rightarrow> node_id \<Rightarrow> 'l \<Rightarrow> 'm node_storage_scheme \<Rightarrow> 'm node_result" where
  "transfer_node T origin node_id own s =
     and_then (node_sender T origin) (\<lambda>sender.
     and_then (node_account T own) (\<lambda>owner.
     and_then (short_node_id T node_id) (\<lambda>_.
     and_then (bounded_peer_id T node_id) (\<lambda>node.
     and_then (owned_by sender node s) (\<lambda>_.
     and_then (bounded_node_id T node_id) (\<lambda>node_id_bytes.
     Ok (node_deposit_event (NodeTransferred node_id owner)
           (s\<lparr>Owners := (Owners s)(node \<mapsto> \<lparr>node_info_id = node_id_bytes, node_info_owner = owner\<rparr>)\<rparr>))))))))"

definition add_connection ::
  "('o, 'l, 'c) node_config_scheme \<Rightarrow> 'o \<Rightarrow> node_id \<Rightarrow> node_id \<Rightarrow> 'm node_storage_scheme \<Rightarrow> 'm node_result" where
  "add_connection T origin node_id connection_id s =
     and_then (node_sender T origin) (\<lambda>sender.
     and_then (short_node_id T node_id) (\<lambda>_.
     and_then (bounded_peer_id T node_id) (\<lambda>node.
     and_then (owned_by sender node s) (\<lambda>_.
     and_then (bounded_peer_id T connection_id) (\<lambda>connection.
     let nodes = AdditionalConnections s node in
     and_then (ensure (connection \<notin> nodes) (Module AlreadyConnected)) (\<lambda>_.
     Ok (node_deposit_event (ConnectionsAdded node_id connection_id)
           (s\<lparr>AdditionalConnections := (AdditionalConnections s)(node := insert connection nodes)\<rparr>))))))))"

definition remove_connection ::
  "('o, 'l, 'c) node_config_scheme \<Rightarrow> 'o \<Rightarrow> node_id \<Rightarrow> node_id \<Rightarrow> 'm node_storage_scheme \<Rightarrow> 'm node_result" where
  "remove_connection T origin node_id connection_id s =
     and_then (node_sender T origin) (\<lambda>sender.
     and_then (short_node_id T node_id) (\<lambda>_.
     and_then (bounded_peer_id T node_id) (\<lambda>node.
     and_then (owned_by sender node s) (\<lambda>_.
     and_then (bounded_peer_id T connection_id) (\<lambda>connection.
     let nodes = AdditionalConnections s node in
     and_then (ensure (connection \<in> nodes) (Module NotExist)) (\<lambda>_.
     Ok (node_deposit_event (ConnectionsRemoved node_id connection_id)
           (s\<lparr>AdditionalConnections := (AdditionalConnections s)(node := nodes - {connection})\<rparr>))))))))"

datatype 'l NodeCall =
    AddWellKnownNode node_id 'l
  | RemoveWellKnownNode node_id
  | SwapWellKnownNode node_id node_id
  | TransferNode node_id 'l
  | AddConnection node_id node_id
  | RemoveConnection node_id node_id

fun node_dispatch ::
  "('o, 'l, 'c) node_config_scheme \<Rightarrow> 'o \<Rightarrow> 'l NodeCall \<Rightarrow> 'm node_storage_scheme \<Rightarrow> 'm node_result" where
  "node_dispatch T origin (AddWellKnownNode n l) s = add_well_known_node T origin n l s"
| "node_dispatch T origin (RemoveWellKnownNode n) s = remove_well_known_node T origin n s"
| "node_dispatch T origin (SwapWellKnownNode n n') s = swap_well_known_node T origin n n' s"
| "node_dispatch T origin (TransferNode n l) s = transfer_node T origin n l s"
| "node_dispatch T origin (AddConnection n c) s = add_connection T origin n c s"
| "node_dispatch T origin (RemoveConnection n c) s = remove_connection T origin n c s"

inductive node_step ::
  "('o, 'l, 'c) node_config_scheme \<Rightarrow> 'm node_storage_scheme \<Rightarrow> 'm node_storage_scheme \<Rightarrow> bool" for T where
  node_call: "node_dispatch T origin c s = Ok s' \<Longrightarrow> node_step T s s'"

text \<open>The storage the chain starts from. Nothing bounds the number of nodes it is built from.\<close>

definition node_built :: "('o, 'l, 'c) node_config_scheme \<Rightarrow> 'm node_storage_scheme \<Rightarrow> bool" where
  "node_built T s \<longleftrightarrow> (\<exists>nodes s0. WellKnownNodes s0 = {} \<and> Owners s0 = Map.empty \<and>
     AdditionalConnections s0 = (\<lambda>_. {}) \<and>
     s = initialize_nodes T nodes s0)"

section \<open>The effect of a call on one node\<close>

text \<open>
  What a call by a signer, or by the governing origin, may do to the nodes.
\<close>

inductive node_effect ::
  "('o, 'l, 'c) node_config_scheme \<Rightarrow> 'o \<Rightarrow> 'm node_storage_scheme \<Rightarrow> 'm node_storage_scheme \<Rightarrow> bool" for T origin s where
  noop: "node_effect T origin s s"
| added: "NodeAuthorizationOrigin T origin \<Longrightarrow> generate_peer_id T i = Ok n \<Longrightarrow> length i \<le> unat (MaxNodeIdLength T) \<Longrightarrow>
    n \<notin> WellKnownNodes s \<Longrightarrow> card (WellKnownNodes s) < unat (MaxWellKnownNodes T) \<Longrightarrow>
    WellKnownNodes s' = insert n (WellKnownNodes s) \<Longrightarrow>
    Owners s' = (Owners s)(n \<mapsto> \<lparr>node_info_id = i, node_info_owner = a\<rparr>) \<Longrightarrow>
    AdditionalConnections s' = AdditionalConnections s \<Longrightarrow> node_effect T origin s s'"
| removed: "NodeAuthorizationOrigin T origin \<Longrightarrow> n \<in> WellKnownNodes s \<Longrightarrow>
    WellKnownNodes s' = WellKnownNodes s - {n} \<Longrightarrow> Owners s' = (Owners s)(n := None) \<Longrightarrow>
    AdditionalConnections s' = (AdditionalConnections s)(n := {}) \<Longrightarrow> node_effect T origin s s'"
| swapped: "Owners s n = Some info \<Longrightarrow> node_signed T origin = Some (node_info_owner info) \<Longrightarrow>
    generate_peer_id T i = Ok n' \<Longrightarrow> length i \<le> unat (MaxNodeIdLength T) \<Longrightarrow>
    n \<in> WellKnownNodes s \<Longrightarrow> n' \<notin> WellKnownNodes s \<Longrightarrow> WellKnownNodes s' = insert n' (WellKnownNodes s - {n}) \<Longrightarrow>
    Owners s' = (Owners s)(n := None, n' \<mapsto> \<lparr>node_info_id = i, node_info_owner = node_info_owner info\<rparr>) \<Longrightarrow>
    AdditionalConnections s' = (AdditionalConnections s)(n := AdditionalConnections s n', n' := AdditionalConnections s n) \<Longrightarrow>
    node_effect T origin s s'"
| transferred: "Owners s n = Some info \<Longrightarrow> node_signed T origin = Some (node_info_owner info) \<Longrightarrow>
    generate_peer_id T i = Ok n \<Longrightarrow> length i \<le> unat (MaxNodeIdLength T) \<Longrightarrow>
    WellKnownNodes s' = WellKnownNodes s \<Longrightarrow> Owners s' = (Owners s)(n \<mapsto> \<lparr>node_info_id = i, node_info_owner = a\<rparr>) \<Longrightarrow>
    AdditionalConnections s' = AdditionalConnections s \<Longrightarrow> node_effect T origin s s'"
| connected: "Owners s n = Some info \<Longrightarrow> node_signed T origin = Some (node_info_owner info) \<Longrightarrow>
    WellKnownNodes s' = WellKnownNodes s \<Longrightarrow> Owners s' = Owners s \<Longrightarrow>
    finite (AdditionalConnections s n) \<longrightarrow> finite (AdditionalConnections s' n) \<Longrightarrow>
    AdditionalConnections s' = (AdditionalConnections s)(n := AdditionalConnections s' n) \<Longrightarrow> node_effect T origin s s'"

lemma node_event_frame [simp]:
  "WellKnownNodes (node_deposit_event e s) = WellKnownNodes s" "Owners (node_deposit_event e s) = Owners s"
  "AdditionalConnections (node_deposit_event e s) = AdditionalConnections s"
  by (simp_all add: node_deposit_event_def)

lemma bounded_peer_id_OkD: "bounded_peer_id T i = Ok n \<Longrightarrow> generate_peer_id T i = Ok n"
  by (auto simp: bounded_peer_id_def)

lemma bounded_node_id_Ok_iff [simp]: "bounded_node_id T i = Ok j \<longleftrightarrow> j = i \<and> length i \<le> unat (MaxNodeIdLength T)"
  by (auto simp: bounded_node_id_def)

lemma owned_by_Ok_iff [simp]: "owned_by a n s = Ok info \<longleftrightarrow> Owners s n = Some info \<and> node_info_owner info = a"
  by (auto simp: owned_by_def)

lemma node_sender_Ok_iff [simp]: "node_sender T origin = Ok a \<longleftrightarrow> node_signed T origin = Some a"
  by (simp add: node_sender_def)

lemma add_node_effect: "add_well_known_node T origin i l s = Ok s' \<Longrightarrow> node_effect T origin s s'"
  by (auto simp: add_well_known_node_def dest!: bounded_peer_id_OkD intro!: node_effect.added)

lemma remove_node_effect: "remove_well_known_node T origin i s = Ok s' \<Longrightarrow> node_effect T origin s s'"
  by (auto simp: remove_well_known_node_def dest!: bounded_peer_id_OkD intro!: node_effect.removed)

lemma swap_node_effect:
  assumes "swap_well_known_node T origin i j s = Ok s'"
  shows "node_effect T origin s s'"
proof (cases "i = j")
  case True
  with assms show ?thesis by (auto simp: swap_well_known_node_def intro: node_effect.noop)
next
  case False
  with assms show ?thesis
    by (auto simp: swap_well_known_node_def Let_def dest!: bounded_peer_id_OkD intro!: node_effect.swapped [where i = j])
qed

lemma transfer_node_effect: "transfer_node T origin i l s = Ok s' \<Longrightarrow> node_effect T origin s s'"
  by (auto simp: transfer_node_def dest!: bounded_peer_id_OkD intro!: node_effect.transferred)

lemma add_connection_effect: "add_connection T origin i j s = Ok s' \<Longrightarrow> node_effect T origin s s'"
  by (clarsimp simp: add_connection_def Let_def)
    (rule node_effect.connected, (assumption | rule refl | simp)+)

lemma remove_connection_effect: "remove_connection T origin i j s = Ok s' \<Longrightarrow> node_effect T origin s s'"
  by (clarsimp simp: remove_connection_def Let_def)
    (rule node_effect.connected, (assumption | rule refl | simp)+)

lemma node_dispatch_effect: "node_dispatch T origin c s = Ok s' \<Longrightarrow> node_effect T origin s s'"
  by (cases c) (auto intro: add_node_effect remove_node_effect swap_node_effect transfer_node_effect
      add_connection_effect remove_connection_effect)


section \<open>Invariant\<close>

text \<open>
  Every owned node is well known and recorded under the peer identifier its node identifier decodes
  to, connections are for owned nodes only, and the sets are finite and within the bound.
\<close>

definition node_wf :: "('o, 'l, 'c) node_config_scheme \<Rightarrow> 'm node_storage_scheme \<Rightarrow> bool" where
  "node_wf T s \<longleftrightarrow> finite (WellKnownNodes s) \<and>
     (\<forall>n info. Owners s n = Some info \<longrightarrow> n \<in> WellKnownNodes s \<and>
        generate_peer_id T (node_info_id info) = Ok n \<and> length (node_info_id info) \<le> unat (MaxNodeIdLength T)) \<and>
     (\<forall>n. finite (AdditionalConnections s n) \<and> (AdditionalConnections s n \<noteq> {} \<longrightarrow> Owners s n \<noteq> None))"

lemma node_wf_unowned: "node_wf T s \<Longrightarrow> n \<notin> WellKnownNodes s \<Longrightarrow> Owners s n = None \<and> AdditionalConnections s n = {}"
  unfolding node_wf_def by (metis not_None_eq)

lemma node_wf_effect:
  assumes "node_effect T origin s s'" "node_wf T s"
  shows "node_wf T s'"
  using assms(1)
proof cases
  case noop
  with assms(2) show ?thesis by simp
next
  case (added i n a)
  with assms(2) show ?thesis by (auto simp: node_wf_def)
next
  case (removed n)
  with assms(2) show ?thesis by (auto simp: node_wf_def)
next
  case (swapped n info i n')
  have "AdditionalConnections s n' = {}" using node_wf_unowned [OF assms(2) swapped(6)] by simp
  then show ?thesis using swapped assms(2) by (auto simp: node_wf_def)
next
  case (transferred n info i a)
  with assms(2) show ?thesis by (auto simp: node_wf_def)
next
  case (connected n info)
  have "AdditionalConnections s' k = (if k = n then AdditionalConnections s' n else AdditionalConnections s k)" for k
    using connected(6) by (metis fun_upd_apply)
  with connected(1-5) assms(2) show ?thesis unfolding node_wf_def by (metis option.distinct(1))
qed

text \<open>No call makes the number of nodes exceed the bound, unless the chain started above it; then none makes it grow.\<close>

lemma node_effect_card:
  assumes "node_effect T origin s s'" "node_wf T s"
  shows "card (WellKnownNodes s') \<le> max (card (WellKnownNodes s)) (unat (MaxWellKnownNodes T))"
  using assms(1)
proof cases
  case (swapped n info i n')
  have "card (insert n' (WellKnownNodes s - {n})) = card (WellKnownNodes s)"
    using swapped(5,6) assms(2) by (simp add: node_wf_def card_Diff_singleton card_gt_0_iff) (metis Suc_pred card_gt_0_iff empty_iff)
  then show ?thesis using swapped by simp
next
  case (removed n)
  then show ?thesis using card_Diff1_le [of "WellKnownNodes s" n] by (auto simp: le_max_iff_disj)
qed (use assms(2) in \<open>auto simp: node_wf_def\<close>)

lemma peer_ids_of_iff: "n \<in> peer_ids_of T nodes \<longleftrightarrow> (\<exists>(i, a) \<in> set nodes. generate_peer_id T i = Ok n)"
  by (induction T nodes rule: peer_ids_of.induct) (auto split: result.splits)

lemma peer_ids_of_card: "finite (peer_ids_of T nodes) \<and> card (peer_ids_of T nodes) \<le> length nodes"
proof (induction T nodes rule: peer_ids_of.induct)
  case (2 T i a nodes)
  then show ?case by (cases "generate_peer_id T i") (auto simp: card_insert_if)
qed simp

lemma initialize_node_frame:
  "WellKnownNodes (initialize_node T n s) = WellKnownNodes s \<and>
   AdditionalConnections (initialize_node T n s) = AdditionalConnections s"
  by (simp add: initialize_node_def split: prod.split result.split)

lemma initialize_fold:
  assumes "\<forall>(i, a) \<in> set nodes. \<forall>n. generate_peer_id T i = Ok n \<longrightarrow> n \<in> WellKnownNodes s" "node_wf T s"
  shows "node_wf T (fold (initialize_node T) nodes s)"
  using assms
proof (induction nodes arbitrary: s)
  case (Cons x nodes)
  obtain i a where x: "x = (i, a)" by (cases x)
  have "node_wf T (initialize_node T x s)"
    using Cons.prems by (auto simp: x initialize_node_def node_wf_def split: result.splits)
  with Cons.IH [of "initialize_node T x s"] Cons.prems(1) show ?case by (simp add: initialize_node_frame)
qed simp

interpretation node_inv: invariant_system "node_built T" "node_step T" "node_wf T" for T
proof (unfold_locales, goal_cases)
  case (1 s)
  then obtain nodes s0 where s0: "WellKnownNodes s0 = {}" "Owners s0 = Map.empty" "AdditionalConnections s0 = (\<lambda>_. {})"
    "s = initialize_nodes T nodes s0"
    by (auto simp: node_built_def)
  let ?s = "s0\<lparr>WellKnownNodes := peer_ids_of T nodes\<rparr>"
  have "node_wf T ?s" using s0 peer_ids_of_card [of T nodes] by (simp add: node_wf_def)
  with initialize_fold [of nodes T ?s] show ?case
    by (auto simp: s0(4) initialize_nodes_def peer_ids_of_iff)
next
  case (2 s t)
  from 2(2) show ?case by cases (rule node_wf_effect [OF node_dispatch_effect 2(1)])
qed


section \<open>What others can do to a node\<close>

lemma node_effect_foreign:
  assumes "node_effect T origin s s'" "node_wf T s" "Owners s n = Some info"
    and "\<not> NodeAuthorizationOrigin T origin" "node_signed T origin \<noteq> Some (node_info_owner info)"
  shows "Owners s' n = Owners s n \<and> AdditionalConnections s' n = AdditionalConnections s n"
proof -
  have n: "n \<in> WellKnownNodes s" using assms(2,3) by (simp add: node_wf_def)
  from assms(1) show ?thesis
  proof cases
    case (swapped m info' i m')
    then have "n \<noteq> m" "n \<noteq> m'" using assms(3,5) n by auto
    with swapped show ?thesis by simp
  next
    case (connected m info')
    then have "n \<noteq> m" using assms(3,5) by auto
    with connected(6) show ?thesis by (metis connected(4) fun_upd_other)
  qed (use assms(3-5) in auto)
qed

lemma node_run_foreign:
  assumes "run_all (\<lambda>(origin, c). node_dispatch T origin c) cs s = Ok t" "node_wf T s" "Owners s n = Some info"
    and "\<forall>(origin, c) \<in> set cs. \<not> NodeAuthorizationOrigin T origin \<and> node_signed T origin \<noteq> Some (node_info_owner info)"
  shows "node_wf T t \<and> Owners t n = Some info \<and> AdditionalConnections t n = AdditionalConnections s n"
  using assms
proof (induction cs arbitrary: s)
  case (Cons x cs)
  obtain origin c where x: "x = (origin, c)" by (cases x)
  from Cons.prems(1) obtain u where u: "node_dispatch T origin c s = Ok u"
    "run_all (\<lambda>(origin, c). node_dispatch T origin c) cs u = Ok t" by (auto simp: x)
  note e = node_dispatch_effect [OF u(1)]
  have "Owners u n = Owners s n \<and> AdditionalConnections u n = AdditionalConnections s n"
    using Cons.prems(4) by (intro node_effect_foreign [OF e Cons.prems(2,3)]) (auto simp: x)
  with Cons.IH [OF u(2) node_wf_effect [OF e Cons.prems(2)]] Cons.prems(3,4) show ?case by simp
qed simp

section \<open>A small network of nodes\<close>

text \<open>The account \<open>[9]\<close> governs; addresses are accounts.\<close>

definition sample_node_config :: "(account, account) node_config" where
  "sample_node_config = \<lparr>overflow_checks = True, hashing = sample_hash, encode_hash = id,
     encode_account = id, encode_ident = id, encode_vec = id, blake2b_64 = sample_hash,
     bs58_encode = halves, bs58_decode = unhalves,
     MaxWellKnownNodes = 4, MaxPeerIdLength = 8, MaxNodeIdLength = 6,
     NodeAuthorizationOrigin = (\<lambda>origin. origin = [9]), node_signed = Some, node_lookup = Some\<rparr>"

lemma sample_node_config_simps [simp]:
  "MaxWellKnownNodes sample_node_config = 4" "MaxPeerIdLength sample_node_config = 8"
  "MaxNodeIdLength sample_node_config = 6" "NodeAuthorizationOrigin sample_node_config o' \<longleftrightarrow> o' = [9]"
  "node_signed sample_node_config = Some" "node_lookup sample_node_config = Some"
  by (simp_all add: sample_node_config_def)

lemmas sample_node_defs = swap_well_known_node_def add_connection_def node_sender_def short_node_id_def
  bounded_peer_id_def owned_by_def bounded_node_id_def Let_def

definition sample_nodes_0 :: node_storage where
  "sample_nodes_0 = \<lparr>block_number = 0, extrinsic_index = None, WellKnownNodes = {}, Owners = Map.empty,
     AdditionalConnections = (\<lambda>_. {}), node_events = []\<rparr>"

definition sample_nodes :: node_storage where
  "sample_nodes = initialize_nodes sample_node_config [([1, 1], [1]), ([2, 2], [2])] sample_nodes_0"

lemma sample_nodes_reachable: "reachable (node_built sample_node_config) (node_step sample_node_config) sample_nodes"
  by (rule reach_init, unfold node_built_def, rule exI [of _ "[([1, 1], [1]), ([2, 2], [2])]"],
      rule exI [of _ sample_nodes_0])
    (simp add: sample_nodes_def sample_nodes_0_def)

lemma sample_peers:
  "generate_peer_id sample_node_config [1, 1] = Ok [0x11]" "generate_peer_id sample_node_config [2, 2] = Ok [0x22]"
  "generate_peer_id sample_node_config [3, 3] = Ok [0x33]"
  by code_simp+

lemma sample_nodes_facts:
  "WellKnownNodes sample_nodes = {[0x11], [0x22]}"
  "Owners sample_nodes = [[0x11] \<mapsto> \<lparr>node_info_id = [1, 1], node_info_owner = [1]\<rparr>,
     [0x22] \<mapsto> \<lparr>node_info_id = [2, 2], node_info_owner = [2]\<rparr>]"
  "AdditionalConnections sample_nodes = (\<lambda>_. {})"
  by (simp_all add: sample_nodes_def sample_nodes_0_def initialize_nodes_def initialize_node_def sample_peers)


section \<open>Properties\<close>

text \<open>In every reachable storage owned nodes are well known and recorded under their peer identifier,
  connections exist for owned nodes only; and a node is
  told, in order and without repetition, its own connections and, if it is well known, all other
  well-known nodes.\<close>

theorem node_reachable_wf:
  assumes "reachable (node_built T) (node_step T) s"
  shows "node_wf T s \<and> sorted (get_authorized_nodes n s) \<and> distinct (get_authorized_nodes n s) \<and>
    set (get_authorized_nodes n s) =
      AdditionalConnections s n \<union> (if n \<in> WellKnownNodes s then WellKnownNodes s - {n} else {})"
proof -
  have "node_wf T s" by (rule node_inv.inv_reachable [OF assms])
  then show ?thesis by (simp add: get_authorized_nodes_def node_wf_def)
qed

theorem node_reachable_wf_witness:
  "set (get_authorized_nodes [0x11] sample_nodes) = {[0x22]}"
  using node_reachable_wf [OF sample_nodes_reachable, of "[0x11]"] by (simp add: sample_nodes_facts)

text \<open>C20: a node and its connections are out of reach of others: along any run of calls none of which comes
  from the governing origin or is signed by the owner, the node stays well known with the same owner
  and the same connections.\<close>

theorem node_under_owner_control:
  assumes "reachable (node_built T) (node_step T) s" "Owners s n = Some info"
    and "run_all (\<lambda>(origin, c). node_dispatch T origin c) cs s = Ok t"
    and "\<forall>(origin, c) \<in> set cs. \<not> NodeAuthorizationOrigin T origin \<and> node_signed T origin \<noteq> Some (node_info_owner info)"
  shows "n \<in> WellKnownNodes t \<and> Owners t n = Some info \<and> AdditionalConnections t n = AdditionalConnections s n"
  using node_run_foreign [OF assms(3) node_inv.inv_reachable [OF assms(1)] assms(2,4)] by (auto simp: node_wf_def)

theorem node_under_owner_control_witness:
  "\<exists>t. run_all (\<lambda>(origin, c). node_dispatch sample_node_config origin c)
        [([2], SwapWellKnownNode [2, 2] [3, 3]), ([2], AddConnection [3, 3] [1, 1])] sample_nodes = Ok t \<and>
     Owners t [0x11] = Some \<lparr>node_info_id = [1, 1], node_info_owner = [1]\<rparr>"
proof -
  let ?run = "run_all (\<lambda>(origin, c). node_dispatch sample_node_config origin c)
        [([2], SwapWellKnownNode [2, 2] [3, 3]), ([2], AddConnection [3, 3] [1, 1])] sample_nodes"
  have "is_Ok ?run"
    by (simp add: sample_node_defs sample_peers sample_nodes_facts cong: and_then_weak_cong)
  then obtain t where t: "?run = Ok t" by (cases "?run") auto
  have "Owners sample_nodes [0x11] = Some \<lparr>node_info_id = [1, 1], node_info_owner = [1]\<rparr>"
    by (simp add: sample_nodes_facts)
  from node_under_owner_control [OF sample_nodes_reachable this t] t show ?thesis by auto
qed

text \<open>A swap can be undone: swapping the new node back for the old one succeeds and restores the well-known
  nodes, the owners and the connections.\<close>

theorem swap_node_roundtrip:
  assumes "reachable (node_built T) (node_step T) s" "swap_well_known_node T origin i j s = Ok s1" "i \<noteq> j"
    and "generate_peer_id T i = Ok n" "map_option node_info_id (Owners s n) = Some i"
  shows "\<exists>s2. swap_well_known_node T origin j i s1 = Ok s2 \<and> WellKnownNodes s2 = WellKnownNodes s \<and>
    Owners s2 = Owners s \<and> AdditionalConnections s2 = AdditionalConnections s"
proof -
  have wf: "node_wf T s" by (rule node_inv.inv_reachable [OF assms(1)])
  have n: "bounded_peer_id T i = Ok m \<longleftrightarrow> m = n \<and> length n < unat (MaxPeerIdLength T)" for m
    using assms(4) by (auto simp: bounded_peer_id_def)
  from assms(2,3) obtain a n' info where
    ok: "node_signed T origin = Some a" "short_node_id T i = Ok ()" "short_node_id T j = Ok ()"
      "bounded_peer_id T i = Ok n" "bounded_peer_id T j = Ok n'" "Owners s n = Some info" "node_info_owner info = a"
      "n \<in> WellKnownNodes s" "n' \<notin> WellKnownNodes s" "length j \<le> unat (MaxNodeIdLength T)"
    and s1: "WellKnownNodes s1 = insert n' (WellKnownNodes s - {n})"
      "Owners s1 = (Owners s)(n := None, n' \<mapsto> \<lparr>node_info_id = j, node_info_owner = a\<rparr>)"
      "AdditionalConnections s1 = (AdditionalConnections s)(n := AdditionalConnections s n', n' := AdditionalConnections s n)"
    by (auto simp: swap_well_known_node_def Let_def n)
  have info: "Owners s n = Some \<lparr>node_info_id = i, node_info_owner = a\<rparr>" using ok(6,7) assms(5) by (cases info) auto
  have "length i \<le> unat (MaxNodeIdLength T)" using ok(2) by (simp add: short_node_id_def)
  moreover have "n \<noteq> n'" "Owners s n' = None" using ok(8,9) node_wf_unowned [OF wf ok(9)] by auto
  ultimately show ?thesis
    using ok(1-5,8,9) assms(3) info
    by (auto simp: swap_well_known_node_def owned_by_def node_sender_def bounded_node_id_def s1 Let_def)
qed

theorem swap_node_roundtrip_witness:
  "\<exists>s1 s2. swap_well_known_node sample_node_config [1] [1, 1] [3, 3] sample_nodes = Ok s1 \<and>
     swap_well_known_node sample_node_config [1] [3, 3] [1, 1] s1 = Ok s2 \<and> Owners s2 = Owners sample_nodes"
proof -
  have "is_Ok (swap_well_known_node sample_node_config [1] [1, 1] [3, 3] sample_nodes)"
    by (simp add: sample_node_defs sample_peers sample_nodes_facts cong: and_then_weak_cong)
  then obtain s1 where s1: "swap_well_known_node sample_node_config [1] [1, 1] [3, 3] sample_nodes = Ok s1"
    by (cases "swap_well_known_node sample_node_config [1] [1, 1] [3, 3] sample_nodes") auto
  from swap_node_roundtrip [OF sample_nodes_reachable s1 _ sample_peers(1)] s1 show ?thesis
    by (auto simp: sample_nodes_facts)
qed

text \<open>
  An identifier of the maximal length is accepted for a new node, but no later call takes it: the
  node cannot be removed, swapped, transferred or connected under this identifier.
\<close>

theorem longest_node_id_is_stuck:
  assumes "add_well_known_node T origin i l s = Ok s1" "length i = unat (MaxNodeIdLength T)"
    and "NodeAuthorizationOrigin T gov" "node_signed T origin' = Some a" "node_lookup T l' = Some b"
  shows "remove_well_known_node T gov i t = Err (Module NodeIdTooLong)"
    and "swap_well_known_node T origin' i j t = Err (Module NodeIdTooLong)"
    and "transfer_node T origin' i l' t = Err (Module NodeIdTooLong)"
    and "add_connection T origin' i j t = Err (Module NodeIdTooLong)"
  using assms(2-5)
  by (simp_all add: remove_well_known_node_def swap_well_known_node_def transfer_node_def add_connection_def
      short_node_id_def node_sender_def node_account_def)

end
