(* ===== verification/Authorities.thy ===== *)
theory Authorities
  imports Network_Membership
begin

text \<open>
  The authorities pallet of the runtimes (\<^verbatim>\<open>runtimes/common/authorities/src\<close>): the accounts that
  validate, the queues of those that come in and go out with the next session, and the black list.
  The pallet is the session manager of \<^verbatim>\<open>pallet_session\<close>, which is outside the repository: the current
  validators and the session keys are fields of the storage, the purge of keys and the conversions
  between accounts and validators are parameters. \<^verbatim>\<open>IsMember\<close> is the network-membership pallet, as in the
  runtimes, so that the storage extends the one of that pallet.

  Shown: what a new session consists of; who can get into the set of authorities; and two gaps, that
  an offender who is coming in validates in spite of the black list, and that all members can go
  offline at once.
\<close>

section \<open>Types\<close>

type_synonym validator = account

datatype AuthorityEvent =
    IncomingAuthorities_event "validator list"
  | OutgoingAuthorities_event "validator list"
  | MemberAdded account
  | MemberGoOffline account
  | MemberGoOnline account
  | MemberRemoved account
  | MemberWhiteList account
  | MemberDisconnected validator
  | MemberBlacklistedRemoved validator

datatype AuthorityError =
    MemberAlreadyIncoming | MemberAlreadyExists | MemberAlreadyOutgoing | MemberNotFound | MemberBlackListed
  | SessionKeysNotAdded | MemberNotBlackListed | NetworkMembershipNotFound | TooLowAuthorityCount

text \<open>The error of \<^verbatim>\<open>pallet_session\<close> the calls pass on.\<close>

datatype SessionError = NoAssociatedValidatorId

datatype SlashStrategy = Disconnect | BlackListing

text \<open>An offender is identified by the validator and its full identification.\<close>

record 'i offence_details =
  offender :: "validator \<times> 'i"
  reporters :: "account list"

record authority_storage = membership_storage +
  IncomingAuthorities :: "validator list"
  OutgoingAuthorities :: "validator list"
  AuthorityMembers :: "validator list"
  BlackList :: "validator list"
  session_validators :: "validator list"
  session_keys :: "account \<Rightarrow> bytes option"
  authority_events :: "AuthorityEvent list"

record ('o, 'i) authority_config = "'o membership_config" +
  MinAuthorities :: u32
  AuthorityMembershipOrigin :: "'o \<Rightarrow> bool"
  authority_signed :: "'o \<Rightarrow> account option"
  ValidatorIdOf :: "account \<Rightarrow> validator option"
  FullIdentificationOf :: "validator \<Rightarrow> 'i option"
  purge_keys :: "account \<Rightarrow> (account \<Rightarrow> bytes option) \<Rightarrow> (account \<Rightarrow> bytes option)"

type_synonym 'm authority_result =
  "('m authority_storage_scheme, (AuthorityError + SessionError) dispatch_error) result"

section \<open>Internal functions\<close>

definition authority_deposit_event ::
  "AuthorityEvent \<Rightarrow> 'm authority_storage_scheme \<Rightarrow> 'm authority_storage_scheme" where
  "authority_deposit_event e s = s\<lparr>authority_events := authority_events s @ [e]\<rparr>"

definition mark_for_removal :: "validator \<Rightarrow> 'm authority_storage_scheme \<Rightarrow> 'm authority_storage_scheme" where
  "mark_for_removal a s = s\<lparr>OutgoingAuthorities := OutgoingAuthorities s @ [a]\<rparr>"

definition mark_for_disconnect :: "validator \<Rightarrow> 'm authority_storage_scheme \<Rightarrow> 'm authority_storage_scheme" where
  "mark_for_disconnect a s =
     authority_deposit_event (MemberDisconnected a) (s\<lparr>OutgoingAuthorities := OutgoingAuthorities s @ [a]\<rparr>)"

definition mark_for_addition :: "validator \<Rightarrow> 'm authority_storage_scheme \<Rightarrow> 'm authority_storage_scheme" where
  "mark_for_addition a s = s\<lparr>IncomingAuthorities := IncomingAuthorities s @ [a]\<rparr>"

definition mark_for_blacklist_and_removal ::
  "validator \<Rightarrow> 'm authority_storage_scheme \<Rightarrow> 'm authority_storage_scheme" where
  "mark_for_blacklist_and_removal a s =
     (let s1 = s\<lparr>BlackList := BlackList s @ [a]\<rparr>; s2 = s1\<lparr>OutgoingAuthorities := OutgoingAuthorities s1 @ [a]\<rparr>
      in authority_deposit_event (MemberBlacklistedRemoved a) s2)"

definition is_incoming :: "validator \<Rightarrow> 'm authority_storage_scheme \<Rightarrow> bool" where
  "is_incoming a s \<longleftrightarrow> a \<in> set (IncomingAuthorities s)"

definition is_outgoing :: "validator \<Rightarrow> 'm authority_storage_scheme \<Rightarrow> bool" where
  "is_outgoing a s \<longleftrightarrow> a \<in> set (OutgoingAuthorities s)"

definition is_blacklisted :: "validator \<Rightarrow> 'm authority_storage_scheme \<Rightarrow> bool" where
  "is_blacklisted a s \<longleftrightarrow> a \<in> set (BlackList s)"

definition add_authority_member :: "validator \<Rightarrow> 'm authority_storage_scheme \<Rightarrow> 'm authority_result" where
  "add_authority_member a s =
     and_then (ensure (a \<notin> set (AuthorityMembers s)) (Module (Inl MemberAlreadyExists))) (\<lambda>_.
     Ok (mark_for_addition a (s\<lparr>AuthorityMembers := AuthorityMembers s @ [a]\<rparr>)))"

text \<open>\<open>authorities.len().saturating_sub(1) as u32\<close> cuts the length off to 32 bits.\<close>

definition enough_without_one :: "('o, 'i, 'c) authority_config_scheme \<Rightarrow> validator list \<Rightarrow> bool" where
  "enough_without_one T authorities \<longleftrightarrow> MinAuthorities T \<le> (of_nat (length authorities - 1) :: u32)"

definition remove_authority_member ::
  "('o, 'i, 'c) authority_config_scheme \<Rightarrow> validator \<Rightarrow> 'm authority_storage_scheme \<Rightarrow> 'm authority_result" where
  "remove_authority_member T a s =
     (let authorities = AuthorityMembers s in
     and_then (ensure (a \<in> set authorities) (Module (Inl MemberNotFound))) (\<lambda>_.
     and_then (ensure (enough_without_one T authorities) (Module (Inl TooLowAuthorityCount))) (\<lambda>_.
     Ok (mark_for_removal a (s\<lparr>AuthorityMembers := filter (\<lambda>v. v \<noteq> a) authorities\<rparr>)))))"

definition remove_from_blacklist :: "validator \<Rightarrow> 'm authority_storage_scheme \<Rightarrow> 'm authority_storage_scheme" where
  "remove_from_blacklist a s = s\<lparr>BlackList := filter (\<lambda>v. v \<noteq> a) (BlackList s)\<rparr>"

section \<open>Extrinsics\<close>

definition validator_of ::
  "('o, 'i, 'c) authority_config_scheme \<Rightarrow> account \<Rightarrow> (validator, (AuthorityError + SessionError) dispatch_error) result" where
  "validator_of T a = ok_or (ValidatorIdOf T a) (Module (Inr NoAssociatedValidatorId))"

definition authority_nominate ::
  "('o, 'i, 'c) authority_config_scheme \<Rightarrow> 'o \<Rightarrow> account \<Rightarrow> 'm authority_storage_scheme \<Rightarrow> 'm authority_result" where
  "authority_nominate T origin candidate s =
     and_then (ensure (AuthorityMembershipOrigin T origin) BadOrigin) (\<lambda>_.
     if \<not> is_member candidate s then Err (Module (Inl NetworkMembershipNotFound)) else
     and_then (validator_of T candidate) (\<lambda>m.
     if is_blacklisted m s then Err (Module (Inl MemberBlackListed)) else
     if is_incoming m s then Err (Module (Inl MemberAlreadyIncoming)) else
     if is_outgoing m s then Err (Module (Inl MemberAlreadyOutgoing)) else
     and_then (add_authority_member m s) (\<lambda>s1.
     Ok (authority_deposit_event (MemberAdded candidate) s1))))"

definition authority_remove ::
  "('o, 'i, 'c) authority_config_scheme \<Rightarrow> 'o \<Rightarrow> account \<Rightarrow> 'm authority_storage_scheme \<Rightarrow> 'm authority_result" where
  "authority_remove T origin candidate s =
     and_then (ensure (AuthorityMembershipOrigin T origin) BadOrigin) (\<lambda>_.
     and_then (validator_of T candidate) (\<lambda>m.
     and_then (remove_authority_member T m s) (\<lambda>s1.
     let s2 = s1\<lparr>session_keys := purge_keys T candidate (session_keys s1)\<rparr>
     in Ok (authority_deposit_event (MemberRemoved candidate) s2))))"

definition remove_member_from_blacklist ::
  "('o, 'i, 'c) authority_config_scheme \<Rightarrow> 'o \<Rightarrow> account \<Rightarrow> 'm authority_storage_scheme \<Rightarrow> 'm authority_result" where
  "remove_member_from_blacklist T origin candidate s =
     and_then (ensure (AuthorityMembershipOrigin T origin) BadOrigin) (\<lambda>_.
     and_then (validator_of T candidate) (\<lambda>m.
     and_then (ensure (m \<in> set (BlackList s)) (Module (Inl MemberNotBlackListed))) (\<lambda>_.
     Ok (authority_deposit_event (MemberWhiteList candidate) (remove_from_blacklist m s)))))"

definition go_offline ::
  "('o, 'i, 'c) authority_config_scheme \<Rightarrow> 'o \<Rightarrow> 'm authority_storage_scheme \<Rightarrow> 'm authority_result" where
  "go_offline T origin s =
     and_then (ok_or (authority_signed T origin) BadOrigin) (\<lambda>who.
     and_then (validator_of T who) (\<lambda>m.
     let authorities = AuthorityMembers s in
     and_then (ensure (m \<in> set authorities) (Module (Inl MemberNotFound))) (\<lambda>_.
     and_then (ensure (enough_without_one T authorities) (Module (Inl TooLowAuthorityCount))) (\<lambda>_.
     Ok (authority_deposit_event (MemberGoOffline who) (mark_for_removal m s))))))"

definition go_online ::
  "('o, 'i, 'c) authority_config_scheme \<Rightarrow> 'o \<Rightarrow> 'm authority_storage_scheme \<Rightarrow> 'm authority_result" where
  "go_online T origin s =
     and_then (ok_or (authority_signed T origin) BadOrigin) (\<lambda>who.
     and_then (validator_of T who) (\<lambda>m.
     if is_blacklisted m s then Err (Module (Inl MemberBlackListed)) else
     and_then (ensure (m \<in> set (AuthorityMembers s)) (Module (Inl MemberNotFound))) (\<lambda>_.
     Ok (authority_deposit_event (MemberGoOnline who) (mark_for_addition m s)))))"

section \<open>The session manager\<close>

fun remove_each :: "validator list \<Rightarrow> validator list \<Rightarrow> (validator list, 'e) result" where
  "remove_each [] authorities = Ok authorities"
| "remove_each (v # vs) authorities =
     (case position v authorities of
        Some pos \<Rightarrow> and_then (swap_remove pos authorities) (remove_each vs)
      | None \<Rightarrow> remove_each vs authorities)"

fun push_each :: "validator list \<Rightarrow> validator list \<Rightarrow> validator list" where
  "push_each [] authorities = authorities"
| "push_each (v # vs) authorities = push_each vs (if v \<notin> set authorities then authorities @ [v] else authorities)"

definition new_session ::
  "'m authority_storage_scheme \<Rightarrow> (validator list option \<times> 'm authority_storage_scheme, unit) result" where
  "new_session s =
     (let members_to_add = IncomingAuthorities s; members_to_del = OutgoingAuthorities s;
          s1 = s\<lparr>IncomingAuthorities := [], OutgoingAuthorities := []\<rparr>
      in if members_to_add = [] \<and> members_to_del = [] then Ok (None, s1)
         else let s2 = (if members_to_add = []
                        then authority_deposit_event (OutgoingAuthorities_event members_to_del) s1
                        else authority_deposit_event (IncomingAuthorities_event members_to_add) s1)
              in and_then (remove_each members_to_del (session_validators s2)) (\<lambda>authorities.
                 Ok (Some (push_each members_to_add authorities), s2)))"

definition new_session_genesis :: "'m authority_storage_scheme \<Rightarrow> validator list option" where
  "new_session_genesis s = Some (AuthorityMembers s)"

definition add_full_identification ::
  "('o, 'i, 'c) authority_config_scheme \<Rightarrow> validator \<Rightarrow> (validator \<times> 'i) option" where
  "add_full_identification T validator_id =
     map_option (\<lambda>full_ident. (validator_id, full_ident)) (FullIdentificationOf T validator_id)"

definition historical_new_session ::
  "('o, 'i, 'c) authority_config_scheme \<Rightarrow> 'm authority_storage_scheme
   \<Rightarrow> ((validator \<times> 'i) list option \<times> 'm authority_storage_scheme, unit) result" where
  "historical_new_session T s =
     and_then (new_session s) (\<lambda>(validators_ids, s1).
     Ok (map_option (List.map_filter (add_full_identification T)) validators_ids, s1))"

definition historical_new_session_genesis ::
  "('o, 'i, 'c) authority_config_scheme \<Rightarrow> 'm authority_storage_scheme \<Rightarrow> (validator \<times> 'i) list option" where
  "historical_new_session_genesis T s =
     map_option (List.map_filter (add_full_identification T)) (new_session_genesis s)"

text \<open>The genesis build refuses to run on a storage that has members.\<close>

definition authority_genesis_build ::
  "validator list \<Rightarrow> 'm authority_storage_scheme \<Rightarrow> ('m authority_storage_scheme, unit) result" where
  "authority_genesis_build initial_authorities s =
     (if AuthorityMembers s = [] then Ok (s\<lparr>AuthorityMembers := initial_authorities\<rparr>) else Panic)"

section \<open>Offences\<close>

text \<open>
  The handler of offences. On the black-listing branch the closure of the outer
  \<^verbatim>\<open>BlackList::mutate\<close> works on a copy \<open>blacklist\<close>, calls \<open>mark_for_blacklist_and_removal\<close>, which
  writes the stored list, and then the copy is written back over it.
\<close>

definition blacklist_offender ::
  "('o, 'i, 'c) authority_config_scheme \<Rightarrow> 'i offence_details \<Rightarrow> 'm authority_storage_scheme \<Rightarrow> 'm authority_storage_scheme" where
  "blacklist_offender T d s =
     (let blacklist = BlackList s in
      case ValidatorIdOf T (fst (offender d)) of
        Some m \<Rightarrow>
          let blacklist' = (if m \<notin> set blacklist then blacklist @ [m] else blacklist);
              s1 = mark_for_blacklist_and_removal m s
          in s1\<lparr>BlackList := blacklist'\<rparr>
      | None \<Rightarrow> s\<lparr>BlackList := blacklist\<rparr>)"

definition disconnect_offender ::
  "('o, 'i, 'c) authority_config_scheme \<Rightarrow> 'i offence_details \<Rightarrow> 'm authority_storage_scheme \<Rightarrow> 'm authority_storage_scheme" where
  "disconnect_offender T d s =
     (case ValidatorIdOf T (fst (offender d)) of Some m \<Rightarrow> mark_for_disconnect m s | None \<Rightarrow> s)"

fun on_offence ::
  "('o, 'i, 'c) authority_config_scheme \<Rightarrow> 'i offence_details list \<Rightarrow> SlashStrategy \<Rightarrow> 'm authority_storage_scheme
   \<Rightarrow> 'm authority_storage_scheme" where
  "on_offence T offenders BlackListing s = fold (blacklist_offender T) offenders s"
| "on_offence T offenders Disconnect s = fold (disconnect_offender T) offenders s"

section \<open>Calls and sessions\<close>

datatype AuthorityCall =
    NominateAuthority account
  | RemoveAuthority account
  | RemoveFromBlacklist account
  | GoOffline
  | GoOnline

fun authority_dispatch ::
  "('o, 'i, 'c) authority_config_scheme \<Rightarrow> 'o \<times> AuthorityCall \<Rightarrow> 'm authority_storage_scheme \<Rightarrow> 'm authority_result" where
  "authority_dispatch T (origin, NominateAuthority a) s = authority_nominate T origin a s"
| "authority_dispatch T (origin, RemoveAuthority a) s = authority_remove T origin a s"
| "authority_dispatch T (origin, RemoveFromBlacklist a) s = remove_member_from_blacklist T origin a s"
| "authority_dispatch T (origin, GoOffline) s = go_offline T origin s"
| "authority_dispatch T (origin, GoOnline) s = go_online T origin s"

text \<open>
  Besides the calls, offences are reported, sessions change, and the network-membership pallet works
  on its part of the storage. At a session change \<^verbatim>\<open>pallet_session\<close> sets the validators.
\<close>

inductive authority_step ::
  "('o, 'i, 'c) authority_config_scheme \<Rightarrow> 'm authority_storage_scheme \<Rightarrow> 'm authority_storage_scheme \<Rightarrow> bool" for T where
  authority_call: "authority_dispatch T oc s = Ok s' \<Longrightarrow> authority_step T s s'"
| authority_offence: "authority_step T s (on_offence T offenders strategy s)"
| authority_session: "new_session s = Ok (r, s') \<Longrightarrow> authority_step T s (s'\<lparr>session_validators := vs\<rparr>)"
| authority_membership: "membership_step T s s' \<Longrightarrow> authority_step T s s'"

definition authority_built :: "('o, 'i, 'c) authority_config_scheme \<Rightarrow> 'm authority_storage_scheme \<Rightarrow> bool" where
  "authority_built T s \<longleftrightarrow> (\<exists>vs s0. AuthorityMembers s0 = [] \<and> IncomingAuthorities s0 = [] \<and>
     OutgoingAuthorities s0 = [] \<and> BlackList s0 = [] \<and> distinct vs \<and> unat (MinAuthorities T) \<le> length vs \<and>
     authority_genesis_build vs s0 = Ok s)"

end
