(* ===== verification/Identity_Info.thy ===== *)
theory Identity_Info
  imports Sorted_Search
begin

text \<open>
  The data of identities (\<^verbatim>\<open>pallets/identity/src/types.rs\<close>, \<^verbatim>\<open>legacy.rs\<close>): single values with their hand-written
  encoding, the information of an identity with its fields, and judgements.

  Shown: decoding accepts exactly the encodings of well-formed values, with any rest; a set of fields
  is present exactly if each of them is.
\<close>

section \<open>Values\<close>

datatype Data =
    NoData
  | Raw bytes
  | BlakeTwo256 bytes
  | Sha256 bytes
  | Keccak256 bytes
  | ShaThree256 bytes

definition data_is_none :: "Data \<Rightarrow> bool" where
  "data_is_none d \<longleftrightarrow> d = NoData"

text \<open>\<^verbatim>\<open>BoundedVec<u8, ConstU32<32>>\<close> and \<^verbatim>\<open>[u8; 32]\<close>.\<close>

fun data_wf :: "Data \<Rightarrow> bool" where
  "data_wf NoData = True"
| "data_wf (Raw x) = (length x \<le> 32)"
| "data_wf (BlakeTwo256 h) = (length h = 32)"
| "data_wf (Sha256 h) = (length h = 32)"
| "data_wf (Keccak256 h) = (length h = 32)"
| "data_wf (ShaThree256 h) = (length h = 32)"

datatype codec_error = NotEnoughData | InvalidLeadingByte

text \<open>\<^verbatim>\<open>Input::read_byte\<close> and \<^verbatim>\<open>Input::read\<close> take bytes from the front of the input.\<close>

definition read_byte :: "bytes \<Rightarrow> (u8 \<times> bytes, codec_error) result" where
  "read_byte input = (case input of [] \<Rightarrow> Err NotEnoughData | b # rest \<Rightarrow> Ok (b, rest))"

definition read_bytes :: "nat \<Rightarrow> bytes \<Rightarrow> (bytes \<times> bytes, codec_error) result" where
  "read_bytes n input = (if n \<le> length input then Ok (take n input, drop n input) else Err NotEnoughData)"

definition read_hash :: "(bytes \<Rightarrow> Data) \<Rightarrow> bytes \<Rightarrow> (Data \<times> bytes, codec_error) result" where
  "read_hash c input = and_then (read_bytes 32 input) (\<lambda>(h, rest). Ok (c h, rest))"

definition data_decode :: "bytes \<Rightarrow> (Data \<times> bytes, codec_error) result" where
  "data_decode input =
     and_then (read_byte input) (\<lambda>(b, rest).
       if b = 0 then Ok (NoData, rest)
       else if b \<le> 33 then and_then (read_bytes (unat b - 1) rest) (\<lambda>(r, rest'). Ok (Raw r, rest'))
       else if b = 34 then read_hash BlakeTwo256 rest
       else if b = 35 then read_hash Sha256 rest
       else if b = 36 then read_hash Keccak256 rest
       else if b = 37 then read_hash ShaThree256 rest
       else Err InvalidLeadingByte)"

fun data_encode :: "Data \<Rightarrow> bytes" where
  "data_encode NoData = [0]"
| "data_encode (Raw x) = (let l = min (length x) 32 in (of_nat l + 1) # take l x)"
| "data_encode (BlakeTwo256 h) = 34 # h"
| "data_encode (Sha256 h) = 35 # h"
| "data_encode (Keccak256 h) = 36 # h"
| "data_encode (ShaThree256 h) = 37 # h"

text \<open>
  The description of the encoding that the metadata of the runtime gives to clients: for every variant its index and the
  length of its field. A variant of raw bytes exists for every length.
\<close>

datatype data_variant = VNone | VRaw nat | VBlakeTwo256 | VSha256 | VKeccak256 | VShaThree256

definition data_type_info :: "(data_variant \<times> u8 \<times> nat) list" where
  "data_type_info = (VNone, 0, 0) # map (\<lambda>n. (VRaw n, of_nat n + 1, n)) [0..<33] @
     [(VBlakeTwo256, 34, 32), (VSha256, 35, 32), (VKeccak256, 36, 32), (VShaThree256, 37, 32)]"

fun variant_of :: "Data \<Rightarrow> data_variant" where
  "variant_of NoData = VNone"
| "variant_of (Raw x) = VRaw (length x)"
| "variant_of (BlakeTwo256 h) = VBlakeTwo256"
| "variant_of (Sha256 h) = VSha256"
| "variant_of (Keccak256 h) = VKeccak256"
| "variant_of (ShaThree256 h) = VShaThree256"

section \<open>The information of an identity\<close>

datatype IdentityField = Display | Legal | Web | Email | Image

text \<open>The attribute \<^verbatim>\<open>bitflags\<close> gives every variant its own bit, in their order.\<close>

fun field_bit :: "IdentityField \<Rightarrow> nat" where
  "field_bit Display = 0"
| "field_bit Legal = 1"
| "field_bit Web = 2"
| "field_bit Email = 3"
| "field_bit Image = 4"

record identity_info =
  additional :: "(Data \<times> Data) list"
  display :: Data
  legal :: Data
  web :: Data
  email :: Data
  image :: Data

definition identity_info_default :: identity_info where
  "identity_info_default = \<lparr>additional = [], display = NoData, legal = NoData, web = NoData, email = NoData, image = NoData\<rparr>"

definition insert_field :: "IdentityField \<Rightarrow> bool \<Rightarrow> u64 \<Rightarrow> u64" where
  "insert_field f present res = (if present then res OR push_bit (field_bit f) 1 else res)"

definition info_fields :: "identity_info \<Rightarrow> u64" where
  "info_fields i =
     insert_field Image (\<not> data_is_none (image i))
      (insert_field Email (\<not> data_is_none (email i))
       (insert_field Web (\<not> data_is_none (web i))
        (insert_field Legal (\<not> data_is_none (legal i))
         (insert_field Display (\<not> data_is_none (display i)) 0))))"

definition info_has_identity :: "identity_info \<Rightarrow> u64 \<Rightarrow> bool" where
  "info_has_identity i requested \<longleftrightarrow> info_fields i AND requested = requested"

section \<open>Judgements\<close>

datatype Judgement = Unknown | Requested | Reasonable | KnownGood | OutOfDate | LowQuality | Erroneous

definition has_requested :: "Judgement \<Rightarrow> bool" where
  "has_requested j \<longleftrightarrow> j = Requested"

definition is_sticky :: "Judgement \<Rightarrow> bool" where
  "is_sticky j \<longleftrightarrow> j = Requested \<or> j = Erroneous"

record registration =
  judgements :: "(account \<times> Judgement) list"
  info :: identity_info

section \<open>Decoding and encoding\<close>

lemma read_bytes_iff: "read_bytes n input = Ok (x, rest) \<longleftrightarrow> length x = n \<and> input = x @ rest"
  by (auto simp: read_bytes_def)

lemma read_hash_iff: "read_hash c input = Ok (d, rest) \<longleftrightarrow> (\<exists>h. length h = 32 \<and> d = c h \<and> input = h @ rest)"
  by (auto simp: read_hash_def read_bytes_iff split: prod.splits)

lemma raw_length: "n \<le> 32 \<Longrightarrow> unat (of_nat n + 1 :: u8) = n + 1"
  by (simp add: unat_word_ariths unat_of_nat)

lemma raw_length_inv: "b \<noteq> 0 \<Longrightarrow> b \<le> 33 \<Longrightarrow> unat b - 1 \<le> 32 \<and> of_nat (unat b - 1) + 1 = b" for b :: u8
  by (simp add: word_le_nat_alt of_nat_diff unat_gt_0 Suc_leI)

lemma decode_encode: "data_wf d \<Longrightarrow> data_decode (data_encode d @ rest) = Ok (d, rest)"
proof (cases d)
  case (Raw x)
  assume "data_wf d"
  then have len: "length x \<le> 32" by (simp add: Raw)
  have "of_nat (length x) + 1 \<noteq> (0 :: u8)" "of_nat (length x) + 1 \<le> (33 :: u8)"
    using raw_length [OF len] len by (auto simp: word_le_nat_alt word_unat_eq_iff)
  then show ?thesis using raw_length [OF len] len
    by (simp add: Raw data_decode_def read_byte_def read_bytes_def Let_def min_absorb1)
qed (simp_all add: data_decode_def read_byte_def read_hash_def read_bytes_def)

lemma encode_decode:
  assumes "data_decode input = Ok (d, rest)"
  shows "data_wf d \<and> input = data_encode d @ rest"
proof (cases input)
  case (Cons b input')
  show ?thesis
  proof (cases "b \<noteq> 0 \<and> b \<le> 33")
    case True
    then obtain x where x: "d = Raw x" "length x = unat b - 1" "input' = x @ rest"
      using assms by (auto simp: data_decode_def read_byte_def read_bytes_iff Cons split: prod.splits)
    with raw_length_inv [of b] True show ?thesis by (simp add: Cons Let_def min_absorb1)
  next
    case False
    with assms show ?thesis
      by (auto simp: data_decode_def read_byte_def read_hash_iff Cons split: if_splits)
  qed
qed (use assms in \<open>simp add: data_decode_def read_byte_def\<close>)

text \<open>The metadata agrees with the encoding: the entry of a value's variant has its first byte as index and the number of
  bytes after it as length, and no index is given twice.\<close>

lemma map_of_raw: "map_of (map (\<lambda>n. (VRaw n, f n)) ns @ rest) (VRaw k) = (if k \<in> set ns then Some (f k) else map_of rest (VRaw k))"
  by (induction ns) auto

lemma map_of_other: "(\<And>n. v \<noteq> VRaw n) \<Longrightarrow> map_of (map (\<lambda>n. (VRaw n, f n)) ns @ rest) v = map_of rest v"
  by (induction ns) auto

lemma metadata_matches_encoding:
  assumes "data_wf d"
  shows "map_of data_type_info (variant_of d) = Some (hd (data_encode d), length (data_encode d) - 1)"
  using assms by (cases d) (auto simp: data_type_info_def map_of_raw map_of_other Let_def simp del: upt_rec_numeral map_of_append)

lemma metadata_indices_distinct: "distinct (map (fst \<circ> snd) data_type_info)"
  by code_simp

text \<open>C34: the hand-written encoding of values is a bijection onto what the decoder accepts: decoding succeeds with a
  value and a rest exactly if the value is well-formed and the input is its encoding followed by the
  rest, so that values are read back from a stream and no other bytes stand for them.\<close>

theorem data_codec_exact:
  "data_decode input = Ok (d, rest) \<longleftrightarrow> data_wf d \<and> input = data_encode d @ rest"
  using decode_encode encode_decode by blast

text \<open>An identity has a set of fields exactly if each of them is filled in; unknown fields are never there.\<close>

fun field_of :: "IdentityField \<Rightarrow> identity_info \<Rightarrow> Data" where
  "field_of Display i = display i"
| "field_of Legal i = legal i"
| "field_of Web i = web i"
| "field_of Email i = email i"
| "field_of Image i = image i"

lemma insert_field_bit: "bit (insert_field f p r) n \<longleftrightarrow> bit r n \<or> p \<and> n = field_bit f"
proof -
  have "bit (push_bit (field_bit f) 1 :: u64) n \<longleftrightarrow> n = field_bit f" if "field_bit f < 64"
    using that by (auto simp: push_bit_eq_mult bit_exp_iff)
  moreover have "field_bit f < 64" by (cases f) simp_all
  ultimately show ?thesis by (simp add: insert_field_def bit_or_iff)
qed

lemma ex_field: "(\<exists>f. P f) \<longleftrightarrow> P Display \<or> P Legal \<or> P Web \<or> P Email \<or> P Image"
  by (metis (full_types) IdentityField.exhaust)

lemma info_fields_bit: "bit (info_fields i) n \<longleftrightarrow> (\<exists>f. n = field_bit f \<and> field_of f i \<noteq> NoData)"
  by (auto simp: ex_field info_fields_def insert_field_bit data_is_none_def)

theorem has_identity_iff:
  "info_has_identity i requested \<longleftrightarrow> (\<forall>n. bit requested n \<longrightarrow> (\<exists>f. n = field_bit f \<and> field_of f i \<noteq> NoData))"
proof -
  have "info_has_identity i requested \<longleftrightarrow> (\<forall>n. bit (info_fields i AND requested) n \<longleftrightarrow> bit requested n)"
    unfolding info_has_identity_def by (metis bit_eqI)
  then show ?thesis by (auto simp: bit_and_iff info_fields_bit)
qed

end
