(* ===== verification/Identity_Pallet.thy ===== *)
theory Identity_Pallet
  imports Identity_Info
begin

text \<open>
  The identity pallet (\<^verbatim>\<open>pallets/identity/src/lib.rs\<close>): identities of accounts with judgements of registrars,
  sub-accounts, and usernames granted by authorities. The type \<^verbatim>\<open>IdentityInformation\<close> is \<open>identity_info\<close>, as in
  the runtimes. Signatures and the hash of an identity are parameters.
\<close>

section \<open>Types\<close>

type_synonym username = bytes

record registrar_info =
  reg_account :: account
  reg_fields :: u64

record authority_properties =
  suffix :: bytes
  allocation :: u32

datatype IdentityError =
    TooManySubAccounts | NotFound | RegistrarNotFound | RegistrarAlreadyExists | NotNamed | EmptyIndex | NoIdentity
  | StickyJudgement | JudgementGivenError | InvalidJudgement | InvalidIndex | InvalidTarget | TooManyFields | TooManyRegistrars
  | AlreadyClaimed | NotSub | NotOwned | JudgementForDifferentIdentity | JudgementPaymentFailed | InvalidSuffix
  | NotUsernameAuthority | NoAllocation | InvalidSignature | RequiresSignature | InvalidUsername | UsernameTaken
  | NoUsername | NotExpired

datatype IdentityEvent =
    IdentitySet account | IdentityCleared account | IdentityKilled account
  | JudgementRequested account account | JudgementUnrequested account account | JudgementGiven account account
  | RegistrarAdded u32 | RegistrarRemoved account
  | SubIdentityAdded account account | SubIdentityRemoved account account | SubIdentityRevoked account account
  | AuthorityAdded account | AuthorityRemoved account
  | UsernameSet account username | UsernameQueued account username u32 | PreapprovalExpired account
  | PrimaryUsernameSet account username | DanglingUsernameRemoved account username

record identity_storage = frame_system +
  IdentityOf :: "account \<Rightarrow> (registration \<times> username option) option"
  SuperOf :: "account \<Rightarrow> (account \<times> Data) option"
  SubsOf :: "account \<Rightarrow> account list"
  Registrars :: "registrar_info option list"
  UsernameAuthorities :: "account \<Rightarrow> authority_properties option"
  AccountOfUsername :: "username \<Rightarrow> account option"
  PendingUsernames :: "username \<Rightarrow> (account \<times> u32) option"
  identity_events :: "IdentityEvent list"

record ('o, 'l, 'sig) identity_config = frame_config +
  MaxSubAccounts :: u32
  MaxRegistrars :: u32
  RegistrarOrigin :: "'o \<Rightarrow> bool"
  UsernameAuthorityOrigin :: "'o \<Rightarrow> bool"
  PendingUsernameExpiration :: u32
  MaxSuffixLength :: u32
  MaxUsernameLength :: u32
  identity_signed :: "'o \<Rightarrow> account option"
  identity_lookup :: "'l \<Rightarrow> account option"
  verify_offchain :: "'sig \<Rightarrow> bytes \<Rightarrow> account \<Rightarrow> bool"
  hash_of_info :: "identity_info \<Rightarrow> hash"
  encoded_size_of_info :: "identity_info \<Rightarrow> nat"

type_synonym 'm identity_result = "('m identity_storage_scheme, IdentityError dispatch_error) result"

definition identity_deposit_event :: "IdentityEvent \<Rightarrow> 'm identity_storage_scheme \<Rightarrow> 'm identity_storage_scheme" where
  "identity_deposit_event e s = s\<lparr>identity_events := identity_events s @ [e]\<rparr>"

definition identity_sender :: "('o, 'l, 'sig, 'c) identity_config_scheme \<Rightarrow> 'o \<Rightarrow> (account, IdentityError dispatch_error) result" where
  "identity_sender T origin = ok_or (identity_signed T origin) BadOrigin"

definition identity_account :: "('o, 'l, 'sig, 'c) identity_config_scheme \<Rightarrow> 'l \<Rightarrow> (account, IdentityError dispatch_error) result" where
  "identity_account T l = ok_or (identity_lookup T l) CannotLookup"

section \<open>Internal functions\<close>

definition subs :: "account \<Rightarrow> 'm identity_storage_scheme \<Rightarrow> (account \<times> Data) list" where
  "subs who s = List.map_filter (\<lambda>a. map_option (\<lambda>(super_account, data). (a, data)) (SuperOf s a)) (SubsOf s who)"

definition has_identity :: "account \<Rightarrow> u64 \<Rightarrow> 'm identity_storage_scheme \<Rightarrow> bool" where
  "has_identity who requested s = (case IdentityOf s who of None \<Rightarrow> False | Some (reg, _) \<Rightarrow> info_has_identity (info reg) requested)"

definition ascii_lowercase :: "u8 \<Rightarrow> bool" where
  "ascii_lowercase c \<longleftrightarrow> 0x61 \<le> c \<and> c \<le> 0x7A"

definition ascii_digit :: "u8 \<Rightarrow> bool" where
  "ascii_digit c \<longleftrightarrow> 0x30 \<le> c \<and> c \<le> 0x39"

text \<open>The dot is \<open>0x2E\<close>, the at sign \<open>0x40\<close>.\<close>

fun username_fold :: "bool \<times> u8 option \<Rightarrow> bytes \<Rightarrow> bool \<times> u8 option" where
  "username_fold acc [] = acc"
| "username_fold (valid, last_char) (cur_char # cs) =
     username_fold (valid \<and> (ascii_lowercase cur_char \<or> ascii_digit cur_char \<or> cur_char = 0x2E) \<and>
       \<not> (last_char = Some 0x2E \<and> cur_char = 0x2E), Some cur_char) cs"

definition is_valid_username :: "bytes \<Rightarrow> bool" where
  "is_valid_username input =
     (if input = [] \<or> \<not> ascii_lowercase (hd input) \<or> last input = 0x2E then False
      else fst (username_fold (True, None) input))"

definition validate_username ::
  "('o, 'l, 'sig, 'c) identity_config_scheme \<Rightarrow> bytes \<Rightarrow> u32 option \<Rightarrow> (unit, IdentityError dispatch_error) result" where
  "validate_username T name len =
     and_then (case len of None \<Rightarrow> Ok () | Some l \<Rightarrow> ensure (l < MaxUsernameLength T) (Module InvalidUsername)) (\<lambda>_.
     and_then (ensure (name \<noteq> []) (Module InvalidUsername)) (\<lambda>_.
     ensure (is_valid_username name) (Module InvalidUsername)))"

definition validate_suffix :: "bytes \<Rightarrow> (unit, IdentityError dispatch_error) result" where
  "validate_suffix sfx =
     and_then (ensure (sfx \<noteq> []) (Module InvalidSuffix)) (\<lambda>_.
     ensure (list_all ascii_lowercase sfx) (Module InvalidSuffix))"

text \<open>The bytes of \<^verbatim>\<open><Bytes>\<close> and \<^verbatim>\<open></Bytes>\<close>.\<close>

definition BYTES_PREFIX :: bytes where "BYTES_PREFIX = [0x3C, 0x42, 0x79, 0x74, 0x65, 0x73, 0x3E]"
definition BYTES_SUFFIX :: bytes where "BYTES_SUFFIX = [0x3C, 0x2F, 0x42, 0x79, 0x74, 0x65, 0x73, 0x3E]"

definition validate_signature ::
  "('o, 'l, 'sig, 'c) identity_config_scheme \<Rightarrow> bytes \<Rightarrow> 'sig \<Rightarrow> account \<Rightarrow> (unit, IdentityError dispatch_error) result" where
  "validate_signature T data signature signer =
     (if verify_offchain T signature data signer then Ok ()
      else ensure (verify_offchain T signature (BYTES_PREFIX @ data @ BYTES_SUFFIX) signer) (Module InvalidSignature))"

definition insert_username :: "account \<Rightarrow> username \<Rightarrow> 'm identity_storage_scheme \<Rightarrow> 'm identity_storage_scheme" where
  "insert_username who name s =
     (let (reg, primary_username, new_is_primary) =
            (case IdentityOf s who of
               Some (reg, Some primary) \<Rightarrow> (reg, primary, False)
             | Some (reg, None) \<Rightarrow> (reg, name, True)
             | None \<Rightarrow> (\<lparr>judgements = [], info = identity_info_default\<rparr>, name, True));
          s1 = s\<lparr>IdentityOf := (IdentityOf s)(who \<mapsto> (reg, Some primary_username)),
                AccountOfUsername := (AccountOfUsername s)(name \<mapsto> who)\<rparr>;
          s2 = identity_deposit_event (UsernameSet who name) s1
      in if new_is_primary then identity_deposit_event (PrimaryUsernameSet who name) s2 else s2)"

definition queue_acceptance ::
  "('o, 'l, 'sig, 'c) identity_config_scheme \<Rightarrow> account \<Rightarrow> username \<Rightarrow> 'm identity_storage_scheme \<Rightarrow> 'm identity_storage_scheme" where
  "queue_acceptance T who name s =
     (let expiration = saturating_add (block_number s) (PendingUsernameExpiration T)
      in identity_deposit_event (UsernameQueued who name expiration)
           (s\<lparr>PendingUsernames := (PendingUsernames s)(name \<mapsto> (who, expiration))\<rparr>))"

fun remove_supers :: "account list \<Rightarrow> (account \<Rightarrow> (account \<times> Data) option) \<Rightarrow> account \<Rightarrow> (account \<times> Data) option" where
  "remove_supers [] m = m"
| "remove_supers (sub # rest) m = remove_supers rest (m(sub := None))"

definition reap_identity ::
  "('o, 'l, 'sig, 'c) identity_config_scheme \<Rightarrow> account \<Rightarrow> 'm identity_storage_scheme
   \<Rightarrow> ('m identity_storage_scheme \<times> u32 \<times> u32 \<times> u32, IdentityError dispatch_error) result" where
  "reap_identity T who s =
     and_then (ok_or (IdentityOf s who) (Module NoIdentity)) (\<lambda>(id, _).
     let registrars = of_nat (length (judgements id));
         encoded_byte_size = of_nat (encoded_size_of_info T (info id));
         sub_ids = SubsOf s who
     in Ok (s\<lparr>IdentityOf := (IdentityOf s)(who := None), SubsOf := (SubsOf s)(who := []),
              SuperOf := remove_supers sub_ids (SuperOf s)\<rparr>, registrars, encoded_byte_size, of_nat (length sub_ids)))"

section \<open>Registrars and identities\<close>

definition is_registrar :: "account \<Rightarrow> registrar_info option \<Rightarrow> bool" where
  "is_registrar a r = (case r of Some i \<Rightarrow> reg_account i = a | None \<Rightarrow> False)"

definition add_registrar ::
  "('o, 'l, 'sig, 'c) identity_config_scheme \<Rightarrow> 'o \<Rightarrow> 'l \<Rightarrow> 'm identity_storage_scheme \<Rightarrow> 'm identity_result" where
  "add_registrar T origin account_source s =
     and_then (ensure (RegistrarOrigin T origin) BadOrigin) (\<lambda>_.
     and_then (identity_account T account_source) (\<lambda>acc.
     and_then (ensure (\<not> list_ex (is_registrar acc) (Registrars s)) (Module RegistrarAlreadyExists)) (\<lambda>_.
     and_then (ok_or (try_push (unat (MaxRegistrars T)) (Registrars s) (Some \<lparr>reg_account = acc, reg_fields = 0\<rparr>))
                 (Module TooManyRegistrars)) (\<lambda>registrars.
     Ok (identity_deposit_event (RegistrarAdded (of_nat (length registrars - 1))) (s\<lparr>Registrars := registrars\<rparr>))))))"

definition set_identity ::
  "('o, 'l, 'sig, 'c) identity_config_scheme \<Rightarrow> 'o \<Rightarrow> identity_info \<Rightarrow> 'm identity_storage_scheme \<Rightarrow> 'm identity_result" where
  "set_identity T origin new_info s =
     and_then (identity_sender T origin) (\<lambda>sender.
     let entry = (case IdentityOf s sender of
                    Some (reg, maybe_username) \<Rightarrow>
                      (reg\<lparr>judgements := filter (\<lambda>j. is_sticky (snd j)) (judgements reg), info := new_info\<rparr>, maybe_username)
                  | None \<Rightarrow> (\<lparr>judgements = [], info = new_info\<rparr>, None))
     in Ok (identity_deposit_event (IdentitySet sender) (s\<lparr>IdentityOf := (IdentityOf s)(sender \<mapsto> entry)\<rparr>)))"

fun insert_subs ::
  "nat \<Rightarrow> account \<Rightarrow> (account \<times> Data) list \<Rightarrow> account list \<Rightarrow> (account \<Rightarrow> (account \<times> Data) option)
   \<Rightarrow> (account list \<times> (account \<Rightarrow> (account \<times> Data) option), IdentityError dispatch_error) result" where
  "insert_subs bound sender [] ids m = Ok (ids, m)"
| "insert_subs bound sender ((sub, name) # rest) ids m =
     (case try_push bound ids sub of
        None \<Rightarrow> Panic
      | Some ids1 \<Rightarrow> insert_subs bound sender rest ids1 (m(sub \<mapsto> (sender, name))))"

definition set_subs ::
  "('o, 'l, 'sig, 'c) identity_config_scheme \<Rightarrow> 'o \<Rightarrow> (account \<times> Data) list \<Rightarrow> 'm identity_storage_scheme \<Rightarrow> 'm identity_result" where
  "set_subs T origin new_subs s =
     and_then (identity_sender T origin) (\<lambda>sender.
     and_then (ensure (IdentityOf s sender \<noteq> None) (Module NotFound)) (\<lambda>_.
     and_then (ensure (length new_subs \<le> unat (MaxSubAccounts T)) (Module TooManySubAccounts)) (\<lambda>_.
     let old_ids = SubsOf s sender;
         not_other_sub = list_all (\<lambda>i. fst i = sender) (List.map_filter (\<lambda>i. SuperOf s (fst i)) new_subs)
     in and_then (ensure not_other_sub (Module AlreadyClaimed)) (\<lambda>_.
     and_then (insert_subs (unat (MaxSubAccounts T)) sender new_subs [] (remove_supers old_ids (SuperOf s))) (\<lambda>(ids, supers).
     Ok (s\<lparr>SuperOf := supers, SubsOf := (SubsOf s)(sender := ids)\<rparr>))))))"

text \<open>\<open>clear_identity\<close> and \<open>kill_identity\<close> share the removal.\<close>

definition take_identity :: "account \<Rightarrow> 'm identity_storage_scheme \<Rightarrow> 'm identity_result" where
  "take_identity who s =
     and_then (ok_or (IdentityOf s who) (Module NoIdentity)) (\<lambda>(id, maybe_username).
     let s1 = s\<lparr>IdentityOf := (IdentityOf s)(who := None), SubsOf := (SubsOf s)(who := []),
                SuperOf := remove_supers (SubsOf s who) (SuperOf s)\<rparr>
     in Ok (case maybe_username of
              Some name \<Rightarrow> s1\<lparr>AccountOfUsername := (AccountOfUsername s1)(name := None)\<rparr>
            | None \<Rightarrow> s1))"

definition clear_identity ::
  "('o, 'l, 'sig, 'c) identity_config_scheme \<Rightarrow> 'o \<Rightarrow> 'm identity_storage_scheme \<Rightarrow> 'm identity_result" where
  "clear_identity T origin s =
     and_then (identity_sender T origin) (\<lambda>sender.
     and_then (take_identity sender s) (\<lambda>s1.
     Ok (identity_deposit_event (IdentityCleared sender) s1)))"

definition kill_identity ::
  "('o, 'l, 'sig, 'c) identity_config_scheme \<Rightarrow> 'o \<Rightarrow> 'l \<Rightarrow> 'm identity_storage_scheme \<Rightarrow> 'm identity_result" where
  "kill_identity T origin target_source s =
     and_then (ensure (RegistrarOrigin T origin) BadOrigin) (\<lambda>_.
     and_then (identity_account T target_source) (\<lambda>target.
     and_then (take_identity target s) (\<lambda>s1.
     Ok (identity_deposit_event (IdentityKilled target) s1))))"

section \<open>Judgements\<close>

definition request_judgement ::
  "('o, 'l, 'sig, 'c) identity_config_scheme \<Rightarrow> 'o \<Rightarrow> account \<Rightarrow> 'm identity_storage_scheme \<Rightarrow> 'm identity_result" where
  "request_judgement T origin registrar s =
     and_then (identity_sender T origin) (\<lambda>sender.
     and_then (ensure (list_ex (is_registrar registrar) (Registrars s)) (Module RegistrarNotFound)) (\<lambda>_.
     and_then (ok_or (IdentityOf s sender) (Module NoIdentity)) (\<lambda>(id, name).
     let item = (registrar, Requested) in
     and_then (case binary_search_by_key fst (judgements id) registrar of
                 Ok i \<Rightarrow> if is_sticky (snd (judgements id ! i)) then Err (Module StickyJudgement)
                         else vec_set i item (judgements id)
               | Err i \<Rightarrow> map_err (\<lambda>_. Module TooManyRegistrars) (vec_try_insert (unat (MaxRegistrars T)) i item (judgements id))
               | Panic \<Rightarrow> Panic) (\<lambda>js.
     Ok (identity_deposit_event (JudgementRequested sender registrar)
           (s\<lparr>IdentityOf := (IdentityOf s)(sender \<mapsto> (id\<lparr>judgements := js\<rparr>, name))\<rparr>))))))"

definition cancel_request ::
  "('o, 'l, 'sig, 'c) identity_config_scheme \<Rightarrow> 'o \<Rightarrow> account \<Rightarrow> 'm identity_storage_scheme \<Rightarrow> 'm identity_result" where
  "cancel_request T origin registrar s =
     and_then (identity_sender T origin) (\<lambda>sender.
     and_then (ok_or (IdentityOf s sender) (Module NoIdentity)) (\<lambda>(id, name).
     and_then (ok_or (search_ok (binary_search_by_key fst (judgements id) registrar)) (Module NotFound)) (\<lambda>pos.
     and_then (if snd (judgements id ! pos) = Requested then vec_remove pos (judgements id)
               else Err (Module JudgementGivenError)) (\<lambda>js.
     Ok (identity_deposit_event (JudgementUnrequested sender registrar)
           (s\<lparr>IdentityOf := (IdentityOf s)(sender \<mapsto> (id\<lparr>judgements := js\<rparr>, name))\<rparr>))))))"

text \<open>\<^verbatim>\<open>iter_mut().any(..)\<close> changes the first registrar with this account.\<close>

fun update_registrar ::
  "account \<Rightarrow> (registrar_info \<Rightarrow> registrar_info) \<Rightarrow> registrar_info option list \<Rightarrow> registrar_info option list option" where
  "update_registrar who f [] = None"
| "update_registrar who f (r # rs) =
     (if is_registrar who r then Some (map_option f r # rs) else map_option ((#) r) (update_registrar who f rs))"

definition set_account_id ::
  "('o, 'l, 'sig, 'c) identity_config_scheme \<Rightarrow> 'o \<Rightarrow> 'l \<Rightarrow> 'm identity_storage_scheme \<Rightarrow> 'm identity_result" where
  "set_account_id T origin new_source s =
     and_then (identity_sender T origin) (\<lambda>who.
     and_then (identity_account T new_source) (\<lambda>new.
     and_then (ok_or (update_registrar who (\<lambda>r. r\<lparr>reg_account := new\<rparr>) (Registrars s)) (Module RegistrarNotFound)) (\<lambda>registrars.
     Ok (s\<lparr>Registrars := registrars\<rparr>))))"

definition set_fields ::
  "('o, 'l, 'sig, 'c) identity_config_scheme \<Rightarrow> 'o \<Rightarrow> u64 \<Rightarrow> 'm identity_storage_scheme \<Rightarrow> 'm identity_result" where
  "set_fields T origin requested s =
     and_then (identity_sender T origin) (\<lambda>who.
     and_then (ok_or (update_registrar who (\<lambda>r. r\<lparr>reg_fields := requested\<rparr>) (Registrars s)) (Module RegistrarNotFound)) (\<lambda>registrars.
     Ok (s\<lparr>Registrars := registrars\<rparr>)))"

definition provide_judgement ::
  "('o, 'l, 'sig, 'c) identity_config_scheme \<Rightarrow> 'o \<Rightarrow> 'l \<Rightarrow> Judgement \<Rightarrow> hash \<Rightarrow> 'm identity_storage_scheme \<Rightarrow> 'm identity_result" where
  "provide_judgement T origin target_source judgement identity s =
     and_then (identity_sender T origin) (\<lambda>registrar.
     and_then (identity_account T target_source) (\<lambda>target.
     and_then (ensure (\<not> has_requested judgement) (Module InvalidJudgement)) (\<lambda>_.
     and_then (ensure (list_ex (is_registrar registrar) (Registrars s)) (Module RegistrarNotFound)) (\<lambda>_.
     and_then (ok_or (IdentityOf s target) (Module InvalidTarget)) (\<lambda>(id, name).
     if hash_of_info T (info id) \<noteq> identity then Err (Module JudgementForDifferentIdentity)
     else let item = (registrar, judgement) in
       and_then (case binary_search_by_key fst (judgements id) registrar of
                   Ok pos \<Rightarrow> vec_set pos item (judgements id)
                 | Err pos \<Rightarrow>
                     map_err (\<lambda>_. Module TooManyRegistrars) (vec_try_insert (unat (MaxRegistrars T)) pos item (judgements id))
                 | Panic \<Rightarrow> Panic) (\<lambda>js.
       Ok (identity_deposit_event (JudgementGiven target registrar)
             (s\<lparr>IdentityOf := (IdentityOf s)(target \<mapsto> (id\<lparr>judgements := js\<rparr>, name))\<rparr>))))))))"

definition remove_registrar ::
  "('o, 'l, 'sig, 'c) identity_config_scheme \<Rightarrow> 'o \<Rightarrow> 'l \<Rightarrow> 'm identity_storage_scheme \<Rightarrow> 'm identity_result" where
  "remove_registrar T origin account_source s =
     and_then (ensure (RegistrarOrigin T origin) BadOrigin) (\<lambda>_.
     and_then (identity_account T account_source) (\<lambda>account_id.
     and_then (ok_or (position True (map (is_registrar account_id) (Registrars s))) (Module RegistrarNotFound)) (\<lambda>pos.
     and_then (vec_remove pos (Registrars s)) (\<lambda>registrars.
     Ok (identity_deposit_event (RegistrarRemoved account_id) (s\<lparr>Registrars := registrars\<rparr>))))))"

section \<open>Sub-accounts\<close>

definition add_sub ::
  "('o, 'l, 'sig, 'c) identity_config_scheme \<Rightarrow> 'o \<Rightarrow> 'l \<Rightarrow> Data \<Rightarrow> 'm identity_storage_scheme \<Rightarrow> 'm identity_result" where
  "add_sub T origin sub_source data s =
     and_then (identity_sender T origin) (\<lambda>sender.
     and_then (identity_account T sub_source) (\<lambda>sub.
     and_then (ensure (IdentityOf s sender \<noteq> None) (Module NoIdentity)) (\<lambda>_.
     and_then (ensure (SuperOf s sub = None) (Module AlreadyClaimed)) (\<lambda>_.
     and_then (ensure (length (SubsOf s sender) < unat (MaxSubAccounts T)) (Module TooManySubAccounts)) (\<lambda>_.
     case try_push (unat (MaxSubAccounts T)) (SubsOf s sender) sub of
       None \<Rightarrow> Panic
     | Some sub_ids \<Rightarrow>
         Ok (identity_deposit_event (SubIdentityAdded sub sender)
               (s\<lparr>SuperOf := (SuperOf s)(sub \<mapsto> (sender, data)), SubsOf := (SubsOf s)(sender := sub_ids)\<rparr>)))))))"

definition rename_sub ::
  "('o, 'l, 'sig, 'c) identity_config_scheme \<Rightarrow> 'o \<Rightarrow> 'l \<Rightarrow> Data \<Rightarrow> 'm identity_storage_scheme \<Rightarrow> 'm identity_result" where
  "rename_sub T origin sub_source data s =
     and_then (identity_sender T origin) (\<lambda>sender.
     and_then (identity_account T sub_source) (\<lambda>sub.
     and_then (ensure (IdentityOf s sender \<noteq> None) (Module NoIdentity)) (\<lambda>_.
     and_then (ensure (case SuperOf s sub of None \<Rightarrow> False | Some x \<Rightarrow> fst x = sender) (Module NotOwned)) (\<lambda>_.
     Ok (s\<lparr>SuperOf := (SuperOf s)(sub \<mapsto> (sender, data))\<rparr>)))))"

definition drop_sub :: "account \<Rightarrow> account \<Rightarrow> 'm identity_storage_scheme \<Rightarrow> 'm identity_storage_scheme" where
  "drop_sub sub super_id s = s\<lparr>SuperOf := (SuperOf s)(sub := None),
     SubsOf := (SubsOf s)(super_id := filter (\<lambda>x. x \<noteq> sub) (SubsOf s super_id))\<rparr>"

definition remove_sub ::
  "('o, 'l, 'sig, 'c) identity_config_scheme \<Rightarrow> 'o \<Rightarrow> 'l \<Rightarrow> 'm identity_storage_scheme \<Rightarrow> 'm identity_result" where
  "remove_sub T origin sub_source s =
     and_then (identity_sender T origin) (\<lambda>sender.
     and_then (ensure (IdentityOf s sender \<noteq> None) (Module NoIdentity)) (\<lambda>_.
     and_then (identity_account T sub_source) (\<lambda>sub.
     and_then (ok_or (SuperOf s sub) (Module NotSub)) (\<lambda>(super_id, _).
     and_then (ensure (super_id = sender) (Module NotOwned)) (\<lambda>_.
     Ok (identity_deposit_event (SubIdentityRemoved sub sender) (drop_sub sub super_id s)))))))"

definition quit_sub ::
  "('o, 'l, 'sig, 'c) identity_config_scheme \<Rightarrow> 'o \<Rightarrow> 'm identity_storage_scheme \<Rightarrow> 'm identity_result" where
  "quit_sub T origin s =
     and_then (identity_sender T origin) (\<lambda>sender.
     and_then (ok_or (SuperOf s sender) (Module NotSub)) (\<lambda>(super_id, _).
     Ok (identity_deposit_event (SubIdentityRevoked sender super_id) (drop_sub sender super_id s))))"

section \<open>Usernames\<close>

definition add_username_authority ::
  "('o, 'l, 'sig, 'c) identity_config_scheme \<Rightarrow> 'o \<Rightarrow> 'l \<Rightarrow> bytes \<Rightarrow> u32 \<Rightarrow> 'm identity_storage_scheme \<Rightarrow> 'm identity_result" where
  "add_username_authority T origin authority_source sfx alloc s =
     and_then (ensure (UsernameAuthorityOrigin T origin) BadOrigin) (\<lambda>_.
     and_then (identity_account T authority_source) (\<lambda>authority.
     and_then (map_err (\<lambda>_. Module InvalidSuffix) (validate_suffix sfx)) (\<lambda>_.
     and_then (ensure (length sfx \<le> unat (MaxSuffixLength T)) (Module InvalidSuffix)) (\<lambda>_.
     Ok (identity_deposit_event (AuthorityAdded authority)
           (s\<lparr>UsernameAuthorities := (UsernameAuthorities s)(authority \<mapsto> \<lparr>suffix = sfx, allocation = alloc\<rparr>)\<rparr>))))))"

definition remove_username_authority ::
  "('o, 'l, 'sig, 'c) identity_config_scheme \<Rightarrow> 'o \<Rightarrow> 'l \<Rightarrow> 'm identity_storage_scheme \<Rightarrow> 'm identity_result" where
  "remove_username_authority T origin authority_source s =
     and_then (ensure (UsernameAuthorityOrigin T origin) BadOrigin) (\<lambda>_.
     and_then (identity_account T authority_source) (\<lambda>authority.
     and_then (ensure (UsernameAuthorities s authority \<noteq> None) (Module NotUsernameAuthority)) (\<lambda>_.
     Ok (identity_deposit_event (AuthorityRemoved authority)
           (s\<lparr>UsernameAuthorities := (UsernameAuthorities s)(authority := None)\<rparr>)))))"

text \<open>The length is cast to 32 bits, which cuts off what does not fit.\<close>

definition set_username_for ::
  "('o, 'l, 'sig, 'c) identity_config_scheme \<Rightarrow> 'o \<Rightarrow> 'l \<Rightarrow> bytes \<Rightarrow> 'sig option \<Rightarrow> 'm identity_storage_scheme \<Rightarrow> 'm identity_result" where
  "set_username_for T origin who_source name signature s =
     and_then (identity_sender T origin) (\<lambda>sender.
     and_then (ok_or (UsernameAuthorities s sender) (Module NotUsernameAuthority)) (\<lambda>properties.
     and_then (ensure (0 < allocation properties) (Module NoAllocation)) (\<lambda>_.
     let s1 = s\<lparr>UsernameAuthorities := (UsernameAuthorities s)
                 (sender \<mapsto> properties\<lparr>allocation := saturating_sub (allocation properties) 1\<rparr>)\<rparr>;
         username_length = of_nat (length name + length (suffix properties)) :: u32
     in and_then (validate_username T name (Some username_length)) (\<lambda>_.
     let full_username = name @ 0x40 # suffix properties in
     and_then (ensure (length full_username \<le> unat (MaxUsernameLength T)) (Module InvalidUsername)) (\<lambda>_.
     and_then (ensure (AccountOfUsername s1 full_username = None) (Module UsernameTaken)) (\<lambda>_.
     and_then (ensure (PendingUsernames s1 full_username = None) (Module UsernameTaken)) (\<lambda>_.
     and_then (identity_account T who_source) (\<lambda>who.
     case signature of
       Some sig \<Rightarrow>
         and_then (validate_signature T (encode_vec T full_username) sig who) (\<lambda>_.
         Ok (insert_username who full_username s1))
     | None \<Rightarrow> Ok (queue_acceptance T who full_username s1)))))))))"

definition accept_username ::
  "('o, 'l, 'sig, 'c) identity_config_scheme \<Rightarrow> 'o \<Rightarrow> username \<Rightarrow> 'm identity_storage_scheme \<Rightarrow> 'm identity_result" where
  "accept_username T origin name s =
     and_then (identity_sender T origin) (\<lambda>who.
     and_then (ok_or (PendingUsernames s name) (Module NoUsername)) (\<lambda>(approved_for, _).
     and_then (ensure (approved_for = who) (Module InvalidUsername)) (\<lambda>_.
     Ok (identity_deposit_event (UsernameSet who name)
           (insert_username who name (s\<lparr>PendingUsernames := (PendingUsernames s)(name := None)\<rparr>))))))"

definition remove_expired_approval ::
  "('o, 'l, 'sig, 'c) identity_config_scheme \<Rightarrow> 'o \<Rightarrow> username \<Rightarrow> 'm identity_storage_scheme \<Rightarrow> 'm identity_result" where
  "remove_expired_approval T origin name s =
     and_then (identity_sender T origin) (\<lambda>_.
     case PendingUsernames s name of
       Some (who, expiration) \<Rightarrow>
         and_then (ensure (block_number s > expiration) (Module NotExpired)) (\<lambda>_.
         Ok (identity_deposit_event (PreapprovalExpired who) (s\<lparr>PendingUsernames := (PendingUsernames s)(name := None)\<rparr>)))
     | None \<Rightarrow> Err (Module NoUsername))"

definition set_primary_username ::
  "('o, 'l, 'sig, 'c) identity_config_scheme \<Rightarrow> 'o \<Rightarrow> username \<Rightarrow> 'm identity_storage_scheme \<Rightarrow> 'm identity_result" where
  "set_primary_username T origin name s =
     and_then (identity_sender T origin) (\<lambda>who.
     and_then (ensure (AccountOfUsername s name \<noteq> None) (Module NoUsername)) (\<lambda>_.
     and_then (ok_or (IdentityOf s who) (Module NoIdentity)) (\<lambda>(registration, _).
     Ok (identity_deposit_event (PrimaryUsernameSet who name)
           (s\<lparr>IdentityOf := (IdentityOf s)(who \<mapsto> (registration, Some name))\<rparr>)))))"

definition remove_dangling_username ::
  "('o, 'l, 'sig, 'c) identity_config_scheme \<Rightarrow> 'o \<Rightarrow> username \<Rightarrow> 'm identity_storage_scheme \<Rightarrow> 'm identity_result" where
  "remove_dangling_username T origin name s =
     and_then (identity_sender T origin) (\<lambda>_.
     and_then (ok_or (AccountOfUsername s name) (Module NoUsername)) (\<lambda>who.
     and_then (ensure (IdentityOf s who = None) (Module InvalidUsername)) (\<lambda>_.
     Ok (identity_deposit_event (DanglingUsernameRemoved who name)
           (s\<lparr>AccountOfUsername := (AccountOfUsername s)(name := None)\<rparr>)))))"

section \<open>Runs\<close>

datatype ('l, 'sig) IdentityCall =
    AddRegistrar 'l | SetIdentity identity_info | SetSubs "(account \<times> Data) list" | ClearIdentity
  | RequestJudgement account | CancelRequest account | SetAccountId 'l | SetFields u64
  | ProvideJudgement 'l Judgement hash | KillIdentity 'l | AddSub 'l Data | RenameSub 'l Data | RemoveSub 'l | QuitSub
  | AddUsernameAuthority 'l bytes u32 | RemoveUsernameAuthority 'l | SetUsernameFor 'l bytes "'sig option"
  | AcceptUsername username | RemoveExpiredApproval username | SetPrimaryUsername username
  | RemoveDanglingUsername username | RemoveRegistrar 'l

fun identity_dispatch ::
  "('o, 'l, 'sig, 'c) identity_config_scheme \<Rightarrow> 'o \<Rightarrow> ('l, 'sig) IdentityCall \<Rightarrow> 'm identity_storage_scheme \<Rightarrow> 'm identity_result" where
  "identity_dispatch T origin (AddRegistrar l) s = add_registrar T origin l s"
| "identity_dispatch T origin (SetIdentity i) s = set_identity T origin i s"
| "identity_dispatch T origin (SetSubs ss) s = set_subs T origin ss s"
| "identity_dispatch T origin ClearIdentity s = clear_identity T origin s"
| "identity_dispatch T origin (RequestJudgement r) s = request_judgement T origin r s"
| "identity_dispatch T origin (CancelRequest r) s = cancel_request T origin r s"
| "identity_dispatch T origin (SetAccountId l) s = set_account_id T origin l s"
| "identity_dispatch T origin (SetFields f) s = set_fields T origin f s"
| "identity_dispatch T origin (ProvideJudgement l j h) s = provide_judgement T origin l j h s"
| "identity_dispatch T origin (KillIdentity l) s = kill_identity T origin l s"
| "identity_dispatch T origin (AddSub l d) s = add_sub T origin l d s"
| "identity_dispatch T origin (RenameSub l d) s = rename_sub T origin l d s"
| "identity_dispatch T origin (RemoveSub l) s = remove_sub T origin l s"
| "identity_dispatch T origin QuitSub s = quit_sub T origin s"
| "identity_dispatch T origin (AddUsernameAuthority l sf a) s = add_username_authority T origin l sf a s"
| "identity_dispatch T origin (RemoveUsernameAuthority l) s = remove_username_authority T origin l s"
| "identity_dispatch T origin (SetUsernameFor l n sg) s = set_username_for T origin l n sg s"
| "identity_dispatch T origin (AcceptUsername n) s = accept_username T origin n s"
| "identity_dispatch T origin (RemoveExpiredApproval n) s = remove_expired_approval T origin n s"
| "identity_dispatch T origin (SetPrimaryUsername n) s = set_primary_username T origin n s"
| "identity_dispatch T origin (RemoveDanglingUsername n) s = remove_dangling_username T origin n s"
| "identity_dispatch T origin (RemoveRegistrar l) s = remove_registrar T origin l s"

text \<open>Other pallets change nothing here; blocks go on.\<close>

definition same_identity :: "'m identity_storage_scheme \<Rightarrow> 'm identity_storage_scheme \<Rightarrow> bool" where
  "same_identity s s' \<longleftrightarrow> IdentityOf s' = IdentityOf s \<and> SuperOf s' = SuperOf s \<and> SubsOf s' = SubsOf s \<and>
     Registrars s' = Registrars s \<and> UsernameAuthorities s' = UsernameAuthorities s \<and>
     AccountOfUsername s' = AccountOfUsername s \<and> PendingUsernames s' = PendingUsernames s"

inductive identity_step ::
  "('o, 'l, 'sig, 'c) identity_config_scheme \<Rightarrow> 'm identity_storage_scheme \<Rightarrow> 'm identity_storage_scheme \<Rightarrow> bool" for T where
  identity_call: "identity_dispatch T origin c s = Ok s' \<Longrightarrow> identity_step T s s'"
| identity_reaped: "reap_identity T who s = Ok (s', counts) \<Longrightarrow> identity_step T s s'"
| identity_elsewhere: "same_identity s s' \<Longrightarrow> identity_step T s s'"

definition identity_genesis :: "'m identity_storage_scheme \<Rightarrow> bool" where
  "identity_genesis s \<longleftrightarrow> IdentityOf s = Map.empty \<and> SuperOf s = Map.empty \<and> SubsOf s = (\<lambda>_. []) \<and> Registrars s = [] \<and>
     UsernameAuthorities s = Map.empty \<and> AccountOfUsername s = Map.empty \<and> PendingUsernames s = Map.empty"

end
