(* ===== verification/Runtime_Config.thy ===== *)
theory Runtime_Config
  imports Runtime_Calls Network_Config Statement_Removal Network_Score Schema Registries Entries Network_Membership
    Node_Authorization Authorities Council_Membership Identity_Pallet
begin

text \<open>
  The configuration of the runtimes: the \<^verbatim>\<open>impl <pallet>::Config for Runtime\<close> blocks of \<^verbatim>\<open>runtimes/braid/src/lib.rs\<close>,
  \<^verbatim>\<open>runtimes/loom/src/lib.rs\<close> and \<^verbatim>\<open>runtimes/weave/src/lib.rs\<close> for the pallets modelled here, the constants of
  \<^verbatim>\<open>runtimes/*/constants/src/lib.rs\<close> they use, and the governing origins. A block is a function on the config of its
  pallet: it sets what the runtime sets and keeps the rest, the functions of libraries that the runtime takes as they are.

  The check of \<^verbatim>\<open>pallet_collective\<close> on votes is not part of the repository: it is a parameter, and \<open>proportion_spec\<close>
  states what it is documented to do.
\<close>

section \<open>Time\<close>

definition MILLISECS_PER_BLOCK :: u64 where "MILLISECS_PER_BLOCK = 3000"

definition MINUTES :: u32 where "MINUTES = 60000 div ucast MILLISECS_PER_BLOCK"

definition HOURS :: u32 where "HOURS = MINUTES * 60"

definition DAYS :: u32 where "DAYS = HOURS * 24"

definition YEAR :: u32 where "YEAR = DAYS * 36525 div 100"

section \<open>Origins\<close>

type_synonym proportion_check = "nat \<Rightarrow> nat \<Rightarrow> CollectiveOrigin \<Rightarrow> bool"

text \<open>\<open>EnsureProportionMoreThan<N, D>\<close> admits the origin of a motion with more than \<open>N/D\<close> of the votes in favour. Its
  products are \<^verbatim>\<open>u32\<close>; nothing is said about votes for which they do not fit.\<close>

fun votes_fit :: "CollectiveOrigin \<Rightarrow> bool" where
  "votes_fit (CollectiveOrigin.Members yes seats) \<longleftrightarrow> 5 * unat yes < 2 ^ 32 \<and> 5 * unat seats < 2 ^ 32"
| "votes_fit _ \<longleftrightarrow> True"

fun more_than :: "nat \<Rightarrow> nat \<Rightarrow> CollectiveOrigin \<Rightarrow> bool" where
  "more_than n d (CollectiveOrigin.Members yes seats) \<longleftrightarrow> n * unat seats < unat yes * d"
| "more_than n d _ \<longleftrightarrow> False"

definition proportion_spec :: "proportion_check \<Rightarrow> bool" where
  "proportion_spec C \<longleftrightarrow> (\<forall>n d votes. n \<le> 5 \<and> d \<le> 5 \<and> votes_fit votes \<longrightarrow> (C n d votes \<longleftrightarrow> more_than n d votes))"

definition EnsureRoot :: "OriginCaller \<Rightarrow> bool" where
  "EnsureRoot origin \<longleftrightarrow> origin = system_origin Root"

fun EnsureSigned :: "OriginCaller \<Rightarrow> account option" where
  "EnsureSigned (system_origin (Signed a)) = Some a"
| "EnsureSigned _ = None"

text \<open>\<open>EnsureDidOrigin\<close> gives the subject and the sender of a call that was authorized by an identity.\<close>

fun try_did_origin :: "OriginCaller \<Rightarrow> did_raw_origin option" where
  "try_did_origin (DidOrigin r) = Some r"
| "try_did_origin _ = None"

definition EnsureDidOrigin :: "OriginCaller \<Rightarrow> (account \<times> account) option" where
  "EnsureDidOrigin origin = map_option (\<lambda>r. (origin_id r, origin_submitter r)) (try_did_origin origin)"

definition MoreThanHalfCouncil :: "proportion_check \<Rightarrow> OriginCaller \<Rightarrow> bool" where
  "MoreThanHalfCouncil C origin \<longleftrightarrow>
     EnsureRoot origin \<or> (case origin of Council votes \<Rightarrow> C 1 2 votes | _ \<Rightarrow> False)"

definition EnsureRootOrCommitteeApproval :: "proportion_check \<Rightarrow> OriginCaller \<Rightarrow> bool" where
  "EnsureRootOrCommitteeApproval C origin \<longleftrightarrow>
     EnsureRoot origin \<or> (case origin of TechnicalCommittee votes \<Rightarrow> C 3 5 votes | _ \<Rightarrow> False)"

section \<open>Braid\<close>

text \<open>Braid: the root origin governs; there is no council.\<close>

definition braid_identity ::
  "(OriginCaller, 'l, 'sig, 'c) identity_config_scheme
   \<Rightarrow> (OriginCaller, 'l, 'sig, 'c) identity_config_scheme" where
  "braid_identity T =
     T\<lparr>MaxSubAccounts := 100, MaxRegistrars := 20, RegistrarOrigin := EnsureRoot,
       UsernameAuthorityOrigin := EnsureRoot, PendingUsernameExpiration := 7 * DAYS,
       MaxSuffixLength := 7, MaxUsernameLength := 32, identity_signed := EnsureSigned\<rparr>"

definition braid_authority_membership ::
  "(OriginCaller, 'i, 'c) authority_config_scheme
   \<Rightarrow> (OriginCaller, 'i, 'c) authority_config_scheme" where
  "braid_authority_membership T =
     T\<lparr>MinAuthorities := 3, AuthorityMembershipOrigin := EnsureRoot, authority_signed := EnsureSigned\<rparr>"

definition braid_node_authorization ::
  "(OriginCaller, 'l, 'c) node_config_scheme \<Rightarrow> (OriginCaller, 'l, 'c) node_config_scheme" where
  "braid_node_authorization T =
     T\<lparr>MaxWellKnownNodes := 1000, MaxPeerIdLength := 128, MaxNodeIdLength := 53,
       NodeAuthorizationOrigin := EnsureRoot, node_signed := EnsureSigned\<rparr>"

definition braid_network_membership ::
  "(OriginCaller, 'c) membership_config_scheme \<Rightarrow> (OriginCaller, 'c) membership_config_scheme" where
  "braid_network_membership T =
     T\<lparr>NetworkMembershipOrigin := EnsureRoot, MembershipPeriod := YEAR, MaxMembersPerBlock := 1000\<rparr>"

definition braid_identifier ::
  "'c identifier_config_scheme \<Rightarrow> 'c identifier_config_scheme" where
  "braid_identifier T =
     T\<lparr>MaxEventsHistory := - 1\<rparr>"

definition braid_runtime_upgrade ::
  "(OriginCaller, 's, 'e, 'c) upgrade_config_scheme
   \<Rightarrow> (OriginCaller, 's, 'e, 'c) upgrade_config_scheme" where
  "braid_runtime_upgrade T =
     T\<lparr>SetCodeOrigin := EnsureRoot, root_origin := system_origin Root\<rparr>"

definition braid_did ::
  "(OriginCaller, 'call, 's, 'c) did_config_scheme
   \<Rightarrow> (OriginCaller, 'call, 's, 'c) did_config_scheme" where
  "braid_did T =
     T\<lparr>MaxNewKeyAgreementKeys := 10, MaxPublicKeysPerDid := 20, MaxTotalKeyAgreementKeys := 19,
       MaxBlocksTxValidity := 2 * HOURS, MaxNumberOfServicesPerDid := 25, MaxServiceIdLength := 50,
       MaxServiceTypeLength := 50, MaxServiceUrlLength := 200, MaxNumberOfTypesPerService := 1,
       MaxNumberOfUrlsPerService := 1, did_signed := EnsureSigned, did_raw_from := try_did_origin,
       did_raw_into := DidOrigin\<rparr>"

definition braid_did_name ::
  "(OriginCaller, 'c) did_name_config_scheme \<Rightarrow> (OriginCaller, 'c) did_name_config_scheme" where
  "braid_did_name T =
     T\<lparr>BanOrigin := EnsureRoot, NameEnsureOrigin := EnsureDidOrigin, MinNameLength := 3,
       MaxNameLength := 64, MaxPrefixLength := 54\<rparr>"

definition braid_schema ::
  "(OriginCaller, 'c) schema_config_scheme \<Rightarrow> (OriginCaller, 'c) schema_config_scheme" where
  "braid_schema T =
     T\<lparr>SchemaEnsureOrigin := EnsureDidOrigin, MaxEncodedSchemaLength := 15360\<rparr>"

definition braid_schema_accounts ::
  "(OriginCaller, 'c) account_schema_config_scheme
   \<Rightarrow> (OriginCaller, 'c) account_schema_config_scheme" where
  "braid_schema_accounts T =
     T\<lparr>SchemaEnsureSigned := EnsureSigned, AccountMaxEncodedSchemaLength := 15360\<rparr>"

definition braid_chain_space ::
  "(OriginCaller, 'c) space_config_scheme \<Rightarrow> (OriginCaller, 'c) space_config_scheme" where
  "braid_chain_space T =
     T\<lparr>EnsureOrigin := EnsureDidOrigin, ChainSpaceOrigin := EnsureRoot, MaxSpaceDelegates := 10000\<rparr>"

definition braid_registries ::
  "(OriginCaller, 'c) registry_config_scheme \<Rightarrow> (OriginCaller, 'c) registry_config_scheme" where
  "braid_registries T =
     T\<lparr>ensure_signed := EnsureSigned, MaxRegistryDelegates := 10000, MaxRegistryBlobSize := 4 * 1024,
       RegistryMaxEncodedInputLength := 30\<rparr>"

definition braid_entries ::
  "(OriginCaller, 'c) entry_config_scheme \<Rightarrow> (OriginCaller, 'c) entry_config_scheme" where
  "braid_entries T =
     T\<lparr>MaxRegistryEntryBlobSize := 4 * 1024, EntryMaxEncodedInputLength := 30\<rparr>"

definition braid_statement ::
  "(OriginCaller, 'c) statement_config_scheme \<Rightarrow> (OriginCaller, 'c) statement_config_scheme" where
  "braid_statement T =
     T\<lparr>StatementEnsureOrigin := EnsureDidOrigin, MaxDigestsPerBatch := 1000, MaxRemoveEntries := 1000\<rparr>"

definition braid_network_score ::
  "(OriginCaller, 'c) score_config_scheme \<Rightarrow> (OriginCaller, 'c) score_config_scheme" where
  "braid_network_score T =
     T\<lparr>ScoreEnsureOrigin := EnsureDidOrigin, ScoreMaxEncodedValueLength := 128, MaxRatingValue := 50\<rparr>"

section \<open>Loom\<close>

text \<open>Loom: the council governs, the technical committee changes the code.\<close>

definition loom_identity ::
  "proportion_check \<Rightarrow> (OriginCaller, 'l, 'sig, 'c) identity_config_scheme
   \<Rightarrow> (OriginCaller, 'l, 'sig, 'c) identity_config_scheme" where
  "loom_identity C T =
     T\<lparr>MaxSubAccounts := 100, MaxRegistrars := 20, RegistrarOrigin := MoreThanHalfCouncil C,
       UsernameAuthorityOrigin := MoreThanHalfCouncil C, PendingUsernameExpiration := 7 * DAYS,
       MaxSuffixLength := 7, MaxUsernameLength := 32, identity_signed := EnsureSigned\<rparr>"

definition loom_council_membership ::
  "proportion_check \<Rightarrow> (OriginCaller, 'l, 'c) council_config_scheme
   \<Rightarrow> (OriginCaller, 'l, 'c) council_config_scheme" where
  "loom_council_membership C T =
     T\<lparr>AddOrigin := MoreThanHalfCouncil C, RemoveOrigin := MoreThanHalfCouncil C,
       SwapOrigin := MoreThanHalfCouncil C, ResetOrigin := MoreThanHalfCouncil C,
       PrimeOrigin := MoreThanHalfCouncil C, MaxMembers := 50, council_signed := EnsureSigned\<rparr>"

definition loom_technical_membership ::
  "proportion_check \<Rightarrow> (OriginCaller, 'l, 'c) council_config_scheme
   \<Rightarrow> (OriginCaller, 'l, 'c) council_config_scheme" where
  "loom_technical_membership C T =
     T\<lparr>AddOrigin := MoreThanHalfCouncil C, RemoveOrigin := MoreThanHalfCouncil C,
       SwapOrigin := MoreThanHalfCouncil C, ResetOrigin := MoreThanHalfCouncil C,
       PrimeOrigin := MoreThanHalfCouncil C, MaxMembers := 50, council_signed := EnsureSigned\<rparr>"

definition loom_authority_membership ::
  "proportion_check \<Rightarrow> (OriginCaller, 'i, 'c) authority_config_scheme
   \<Rightarrow> (OriginCaller, 'i, 'c) authority_config_scheme" where
  "loom_authority_membership C T =
     T\<lparr>MinAuthorities := 3, AuthorityMembershipOrigin := MoreThanHalfCouncil C,
       authority_signed := EnsureSigned\<rparr>"

definition loom_node_authorization ::
  "proportion_check \<Rightarrow> (OriginCaller, 'l, 'c) node_config_scheme
   \<Rightarrow> (OriginCaller, 'l, 'c) node_config_scheme" where
  "loom_node_authorization C T =
     T\<lparr>MaxWellKnownNodes := 1000, MaxPeerIdLength := 128, MaxNodeIdLength := 53,
       NodeAuthorizationOrigin := MoreThanHalfCouncil C, node_signed := EnsureSigned\<rparr>"

definition loom_network_membership ::
  "proportion_check \<Rightarrow> (OriginCaller, 'c) membership_config_scheme
   \<Rightarrow> (OriginCaller, 'c) membership_config_scheme" where
  "loom_network_membership C T =
     T\<lparr>NetworkMembershipOrigin := MoreThanHalfCouncil C, MembershipPeriod := YEAR,
       MaxMembersPerBlock := 1000\<rparr>"

definition loom_identifier ::
  "'c identifier_config_scheme \<Rightarrow> 'c identifier_config_scheme" where
  "loom_identifier T =
     T\<lparr>MaxEventsHistory := - 1\<rparr>"

definition loom_runtime_upgrade ::
  "proportion_check \<Rightarrow> (OriginCaller, 's, 'e, 'c) upgrade_config_scheme
   \<Rightarrow> (OriginCaller, 's, 'e, 'c) upgrade_config_scheme" where
  "loom_runtime_upgrade C T =
     T\<lparr>SetCodeOrigin := EnsureRootOrCommitteeApproval C, root_origin := system_origin Root\<rparr>"

definition loom_did ::
  "(OriginCaller, 'call, 's, 'c) did_config_scheme
   \<Rightarrow> (OriginCaller, 'call, 's, 'c) did_config_scheme" where
  "loom_did T =
     T\<lparr>MaxNewKeyAgreementKeys := 10, MaxPublicKeysPerDid := 20, MaxTotalKeyAgreementKeys := 19,
       MaxBlocksTxValidity := 2 * HOURS, MaxNumberOfServicesPerDid := 25, MaxServiceIdLength := 50,
       MaxServiceTypeLength := 50, MaxServiceUrlLength := 200, MaxNumberOfTypesPerService := 1,
       MaxNumberOfUrlsPerService := 1, did_signed := EnsureSigned, did_raw_from := try_did_origin,
       did_raw_into := DidOrigin\<rparr>"

definition loom_did_name ::
  "(OriginCaller, 'c) did_name_config_scheme \<Rightarrow> (OriginCaller, 'c) did_name_config_scheme" where
  "loom_did_name T =
     T\<lparr>BanOrigin := EnsureRoot, NameEnsureOrigin := EnsureDidOrigin, MinNameLength := 3,
       MaxNameLength := 64, MaxPrefixLength := 54\<rparr>"

definition loom_schema ::
  "(OriginCaller, 'c) schema_config_scheme \<Rightarrow> (OriginCaller, 'c) schema_config_scheme" where
  "loom_schema T =
     T\<lparr>SchemaEnsureOrigin := EnsureDidOrigin, MaxEncodedSchemaLength := 15360\<rparr>"

definition loom_schema_accounts ::
  "(OriginCaller, 'c) account_schema_config_scheme
   \<Rightarrow> (OriginCaller, 'c) account_schema_config_scheme" where
  "loom_schema_accounts T =
     T\<lparr>SchemaEnsureSigned := EnsureSigned, AccountMaxEncodedSchemaLength := 15360\<rparr>"

definition loom_chain_space ::
  "proportion_check \<Rightarrow> (OriginCaller, 'c) space_config_scheme
   \<Rightarrow> (OriginCaller, 'c) space_config_scheme" where
  "loom_chain_space C T =
     T\<lparr>EnsureOrigin := EnsureDidOrigin, ChainSpaceOrigin := MoreThanHalfCouncil C,
       MaxSpaceDelegates := 10000\<rparr>"

definition loom_registries ::
  "(OriginCaller, 'c) registry_config_scheme \<Rightarrow> (OriginCaller, 'c) registry_config_scheme" where
  "loom_registries T =
     T\<lparr>ensure_signed := EnsureSigned, MaxRegistryDelegates := 10000, MaxRegistryBlobSize := 4 * 1024,
       RegistryMaxEncodedInputLength := 30\<rparr>"

definition loom_entries ::
  "(OriginCaller, 'c) entry_config_scheme \<Rightarrow> (OriginCaller, 'c) entry_config_scheme" where
  "loom_entries T =
     T\<lparr>MaxRegistryEntryBlobSize := 4 * 1024, EntryMaxEncodedInputLength := 30\<rparr>"

definition loom_statement ::
  "(OriginCaller, 'c) statement_config_scheme \<Rightarrow> (OriginCaller, 'c) statement_config_scheme" where
  "loom_statement T =
     T\<lparr>StatementEnsureOrigin := EnsureDidOrigin, MaxDigestsPerBatch := 1000, MaxRemoveEntries := 1000\<rparr>"

definition loom_network_score ::
  "(OriginCaller, 'c) score_config_scheme \<Rightarrow> (OriginCaller, 'c) score_config_scheme" where
  "loom_network_score T =
     T\<lparr>ScoreEnsureOrigin := EnsureDidOrigin, ScoreMaxEncodedValueLength := 128, MaxRatingValue := 50\<rparr>"

section \<open>Weave\<close>

text \<open>Weave: the same governing bodies as Loom.\<close>

definition weave_identity ::
  "proportion_check \<Rightarrow> (OriginCaller, 'l, 'sig, 'c) identity_config_scheme
   \<Rightarrow> (OriginCaller, 'l, 'sig, 'c) identity_config_scheme" where
  "weave_identity C T =
     T\<lparr>MaxSubAccounts := 100, MaxRegistrars := 20, RegistrarOrigin := MoreThanHalfCouncil C,
       UsernameAuthorityOrigin := MoreThanHalfCouncil C, PendingUsernameExpiration := 7 * DAYS,
       MaxSuffixLength := 7, MaxUsernameLength := 32, identity_signed := EnsureSigned\<rparr>"

definition weave_council_membership ::
  "proportion_check \<Rightarrow> (OriginCaller, 'l, 'c) council_config_scheme
   \<Rightarrow> (OriginCaller, 'l, 'c) council_config_scheme" where
  "weave_council_membership C T =
     T\<lparr>AddOrigin := MoreThanHalfCouncil C, RemoveOrigin := MoreThanHalfCouncil C,
       SwapOrigin := MoreThanHalfCouncil C, ResetOrigin := MoreThanHalfCouncil C,
       PrimeOrigin := MoreThanHalfCouncil C, MaxMembers := 50, council_signed := EnsureSigned\<rparr>"

definition weave_technical_membership ::
  "proportion_check \<Rightarrow> (OriginCaller, 'l, 'c) council_config_scheme
   \<Rightarrow> (OriginCaller, 'l, 'c) council_config_scheme" where
  "weave_technical_membership C T =
     T\<lparr>AddOrigin := MoreThanHalfCouncil C, RemoveOrigin := MoreThanHalfCouncil C,
       SwapOrigin := MoreThanHalfCouncil C, ResetOrigin := MoreThanHalfCouncil C,
       PrimeOrigin := MoreThanHalfCouncil C, MaxMembers := 50, council_signed := EnsureSigned\<rparr>"

definition weave_authority_membership ::
  "proportion_check \<Rightarrow> (OriginCaller, 'i, 'c) authority_config_scheme
   \<Rightarrow> (OriginCaller, 'i, 'c) authority_config_scheme" where
  "weave_authority_membership C T =
     T\<lparr>MinAuthorities := 3, AuthorityMembershipOrigin := MoreThanHalfCouncil C,
       authority_signed := EnsureSigned\<rparr>"

definition weave_node_authorization ::
  "proportion_check \<Rightarrow> (OriginCaller, 'l, 'c) node_config_scheme
   \<Rightarrow> (OriginCaller, 'l, 'c) node_config_scheme" where
  "weave_node_authorization C T =
     T\<lparr>MaxWellKnownNodes := 1000, MaxPeerIdLength := 128, MaxNodeIdLength := 53,
       NodeAuthorizationOrigin := MoreThanHalfCouncil C, node_signed := EnsureSigned\<rparr>"

definition weave_network_membership ::
  "proportion_check \<Rightarrow> (OriginCaller, 'c) membership_config_scheme
   \<Rightarrow> (OriginCaller, 'c) membership_config_scheme" where
  "weave_network_membership C T =
     T\<lparr>NetworkMembershipOrigin := MoreThanHalfCouncil C, MembershipPeriod := YEAR,
       MaxMembersPerBlock := 1000\<rparr>"

definition weave_identifier ::
  "'c identifier_config_scheme \<Rightarrow> 'c identifier_config_scheme" where
  "weave_identifier T =
     T\<lparr>MaxEventsHistory := - 1\<rparr>"

definition weave_runtime_upgrade ::
  "proportion_check \<Rightarrow> (OriginCaller, 's, 'e, 'c) upgrade_config_scheme
   \<Rightarrow> (OriginCaller, 's, 'e, 'c) upgrade_config_scheme" where
  "weave_runtime_upgrade C T =
     T\<lparr>SetCodeOrigin := EnsureRootOrCommitteeApproval C, root_origin := system_origin Root\<rparr>"

definition weave_did ::
  "(OriginCaller, 'call, 's, 'c) did_config_scheme
   \<Rightarrow> (OriginCaller, 'call, 's, 'c) did_config_scheme" where
  "weave_did T =
     T\<lparr>MaxNewKeyAgreementKeys := 10, MaxPublicKeysPerDid := 20, MaxTotalKeyAgreementKeys := 19,
       MaxBlocksTxValidity := 2 * HOURS, MaxNumberOfServicesPerDid := 25, MaxServiceIdLength := 50,
       MaxServiceTypeLength := 50, MaxServiceUrlLength := 200, MaxNumberOfTypesPerService := 1,
       MaxNumberOfUrlsPerService := 1, did_signed := EnsureSigned, did_raw_from := try_did_origin,
       did_raw_into := DidOrigin\<rparr>"

definition weave_did_name ::
  "(OriginCaller, 'c) did_name_config_scheme \<Rightarrow> (OriginCaller, 'c) did_name_config_scheme" where
  "weave_did_name T =
     T\<lparr>BanOrigin := EnsureRoot, NameEnsureOrigin := EnsureDidOrigin, MinNameLength := 3,
       MaxNameLength := 64, MaxPrefixLength := 54\<rparr>"

definition weave_schema ::
  "(OriginCaller, 'c) schema_config_scheme \<Rightarrow> (OriginCaller, 'c) schema_config_scheme" where
  "weave_schema T =
     T\<lparr>SchemaEnsureOrigin := EnsureDidOrigin, MaxEncodedSchemaLength := 15360\<rparr>"

definition weave_schema_accounts ::
  "(OriginCaller, 'c) account_schema_config_scheme
   \<Rightarrow> (OriginCaller, 'c) account_schema_config_scheme" where
  "weave_schema_accounts T =
     T\<lparr>SchemaEnsureSigned := EnsureSigned, AccountMaxEncodedSchemaLength := 15360\<rparr>"

definition weave_chain_space ::
  "proportion_check \<Rightarrow> (OriginCaller, 'c) space_config_scheme
   \<Rightarrow> (OriginCaller, 'c) space_config_scheme" where
  "weave_chain_space C T =
     T\<lparr>EnsureOrigin := EnsureDidOrigin, ChainSpaceOrigin := MoreThanHalfCouncil C,
       MaxSpaceDelegates := 10000\<rparr>"

definition weave_registries ::
  "(OriginCaller, 'c) registry_config_scheme \<Rightarrow> (OriginCaller, 'c) registry_config_scheme" where
  "weave_registries T =
     T\<lparr>ensure_signed := EnsureSigned, MaxRegistryDelegates := 10000, MaxRegistryBlobSize := 4 * 1024,
       RegistryMaxEncodedInputLength := 30\<rparr>"

definition weave_entries ::
  "(OriginCaller, 'c) entry_config_scheme \<Rightarrow> (OriginCaller, 'c) entry_config_scheme" where
  "weave_entries T =
     T\<lparr>MaxRegistryEntryBlobSize := 4 * 1024, EntryMaxEncodedInputLength := 30\<rparr>"

definition weave_statement ::
  "(OriginCaller, 'c) statement_config_scheme \<Rightarrow> (OriginCaller, 'c) statement_config_scheme" where
  "weave_statement T =
     T\<lparr>StatementEnsureOrigin := EnsureDidOrigin, MaxDigestsPerBatch := 1000, MaxRemoveEntries := 1000\<rparr>"

definition weave_network_score ::
  "(OriginCaller, 'c) score_config_scheme \<Rightarrow> (OriginCaller, 'c) score_config_scheme" where
  "weave_network_score T =
     T\<lparr>ScoreEnsureOrigin := EnsureDidOrigin, ScoreMaxEncodedValueLength := 128, MaxRatingValue := 50\<rparr>"

section \<open>The configuration of a chain\<close>

text \<open>The runtime of a chain decides; an unknown chain configures nothing.\<close>

definition for_chain :: "'f \<Rightarrow> 'f \<Rightarrow> 'f \<Rightarrow> 'f \<Rightarrow> Chain \<Rightarrow> 'f" where
  "for_chain braid loom weave none chain =
     (case chain of Braid \<Rightarrow> braid | Loom \<Rightarrow> loom | Weave \<Rightarrow> weave | Chain.Unknown \<Rightarrow> none)"

section \<open>Transactions\<close>

text \<open>The extensions of a signed transaction, in the order of \<^verbatim>\<open>SignedExtra\<close>, with the values they carry.\<close>

datatype 'era Extension =
    CheckNetworkMembership | CheckNonZeroSender | CheckSpecVersion | CheckTxVersion | CheckGenesis
  | CheckMortality 'era | CheckNonce u32 | CheckWeight | ChargeTransactionPayment u128

definition braid_SignedExtra :: "'era \<Rightarrow> u32 \<Rightarrow> u128 \<Rightarrow> 'era Extension list" where
  "braid_SignedExtra era nonce tip =
     [CheckNetworkMembership, CheckNonZeroSender, CheckSpecVersion, CheckTxVersion, CheckGenesis,
      CheckMortality era, CheckNonce nonce, CheckWeight, ChargeTransactionPayment tip]"

definition loom_SignedExtra :: "'era \<Rightarrow> u32 \<Rightarrow> u128 \<Rightarrow> 'era Extension list" where
  "loom_SignedExtra era nonce tip =
     [CheckNetworkMembership, CheckNonZeroSender, CheckSpecVersion, CheckTxVersion, CheckGenesis,
      CheckMortality era, CheckNonce nonce, CheckWeight, ChargeTransactionPayment tip]"

text \<open>Weave leaves the check of the membership out.\<close>

definition weave_SignedExtra :: "'era \<Rightarrow> u32 \<Rightarrow> u128 \<Rightarrow> 'era Extension list" where
  "weave_SignedExtra era nonce tip =
     [CheckNonZeroSender, CheckSpecVersion, CheckTxVersion, CheckGenesis,
      CheckMortality era, CheckNonce nonce, CheckWeight, ChargeTransactionPayment tip]"

definition SignedExtra :: "Chain \<Rightarrow> 'era \<Rightarrow> u32 \<Rightarrow> u128 \<Rightarrow> 'era Extension list" where
  "SignedExtra = for_chain braid_SignedExtra loom_SignedExtra weave_SignedExtra (\<lambda>_ _ _. [])"

text \<open>
  A transaction is admitted if all its extensions accept it. The extensions of \<^verbatim>\<open>frame_system\<close> and of the payment
  pallet are not part of the repository: \<open>accepts\<close> stands for them.
\<close>

definition extension_accepts ::
  "('era Extension \<Rightarrow> bool) \<Rightarrow> account \<Rightarrow> 'm membership_storage_scheme \<Rightarrow> 'era Extension \<Rightarrow> bool" where
  "extension_accepts accepts who s e \<longleftrightarrow>
     (if e = CheckNetworkMembership then check_membership_pre_dispatch who s = Ok () else accepts e)"

definition admitted ::
  "('era Extension \<Rightarrow> bool) \<Rightarrow> account \<Rightarrow> 'm membership_storage_scheme \<Rightarrow> 'era Extension list \<Rightarrow> bool" where
  "admitted accepts who s extra \<longleftrightarrow> list_all (extension_accepts accepts who s) extra"

text \<open>
  Transactions that a runtime makes itself, for its off-chain workers. The constructor of eras, the payload, the
  signature and the address are parameters.
\<close>

record ('era, 'pub, 'sig, 'addr) signing_env =
  mortal :: "u64 \<Rightarrow> u64 \<Rightarrow> 'era"
  signed_payload :: "RuntimeCall \<Rightarrow> 'era Extension list \<Rightarrow> bytes option"
  app_sign :: "bytes \<Rightarrow> 'pub \<Rightarrow> 'sig option"
  unlookup :: "account \<Rightarrow> 'addr"

definition BlockHashCount :: u32 where "BlockHashCount = 4096"

definition checked_next_power_of_two :: "u32 \<Rightarrow> u32 option" where
  "checked_next_power_of_two n = map_option (\<lambda>k. 2 ^ k) (find (\<lambda>k. unat n \<le> 2 ^ k) [0..<32])"

definition transaction_period :: u64 where
  "transaction_period =
     ucast (case map_option (\<lambda>c. c div 2) (checked_next_power_of_two BlockHashCount) of Some p \<Rightarrow> p | None \<Rightarrow> 2)"

definition transaction_era :: "('era, 'pub, 'sig, 'addr) signing_env \<Rightarrow> 'm frame_system_scheme \<Rightarrow> 'era" where
  "transaction_era E s = mortal E transaction_period (saturating_sub (ucast (block_number s)) 1)"

definition signed_transaction ::
  "('era, 'pub, 'sig, 'addr) signing_env \<Rightarrow> RuntimeCall \<Rightarrow> 'pub \<Rightarrow> account \<Rightarrow> 'era Extension list
   \<Rightarrow> (RuntimeCall \<times> 'addr \<times> 'sig \<times> 'era Extension list) option" where
  "signed_transaction E call public account extra =
     Option.bind (signed_payload E call extra) (\<lambda>payload.
     Option.bind (app_sign E payload public) (\<lambda>signature.
     Some (call, unlookup E account, signature, extra)))"

definition braid_create_transaction ::
  "('era, 'pub, 'sig, 'addr) signing_env \<Rightarrow> RuntimeCall \<Rightarrow> 'pub \<Rightarrow> account \<Rightarrow> u32 \<Rightarrow> 'm frame_system_scheme
   \<Rightarrow> (RuntimeCall \<times> 'addr \<times> 'sig \<times> 'era Extension list) option" where
  "braid_create_transaction E call public account nonce s =
     signed_transaction E call public account (braid_SignedExtra (transaction_era E s) nonce 0)"

definition loom_create_transaction ::
  "('era, 'pub, 'sig, 'addr) signing_env \<Rightarrow> RuntimeCall \<Rightarrow> 'pub \<Rightarrow> account \<Rightarrow> u32 \<Rightarrow> 'm frame_system_scheme
   \<Rightarrow> (RuntimeCall \<times> 'addr \<times> 'sig \<times> 'era Extension list) option" where
  "loom_create_transaction E call public account nonce s =
     signed_transaction E call public account (loom_SignedExtra (transaction_era E s) nonce 0)"

definition weave_create_transaction ::
  "('era, 'pub, 'sig, 'addr) signing_env \<Rightarrow> RuntimeCall \<Rightarrow> 'pub \<Rightarrow> account \<Rightarrow> u32 \<Rightarrow> 'm frame_system_scheme
   \<Rightarrow> (RuntimeCall \<times> 'addr \<times> 'sig \<times> 'era Extension list) option" where
  "weave_create_transaction E call public account nonce s =
     signed_transaction E call public account (weave_SignedExtra (transaction_era E s) nonce 0)"

definition create_transaction ::
  "Chain \<Rightarrow> ('era, 'pub, 'sig, 'addr) signing_env \<Rightarrow> RuntimeCall \<Rightarrow> 'pub \<Rightarrow> account \<Rightarrow> u32 \<Rightarrow> 'm frame_system_scheme
   \<Rightarrow> (RuntimeCall \<times> 'addr \<times> 'sig \<times> 'era Extension list) option" where
  "create_transaction =
     for_chain braid_create_transaction loom_create_transaction weave_create_transaction (\<lambda>_ _ _ _ _ _. None)"

section \<open>Deposits and fees\<close>

definition MILLI_UNITS :: u128 where "MILLI_UNITS = UNITS div 1000"

definition MICRO_UNITS :: u128 where "MICRO_UNITS = UNITS div 1000000"

definition deposit :: "u32 \<Rightarrow> u32 \<Rightarrow> u128" where
  "deposit items bytes' = ucast items * 100 * UNITS + ucast bytes' * 100 * MILLI_UNITS"

text \<open>
  The fee of a weight is a polynomial of degree one. Its coefficient is \<open>p / q\<close>, given as the integer part and the
  remainder that \<^verbatim>\<open>Perbill::from_rational\<close> rounds. \<open>base\<close> is the reference time of \<^verbatim>\<open>ExtrinsicBaseWeight\<close>.
\<close>

record fee_coefficient =
  degree :: u8
  negative :: bool
  coeff_frac :: "u128 \<times> u128"
  coeff_integer :: u128

definition braid_polynomial :: "u64 \<Rightarrow> fee_coefficient list" where
  "braid_polynomial base =
     (let p = UNITS; q = 10 * ucast base
      in [\<lparr>degree = 1, negative = False, coeff_frac = (p mod q, q), coeff_integer = p div q\<rparr>])"

definition loom_polynomial :: "u64 \<Rightarrow> fee_coefficient list" where
  "loom_polynomial base =
     (let p = MICRO_UNITS; q = 100 * ucast base
      in [\<lparr>degree = 1, negative = False, coeff_frac = (p mod q, q), coeff_integer = p div q\<rparr>])"

definition weave_polynomial :: "u64 \<Rightarrow> fee_coefficient list" where
  "weave_polynomial base =
     (let p = UNITS div 10; q = ucast base
      in [\<lparr>degree = 1, negative = False, coeff_frac = (p mod q, q), coeff_integer = p div q\<rparr>])"

text \<open>
  Where fees go. Loom and Weave give fees and tips to the treasury, Braid gives them to the author of the block; what the treasury and
  the balances do with an amount, and who the author is, are parameters. A third amount would be dropped.
\<close>

definition EverythingToTheTreasury :: "('i \<Rightarrow> 's \<Rightarrow> 's) \<Rightarrow> 'i list \<Rightarrow> 's \<Rightarrow> 's" where
  "EverythingToTheTreasury on_unbalanced fees_then_tips s =
     (case fees_then_tips of
        [] \<Rightarrow> s
      | fees # rest \<Rightarrow>
          let s1 = on_unbalanced fees s in
          (case rest of [] \<Rightarrow> s1 | tips # _ \<Rightarrow> on_unbalanced tips s1))"

definition EverythingToAuthor :: "('s \<Rightarrow> account option) \<Rightarrow> (account \<Rightarrow> 'i \<Rightarrow> 's \<Rightarrow> 's) \<Rightarrow> 'i \<Rightarrow> 's \<Rightarrow> 's" where
  "EverythingToAuthor author resolve_creating amount s =
     (case author s of Some a \<Rightarrow> resolve_creating a amount s | None \<Rightarrow> s)"

text \<open>Balances as 256-bit integers and back. A value that does not fit panics in debug builds and saturates otherwise.\<close>

definition BalanceToU256 :: "u128 \<Rightarrow> 256 word" where "BalanceToU256 n = ucast n"

definition U256ToBalance :: "bool \<Rightarrow> 256 word \<Rightarrow> (u128, unit) result" where
  "U256ToBalance debug_assertions n =
     (if unat n < 2 ^ 128 then Ok (ucast n) else if debug_assertions then Panic else Ok (- 1))"

end
