(* ===== verification/Node_Start.thy ===== *)
theory Node_Start
  imports Chain_Bootstrap
begin

text \<open>
  Starting a node (\<^verbatim>\<open>run\<close> of \<^verbatim>\<open>node/cli/src/command.rs\<close>, \<^verbatim>\<open>select_runtime\<close> of \<^verbatim>\<open>node/cli/src/service.rs\<close>): a subcommand or the
  options of the command line give the identifier of a chain, its specification is loaded, the format of addresses is
  set, and the runtime is chosen. The node itself, started with the chosen runtime, is not modelled, nor are the subcommands that call
  tools of the framework.
\<close>

section \<open>Choosing the runtime\<close>

text \<open>\<open>RunNode\<close> is the start without a subcommand, for the chain the options name; the others start a development chain.\<close>

datatype StartCommand = RunNode string | RunBraid | RunLoom | RunWeave

fun start_id :: "StartCommand \<Rightarrow> string" where
  "start_id (RunNode chain_id) = chain_id"
| "start_id RunBraid = ''dev-node-braid''"
| "start_id RunLoom = ''dev-node-loom''"
| "start_id RunWeave = ''dev-node-weave''"

definition select_runtime :: "chain_spec \<Rightarrow> (Chain, 'e) result" where
  "select_runtime spec =
     (if is_braid spec then Ok Braid
      else if is_loom spec then Ok Loom
      else if is_weave spec then Ok Weave
      else Panic)"

definition node_start :: "'e node_env_scheme \<Rightarrow> StartCommand \<Rightarrow> (chain_spec \<times> u16 \<times> Chain, string) result" where
  "node_start E cmd =
     and_then (load_spec E (start_id cmd)) (\<lambda>spec.
     let format = set_default_ss58_version spec in
     and_then (select_runtime spec) (\<lambda>runtime. Ok (spec, format, runtime)))"

lemma select_runtime_iff: "select_runtime spec = Ok chain \<longleftrightarrow> identify_chain spec = chain \<and> chain \<noteq> Unknown"
  by (auto simp: select_runtime_def identify_chain_def)

lemma select_runtime_panics_iff: "select_runtime spec = Panic \<longleftrightarrow> identify_chain spec = Unknown"
  by (auto simp: select_runtime_def identify_chain_def)

section \<open>The subcommands\<close>

lemma loaded_consistent:
  assumes "load_spec E ident = Ok spec" "network_of E ident = Some chain"
  shows "consistent_spec chain spec"
proof (cases "ident = ''''")
  case False
  then have "(ident, chain) \<in> set network_names" using assms(2) by (auto simp: network_of_def intro: map_of_SomeD)
  then show ?thesis by (rule load_spec_named [OF _ assms(1)])
qed (use assms load_spec_unnamed in simp)

lemma address_format:
  assumes "identify_chain spec = chain" "chain \<noteq> Unknown"
  shows "set_default_ss58_version spec = Ss58AddressFormatPrefix chain"
proof -
  have "\<not> (prefix ''weave'' x \<and> prefix ''loom'' x)" "\<not> (prefix ''weave'' x \<and> prefix ''braid'' x)" "\<not> (prefix ''loom'' x \<and> prefix ''braid'' x)" for x
    by (auto simp: prefix_def)
  then show ?thesis
    using assms by (auto simp: identify_chain_def set_default_ss58_version_def is_braid_def is_loom_def is_weave_def split: if_splits)
qed

text \<open>A node started for a network runs its runtime with its address format, and the specification is consistent; this
  goes for the development subcommands.\<close>

lemma started_network:
  assumes "node_start E cmd = Ok (spec, format, runtime)" "network_of E (start_id cmd) = Some chain"
  shows "runtime = chain \<and> consistent_spec chain spec \<and> format = Ss58AddressFormatPrefix chain"
proof -
  from assms(1) have start: "load_spec E (start_id cmd) = Ok spec" "format = set_default_ss58_version spec"
    "identify_chain spec = runtime" "runtime \<noteq> Unknown"
    by (auto simp: node_start_def Let_def select_runtime_iff)
  have "consistent_spec chain spec" using start(1) assms(2) by (rule loaded_consistent)
  moreover from this have "runtime = chain" using start(3) by (simp add: consistent_spec_def)
  ultimately show ?thesis using start(2-4) address_format by simp
qed

lemma development_networks:
  "network_of E (start_id RunBraid) = Some Braid" "network_of E (start_id RunLoom) = Some Loom"
  "network_of E (start_id RunWeave) = Some Weave"
  by (simp_all add: network_of_def network_names_def)

text \<open>A file with a specification that is not of one of the three networks does not start a node.\<close>

lemma unknown_chain_panics:
  assumes "load_spec E (start_id cmd) = Ok spec" "identify_chain spec = Unknown"
  shows "node_start E cmd = Panic"
  using assms by (simp add: node_start_def Let_def and_then_Panic_iff select_runtime_panics_iff)

end
