(* ===== verification/Runtime_Properties.thy ===== *)
theory Runtime_Properties
  imports Runtime_Config Node_Start
begin

text \<open>
  What the configuration of the runtimes makes of the pallets: who governs a chain, what an identity can reach, who may
  send transactions, and that the constants meet the conditions the properties of the pallets ask for.
\<close>

section \<open>Constants\<close>

lemma time_constants: "MINUTES = 20" "HOURS = 1200" "DAYS = 28800" "YEAR = 10519200"
  by (simp_all add: YEAR_def DAYS_def HOURS_def MINUTES_def MILLISECS_PER_BLOCK_def)

lemma transaction_period_eq: "transaction_period = 2048"
  by code_simp

lemmas runtime_defs =
  braid_identity_def loom_identity_def weave_identity_def
  loom_council_membership_def weave_council_membership_def
  loom_technical_membership_def weave_technical_membership_def
  braid_authority_membership_def loom_authority_membership_def weave_authority_membership_def
  braid_node_authorization_def loom_node_authorization_def weave_node_authorization_def
  braid_network_membership_def loom_network_membership_def weave_network_membership_def
  braid_runtime_upgrade_def loom_runtime_upgrade_def weave_runtime_upgrade_def
  braid_chain_space_def loom_chain_space_def weave_chain_space_def
  braid_did_name_def loom_did_name_def weave_did_name_def
  braid_statement_def loom_statement_def weave_statement_def
  braid_identifier_def loom_identifier_def weave_identifier_def

section \<open>Who governs\<close>

fun origin_fits :: "OriginCaller \<Rightarrow> bool" where
  "origin_fits (Council votes) \<longleftrightarrow> votes_fit votes"
| "origin_fits (TechnicalCommittee votes) \<longleftrightarrow> votes_fit votes"
| "origin_fits _ \<longleftrightarrow> True"

text \<open>The root origin; on the chains with a council also a motion that more than half of its members support. A new
  code needs three fifths of the technical committee instead.\<close>

definition may_govern :: "Chain \<Rightarrow> OriginCaller \<Rightarrow> bool" where
  "may_govern chain origin \<longleftrightarrow> origin = system_origin Root \<or>
     chain \<noteq> Braid \<and> (\<exists>yes seats. origin = Council (CollectiveOrigin.Members yes seats) \<and> unat seats < 2 * unat yes)"

definition may_upgrade :: "Chain \<Rightarrow> OriginCaller \<Rightarrow> bool" where
  "may_upgrade chain origin \<longleftrightarrow> origin = system_origin Root \<or>
     chain \<noteq> Braid \<and> (\<exists>yes seats. origin = TechnicalCommittee (CollectiveOrigin.Members yes seats) \<and> 3 * unat seats < 5 * unat yes)"

lemma more_than_iff: "more_than n d votes \<longleftrightarrow> (\<exists>yes seats. votes = CollectiveOrigin.Members yes seats \<and> n * unat seats < unat yes * d)"
  by (cases votes) simp_all

lemma governing_origins:
  assumes "proportion_spec C" "origin_fits origin"
  shows "EnsureRoot origin \<longleftrightarrow> may_govern Braid origin" "EnsureRoot origin \<longleftrightarrow> may_upgrade Braid origin"
    and "chain \<noteq> Braid \<Longrightarrow> MoreThanHalfCouncil C origin \<longleftrightarrow> may_govern chain origin"
    and "chain \<noteq> Braid \<Longrightarrow> EnsureRootOrCommitteeApproval C origin \<longleftrightarrow> may_upgrade chain origin"
  using assms
  by (cases origin; auto simp: EnsureRoot_def MoreThanHalfCouncil_def EnsureRootOrCommitteeApproval_def may_govern_def
      may_upgrade_def proportion_spec_def more_than_iff mult.commute)+

section \<open>The configuration of each chain\<close>

definition space_on where "space_on C = for_chain braid_chain_space (loom_chain_space C) (weave_chain_space C) id"
definition membership_on where
  "membership_on C = for_chain braid_network_membership (loom_network_membership C) (weave_network_membership C) id"
definition authority_on where
  "authority_on C = for_chain braid_authority_membership (loom_authority_membership C) (weave_authority_membership C) id"
definition node_on where
  "node_on C = for_chain braid_node_authorization (loom_node_authorization C) (weave_node_authorization C) id"
definition identity_on where "identity_on C = for_chain braid_identity (loom_identity C) (weave_identity C) id"
definition council_on where "council_on C = for_chain id (loom_council_membership C) (weave_council_membership C) id"
definition upgrade_on where
  "upgrade_on C = for_chain braid_runtime_upgrade (loom_runtime_upgrade C) (weave_runtime_upgrade C) id"
definition statement_on where "statement_on = for_chain braid_statement loom_statement weave_statement id"
definition identifier_on where "identifier_on = for_chain braid_identifier loom_identifier weave_identifier id"

lemmas on_defs = space_on_def membership_on_def authority_on_def node_on_def identity_on_def council_on_def upgrade_on_def
  statement_on_def identifier_on_def for_chain_def

lemma configured_origins:
  assumes "chain \<in> {Braid, Loom, Weave}" "proportion_spec C" "origin_fits origin"
  shows "ChainSpaceOrigin (space_on C chain T1) origin \<longleftrightarrow> may_govern chain origin"
    and "NetworkMembershipOrigin (membership_on C chain T2) origin \<longleftrightarrow> may_govern chain origin"
    and "AuthorityMembershipOrigin (authority_on C chain T3) origin \<longleftrightarrow> may_govern chain origin"
    and "NodeAuthorizationOrigin (node_on C chain T4) origin \<longleftrightarrow> may_govern chain origin"
    and "RegistrarOrigin (identity_on C chain T5) origin \<longleftrightarrow> may_govern chain origin"
    and "UsernameAuthorityOrigin (identity_on C chain T5) origin \<longleftrightarrow> may_govern chain origin"
    and "SetCodeOrigin (upgrade_on C chain T6) origin \<longleftrightarrow> may_upgrade chain origin"
  using assms(1) governing_origins(1,2) [OF assms(2,3)] governing_origins(3,4) [OF assms(2,3), of chain]
  by (auto simp: on_defs runtime_defs)

lemma configured_council:
  assumes "chain \<in> {Loom, Weave}" "proportion_spec C" "origin_fits origin"
  shows "AddOrigin (council_on C chain T) origin \<longleftrightarrow> may_govern chain origin"
    and "RemoveOrigin (council_on C chain T) origin \<longleftrightarrow> may_govern chain origin"
    and "SwapOrigin (council_on C chain T) origin \<longleftrightarrow> may_govern chain origin"
    and "ResetOrigin (council_on C chain T) origin \<longleftrightarrow> may_govern chain origin"
    and "PrimeOrigin (council_on C chain T) origin \<longleftrightarrow> may_govern chain origin"
  using assms(1) governing_origins(3) [OF assms(2,3), of chain] by (auto simp: on_defs runtime_defs)

section \<open>Governed calls\<close>

text \<open>The calls for which a pallet asks for the governing origin first.\<close>

fun governed_space_call :: "SpaceCall \<Rightarrow> bool" where
  "governed_space_call (ApproveSpace i n) \<longleftrightarrow> True"
| "governed_space_call (UpdateTransactionCapacity i n) \<longleftrightarrow> True"
| "governed_space_call (RevokeApproval i) \<longleftrightarrow> True"
| "governed_space_call (RestoreApproval i) \<longleftrightarrow> True"
| "governed_space_call _ \<longleftrightarrow> False"

fun governed_authority_call :: "AuthorityCall \<Rightarrow> bool" where
  "governed_authority_call GoOffline \<longleftrightarrow> False"
| "governed_authority_call GoOnline \<longleftrightarrow> False"
| "governed_authority_call _ \<longleftrightarrow> True"

fun governed_node_call :: "'l NodeCall \<Rightarrow> bool" where
  "governed_node_call (AddWellKnownNode n l) \<longleftrightarrow> True"
| "governed_node_call (RemoveWellKnownNode n) \<longleftrightarrow> True"
| "governed_node_call _ \<longleftrightarrow> False"

fun governed_identity_call :: "('l, 'sig) IdentityCall \<Rightarrow> bool" where
  "governed_identity_call (AddRegistrar l) \<longleftrightarrow> True"
| "governed_identity_call (RemoveRegistrar l) \<longleftrightarrow> True"
| "governed_identity_call (KillIdentity l) \<longleftrightarrow> True"
| "governed_identity_call (AddUsernameAuthority l sfx n) \<longleftrightarrow> True"
| "governed_identity_call (RemoveUsernameAuthority l) \<longleftrightarrow> True"
| "governed_identity_call _ \<longleftrightarrow> False"

fun governed_council_call :: "'l CouncilCall \<Rightarrow> bool" where
  "governed_council_call (ChangeKey l) \<longleftrightarrow> False"
| "governed_council_call _ \<longleftrightarrow> True"

lemma ungoverned_refused:
  "governed_space_call c1 \<Longrightarrow> \<not> ChainSpaceOrigin T1 origin \<Longrightarrow> space_dispatch T1 origin c1 s1 = Err BadOrigin"
  "\<not> NetworkMembershipOrigin T2 origin \<Longrightarrow> membership_dispatch T2 origin c2 s2 = Err BadOrigin"
  "governed_authority_call c3 \<Longrightarrow> \<not> AuthorityMembershipOrigin T3 origin \<Longrightarrow>
     authority_dispatch T3 (origin, c3) s3 = Err BadOrigin"
  "governed_node_call c4 \<Longrightarrow> \<not> NodeAuthorizationOrigin T4 origin \<Longrightarrow> node_dispatch T4 origin c4 s4 = Err BadOrigin"
  "governed_identity_call c5 \<Longrightarrow> \<not> RegistrarOrigin T5 origin \<Longrightarrow> \<not> UsernameAuthorityOrigin T5 origin \<Longrightarrow>
     identity_dispatch T5 origin c5 s5 = Err BadOrigin"
  "governed_council_call c6 \<Longrightarrow> \<not> AddOrigin T6 origin \<Longrightarrow> \<not> RemoveOrigin T6 origin \<Longrightarrow> \<not> SwapOrigin T6 origin \<Longrightarrow>
     \<not> ResetOrigin T6 origin \<Longrightarrow> \<not> PrimeOrigin T6 origin \<Longrightarrow> council_dispatch T6 origin c6 s6 = Err BadOrigin"
  "\<not> SetCodeOrigin T7 origin \<Longrightarrow> set_code T7 origin code s7 = Err BadOrigin"
proof -
  show "governed_space_call c1 \<Longrightarrow> \<not> ChainSpaceOrigin T1 origin \<Longrightarrow> space_dispatch T1 origin c1 s1 = Err BadOrigin"
    by (cases c1) (simp_all add: space_approve_def space_update_transaction_capacity_def space_approval_revoke_def
        space_approval_restore_def ensure_governance_def)
  show "\<not> NetworkMembershipOrigin T2 origin \<Longrightarrow> membership_dispatch T2 origin c2 s2 = Err BadOrigin"
    by (cases c2) (simp_all add: membership_nominate_def membership_renew_def membership_revoke_def membership_origin_def)
  show "governed_authority_call c3 \<Longrightarrow> \<not> AuthorityMembershipOrigin T3 origin \<Longrightarrow>
     authority_dispatch T3 (origin, c3) s3 = Err BadOrigin"
    by (cases c3) (simp_all add: authority_nominate_def authority_remove_def remove_member_from_blacklist_def)
  show "governed_node_call c4 \<Longrightarrow> \<not> NodeAuthorizationOrigin T4 origin \<Longrightarrow> node_dispatch T4 origin c4 s4 = Err BadOrigin"
    by (cases c4) (simp_all add: add_well_known_node_def remove_well_known_node_def)
  show "governed_identity_call c5 \<Longrightarrow> \<not> RegistrarOrigin T5 origin \<Longrightarrow> \<not> UsernameAuthorityOrigin T5 origin \<Longrightarrow>
     identity_dispatch T5 origin c5 s5 = Err BadOrigin"
    by (cases c5) (simp_all add: add_registrar_def remove_registrar_def kill_identity_def add_username_authority_def
        remove_username_authority_def)
  show "governed_council_call c6 \<Longrightarrow> \<not> AddOrigin T6 origin \<Longrightarrow> \<not> RemoveOrigin T6 origin \<Longrightarrow> \<not> SwapOrigin T6 origin \<Longrightarrow>
     \<not> ResetOrigin T6 origin \<Longrightarrow> \<not> PrimeOrigin T6 origin \<Longrightarrow> council_dispatch T6 origin c6 s6 = Err BadOrigin"
    by (cases c6) (simp_all add: council_add_member_def council_remove_member_def council_swap_member_def
        council_reset_members_def council_set_prime_def council_clear_prime_def)
  show "\<not> SetCodeOrigin T7 origin \<Longrightarrow> set_code T7 origin code s7 = Err BadOrigin"
    by (simp add: set_code_def)
qed

lemma never_BadOrigin [simp]:
  "map_err Module r \<noteq> Err BadOrigin" "plain_add checks a b \<noteq> Err e" "plain_sub checks a b \<noteq> Err e"
  by (cases r) (simp_all add: plain_add_def plain_sub_def)

lemma governed_accepted:
  "ChainSpaceOrigin T1 origin \<Longrightarrow> governed_space_call c1 \<Longrightarrow> space_dispatch T1 origin c1 s1 \<noteq> Err BadOrigin"
  "NetworkMembershipOrigin T2 origin \<Longrightarrow> membership_dispatch T2 origin c2 s2 \<noteq> Err BadOrigin"
proof -
  show "ChainSpaceOrigin T1 origin \<Longrightarrow> governed_space_call c1 \<Longrightarrow> space_dispatch T1 origin c1 s1 \<noteq> Err BadOrigin"
    by (cases c1) (auto simp: space_approve_def space_update_transaction_capacity_def space_approval_revoke_def
        space_approval_restore_def ensure_governance_def and_then_Err_iff
        parent_usage_after_def parent_reserve_after_def ok_or_def ensure_def split: if_splits option.splits)
  show "NetworkMembershipOrigin T2 origin \<Longrightarrow> membership_dispatch T2 origin c2 s2 \<noteq> Err BadOrigin"
    by (cases c2) (auto simp: membership_nominate_def membership_renew_def membership_revoke_def membership_origin_def
      and_then_Err_iff ok_or_def ensure_def add_member_and_schedule_expiry_def schedule_expiry_def swap_remove_def Let_def
      split: if_splits option.splits)
qed

text \<open>C6: on every runtime a call that the pallets reserve for the governing body is refused, with the error for a
  wrong origin and whatever its arguments and the storage are, unless it comes from the root origin or, where there is a council,
  from a motion supported by more than half of it. No signed account, no identity and no tie in the council can approve
  spaces, change the members of the network or the council, its authorities, nodes, registrars or username authorities; and a new code is
  refused without three fifths of the technical committee. The governing body is not refused.\<close>

theorem governed_calls_need_governance:
  assumes "chain \<in> {Braid, Loom, Weave}" "proportion_spec C" "origin_fits origin"
  shows "(governed_space_call c1 \<longrightarrow> (space_dispatch (space_on C chain T1) origin c1 s1 = Err BadOrigin \<longleftrightarrow> \<not> may_govern chain origin)) \<and>
     (membership_dispatch (membership_on C chain T2) origin c2 s2 = Err BadOrigin \<longleftrightarrow> \<not> may_govern chain origin) \<and>
     (\<not> may_upgrade chain origin \<longrightarrow> set_code (upgrade_on C chain T7) origin code s7 = Err BadOrigin) \<and>
     (\<not> may_govern chain origin \<longrightarrow>
       (governed_authority_call c3 \<longrightarrow> authority_dispatch (authority_on C chain T3) (origin, c3) s3 = Err BadOrigin) \<and>
       (governed_node_call c4 \<longrightarrow> node_dispatch (node_on C chain T4) origin c4 s4 = Err BadOrigin) \<and>
       (governed_identity_call c5 \<longrightarrow> identity_dispatch (identity_on C chain T5) origin c5 s5 = Err BadOrigin) \<and>
       (governed_council_call c6 \<and> chain \<noteq> Braid \<longrightarrow> council_dispatch (council_on C chain T6) origin c6 s6 = Err BadOrigin))"
proof -
  note on = configured_origins [OF assms]
  have "governed_council_call c6 \<and> chain \<noteq> Braid \<longrightarrow> council_dispatch (council_on C chain T6) origin c6 s6 = Err BadOrigin"
    if "\<not> may_govern chain origin"
    using that assms(1) configured_council [OF _ assms(2,3), of chain T6] by (auto intro: ungoverned_refused(6))
  moreover have "governed_space_call c1 \<longrightarrow> (space_dispatch (space_on C chain T1) origin c1 s1 = Err BadOrigin \<longleftrightarrow> \<not> may_govern chain origin)"
    "membership_dispatch (membership_on C chain T2) origin c2 s2 = Err BadOrigin \<longleftrightarrow> \<not> may_govern chain origin"
    using on(1,2) ungoverned_refused(1,2) by (metis governed_accepted)+
  ultimately show ?thesis
    by (simp add: on(3-7) ungoverned_refused(3-5,7))
qed

text \<open>A motion in a council of four with two in favour, and any calls and storage.\<close>

lemma sample_proportion: "proportion_spec more_than"
  by (simp add: proportion_spec_def)

definition sample_gov_config :: "OriginCaller membership_config" where
  "sample_gov_config = \<lparr>overflow_checks = True, hashing = id, encode_hash = id, encode_account = id, encode_ident = id,
     encode_vec = id, blake2b_64 = id, bs58_encode = id, bs58_decode = Some, NetworkMembershipOrigin = (\<lambda>_. True),
     MembershipPeriod = 5, MaxMembersPerBlock = 5, inc_providers = (\<lambda>_. id), dec_providers = (\<lambda>_. id)\<rparr>"

theorem governed_calls_need_governance_witness:
  "membership_dispatch (membership_on more_than Loom sample_gov_config)
     (Council (CollectiveOrigin.Members 2 4)) (RevokeMember [1]) sample_members = Err BadOrigin"
proof -
  have "Loom \<in> {Braid, Loom, Weave}" "origin_fits (Council (CollectiveOrigin.Members 2 4))"
    "\<not> may_govern Loom (Council (CollectiveOrigin.Members 2 4))"
    by (simp_all add: may_govern_def)
  from governed_calls_need_governance [OF this(1) sample_proportion this(2), of _ _ _ sample_gov_config
      "RevokeMember [1]" sample_members, THEN conjunct2, THEN conjunct1] this(3)
  show ?thesis by (simp del: membership_dispatch.simps)
qed

section \<open>What an identity can reach\<close>

text \<open>C23: two calls of the chain-space pallet are out of reach on every runtime. An identity is allowed to submit the
  call that updates the capacity of a space, which the pallet then refuses from every identity; and resetting the usage of a
  sub-space is left to the creator of its parent, an identity, that is not allowed to submit it. Every
  other origin is refused, so the usage of a sub-space cannot be reset.\<close>

theorem subspace_usage_cannot_be_reset:
  assumes "chain \<in> {Braid, Loom, Weave}" "Spaces s i = Some d" "parent d \<noteq> i"
  shows "derive_verification_key_relationship (ChainSpaceC Space_reset_transaction_count) = Err NotCallableByDid \<and>
     (\<forall>origin. (\<forall>r. origin \<noteq> DidOrigin r) \<longrightarrow> \<not> is_Ok (space_dispatch (space_on C chain T) origin (ResetTransactionCount i) s)) \<and>
     derive_verification_key_relationship (ChainSpaceC Space_update_transaction_capacity) = Ok Authentication \<and>
     (\<forall>r n. space_dispatch (space_on C chain T) (DidOrigin r) (UpdateTransactionCapacity i n) s = Err BadOrigin)"
proof -
  have did: "EnsureDidOrigin origin = None" if "\<forall>r. origin \<noteq> DidOrigin r" for origin
    using that by (cases origin) (simp_all add: EnsureDidOrigin_def)
  have "EnsureOrigin (space_on C chain T) = EnsureDidOrigin" "\<not> ChainSpaceOrigin (space_on C chain T) (DidOrigin r)" for r
    using assms(1) by (auto simp: on_defs runtime_defs EnsureRoot_def MoreThanHalfCouncil_def)
  then show ?thesis
    using assms(2,3) did
    by (auto simp: ensure_subject_def ensure_def space_reset_transaction_count_def space_update_transaction_capacity_def
        ensure_governance_def split: if_splits)
qed

definition sample_space_config :: "OriginCaller space_config" where
  "sample_space_config = \<lparr>overflow_checks = True, hashing = id, encode_hash = id, encode_account = id, encode_ident = id,
     encode_vec = id, blake2b_64 = id, bs58_encode = id, bs58_decode = Some, MaxEventsHistory = 6,
     EnsureOrigin = (\<lambda>_. None), ChainSpaceOrigin = (\<lambda>_. True), is_permissioned = True, MaxSpaceDelegates = 5\<rparr>"

theorem subspace_usage_cannot_be_reset_witness:
  "\<not> is_Ok (space_dispatch (space_on more_than Loom sample_space_config) (system_origin Root) (ResetTransactionCount [1])
     (empty_storage\<lparr>Spaces := [[1] \<mapsto> sample_details [2] 9 [5]]\<rparr>))"
proof -
  have "Loom \<in> {Braid, Loom, Weave}"
    "Spaces (empty_storage\<lparr>Spaces := [[1] \<mapsto> sample_details [2] 9 [5]]\<rparr>) [1] = Some (sample_details [2] 9 [5])"
    "parent (sample_details [2] 9 [5]) \<noteq> [1]"
    by (simp_all add: sample_details_def)
  from subspace_usage_cannot_be_reset [OF this, of more_than sample_space_config] show ?thesis by simp
qed

section \<open>Who may send transactions\<close>

lemma SignedExtra_eq:
  "chain \<in> {Braid, Loom} \<Longrightarrow> SignedExtra chain era nonce tip = CheckNetworkMembership # weave_SignedExtra era nonce tip"
  "SignedExtra Weave era nonce tip = weave_SignedExtra era nonce tip"
  by (auto simp: SignedExtra_def for_chain_def braid_SignedExtra_def loom_SignedExtra_def weave_SignedExtra_def)

lemma check_membership_iff: "check_membership_pre_dispatch who s = Ok () \<longleftrightarrow> is_member who s"
  by (simp add: check_membership_pre_dispatch_def check_membership_validate_def is_member_def)

lemma admitted_iff:
  "admitted accepts who s (CheckNetworkMembership # es) \<longleftrightarrow> is_member who s \<and> admitted accepts who s es"
  "admitted accepts who s (weave_SignedExtra era nonce tip) \<longleftrightarrow> (\<forall>e \<in> set (weave_SignedExtra era nonce tip). accepts e)"
  by (simp_all add: admitted_def extension_accepts_def check_membership_iff weave_SignedExtra_def)

lemma bootstrapped_chain:
  assumes "bootstrap_run E c = Ok spec"
  shows "identify_chain spec \<in> {Braid, Loom, Weave}" "identify_chain spec = Weave \<longleftrightarrow> is_weave spec"
proof -
  obtain chain where "spec_id spec = chain_label chain @ ''-cord-custom''" "chain \<in> {Braid, Loom, Weave}"
    using assms by (rule bootstrapped_genesis)
  then show "identify_chain spec \<in> {Braid, Loom, Weave}" "identify_chain spec = Weave \<longleftrightarrow> is_weave spec"
    by (auto simp: identify_chain_def is_braid_def is_loom_def is_weave_def)
qed

lemma bootstrapped_consistent:
  assumes "bootstrap_run E c = Ok spec"
  shows "permissioned (spec_genesis spec) \<longleftrightarrow> identify_chain spec \<noteq> Weave" "identify_chain spec \<in> {Braid, Loom, Weave}"
  using bootstrapped_permission [OF assms] bootstrapped_chain [OF assms] by simp_all

lemma admitted_by_runtime:
  assumes "chain \<in> {Braid, Loom, Weave}"
  shows "admitted accepts who s (SignedExtra chain era nonce tip) \<longleftrightarrow>
     (chain \<noteq> Weave \<longrightarrow> is_member who s) \<and> (\<forall>e \<in> set (weave_SignedExtra era nonce tip). accepts e)"
  using assms by (cases "chain = Weave") (auto simp: SignedExtra_eq admitted_iff)

text \<open>C37: the places that know whether a network is permissioned agree, for a custom chain as for the networks the node
  knows by name. The runtime that the node selects for the specification admits a transaction exactly if the extensions of the framework
  accept it and, if the genesis sets the flag that makes new spaces wait for an approval, its sender is a member of the network.\<close>

theorem transactions_of_network:
  assumes "bootstrap_run B c = Ok spec \<or> load_spec E ident = Ok spec \<and> network_of E ident \<noteq> None"
  shows "\<exists>runtime. select_runtime spec = (Ok runtime :: (_, string) result) \<and>
     (admitted accepts who s (SignedExtra runtime era nonce tip) \<longleftrightarrow>
       (permissioned (spec_genesis spec) \<longrightarrow> is_member who s) \<and>
       (\<forall>e \<in> set (weave_SignedExtra era nonce tip). accepts e))"
proof -
  have "chain \<in> {Braid, Loom, Weave}" if "network_of E ident = Some chain" for chain
    using that by (auto simp: network_of_def network_names_def Let_def split: if_splits dest!: map_of_SomeD)
  then have net: "permissioned (spec_genesis spec) \<longleftrightarrow> identify_chain spec \<noteq> Weave" "identify_chain spec \<in> {Braid, Loom, Weave}"
    using assms bootstrapped_consistent [of B c spec] loaded_consistent [of E ident spec] by (auto simp: consistent_spec_def)
  then have "select_runtime spec = (Ok (identify_chain spec) :: (_, string) result)" by (auto simp: select_runtime_iff)
  then show ?thesis using net admitted_by_runtime [OF net(2)] by (intro exI [of _ "identify_chain spec"]) simp
qed

text \<open>A transaction that a runtime makes carries the extensions its own checks expect, is valid for at most as many blocks
  as hashes of blocks are kept, and is mortal from the block before the current one.\<close>

lemma created_transaction:
  assumes "create_transaction chain E call public account nonce s = Some (call', addr, sig, extra)"
  shows "call' = call \<and> addr = unlookup E account \<and> extra = SignedExtra chain (transaction_era E s) nonce 0"
    and "transaction_era E s = mortal E 2048 (saturating_sub (ucast (block_number s)) 1) \<and> transaction_period \<le> ucast BlockHashCount"
  using assms
  by (cases chain; auto simp: create_transaction_def for_chain_def braid_create_transaction_def loom_create_transaction_def
      weave_create_transaction_def signed_transaction_def SignedExtra_def transaction_era_def transaction_period_eq
      BlockHashCount_def bind_eq_Some_conv)+

theorem transactions_of_network_witness:
  "\<exists>runtime. select_runtime (custom_spec sample_settings Loom Local
     (custom_genesis_for Loom [bytes_of ''A'', bytes_of ''C''] [(bytes_of ''N'', bytes_of ''A'')]
       [(bytes_of ''A'', bytes_of ''A'', bytes_of ''B'', bytes_of ''A'', bytes_of ''A''),
        (bytes_of ''C'', bytes_of ''C'', bytes_of ''D'', bytes_of ''C'', bytes_of ''C'')] (bytes_of ''A''))) = (Ok runtime :: (_, string) result) \<and>
     \<not> admitted (\<lambda>_. True) [7] sample_members_0 (SignedExtra runtime () 0 0)"
proof -
  have "\<not> is_member [7] sample_members_0"
    by (simp add: is_member_def sample_members_0_def)
  with transactions_of_network [OF disjI1 [OF sample_bootstrap], of "\<lambda>_. True" "[7]" sample_members_0 "()" 0 0]
  show ?thesis by (auto simp: custom_spec_def custom_genesis_for_def genesis_for_def Let_def)
qed

section \<open>The scheduler\<close>

text \<open>The comparison of origins, by which the scheduler decides who may cancel or reschedule a task, never lets an origin
  without the power to govern act on the task of one that has it: an origin that is compared as at least as privileged as one that may
  govern may govern too.\<close>

theorem privilege_respects_governance:
  assumes "cmp_privilege checks l r = Ok (Some x)" "x \<noteq> Less" "proper_origin l" "proper_origin r" "may_govern chain r"
  shows "may_govern chain l"
  using assms(1)
proof (cases rule: cmp_privilege_cases)
  case (3 ly lc ry rc)
  have "cmp_nat (unat ly * unat rc) (unat ry * unat lc) = x"
    using assms(1) cmp_council [of ly lc ry rc checks] assms(3,4) 3 by simp
  then have le: "unat ry * unat lc \<le> unat ly * unat rc" using assms(2) cmp_nat_simps(1) by blast
  have r: "unat rc < 2 * unat ry" "chain \<noteq> Braid" using assms(5) 3 by (auto simp: may_govern_def)
  have pos: "0 < unat lc" "0 < unat ry" using proper_votes(3) assms(3) 3 r by auto
  have "unat rc * unat lc < 2 * (unat ry * unat lc)" using r(1) pos by simp
  also have "\<dots> \<le> unat rc * (2 * unat ly)" using le by (simp add: ac_simps)
  finally have "unat lc < 2 * unat ly" by simp
  then show ?thesis using 3 r(2) by (simp add: may_govern_def)
qed (use assms(5) in \<open>simp_all add: may_govern_def\<close>)

theorem privilege_respects_governance_witness:
  "cmp_privilege True (Council (CollectiveOrigin.Members 3 4)) (Council (CollectiveOrigin.Members 2 3)) = Ok (Some Greater) \<and>
   may_govern Loom (Council (CollectiveOrigin.Members 3 4))"
proof -
  have "cmp_privilege True (Council (CollectiveOrigin.Members 3 4)) (Council (CollectiveOrigin.Members 2 3)) = Ok (Some Greater)"
    by (simp add: cmp_privilege_def plain_mul_def cmp_u32_def)
  moreover have "may_govern Loom (Council (CollectiveOrigin.Members 3 4))"
    by (rule privilege_respects_governance [OF calculation]) (simp_all add: may_govern_def)
  ultimately show ?thesis ..
qed

section \<open>The constants\<close>

text \<open>On every runtime a statement with \<open>n\<close> digests takes one call for each thousand of them to be removed.\<close>

lemma runtime_constants:
  assumes "chain \<in> {Braid, Loom, Weave}"
  shows "MaxRemoveEntries (statement_on chain T) = 1000" "MaxEventsHistory (identifier_on chain T') = - 1"
  using assms by (auto simp: on_defs runtime_defs)

lemma removal_on_runtime:
  assumes "chain \<in> {Braid, Loom, Weave}" "storage_spec (statement_on chain T)" "may_remove (statement_on chain T) origin i a d s"
  shows "\<exists>s'. remove_calls (statement_on chain T) origin i a (calls_needed 1000 (length (StatementEntries s i))) s = Ok s' \<and>
      Statements s' i = None \<and> StatementEntries s' i = []"
  using remove_calls_run [OF assms(2) _ assms(3)] by (simp add: runtime_constants(1) [OF assms(1)])

text \<open>A deposit never wraps around: with items and bytes of 32 bits the sum fits.\<close>

lemma deposit_exact: "unat (deposit items n) = unat items * 100 * 10 ^ 12 + unat n * 100 * 10 ^ 9"
proof -
  have "unat items < 2 ^ 32" "unat n < 2 ^ 32"
    using unsigned_less [of items, where ?'a = nat] unsigned_less [of n, where ?'a = nat] by simp_all
  then show ?thesis
    by (simp add: deposit_def UNITS_def MILLI_UNITS_def unat_word_ariths unsigned_ucast_eq take_bit_nat_eq_self)
qed

text \<open>For every positive base weight the fee of a weight is defined on all three runtimes, and its coefficient is
  split without loss.\<close>

lemma scaled_base_pos: "0 < k * (ucast base :: u128)" if "0 < base" "unat k \<le> 100" "0 < k" for base :: u64
proof -
  have base: "unat base < 2 ^ 64" using unsigned_less [of base, where ?'a = nat] by simp
  then have "unat (ucast base :: u128) = unat base" by (simp add: unsigned_ucast_eq take_bit_nat_eq_self)
  moreover have "unat k * unat base < 2 ^ 128"
    using that(2) base mult_mono [of "unat k" 100 "unat base" "2 ^ 64"] by simp
  ultimately show ?thesis using that by (simp add: word_less_nat_alt unat_word_ariths)
qed

lemma fee_coefficient_split:
  assumes "f \<in> set (braid_polynomial base @ loom_polynomial base @ weave_polynomial base)" "0 < base"
  shows "fst (coeff_frac f) < snd (coeff_frac f) \<and>
    coeff_integer f * snd (coeff_frac f) + fst (coeff_frac f) \<in> {UNITS, MICRO_UNITS, UNITS div 10}"
proof -
  have split: "p div q * q + p mod q = p" "0 < q \<Longrightarrow> p mod q < q" for p q :: u128
    by (rule div_mult_mod_eq) (simp add: word_less_nat_alt unat_mod)
  have "0 < 10 * (ucast base :: u128)" "0 < 100 * (ucast base :: u128)" "0 < (ucast base :: u128)"
    using scaled_base_pos [OF assms(2), of 10] scaled_base_pos [OF assms(2), of 100] scaled_base_pos [OF assms(2), of 1]
    by simp_all
  then show ?thesis
    using assms(1) split by (auto simp: braid_polynomial_def loom_polynomial_def weave_polynomial_def Let_def)
qed

text \<open>Fees and a tip both reach the treasury, and a balance survives the conversion.\<close>

lemma fees_and_tip_to_treasury: "length amounts \<le> 2 \<Longrightarrow> EverythingToTheTreasury f amounts s = fold f amounts s"
  by (auto simp: EverythingToTheTreasury_def Let_def split: list.splits)

lemma balance_roundtrip: "U256ToBalance debug (BalanceToU256 n) = Ok n"
proof -
  have n: "unat n < 2 ^ 128" using unsigned_less [of n, where ?'a = nat] by simp
  then have wide: "unat (ucast n :: 256 word) = unat n"
    by (simp add: unsigned_ucast_eq take_bit_nat_eq_self)
  then have "unat (ucast (ucast n :: 256 word) :: u128) = unat n"
    using n by (simp add: unsigned_ucast_eq [where ?'b = 256] take_bit_nat_eq_self)
  then have "ucast (ucast n :: 256 word) = n" by (simp only: word_unat_eq_iff)
  then show ?thesis using n by (simp add: U256ToBalance_def BalanceToU256_def wide)
qed

end
