(* ===== verification/Authorities_Properties.thy ===== *)
theory Authorities_Properties
  imports Authorities
begin

text \<open>
  Properties of the authorities pallet: the well-formedness of its storage, the exact outcome of a
  new session, the admission of authorities, and the two gaps named in the model's theory.
\<close>

section \<open>Frame lemmas\<close>

text \<open>The network-membership pallet leaves the authorities alone.\<close>

definition same_authorities :: "'m authority_storage_scheme \<Rightarrow> 'm authority_storage_scheme \<Rightarrow> bool" where
  "same_authorities s s' \<longleftrightarrow> AuthorityMembers s' = AuthorityMembers s \<and> BlackList s' = BlackList s \<and>
     IncomingAuthorities s' = IncomingAuthorities s \<and> OutgoingAuthorities s' = OutgoingAuthorities s"

lemma same_authorities_trans: "same_authorities s t \<Longrightarrow> same_authorities t u \<Longrightarrow> same_authorities s u"
  by (simp add: same_authorities_def)

lemma membership_frame_authorities [simp]:
  "same_authorities s (membership_deposit_event e s')  = same_authorities s s'"
  "same_authorities s (members_insert m d s') = same_authorities s s'"
  "same_authorities s (members_remove m s') = same_authorities s s'"
  "same_authorities s (schedule_expiry T n m s') = same_authorities s s'"
  "same_authorities s (s'\<lparr>provider_refs := p\<rparr>) = same_authorities s s'"
  "same_authorities s (s'\<lparr>MembershipsExpiresOn := l\<rparr>) = same_authorities s s'"
  "same_authorities s (s'\<lparr>MembershipsRenewsOn := r\<rparr>) = same_authorities s s'"
  "same_authorities s (s'\<lparr>block_number := n\<rparr>) = same_authorities s s'"
  "same_authorities s s"
  by (simp_all add: same_authorities_def membership_deposit_event_def members_insert_def members_remove_def
      schedule_expiry_def split: option.split)

lemma do_expire_or_renew_authorities:
  "do_expire_or_renew_membership T m n s = Ok s' \<Longrightarrow> same_authorities s s'"
  by (auto simp: do_expire_or_renew_membership_def renew_membership_and_schedule_expiry_def split: if_splits)

lemma expire_loop_authorities: "expire_or_renew_loop T n ms s = Ok s' \<Longrightarrow> same_authorities s s'"
proof (induction ms arbitrary: s)
  case (Cons m ms)
  then show ?case by (auto intro: same_authorities_trans [OF do_expire_or_renew_authorities])
qed simp

lemma open_block_authorities:
  assumes "open_block T s = Ok s'"
  shows "same_authorities s s'"
proof -
  have "same_authorities (s\<lparr>block_number := n, MembershipsExpiresOn := l\<rparr>) s' \<Longrightarrow> same_authorities s s'" for n l
    by (simp add: same_authorities_def)
  with assms show ?thesis
    by (auto simp: open_block_def membership_on_initialize_def renew_or_expire_memberships_def
        dest!: expire_loop_authorities split: if_splits)
qed

lemma membership_step_authorities:
  assumes "membership_step T s s'"
  shows "same_authorities s s'"
  using assms
proof cases
  case (call origin c)
  then show ?thesis
    by (cases c) (auto simp: membership_nominate_def membership_renew_def membership_revoke_def
        add_member_and_schedule_expiry_def Let_def split: if_splits option.splits)
next
  case block
  then show ?thesis by (rule open_block_authorities)
qed

lemma authority_frame [simp]:
  "AuthorityMembers (authority_deposit_event e s) = AuthorityMembers s"
  "BlackList (authority_deposit_event e s) = BlackList s"
  "IncomingAuthorities (authority_deposit_event e s) = IncomingAuthorities s"
  "OutgoingAuthorities (authority_deposit_event e s) = OutgoingAuthorities s"
  "session_validators (authority_deposit_event e s) = session_validators s"
  by (simp_all add: authority_deposit_event_def)

section \<open>A new session\<close>

lemma remove_each_Ok:
  "\<exists>ws. remove_each dels vs = Ok ws \<and> (distinct vs \<longrightarrow> distinct ws \<and> set ws = set vs - set dels)"
proof (induction dels arbitrary: vs)
  case (Cons d dels)
  show ?case
  proof (cases "position d vs")
    case None
    then have "d \<notin> set vs" by (simp add: position_None_iff)
    with Cons.IH [of vs] None show ?thesis by auto
  next
    case (Some i)
    then have i: "i < length vs" "vs ! i = d" using position_Some by fastforce+
    let ?vs = "butlast (vs[i := last vs])"
    have "distinct vs \<longrightarrow> distinct ?vs \<and> set ?vs = set vs - {d}" using swap_removed [of vs i] i by auto
    with Cons.IH [of ?vs] Some i(1) show ?thesis by (auto simp: swap_remove_def)
  qed
qed simp

lemma push_each_set: "set (push_each vs authorities) = set authorities \<union> set vs"
  by (induction vs arbitrary: authorities) auto

lemma push_each_distinct: "distinct authorities \<Longrightarrow> distinct (push_each vs authorities)"
  by (induction vs arbitrary: authorities) auto

lemma new_session_OkE:
  assumes "new_session s = Ok (r, s')"
  obtains "IncomingAuthorities s = []" "OutgoingAuthorities s = []" "r = None"
      "s' = s\<lparr>IncomingAuthorities := [], OutgoingAuthorities := []\<rparr>"
  | ws e where "IncomingAuthorities s \<noteq> [] \<or> OutgoingAuthorities s \<noteq> []"
      "remove_each (OutgoingAuthorities s) (session_validators s) = (Ok ws :: (validator list, unit) result)"
      "r = Some (push_each (IncomingAuthorities s) ws)"
      "s' = authority_deposit_event e (s\<lparr>IncomingAuthorities := [], OutgoingAuthorities := []\<rparr>)"
  using assms by (auto simp: new_session_def Let_def split: if_splits)

lemma new_session_Ok: "\<exists>r s'. new_session s = Ok (r, s')"
proof -
  obtain ws where "remove_each (OutgoingAuthorities s) (session_validators s) = (Ok ws :: (validator list, unit) result)"
    using remove_each_Ok by blast
  then show ?thesis by (auto simp: new_session_def Let_def)
qed

section \<open>Invariant\<close>

definition authority_wf :: "('o, 'i, 'c) authority_config_scheme \<Rightarrow> 'm authority_storage_scheme \<Rightarrow> bool" where
  "authority_wf T s \<longleftrightarrow> distinct (AuthorityMembers s) \<and> distinct (BlackList s) \<and>
     unat (MinAuthorities T) \<le> length (AuthorityMembers s) \<and>
     set (IncomingAuthorities s) \<subseteq> set (AuthorityMembers s) \<union> set (OutgoingAuthorities s)"

lemma enough_length: "enough_without_one T xs \<Longrightarrow> unat (MinAuthorities T) \<le> length xs - 1"
proof -
  assume "enough_without_one T xs"
  then have "unat (MinAuthorities T) \<le> unat (of_nat (length xs - 1) :: u32)"
    by (simp add: enough_without_one_def word_le_nat_alt)
  also have "\<dots> \<le> length xs - 1" by (simp add: unat_of_nat)
  finally show ?thesis .
qed

lemma filter_one_length:
  assumes "distinct xs" "x \<in> set xs"
  shows "length (filter (\<lambda>v. v \<noteq> x) xs) = length xs - 1"
proof -
  have "set (filter (\<lambda>v. v \<noteq> x) xs) = set xs - {x}" by auto
  with distinct_card [of "filter (\<lambda>v. v \<noteq> x) xs"] distinct_card [OF assms(1)] assms show ?thesis by simp
qed

lemma remove_member_wf:
  assumes "remove_authority_member T m s = Ok s'" "authority_wf T s"
  shows "authority_wf T s'"
  using assms filter_one_length [of "AuthorityMembers s" m] enough_length [of T "AuthorityMembers s"]
  by (auto simp: remove_authority_member_def mark_for_removal_def authority_wf_def Let_def)

lemma authority_wf_cong:
  "same_authorities s s' \<Longrightarrow> authority_wf T s' = authority_wf T s"
  by (simp add: same_authorities_def authority_wf_def)

lemma authority_wf_dispatch:
  assumes "authority_dispatch T (origin, c) s = Ok s'" "authority_wf T s"
  shows "authority_wf T s'"
proof (cases c)
  case (NominateAuthority a)
  with assms show ?thesis
    by (auto simp: authority_nominate_def add_authority_member_def mark_for_addition_def authority_wf_def split: if_splits)
next
  case (RemoveAuthority a)
  with assms(1) obtain m s1 where "remove_authority_member T m s = Ok s1" "same_authorities s1 s'"
    by (auto simp: authority_remove_def Let_def same_authorities_def)
  with remove_member_wf [of T m s s1] assms(2) show ?thesis by (simp add: authority_wf_cong)
next
  case (RemoveFromBlacklist a)
  with assms show ?thesis by (auto simp: remove_member_from_blacklist_def remove_from_blacklist_def authority_wf_def)
next
  case GoOffline
  with assms show ?thesis by (auto simp: go_offline_def mark_for_removal_def authority_wf_def Let_def)
next
  case GoOnline
  with assms show ?thesis by (auto simp: go_online_def mark_for_addition_def authority_wf_def split: if_splits)
qed

lemma blacklist_offender_frame [simp]:
  "AuthorityMembers (blacklist_offender T d s) = AuthorityMembers s"
  "IncomingAuthorities (blacklist_offender T d s) = IncomingAuthorities s"
  "session_validators (blacklist_offender T d s) = session_validators s"
  by (simp_all add: blacklist_offender_def mark_for_blacklist_and_removal_def Let_def split: option.split)

lemma disconnect_offender_frame [simp]:
  "AuthorityMembers (disconnect_offender T d s) = AuthorityMembers s"
  "IncomingAuthorities (disconnect_offender T d s) = IncomingAuthorities s"
  "session_validators (disconnect_offender T d s) = session_validators s"
  "BlackList (disconnect_offender T d s) = BlackList s"
  by (simp_all add: disconnect_offender_def mark_for_disconnect_def split: option.split)

lemma offender_outgoing:
  "set (OutgoingAuthorities (blacklist_offender T d s)) = set (OutgoingAuthorities s) \<union> set_option (ValidatorIdOf T (fst (offender d)))"
  "set (OutgoingAuthorities (disconnect_offender T d s)) = set (OutgoingAuthorities s) \<union> set_option (ValidatorIdOf T (fst (offender d)))"
  by (auto simp: blacklist_offender_def disconnect_offender_def mark_for_blacklist_and_removal_def mark_for_disconnect_def
      Let_def split: option.split)

lemma offender_blacklist:
  "set (BlackList (blacklist_offender T d s)) = set (BlackList s) \<union> set_option (ValidatorIdOf T (fst (offender d)))"
  "distinct (BlackList s) \<Longrightarrow> distinct (BlackList (blacklist_offender T d s))"
  by (auto simp: blacklist_offender_def mark_for_blacklist_and_removal_def Let_def split: option.split)

lemma on_offence_frame [simp]:
  "AuthorityMembers (on_offence T os st s) = AuthorityMembers s"
  "IncomingAuthorities (on_offence T os st s) = IncomingAuthorities s"
  "session_validators (on_offence T os st s) = session_validators s"
  by (cases st; induction os arbitrary: s; simp)+

lemma on_offence_outgoing:
  "set (OutgoingAuthorities (on_offence T os st s)) = set (OutgoingAuthorities s) \<union> {m. \<exists>d \<in> set os. ValidatorIdOf T (fst (offender d)) = Some m}"
  by (cases st; induction os arbitrary: s) (auto simp: offender_outgoing)

lemma on_offence_blacklist:
  "set (BlackList (on_offence T os st s)) = set (BlackList s) \<union>
     (if st = BlackListing then {m. \<exists>d \<in> set os. ValidatorIdOf T (fst (offender d)) = Some m} else {})"
  by (cases st; induction os arbitrary: s) (auto simp: offender_blacklist)

lemma on_offence_blacklist_distinct: "distinct (BlackList s) \<Longrightarrow> distinct (BlackList (on_offence T os st s))"
  by (cases st; induction os arbitrary: s) (auto simp: offender_blacklist)

declare on_offence.simps [simp del]

interpretation authority_inv: invariant_system "authority_built T" "authority_step T" "authority_wf T" for T
proof (unfold_locales, goal_cases)
  case (1 s)
  then show ?case by (auto simp: authority_built_def authority_genesis_build_def authority_wf_def)
next
  case (2 s t)
  from 2(2) show ?case
  proof cases
    case (authority_call oc)
    with authority_wf_dispatch [of T "fst oc" "snd oc" s t] 2(1) show ?thesis by simp
  next
    case (authority_offence offenders strategy)
    with 2(1) on_offence_blacklist_distinct [of s T offenders strategy] on_offence_outgoing [of T offenders strategy s]
    show ?thesis by (auto simp: authority_wf_def)
  next
    case (authority_session r s' vs)
    from authority_session(2) 2(1) show ?thesis
      by (cases rule: new_session_OkE) (auto simp: authority_wf_def authority_session(1))
  next
    case authority_membership
    with authority_wf_cong [OF membership_step_authorities] 2(1) show ?thesis by blast
  qed
qed


lemma offline_run:
  assumes "\<forall>m \<in> set ms. m \<in> set (AuthorityMembers s) \<and> authority_signed T (sig m) = Some m \<and> ValidatorIdOf T m = Some m"
    and "enough_without_one T (AuthorityMembers s)"
  shows "\<exists>t. run_all (\<lambda>m. go_offline T (sig m)) ms s = Ok t \<and> OutgoingAuthorities t = OutgoingAuthorities s @ ms \<and>
    IncomingAuthorities t = IncomingAuthorities s \<and> session_validators t = session_validators s"
  using assms
proof (induction ms arbitrary: s)
  case (Cons m ms)
  let ?t = "authority_deposit_event (MemberGoOffline m) (mark_for_removal m s)"
  have "go_offline T (sig m) s = Ok ?t" using Cons.prems by (simp add: go_offline_def validator_of_def Let_def)
  moreover have "\<exists>t. run_all (\<lambda>m. go_offline T (sig m)) ms ?t = Ok t \<and> OutgoingAuthorities t = OutgoingAuthorities ?t @ ms \<and>
    IncomingAuthorities t = IncomingAuthorities ?t \<and> session_validators t = session_validators ?t"
    using Cons.prems by (intro Cons.IH) (auto simp: mark_for_removal_def)
  ultimately show ?case by (auto simp: mark_for_removal_def)
qed simp

section \<open>A small set of authorities\<close>

text \<open>Three members of the network, of which the first two are authorities; the account \<open>[9]\<close> governs.\<close>

definition sample_authority_config :: "(account, unit) authority_config" where
  "sample_authority_config = \<lparr>overflow_checks = True, hashing = sample_hash, encode_hash = id,
     encode_account = id, encode_ident = id, encode_vec = id, blake2b_64 = sample_hash,
     bs58_encode = halves, bs58_decode = unhalves,
     NetworkMembershipOrigin = (\<lambda>origin. origin = [9]), MembershipPeriod = 3, MaxMembersPerBlock = 2,
     inc_providers = (\<lambda>who refs. refs(who := refs who + 1)),
     dec_providers = (\<lambda>who refs. refs(who := refs who - 1)),
     MinAuthorities = 1, AuthorityMembershipOrigin = (\<lambda>origin. origin = [9]), authority_signed = Some,
     ValidatorIdOf = Some, FullIdentificationOf = (\<lambda>_. Some ()), purge_keys = (\<lambda>who keys. keys(who := None))\<rparr>"

lemma sample_authority_config_simps [simp]:
  "MinAuthorities sample_authority_config = 1" "AuthorityMembershipOrigin sample_authority_config o' \<longleftrightarrow> o' = [9]"
  "authority_signed sample_authority_config = Some" "ValidatorIdOf sample_authority_config = Some"
  by (simp_all add: sample_authority_config_def)

definition sample_authorities_0 :: authority_storage where
  "sample_authorities_0 = \<lparr>block_number = 0, extrinsic_index = None,
     Members = [[1] \<mapsto> \<lparr>expire_on = 0\<rparr>, [2] \<mapsto> \<lparr>expire_on = 0\<rparr>, [3] \<mapsto> \<lparr>expire_on = 0\<rparr>],
     Members_counter = 3, MembershipsExpiresOn = (\<lambda>_. []), MembershipsRenewsOn = Map.empty,
     MembershipBlacklist = Map.empty, provider_refs = (\<lambda>_. 1), membership_events = [],
     IncomingAuthorities = [], OutgoingAuthorities = [], AuthorityMembers = [], BlackList = [],
     session_validators = [[1], [2]], session_keys = Map.empty, authority_events = []\<rparr>"

definition sample_authorities :: authority_storage where
  "sample_authorities = sample_authorities_0\<lparr>AuthorityMembers := [[1], [2]]\<rparr>"

lemma sample_authorities_reachable:
  "reachable (authority_built sample_authority_config) (authority_step sample_authority_config) sample_authorities"
  by (rule reach_init, unfold authority_built_def, rule exI [of _ "[[1], [2]]"], rule exI [of _ sample_authorities_0])
    (simp add: sample_authorities_def sample_authorities_0_def authority_genesis_build_def)

section \<open>Properties\<close>

text \<open>In every reachable storage the authorities and the black list have no repetitions, there are never
  fewer members than the minimum, and who is coming in is a member or going out as well.\<close>

theorem authority_reachable_wf:
  assumes "reachable (authority_built T) (authority_step T) s"
  shows "authority_wf T s"
  by (rule authority_inv.inv_reachable [OF assms])

theorem authority_reachable_wf_witness: "authority_wf sample_authority_config sample_authorities"
  by (rule authority_reachable_wf [OF sample_authorities_reachable])

text \<open>C21: a new session never panics and empties both queues; nothing changes if both are empty, and else the
  new validators are, without repetition, the old ones less those going out, together with those
  coming in.\<close>

theorem new_session_exact:
  assumes "distinct (session_validators s)"
  shows "\<exists>r s'. new_session s = Ok (r, s') \<and> IncomingAuthorities s' = [] \<and> OutgoingAuthorities s' = [] \<and>
    AuthorityMembers s' = AuthorityMembers s \<and> BlackList s' = BlackList s \<and>
    (case r of
       None \<Rightarrow> IncomingAuthorities s = [] \<and> OutgoingAuthorities s = []
     | Some vs \<Rightarrow> (IncomingAuthorities s \<noteq> [] \<or> OutgoingAuthorities s \<noteq> []) \<and> distinct vs \<and>
         set vs = (set (session_validators s) - set (OutgoingAuthorities s)) \<union> set (IncomingAuthorities s))"
proof -
  obtain r s' where ok: "new_session s = Ok (r, s')" using new_session_Ok by blast
  obtain ws where ws: "remove_each (OutgoingAuthorities s) (session_validators s) = (Ok ws :: (validator list, unit) result)"
    "distinct ws" "set ws = set (session_validators s) - set (OutgoingAuthorities s)"
    using remove_each_Ok [of "OutgoingAuthorities s" "session_validators s"] assms by blast
  from ok show ?thesis
    by (cases rule: new_session_OkE) (auto simp: ok ws push_each_set push_each_distinct)
qed

theorem new_session_exact_witness:
  "\<exists>r s'. new_session (sample_authorities\<lparr>IncomingAuthorities := [[3]], OutgoingAuthorities := [[1]]\<rparr>) = Ok (r, s') \<and>
     (case r of None \<Rightarrow> False | Some vs \<Rightarrow> distinct vs \<and> set vs = {[2], [3]})"
proof -
  let ?s = "sample_authorities\<lparr>IncomingAuthorities := [[3]], OutgoingAuthorities := [[1]]\<rparr>"
  have "distinct (session_validators ?s)" by (simp add: sample_authorities_def sample_authorities_0_def)
  from new_session_exact [OF this] obtain r s' where
    "new_session ?s = Ok (r, s')" "case r of None \<Rightarrow> False | Some vs \<Rightarrow> distinct vs \<and>
       set vs = (set (session_validators ?s) - {[1]}) \<union> {[3]}"
    by (auto split: option.splits)
  then show ?thesis by (auto simp: sample_authorities_def sample_authorities_0_def split: option.splits)
qed

text \<open>The set of authorities is under the governing origin's control: it grows only by the nomination of a
  network member who is not black-listed, and shrinks only by a removal, whatever calls, offences,
  sessions and changes of the network membership happen.\<close>

theorem authority_admission:
  assumes "authority_step T s s'"
  shows "AuthorityMembers s' = AuthorityMembers s \<or>
    (\<exists>origin a m. AuthorityMembershipOrigin T origin \<and> ValidatorIdOf T a = Some m \<and>
       (authority_nominate T origin a s = Ok s' \<and> is_member a s \<and> m \<notin> set (BlackList s) \<and>
          m \<notin> set (AuthorityMembers s) \<and> AuthorityMembers s' = AuthorityMembers s @ [m] \<and> is_incoming m s' \<or>
        authority_remove T origin a s = Ok s' \<and> m \<in> set (AuthorityMembers s) \<and>
          AuthorityMembers s' = filter (\<lambda>v. v \<noteq> m) (AuthorityMembers s) \<and> is_outgoing m s'))"
  using assms
proof cases
  case (authority_call oc)
  obtain origin c where oc: "oc = (origin, c)" by (cases oc)
  show ?thesis
  proof (cases c)
    case (NominateAuthority a)
    with authority_call oc have n: "authority_nominate T origin a s = Ok s'" by simp
    then show ?thesis
      by (intro disjI2 exI [of _ origin] exI [of _ a] exI [of _ "the (ValidatorIdOf T a)"])
        (auto simp: authority_nominate_def validator_of_def add_authority_member_def mark_for_addition_def is_incoming_def
          is_blacklisted_def split: if_splits)
  next
    case (RemoveAuthority a)
    with authority_call oc have r: "authority_remove T origin a s = Ok s'" by simp
    then show ?thesis
      by (intro disjI2 exI [of _ origin] exI [of _ a] exI [of _ "the (ValidatorIdOf T a)"])
        (auto simp: authority_remove_def validator_of_def remove_authority_member_def mark_for_removal_def is_outgoing_def Let_def)
  qed (use authority_call oc in \<open>auto simp: remove_member_from_blacklist_def remove_from_blacklist_def go_offline_def
      go_online_def mark_for_removal_def mark_for_addition_def Let_def split: if_splits\<close>)
next
  case (authority_session r t vs)
  from authority_session(2) show ?thesis by (cases rule: new_session_OkE) (auto simp: authority_session(1))
next
  case authority_membership
  then show ?thesis using membership_step_authorities by (auto simp: same_authorities_def)
qed simp

theorem authority_admission_witness:
  "\<exists>s'. authority_nominate sample_authority_config [9] [3] sample_authorities = Ok s' \<and> AuthorityMembers s' = [[1], [2], [3]]"
proof -
  have "is_Ok (authority_nominate sample_authority_config [9] [3] sample_authorities)"
    by (simp add: authority_nominate_def is_member_def validator_of_def is_blacklisted_def is_incoming_def is_outgoing_def
        add_authority_member_def sample_authorities_def sample_authorities_0_def cong: and_then_weak_cong)
  then obtain s' where s': "authority_nominate sample_authority_config [9] [3] sample_authorities = Ok s'"
    by (cases "authority_nominate sample_authority_config [9] [3] sample_authorities") auto
  have "authority_step sample_authority_config sample_authorities s'"
    by (rule authority_call [of _ "([9], NominateAuthority [3])"]) (simp add: s')
  from authority_admission [OF this] s' show ?thesis
    by (auto simp: sample_authorities_def sample_authorities_0_def authority_nominate_def validator_of_def
        add_authority_member_def mark_for_addition_def is_member_def split: if_splits)
qed

text \<open>The black list does not stop who is coming in: an authority that was nominated and is black-listed for
  an offence before the next session is a validator in that session.\<close>

theorem blacklisted_newcomer_validates:
  assumes "authority_nominate T origin a s = Ok s1" "ValidatorIdOf T a = Some m" "d \<in> set offenders" "fst (offender d) = a"
  shows "is_blacklisted m (on_offence T offenders BlackListing s1) \<and>
    (\<exists>vs s2. new_session (on_offence T offenders BlackListing s1) = Ok (Some vs, s2) \<and> m \<in> set vs)"
proof -
  let ?s = "on_offence T offenders BlackListing s1"
  have m: "m \<in> set (IncomingAuthorities s1)"
    using assms(1,2) by (auto simp: authority_nominate_def validator_of_def add_authority_member_def mark_for_addition_def
        split: if_splits)
  obtain r s2 where ok: "new_session ?s = Ok (r, s2)" using new_session_Ok by blast
  then have "\<exists>vs. r = Some vs \<and> m \<in> set vs"
    using m by (cases rule: new_session_OkE) (auto simp: push_each_set)
  moreover have "is_blacklisted m ?s"
    using assms(2-4) on_offence_blacklist [of T offenders BlackListing s1] by (auto simp: is_blacklisted_def)
  ultimately show ?thesis using ok by auto
qed

theorem blacklisted_newcomer_validates_witness:
  "\<exists>s1 vs s2. authority_nominate sample_authority_config [9] [3] sample_authorities = Ok s1 \<and>
     new_session (on_offence sample_authority_config [\<lparr>offender = ([3], ()), reporters = []\<rparr>] BlackListing s1) = Ok (Some vs, s2) \<and> [3] \<in> set vs"
proof -
  have "is_Ok (authority_nominate sample_authority_config [9] [3] sample_authorities)"
    by (simp add: authority_nominate_def is_member_def validator_of_def is_blacklisted_def is_incoming_def is_outgoing_def
        add_authority_member_def sample_authorities_def sample_authorities_0_def cong: and_then_weak_cong)
  then obtain s1 where s1: "authority_nominate sample_authority_config [9] [3] sample_authorities = Ok s1"
    by (cases "authority_nominate sample_authority_config [9] [3] sample_authorities") auto
  let ?d = "\<lparr>offender = ([3], ()), reporters = []\<rparr>"
  from blacklisted_newcomer_validates [OF s1, of "[3]" ?d "[?d]"] s1 show ?thesis by auto
qed

text \<open>The check of the minimum does not count who is already going out: if any member may go offline, all
  of them may, one after the other, and the next session then has no validators.\<close>

theorem all_members_can_go_offline:
  assumes "\<forall>m \<in> set (AuthorityMembers s). authority_signed T (sig m) = Some m \<and> ValidatorIdOf T m = Some m"
    and "AuthorityMembers s \<noteq> []" "enough_without_one T (AuthorityMembers s)" "IncomingAuthorities s = []"
    and "distinct (session_validators s)" "set (session_validators s) \<subseteq> set (AuthorityMembers s)"
  shows "\<exists>t u. run_all (\<lambda>m. go_offline T (sig m)) (AuthorityMembers s) s = Ok t \<and> new_session t = Ok (Some [], u)"
proof -
  obtain t where t: "run_all (\<lambda>m. go_offline T (sig m)) (AuthorityMembers s) s = Ok t"
    "OutgoingAuthorities t = OutgoingAuthorities s @ AuthorityMembers s" "IncomingAuthorities t = IncomingAuthorities s"
    "session_validators t = session_validators s"
    using offline_run [of "AuthorityMembers s" s T sig] assms(1,3) by auto
  obtain ws where ws: "remove_each (OutgoingAuthorities t) (session_validators t) = (Ok ws :: (validator list, unit) result)"
    "set ws = set (session_validators t) - set (OutgoingAuthorities t)"
    using remove_each_Ok [of "OutgoingAuthorities t" "session_validators t"] assms(5) t(4) by auto
  have "set ws = {}" using ws(2) t(2,4) assms(6) by auto
  then have "ws = []" by simp
  with ws(1) t assms(2,4) show ?thesis by (auto simp: new_session_def Let_def)
qed

theorem all_members_can_go_offline_witness:
  "\<exists>t u. run_all (\<lambda>m. go_offline sample_authority_config m) [[1], [2]] sample_authorities = Ok t \<and>
     new_session t = Ok (Some [], u)"
  using all_members_can_go_offline [of sample_authorities sample_authority_config "\<lambda>m. m"]
  by (simp add: sample_authorities_def sample_authorities_0_def enough_without_one_def)

end
