(* ===== verification/Offences.thy ===== *)
theory Offences
  imports Authorities_Properties
begin

text \<open>
  The offences pallet (\<^verbatim>\<open>pallets/offences/src\<close>): reports of offences are stored once, and the offenders
  are passed to the handler, which is the authorities pallet as in the runtimes. An offence is given by
  what the trait \<^verbatim>\<open>Offence\<close> offers: its kind, its time slot in encoded form, its session and its offenders.
  The encoding of a report under which its hash is taken is a parameter.

  Shown: the index and the reports agree; a report is refused exactly if it says nothing new;
  whoever is newly reported is on the way out and black-listed, unless he was only offline.
\<close>

section \<open>Types\<close>

type_synonym kind = bytes
type_synonym time_slot = bytes

record 'i offence =
  offence_id :: kind
  offence_time_slot :: time_slot
  offence_session_index :: u32
  offence_offenders :: "(validator \<times> 'i) list"

datatype OffenceError = DuplicateReport

datatype OffenceEvent = Offence_event kind time_slot

record 'i offence_storage = authority_storage +
  Reports :: "hash \<Rightarrow> 'i offence_details option"
  ConcurrentReportsIndex :: "kind \<times> time_slot \<Rightarrow> hash list"
  offence_events :: "OffenceEvent list"

record ('o, 'i) offence_config = "('o, 'i) authority_config" +
  encode_report :: "kind \<Rightarrow> time_slot \<Rightarrow> validator \<times> 'i \<Rightarrow> bytes"

section \<open>Reports\<close>

text \<open>The bytes of \<^verbatim>\<open>b"im-online:offlin"\<close>.\<close>

definition im_online_offline :: kind where
  "im_online_offline = [0x69, 0x6D, 0x2D, 0x6F, 0x6E, 0x6C, 0x69, 0x6E, 0x65, 0x3A, 0x6F, 0x66, 0x66, 0x6C, 0x69, 0x6E]"

definition report_id ::
  "('o, 'i, 'c) offence_config_scheme \<Rightarrow> kind \<Rightarrow> time_slot \<Rightarrow> validator \<times> 'i \<Rightarrow> hash" where
  "report_id T k time_slot off = hashing T (encode_report T k time_slot off)"

definition is_known_offence ::
  "('o, 'i, 'c) offence_config_scheme \<Rightarrow> kind \<Rightarrow> (validator \<times> 'i) list \<Rightarrow> time_slot \<Rightarrow> ('i, 'm) offence_storage_scheme \<Rightarrow> bool" where
  "is_known_offence T k offenders time_slot s =
     (let any_unknown = list_ex (\<lambda>off. Reports s (report_id T k time_slot off) = None) offenders in \<not> any_unknown)"

text \<open>\<open>ReportIndexStorage\<close>: the index of one kind and time slot, loaded, extended and saved.\<close>

record report_index =
  opaque_time_slot :: time_slot
  concurrent_reports :: "hash list"

definition index_load :: "kind \<Rightarrow> time_slot \<Rightarrow> ('i, 'm) offence_storage_scheme \<Rightarrow> report_index" where
  "index_load k time_slot s =
     \<lparr>opaque_time_slot = time_slot, concurrent_reports = ConcurrentReportsIndex s (k, time_slot)\<rparr>"

definition index_insert :: "hash \<Rightarrow> report_index \<Rightarrow> report_index" where
  "index_insert r ix = ix\<lparr>concurrent_reports := concurrent_reports ix @ [r]\<rparr>"

definition index_save :: "kind \<Rightarrow> report_index \<Rightarrow> ('i, 'm) offence_storage_scheme \<Rightarrow> ('i, 'm) offence_storage_scheme" where
  "index_save k ix s =
     s\<lparr>ConcurrentReportsIndex := (ConcurrentReportsIndex s)((k, opaque_time_slot ix) := concurrent_reports ix)\<rparr>"

fun triage_loop ::
  "('o, 'i, 'c) offence_config_scheme \<Rightarrow> kind \<Rightarrow> account list \<Rightarrow> time_slot \<Rightarrow> (validator \<times> 'i) list
   \<Rightarrow> bool \<times> report_index \<times> ('i, 'm) offence_storage_scheme \<Rightarrow> bool \<times> report_index \<times> ('i, 'm) offence_storage_scheme" where
  "triage_loop T k reps time_slot [] st = st"
| "triage_loop T k reps time_slot (off # offs) (any_new, ix, s) =
     (let r = report_id T k time_slot off
      in if Reports s r = None
         then triage_loop T k reps time_slot offs
                (True, index_insert r ix, s\<lparr>Reports := (Reports s)(r \<mapsto> \<lparr>offender = off, reporters = reps\<rparr>)\<rparr>)
         else triage_loop T k reps time_slot offs (any_new, ix, s))"

definition triage_offence_report ::
  "('o, 'i, 'c) offence_config_scheme \<Rightarrow> kind \<Rightarrow> account list \<Rightarrow> time_slot \<Rightarrow> (validator \<times> 'i) list
   \<Rightarrow> ('i, 'm) offence_storage_scheme \<Rightarrow> ('i offence_details list \<times> ('i, 'm) offence_storage_scheme) option" where
  "triage_offence_report T k reps time_slot offenders s =
     (case triage_loop T k reps time_slot offenders (False, index_load k time_slot s, s) of
        (any_new, ix, s1) \<Rightarrow>
          if any_new
          then Some (List.map_filter (Reports s1) (concurrent_reports ix), index_save k ix s1)
          else None)"

definition report_offence ::
  "('o, 'i, 'c) offence_config_scheme \<Rightarrow> account list \<Rightarrow> 'i offence \<Rightarrow> ('i, 'm) offence_storage_scheme
   \<Rightarrow> (('i, 'm) offence_storage_scheme, OffenceError) result" where
  "report_offence T reps off s =
     (let offenders = offence_offenders off; time_slot = offence_time_slot off in
      case triage_offence_report T (offence_id off) reps time_slot offenders s of
        None \<Rightarrow> Err DuplicateReport
      | Some (concurrent_offenders, s1) \<Rightarrow>
          let slash_strategy = (if offence_id off = im_online_offline then Disconnect else BlackListing);
              s2 = on_offence T concurrent_offenders slash_strategy s1
          in Ok (s2\<lparr>offence_events := offence_events s2 @ [Offence_event (offence_id off) time_slot]\<rparr>))"

section \<open>Lemmas\<close>

lemma on_offence_reports [simp]:
  "Reports (on_offence T os st s) = Reports s"
  "ConcurrentReportsIndex (on_offence T os st s) = ConcurrentReportsIndex s"
proof -
  have b: "Reports (blacklist_offender T d s) = Reports s" "ConcurrentReportsIndex (blacklist_offender T d s) = ConcurrentReportsIndex s"
    for d and s :: "('i, 'm) offence_storage_scheme"
    by (simp_all add: blacklist_offender_def mark_for_blacklist_and_removal_def authority_deposit_event_def Let_def split: option.split)
  have d: "Reports (disconnect_offender T d s) = Reports s" "ConcurrentReportsIndex (disconnect_offender T d s) = ConcurrentReportsIndex s"
    for d and s :: "('i, 'm) offence_storage_scheme"
    by (simp_all add: disconnect_offender_def mark_for_disconnect_def authority_deposit_event_def split: option.split)
  show "Reports (on_offence T os st s) = Reports s" "ConcurrentReportsIndex (on_offence T os st s) = ConcurrentReportsIndex s"
    by (cases st; induction os arbitrary: s; simp add: on_offence.simps b d)+
qed

text \<open>
  The reports a loop adds: it records every offender under his report identifier if that is free,
  and puts the new identifiers, each once, behind the old ones.
\<close>

definition new_reports ::
  "('o, 'i, 'c) offence_config_scheme \<Rightarrow> kind \<Rightarrow> time_slot \<Rightarrow> (validator \<times> 'i) list
   \<Rightarrow> (hash \<Rightarrow> 'i offence_details option) \<Rightarrow> (hash \<Rightarrow> 'i offence_details option) \<Rightarrow> hash list \<Rightarrow> bool" where
  "new_reports T k time_slot offs R R' ids \<longleftrightarrow> distinct ids \<and>
     set ids = {r. R r = None \<and> r \<in> report_id T k time_slot ` set offs} \<and> (\<forall>r. r \<notin> set ids \<longrightarrow> R' r = R r) \<and>
     (\<forall>r \<in> set ids. \<exists>d. R' r = Some d \<and> r = report_id T k time_slot (offender d) \<and> offender d \<in> set offs)"

lemma new_reports_Nil: "new_reports T k time_slot [] R R []"
  by (simp add: new_reports_def)

lemma new_reports_known:
  "R (report_id T k time_slot off) = Some d \<Longrightarrow> new_reports T k time_slot offs R R' ids \<Longrightarrow>
   new_reports T k time_slot (off # offs) R R' ids"
  by (fastforce simp: new_reports_def)

lemma new_reports_Cons:
  assumes "R r = None" "r = report_id T k time_slot (offender d)"
    and "new_reports T k time_slot offs (R(r \<mapsto> d)) R' ids"
  shows "new_reports T k time_slot (offender d # offs) R R' (r # ids)"
proof -
  have r: "r \<notin> set ids" using assms(3) by (auto simp: new_reports_def)
  then have "R' r = Some d" using assms(3) by (simp add: new_reports_def)
  moreover have "set (r # ids) = {x. R x = None \<and> x \<in> report_id T k time_slot ` set (offender d # offs)}"
    using assms by (auto simp: new_reports_def)
  ultimately show ?thesis using assms r unfolding new_reports_def by (auto split: if_splits)
qed

lemma triage_loop_new:
  assumes "triage_loop T k reps time_slot offs (any_new, ix, s) = (b, ix', s')"
  shows "\<exists>ids. concurrent_reports ix' = concurrent_reports ix @ ids \<and> opaque_time_slot ix' = opaque_time_slot ix \<and>
    s' = s\<lparr>Reports := Reports s'\<rparr> \<and> new_reports T k time_slot offs (Reports s) (Reports s') ids \<and> (b \<longleftrightarrow> any_new \<or> ids \<noteq> [])"
  using assms
proof (induction offs arbitrary: any_new ix s)
  case Nil
  then show ?case by (simp add: new_reports_Nil)
next
  case (Cons off offs)
  let ?r = "report_id T k time_slot off" and ?d = "\<lparr>offender = off, reporters = reps\<rparr>"
  show ?case
  proof (cases "Reports s ?r")
    case None
    let ?s = "s\<lparr>Reports := (Reports s)(?r \<mapsto> ?d)\<rparr>" and ?ix = "index_insert ?r ix"
    from Cons.prems None have "triage_loop T k reps time_slot offs (True, ?ix, ?s) = (b, ix', s')"
      by (simp add: Let_def)
    from Cons.IH [OF this] obtain ids where ids:
      "concurrent_reports ix' = concurrent_reports ?ix @ ids" "opaque_time_slot ix' = opaque_time_slot ?ix"
      "s' = ?s\<lparr>Reports := Reports s'\<rparr>" "new_reports T k time_slot offs (Reports ?s) (Reports s') ids" "b"
      by blast
    have "new_reports T k time_slot (offender ?d # offs) (Reports s) (Reports s') (?r # ids)"
      using ids(4) None by (intro new_reports_Cons) simp_all
    then show ?thesis using ids(1-3,5) by (intro exI [of _ "?r # ids"]) (simp add: index_insert_def)
  next
    case (Some d)
    with Cons.prems have "triage_loop T k reps time_slot offs (any_new, ix, s) = (b, ix', s')" by (simp add: Let_def)
    from Cons.IH [OF this] new_reports_known [of "Reports s", OF Some] show ?thesis by blast
  qed
qed

text \<open>A report that goes through, in terms of the new reports.\<close>

lemma report_offence_OkE:
  assumes "report_offence T reps off s = Ok s'"
  obtains ids s1 where "ids \<noteq> []"
    "new_reports T (offence_id off) (offence_time_slot off) (offence_offenders off) (Reports s) (Reports s') ids"
    "ConcurrentReportsIndex s' = (ConcurrentReportsIndex s)((offence_id off, offence_time_slot off) :=
       ConcurrentReportsIndex s (offence_id off, offence_time_slot off) @ ids)"
    "same_authorities s s1"
    "same_authorities (on_offence T
       (List.map_filter (Reports s') (ConcurrentReportsIndex s' (offence_id off, offence_time_slot off)))
       (if offence_id off = im_online_offline then Disconnect else BlackListing) s1) s'"
proof -
  let ?k = "offence_id off" and ?sl = "offence_time_slot off"
  obtain b ix t where tr: "triage_loop T ?k reps ?sl (offence_offenders off) (False, index_load ?k ?sl s, s) = (b, ix, t)"
    by (metis prod_cases3)
  from triage_loop_new [OF this] obtain ids where ids:
    "concurrent_reports ix = ConcurrentReportsIndex s (?k, ?sl) @ ids" "opaque_time_slot ix = ?sl" "t = s\<lparr>Reports := Reports t\<rparr>"
    "new_reports T ?k ?sl (offence_offenders off) (Reports s) (Reports t) ids" "b \<longleftrightarrow> ids \<noteq> []"
    by (auto simp: index_load_def)
  have b: "b" using assms by (cases b) (simp_all add: report_offence_def triage_offence_report_def tr Let_def)
  let ?t = "index_save ?k ix t"
  have s': "Reports s' = Reports t" "ConcurrentReportsIndex s' = ConcurrentReportsIndex ?t"
    "same_authorities (on_offence T (List.map_filter (Reports t) (concurrent_reports ix))
       (if ?k = im_online_offline then Disconnect else BlackListing) ?t) s'"
    using assms b by (auto simp: report_offence_def triage_offence_report_def tr Let_def index_save_def same_authorities_def)
  have t: "ConcurrentReportsIndex t = ConcurrentReportsIndex s" "same_authorities s t"
    by (subst ids(3), simp) (subst ids(3), simp add: same_authorities_def)
  have ix: "ConcurrentReportsIndex s' = (ConcurrentReportsIndex s)((?k, ?sl) := concurrent_reports ix)"
    using s'(2) t(1) ids(2) by (simp add: index_save_def)
  show thesis
  proof (rule that)
    show "ids \<noteq> []" using b ids(5) by simp
    show "new_reports T ?k ?sl (offence_offenders off) (Reports s) (Reports s') ids" using ids(4) s'(1) by simp
    show "ConcurrentReportsIndex s' = (ConcurrentReportsIndex s)((?k, ?sl) := ConcurrentReportsIndex s (?k, ?sl) @ ids)"
      using ix ids(1) by simp
    show "same_authorities s ?t" using t(2) by (simp add: same_authorities_def index_save_def)
    show "same_authorities (on_offence T (List.map_filter (Reports s') (ConcurrentReportsIndex s' (?k, ?sl)))
       (if ?k = im_online_offline then Disconnect else BlackListing) ?t) s'"
      using s'(1,3) ix by simp
  qed
qed


lemma report_offence_known_iff:
  "report_offence T reps off s = Err DuplicateReport \<longleftrightarrow>
   is_known_offence T (offence_id off) (offence_offenders off) (offence_time_slot off) s"
proof -
  let ?k = "offence_id off" and ?sl = "offence_time_slot off"
  obtain b ix t where tr: "triage_loop T ?k reps ?sl (offence_offenders off) (False, index_load ?k ?sl s, s) = (b, ix, t)"
    by (metis prod_cases3)
  from triage_loop_new [OF this] obtain ids where ids:
    "new_reports T ?k ?sl (offence_offenders off) (Reports s) (Reports t) ids" "b \<longleftrightarrow> ids \<noteq> []" by auto
  have "set ids = {r. Reports s r = None \<and> r \<in> report_id T ?k ?sl ` set (offence_offenders off)}"
    using ids(1) by (simp add: new_reports_def)
  then have "set ids \<noteq> {} \<longleftrightarrow> (\<exists>o' \<in> set (offence_offenders off). Reports s (report_id T ?k ?sl o') = None)" by auto
  then have "b \<longleftrightarrow> (\<exists>o' \<in> set (offence_offenders off). Reports s (report_id T ?k ?sl o') = None)"
    using ids(2) by simp
  then show ?thesis
    by (auto simp: report_offence_def triage_offence_report_def tr Let_def is_known_offence_def list_ex_iff)
qed

lemma report_offence_Ok_or_known: "(\<exists>s'. report_offence T reps off s = Ok s') \<or> report_offence T reps off s = Err DuplicateReport"
  by (auto simp: report_offence_def Let_def split: option.split)

section \<open>The interface to the handler\<close>

text \<open>
  What the offences pallet relies on of a handler: everybody it is given is put on the way out, and
  on the black list if asked for, and nobody else is.
\<close>

locale offence_handler =
  fixes handle :: "'d list \<Rightarrow> SlashStrategy \<Rightarrow> 's \<Rightarrow> 's"
    and outgoing :: "'s \<Rightarrow> 'v set"
    and blacklisted :: "'s \<Rightarrow> 'v set"
    and who :: "'d \<Rightarrow> 'v set"
  assumes handle_outgoing: "outgoing (handle ds st s) = outgoing s \<union> \<Union> (who ` set ds)"
    and handle_blacklisted: "blacklisted (handle ds st s) = blacklisted s \<union> (if st = BlackListing then \<Union> (who ` set ds) else {})"
begin

lemma handled:
  assumes "d \<in> set ds" "v \<in> who d"
  shows "v \<in> outgoing (handle ds st s)" "st = BlackListing \<Longrightarrow> v \<in> blacklisted (handle ds st s)"
  using assms by (auto simp: handle_outgoing handle_blacklisted)

lemma handled_reports:
  assumes "R r = Some d" "r \<in> set rs" "v \<in> who d"
  shows "v \<in> outgoing (handle (List.map_filter R rs) st s)"
    "st = BlackListing \<Longrightarrow> v \<in> blacklisted (handle (List.map_filter R rs) st s)"
proof -
  have "d \<in> set (List.map_filter R rs)" using assms(1,2) by (force simp: map_filter_def)
  from handled [OF this assms(3)] show "v \<in> outgoing (handle (List.map_filter R rs) st s)"
    "st = BlackListing \<Longrightarrow> v \<in> blacklisted (handle (List.map_filter R rs) st s)" by simp_all
qed

end

interpretation authorities_handler: offence_handler
  "on_offence T" "\<lambda>s. set (OutgoingAuthorities s)" "\<lambda>s. set (BlackList s)"
  "\<lambda>d. set_option (ValidatorIdOf T (fst (offender d)))" for T
  by unfold_locales (auto simp: on_offence_outgoing on_offence_blacklist)

section \<open>Invariant\<close>

text \<open>
  Every identifier in the index of a kind and time slot has a report of that kind and slot, each once,
  and every report is in an index.
\<close>

definition offence_wf :: "('o, 'i, 'c) offence_config_scheme \<Rightarrow> ('i, 'm) offence_storage_scheme \<Rightarrow> bool" where
  "offence_wf T s \<longleftrightarrow>
     (\<forall>k sl. distinct (ConcurrentReportsIndex s (k, sl)) \<and> (\<forall>r \<in> set (ConcurrentReportsIndex s (k, sl)).
        \<exists>d. Reports s r = Some d \<and> r = report_id T k sl (offender d))) \<and>
     (\<forall>r. Reports s r \<noteq> None \<longrightarrow> (\<exists>k sl. r \<in> set (ConcurrentReportsIndex s (k, sl))))"

inductive offence_step ::
  "('o, 'i, 'c) offence_config_scheme \<Rightarrow> ('i, 'm) offence_storage_scheme \<Rightarrow> ('i, 'm) offence_storage_scheme \<Rightarrow> bool" for T where
  reported: "report_offence T reps off s = Ok s' \<Longrightarrow> offence_step T s s'"

definition offence_genesis :: "('i, 'm) offence_storage_scheme \<Rightarrow> bool" where
  "offence_genesis s \<longleftrightarrow> Reports s = Map.empty \<and> ConcurrentReportsIndex s = (\<lambda>_. [])"

lemma offence_wf_report:
  assumes "report_offence T reps off s = Ok s'" "offence_wf T s"
  shows "offence_wf T s'"
  using assms(1)
proof (rule report_offence_OkE)
  fix ids
  let ?k = "offence_id off" and ?sl = "offence_time_slot off"
  assume n: "new_reports T ?k ?sl (offence_offenders off) (Reports s) (Reports s') ids"
    and ix: "ConcurrentReportsIndex s' = (ConcurrentReportsIndex s)((?k, ?sl) := ConcurrentReportsIndex s (?k, ?sl) @ ids)"
  have old: "r \<notin> set ids \<and> Reports s' r = Reports s r" if "Reports s r \<noteq> None" for r
    using that n by (auto simp: new_reports_def)
  have new: "\<exists>d. Reports s' r = Some d \<and> r = report_id T ?k ?sl (offender d)" "Reports s r = None" if "r \<in> set ids" for r
    using that n unfolding new_reports_def by blast+
  have indexed: "\<exists>d. Reports s r = Some d \<and> r = report_id T k sl (offender d)" if "r \<in> set (ConcurrentReportsIndex s (k, sl))" for r k sl
    using that assms(2) unfolding offence_wf_def by blast
  have "distinct (ConcurrentReportsIndex s' (k, sl)) \<and> (\<forall>r \<in> set (ConcurrentReportsIndex s' (k, sl)).
        \<exists>d. Reports s' r = Some d \<and> r = report_id T k sl (offender d))" for k sl
  proof (intro conjI ballI)
    have "distinct ids" using n by (simp add: new_reports_def)
    moreover have "set (ConcurrentReportsIndex s (?k, ?sl)) \<inter> set ids = {}" using indexed new(2) by fastforce
    ultimately show "distinct (ConcurrentReportsIndex s' (k, sl))" using assms(2) by (simp add: ix offence_wf_def)
    fix r
    assume "r \<in> set (ConcurrentReportsIndex s' (k, sl))"
    then have "r \<in> set (ConcurrentReportsIndex s (k, sl)) \<or> r \<in> set ids \<and> k = ?k \<and> sl = ?sl" by (auto simp: ix split: if_splits)
    then show "\<exists>d. Reports s' r = Some d \<and> r = report_id T k sl (offender d)"
      using indexed [of r k sl] old [of r] new(1) [of r] by auto
  qed
  moreover have "\<exists>k sl. r \<in> set (ConcurrentReportsIndex s' (k, sl))" if "Reports s' r \<noteq> None" for r
  proof (cases "r \<in> set ids")
    case True
    then have "r \<in> set (ConcurrentReportsIndex s' (?k, ?sl))" by (simp add: ix)
    then show ?thesis by blast
  next
    case False
    then have "Reports s r \<noteq> None" using that n by (simp add: new_reports_def)
    then obtain k sl where "r \<in> set (ConcurrentReportsIndex s (k, sl))" using assms(2) unfolding offence_wf_def by blast
    then have "r \<in> set (ConcurrentReportsIndex s' (k, sl))" by (auto simp: ix)
    then show ?thesis by blast
  qed
  ultimately show ?thesis unfolding offence_wf_def by blast
qed

interpretation offence_inv: invariant_system offence_genesis "offence_step T" "offence_wf T" for T
proof (unfold_locales, goal_cases)
  case (1 s)
  then show ?case by (simp add: offence_genesis_def offence_wf_def)
next
  case (2 s t)
  from 2(2) show ?case by cases (rule offence_wf_report [OF _ 2(1)])
qed

section \<open>A small instance\<close>

definition sample_offence_config :: "(account, unit) offence_config" where
  "sample_offence_config = authority_config.extend sample_authority_config
     \<lparr>encode_report = (\<lambda>k sl off. k @ sl @ fst off)\<rparr>"

definition sample_offences :: "unit offence_storage" where
  "sample_offences = authority_storage.extend sample_authorities
     \<lparr>Reports = Map.empty, ConcurrentReportsIndex = (\<lambda>_. []), offence_events = []\<rparr>"

definition sample_equivocation :: "unit offence" where
  "sample_equivocation = \<lparr>offence_id = [7], offence_time_slot = [5], offence_session_index = 1,
     offence_offenders = [([1], ()), ([2], ())]\<rparr>"

lemma sample_report_ids:
  "report_id sample_offence_config [7] [5] ([1], ()) \<noteq> report_id sample_offence_config [7] [5] ([2], ())"
  by (simp add: report_id_def sample_offence_config_def sample_authority_config_def sample_hash_def
      authority_config.defs offence_config.defs)

section \<open>Properties\<close>

text \<open>C22: a report is refused exactly if all its offenders are known for that kind and time slot. Else it goes
  through, all its offenders are known then, and whoever was new among them is on the way out, and on the
  black list unless the offence was only to be offline. No two offenders of the report may share a
  report identifier.\<close>

theorem report_offence_exact:
  assumes "inj_on (report_id T (offence_id off) (offence_time_slot off)) (set (offence_offenders off))"
  shows "if is_known_offence T (offence_id off) (offence_offenders off) (offence_time_slot off) s
    then report_offence T reps off s = Err DuplicateReport
    else \<exists>s'. report_offence T reps off s = Ok s' \<and>
      is_known_offence T (offence_id off) (offence_offenders off) (offence_time_slot off) s' \<and>
      (\<forall>o' m. o' \<in> set (offence_offenders off) \<and> Reports s (report_id T (offence_id off) (offence_time_slot off) o') = None \<and>
         ValidatorIdOf T (fst o') = Some m \<longrightarrow>
         is_outgoing m s' \<and> (offence_id off \<noteq> im_online_offline \<longrightarrow> is_blacklisted m s'))"
proof (cases "report_offence T reps off s = Err DuplicateReport")
  case True
  then show ?thesis by (simp add: report_offence_known_iff)
next
  case False
  let ?k = "offence_id off" and ?sl = "offence_time_slot off"
  from False report_offence_Ok_or_known obtain s' where s': "report_offence T reps off s = Ok s'" by blast
  then obtain ids s1 where n: "new_reports T ?k ?sl (offence_offenders off) (Reports s) (Reports s') ids"
    and ix: "ConcurrentReportsIndex s' = (ConcurrentReportsIndex s)((?k, ?sl) := ConcurrentReportsIndex s (?k, ?sl) @ ids)"
    and same: "same_authorities (on_offence T (List.map_filter (Reports s') (ConcurrentReportsIndex s' (?k, ?sl)))
       (if ?k = im_online_offline then Disconnect else BlackListing) s1) s'"
    by (rule report_offence_OkE)
  have "Reports s' (report_id T ?k ?sl o') \<noteq> None" if "o' \<in> set (offence_offenders off)" for o'
    using n that unfolding new_reports_def
    by (cases "report_id T ?k ?sl o' \<in> set ids") auto
  then have "is_known_offence T ?k (offence_offenders off) ?sl s'" by (auto simp: is_known_offence_def list_ex_iff)
  moreover have "is_outgoing m s' \<and> (?k \<noteq> im_online_offline \<longrightarrow> is_blacklisted m s')"
    if o': "o' \<in> set (offence_offenders off)" "Reports s (report_id T ?k ?sl o') = None" "ValidatorIdOf T (fst o') = Some m" for o' m
  proof -
    let ?r = "report_id T ?k ?sl o'"
    have r: "?r \<in> set ids" using o' n by (auto simp: new_reports_def)
    then obtain d where d: "Reports s' ?r = Some d" "?r = report_id T ?k ?sl (offender d)" "offender d \<in> set (offence_offenders off)"
      using n unfolding new_reports_def by blast
    then have "offender d = o'" using assms o'(1) by (simp add: inj_on_eq_iff)
    then have m: "m \<in> set_option (ValidatorIdOf T (fst (offender d)))" using o'(3) by simp
    have ri: "?r \<in> set (ConcurrentReportsIndex s' (?k, ?sl))" using r by (simp add: ix)
    note handled = authorities_handler.handled_reports [where R = "Reports s'" and T = T and s = s1, OF d(1) ri m]
    show ?thesis
      using same handled(1) handled(2) [OF refl] by (simp add: same_authorities_def is_outgoing_def is_blacklisted_def)
  qed
  moreover have "\<not> is_known_offence T ?k (offence_offenders off) ?sl s" using False by (simp add: report_offence_known_iff)
  ultimately show ?thesis using s' by auto
qed

theorem report_offence_exact_witness:
  "\<exists>s'. report_offence sample_offence_config [] sample_equivocation sample_offences = Ok s' \<and> is_blacklisted [1] s'"
proof -
  have "inj_on (report_id sample_offence_config (offence_id sample_equivocation) (offence_time_slot sample_equivocation))
    (set (offence_offenders sample_equivocation))"
    using sample_report_ids by (auto simp: inj_on_def sample_equivocation_def)
  from report_offence_exact [OF this, of sample_offences "[]"] show ?thesis
    by (auto simp: is_known_offence_def sample_equivocation_def sample_offences_def sample_offence_config_def
        offence_storage.defs authority_storage.defs sample_authority_config_def offence_config.defs
        authority_config.defs im_online_offline_def)
qed

text \<open>In every reachable storage the index and the reports agree: the index of a kind and time slot lists,
  without repetition, identifiers of reports of just that kind and slot, and every report is listed.\<close>

theorem offence_reachable_wf:
  assumes "reachable offence_genesis (offence_step T) s"
  shows "offence_wf T s"
  by (rule offence_inv.inv_reachable [OF assms])


theorem offence_reachable_wf_witness: "offence_wf sample_offence_config sample_offences"
  by (rule offence_reachable_wf, rule reach_init)
    (simp add: offence_genesis_def sample_offences_def offence_storage.defs authority_storage.defs)

end
