(* ===== verification/Identity_Properties.thy ===== *)
theory Identity_Properties
  imports Identity_Pallet
begin

text \<open>
  Properties of the identity pallet: sub-accounts and their main accounts agree, judgements are kept in
  order and are about the current information, and usernames need the consent of their holder and the
  allocation of their authority.
\<close>

section \<open>Helper functions\<close>

lemma identity_event_frame [simp]:
  "IdentityOf (identity_deposit_event e s) = IdentityOf s" "SuperOf (identity_deposit_event e s) = SuperOf s"
  "SubsOf (identity_deposit_event e s) = SubsOf s" "Registrars (identity_deposit_event e s) = Registrars s"
  "UsernameAuthorities (identity_deposit_event e s) = UsernameAuthorities s"
  "AccountOfUsername (identity_deposit_event e s) = AccountOfUsername s"
  "PendingUsernames (identity_deposit_event e s) = PendingUsernames s"
  by (simp_all add: identity_deposit_event_def)

lemma identity_origin_iff [simp]:
  "identity_sender T origin = Ok a \<longleftrightarrow> identity_signed T origin = Some a" "identity_account T l = Ok a \<longleftrightarrow> identity_lookup T l = Some a"
  by (simp_all add: identity_sender_def identity_account_def)

lemma remove_supers_eq: "remove_supers ids m x = (if x \<in> set ids then None else m x)"
  by (induction ids arbitrary: m) simp_all

lemma insert_subs_ids: "insert_subs bound sender new ids m = Ok (ids', m') \<Longrightarrow> ids' = ids @ map fst new"
proof (induction new arbitrary: ids m)
  case (Cons y rest)
  obtain sub name where y: "y = (sub, name)" by (cases y)
  from Cons.prems have "insert_subs bound sender rest (ids @ [sub]) (m(sub \<mapsto> (sender, name))) = Ok (ids', m')"
    by (auto simp: y split: option.splits)
  from Cons.IH [OF this] show ?case by (simp add: y)
qed simp

lemma insert_subs_supers:
  "insert_subs bound sender new ids m = Ok (ids', m') \<Longrightarrow>
   if x \<in> fst ` set new then \<exists>d. m' x = Some (sender, d) else m' x = m x"
proof (induction new arbitrary: ids m)
  case (Cons y rest)
  obtain sub name where y: "y = (sub, name)" by (cases y)
  from Cons.prems have "insert_subs bound sender rest (ids @ [sub]) (m(sub \<mapsto> (sender, name))) = Ok (ids', m')"
    by (auto simp: y split: option.splits)
  from Cons.IH [OF this] show ?case by (auto simp: y split: if_splits)
qed simp

text \<open>\<open>insert_username\<close> keeps the information and the judgements of an identity.\<close>

definition reg_of :: "account \<Rightarrow> 'm identity_storage_scheme \<Rightarrow> registration option" where
  "reg_of who s = map_option fst (IdentityOf s who)"

lemma insert_username_frame [simp]:
  "SuperOf (insert_username who name s) = SuperOf s" "SubsOf (insert_username who name s) = SubsOf s"
  "Registrars (insert_username who name s) = Registrars s" "UsernameAuthorities (insert_username who name s) = UsernameAuthorities s"
  "PendingUsernames (insert_username who name s) = PendingUsernames s"
  "AccountOfUsername (insert_username who name s) = (AccountOfUsername s)(name \<mapsto> who)"
  by (simp_all add: insert_username_def Let_def split: option.split prod.split)

lemma insert_username_reg:
  "reg_of x (insert_username who name s) = (if x = who \<and> reg_of who s = None
     then Some \<lparr>judgements = [], info = identity_info_default\<rparr> else reg_of x s)"
  by (auto simp: insert_username_def reg_of_def Let_def split: option.split prod.split)

section \<open>Sub-accounts\<close>

text \<open>A sub-account is listed by its main account exactly if that is recorded as its main account.\<close>

definition subs_wf :: "nat \<Rightarrow> 'm identity_storage_scheme \<Rightarrow> bool" where
  "subs_wf bound s \<longleftrightarrow> (\<forall>m x. x \<in> set (SubsOf s m) \<longleftrightarrow> (\<exists>d. SuperOf s x = Some (m, d))) \<and>
     (\<forall>m. length (SubsOf s m) \<le> bound) \<and> (\<forall>m. SubsOf s m \<noteq> [] \<longrightarrow> reg_of m s \<noteq> None)"

lemma subs_wf_iff: "subs_wf bound s \<Longrightarrow> x \<in> set (SubsOf s m) \<longleftrightarrow> (\<exists>d. SuperOf s x = Some (m, d))"
  by (simp add: subs_wf_def)

lemma subs_wf_cong:
  assumes "subs_wf bound s" "SuperOf s' = SuperOf s" "SubsOf s' = SubsOf s" "\<And>m. reg_of m s \<noteq> None \<Longrightarrow> reg_of m s' \<noteq> None"
  shows "subs_wf bound s'"
  using assms unfolding subs_wf_def by metis

lemma subs_wf_taken:
  assumes "subs_wf bound s" "SuperOf s' = remove_supers (SubsOf s who) (SuperOf s)" "SubsOf s' = (SubsOf s)(who := [])"
    and "\<And>m. m \<noteq> who \<Longrightarrow> reg_of m s' = reg_of m s"
  shows "subs_wf bound s'"
  using assms(1) subs_wf_iff [OF assms(1)] unfolding subs_wf_def by (auto simp: assms(2-4) remove_supers_eq)

lemma subs_wf_dropped:
  assumes "subs_wf bound s" "SuperOf s x = Some (m, d)"
  shows "subs_wf bound (drop_sub x m s)"
proof -
  have "length (filter (\<lambda>y. y \<noteq> x) (SubsOf s m)) \<le> bound"
    using assms(1) length_filter_le le_trans unfolding subs_wf_def by blast
  moreover have "SubsOf s m \<noteq> []" using subs_wf_iff [OF assms(1), of x m] assms(2) by auto
  then have "reg_of m s \<noteq> None" using assms(1) by (simp add: subs_wf_def)
  ultimately show ?thesis using assms subs_wf_iff [OF assms(1)]
    by (auto simp: subs_wf_def drop_sub_def reg_of_def)
qed

lemma subs_wf_set:
  assumes "subs_wf bound s" "reg_of sender s \<noteq> None" "length new \<le> bound"
    and "\<forall>x \<in> fst ` set new. \<forall>m d. SuperOf s x = Some (m, d) \<longrightarrow> m = sender"
    and "insert_subs bound sender new [] (remove_supers (SubsOf s sender) (SuperOf s)) = Ok (ids, supers)"
  shows "subs_wf bound (s\<lparr>SuperOf := supers, SubsOf := (SubsOf s)(sender := ids)\<rparr>)"
proof -
  let ?s = "s\<lparr>SuperOf := supers, SubsOf := (SubsOf s)(sender := ids)\<rparr>"
  have ids: "ids = map fst new" using insert_subs_ids [OF assms(5)] by simp
  have sup: "if x \<in> fst ` set new then \<exists>d. supers x = Some (sender, d)
      else supers x = (if x \<in> set (SubsOf s sender) then None else SuperOf s x)" for x
    using insert_subs_supers [OF assms(5), of x] by (simp add: remove_supers_eq)
  have "x \<in> set (SubsOf ?s m) \<longleftrightarrow> (\<exists>d. SuperOf ?s x = Some (m, d))" for x m
  proof (cases "x \<in> fst ` set new")
    case True
    then show ?thesis using sup [of x] subs_wf_iff [OF assms(1), of x m] assms(4) by (auto simp: ids)
  next
    case False
    then show ?thesis using sup [of x] subs_wf_iff [OF assms(1), of x m] subs_wf_iff [OF assms(1), of x sender] by (auto simp: ids)
  qed
  then show ?thesis using assms(1-3) by (auto simp: subs_wf_def ids reg_of_def)
qed

section \<open>Judgements\<close>

text \<open>At most one judgement of each registrar, in the order of their accounts.\<close>

definition judgements_wf :: "nat \<Rightarrow> (account \<times> Judgement) list \<Rightarrow> bool" where
  "judgements_wf bound js \<longleftrightarrow> sorted (map fst js) \<and> distinct (map fst js) \<and> length js \<le> bound"

definition put :: "account \<times> Judgement \<Rightarrow> (account \<times> Judgement) set \<Rightarrow> (account \<times> Judgement) set" where
  "put item J = insert item {x \<in> J. fst x \<noteq> fst item}"

lemma judgements_wf_unique: "judgements_wf bound js \<Longrightarrow> x \<in> set js \<Longrightarrow> y \<in> set js \<Longrightarrow> fst x = fst y \<Longrightarrow> x = y"
  by (auto simp: judgements_wf_def distinct_map inj_on_def)

lemma judgements_wf_filter: "judgements_wf bound js \<Longrightarrow> judgements_wf bound (filter P js)"
  using le_trans [OF length_filter_le, of js bound P]
  by (simp add: judgements_wf_def distinct_map_filter sorted_filter)

lemma put_existing:
  assumes "judgements_wf bound js" "binary_search_by_key fst js (fst item) = Ok i"
  shows "judgements_wf bound (js[i := item])" "set (js[i := item]) = put item (set js)" "i < length js" "fst (js ! i) = fst item"
proof -
  have srt: "sorted (map fst js)" using assms(1) by (simp add: judgements_wf_def)
  from vec_search.found [OF srt assms(2) [unfolded binary_search_by_key_def]]
  have i: "i < length js" "fst (js ! i) = fst item" by (metis length_map nth_map)+
  then show "i < length js" "fst (js ! i) = fst item" by simp_all
  have "map fst (js[i := item]) = map fst js" using i by (metis list_update_id map_update nth_map)
  then show "judgements_wf bound (js[i := item])" using assms(1) by (simp add: judgements_wf_def)
  have d: "distinct js" using assms(1) by (auto simp: judgements_wf_def distinct_map)
  have "{x \<in> set js. fst x \<noteq> fst item} = set js - {js ! i}"
    using judgements_wf_unique [OF assms(1), of _ "js ! i"] i by auto
  then show "set (js[i := item]) = put item (set js)" using set_update_distinct [OF d i(1)] by (simp add: put_def)
qed

lemma put_new:
  assumes "judgements_wf bound js" "binary_search_by_key fst js (fst item) = Err i" "length js < bound"
  shows "judgements_wf bound (take i js @ item # drop i js)" "set (take i js @ item # drop i js) = put item (set js)"
    "fst item \<notin> fst ` set js"
proof -
  have srt: "sorted (map fst js)" using assms(1) by (simp add: judgements_wf_def)
  have err: "binary_search (map fst js) (fst item) = Err i" using assms(2) by (simp add: binary_search_by_key_def)
  have m: "map fst (take i js @ item # drop i js) = take i (map fst js) @ fst item # drop i (map fst js)" by (simp add: take_map drop_map)
  note ins = vec_search.insert_sorted [OF srt err]
  have "length (take i js @ item # drop i js) = Suc (length js)" using ins(4) by (metis length_map m)
  then show "judgements_wf bound (take i js @ item # drop i js)"
    using ins(1,3) assms(1,3) unfolding judgements_wf_def m by simp
  show notin: "fst item \<notin> fst ` set js" using vec_search.missing_absent [OF srt err] by simp
  have "set (take i js) \<union> set (drop i js) = set js" by (metis append_take_drop_id set_append)
  moreover have "fst x \<noteq> fst item" if "x \<in> set js" for x using notin that by (metis imageI)
  then have "{x \<in> set js. fst x \<noteq> fst item} = set js" by blast
  ultimately show "set (take i js @ item # drop i js) = put item (set js)" by (auto simp: put_def)
qed

text \<open>What a call can do to the registration of an account.\<close>

inductive registration_step ::
  "('o, 'l, 'sig, 'c) identity_config_scheme \<Rightarrow> 'o \<Rightarrow> ('l, 'sig) IdentityCall \<Rightarrow> account \<Rightarrow> registration option \<Rightarrow> registration option \<Rightarrow> bool"
  for T origin c who where
  kept: "registration_step T origin c who r r"
| taken: "c = ClearIdentity \<or> (\<exists>l. c = KillIdentity l) \<Longrightarrow> registration_step T origin c who r None"
| named: "registration_step T origin c who None (Some \<lparr>judgements = [], info = identity_info_default\<rparr>)"
| first_set: "registration_step T origin c who None (Some \<lparr>judgements = [], info = i\<rparr>)"
| set_again: "registration_step T origin c who (Some r)
    (Some (r\<lparr>judgements := filter (\<lambda>j. is_sticky (snd j)) (judgements r), info := i\<rparr>))"
| requested: "judgements_wf (unat (MaxRegistrars T)) js \<Longrightarrow> set js = put (reg, Requested) (set (judgements r)) \<Longrightarrow>
    (\<forall>j. (reg, j) \<in> set (judgements r) \<longrightarrow> \<not> is_sticky j) \<Longrightarrow>
    registration_step T origin c who (Some r) (Some (r\<lparr>judgements := js\<rparr>))"
| cancelled: "registration_step T origin c who (Some r) (Some (r\<lparr>judgements := filter (\<lambda>x. x \<noteq> (reg, Requested)) (judgements r)\<rparr>))"
| judged: "c = ProvideJudgement l j h \<Longrightarrow> identity_lookup T l = Some who \<Longrightarrow> identity_signed T origin = Some reg \<Longrightarrow>
    j \<noteq> Requested \<Longrightarrow> hash_of_info T (info r) = h \<Longrightarrow>
    judgements_wf (unat (MaxRegistrars T)) js \<Longrightarrow> set js = put (reg, j) (set (judgements r)) \<Longrightarrow>
    registration_step T origin c who (Some r) (Some (r\<lparr>judgements := js\<rparr>))"

definition registrations_wf :: "nat \<Rightarrow> 'm identity_storage_scheme \<Rightarrow> bool" where
  "registrations_wf bound s \<longleftrightarrow> (\<forall>who r. reg_of who s = Some r \<longrightarrow> judgements_wf bound (judgements r))"

lemma reg_of_update [simp]:
  "reg_of x (s\<lparr>IdentityOf := (IdentityOf s)(who \<mapsto> (r, n))\<rparr>) = (if x = who then Some r else reg_of x s)"
  by (simp add: reg_of_def)

lemma reg_of_cong: "IdentityOf s' = IdentityOf s \<Longrightarrow> reg_of x s' = reg_of x s"
  by (simp add: reg_of_def)

lemma reg_of_event [simp]: "reg_of x (identity_deposit_event e s) = reg_of x s"
  by (simp add: reg_of_def)

lemma request_step:
  assumes "request_judgement T origin reg s = Ok s'" "registrations_wf (unat (MaxRegistrars T)) s"
  shows "registration_step T origin c x (reg_of x s) (reg_of x s')"
proof -
  let ?item = "(reg, Requested)"
  from assms(1) obtain who r n js where ok: "IdentityOf s who = Some (r, n)" "reg_of x s' = (if x = who then Some (r\<lparr>judgements := js\<rparr>) else reg_of x s)"
    and js: "(case binary_search_by_key fst (judgements r) reg of
                 Ok i \<Rightarrow> if is_sticky (snd (judgements r ! i)) then Err (Module StickyJudgement)
                         else vec_set i ?item (judgements r)
               | Err i \<Rightarrow> map_err (\<lambda>_. Module TooManyRegistrars) (vec_try_insert (unat (MaxRegistrars T)) i ?item (judgements r))
               | Panic \<Rightarrow> Panic) = Ok js"
    by (auto simp: request_judgement_def Let_def)
  have wf: "judgements_wf (unat (MaxRegistrars T)) (judgements r)" using assms(2) ok(1) by (auto simp: registrations_wf_def reg_of_def)
  have "judgements_wf (unat (MaxRegistrars T)) js \<and> set js = put ?item (set (judgements r)) \<and>
    (\<forall>j. (reg, j) \<in> set (judgements r) \<longrightarrow> \<not> is_sticky j)"
  proof (cases "binary_search_by_key fst (judgements r) reg")
    case (Ok i)
    note put = put_existing [OF wf, of ?item i, simplified, OF Ok]
    have "j = snd (judgements r ! i)" if "(reg, j) \<in> set (judgements r)" for j
      using judgements_wf_unique [OF wf that, of "judgements r ! i"] put(3,4) by (metis fst_conv nth_mem snd_conv)
    moreover have "js = (judgements r)[i := ?item]" "\<not> is_sticky (snd (judgements r ! i))"
      using js Ok by (auto simp: vec_set_Ok_iff split: if_splits)
    ultimately show ?thesis using put(1,2) by blast
  next
    case (Err i)
    from js Err have len: "length (judgements r) < unat (MaxRegistrars T)" "js = take i (judgements r) @ ?item # drop i (judgements r)"
      by (auto simp: vec_try_insert_Ok_iff)
    note put = put_new [OF wf, of ?item i, simplified, OF Err len(1)]
    have "(reg, j) \<notin> set (judgements r)" for j using put(3) by (metis fst_conv imageI)
    then show ?thesis using put(1,2) len(2) by simp
  qed (use js in simp)
  then show ?thesis using ok by (auto simp: reg_of_def intro: registration_step.requested registration_step.kept)
qed

lemma filter_notin: "a \<notin> set xs \<Longrightarrow> filter (\<lambda>y. y \<noteq> a) xs = xs"
  by (induction xs) auto

lemma cancel_step:
  assumes "cancel_request T origin reg s = Ok s'" "registrations_wf (unat (MaxRegistrars T)) s"
  shows "registration_step T origin c x (reg_of x s) (reg_of x s')"
proof -
  from assms(1) obtain who r n pos where ok: "IdentityOf s who = Some (r, n)" "binary_search_by_key fst (judgements r) reg = Ok pos"
    "snd (judgements r ! pos) = Requested" "pos < length (judgements r)"
    "reg_of x s' = (if x = who then Some (r\<lparr>judgements := take pos (judgements r) @ drop (Suc pos) (judgements r)\<rparr>) else reg_of x s)"
    by (auto simp: cancel_request_def vec_remove_Ok_iff split: if_splits)
  let ?js = "judgements r"
  have wf: "judgements_wf (unat (MaxRegistrars T)) ?js" using assms(2) ok(1) by (auto simp: registrations_wf_def reg_of_def)
  have "fst (?js ! pos) = reg" using put_existing(4) [OF wf, of "(reg, Requested)"] ok(2) by simp
  then have item: "?js ! pos = (reg, Requested)" using ok(3) by (metis prod.collapse)
  have "distinct ?js" using wf by (auto simp: judgements_wf_def distinct_map)
  then have "distinct (take pos ?js @ ?js ! pos # drop (Suc pos) ?js)" using id_take_nth_drop [OF ok(4)] by metis
  then have "filter (\<lambda>y. y \<noteq> ?js ! pos) (take pos ?js @ ?js ! pos # drop (Suc pos) ?js) = take pos ?js @ drop (Suc pos) ?js"
    by (simp add: filter_notin)
  then have "filter (\<lambda>y. y \<noteq> ?js ! pos) ?js = take pos ?js @ drop (Suc pos) ?js" using id_take_nth_drop [OF ok(4)] by metis
  then show ?thesis using ok(1,5) item registration_step.cancelled [of T origin c x r reg]
    by (auto simp: reg_of_def intro: registration_step.kept)
qed

lemma provide_step:
  assumes "provide_judgement T origin l j h s = Ok s'" "registrations_wf (unat (MaxRegistrars T)) s"
  shows "registration_step T origin (ProvideJudgement l j h) x (reg_of x s) (reg_of x s')"
proof -
  from assms(1) obtain who reg r n js where ok: "identity_lookup T l = Some who" "identity_signed T origin = Some reg" "j \<noteq> Requested"
    "IdentityOf s who = Some (r, n)" "hash_of_info T (info r) = h"
    "reg_of x s' = (if x = who then Some (r\<lparr>judgements := js\<rparr>) else reg_of x s)"
    and js: "(case binary_search_by_key fst (judgements r) reg of
                 Ok i \<Rightarrow> vec_set i (reg, j) (judgements r)
               | Err i \<Rightarrow> map_err (\<lambda>_. Module TooManyRegistrars) (vec_try_insert (unat (MaxRegistrars T)) i (reg, j) (judgements r))
               | Panic \<Rightarrow> Panic) = Ok js"
    by (auto simp: provide_judgement_def has_requested_def Let_def split: if_splits)
  have wf: "judgements_wf (unat (MaxRegistrars T)) (judgements r)" using assms(2) ok(4) by (auto simp: registrations_wf_def reg_of_def)
  have "judgements_wf (unat (MaxRegistrars T)) js \<and> set js = put (reg, j) (set (judgements r))"
  proof (cases "binary_search_by_key fst (judgements r) reg")
    case (Ok i)
    with put_existing [OF wf, of "(reg, j)" i, simplified, OF Ok] js show ?thesis by (auto simp: vec_set_Ok_iff)
  next
    case (Err i)
    from js Err have len: "length (judgements r) < unat (MaxRegistrars T)" "js = take i (judgements r) @ (reg, j) # drop i (judgements r)"
      by (auto simp: vec_try_insert_Ok_iff)
    then show ?thesis using put_new [OF wf, of "(reg, j)" i, simplified, OF Err len(1)] by simp
  qed (use js in simp)
  then show ?thesis using ok registration_step.judged [of "ProvideJudgement l j h" l j h T who origin reg r js]
    by (auto simp: reg_of_def intro: registration_step.kept)
qed

lemma take_identity_OkD:
  assumes "take_identity who s = Ok s'"
  shows "reg_of who s \<noteq> None" "reg_of x s' = (if x = who then None else reg_of x s)" "SubsOf s' = (SubsOf s)(who := [])"
    "SuperOf s' = remove_supers (SubsOf s who) (SuperOf s)" "PendingUsernames s' = PendingUsernames s"
    "UsernameAuthorities s' = UsernameAuthorities s" "Registrars s' = Registrars s"
    "AccountOfUsername s' n = Some a \<Longrightarrow> AccountOfUsername s n = Some a"
  using assms by (auto simp: take_identity_def reg_of_def Let_def split: option.splits if_splits)

lemma set_username_for_OkE:
  assumes "set_username_for T origin l name sig s = Ok s'"
  obtains a p who s1 where "identity_signed T origin = Some a" "UsernameAuthorities s a = Some p" "0 < allocation p"
    "is_valid_username name" "length name + 1 + length (suffix p) \<le> unat (MaxUsernameLength T)" "identity_lookup T l = Some who"
    "AccountOfUsername s (name @ 0x40 # suffix p) = None" "PendingUsernames s (name @ 0x40 # suffix p) = None"
    "s1 = s\<lparr>UsernameAuthorities := (UsernameAuthorities s)(a \<mapsto> p\<lparr>allocation := saturating_sub (allocation p) 1\<rparr>)\<rparr>"
    "case sig of None \<Rightarrow> s' = queue_acceptance T who (name @ 0x40 # suffix p) s1
     | Some sg \<Rightarrow> validate_signature T (encode_vec T (name @ 0x40 # suffix p)) sg who = Ok () \<and> s' = insert_username who (name @ 0x40 # suffix p) s1"
  using assms by (cases sig) (auto simp: set_username_for_def validate_username_def Let_def)

lemma queue_acceptance_frame [simp]:
  "reg_of x (queue_acceptance T who name s) = reg_of x s" "SuperOf (queue_acceptance T who name s) = SuperOf s"
  "SubsOf (queue_acceptance T who name s) = SubsOf s" "UsernameAuthorities (queue_acceptance T who name s) = UsernameAuthorities s"
  "AccountOfUsername (queue_acceptance T who name s) = AccountOfUsername s" "Registrars (queue_acceptance T who name s) = Registrars s"
  "PendingUsernames (queue_acceptance T who name s) =
     (PendingUsernames s)(name \<mapsto> (who, saturating_add (block_number s) (PendingUsernameExpiration T)))"
  by (simp_all add: queue_acceptance_def Let_def reg_of_def)

lemma reg_of_frame [simp]:
  "reg_of x (s\<lparr>UsernameAuthorities := a\<rparr>) = reg_of x s" "reg_of x (s\<lparr>PendingUsernames := b\<rparr>) = reg_of x s"
  "reg_of x (s\<lparr>AccountOfUsername := d\<rparr>) = reg_of x s" "reg_of x (s\<lparr>SuperOf := e\<rparr>) = reg_of x s"
  "reg_of x (s\<lparr>SubsOf := f\<rparr>) = reg_of x s" "reg_of x (s\<lparr>Registrars := g\<rparr>) = reg_of x s" "reg_of x (drop_sub y m s) = reg_of x s"
  by (simp_all add: reg_of_def drop_sub_def)

lemma registration_dispatch:
  assumes "identity_dispatch T origin c s = Ok s'" "registrations_wf (unat (MaxRegistrars T)) s"
  shows "registration_step T origin c x (reg_of x s) (reg_of x s')"
proof (cases c)
  case (RequestJudgement reg)
  with assms show ?thesis by (auto intro: request_step)
next
  case (CancelRequest reg)
  with assms show ?thesis by (auto intro: cancel_step)
next
  case (ProvideJudgement l j h)
  with assms show ?thesis by (auto intro: provide_step)
next
  case (SetIdentity i)
  with assms(1) obtain who where who: "set_identity T origin i s = Ok s'" "identity_signed T origin = Some who"
    by (auto simp: set_identity_def)
  show ?thesis
  proof (cases "IdentityOf s who")
    case None
    with who registration_step.first_set [of T origin c who i] show ?thesis
      by (auto simp: set_identity_def reg_of_def intro: registration_step.kept)
  next
    case (Some rn)
    with who registration_step.set_again [of T origin c who "fst rn" i] show ?thesis
      by (cases rn) (auto simp: set_identity_def reg_of_def intro: registration_step.kept)
  qed
next
  case (SetUsernameFor l n sg)
  with assms(1) have "set_username_for T origin l n sg s = Ok s'" by simp
  then show ?thesis
    by (rule set_username_for_OkE) (auto split: option.splits simp: insert_username_reg intro: registration_step.kept registration_step.named)
next
  case (AcceptUsername n)
  with assms(1) show ?thesis
    by (auto simp: accept_username_def insert_username_reg intro: registration_step.kept registration_step.named)
next
  case ClearIdentity
  with assms(1) obtain who s1 where "take_identity who s = Ok s1" "reg_of x s' = reg_of x s1" by (auto simp: clear_identity_def)
  then show ?thesis using take_identity_OkD(2) [of who s s1 x] ClearIdentity
    by (auto intro: registration_step.taken registration_step.kept)
next
  case (KillIdentity l)
  with assms(1) obtain who s1 where "take_identity who s = Ok s1" "reg_of x s' = reg_of x s1" by (auto simp: kill_identity_def)
  then show ?thesis using take_identity_OkD(2) [of who s s1 x] KillIdentity
    by (auto intro: registration_step.taken registration_step.kept)
next
  case (SetPrimaryUsername n)
  with assms(1) show ?thesis using registration_step.kept [of T origin c x] by (auto simp: set_primary_username_def reg_of_def)
qed (use assms(1) in \<open>auto simp: add_registrar_def set_subs_def set_account_id_def set_fields_def add_sub_def rename_sub_def
    remove_sub_def quit_sub_def add_username_authority_def remove_username_authority_def remove_expired_approval_def
    remove_dangling_username_def remove_registrar_def Let_def registration_step.kept split: option.splits prod.splits if_splits\<close>)

section \<open>The invariant\<close>

lemma registration_step_wf:
  assumes "registration_step T origin c who r r'" "\<And>x. r = Some x \<Longrightarrow> judgements_wf (unat (MaxRegistrars T)) (judgements x)"
  shows "\<forall>x. r' = Some x \<longrightarrow> judgements_wf (unat (MaxRegistrars T)) (judgements x)"
  using assms by cases (auto simp: judgements_wf_filter, auto simp: judgements_wf_def)

lemma registrations_wf_dispatch:
  assumes "identity_dispatch T origin c s = Ok s'" "registrations_wf (unat (MaxRegistrars T)) s"
  shows "registrations_wf (unat (MaxRegistrars T)) s'"
  using registration_step_wf [OF registration_dispatch [OF assms]] assms(2) by (simp add: registrations_wf_def)

lemma not_other_sub:
  "list_all (\<lambda>i. fst i = sender) (List.map_filter (\<lambda>i. f (fst i)) new) \<Longrightarrow> x \<in> fst ` set new \<Longrightarrow> f x = Some (m, d) \<Longrightarrow> m = sender"
  by (induction new) (auto simp: List.map_filter_simps split: option.splits)

lemma registered_stays:
  assumes "identity_dispatch T origin c s = Ok s'" "registrations_wf (unat (MaxRegistrars T)) s" "reg_of m s \<noteq> None" "reg_of m s' = None"
  shows "c = ClearIdentity \<or> (\<exists>l. c = KillIdentity l)"
  using registration_dispatch [OF assms(1,2), of m] assms(3,4) by (auto elim: registration_step.cases)

lemma subs_wf_event: "subs_wf bound (identity_deposit_event e s) = subs_wf bound s"
  by (simp add: subs_wf_def)

text \<open>Which calls leave sub-accounts, usernames and authorities as they are.\<close>

fun touches_subs :: "('l, 'sig) IdentityCall \<Rightarrow> bool" where
  "touches_subs (SetSubs new) = True" | "touches_subs (AddSub l d) = True" | "touches_subs (RenameSub l d) = True"
| "touches_subs (RemoveSub l) = True" | "touches_subs QuitSub = True" | "touches_subs ClearIdentity = True"
| "touches_subs (KillIdentity l) = True" | "touches_subs _ = False"

fun touches_names :: "('l, 'sig) IdentityCall \<Rightarrow> bool" where
  "touches_names (SetUsernameFor l n sg) = True" | "touches_names (AcceptUsername n) = True"
| "touches_names (RemoveExpiredApproval n) = True" | "touches_names (RemoveDanglingUsername n) = True"
| "touches_names ClearIdentity = True" | "touches_names (KillIdentity l) = True" | "touches_names _ = False"

fun touches_authorities :: "('l, 'sig) IdentityCall \<Rightarrow> bool" where
  "touches_authorities (AddUsernameAuthority l sfx n) = True" | "touches_authorities (RemoveUsernameAuthority l) = True"
| "touches_authorities (SetUsernameFor l n sg) = True" | "touches_authorities _ = False"

lemma set_identity_frame:
  assumes "set_identity T origin i s = Ok s'"
  shows "SuperOf s' = SuperOf s" "SubsOf s' = SubsOf s" "AccountOfUsername s' = AccountOfUsername s"
    "PendingUsernames s' = PendingUsernames s" "UsernameAuthorities s' = UsernameAuthorities s" "Registrars s' = Registrars s"
  using assms by (auto simp: set_identity_def Let_def)

lemma dispatch_frame:
  assumes "identity_dispatch T origin c s = Ok s'"
  shows "\<not> touches_subs c \<Longrightarrow> SuperOf s' = SuperOf s" "\<not> touches_subs c \<Longrightarrow> SubsOf s' = SubsOf s"
    "\<not> touches_names c \<Longrightarrow> AccountOfUsername s' = AccountOfUsername s" "\<not> touches_names c \<Longrightarrow> PendingUsernames s' = PendingUsernames s"
    "\<not> touches_authorities c \<Longrightarrow> UsernameAuthorities s' = UsernameAuthorities s"
proof -
  have "(\<not> touches_subs c \<longrightarrow> SuperOf s' = SuperOf s \<and> SubsOf s' = SubsOf s) \<and>
    (\<not> touches_names c \<longrightarrow> AccountOfUsername s' = AccountOfUsername s \<and> PendingUsernames s' = PendingUsernames s) \<and>
    (\<not> touches_authorities c \<longrightarrow> UsernameAuthorities s' = UsernameAuthorities s)"
  proof (cases c)
    case (SetIdentity i)
    then show ?thesis using assms by (simp add: set_identity_frame)
  next
    case (SetUsernameFor l n sg)
    with assms have "set_username_for T origin l n sg s = Ok s'" by simp
    then show ?thesis by (rule set_username_for_OkE) (auto simp: SetUsernameFor split: option.splits)
  next
    case ClearIdentity
    then show ?thesis using assms by (auto simp: clear_identity_def take_identity_OkD)
  next
    case (KillIdentity l)
    then show ?thesis using assms by (auto simp: kill_identity_def take_identity_OkD)
  qed (use assms in \<open>auto simp: add_registrar_def request_judgement_def cancel_request_def set_account_id_def
      set_fields_def provide_judgement_def add_username_authority_def remove_username_authority_def set_subs_def add_sub_def rename_sub_def
      remove_sub_def quit_sub_def drop_sub_def set_primary_username_def remove_registrar_def accept_username_def
      remove_expired_approval_def remove_dangling_username_def Let_def split: option.splits prod.splits if_splits\<close>)
  then show "\<not> touches_subs c \<Longrightarrow> SuperOf s' = SuperOf s" "\<not> touches_subs c \<Longrightarrow> SubsOf s' = SubsOf s"
    "\<not> touches_names c \<Longrightarrow> AccountOfUsername s' = AccountOfUsername s" "\<not> touches_names c \<Longrightarrow> PendingUsernames s' = PendingUsernames s"
    "\<not> touches_authorities c \<Longrightarrow> UsernameAuthorities s' = UsernameAuthorities s"
    by simp_all
qed

text \<open>Every call keeps the main accounts and the lists of sub-accounts in step.\<close>

lemma subs_wf_dispatch:
  assumes call: "identity_dispatch T origin c s = Ok s'"
    and wf: "registrations_wf (unat (MaxRegistrars T)) s" "subs_wf (unat (MaxSubAccounts T)) s"
  shows "subs_wf (unat (MaxSubAccounts T)) s'"
proof -
  note stays = registered_stays [OF call wf(1)]
  have same: ?thesis if "SuperOf s' = SuperOf s" "SubsOf s' = SubsOf s" "c \<noteq> ClearIdentity" "\<forall>l. c \<noteq> KillIdentity l"
    using subs_wf_cong [OF wf(2) that(1,2)] stays that(3,4) by blast
  have taken: ?thesis if "take_identity who s = Ok s1" "s' = identity_deposit_event e s1" for who s1 e
    using take_identity_OkD [OF that(1)] that(2) by (auto intro: subs_wf_taken [OF wf(2)])
  show ?thesis
  proof (cases c)
    case (SetSubs new)
    with call obtain sender ids supers where set: "identity_signed T origin = Some sender" "IdentityOf s sender \<noteq> None"
      "length new \<le> unat (MaxSubAccounts T)" "list_all (\<lambda>i. fst i = sender) (List.map_filter (\<lambda>i. SuperOf s (fst i)) new)"
      "insert_subs (unat (MaxSubAccounts T)) sender new [] (remove_supers (SubsOf s sender) (SuperOf s)) = Ok (ids, supers)"
      "s' = s\<lparr>SuperOf := supers, SubsOf := (SubsOf s)(sender := ids)\<rparr>"
      by (auto simp: set_subs_def Let_def)
    then show ?thesis using subs_wf_set [OF wf(2) _ set(3) _ set(5)] not_other_sub [OF set(4)] by (auto simp: reg_of_def)
  next
    case (AddSub l d)
    with call show ?thesis using wf(2)
      by (auto simp: add_sub_def try_push_def subs_wf_def reg_of_def split: if_splits)
  next
    case (RenameSub l d)
    with call show ?thesis using wf(2)
      by (auto simp: rename_sub_def subs_wf_def reg_of_def split: option.splits if_splits)
  next
    case (RemoveSub l)
    with call obtain sub m d e where "SuperOf s sub = Some (m, d)" "s' = identity_deposit_event e (drop_sub sub m s)"
      by (auto simp: remove_sub_def)
    then show ?thesis using subs_wf_dropped [OF wf(2)] by (auto simp: subs_wf_event)
  next
    case QuitSub
    with call obtain sub m d e where "SuperOf s sub = Some (m, d)" "s' = identity_deposit_event e (drop_sub sub m s)"
      by (auto simp: quit_sub_def)
    then show ?thesis using subs_wf_dropped [OF wf(2)] by (auto simp: subs_wf_event)
  next
    case ClearIdentity
    with call taken show ?thesis by (auto simp: clear_identity_def)
  next
    case (KillIdentity l)
    with call taken show ?thesis by (auto simp: kill_identity_def)
  qed (use same dispatch_frame(1,2) [OF call] in simp_all)
qed

section \<open>Usernames\<close>

text \<open>The characters of a username, and where its dots are.\<close>

definition username_char :: "u8 \<Rightarrow> bool" where
  "username_char ch \<longleftrightarrow> ascii_lowercase ch \<or> ascii_digit ch \<or> ch = 0x2E"

definition no_two_dots :: "bytes \<Rightarrow> bool" where
  "no_two_dots = successively (\<lambda>a b. \<not> (a = 0x2E \<and> b = 0x2E))"

lemma username_fold_iff:
  "fst (username_fold (v, l) cs) \<longleftrightarrow> v \<and> list_all username_char cs \<and> no_two_dots cs \<and> (l = Some 0x2E \<longrightarrow> cs = [] \<or> hd cs \<noteq> 0x2E)"
proof (induction cs arbitrary: v l)
  case (Cons ch cs)
  show ?case by (auto simp: Cons.IH username_char_def no_two_dots_def successively_Cons)
qed (simp add: no_two_dots_def)

lemma is_valid_username_iff:
  "is_valid_username cs \<longleftrightarrow> cs \<noteq> [] \<and> ascii_lowercase (hd cs) \<and> last cs \<noteq> 0x2E \<and> list_all username_char cs \<and> no_two_dots cs"
  by (auto simp: is_valid_username_def username_fold_iff)

lemma no_at [simp]: "is_valid_username cs \<Longrightarrow> 0x40 \<notin> set cs"
  by (auto simp: is_valid_username_iff list_all_iff username_char_def ascii_lowercase_def ascii_digit_def)

lemma no_at_suffix [simp]: "list_all ascii_lowercase cs \<Longrightarrow> 0x40 \<notin> set cs"
  by (auto simp: list_all_iff ascii_lowercase_def)

definition suffix_wf :: "bytes \<Rightarrow> bool" where
  "suffix_wf sfx \<longleftrightarrow> sfx \<noteq> [] \<and> list_all ascii_lowercase sfx"

definition username_wf :: "nat \<Rightarrow> username \<Rightarrow> bool" where
  "username_wf bound n \<longleftrightarrow> length n \<le> bound \<and> (\<exists>name sfx. n = name @ 0x40 # sfx \<and> is_valid_username name \<and> suffix_wf sfx)"

text \<open>The parts of a username are determined by it.\<close>

lemma username_parts:
  assumes "is_valid_username n1" "is_valid_username n2" "n1 @ 0x40 # s1 = n2 @ 0x40 # s2"
  shows "n1 = n2 \<and> s1 = s2"
proof -
  have "n = takeWhile (\<lambda>ch. ch \<noteq> 0x40) (n @ 0x40 # sfx)" if "is_valid_username n" for n sfx
    using no_at [OF that] by (subst takeWhile_append2) auto
  then have "n1 = n2" using assms by metis
  then show ?thesis using assms(3) by simp
qed

text \<open>What a call can do to the usernames and to those who wait for acceptance.\<close>

inductive names_step ::
  "('o, 'l, 'sig, 'c) identity_config_scheme \<Rightarrow> 'o \<Rightarrow> ('l, 'sig) IdentityCall \<Rightarrow> 'm identity_storage_scheme
   \<Rightarrow> (username \<Rightarrow> account option) \<Rightarrow> (username \<Rightarrow> (account \<times> u32) option) \<Rightarrow> bool" for T origin c s where
  names_kept: "names_step T origin c s (AccountOfUsername s) (PendingUsernames s)"
| name_given: "c = SetUsernameFor l name (Some sg) \<Longrightarrow> identity_signed T origin = Some a \<Longrightarrow> UsernameAuthorities s a = Some p \<Longrightarrow>
    n = name @ 0x40 # suffix p \<Longrightarrow> is_valid_username name \<Longrightarrow> length n \<le> unat (MaxUsernameLength T) \<Longrightarrow>
    AccountOfUsername s n = None \<Longrightarrow> PendingUsernames s n = None \<Longrightarrow> identity_lookup T l = Some who \<Longrightarrow>
    validate_signature T (encode_vec T n) sg who = Ok () \<Longrightarrow>
    names_step T origin c s ((AccountOfUsername s)(n \<mapsto> who)) (PendingUsernames s)"
| name_queued: "c = SetUsernameFor l name None \<Longrightarrow> identity_signed T origin = Some a \<Longrightarrow> UsernameAuthorities s a = Some p \<Longrightarrow>
    n = name @ 0x40 # suffix p \<Longrightarrow> is_valid_username name \<Longrightarrow> length n \<le> unat (MaxUsernameLength T) \<Longrightarrow>
    AccountOfUsername s n = None \<Longrightarrow> PendingUsernames s n = None \<Longrightarrow> identity_lookup T l = Some who \<Longrightarrow>
    names_step T origin c s (AccountOfUsername s) ((PendingUsernames s)(n \<mapsto> (who, e)))"
| name_accepted: "c = AcceptUsername n \<Longrightarrow> identity_signed T origin = Some who \<Longrightarrow> PendingUsernames s n = Some (who, e) \<Longrightarrow>
    names_step T origin c s ((AccountOfUsername s)(n \<mapsto> who)) ((PendingUsernames s)(n := None))"
| name_expired: "PendingUsernames s n = Some (who, e) \<Longrightarrow> block_number s > e \<Longrightarrow>
    names_step T origin c s (AccountOfUsername s) ((PendingUsernames s)(n := None))"
| name_released: "names_step T origin c s ((AccountOfUsername s)(n := None)) (PendingUsernames s)"

lemma take_identity_names:
  assumes "take_identity who s = Ok s'"
  shows "names_step T origin c s (AccountOfUsername s') (PendingUsernames s')"
proof -
  from assms obtain r m where "IdentityOf s who = Some (r, m)" by (auto simp: take_identity_def)
  with assms show ?thesis
    by (cases m) (auto simp: take_identity_def Let_def names_kept, rule name_released)
qed

lemma set_username_for_names:
  assumes "set_username_for T origin l name sig s = Ok s'"
  shows "names_step T origin (SetUsernameFor l name sig) s (AccountOfUsername s') (PendingUsernames s')"
  using assms by (rule set_username_for_OkE) (auto split: option.splits intro: name_given name_queued)

lemma names_dispatch:
  assumes "identity_dispatch T origin c s = Ok s'"
  shows "names_step T origin c s (AccountOfUsername s') (PendingUsernames s')"
proof (cases c)
  case (SetUsernameFor l n sg)
  with assms show ?thesis by (simp add: set_username_for_names)
next
  case (AcceptUsername n)
  with assms show ?thesis by (auto simp: accept_username_def intro: name_accepted)
next
  case (RemoveExpiredApproval n)
  with assms show ?thesis by (auto simp: remove_expired_approval_def split: option.splits) (rule name_expired, auto)
next
  case (RemoveDanglingUsername n)
  with assms show ?thesis by (auto simp: remove_dangling_username_def) (rule name_released)
next
  case ClearIdentity
  with assms show ?thesis using take_identity_names [of _ s _ T origin c] by (auto simp: clear_identity_def)
next
  case (KillIdentity l)
  with assms show ?thesis using take_identity_names [of _ s _ T origin c] by (auto simp: kill_identity_def)
qed (use dispatch_frame(3,4) [OF assms] names_kept [of T origin c s] in simp_all)

definition names_wf :: "nat \<Rightarrow> 'm identity_storage_scheme \<Rightarrow> bool" where
  "names_wf bound s \<longleftrightarrow> (\<forall>n. AccountOfUsername s n \<noteq> None \<longrightarrow> PendingUsernames s n = None) \<and>
     (\<forall>n. AccountOfUsername s n \<noteq> None \<or> PendingUsernames s n \<noteq> None \<longrightarrow> username_wf bound n) \<and>
     (\<forall>a p. UsernameAuthorities s a = Some p \<longrightarrow> suffix_wf (suffix p))"

text \<open>What a call can do to the authorities.\<close>

definition spends :: "('o, 'l, 'sig, 'c) identity_config_scheme \<Rightarrow> account \<Rightarrow> 'o \<Rightarrow> ('l, 'sig) IdentityCall \<Rightarrow> bool" where
  "spends T a origin c \<longleftrightarrow> (\<exists>l n sg. c = SetUsernameFor l n sg) \<and> identity_signed T origin = Some a"

definition appoints :: "('o, 'l, 'sig, 'c) identity_config_scheme \<Rightarrow> account \<Rightarrow> ('l, 'sig) IdentityCall \<Rightarrow> bool" where
  "appoints T a c \<longleftrightarrow> (case c of AddUsernameAuthority l sfx n \<Rightarrow> identity_lookup T l = Some a
     | RemoveUsernameAuthority l \<Rightarrow> identity_lookup T l = Some a | _ \<Rightarrow> False)"

lemma authority_dispatch:
  assumes "identity_dispatch T origin c s = Ok s'" "\<not> appoints T a c"
  shows "if spends T a origin c
    then \<exists>p. UsernameAuthorities s a = Some p \<and> 0 < allocation p \<and> UsernameAuthorities s' a = Some (p\<lparr>allocation := saturating_sub (allocation p) 1\<rparr>)
    else UsernameAuthorities s' a = UsernameAuthorities s a"
proof (cases c)
  case (SetUsernameFor l n sg)
  with assms(1) have "set_username_for T origin l n sg s = Ok s'" by simp
  then show ?thesis by (rule set_username_for_OkE) (auto simp: SetUsernameFor spends_def split: option.splits)
qed (use assms dispatch_frame(5) [OF assms(1)] in
  \<open>auto simp: appoints_def spends_def add_username_authority_def remove_username_authority_def\<close>)

lemma suffix_dispatch:
  assumes "identity_dispatch T origin c s = Ok s'" "\<forall>a p. UsernameAuthorities s a = Some p \<longrightarrow> suffix_wf (suffix p)"
    "UsernameAuthorities s' a = Some p"
  shows "suffix_wf (suffix p)"
proof (cases "appoints T a c")
  case True
  then show ?thesis using assms(1,3)
    by (auto simp: appoints_def add_username_authority_def remove_username_authority_def validate_suffix_def suffix_wf_def
        split: IdentityCall.splits)
next
  case False
  then show ?thesis using authority_dispatch [OF assms(1) False] assms(2,3) by (auto split: if_splits)
qed

lemma names_wf_dispatch:
  assumes "identity_dispatch T origin c s = Ok s'" "names_wf (unat (MaxUsernameLength T)) s"
  shows "names_wf (unat (MaxUsernameLength T)) s'"
proof -
  have sfx: "\<forall>a p. UsernameAuthorities s a = Some p \<longrightarrow> suffix_wf (suffix p)" using assms(2) by (simp add: names_wf_def)
  note suffix' = suffix_dispatch [OF assms(1) sfx]
  have full: "username_wf (unat (MaxUsernameLength T)) (name @ 0x40 # suffix p)"
    if "UsernameAuthorities s a = Some p" "is_valid_username name" "length (name @ 0x40 # suffix p) \<le> unat (MaxUsernameLength T)" for a p name
    using that sfx by (auto simp: username_wf_def)
  from names_dispatch [OF assms(1)] show ?thesis
    by cases (use assms(2) suffix' full in \<open>auto simp: names_wf_def\<close>)
qed

definition identity_wf :: "('o, 'l, 'sig, 'c) identity_config_scheme \<Rightarrow> 'm identity_storage_scheme \<Rightarrow> bool" where
  "identity_wf T s \<longleftrightarrow> registrations_wf (unat (MaxRegistrars T)) s \<and> subs_wf (unat (MaxSubAccounts T)) s \<and>
     names_wf (unat (MaxUsernameLength T)) s"

lemma identity_step_wf:
  assumes "identity_step T s s'" "identity_wf T s"
  shows "identity_wf T s'"
  using assms(1)
proof cases
  case (identity_call origin c)
  with assms(2) show ?thesis by (simp add: identity_wf_def registrations_wf_dispatch subs_wf_dispatch names_wf_dispatch)
next
  case (identity_reaped who counts)
  then have s': "SuperOf s' = remove_supers (SubsOf s who) (SuperOf s)" "SubsOf s' = (SubsOf s)(who := [])"
    "\<And>m. reg_of m s' = (if m = who then None else reg_of m s)" "AccountOfUsername s' = AccountOfUsername s"
    "PendingUsernames s' = PendingUsernames s" "UsernameAuthorities s' = UsernameAuthorities s"
    by (auto simp: reap_identity_def reg_of_def Let_def)
  then have "subs_wf (unat (MaxSubAccounts T)) s'" using assms(2) by (auto simp: identity_wf_def intro: subs_wf_taken)
  then show ?thesis using assms(2) s' by (auto simp: identity_wf_def registrations_wf_def names_wf_def)
next
  case identity_elsewhere
  then show ?thesis using assms(2) reg_of_cong [of s' s]
    by (simp add: identity_wf_def same_identity_def registrations_wf_def names_wf_def subs_wf_def)
qed

interpretation identity_inv: invariant_system identity_genesis "identity_step T" "identity_wf T" for T
proof unfold_locales
  show "identity_wf T s" if "identity_genesis s" for s
    using that by (simp add: identity_genesis_def identity_wf_def registrations_wf_def subs_wf_def names_wf_def reg_of_def)
qed (rule identity_step_wf)

lemma map_filter_all: "\<forall>x \<in> set xs. f x \<noteq> None \<Longrightarrow> List.map_filter f xs = map (the \<circ> f) xs"
  by (induction xs) (auto simp: List.map_filter_simps)

lemma subs_complete:
  assumes "subs_wf bound s"
  shows "map fst (subs m s) = SubsOf s m"
proof -
  have sub: "\<exists>d. SuperOf s x = Some (m, d)" if "x \<in> set (SubsOf s m)" for x using that subs_wf_iff [OF assms] by simp
  then have "subs m s = map (the \<circ> (\<lambda>a. map_option (\<lambda>(super_account, data). (a, data)) (SuperOf s a))) (SubsOf s m)"
    unfolding subs_def by (intro map_filter_all) fastforce
  then show ?thesis using sub by (fastforce simp: comp_def intro!: map_idI)
qed

section \<open>Runs of calls\<close>

abbreviation identity_run ::
  "('o, 'l, 'sig, 'c) identity_config_scheme \<Rightarrow> ('o \<times> ('l, 'sig) IdentityCall) list \<Rightarrow> 'm identity_storage_scheme \<Rightarrow> 'm identity_result" where
  "identity_run T \<equiv> run_all (\<lambda>(origin, c). identity_dispatch T origin c)"

lemma identity_run_ConsE:
  assumes "identity_run T ((origin, c) # cs) s = Ok t"
  obtains u where "identity_dispatch T origin c s = Ok u" "identity_run T cs u = Ok t"
  using assms by auto

text \<open>A judgement that is not sticky comes from its registrar or from the storage before, with the same information.\<close>

lemma judgement_step:
  assumes "registration_step T origin c who r r'" "r' = Some x'" "(reg, j) \<in> set (judgements x')" "\<not> is_sticky j"
    and "\<not> (\<exists>l h. c = ProvideJudgement l j h \<and> identity_lookup T l = Some who \<and> identity_signed T origin = Some reg)"
  shows "\<exists>x. r = Some x \<and> info x = info x' \<and> (reg, j) \<in> set (judgements x)"
  using assms by cases (auto simp: put_def is_sticky_def)

lemma judgement_run:
  assumes "identity_run T cs s = Ok t" "registrations_wf (unat (MaxRegistrars T)) s"
    and "reg_of who t = Some x'" "(reg, j) \<in> set (judgements x')" "\<not> is_sticky j"
    and "\<forall>(origin, c) \<in> set cs. \<not> (\<exists>l h. c = ProvideJudgement l j h \<and> identity_lookup T l = Some who \<and> identity_signed T origin = Some reg)"
  shows "\<exists>x. reg_of who s = Some x \<and> info x = info x' \<and> (reg, j) \<in> set (judgements x)"
  using assms
proof (induction cs arbitrary: s)
  case (Cons y cs)
  obtain origin c where y: "y = (origin, c)" by (cases y)
  obtain u where u: "identity_dispatch T origin c s = Ok u" "identity_run T cs u = Ok t"
    using Cons.prems(1) unfolding y by (rule identity_run_ConsE)
  from Cons.IH [OF u(2) registrations_wf_dispatch [OF u(1) Cons.prems(2)] Cons.prems(3-5)] Cons.prems(6)
  obtain x where x: "reg_of who u = Some x" "info x = info x'" "(reg, j) \<in> set (judgements x)" by auto
  have "\<not> (\<exists>l h. c = ProvideJudgement l j h \<and> identity_lookup T l = Some who \<and> identity_signed T origin = Some reg)"
    using Cons.prems(6) by (simp add: y)
  from judgement_step [OF registration_dispatch [OF u(1) Cons.prems(2), of who] x(1,3) Cons.prems(5) this] x(2) show ?case by auto
qed auto

lemma allocation_run:
  assumes "identity_run T cs s = Ok t" "\<forall>(origin, c) \<in> set cs. \<not> appoints T a c" "UsernameAuthorities s a = Some p"
  shows "\<exists>p'. UsernameAuthorities t a = Some p' \<and> suffix p' = suffix p \<and>
    unat (allocation p') + length (filter (\<lambda>(origin, c). spends T a origin c) cs) = unat (allocation p)"
  using assms
proof (induction cs arbitrary: s p)
  case (Cons y cs)
  obtain origin c where y: "y = (origin, c)" by (cases y)
  obtain u where u: "identity_dispatch T origin c s = Ok u" "identity_run T cs u = Ok t"
    using Cons.prems(1) unfolding y by (rule identity_run_ConsE)
  have "\<not> appoints T a c" using Cons.prems(2) by (simp add: y)
  note step = authority_dispatch [OF u(1) this]
  obtain q where q: "UsernameAuthorities u a = Some q" "suffix q = suffix p"
    "unat (allocation q) + (if spends T a origin c then 1 else 0) = unat (allocation p)"
    using step Cons.prems(3) by (auto simp: unat_saturating_sub word_less_nat_alt split: if_splits)
  from Cons.IH [OF u(2) _ q(1)] Cons.prems(2) q(2,3) show ?case by (auto simp: y split: if_splits)
qed simp

section \<open>A small chain\<close>

text \<open>The origin \<open>0\<close> governs, any other is signed by its account. A signature is the account it is of.\<close>

definition sample_identity_config :: "(nat, account, account) identity_config" where
  "sample_identity_config = \<lparr>overflow_checks = True, hashing = sample_hash, encode_hash = id,
     encode_account = id, encode_ident = id, encode_vec = id, blake2b_64 = sample_hash,
     bs58_encode = halves, bs58_decode = unhalves, MaxSubAccounts = 2, MaxRegistrars = 2,
     RegistrarOrigin = (\<lambda>origin. origin = 0), UsernameAuthorityOrigin = (\<lambda>origin. origin = 0), PendingUsernameExpiration = 10,
     MaxSuffixLength = 4, MaxUsernameLength = 8, identity_signed = (\<lambda>origin. if origin = 0 then None else Some [of_nat origin]),
     identity_lookup = Some, verify_offchain = (\<lambda>sg data a. sg = a), hash_of_info = (\<lambda>i. data_encode (display i)),
     encoded_size_of_info = (\<lambda>i. length (data_encode (display i)))\<rparr>"

lemma sample_identity_config_simps [simp]:
  "MaxSubAccounts sample_identity_config = 2" "MaxRegistrars sample_identity_config = 2"
  "RegistrarOrigin sample_identity_config o' \<longleftrightarrow> o' = 0" "UsernameAuthorityOrigin sample_identity_config o' \<longleftrightarrow> o' = 0"
  "MaxSuffixLength sample_identity_config = 4" "MaxUsernameLength sample_identity_config = 8"
  "PendingUsernameExpiration sample_identity_config = 10" "identity_lookup sample_identity_config = Some"
  "identity_signed sample_identity_config o' = (if o' = 0 then None else Some [of_nat o'])"
  "verify_offchain sample_identity_config sg d a \<longleftrightarrow> sg = a" "hash_of_info sample_identity_config i = data_encode (display i)"
  by (simp_all add: sample_identity_config_def)

definition sample_identity_0 :: identity_storage where
  "sample_identity_0 = \<lparr>block_number = 1, extrinsic_index = None, IdentityOf = Map.empty, SuperOf = Map.empty, SubsOf = (\<lambda>_. []),
     Registrars = [], UsernameAuthorities = Map.empty, AccountOfUsername = Map.empty, PendingUsernames = Map.empty, identity_events = []\<rparr>"

text \<open>Account \<open>1\<close> has a name, a sub-account, a judgement of registrar \<open>3\<close>, and a username of authority \<open>4\<close> to accept.\<close>

definition sample_info :: identity_info where
  "sample_info = identity_info_default\<lparr>display := Raw [0x61]\<rparr>"

definition sample_calls :: "(nat \<times> (account, account) IdentityCall) list" where
  "sample_calls = [(0, AddRegistrar [3]), (1, SetIdentity sample_info), (1, AddSub [2] (Raw [0x62])), (1, RequestJudgement [3]),
     (3, ProvideJudgement [1] KnownGood [2, 0x61]), (0, AddUsernameAuthority [4] [0x78] 3), (4, SetUsernameFor [1] [0x61] None)]"

definition sample_identity :: identity_storage where
  "sample_identity = unwrap_or sample_identity_0 (identity_run sample_identity_config sample_calls sample_identity_0)"

lemmas sample_identity_defs = add_registrar_def set_identity_def add_sub_def request_judgement_def provide_judgement_def
  add_username_authority_def set_username_for_def accept_username_def set_subs_def queue_acceptance_def insert_username_def validate_suffix_def
  validate_username_def validate_signature_def is_valid_username_def ascii_lowercase_def ascii_digit_def is_registrar_def has_requested_def
  is_sticky_def binary_search_by_key_def binary_search_def binary_search_loop.simps vec_try_insert_def vec_set_def try_push_def
  identity_sender_def identity_account_def identity_deposit_event_def saturating_sub_def saturating_add_def Let_def

lemma sample_identity_run:
  "identity_run sample_identity_config sample_calls sample_identity_0 = Ok sample_identity"
  unfolding sample_identity_def
  by (rule is_Ok_unwrap)
    (simp add: sample_calls_def sample_identity_0_def sample_info_def sample_identity_defs cong: and_then_weak_cong)

lemma sample_identity_facts:
  "IdentityOf sample_identity = [[1] \<mapsto> (\<lparr>judgements = [([3], KnownGood)], info = sample_info\<rparr>, None)]"
  "SubsOf sample_identity = (\<lambda>_. [])([1] := [[2]])" "AccountOfUsername sample_identity = Map.empty"
  "PendingUsernames sample_identity = [[0x61, 0x40, 0x78] \<mapsto> ([1], 11)]"
  "UsernameAuthorities sample_identity = [[4] \<mapsto> \<lparr>suffix = [0x78], allocation = 2\<rparr>]"
  by (simp_all add: sample_identity_def sample_calls_def sample_identity_0_def sample_info_def sample_identity_defs cong: and_then_weak_cong)

lemma sample_identity_reachable: "reachable identity_genesis (identity_step sample_identity_config) sample_identity"
proof (rule reachable_run_all [OF _ _ sample_identity_run])
  show "reachable identity_genesis (identity_step sample_identity_config) sample_identity_0"
    by (rule reach_init) (simp add: identity_genesis_def sample_identity_0_def)
qed (auto intro: identity_call)

section \<open>Properties\<close>

text \<open>C30: in every reachable storage the judgements of an identity are sorted by registrar, one for each, and within their
  bound; an account is in the list of sub-accounts of another exactly if that is recorded as its main account, so the
  list with names has no gaps, and main accounts have an identity; a username is either held or waits for acceptance, and is a valid name, an at sign and a suffix of small letters.\<close>

theorem identity_reachable_wf:
  assumes "reachable identity_genesis (identity_step T) s"
  shows "identity_wf T s \<and> map fst (subs m s) = SubsOf s m"
  using identity_inv.inv_reachable [OF assms] subs_complete [of "unat (MaxSubAccounts T)" s m] by (simp add: identity_wf_def)

theorem identity_reachable_wf_witness:
  "map fst (subs [1] sample_identity) = [[2]] \<and> (\<exists>d. SuperOf sample_identity [2] = Some ([1], d))"
  using identity_reachable_wf [OF sample_identity_reachable, of "[1]"]
  by (auto simp: sample_identity_facts identity_wf_def subs_wf_def)

text \<open>C31: a judgement that is neither a request nor a warning is about the present information: if after any calls a
  registrar's judgement is part of an identity, and the registrar gave none of the kind in these calls, it was
  there before them and the information is the same as then.\<close>

theorem judgement_for_current_info:
  assumes "reachable identity_genesis (identity_step T) s" "identity_run T cs s = Ok s'"
    and "IdentityOf s' who = Some (r', name')" "(registrar, j) \<in> set (judgements r')" "\<not> is_sticky j"
    and "\<forall>(origin, c) \<in> set cs. \<not> (\<exists>l h. c = ProvideJudgement l j h \<and> identity_lookup T l = Some who \<and> identity_signed T origin = Some registrar)"
  shows "\<exists>r name. IdentityOf s who = Some (r, name) \<and> (registrar, j) \<in> set (judgements r) \<and> info r = info r'"
proof -
  have "registrations_wf (unat (MaxRegistrars T)) s" using identity_inv.inv_reachable [OF assms(1)] by (simp add: identity_wf_def)
  from judgement_run [OF assms(2) this _ assms(4,5,6)] assms(3) show ?thesis by (auto simp: reg_of_def)
qed

theorem judgement_for_current_info_witness:
  "\<exists>r name. IdentityOf sample_identity [1] = Some (r, name) \<and> ([3], KnownGood) \<in> set (judgements r) \<and> info r = sample_info"
proof -
  let ?cs = "[(1, AcceptUsername [0x61, 0x40, 0x78]), (2, SetIdentity identity_info_default)] :: (nat \<times> (account, account) IdentityCall) list"
  let ?run = "identity_run sample_identity_config ?cs sample_identity"
  have run: "?run = Ok (unwrap_or sample_identity ?run)"
    by (rule is_Ok_unwrap) (simp add: sample_identity_facts sample_identity_defs cong: and_then_weak_cong)
  have r: "IdentityOf (unwrap_or sample_identity ?run) [1] =
      Some (\<lparr>judgements = [([3], KnownGood)], info = sample_info\<rparr>, Some [0x61, 0x40, 0x78])"
    by (simp add: sample_identity_facts sample_identity_defs cong: and_then_weak_cong)
  show ?thesis
    using judgement_for_current_info [OF sample_identity_reachable run r, of "[3]" KnownGood] by (simp add: is_sticky_def)
qed

text \<open>C32: nobody gets a username without having agreed to it, and no username changes its holder: an account that
  holds a username after a call and did not before has either accepted, in that call, a username that
  waited for it, or signed the username for an authority, and the username was free.\<close>

theorem username_needs_consent:
  assumes "reachable identity_genesis (identity_step T) s" "identity_dispatch T origin c s = Ok s'"
    and "AccountOfUsername s' n = Some who" "AccountOfUsername s n \<noteq> Some who"
  shows "AccountOfUsername s n = None \<and>
    (c = AcceptUsername n \<and> identity_signed T origin = Some who \<and> (\<exists>e. PendingUsernames s n = Some (who, e)) \<or>
     (\<exists>l name sg a p. c = SetUsernameFor l name (Some sg) \<and> identity_signed T origin = Some a \<and> UsernameAuthorities s a = Some p \<and>
        n = name @ 0x40 # suffix p \<and>
        (verify_offchain T sg (encode_vec T n) who \<or> verify_offchain T sg (BYTES_PREFIX @ encode_vec T n @ BYTES_SUFFIX) who)))"
proof -
  have wf: "names_wf (unat (MaxUsernameLength T)) s" using identity_inv.inv_reachable [OF assms(1)] by (simp add: identity_wf_def)
  from names_dispatch [OF assms(2)] show ?thesis
    by cases (use assms(3,4) wf in \<open>auto simp: names_wf_def validate_signature_def split: if_splits\<close>)
qed

theorem username_needs_consent_witness:
  "\<exists>s'. identity_dispatch sample_identity_config 1 (AcceptUsername [0x61, 0x40, 0x78]) sample_identity = Ok s' \<and>
     AccountOfUsername s' [0x61, 0x40, 0x78] = Some [1] \<and> (\<exists>e. PendingUsernames sample_identity [0x61, 0x40, 0x78] = Some ([1], e))"
proof -
  let ?run = "identity_dispatch sample_identity_config 1 (AcceptUsername [0x61, 0x40, 0x78]) sample_identity"
  have run: "?run = Ok (unwrap_or sample_identity ?run)"
    by (rule is_Ok_unwrap) (simp add: sample_identity_facts sample_identity_defs cong: and_then_weak_cong)
  have held: "AccountOfUsername (unwrap_or sample_identity ?run) [0x61, 0x40, 0x78] = Some [1]"
    by (simp add: sample_identity_facts sample_identity_defs cong: and_then_weak_cong)
  show ?thesis
    using username_needs_consent [OF sample_identity_reachable run held] run held by (auto simp: sample_identity_facts)
qed

text \<open>C33: an authority grants no more usernames than it was allotted: along any calls none of which appoints or dismisses it,
  every username it grants or offers takes one from its allocation, and nothing else does.\<close>

theorem usernames_within_allocation:
  assumes "identity_run T cs s = Ok s'" "UsernameAuthorities s a = Some p" "\<forall>(origin, c) \<in> set cs. \<not> appoints T a c"
  shows "length (filter (\<lambda>(origin, c). spends T a origin c) cs) \<le> unat (allocation p) \<and>
    (\<exists>p'. UsernameAuthorities s' a = Some p' \<and> suffix p' = suffix p \<and>
       unat (allocation p') = unat (allocation p) - length (filter (\<lambda>(origin, c). spends T a origin c) cs))"
  using allocation_run [OF assms(1,3,2)] by auto

theorem usernames_within_allocation_witness:
  "\<exists>p'. UsernameAuthorities (unwrap_or sample_identity (identity_run sample_identity_config
     [(4, SetUsernameFor [1] [0x62] (Some [1])), (4, SetUsernameFor [2] [0x63] None)] sample_identity)) [4] = Some p' \<and> unat (allocation p') = 0"
proof -
  let ?run = "identity_run sample_identity_config [(4, SetUsernameFor [1] [0x62] (Some [1])), (4, SetUsernameFor [2] [0x63] None)] sample_identity"
  have run: "?run = Ok (unwrap_or sample_identity ?run)"
    by (rule is_Ok_unwrap) (simp add: sample_identity_facts sample_identity_defs cong: and_then_weak_cong)
  have p: "UsernameAuthorities sample_identity [4] = Some \<lparr>suffix = [0x78], allocation = 2\<rparr>" by (simp add: sample_identity_facts)
  show ?thesis using usernames_within_allocation [OF run p] by (auto simp: appoints_def spends_def)
qed

section \<open>Findings\<close>

text \<open>\<open>set_primary_username\<close> asks only that somebody holds the username. Any account with an identity can make it its
  primary username, and takes it away from its holder when the identity is cleared.\<close>

lemma foreign_username_removed:
  assumes "AccountOfUsername s n = Some holder" "IdentityOf s who = Some (r, m)" "identity_signed T origin = Some who"
  shows "\<exists>s'. identity_run T [(origin, SetPrimaryUsername n), (origin, ClearIdentity)] s = Ok s' \<and> AccountOfUsername s' n = None"
  using assms by (simp add: set_primary_username_def clear_identity_def take_identity_def identity_sender_def Let_def)

text \<open>A registrar can hand its place to an account that has one already; the check of \<open>add_registrar\<close> is not made.\<close>

lemma registrar_twice:
  assumes "identity_signed T origin = Some a" "identity_lookup T l = Some b" "Registrars s = [Some ra, Some rb]"
    "reg_account ra = a" "reg_account rb = b"
  shows "\<exists>s'. identity_dispatch T origin (SetAccountId l) s = Ok s' \<and> list_all (is_registrar b) (Registrars s')"
  using assms by (simp add: set_account_id_def identity_sender_def identity_account_def is_registrar_def)

text \<open>The characters of a username include the dot.\<close>

lemma dotted_username_valid: "is_valid_username [0x61, 0x2E, 0x62]"
  by (simp add: is_valid_username_def ascii_lowercase_def ascii_digit_def)

end
