(* ===== verification/Node_Inspect.thy ===== *)
theory Node_Inspect
  imports Frame
begin

text \<open>
  The inspection command of the node (\<^verbatim>\<open>node/inspect/src/lib.rs\<close>): addresses of blocks and extrinsics are read
  from the command line and looked up in the chain. The chain, the decoders and the parsers of hashes and
  hexadecimal digits are parameters; numbers are parsed as Rust does.

  Shown: what is found under an address, and that addresses by number are read back as they are written.
\<close>

section \<open>Addresses\<close>

datatype BlockAddress = ByHash hash | ByNumber u32 | ByBytes bytes

datatype ExtrinsicAddress = InBlock BlockAddress u64 | RawBytes bytes

datatype 'e InspectError = Codec 'e | Blockchain 'e | NotFound string

datatype address_error = NotAnAddress | IndexMissing | InvalidIndex

record ('h, 'x, 'e) chain_access =
  parse_hash :: "string \<Rightarrow> hash option"
  from_hex :: "string \<Rightarrow> bytes option"
  decode_block :: "bytes \<Rightarrow> ('h \<times> 'x list, 'e) result"
  decode_extrinsic :: "bytes \<Rightarrow> ('x, 'e) result"
  expect_block_hash_from_id :: "u32 \<Rightarrow> (hash, 'e) result"
  block_body :: "hash \<Rightarrow> ('x list option, 'e) result"
  block_header :: "hash \<Rightarrow> ('h option, 'e) result"

section \<open>Numbers\<close>

text \<open>\<^verbatim>\<open>FromStr\<close> of unsigned integers: an optional plus sign, then digits, within the range of the type.\<close>

fun parse_digits :: "nat \<Rightarrow> nat \<Rightarrow> string \<Rightarrow> nat option" where
  "parse_digits bound acc [] = Some acc"
| "parse_digits bound acc (ch # cs) =
     (let d = of_char ch in
      if 48 \<le> d \<and> d \<le> 57 \<and> acc * 10 + (d - 48) < bound then parse_digits bound (acc * 10 + (d - 48)) cs else None)"

definition parse_uint :: "nat \<Rightarrow> string \<Rightarrow> nat option" where
  "parse_uint bound s =
     (if s = [] \<or> s = ''+'' \<or> s = ''-'' then None
      else parse_digits bound 0 (if hd s = CHR ''+'' then tl s else s))"

text \<open>\<^verbatim>\<open>str::split\<close> with a set of separators: pieces may be empty, and there is always a first one.\<close>

fun split_on :: "(char \<Rightarrow> bool) \<Rightarrow> string \<Rightarrow> string list" where
  "split_on P [] = [[]]"
| "split_on P (ch # cs) =
     (if P ch then [] # split_on P cs
      else (case split_on P cs of [] \<Rightarrow> [[ch]] | piece # pieces \<Rightarrow> (ch # piece) # pieces))"

section \<open>Reading addresses\<close>

definition block_address_from_str :: "('h, 'x, 'e, 'c) chain_access_scheme \<Rightarrow> string \<Rightarrow> (BlockAddress, address_error) result" where
  "block_address_from_str A s =
     (case parse_hash A s of
        Some h \<Rightarrow> Ok (ByHash h)
      | None \<Rightarrow>
          (case parse_uint (2 ^ 32) s of
             Some n \<Rightarrow> Ok (ByNumber (of_nat n))
           | None \<Rightarrow> (case from_hex A s of Some b \<Rightarrow> Ok (ByBytes b) | None \<Rightarrow> Err NotAnAddress)))"

definition is_separator :: "char \<Rightarrow> bool" where
  "is_separator ch \<longleftrightarrow> ch = CHR ''.'' \<or> ch = CHR '':'' \<or> ch = CHR '' ''"

definition extrinsic_address_from_str :: "('h, 'x, 'e, 'c) chain_access_scheme \<Rightarrow> string \<Rightarrow> (ExtrinsicAddress, address_error) result" where
  "extrinsic_address_from_str A s =
     (case from_hex A s of
        Some b \<Rightarrow> Ok (RawBytes b)
      | None \<Rightarrow>
          (case split_on is_separator s of
             [] \<Rightarrow> Panic
           | piece # pieces \<Rightarrow>
               and_then (block_address_from_str A piece) (\<lambda>block.
               case pieces of
                 [] \<Rightarrow> Err IndexMissing
               | i # _ \<Rightarrow> and_then (ok_or (parse_uint (2 ^ 64) i) InvalidIndex) (\<lambda>n. Ok (InBlock block (of_nat n))))))"

section \<open>Looking up\<close>

definition block_of_hash ::
  "('h, 'x, 'e, 'c) chain_access_scheme \<Rightarrow> hash \<Rightarrow> ('h \<times> 'x list, 'e InspectError) result" where
  "block_of_hash A h =
     and_then (map_err Blockchain (block_body A h)) (\<lambda>body.
     and_then (ok_or body (NotFound ''Could not find block'')) (\<lambda>xs.
     and_then (map_err Blockchain (block_header A h)) (\<lambda>hd_opt.
     and_then (ok_or hd_opt (NotFound ''Could not find block'')) (\<lambda>hdr.
     Ok (hdr, xs)))))"

definition get_block :: "('h, 'x, 'e, 'c) chain_access_scheme \<Rightarrow> BlockAddress \<Rightarrow> ('h \<times> 'x list, 'e InspectError) result" where
  "get_block A input =
     (case input of
        ByBytes b \<Rightarrow> map_err Codec (decode_block A b)
      | ByNumber n \<Rightarrow> and_then (map_err Blockchain (expect_block_hash_from_id A n)) (block_of_hash A)
      | ByHash h \<Rightarrow> block_of_hash A h)"

definition inspect_extrinsic :: "('h, 'x, 'e, 'c) chain_access_scheme \<Rightarrow> ExtrinsicAddress \<Rightarrow> ('x, 'e InspectError) result" where
  "inspect_extrinsic A input =
     (case input of
        InBlock block i \<Rightarrow>
          and_then (get_block A block) (\<lambda>(hdr, xs).
          if unat i < length xs then Ok (xs ! unat i) else Err (NotFound ''Could not find extrinsic''))
      | RawBytes b \<Rightarrow> map_err Codec (decode_extrinsic A b))"

section \<open>Decimal numbers\<close>

fun decimal :: "nat \<Rightarrow> string" where
  "decimal n = (if n < 10 then [char_of (48 + n)] else decimal (n div 10) @ [char_of (48 + n mod 10)])"

declare decimal.simps [simp del]

definition is_digit :: "char \<Rightarrow> bool" where
  "is_digit ch \<longleftrightarrow> 48 \<le> (of_char ch :: nat) \<and> (of_char ch :: nat) \<le> 57"

lemma digit_code: "d < 10 \<Longrightarrow> of_char (char_of (48 + d) :: char) = (48 + d :: nat)"
  by (simp add: of_char_of)

lemma decimal_last: "n < 10 \<Longrightarrow> decimal n = [char_of (48 + n)]"
  by (subst decimal.simps) simp

lemma decimal_more: "\<not> n < 10 \<Longrightarrow> decimal n = decimal (n div 10) @ [char_of (48 + n mod 10)]"
  by (subst decimal.simps) simp

lemma decimal_digits: "list_all is_digit (decimal n) \<and> decimal n \<noteq> []"
proof (induction n rule: decimal.induct)
  case (1 n)
  then show ?case using digit_code [of n] digit_code [of "n mod 10"]
    by (cases "n < 10") (simp_all add: decimal_last decimal_more is_digit_def)
qed

lemma parse_digits_append: "parse_digits b acc (xs @ ys) = Option.bind (parse_digits b acc xs) (\<lambda>a. parse_digits b a ys)"
  by (induction xs arbitrary: acc) (auto simp: Let_def)

lemma parse_digits_decimal: "n < b \<Longrightarrow> parse_digits b 0 (decimal n) = Some n"
proof (induction n rule: decimal.induct)
  case (1 n)
  show ?case
  proof (cases "n < 10")
    case True
    then show ?thesis using 1(2) by (simp add: decimal_last Let_def digit_code)
  next
    case False
    then have "parse_digits b 0 (decimal (n div 10)) = Some (n div 10)" using 1 by simp
    then show ?thesis using False 1(2) digit_code [of "n mod 10"]
      by (simp add: decimal_more parse_digits_append Let_def)
  qed
qed

lemma decimal_no_sign: "ch \<in> set (decimal n) \<Longrightarrow> is_digit ch"
  using decimal_digits [of n] by (simp add: list_all_iff)

lemma parse_uint_decimal:
  assumes "n < b"
  shows "parse_uint b (decimal n) = Some n"
proof -
  obtain ch cs where d: "decimal n = ch # cs" using decimal_digits [of n] by (cases "decimal n") auto
  have "is_digit ch" using decimal_no_sign [of ch n] d by simp
  then have "ch \<noteq> CHR ''+''" "ch \<noteq> CHR ''-''" by (auto simp: is_digit_def)
  then show ?thesis using parse_digits_decimal [OF assms] by (simp add: parse_uint_def d)
qed

lemma split_on_none: "\<forall>ch \<in> set xs. \<not> P ch \<Longrightarrow> split_on P xs = [xs]"
  by (induction xs) auto

lemma split_on_piece: "\<forall>ch \<in> set xs. \<not> P ch \<Longrightarrow> P sep \<Longrightarrow> split_on P (xs @ sep # ys) = xs # split_on P ys"
  by (induction xs) auto

lemma digit_no_separator: "is_digit ch \<Longrightarrow> \<not> is_separator ch"
  by (auto simp: is_digit_def is_separator_def)

text \<open>An extrinsic address written as a block number, a separator and an index is read as just that, and so shows the
  extrinsic at this index of the block with this number; unless the text is also in hexadecimal digits, or
  the number is also a hash, which have precedence.\<close>

theorem extrinsic_address_roundtrip:
  assumes "is_separator sep" "from_hex A (decimal (unat n) @ sep # decimal (unat i)) = None" "parse_hash A (decimal (unat n)) = None"
  shows "extrinsic_address_from_str A (decimal (unat n) @ sep # decimal (unat i)) = Ok (InBlock (ByNumber n) i) \<and>
    (expect_block_hash_from_id A n = Ok h \<and> block_body A h = Ok (Some xs) \<and> block_header A h = Ok (Some hdr) \<and> unat i < length xs \<longrightarrow>
       inspect_extrinsic A (InBlock (ByNumber n) i) = Ok (xs ! unat i))"
proof -
  have digits: "\<forall>ch \<in> set (decimal k). \<not> is_separator ch" for k using decimal_no_sign digit_no_separator by blast
  have "split_on is_separator (decimal (unat n) @ sep # decimal (unat i)) = [decimal (unat n), decimal (unat i)]"
    using split_on_piece [of "decimal (unat n)" is_separator sep] digits assms(1) split_on_none [of _ is_separator] by simp
  moreover have "parse_uint (2 ^ 32) (decimal (unat n)) = Some (unat n)" "parse_uint (2 ^ 64) (decimal (unat i)) = Some (unat i)"
    using unat_bound [of n] unat_bound [of i] by (auto intro!: parse_uint_decimal)
  ultimately show ?thesis using assms(2,3)
    by (simp add: extrinsic_address_from_str_def block_address_from_str_def inspect_extrinsic_def get_block_def block_of_hash_def)
qed

text \<open>A chain with one block of two extrinsics.\<close>

definition sample_access :: "(nat, nat, unit) chain_access" where
  "sample_access = \<lparr>parse_hash = Map.empty, from_hex = Map.empty, decode_block = (\<lambda>_. Err ()), decode_extrinsic = (\<lambda>_. Err ()),
     expect_block_hash_from_id = (\<lambda>n. if n = 5 then Ok [5] else Err ()), block_body = (\<lambda>h. Ok (if h = [5] then Some [7, 8] else None)),
     block_header = (\<lambda>h. Ok (if h = [5] then Some 1 else None))\<rparr>"

theorem extrinsic_address_roundtrip_witness:
  "extrinsic_address_from_str sample_access ''5:1'' = Ok (InBlock (ByNumber 5) 1) \<and> inspect_extrinsic sample_access (InBlock (ByNumber 5) 1) = Ok 8"
proof -
  have printed: "decimal (unat (5 :: u32)) @ CHR '':'' # decimal (unat (1 :: u64)) = ''5:1''"
    by (simp add: decimal_last char_of_def bit_0)
  show ?thesis
    using extrinsic_address_roundtrip [of "CHR '':''" sample_access 5 1 "[5]" "[7, 8]" 1] unfolding printed
    by (simp add: is_separator_def sample_access_def)
qed

end
