(* ===== verification/Session_Key_Command.thy ===== *)
theory Session_Key_Command
  imports Chain_Bootstrap
begin

text \<open>
  The command \<^verbatim>\<open>key generate-session-keys\<close> of the node (\<^verbatim>\<open>node/cli/src/command/gen_key.rs\<close>): it derives four public
  keys from a secret, puts the secret into the keystore under the four key types, and prints the keys one by one
  and as the bytes an operator submits to the session pallet.

  The derivation of keys, the keystore on disk, the paths and the specifications are libraries and files: they are
  parameters. What was inserted before a failure stays in the keystore.

  Shown: the command succeeds if each library call does; whenever it succeeds, its output is the encoding of the session
  keys of the runtimes, and an authority whose account and Grandpa key were made from the same secret has these keys in the genesis
  of a custom chain (\<open>Chain_Bootstrap\<close>).
\<close>

section \<open>The command\<close>

datatype CryptoScheme = Scheme_Ed25519 | Scheme_Sr25519

datatype GenKeyError = Input string | KeystoreOperation

type_synonym key_type_id = string
type_synonym keystore = "(key_type_id \<times> string \<times> bytes) list"

record gen_key_env =
  read_uri :: "string option \<Rightarrow> (string, GenKeyError) result"
  config_dir :: "(string, GenKeyError) result"
  keystore_config :: "string \<Rightarrow> (string \<times> string option, GenKeyError) result"
  pair_from_suri :: "CryptoScheme \<Rightarrow> string \<Rightarrow> string option \<Rightarrow> (bytes, GenKeyError) result"
  keystore_open :: "string \<Rightarrow> string option \<Rightarrow> (unit, GenKeyError) result"
  keystore_insert :: "key_type_id \<Rightarrow> string \<Rightarrow> bytes \<Rightarrow> keystore \<Rightarrow> keystore option"

definition KEY_TYPES :: "(key_type_id \<times> CryptoScheme) list" where
  "KEY_TYPES = [(''gran'', Scheme_Ed25519), (''babe'', Scheme_Sr25519), (''imon'', Scheme_Sr25519), (''audi'', Scheme_Sr25519)]"

text \<open>The public key of a scheme, with the keystore opened for it.\<close>

definition open_keystore :: "gen_key_env \<Rightarrow> string \<Rightarrow> string \<Rightarrow> CryptoScheme \<Rightarrow> (bytes, GenKeyError) result" where
  "open_keystore E dir suri scheme =
     and_then (keystore_config E dir) (\<lambda>(path, password).
     and_then (pair_from_suri E scheme suri password) (\<lambda>public.
     and_then (keystore_open E path password) (\<lambda>_. Ok public)))"

fun insert_keys ::
  "gen_key_env \<Rightarrow> string \<Rightarrow> string \<Rightarrow> (key_type_id \<times> CryptoScheme) list \<Rightarrow> bytes \<Rightarrow> keystore
   \<Rightarrow> keystore \<times> (bytes, GenKeyError) result" where
  "insert_keys E dir suri [] public_keys ks = (ks, Ok public_keys)"
| "insert_keys E dir suri ((key_type, scheme) # types) public_keys ks =
     (case open_keystore E dir suri scheme of
        Ok public \<Rightarrow>
          (case keystore_insert E key_type suri public ks of
             Some ks' \<Rightarrow> insert_keys E dir suri types (public_keys @ public) ks'
           | None \<Rightarrow> (ks, Err KeystoreOperation))
      | Err e \<Rightarrow> (ks, Err e)
      | Panic \<Rightarrow> (ks, Panic))"

text \<open>\<^verbatim>\<open>copy_from_slice\<close> into a buffer of 32 bytes panics if the slice does not exist or has another length.\<close>

definition slice32 :: "nat \<Rightarrow> bytes \<Rightarrow> (bytes, 'e) result" where
  "slice32 from xs = (if from + 32 \<le> length xs then Ok (take 32 (drop from xs)) else Panic)"

definition rest32 :: "nat \<Rightarrow> bytes \<Rightarrow> (bytes, 'e) result" where
  "rest32 from xs = (if length xs = from + 32 then Ok (drop from xs) else Panic)"

record printed_keys =
  printed :: session_keys
  session_bytes :: bytes

definition print_keys :: "bytes \<Rightarrow> (printed_keys, GenKeyError) result" where
  "print_keys public_keys =
     and_then (slice32 0 public_keys) (\<lambda>g.
     and_then (slice32 32 public_keys) (\<lambda>b.
     and_then (slice32 64 public_keys) (\<lambda>i.
     and_then (rest32 96 public_keys) (\<lambda>a.
     Ok \<lparr>printed = \<lparr>babe = b, grandpa = g, im_online = i, authority_discovery = a\<rparr>, session_bytes = public_keys\<rparr>))))"

definition gen_session_keys_run ::
  "gen_key_env \<Rightarrow> string option \<Rightarrow> keystore \<Rightarrow> keystore \<times> (printed_keys, GenKeyError) result" where
  "gen_session_keys_run E suri_arg ks =
     (case and_then (read_uri E suri_arg) (\<lambda>suri. and_then (config_dir E) (\<lambda>dir. Ok (suri, dir))) of
        Ok (suri, dir) \<Rightarrow>
          (case insert_keys E dir suri KEY_TYPES [] ks of
             (ks', r) \<Rightarrow> (ks', and_then r print_keys))
      | Err e \<Rightarrow> (ks, Err e)
      | Panic \<Rightarrow> (ks, Panic))"

text \<open>The order of the fields of \<^verbatim>\<open>SessionKeys\<close>, the same in the three runtimes; each key is encoded as its 32 bytes.\<close>

definition encode_session_keys :: "session_keys \<Rightarrow> bytes" where
  "encode_session_keys k = grandpa k @ babe k @ im_online k @ authority_discovery k"

section \<open>What the command does\<close>

text \<open>A key that was inserted is in the keystore, and the keys of other types and other public keys stay there; inserting
  may fail. Public keys of both schemes have 32 bytes.\<close>

definition key_spec :: "gen_key_env \<Rightarrow> bool" where
  "key_spec E \<longleftrightarrow>
     (\<forall>type suri public ks ks'. keystore_insert E type suri public ks = Some ks' \<longrightarrow> (type, suri, public) \<in> set ks' \<and>
        (\<forall>type' suri' public'. (type', suri', public') \<in> set ks \<and> (type', public') \<noteq> (type, public) \<longrightarrow> (type', suri', public') \<in> set ks')) \<and>
     (\<forall>scheme suri password public. pair_from_suri E scheme suri password = Ok public \<longrightarrow> length public = 32)"

definition derived :: "gen_key_env \<Rightarrow> string option \<Rightarrow> string \<Rightarrow> bytes \<Rightarrow> bytes \<Rightarrow> bool" where
  "derived E arg suri ed sr \<longleftrightarrow> (\<exists>dir path password. read_uri E arg = Ok suri \<and> config_dir E = Ok dir \<and>
     keystore_config E dir = Ok (path, password) \<and> keystore_open E path password = Ok () \<and>
     pair_from_suri E Scheme_Ed25519 suri password = Ok ed \<and> pair_from_suri E Scheme_Sr25519 suri password = Ok sr)"

definition keys_from :: "bytes \<Rightarrow> bytes \<Rightarrow> session_keys" where
  "keys_from ed sr = \<lparr>babe = sr, grandpa = ed, im_online = sr, authority_discovery = sr\<rparr>"

definition stored :: "string \<Rightarrow> session_keys \<Rightarrow> keystore" where
  "stored suri k = [(''gran'', suri, grandpa k), (''babe'', suri, babe k), (''imon'', suri, im_online k),
     (''audi'', suri, authority_discovery k)]"

lemma open_keystore_Ok_iff:
  "open_keystore E dir suri scheme = Ok public \<longleftrightarrow>
     (\<exists>path password. keystore_config E dir = Ok (path, password) \<and> pair_from_suri E scheme suri password = Ok public \<and>
        keystore_open E path password = Ok ())"
  by (auto simp: open_keystore_def)

lemma insert_keys_Ok:
  assumes "key_spec E" "insert_keys E dir suri types acc ks = (ks', Ok out)" "distinct (map fst types)"
  shows "\<exists>publics. list_all2 (\<lambda>(_, scheme) public. open_keystore E dir suri scheme = Ok public) types publics \<and>
       out = acc @ concat publics \<and> set (map (\<lambda>((type, _), public). (type, suri, public)) (zip types publics)) \<subseteq> set ks' \<and>
       (\<forall>type suri' public. (type, suri', public) \<in> set ks \<and> type \<notin> fst ` set types \<longrightarrow> (type, suri', public) \<in> set ks')"
  using assms(2,3)
proof (induction types arbitrary: acc ks)
  case Nil
  then show ?case by auto
next
  case (Cons ty types)
  obtain kt scheme where ty: "ty = (kt, scheme)" by (cases ty)
  from Cons.prems(1) obtain public ks1 where step: "open_keystore E dir suri scheme = Ok public"
    "keystore_insert E kt suri public ks = Some ks1" "insert_keys E dir suri types (acc @ public) ks1 = (ks', Ok out)"
    by (auto simp: ty split: result.splits option.splits)
  have kept: "(type, suri', public') \<in> set ks1" if "(type, suri', public') \<in> set ks" "type \<noteq> kt" for type suri' public'
    using assms(1) step(2) that unfolding key_spec_def by blast
  have new: "(kt, suri, public) \<in> set ks1" using assms(1) step(2) unfolding key_spec_def by blast
  have "distinct (map fst types)" "kt \<notin> fst ` set types" using Cons.prems(2) by (simp_all add: ty)
  with Cons.IH [OF step(3)] obtain publics where
    "list_all2 (\<lambda>(_, scheme) public. open_keystore E dir suri scheme = Ok public) types publics" "out = (acc @ public) @ concat publics"
    "set (map (\<lambda>((type, _), public). (type, suri, public)) (zip types publics)) \<subseteq> set ks'"
    "\<forall>type suri' public. (type, suri', public) \<in> set ks1 \<and> type \<notin> fst ` set types \<longrightarrow> (type, suri', public) \<in> set ks'"
    by blast
  with step(1) new kept \<open>kt \<notin> fst ` set types\<close> show ?case
    by (intro exI [of _ "public # publics"]) (auto simp: ty)
qed

lemma print_keys_eq:
  "length g = 32 \<Longrightarrow> length b = 32 \<Longrightarrow> length i = 32 \<Longrightarrow> length a = 32 \<Longrightarrow>
   print_keys (g @ b @ i @ a) = Ok \<lparr>printed = \<lparr>babe = b, grandpa = g, im_online = i, authority_discovery = a\<rparr>,
     session_bytes = g @ b @ i @ a\<rparr>"
  by (simp add: print_keys_def slice32_def rest32_def)

lemma gen_session_keys_Ok:
  assumes "key_spec E" "gen_session_keys_run E arg ks = (ks', Ok out)"
  shows "\<exists>suri ed sr. derived E arg suri ed sr \<and> set (stored suri (keys_from ed sr)) \<subseteq> set ks' \<and>
       out = \<lparr>printed = keys_from ed sr, session_bytes = encode_session_keys (keys_from ed sr)\<rparr>"
proof -
  from assms(2) obtain suri dir all where ins: "read_uri E arg = Ok suri" "config_dir E = Ok dir"
    "insert_keys E dir suri KEY_TYPES [] ks = (ks', Ok all)" "print_keys all = Ok out"
    by (auto simp: gen_session_keys_run_def split: result.splits prod.splits)
  have "distinct (map fst KEY_TYPES)" by (simp add: KEY_TYPES_def)
  from insert_keys_Ok [OF assms(1) ins(3) this] obtain publics where run:
    "list_all2 (\<lambda>(_, scheme) public. open_keystore E dir suri scheme = Ok public) KEY_TYPES publics"
    "set (map (\<lambda>((type, _), public). (type, suri, public)) (zip KEY_TYPES publics)) \<subseteq> set ks'" "all = concat publics"
    by auto
  from run(1) obtain g b where g: "open_keystore E dir suri Scheme_Ed25519 = Ok g" "open_keystore E dir suri Scheme_Sr25519 = Ok b"
    "publics = [g, b, b, b]"
    by (auto simp: KEY_TYPES_def list_all2_Cons1)
  then have "derived E arg suri g b" using ins(1,2) by (auto simp: derived_def open_keystore_Ok_iff)
  moreover have "length g = 32" "length b = 32" using g assms(1) by (auto simp: key_spec_def open_keystore_Ok_iff)
  ultimately show ?thesis
    using run(2,3) ins(4) g(3)
    by (intro exI [of _ suri] exI [of _ g] exI [of _ b])
      (simp add: KEY_TYPES_def print_keys_eq stored_def keys_from_def encode_session_keys_def)
qed

lemma gen_session_keys_succeeds:
  assumes "key_spec E" "derived E arg suri ed sr" "\<And>type public ks. keystore_insert E type suri public ks \<noteq> None"
  shows "\<exists>ks' out. gen_session_keys_run E arg ks = (ks', Ok out)"
proof -
  have "length ed = 32" "length sr = 32" using assms(1,2) by (auto simp: key_spec_def derived_def)
  then have "\<exists>out. print_keys (ed @ sr @ sr @ sr) = Ok out" by (simp add: print_keys_eq)
  moreover have "\<exists>ks'. keystore_insert E type suri public ks = Some ks'" for type public ks using assms(3) by auto
  moreover obtain dir where "read_uri E arg = Ok suri" "config_dir E = Ok dir" "open_keystore E dir suri Scheme_Ed25519 = Ok ed"
    "open_keystore E dir suri Scheme_Sr25519 = Ok sr"
    using assms(2) by (auto simp: derived_def open_keystore_Ok_iff)
  ultimately show ?thesis
    by (auto simp: gen_session_keys_run_def KEY_TYPES_def split: option.splits) (metis option.distinct(1))+
qed

lemma genesis_session_keys:
  assumes "bootstrap_run B c = Ok spec" "i < length (authorities c)"
    and "hex_array B (authorities c ! i ! 1) = Some sr" "hex_array B (authorities c ! i ! 2) = Some ed"
  shows "i < length (session_key_list (spec_genesis spec)) \<and>
    (\<exists>account. hex_account B (authorities c ! i ! 1) = Some account \<and>
       session_key_list (spec_genesis spec) ! i = (account, account, keys_from ed sr))"
proof -
  obtain chain ms ns au root where g: "spec_genesis spec = custom_genesis_for chain ms ns au root"
    "list_all2 (authority_row B) (authorities c) au"
    using assms(1) by (rule bootstrapped_genesis)
  then have "authority_row B (authorities c ! i) (au ! i)" "i < length au"
    using assms(2) by (auto dest: list_all2_nthD list_all2_lengthD)
  then show ?thesis
    using assms(3,4) by (auto simp: g(1) custom_genesis_for_def genesis_for_def Let_def authority_row_def session_keys_of_def keys_from_def)
qed

text \<open>C38: an operator who makes session keys from a secret gets what the genesis of a custom chain expects. If the command succeeds, and the
  chain was set up with a row of an authority that carries the two public keys of the secret, then the genesis of the chain
  gives to the account of this row the session keys that were printed, the printed bytes are their encoding in the order of the runtimes,
  and the keystore of the node holds the secret of every one of them under its key type.\<close>

theorem generated_keys_are_genesis_keys:
  assumes "key_spec E" "gen_session_keys_run E arg ks = (ks', Ok out)" "derived E arg suri ed sr"
    and "bootstrap_run B c = Ok spec" "i < length (authorities c)"
    and "hex_array B (authorities c ! i ! 1) = Some sr" "hex_array B (authorities c ! i ! 2) = Some ed"
  shows "\<exists>account. hex_account B (authorities c ! i ! 1) = Some account \<and> i < length (session_key_list (spec_genesis spec)) \<and>
     session_key_list (spec_genesis spec) ! i = (account, account, printed out) \<and>
     session_bytes out = encode_session_keys (printed out) \<and> length (session_bytes out) = 128 \<and>
     set (stored suri (printed out)) \<subseteq> set ks'"
proof -
  obtain suri' ed' sr' where out: "derived E arg suri' ed' sr'" "set (stored suri' (keys_from ed' sr')) \<subseteq> set ks'"
    "out = \<lparr>printed = keys_from ed' sr', session_bytes = encode_session_keys (keys_from ed' sr')\<rparr>"
    using gen_session_keys_Ok [OF assms(1,2)] by blast
  have same: "suri' = suri" "ed' = ed" "sr' = sr" using out(1) assms(3) by (auto simp: derived_def)
  have "length ed = 32" "length sr = 32" using assms(1,3) by (auto simp: key_spec_def derived_def)
  then show ?thesis
    using genesis_session_keys [OF assms(4-7)] out(2,3) same by (auto simp: encode_session_keys_def keys_from_def)
qed

text \<open>Sample: a secret whose keys are its bytes, padded.\<close>

definition sample_gen_key_env :: gen_key_env where
  "sample_gen_key_env = \<lparr>read_uri = (\<lambda>arg. case arg of Some s \<Rightarrow> Ok s | None \<Rightarrow> Err (Input ''no uri'')), config_dir = Ok ''/cord'',
     keystore_config = (\<lambda>dir. Ok (dir, None)), pair_from_suri = (\<lambda>scheme suri _. Ok (replicate 32 (if scheme = Scheme_Ed25519 then 1 else 2))),
     keystore_open = (\<lambda>_ _. Ok ()), keystore_insert = (\<lambda>type suri public ks. Some (ks @ [(type, suri, public)]))\<rparr>"

definition sample_key_settings :: "bytes \<Rightarrow> bytes \<Rightarrow> bootstrap_env" where
  "sample_key_settings ed sr = sample_bootstrap_env\<lparr>hex_array := \<lambda>s. Some (if s = ''B'' then ed else sr)\<rparr>"

theorem generated_keys_are_genesis_keys_witness:
  "\<exists>out ks' spec. gen_session_keys_run sample_gen_key_env (Some ''s'') [] = (ks', Ok out) \<and>
     bootstrap_run (sample_key_settings (replicate 32 1) (replicate 32 2)) sample_settings = Ok spec \<and>
     session_key_list (spec_genesis spec) ! 0 = (bytes_of ''A'', bytes_of ''A'', printed out) \<and> length (session_bytes out) = 128"
proof -
  let ?ed = "replicate 32 1 :: bytes" and ?sr = "replicate 32 2 :: bytes"
  let ?B = "sample_key_settings ?ed ?sr"
  have spec: "key_spec sample_gen_key_env" by (auto simp: key_spec_def sample_gen_key_env_def)
  have d: "derived sample_gen_key_env (Some ''s'') ''s'' ?ed ?sr" by (simp add: derived_def sample_gen_key_env_def)
  obtain ks' out where run: "gen_session_keys_run sample_gen_key_env (Some ''s'') [] = (ks', Ok out)"
    using gen_session_keys_succeeds [OF spec d, of "[]"] by (auto simp: sample_gen_key_env_def [THEN arg_cong [of _ _ keystore_insert]])
  have "is_Ok (bootstrap_run ?B sample_settings)"
    by (simp add: bootstrap_run_def sample_key_settings_def sample_settings_def sample_bootstrap_env_def to_lowercase_def lower_char_def char_of_def bit_0
        columns_def index_def custom_config_defs build_spec_def node_of_row_def authority_of_row_def or_panic_def Let_def)
  then obtain s where s: "bootstrap_run ?B sample_settings = Ok s" by (cases "bootstrap_run ?B sample_settings") auto
  have row: "0 < length (authorities sample_settings)" "hex_array ?B (authorities sample_settings ! 0 ! 1) = Some ?sr"
    "hex_array ?B (authorities sample_settings ! 0 ! 2) = Some ?ed" "hex_account ?B (authorities sample_settings ! 0 ! 1) = Some (bytes_of ''A'')"
    by (simp_all add: sample_key_settings_def sample_settings_def sample_bootstrap_env_def)
  from generated_keys_are_genesis_keys [OF spec run d s row(1-3)] run s row(4) show ?thesis by auto
qed

end
