(* ===== verification/Deposit_Utilities.thy ===== *)
theory Deposit_Utilities
  imports Did_Pallet Chain_Spec
begin

text \<open>
  The utilities (\<^verbatim>\<open>utilities/src/deposit.rs\<close>, \<^verbatim>\<open>utilities/src/traits.rs\<close>, \<^verbatim>\<open>utilities/src/signature.rs\<close>): deposits for stored
  items, the two ways to change one, the sources of a call, and the verification of signatures in tests.

  The trait \<^verbatim>\<open>StorageDepositCollector\<close> is the record \<open>deposit_collector\<close>: its required methods and the currency it is used with are
  parameters, its provided methods are definitions. \<open>currency_spec\<close> states what the documentation of \<^verbatim>\<open>ReservableCurrency\<close>
  promises of \<^verbatim>\<open>reserve\<close> and \<^verbatim>\<open>unreserve\<close>: a reservation may fail, and does so for lack of free funds; one that succeeds moves its
  amount; and as much is freed as was reserved, where nothing is said of an account whose remaining reserve is
  below the existential deposit, which may be reaped. \<open>store_spec\<close> states that what was stored is found; storing may fail.

  Shown: a change of a deposit that succeeds moves exactly its amount between the balances concerned and creates and destroys no
  funds, and it succeeds only if the owner it ends with can pay.
\<close>

section \<open>Deposits\<close>

record deposit_info =
  deposit_owner :: account
  amount :: u128

record ('k, 's, 'e) deposit_collector =
  debug_assertions :: bool
  free_balance :: "'s \<Rightarrow> account \<Rightarrow> nat"
  reserved_balance :: "'s \<Rightarrow> account \<Rightarrow> nat"
  reserve :: "account \<Rightarrow> u128 \<Rightarrow> 's \<Rightarrow> ('s, 'e) result"
  unreserve :: "account \<Rightarrow> u128 \<Rightarrow> 's \<Rightarrow> 's \<times> nat"
  stored_deposit :: "'k \<Rightarrow> 's \<Rightarrow> (deposit_info, 'e) result"
  deposit_amount :: "'k \<Rightarrow> 's \<Rightarrow> u128"
  store_deposit :: "'k \<Rightarrow> deposit_info \<Rightarrow> 's \<Rightarrow> ('s, 'e) result"

definition reserve_deposit ::
  "('k, 's, 'e) deposit_collector \<Rightarrow> account \<Rightarrow> u128 \<Rightarrow> 's \<Rightarrow> ('s \<times> deposit_info, 'e) result" where
  "reserve_deposit T account value s =
     and_then (reserve T account value s) (\<lambda>s1.
     Ok (s1, \<lparr>deposit_owner = account, amount = value\<rparr>))"

text \<open>The assertion that everything could be freed is checked in debug builds only.\<close>

definition free_deposit :: "('k, 's, 'e) deposit_collector \<Rightarrow> deposit_info \<Rightarrow> 's \<Rightarrow> ('s, 'e) result" where
  "free_deposit T d s =
     (let (s1, err_amount) = unreserve T (deposit_owner d) (amount d) s
      in if debug_assertions T \<and> err_amount \<noteq> 0 then Panic else Ok s1)"

definition change_deposit_owner :: "('k, 's, 'e) deposit_collector \<Rightarrow> 'k \<Rightarrow> account \<Rightarrow> 's \<Rightarrow> ('s, 'e) result" where
  "change_deposit_owner T key new_owner s =
     and_then (stored_deposit T key s) (\<lambda>d.
     and_then (free_deposit T d s) (\<lambda>s1.
     let d1 = d\<lparr>deposit_owner := new_owner\<rparr> in
     and_then (reserve T (deposit_owner d1) (amount d1) s1) (\<lambda>s2.
     store_deposit T key d1 s2)))"

definition update_deposit :: "('k, 's, 'e) deposit_collector \<Rightarrow> 'k \<Rightarrow> 's \<Rightarrow> ('s, 'e) result" where
  "update_deposit T key s =
     and_then (stored_deposit T key s) (\<lambda>d.
     and_then (free_deposit T d s) (\<lambda>s1.
     let d1 = d\<lparr>amount := deposit_amount T key s1\<rparr> in
     and_then (reserve T (deposit_owner d1) (amount d1) s1) (\<lambda>s2.
     store_deposit T key d1 s2)))"

section \<open>Signatures and sources of calls\<close>

text \<open>The errors are those the verifier of the did pallet reports.\<close>

definition AlwaysVerify :: "'a \<Rightarrow> 'p \<Rightarrow> 's \<Rightarrow> (unit, SignatureVerificationError) result" where
  "AlwaysVerify delegate payload sig = Ok ()"

definition EqualVerify :: "'a \<Rightarrow> 'p \<Rightarrow> 'a \<times> 'p \<Rightarrow> (unit, SignatureVerificationError) result" where
  "EqualVerify delegate payload sig = (if (delegate, payload) = (fst sig, snd sig) then Ok () else Err SignatureInvalid)"

definition source_sender :: "'s \<times> 'p \<Rightarrow> 's" where "source_sender source = fst source"

definition source_subject :: "'s \<times> 'p \<Rightarrow> 'p" where "source_subject source = snd source"

section \<open>What the parameters promise\<close>

definition currency_spec :: "nat \<Rightarrow> ('k, 's, 'e) deposit_collector \<Rightarrow> bool" where
  "currency_spec existential T \<longleftrightarrow>
     (\<forall>a n s s'. reserve T a n s = Ok s' \<longrightarrow> unat n \<le> free_balance T s a \<and>
        free_balance T s' = (free_balance T s)(a := free_balance T s a - unat n) \<and>
        reserved_balance T s' = (reserved_balance T s)(a := reserved_balance T s a + unat n)) \<and>
     (\<forall>a n s s' rest. unreserve T a n s = (s', rest) \<and> unat n + existential \<le> reserved_balance T s a \<longrightarrow> rest = 0 \<and>
        free_balance T s' = (free_balance T s)(a := free_balance T s a + unat n) \<and>
        reserved_balance T s' = (reserved_balance T s)(a := reserved_balance T s a - unat n))"

definition store_spec :: "('k, 's, 'e) deposit_collector \<Rightarrow> bool" where
  "store_spec T \<longleftrightarrow>
     (\<forall>key d s s'. store_deposit T key d s = Ok s' \<longrightarrow> stored_deposit T key s' = Ok d \<and>
        free_balance T s' = free_balance T s \<and> reserved_balance T s' = reserved_balance T s)"

section \<open>Moving a deposit\<close>

text \<open>The balances after the deposit of \<open>owner\<close> is freed and another one of \<open>new\<close> is reserved.\<close>

definition moved :: "account \<Rightarrow> nat \<Rightarrow> account \<Rightarrow> nat \<Rightarrow> (account \<Rightarrow> nat) \<Rightarrow> account \<Rightarrow> nat" where
  "moved owner n new m bal = (\<lambda>a. (bal(owner := bal owner + n)) a - (if a = new then m else 0))"

lemma free_deposit_backed:
  assumes "currency_spec existential T" "unat (amount d) + existential \<le> reserved_balance T s (deposit_owner d)"
  shows "\<exists>s1. free_deposit T d s = Ok s1 \<and>
    free_balance T s1 = (free_balance T s)(deposit_owner d := free_balance T s (deposit_owner d) + unat (amount d)) \<and>
    reserved_balance T s1 = (reserved_balance T s)(deposit_owner d := reserved_balance T s (deposit_owner d) - unat (amount d))"
proof -
  obtain s1 rest where u: "unreserve T (deposit_owner d) (amount d) s = (s1, rest)" by fastforce
  with assms have "rest = 0 \<and>
    free_balance T s1 = (free_balance T s)(deposit_owner d := free_balance T s (deposit_owner d) + unat (amount d)) \<and>
    reserved_balance T s1 = (reserved_balance T s)(deposit_owner d := reserved_balance T s (deposit_owner d) - unat (amount d))"
    unfolding currency_spec_def by blast
  then show ?thesis by (simp add: free_deposit_def u)
qed

text \<open>Both provided methods free the deposit, reserve a new one and store it.\<close>

lemma deposit_replaced:
  assumes "currency_spec existential T" "store_spec T" "unat (amount d) + existential \<le> reserved_balance T s (deposit_owner d)"
    and "\<And>s1. free_deposit T d s = Ok s1 \<Longrightarrow> run = and_then (reserve T (deposit_owner d1) (amount d1) s1) (store_deposit T key d1)"
    and "run = Ok s'"
  shows "unat (amount d1) \<le> free_balance T s (deposit_owner d1) + (if deposit_owner d1 = deposit_owner d then unat (amount d) else 0) \<and>
      stored_deposit T key s' = Ok d1 \<and>
      free_balance T s' = moved (deposit_owner d) (unat (amount d)) (deposit_owner d1) (unat (amount d1)) (free_balance T s) \<and>
      (\<forall>a. free_balance T s' a + reserved_balance T s' a = free_balance T s a + reserved_balance T s a)"
proof -
  obtain s1 where s1: "free_deposit T d s = Ok s1"
    "free_balance T s1 = (free_balance T s)(deposit_owner d := free_balance T s (deposit_owner d) + unat (amount d))"
    "reserved_balance T s1 = (reserved_balance T s)(deposit_owner d := reserved_balance T s (deposit_owner d) - unat (amount d))"
    using free_deposit_backed [OF assms(1,3)] by blast
  obtain s2 where s2: "reserve T (deposit_owner d1) (amount d1) s1 = Ok s2" "store_deposit T key d1 s2 = Ok s'"
    using assms(4) [OF s1(1)] assms(5) by auto
  have "stored_deposit T key s' = Ok d1 \<and> free_balance T s' = free_balance T s2 \<and> reserved_balance T s' = reserved_balance T s2"
    using assms(2) s2(2) unfolding store_spec_def by blast
  moreover have "unat (amount d1) \<le> free_balance T s1 (deposit_owner d1) \<and>
      free_balance T s2 = (free_balance T s1)(deposit_owner d1 := free_balance T s1 (deposit_owner d1) - unat (amount d1)) \<and>
      reserved_balance T s2 = (reserved_balance T s1)(deposit_owner d1 := reserved_balance T s1 (deposit_owner d1) + unat (amount d1))"
    using assms(1) s2(1) unfolding currency_spec_def by blast
  ultimately show ?thesis using s1(2,3) assms(3) by (auto simp: moved_def fun_eq_iff)
qed

text \<open>Handing a deposit over to another account, if the reserve of its owner covers it and the existential deposit, succeeds only if the new owner can pay for
  it (for the old owner itself the freed deposit counts). Then the new deposit is stored, the old owner gets its amount back, the
  new one pays the same amount, and no account gains or loses funds.\<close>

theorem deposit_handed_over:
  assumes "currency_spec existential T" "store_spec T" "stored_deposit T key s = Ok d"
    and "unat (amount d) + existential \<le> reserved_balance T s (deposit_owner d)" "change_deposit_owner T key new s = Ok s'"
  shows "unat (amount d) \<le> free_balance T s new + (if new = deposit_owner d then unat (amount d) else 0) \<and>
     stored_deposit T key s' = Ok (d\<lparr>deposit_owner := new\<rparr>) \<and>
     free_balance T s' = moved (deposit_owner d) (unat (amount d)) new (unat (amount d)) (free_balance T s) \<and>
     (\<forall>a. free_balance T s' a + reserved_balance T s' a = free_balance T s a + reserved_balance T s a)"
proof -
  have "change_deposit_owner T key new s =
      and_then (reserve T new (amount d) s1) (store_deposit T key (d\<lparr>deposit_owner := new\<rparr>))"
    if "free_deposit T d s = Ok s1" for s1
    using assms(3) that by (simp add: change_deposit_owner_def)
  then show ?thesis
    using deposit_replaced [OF assms(1,2,4) _ assms(5), of "d\<lparr>deposit_owner := new\<rparr>" key, simplified] by blast
qed

lemma deposit_updated:
  assumes "currency_spec existential T" "store_spec T" "stored_deposit T key s = Ok d"
    and "unat (amount d) + existential \<le> reserved_balance T s (deposit_owner d)" "\<And>s'. deposit_amount T key s' = n"
    and "update_deposit T key s = Ok s'"
  shows "unat n \<le> free_balance T s (deposit_owner d) + unat (amount d) \<and> stored_deposit T key s' = Ok (d\<lparr>amount := n\<rparr>) \<and>
     (\<forall>a. free_balance T s' a + reserved_balance T s' a = free_balance T s a + reserved_balance T s a)"
proof -
  have "update_deposit T key s = and_then (reserve T (deposit_owner d) n s1) (store_deposit T key (d\<lparr>amount := n\<rparr>))"
    if "free_deposit T d s = Ok s1" for s1
    using assms(3,5) that by (simp add: update_deposit_def)
  then show ?thesis
    using deposit_replaced [OF assms(1,2,4) _ assms(6), of "d\<lparr>amount := n\<rparr>" key, simplified] by blast
qed

text \<open>A signature of the test scheme is valid exactly for the signer and the payload it consists of.\<close>

lemma EqualVerify_iff: "EqualVerify delegate payload sig = Ok () \<longleftrightarrow> sig = (delegate, payload)"
  by (cases sig) (auto simp: EqualVerify_def)

section \<open>A ledger\<close>

record sample_ledger =
  ledger_free :: "account \<Rightarrow> nat"
  ledger_reserved :: "account \<Rightarrow> nat"
  ledger_deposit :: "deposit_info option"

definition sample_collector :: "(unit, sample_ledger, unit) deposit_collector" where
  "sample_collector = \<lparr>debug_assertions = True, free_balance = ledger_free, reserved_balance = ledger_reserved,
     reserve = (\<lambda>a n s. if unat n \<le> ledger_free s a
       then Ok (s\<lparr>ledger_free := (ledger_free s)(a := ledger_free s a - unat n),
                  ledger_reserved := (ledger_reserved s)(a := ledger_reserved s a + unat n)\<rparr>) else Err ()),
     unreserve = (\<lambda>a n s. (s\<lparr>ledger_free := (ledger_free s)(a := ledger_free s a + min (unat n) (ledger_reserved s a)),
                  ledger_reserved := (ledger_reserved s)(a := ledger_reserved s a - unat n)\<rparr>, unat n - ledger_reserved s a)),
     stored_deposit = (\<lambda>_ s. ok_or (ledger_deposit s) ()), deposit_amount = (\<lambda>_ _. 3),
     store_deposit = (\<lambda>_ d s. Ok (s\<lparr>ledger_deposit := Some d\<rparr>))\<rparr>"

theorem deposit_handed_over_witness:
  "\<exists>s'. change_deposit_owner sample_collector () [2] \<lparr>ledger_free = (\<lambda>_. 10), ledger_reserved = (\<lambda>_. 7),
     ledger_deposit = Some \<lparr>deposit_owner = [1], amount = 5\<rparr>\<rparr> = Ok s' \<and> ledger_free s' [1] = 15 \<and> ledger_free s' [2] = 5"
proof -
  let ?s = "\<lparr>ledger_free = (\<lambda>_. 10), ledger_reserved = (\<lambda>_. 7), ledger_deposit = Some \<lparr>deposit_owner = [1], amount = 5\<rparr>\<rparr>"
  have spec: "currency_spec 2 sample_collector" "store_spec sample_collector"
    by (auto simp: currency_spec_def store_spec_def sample_collector_def split: if_splits)
  have d: "stored_deposit sample_collector () ?s = Ok \<lparr>deposit_owner = [1], amount = 5\<rparr>"
    "unat (amount \<lparr>deposit_owner = [1], amount = 5\<rparr>) + 2 \<le> reserved_balance sample_collector ?s (deposit_owner \<lparr>deposit_owner = [1], amount = 5\<rparr>)"
    "free_balance sample_collector = ledger_free"
    by (simp_all add: sample_collector_def)
  obtain s' where run: "change_deposit_owner sample_collector () [2] ?s = Ok s'"
    by (simp add: change_deposit_owner_def free_deposit_def sample_collector_def)
  from deposit_handed_over [OF spec d(1,2) this] run show ?thesis by (auto simp: d(3) moved_def)
qed

end
