(* ===== verification/Benchmark_Extrinsics.thy ===== *)
theory Benchmark_Extrinsics
  imports Runtime_Properties
begin

text \<open>
  The extrinsics of the benchmark subcommands (\<^verbatim>\<open>node/cli/src/benchmarking.rs\<close>, the \<^verbatim>\<open>Benchmark\<close> case of \<^verbatim>\<open>run\<close> in
  \<^verbatim>\<open>node/cli/src/command.rs\<close>): the builders of a remark and of a transfer, and their signing for each runtime. The key pairs
  of \<^verbatim>\<open>Sr25519Keyring\<close>, eras and the encoding of the payload belong to libraries and are parameters; so are the features
  the node is compiled with and the best hash of its client.
\<close>

section \<open>Runtime versions\<close>

text \<open>\<^verbatim>\<open>VERSION\<close> without the list of interfaces, which the framework makes.\<close>

record RuntimeVersion =
  version_spec_name :: string
  version_impl_name :: string
  authoring_version :: u32
  spec_version :: u32
  impl_version :: u32
  transaction_version :: u32
  state_version :: u8

definition braid_VERSION :: RuntimeVersion where
  "braid_VERSION = \<lparr>version_spec_name = ''braid'', version_impl_name = ''dhiway-cord'', authoring_version = 0,
     spec_version = 9400, impl_version = 0, transaction_version = 2, state_version = 1\<rparr>"

definition loom_VERSION :: RuntimeVersion where
  "loom_VERSION = \<lparr>version_spec_name = ''loom'', version_impl_name = ''dhiway-cord'', authoring_version = 0,
     spec_version = 9400, impl_version = 0, transaction_version = 2, state_version = 1\<rparr>"

definition weave_VERSION :: RuntimeVersion where
  "weave_VERSION = \<lparr>version_spec_name = ''weave'', version_impl_name = ''dhiway-cord'', authoring_version = 0,
     spec_version = 9400, impl_version = 0, transaction_version = 2, state_version = 1\<rparr>"

definition braid_EXISTENTIAL_DEPOSIT :: u128 where "braid_EXISTENTIAL_DEPOSIT = 100 * MILLI_UNITS"
definition loom_EXISTENTIAL_DEPOSIT :: u128 where "loom_EXISTENTIAL_DEPOSIT = 100 * MILLI_UNITS"
definition weave_EXISTENTIAL_DEPOSIT :: u128 where "weave_EXISTENTIAL_DEPOSIT = 100 * UNITS"

section \<open>Signing\<close>

datatype BenchmarkCall = System_remark bytes | Balances_transfer_keep_alive account u128

datatype AdditionalSigned = NoData | VersionData u32 | HashData hash

record ('era, 'pair, 'sig) benchmark_env =
  native :: "Chain \<Rightarrow> bool"
  best_hash :: hash
  keyring_pair :: "string \<Rightarrow> 'pair"
  pair_account :: "'pair \<Rightarrow> account"
  pair_sign :: "'pair \<Rightarrow> bytes \<Rightarrow> 'sig"
  era_mortal :: "u64 \<Rightarrow> u64 \<Rightarrow> 'era"
  using_encoded :: "BenchmarkCall \<Rightarrow> 'era Extension list \<Rightarrow> AdditionalSigned list \<Rightarrow> bytes"

type_synonym ('sig, 'era) extrinsic = "BenchmarkCall \<times> account \<times> 'sig \<times> 'era Extension list"

definition new_signed ::
  "('era, 'pair, 'sig) benchmark_env \<Rightarrow> BenchmarkCall \<Rightarrow> 'pair \<Rightarrow> 'era Extension list \<Rightarrow> AdditionalSigned list \<Rightarrow> ('sig, 'era) extrinsic" where
  "new_signed E call acc extra signed_data =
     (call, pair_account E acc, pair_sign E acc (using_encoded E call extra signed_data), extra)"

definition braid_sign_call ::
  "('era, 'pair, 'sig) benchmark_env \<Rightarrow> BenchmarkCall \<Rightarrow> u32 \<Rightarrow> u64 \<Rightarrow> u64 \<Rightarrow> hash \<Rightarrow> 'pair \<Rightarrow> ('sig, 'era) extrinsic" where
  "braid_sign_call E call nonce current_block period genesis acc =
     new_signed E call acc
       [CheckNetworkMembership, CheckNonZeroSender, CheckSpecVersion, CheckTxVersion, CheckGenesis,
        CheckMortality (era_mortal E period current_block), CheckNonce nonce, CheckWeight, ChargeTransactionPayment 0]
       [NoData, NoData, VersionData (spec_version braid_VERSION), VersionData (transaction_version braid_VERSION),
        HashData genesis, HashData genesis, NoData, NoData, NoData]"

definition loom_sign_call ::
  "('era, 'pair, 'sig) benchmark_env \<Rightarrow> BenchmarkCall \<Rightarrow> u32 \<Rightarrow> u64 \<Rightarrow> u64 \<Rightarrow> hash \<Rightarrow> 'pair \<Rightarrow> ('sig, 'era) extrinsic" where
  "loom_sign_call E call nonce current_block period genesis acc =
     new_signed E call acc
       [CheckNetworkMembership, CheckNonZeroSender, CheckSpecVersion, CheckTxVersion, CheckGenesis,
        CheckMortality (era_mortal E period current_block), CheckNonce nonce, CheckWeight, ChargeTransactionPayment 0]
       [NoData, NoData, VersionData (spec_version loom_VERSION), VersionData (transaction_version loom_VERSION),
        HashData genesis, HashData genesis, NoData, NoData, NoData]"

definition weave_sign_call ::
  "('era, 'pair, 'sig) benchmark_env \<Rightarrow> BenchmarkCall \<Rightarrow> u32 \<Rightarrow> u64 \<Rightarrow> u64 \<Rightarrow> hash \<Rightarrow> 'pair \<Rightarrow> ('sig, 'era) extrinsic" where
  "weave_sign_call E call nonce current_block period genesis acc =
     new_signed E call acc
       [CheckNonZeroSender, CheckSpecVersion, CheckTxVersion, CheckGenesis,
        CheckMortality (era_mortal E period current_block), CheckNonce nonce, CheckWeight, ChargeTransactionPayment 0]
       [NoData, VersionData (spec_version weave_VERSION), VersionData (transaction_version weave_VERSION),
        HashData genesis, HashData genesis, NoData, NoData, NoData]"

section \<open>The builders\<close>

text \<open>The macro that picks the runtime. The code it is given makes the call from the existential deposit of that runtime.\<close>

definition sign_for_chain ::
  "('era, 'pair, 'sig) benchmark_env \<Rightarrow> Chain \<Rightarrow> u32 \<Rightarrow> u64 \<Rightarrow> u64 \<Rightarrow> hash \<Rightarrow> 'pair \<Rightarrow> (u128 \<Rightarrow> BenchmarkCall)
   \<Rightarrow> (('sig, 'era) extrinsic, string) result" where
  "sign_for_chain E chain nonce current_block period genesis signer generic_code =
     (case chain of
        Braid \<Rightarrow> if native E Braid
          then Ok (braid_sign_call E (generic_code braid_EXISTENTIAL_DEPOSIT) nonce current_block period genesis signer)
          else Err ''`braid-native` feature not enabled''
      | Loom \<Rightarrow> if native E Loom
          then Ok (loom_sign_call E (generic_code loom_EXISTENTIAL_DEPOSIT) nonce current_block period genesis signer)
          else Err ''`loom-native` feature not enabled''
      | Weave \<Rightarrow> if native E Weave
          then Ok (weave_sign_call E (generic_code weave_EXISTENTIAL_DEPOSIT) nonce current_block period genesis signer)
          else Err ''`weave-native` feature not enabled''
      | Chain.Unknown \<Rightarrow> Err ''Unknown chain'')"

definition remark_build ::
  "('era, 'pair, 'sig) benchmark_env \<Rightarrow> Chain \<Rightarrow> u32 \<Rightarrow> (('sig, 'era) extrinsic, string) result" where
  "remark_build E chain nonce =
     (let period = 128; genesis = best_hash E; signer = keyring_pair E ''Bob''; current_block = 0
      in sign_for_chain E chain nonce current_block period genesis signer (\<lambda>_. System_remark []))"

definition transfer_keep_alive_build ::
  "('era, 'pair, 'sig) benchmark_env \<Rightarrow> account \<Rightarrow> Chain \<Rightarrow> u32 \<Rightarrow> (('sig, 'era) extrinsic, string) result" where
  "transfer_keep_alive_build E dest chain nonce =
     (let signer = keyring_pair E ''Bob''; period = 128; genesis = best_hash E; current_block = 0
      in sign_for_chain E chain nonce current_block period genesis signer (\<lambda>deposit. Balances_transfer_keep_alive dest deposit))"

text \<open>A builder with the names of its pallet and call, as the subcommand registers them for the chain of a specification.\<close>

record 'b extrinsic_builder =
  pallet :: string
  extrinsic :: string
  build :: 'b

definition RemarkBuilder ::
  "('era, 'pair, 'sig) benchmark_env \<Rightarrow> Chain \<Rightarrow> (u32 \<Rightarrow> (('sig, 'era) extrinsic, string) result) extrinsic_builder" where
  "RemarkBuilder E chain = \<lparr>pallet = ''system'', extrinsic = ''remark'', build = remark_build E chain\<rparr>"

definition TransferKeepAliveBuilder ::
  "('era, 'pair, 'sig) benchmark_env \<Rightarrow> account \<Rightarrow> Chain \<Rightarrow> (u32 \<Rightarrow> (('sig, 'era) extrinsic, string) result) extrinsic_builder" where
  "TransferKeepAliveBuilder E dest chain =
     \<lparr>pallet = ''balances'', extrinsic = ''transfer_keep_alive'', build = transfer_keep_alive_build E dest chain\<rparr>"

definition extrinsic_factory ::
  "('era, 'pair, 'sig) benchmark_env \<Rightarrow> chain_spec \<Rightarrow> (u32 \<Rightarrow> (('sig, 'era) extrinsic, string) result) extrinsic_builder list" where
  "extrinsic_factory E spec =
     [RemarkBuilder E (identify_chain spec),
      TransferKeepAliveBuilder E (pair_account E (keyring_pair E ''Alice'')) (identify_chain spec)]"

section \<open>What the runtime checks\<close>

text \<open>\<^verbatim>\<open>additional_signed\<close> of the membership check adds nothing; \<open>other\<close> stands for that of the extensions of the framework,
  and \<open>system_additional\<close> states what these are documented to add, where \<open>era_hash\<close> gives the hash of the block in which an era begins.\<close>

definition additional_signed :: "('era Extension \<Rightarrow> AdditionalSigned) \<Rightarrow> 'era Extension \<Rightarrow> AdditionalSigned" where
  "additional_signed other e = (if e = CheckNetworkMembership then NoData else other e)"

definition system_additional ::
  "RuntimeVersion \<Rightarrow> hash \<Rightarrow> ('era \<Rightarrow> hash) \<Rightarrow> ('era Extension \<Rightarrow> AdditionalSigned) \<Rightarrow> bool" where
  "system_additional V genesis era_hash other \<longleftrightarrow>
     other CheckNonZeroSender = NoData \<and> other CheckSpecVersion = VersionData (spec_version V) \<and>
     other CheckTxVersion = VersionData (transaction_version V) \<and> other CheckGenesis = HashData genesis \<and>
     (\<forall>era. other (CheckMortality era) = HashData (era_hash era)) \<and> (\<forall>nonce. other (CheckNonce nonce) = NoData) \<and>
     other CheckWeight = NoData \<and> (\<forall>tip. other (ChargeTransactionPayment tip) = NoData)"

definition VERSION :: "Chain \<Rightarrow> RuntimeVersion option" where
  "VERSION = for_chain (Some braid_VERSION) (Some loom_VERSION) (Some weave_VERSION) None"

definition signature_accepted ::
  "('era, 'pair, 'sig) benchmark_env \<Rightarrow> ('sig \<Rightarrow> bytes \<Rightarrow> account \<Rightarrow> bool) \<Rightarrow> ('era Extension \<Rightarrow> AdditionalSigned)
   \<Rightarrow> ('sig, 'era) extrinsic \<Rightarrow> bool" where
  "signature_accepted E verify other xt \<longleftrightarrow>
     (case xt of (call, who, signature, extra) \<Rightarrow>
        verify signature (using_encoded E call extra (map (additional_signed other) extra)) who)"

lemmas sign_call_defs = braid_sign_call_def loom_sign_call_def weave_sign_call_def new_signed_def

lemmas builder_defs = extrinsic_factory_def RemarkBuilder_def TransferKeepAliveBuilder_def remark_build_def
  transfer_keep_alive_build_def sign_for_chain_def

lemma signed_extensions:
  "snd (snd (snd (braid_sign_call E call nonce b p g acc))) = SignedExtra Braid (era_mortal E p b) nonce 0"
  "snd (snd (snd (loom_sign_call E call nonce b p g acc))) = SignedExtra Loom (era_mortal E p b) nonce 0"
  "snd (snd (snd (weave_sign_call E call nonce b p g acc))) = SignedExtra Weave (era_mortal E p b) nonce 0"
  by (simp_all add: sign_call_defs SignedExtra_def for_chain_def braid_SignedExtra_def loom_SignedExtra_def weave_SignedExtra_def)

text \<open>The data each function signs is what its own runtime adds, as long as the hash it is given is that of the genesis block.\<close>

definition signed_data :: "Chain \<Rightarrow> hash \<Rightarrow> AdditionalSigned list" where
  "signed_data chain genesis =
     (if chain = Weave then [] else [NoData]) @
     [NoData, VersionData 9400, VersionData 2, HashData genesis, HashData genesis, NoData, NoData, NoData]"

lemma version_numbers [simp]:
  "spec_version braid_VERSION = 9400" "transaction_version braid_VERSION = 2" "spec_version loom_VERSION = 9400"
  "transaction_version loom_VERSION = 2" "spec_version weave_VERSION = 9400" "transaction_version weave_VERSION = 2"
  by (simp_all add: braid_VERSION_def loom_VERSION_def weave_VERSION_def)

lemma VERSION_known: "VERSION chain = Some V \<Longrightarrow> chain \<in> {Braid, Loom, Weave}"
  by (cases chain) (simp_all add: VERSION_def for_chain_def)

lemma runtime_adds:
  assumes "VERSION chain = Some V" "system_additional V genesis era_hash other"
  shows "map (additional_signed other) (SignedExtra chain era nonce tip) = signed_data chain genesis \<longleftrightarrow> era_hash era = genesis"
  using assms VERSION_known [of chain V]
  by (auto simp: SignedExtra_def for_chain_def braid_SignedExtra_def loom_SignedExtra_def weave_SignedExtra_def
      additional_signed_def system_additional_def VERSION_def signed_data_def)

lemma sign_for_chain_Ok:
  assumes "chain \<in> {Braid, Loom, Weave}" "native E chain"
  shows "\<exists>deposit. sign_for_chain E chain nonce b p g acc code =
     Ok (new_signed E (code deposit) acc (SignedExtra chain (era_mortal E p b) nonce 0) (signed_data chain g))"
  using assms
  by (auto simp: sign_for_chain_def sign_call_defs SignedExtra_def for_chain_def braid_SignedExtra_def loom_SignedExtra_def
      weave_SignedExtra_def signed_data_def)

lemma built_extrinsic:
  assumes "B \<in> set (extrinsic_factory E spec)" "identify_chain spec \<in> {Braid, Loom, Weave}" "native E (identify_chain spec)"
  shows "\<exists>call. build B nonce = Ok (new_signed E call (keyring_pair E ''Bob'')
     (SignedExtra (identify_chain spec) (era_mortal E 128 0) nonce 0) (signed_data (identify_chain spec) (best_hash E)))"
proof -
  note signs = sign_for_chain_Ok [OF assms(2,3), of nonce 0 128 "best_hash E" "keyring_pair E ''Bob''"]
  from assms(1) consider "build B = remark_build E (identify_chain spec)"
    | "build B = transfer_keep_alive_build E (pair_account E (keyring_pair E ''Alice'')) (identify_chain spec)"
    by (auto simp: extrinsic_factory_def RemarkBuilder_def TransferKeepAliveBuilder_def)
  then show ?thesis
    by cases (use signs in \<open>fastforce simp: remark_build_def transfer_keep_alive_build_def\<close>)+
qed

text \<open>Every extrinsic the subcommand builds for one of the three networks carries the extensions of the runtime of this network, and the
  runtime accepts its signature, if the client is at its genesis block, in which the era then begins.\<close>

theorem benchmark_extrinsics_valid:
  assumes "B \<in> set (extrinsic_factory E spec)" "identify_chain spec = chain" "VERSION chain = Some V" "native E chain"
    and "\<And>pair m. verify (pair_sign E pair m) m (pair_account E pair)"
    and "system_additional V (best_hash E) era_hash other" "era_hash (era_mortal E 128 0) = best_hash E"
  shows "\<exists>call signature. build B nonce = Ok (call, pair_account E (keyring_pair E ''Bob''), signature,
       SignedExtra chain (era_mortal E 128 0) nonce 0) \<and>
     signature_accepted E verify other (call, pair_account E (keyring_pair E ''Bob''), signature,
       SignedExtra chain (era_mortal E 128 0) nonce 0)"
  using built_extrinsic [of B E spec nonce] runtime_adds [OF assms(3,6), of "era_mortal E 128 0" nonce 0] VERSION_known [OF assms(3)] assms
  by (auto simp: new_signed_def signature_accepted_def)

lemma unknown_chain_builds_nothing:
  assumes "B \<in> set (extrinsic_factory E spec)" "identify_chain spec = Chain.Unknown"
  shows "build B nonce = Err ''Unknown chain''"
  using assms by (auto simp: builder_defs)

section \<open>On the test networks\<close>

text \<open>The signer is a first member of every test network, so that the runtime admits its extrinsics if the framework does.\<close>

lemma test_network_members:
  assumes "load_spec E ident = Ok spec" "network_of E ident = Some chain"
  obtains ms where "member_accounts E = Ok ms" "members (spec_genesis spec) = members_map ms"
proof -
  have "\<exists>ms. member_accounts E = Ok ms \<and> members (spec_genesis spec) = members_map ms"
    if "spec_of \<in> {braid_local_config E, braid_development_config E, loom_local_config E, loom_development_config E,
         weave_local_config E, weave_development_config E}" "spec_of = Ok spec" for spec_of
    using that
    by (auto simp: network_config_defs build_spec_def config_genesis_def braid_local_genesis_def loom_local_genesis_def
        weave_local_genesis_def genesis_for_def Let_def)
  moreover have "load_spec E ident \<in> {braid_local_config E, braid_development_config E, loom_local_config E, loom_development_config E,
         weave_local_config E, weave_development_config E}"
    using assms(2) by (auto simp: network_of_def load_spec_def network_names_def Let_def split: if_splits)
  ultimately show thesis using assms(1) that by blast
qed

theorem benchmark_extrinsics_admitted:
  assumes "load_spec N ident = Ok spec" "network_of N ident = Some chain" "native E chain"
    and "get_account_id_from_seed N ''Bob'' = Ok (pair_account E (keyring_pair E ''Bob''))"
    and "membership_genesis s0" "B \<in> set (extrinsic_factory E spec)"
  shows "\<exists>s call who signature extra. membership_genesis_build T (members (spec_genesis spec)) s0 = Ok s \<and>
     build B nonce = Ok (call, who, signature, extra) \<and>
     (admitted accepts who s extra \<longleftrightarrow> (\<forall>e \<in> set (weave_SignedExtra (era_mortal E 128 0) nonce 0). accepts e))"
proof -
  let ?who = "pair_account E (keyring_pair E ''Bob'')"
  have chain: "identify_chain spec = chain" "chain \<in> {Braid, Loom, Weave}"
    using loaded_consistent [OF assms(1,2)] assms(2)
    by (auto simp: consistent_spec_def network_of_def network_names_def Let_def split: if_splits dest!: map_of_SomeD)
  obtain ms where ms: "member_accounts N = Ok ms" "members (spec_genesis spec) = members_map ms"
    using assms(1,2) by (rule test_network_members)
  then have "?who \<in> set ms" using assms(4) by (auto simp: member_accounts_def)
  moreover obtain s where s: "membership_genesis_build T (members_map ms) s0 = Ok s"
    "Members s = (\<lambda>a. if a \<in> set ms then Some \<lparr>expire_on = 0\<rparr> else Members s0 a)"
    unfolding members_map_def using genesis_members [of T "sort (remdups ms)" s0] by auto
  ultimately have "is_member ?who s" by (simp add: is_member_def)
  moreover obtain call where "build B nonce = Ok (new_signed E call (keyring_pair E ''Bob'')
      (SignedExtra chain (era_mortal E 128 0) nonce 0) (signed_data chain (best_hash E)))"
    using built_extrinsic [OF assms(6), of nonce] chain assms(3) by auto
  ultimately show ?thesis
    using s(1) ms(2) admitted_by_runtime [OF chain(2), of accepts ?who s] by (auto simp: new_signed_def)
qed

text \<open>The development networks endow their single authority only: the signer of the benchmarks, if it is another account, starts without funds.\<close>

theorem development_signer_without_funds:
  assumes "load_spec E (start_id cmd) = Ok spec" "cmd \<in> {RunBraid, RunLoom, RunWeave}"
    and "get_account_id_from_seed E ''Bob'' = Ok bob" "get_account_id_from_seed E ''Alice'' = Ok alice" "alice \<noteq> bob"
  shows "bob \<notin> fst ` set (balances (spec_genesis spec)) \<and> bob \<in> fst ` set (members (spec_genesis spec))"
  using assms
  by (auto simp: load_spec_def Let_def network_config_defs build_spec_def config_genesis_def braid_local_genesis_def
      loom_local_genesis_def weave_local_genesis_def genesis_for_def get_authority_keys_def member_accounts_def members_map_def)

end
