(* ===== verification/Spec2Isabelle.thy ===== *)
theory Spec2Isabelle
  imports Chain_Space_Properties Statement_Removal Asset_Properties Network_Score_Properties Schema
    Registries_Properties Network_Membership Runtime_Properties Node_Authorization Authorities_Properties Offences
    Identity_Properties Council_Properties Network_Config Node_Inspect Session_Key_Command Deposit_Utilities
    Benchmark_Extrinsics
begin

text \<open>
  \<^bold>\<open>CORD: a verification library for the chain's pallets\<close>

  CORD is a Substrate chain. Its own logic is in the pallets under \<^verbatim>\<open>src/pallets\<close>, in the primitives
  they share under \<^verbatim>\<open>src/primitives\<close>, and in the authorities pallet under \<^verbatim>\<open>src/runtimes/common\<close>. A
  pallet has a storage, extrinsics (calls with an origin), hooks, and functions other pallets call.

  \<^bold>\<open>The parts and how they interact\<close>

  \<^item> \<^emph>\<open>identifier\<close> makes the typed SS58 identifiers of all stored objects and keeps a bounded timeline
    of activities for each of them.
  \<^item> \<^emph>\<open>chain-space\<close> keeps spaces with a capacity for transactions, their delegates, and the
    authorizations of delegates. \<^emph>\<open>statement\<close>, \<^emph>\<open>asset\<close>, \<^emph>\<open>network-score\<close> and \<^emph>\<open>schema\<close> store their objects
    inside spaces: every call of theirs is authorized by, and counted in, a space.
    \<^emph>\<open>schema-accounts\<close> stores schemas for plain accounts.
  \<^item> \<^emph>\<open>registries\<close> keeps registries with delegates and authorizations of their own; \<^emph>\<open>entries\<close> stores
    the entries of registries and asks \<^emph>\<open>registries\<close> for the authority of a caller.
  \<^item> \<^emph>\<open>did\<close> keeps the documents of identities, with their keys and service endpoints, and makes calls in
    the name of an identity; the \<^emph>\<open>runtimes\<close> say which key a call needs. \<^emph>\<open>did-name\<close> gives readable names
    to identities, and the runtimes answer queries over both pallets.
  \<^item> \<^emph>\<open>identity\<close> keeps information about plain accounts, with the judgements of registrars, sub-accounts,
    and usernames that authorities grant.
  \<^item> \<^emph>\<open>network-membership\<close> keeps the accounts that may send transactions; \<^emph>\<open>authorities\<close> takes its
    validators from them and hands them to the session pallet; \<^emph>\<open>offences\<close> collects reports and passes
    the offenders to \<^emph>\<open>authorities\<close>. \<^emph>\<open>membership\<close> keeps the members of a collective such as the council, who
    have to be members of the network, and their prime. \<^emph>\<open>node-authorization\<close> keeps the well-known network nodes.

  \<^item> The \<^emph>\<open>node\<close> makes the specification a chain starts from, for test networks or from the settings of the user; its
    genesis data are what the genesis builds of the pallets get. \<^emph>\<open>config\<close> stores whether the network is
    permissioned, which \<^emph>\<open>chain-space\<close> asks when a space is created; \<^emph>\<open>runtime-upgrade\<close> forwards an upgrade.
  \<^item> The \<^emph>\<open>runtimes\<close> Braid, Loom and Weave put the pallets together: they choose who governs, the bounds, and the checks a
    transaction goes through; the node runs the one that belongs to the specification. \<^emph>\<open>utilities\<close> has the traits for the
    sources of calls and for deposits.

  \<^bold>\<open>How the code is modelled\<close>

  \<^item> A storage item is a field of a record; the storage of a pallet extends the record of the pallets it
    relies on, so that a call of one pallet into another is a call of the model's function on the same
    state. Maps are functions to \<open>option\<close>, value queries with a default are total functions.
  \<^item> A \<^verbatim>\<open>Config\<close> trait is a record of parameters, and extends in the same way. What is not part of
    the repository (hash functions, SCALE encodings, base 58, origins, the clock, \<^verbatim>\<open>pallet_session\<close>) is a
    field of such a record. The laws the properties rely on are hypotheses by name (\<open>bs58_spec\<close> and the
    like), and concrete instances (\<open>sample_\<dots>\<close>) show that they can hold.
  \<^item> An extrinsic is a function from the state to a \<open>result\<close>: \<open>Ok\<close> with the new state, \<open>Err\<close> with the
    error of the code, or \<open>Panic\<close>. A failed extrinsic has no state, because FRAME rolls its writes back.
  \<^item> Integers keep their width. The plain operators wrap or panic, depending on \<open>overflow_checks\<close>,
    which differs between the build profiles; saturating and checked operations are separate.
  \<^item> Loops are recursive functions on lists; all functions are total, so no fuel is needed. A
    \<^verbatim>\<open>BoundedVec\<close> is a list with the bound of the configuration.
  \<^item> The calls of a pallet form a datatype with a dispatch function, its runs a step relation.
    Invariants are proved through the locale \<open>invariant_system\<close>, interpreted for every pallet.
  \<^item> A \<^verbatim>\<open>Config\<close> implementation of a runtime is a function on the config record of the pallet (\<open>Runtime_Config\<close>): it sets what the
    runtime sets and leaves the library functions, so that every property of a pallet holds for it.
  \<^item> Not modelled anywhere: weights, the charging of fees, benchmarks, storage versions, logging.

  \<^bold>\<open>The theories\<close>

  \<^item> \<open>Prelude\<close>: results, machine integers, bounded vectors, transition systems. \<open>Frame\<close>: what the
    pallets use of FRAME, and sample parameters.
  \<^item> \<open>Identifier\<close> (\<^verbatim>\<open>primitives/identifier/src\<close>): prefixes and identifiers round trip, with the exception of two
    types that \<^verbatim>\<open>from_u16\<close> exchanges; the timeline keeps its first entry and its bound.
  \<^item> \<open>Authority\<close>: the interface \<open>space_authority\<close> that pallets with objects in spaces rely on.
  \<^item> \<open>Chain_Space\<close> (\<^verbatim>\<open>pallets/chain-space/src\<close>): the model. \<open>Chain_Space_Authority\<close> interprets the interface.
    \<open>Chain_Space_Invariants\<close>: the invariants and what each call changes. \<open>Chain_Space_Properties\<close>:
    exact authorization, metering of the capacity, the reserve as a sum, a refinement of the
    life of a space, and the gaps found.
  \<^item> \<open>Space_Client\<close>: what clients of spaces share. \<open>Statement\<close>, \<open>Statement_Lemmas\<close>, \<open>Statement_Properties\<close>
    (\<^verbatim>\<open>pallets/statement/src\<close>): exact registration, isolation of spaces, batches against single
    registrations, removal, no orphans. \<open>Statement_Removal\<close>: removing a large statement by repeated calls terminates, with the
    exact number of calls.
  \<^item> \<open>Asset\<close>, \<open>Asset_Properties\<close> (\<^verbatim>\<open>pallets/asset/src\<close>): assets are not issued beyond their quantity, unless it is
    the largest number, at which the addition saturates; transfers.
  \<^item> \<open>Network_Score\<close>, \<open>Network_Score_Properties\<close> (\<^verbatim>\<open>pallets/network-score/src\<close>): aggregates against the ledger
    of credits and debits, up to the largest number, at which they saturate.
  \<^item> \<open>Schema\<close> (\<^verbatim>\<open>pallets/schema/src\<close>, \<^verbatim>\<open>pallets/schema-accounts/src\<close>): schemas are addressed by their content.
  \<^item> \<open>Registries\<close>, \<open>Entries\<close>, \<open>Registries_Properties\<close> (\<^verbatim>\<open>pallets/registries/src\<close>, \<^verbatim>\<open>pallets/entries/src\<close>): the life of a
    registry as an abstract machine, and the isolation of entries.
  \<^item> \<open>Network_Membership\<close> (\<^verbatim>\<open>pallets/network-membership/src\<close>): memberships end at their block; those without
    expiry never do.
  \<^item> \<open>Did_Name\<close> (\<^verbatim>\<open>pallets/did-name/src\<close>): the parser against a grammar, the bijection of owners and names, bans.
  \<^item> \<open>Did_Details\<close>, \<open>Did_Pallet\<close>, \<open>Did_Properties\<close> (\<^verbatim>\<open>pallets/did/src\<close>): documents store exactly the keys in use,
    signed operations are exactly characterised and cannot be replayed, deleted identities stay deleted,
    and identities can always be used by the holder of their key.
  \<^item> \<open>Runtime_Calls\<close> (\<^verbatim>\<open>runtimes/braid/src/lib.rs\<close> and its siblings): the keys batches of calls need, the
    comparison of origins, the agreement of the DID queries. \<open>Runtime_Config\<close> (\<^verbatim>\<open>runtimes/*/src/lib.rs\<close>,
    \<^verbatim>\<open>runtimes/*/constants/src/lib.rs\<close>, \<^verbatim>\<open>runtimes/common/src/lib.rs\<close>): governing origins, the configuration of the pallets, the extensions of
    transactions, deposits and fees. \<open>Runtime_Properties\<close>: calls reserved for governance are refused from everybody else, and the comparison of
    origins respects this; what identities cannot reach; only members send transactions exactly on permissioned networks; the
    constants meet the conditions of the pallets' properties.
  \<^item> \<open>Node_Authorization\<close> (\<^verbatim>\<open>pallets/node-authorization/src\<close>): nodes under the control of their owners.
  \<^item> \<open>Authorities\<close>, \<open>Authorities_Properties\<close> (\<^verbatim>\<open>runtimes/common/authorities/src\<close>): admission of authorities and
    the validators of a new session.
  \<^item> \<open>Offences\<close> (\<^verbatim>\<open>pallets/offences/src\<close>): reports, and the interface \<open>offence_handler\<close> to the authorities.

  \<^item> \<open>Sorted_Search\<close>: binary search in sorted vectors, with the laws clients rely on as the locale
    \<open>sorted_search\<close>, interpreted for the search of Rust's standard library.
  \<^item> \<open>Council_Membership\<close>, \<open>Council_Properties\<close> (\<^verbatim>\<open>pallets/membership/src\<close>): the members are sorted and what the
    collective was told, who gets in, and that dismissed members are out.
  \<^item> \<open>Identity_Info\<close>, \<open>Identity_Pallet\<close>, \<open>Identity_Properties\<close> (\<^verbatim>\<open>pallets/identity/src\<close>): the encoding of values is exact;
    sub-accounts and main accounts agree, judgements are about the present information, and usernames
    need the consent of their holder and stay within the allocation of their authority.
  \<^item> \<open>Chain_Spec\<close> (\<^verbatim>\<open>node/cli/src/chain_spec.rs\<close>, \<^verbatim>\<open>command.rs\<close>, \<^verbatim>\<open>service.rs\<close>): the specifications of the test networks, found by name, are
    consistent. \<open>Chain_Bootstrap\<close> (\<^verbatim>\<open>chain_spec/bootstrap.rs\<close>, \<^verbatim>\<open>command/chain_setup.rs\<close>): which settings make a custom chain, and the
    members and council it starts with. \<open>Network_Config\<close> (\<^verbatim>\<open>pallets/config/src\<close>, \<^verbatim>\<open>pallets/runtime-upgrade/src\<close>): from the settings
    to the approval of spaces. \<open>Node_Inspect\<close> (\<^verbatim>\<open>node/inspect/src\<close>): addresses of blocks and extrinsics and what they show.
    \<open>Node_Start\<close> (\<^verbatim>\<open>command.rs\<close>, \<^verbatim>\<open>service.rs\<close>): the runtime and address format a node starts with. \<open>Session_Key_Command\<close>
    (\<^verbatim>\<open>command/gen_key.rs\<close>): generated session keys are those of the genesis of a custom chain. \<open>Benchmark_Extrinsics\<close> (\<^verbatim>\<open>benchmarking.rs\<close>): the extrinsics of the
    benchmark subcommands have the extensions and the signed data of the runtime of the chain, and come from a member of the test networks.
  \<^item> \<open>Deposit_Utilities\<close> (\<^verbatim>\<open>utilities/src\<close>): a deposit that is moved moves its amount and no other funds.

  \<^bold>\<open>Not modelled\<close>

  Of the runtimes: the configuration of pallets of FRAME (balances, scheduler, treasury, contracts and others), whose code is not
  part of the repository; the list of pallets; and the runtime interfaces, each of which forwards to one function of FRAME or of a
  modelled pallet. \<^verbatim>\<open>derive_verification_key_relationship\<close> and the DID queries have the same text in the three runtimes and are modelled once.
  Of the node under \<^verbatim>\<open>src/node\<close>: networking, consensus and RPC services and the remaining subcommands, which start code of the Substrate
  libraries. The test utilities, mocks and the benchmarks of pallets support the tests of the repository, and the weights are generated.
\<close>

end
